(* ===== verification/Prelude.thy ===== *)
theory Prelude
  imports Complex_Main "HOL-Library.AList" "HOL-Library.Sublist" "HOL-Library.List_Lexorder"
    "HOL-Library.Char_ord"
begin

text \<open>
  Shared vocabulary of the development: Python values as they travel through the
  program's untyped dictionaries, the string and dictionary operations the source uses
  on them, numbers, and the generic lemmas every component proof reuses.

  \<^item> A Python value is a \<open>pv\<close>. A \<open>dict\<close> is an association list in insertion order with
    the update discipline of CPython (an existing key keeps its place).
  \<^item> A \<open>str\<close> is a list of characters; a character is a code point below 256, and the
    case and white-space tables below are those of that range.
  \<^item> A \<open>float\<close> is the rational it denotes. Rounding of intermediate results by the
    hardware, NaN and the infinities are not modelled.
\<close>

named_theorems py_simps \<open>unfolding rules for the Python library operations\<close>
named_theorems unit_bounds \<open>values that stay in the closed unit interval\<close>
named_theorems scan_simps \<open>equations of the recursive payload scanners\<close>

section \<open>Python values\<close>

datatype pv =
    PNone
  | PBool bool
  | PInt int
  | PFloat rat
  | PStr string
  | PList "pv list"
  | PDict "(string \<times> pv) list"

type_synonym dict = "(string \<times> pv) list"

text \<open>Truth value testing, as \<open>if x:\<close> and \<open>x or y\<close> use it.\<close>

fun truthy :: "pv \<Rightarrow> bool" where
  "truthy PNone = False"
| "truthy (PBool b) = b"
| "truthy (PInt i) = (i \<noteq> 0)"
| "truthy (PFloat q) = (q \<noteq> 0)"
| "truthy (PStr s) = (s \<noteq> [])"
| "truthy (PList xs) = (xs \<noteq> [])"
| "truthy (PDict kvs) = (kvs \<noteq> [])"

definition py_or :: "pv \<Rightarrow> pv \<Rightarrow> pv" where
  "py_or a b = (if truthy a then a else b)"

fun is_dict :: "pv \<Rightarrow> bool" where
  "is_dict (PDict _) = True"
| "is_dict _ = False"

fun is_list :: "pv \<Rightarrow> bool" where
  "is_list (PList _) = True"
| "is_list _ = False"

fun is_str :: "pv \<Rightarrow> bool" where
  "is_str (PStr _) = True"
| "is_str _ = False"

section \<open>Dictionaries\<close>

text \<open>\<open>d.get(k)\<close>, \<open>k in d\<close>, \<open>d[k] = v\<close>, \<open>d.setdefault(k, v)\<close>, \<open>d.pop(k, None)\<close>.\<close>

definition dget :: "dict \<Rightarrow> string \<Rightarrow> pv" where
  "dget d k = (case map_of d k of None \<Rightarrow> PNone | Some v \<Rightarrow> v)"

definition dget_default :: "dict \<Rightarrow> string \<Rightarrow> pv \<Rightarrow> pv" where
  "dget_default d k v0 = (case map_of d k of None \<Rightarrow> v0 | Some v \<Rightarrow> v)"

definition dhas :: "(string \<times> 'v) list \<Rightarrow> string \<Rightarrow> bool" where
  "dhas d k = (map_of d k \<noteq> None)"

abbreviation dset :: "string \<Rightarrow> 'v \<Rightarrow> (string \<times> 'v) list \<Rightarrow> (string \<times> 'v) list" where
  "dset \<equiv> AList.update"

definition dsetdefault :: "string \<Rightarrow> 'v \<Rightarrow> (string \<times> 'v) list \<Rightarrow> (string \<times> 'v) list" where
  "dsetdefault k v d = (if dhas d k then d else d @ [(k, v)])"

abbreviation dpop :: "string \<Rightarrow> (string \<times> 'v) list \<Rightarrow> (string \<times> 'v) list" where
  "dpop \<equiv> AList.delete"

text \<open>\<open>d.update(e)\<close> inserts the items of \<open>e\<close> in their order.\<close>

fun dupdate :: "(string \<times> 'v) list \<Rightarrow> (string \<times> 'v) list \<Rightarrow> (string \<times> 'v) list" where
  "dupdate d [] = d"
| "dupdate d ((k, v) # e) = dupdate (dset k v d) e"

lemma map_of_dset [simp]: "map_of (dset k v d) k' = (if k' = k then Some v else map_of d k')"
  by (simp add: update_conv')

lemma map_of_dsetdefault [simp]:
  "map_of (dsetdefault k v d) k' =
     (if k' = k then (case map_of d k of None \<Rightarrow> Some v | Some w \<Rightarrow> Some w) else map_of d k')"
  by (auto simp: dsetdefault_def dhas_def map_add_def split: option.splits)

lemma dhas_iff: "dhas d k \<longleftrightarrow> k \<in> fst ` set d"
  by (simp add: dhas_def map_of_eq_None_iff)

lemma dhas_dset [simp]: "dhas (dset k v d) k' \<longleftrightarrow> k' = k \<or> dhas d k'"
  by (auto simp: dhas_def)

lemma dhas_dsetdefault [simp]: "dhas (dsetdefault k v d) k' \<longleftrightarrow> k' = k \<or> dhas d k'"
  by (auto simp: dhas_def split: option.splits)

lemma dget_dset [simp]: "dget (dset k v d) k' = (if k' = k then v else dget d k')"
  by (simp add: dget_def)

lemma dget_dsetdefault:
  "dget (dsetdefault k v d) k' = (if k' = k \<and> \<not> dhas d k then v else dget d k')"
  by (auto simp: dget_def dhas_def split: option.splits)

lemma distinct_dset: "distinct (map fst d) \<Longrightarrow> distinct (map fst (dset k v d))"
  by (rule distinct_update)

lemma distinct_dsetdefault:
  "distinct (map fst d) \<Longrightarrow> distinct (map fst (dsetdefault k v d))"
  by (auto simp: dsetdefault_def dhas_iff)

lemma distinct_dupdate: "distinct (map fst d) \<Longrightarrow> distinct (map fst (dupdate d e))"
  by (induction d e rule: dupdate.induct) (auto simp: distinct_dset)

lemma dset_present: "map_of d k = Some w \<Longrightarrow> map fst (dset k v d) = map fst d"
  by (induction d) (auto split: if_splits)

lemma dset_absent: "map_of d k = None \<Longrightarrow> dset k v d = d @ [(k, v)]"
  by (induction d) (auto split: if_splits)

lemma set_dset_subset: "set (dset k v d) \<subseteq> insert (k, v) (set d)"
  by (induction d) auto

section \<open>Strings\<close>

text \<open>\<open>str.isspace\<close> on code points below 256, \<open>strip\<close>, \<open>rstrip\<close>, \<open>lower\<close>, \<open>upper\<close> (on ASCII).\<close>

definition space_codes :: "int list" where
  "space_codes = [9, 10, 11, 12, 13, 28, 29, 30, 31, 32, 133, 160]"

definition is_space :: "char \<Rightarrow> bool" where
  "is_space c = (of_char c \<in> set space_codes)"

definition lstrip :: "string \<Rightarrow> string" where
  "lstrip s = dropWhile is_space s"

definition rstrip :: "string \<Rightarrow> string" where
  "rstrip s = rev (dropWhile is_space (rev s))"

definition strip :: "string \<Rightarrow> string" where
  "strip s = rstrip (lstrip s)"

definition lower_char :: "char \<Rightarrow> char" where
  "lower_char c = (let n = (of_char c :: int) in
     if (65 \<le> n \<and> n \<le> 90) \<or> (192 \<le> n \<and> n \<le> 222 \<and> n \<noteq> 215) then char_of (n + 32) else c)"

definition lower :: "string \<Rightarrow> string" where
  "lower s = map lower_char s"

definition upper_char :: "char \<Rightarrow> char" where
  "upper_char c = (let n = (of_char c :: int) in
     if 97 \<le> n \<and> n \<le> 122 then char_of (n - 32) else c)"

definition upper :: "string \<Rightarrow> string" where
  "upper s = map upper_char s"

definition replace_char :: "char \<Rightarrow> char \<Rightarrow> string \<Rightarrow> string" where
  "replace_char a b s = map (\<lambda>c. if c = a then b else c) s"

text \<open>\<open>f in s\<close> on strings, \<open>sep.join(xs)\<close>, \<open>str(n)\<close> for a count.\<close>

fun starts_with :: "string \<Rightarrow> string \<Rightarrow> bool" where
  "starts_with [] s = True"
| "starts_with (c # cs) [] = False"
| "starts_with (c # cs) (d # ds) = (c = d \<and> starts_with cs ds)"

fun str_contains :: "string \<Rightarrow> string \<Rightarrow> bool" where
  "str_contains f [] = (f = [])"
| "str_contains f (c # cs) = (starts_with f (c # cs) \<or> str_contains f cs)"

fun join :: "string \<Rightarrow> string list \<Rightarrow> string" where
  "join sep [] = []"
| "join sep [x] = x"
| "join sep (x # y # xs) = x @ sep @ join sep (y # xs)"

fun nat_str :: "nat \<Rightarrow> string" where
  "nat_str n = (if n < 10 then [char_of (48 + int n)] else nat_str (n div 10) @ [char_of (48 + int (n mod 10))])"

declare nat_str.simps [simp del]

lemma starts_with_iff: "starts_with f s \<longleftrightarrow> prefix f s"
  by (induction f s rule: starts_with.induct) auto

lemma str_contains_iff: "str_contains f s \<longleftrightarrow> sublist f s"
  by (induction s) (auto simp: starts_with_iff sublist_Cons_right)

lemma length_lower [simp]: "length (lower s) = length s"
  by (simp add: lower_def)

lemma lower_char_idem [simp]: "lower_char (lower_char c) = lower_char c"
proof -
  have n: "(of_char c :: int) = int (of_char c)" by (simp add: of_nat_of_char)
  have "0 \<le> (of_char c :: int)" "(of_char c :: int) < 256"
    unfolding n using nat_of_char_less_256 [of c] by (simp_all del: nat_of_char_less_256)
  then show ?thesis by (auto simp: lower_char_def Let_def)
qed

lemma lower_idem [simp]: "lower (lower s) = lower s"
  by (simp add: lower_def)

lemma dropWhile_idem: "dropWhile P (dropWhile P xs) = dropWhile P xs"
  by (induction xs) auto

lemma hd_dropWhile_not: "dropWhile P xs \<noteq> [] \<Longrightarrow> \<not> P (hd (dropWhile P xs))"
  by (rule hd_dropWhile)

lemma rstrip_idem [simp]: "rstrip (rstrip s) = rstrip s"
  by (simp add: rstrip_def dropWhile_idem)

lemma rstrip_decomp: "\<exists>t. s = rstrip s @ t"
proof -
  have "rev s = takeWhile is_space (rev s) @ dropWhile is_space (rev s)" by simp
  then have "s = rev (dropWhile is_space (rev s)) @ rev (takeWhile is_space (rev s))"
    by (metis rev_append rev_rev_ident)
  then show ?thesis unfolding rstrip_def by blast
qed

lemma lstrip_rstrip: "lstrip s = s \<Longrightarrow> lstrip (rstrip s) = rstrip s"
proof -
  assume s: "lstrip s = s"
  obtain t where t: "s = rstrip s @ t" using rstrip_decomp by blast
  show ?thesis
  proof (cases "rstrip s")
    case Nil
    then show ?thesis by (simp add: lstrip_def)
  next
    case (Cons c cs)
    with t have "s = c # cs @ t" by simp
    with s have "\<not> is_space c" by (metis dropWhile.simps(2) hd_dropWhile list.distinct(1) list.sel(1) lstrip_def)
    with Cons show ?thesis by (simp add: lstrip_def)
  qed
qed

lemma strip_idem [simp]: "strip (strip s) = strip s"
proof -
  have "lstrip (lstrip s) = lstrip s" by (simp add: lstrip_def dropWhile_idem)
  then have "lstrip (strip s) = strip s" unfolding strip_def by (rule lstrip_rstrip)
  then show ?thesis by (simp add: strip_def)
qed

section \<open>Ordered and duplicate-free lists\<close>

text \<open>\<open>list(dict.fromkeys(xs))\<close> keeps the first occurrence of each element.\<close>

fun dedup :: "'a list \<Rightarrow> 'a list" where
  "dedup [] = []"
| "dedup (x # xs) = x # dedup (removeAll x xs)"

text \<open>\<open>sorted(set(xs))\<close>.\<close>

definition sorted_set :: "'a::linorder list \<Rightarrow> 'a list" where
  "sorted_set xs = sort (remdups xs)"

lemma set_dedup [simp]: "set (dedup xs) = set xs"
  by (induction xs rule: dedup.induct) auto

lemma distinct_dedup [simp]: "distinct (dedup xs)"
  by (induction xs rule: dedup.induct) auto

lemma dedup_distinct: "distinct xs \<Longrightarrow> dedup xs = xs"
  by (induction xs rule: dedup.induct) (auto simp: removeAll_id)

lemma dedup_eq_Nil [simp]: "dedup xs = [] \<longleftrightarrow> xs = []"
  by (cases xs) auto

lemma length_dedup: "length (dedup xs) = card (set xs)"
  by (metis distinct_card distinct_dedup set_dedup)

lemma set_sorted_set [simp]: "set (sorted_set xs) = set xs"
  by (simp add: sorted_set_def)

lemma sorted_sorted_set [simp]: "sorted (sorted_set xs)"
  by (simp add: sorted_set_def)

lemma distinct_sorted_set [simp]: "distinct (sorted_set xs)"
  by (simp add: sorted_set_def)

lemma sorted_set_cong: "set xs = set ys \<Longrightarrow> sorted_set xs = sorted_set ys"
  by (rule sorted_distinct_set_unique) simp_all

section \<open>Numbers\<close>

text \<open>\<open>max(0.0, min(1.0, x))\<close>, which the source repeats in several modules.\<close>

definition clamp :: "rat \<Rightarrow> rat" where
  "clamp x = max 0 (min 1 x)"

text \<open>
  \<open>round(x, n)\<close>: the nearest multiple of \<open>10\<^sup>-\<^sup>n\<close>, ties to the even one, as CPython computes
  it from the exact value of the float.
\<close>

definition round_half_even :: "rat \<Rightarrow> int" where
  "round_half_even y = (let f = \<lfloor>y\<rfloor>; d = y - of_int f in
     if d < 1 / 2 then f else if d > 1 / 2 then f + 1 else if even f then f else f + 1)"

definition py_round :: "nat \<Rightarrow> rat \<Rightarrow> rat" where
  "py_round n x = of_int (round_half_even (x * 10 ^ n)) / 10 ^ n"

definition in_unit :: "rat \<Rightarrow> bool" where
  "in_unit x = (0 \<le> x \<and> x \<le> 1)"

lemma in_unit_clamp [unit_bounds, simp]: "in_unit (clamp x)"
  by (simp add: in_unit_def clamp_def)

lemma clamp_id [simp]: "in_unit x \<Longrightarrow> clamp x = x"
  by (simp add: in_unit_def clamp_def)

lemma clamp_idem [simp]: "clamp (clamp x) = clamp x"
  by simp

lemma clamp_mono: "x \<le> y \<Longrightarrow> clamp x \<le> clamp y"
  by (auto simp: clamp_def)

lemma clamp_bounds: "0 \<le> clamp x" "clamp x \<le> 1"
  by (auto simp: clamp_def)

lemma clamp_le: "0 \<le> x \<Longrightarrow> clamp x \<le> x"
  by (auto simp: clamp_def)

lemma in_unitI: "0 \<le> x \<Longrightarrow> x \<le> 1 \<Longrightarrow> in_unit x"
  by (simp add: in_unit_def)

lemma in_unit_max [unit_bounds]: "in_unit x \<Longrightarrow> in_unit y \<Longrightarrow> in_unit (max x y)"
  by (auto simp: in_unit_def)

lemma in_unit_mult [unit_bounds]: "in_unit x \<Longrightarrow> in_unit y \<Longrightarrow> in_unit (x * y)"
  by (auto simp: in_unit_def intro: mult_le_one)

lemma in_unit_compl [unit_bounds]: "in_unit x \<Longrightarrow> in_unit (1 - x)"
  by (auto simp: in_unit_def)

lemma round_half_even_of_int [simp]: "round_half_even (of_int k) = k"
  by (simp add: round_half_even_def)

lemma round_half_even_near: "\<bar>of_int (round_half_even y) - y\<bar> \<le> 1 / 2"
proof -
  define n where "n = \<lfloor>y\<rfloor>"
  have "of_int n \<le> y" "y < of_int n + 1" unfolding n_def by linarith+
  then show ?thesis
    unfolding round_half_even_def Let_def n_def [symmetric] by (auto simp: abs_if not_less)
qed

lemma round_half_even_mono: assumes "x \<le> y" shows "round_half_even x \<le> round_half_even y"
proof (cases "\<lfloor>x\<rfloor> = \<lfloor>y\<rfloor>")
  case True
  with assms show ?thesis by (auto simp: round_half_even_def Let_def)
next
  case False
  with assms have "\<lfloor>x\<rfloor> + 1 \<le> \<lfloor>y\<rfloor>" using floor_mono [OF assms] by linarith
  then show ?thesis by (auto simp: round_half_even_def Let_def)
qed

lemma py_round_mono: "x \<le> y \<Longrightarrow> py_round n x \<le> py_round n y"
  by (auto simp: py_round_def intro!: divide_right_mono of_int_le_iff [THEN iffD2]
      round_half_even_mono)

lemma py_round_0 [simp]: "py_round n 0 = 0"
  using round_half_even_of_int [of 0] by (simp add: py_round_def)

lemma py_round_1 [simp]: "py_round n 1 = 1"
proof -
  have "round_half_even (10 ^ n) = 10 ^ n"
    using round_half_even_of_int [of "10 ^ n"] by simp
  then show ?thesis by (simp add: py_round_def)
qed

lemma in_unit_py_round [unit_bounds]: "in_unit x \<Longrightarrow> in_unit (py_round n x)"
  using py_round_mono [of 0 x n] py_round_mono [of x 1 n] by (simp add: in_unit_def)

lemma py_round_near: "\<bar>py_round n x - x\<bar> \<le> 1 / (2 * 10 ^ n)"
proof -
  have "\<bar>py_round n x - x\<bar> = \<bar>of_int (round_half_even (x * 10 ^ n)) - x * 10 ^ n\<bar> / 10 ^ n"
    by (simp add: py_round_def divide_simps abs_if)
  also have "\<dots> \<le> (1 / 2) / 10 ^ n"
    by (intro divide_right_mono round_half_even_near) simp
  finally show ?thesis by simp
qed

text \<open>\<open>max(xs, default=0.0)\<close> over non-negative values.\<close>

fun max_default :: "rat \<Rightarrow> rat list \<Rightarrow> rat" where
  "max_default d [] = d"
| "max_default d (x # xs) = foldl max x xs"

lemma foldl_max_ge: "(x::rat) \<le> foldl max x xs"
  by (induction xs arbitrary: x) (auto intro: order_trans [OF max.cobounded1])

lemma foldl_max_upper: "y \<in> set (x # xs) \<Longrightarrow> (y::rat) \<le> foldl max x xs"
proof (induction xs arbitrary: x)
  case Nil
  then show ?case by simp
next
  case (Cons z zs)
  then show ?case
    by (auto intro: order_trans [OF max.cobounded1 foldl_max_ge] order_trans [OF max.cobounded2 foldl_max_ge])
qed

lemma foldl_max_in: "foldl max (x::rat) xs \<in> set (x # xs)"
proof (induction xs arbitrary: x)
  case Nil
  then show ?case by simp
next
  case (Cons z zs)
  from Cons [of "max x z"] show ?case by (auto simp: max_def split: if_splits)
qed

lemma max_default_upper: "y \<in> set xs \<Longrightarrow> y \<le> max_default d xs"
  by (cases xs) (auto intro: foldl_max_upper simp del: foldl_Cons)

lemma max_default_in: "max_default d xs \<in> insert d (set xs)"
  using foldl_max_in by (cases xs) force+

lemma max_default_unit [unit_bounds]:
  "in_unit d \<Longrightarrow> \<forall>x \<in> set xs. in_unit x \<Longrightarrow> in_unit (max_default d xs)"
  using max_default_in [of d xs] by auto

section \<open>Errors\<close>

text \<open>The exceptions the modelled code raises, with the text of the message where the code builds one.\<close>

datatype err =
    RawContentRejected "string list"
  | ValueError string
  | TypeError string
  | KeyError string
  | AttributeError string
  | ConfigurationError string
  | OrchestratorError string
  | PipelineError string
  | ConfigValidationError string
  | SynthesisError string
  | EvidenceError string
  | RoleError string
  | RunReportError string
  | FileNotFoundError string
  | AdapterError string

type_synonym 'a res = "err + 'a"

definition bind_res :: "'a res \<Rightarrow> ('a \<Rightarrow> 'b res) \<Rightarrow> 'b res" where
  "bind_res r f = (case r of Inl e \<Rightarrow> Inl e | Inr x \<Rightarrow> f x)"

lemma bind_res_Inr [simp]: "bind_res (Inr x) f = f x"
  by (simp add: bind_res_def)

lemma bind_res_Inl [simp]: "bind_res (Inl e) f = Inl e"
  by (simp add: bind_res_def)

lemma bind_res_eq_Inr: "bind_res r f = Inr y \<longleftrightarrow> (\<exists>x. r = Inr x \<and> f x = Inr y)"
  by (auto simp: bind_res_def split: sum.splits)

text \<open>A comprehension that may raise: the first error wins.\<close>

fun map_res :: "('a \<Rightarrow> 'b res) \<Rightarrow> 'a list \<Rightarrow> 'b list res" where
  "map_res f [] = Inr []"
| "map_res f (x # xs) = bind_res (f x) (\<lambda>y. bind_res (map_res f xs) (\<lambda>ys. Inr (y # ys)))"

lemma map_res_length: "map_res f xs = Inr ys \<Longrightarrow> length ys = length xs"
  by (induction xs arbitrary: ys) (auto simp: bind_res_eq_Inr)

lemma map_res_Inr_iff: "map_res f xs = Inr ys \<longleftrightarrow> list_all2 (\<lambda>x y. f x = Inr y) xs ys"
  by (induction xs arbitrary: ys) (auto simp: bind_res_eq_Inr list_all2_Cons1)

lemma list_all2_set2: "list_all2 P xs ys \<Longrightarrow> y \<in> set ys \<Longrightarrow> \<exists>x \<in> set xs. P x y"
  by (induction rule: list_all2_induct) auto

end
