(* ===== verification/Features.thy ===== *)
theory Features
  imports Prelude
begin

text \<open>
  The feature models of \<open>truepresence/sdk/features.py\<close> and the request and response contracts of
  \<open>truepresence/sdk/contracts.py\<close>: one record per model, an optional field for each
  \<open>... | None\<close>, and for each model the predicate its \<open>Field(ge=..., le=...)\<close> declarations
  state, which the validation library enforces on construction.
\<close>

section \<open>Field constraints\<close>

definition ge0 :: "'a::linordered_idom option \<Rightarrow> bool" where
  "ge0 x = (case x of None \<Rightarrow> True | Some v \<Rightarrow> 0 \<le> v)"

definition unit_opt :: "rat option \<Rightarrow> bool" where
  "unit_opt x = (case x of None \<Rightarrow> True | Some v \<Rightarrow> in_unit v)"

text \<open>\<open>x or 0\<close> on an optional number.\<close>

definition or0 :: "'a::zero option \<Rightarrow> 'a" where
  "or0 x = (case x of None \<Rightarrow> 0 | Some v \<Rightarrow> v)"

lemma or0_simps [simp]: "or0 None = 0" "or0 (Some v) = v"
  by (simp_all add: or0_def)

lemma ge0_simps [simp]: "ge0 None" "ge0 (Some v) = (0 \<le> v)"
  by (simp_all add: ge0_def)

lemma unit_opt_simps [simp]: "unit_opt None" "unit_opt (Some q) = in_unit q"
  by (simp_all add: unit_opt_def)

lemma ge0_or0: "ge0 x \<Longrightarrow> 0 \<le> or0 x"
  by (cases x) auto

section \<open>Feature sections\<close>

record typing_features =
  mean_inter_key_interval_ms :: "rat option"
  inter_key_interval_stddev_ms :: "rat option"
  characters_per_minute :: "rat option"
  correction_count :: "int option"
  correction_rate :: "rat option"
  paste_count :: "int option"
  focus_to_first_input_ms :: "rat option"
  prompt_render_to_first_input_ms :: "rat option"
  typing_duration_ms :: "rat option"
  last_input_to_submit_ms :: "rat option"

definition valid_typing :: "typing_features \<Rightarrow> bool" where
  "valid_typing t \<longleftrightarrow>
     ge0 (mean_inter_key_interval_ms t) \<and> ge0 (inter_key_interval_stddev_ms t) \<and>
     ge0 (characters_per_minute t) \<and> ge0 (correction_count t) \<and> unit_opt (correction_rate t) \<and>
     ge0 (paste_count t) \<and> ge0 (focus_to_first_input_ms t) \<and>
     ge0 (prompt_render_to_first_input_ms t) \<and> ge0 (typing_duration_ms t) \<and>
     ge0 (last_input_to_submit_ms t)"

record pointer_features =
  pointer_entropy :: "rat option"
  click_hesitation_ms :: "rat option"
  scroll_cadence_score :: "rat option"
  pointer_movement_count :: "int option"
  click_count :: "int option"

definition valid_pointer :: "pointer_features \<Rightarrow> bool" where
  "valid_pointer p \<longleftrightarrow>
     ge0 (pointer_entropy p) \<and> ge0 (click_hesitation_ms p) \<and> unit_opt (scroll_cadence_score p) \<and>
     ge0 (pointer_movement_count p) \<and> ge0 (click_count p)"

record challenge_features =
  challenge_type :: "string option"
  response_latency_ms :: "rat option"
  expected_reading_time_ms :: "rat option"
  ch_prompt_render_to_first_input_ms :: "rat option"
  ch_correction_count :: "int option"
  ch_paste_count :: "int option"
  ch_typing_duration_ms :: "rat option"
  submitted_exactly :: "bool option"

definition valid_challenge :: "challenge_features \<Rightarrow> bool" where
  "valid_challenge c \<longleftrightarrow>
     ge0 (response_latency_ms c) \<and> ge0 (expected_reading_time_ms c) \<and>
     ge0 (ch_prompt_render_to_first_input_ms c) \<and> ge0 (ch_correction_count c) \<and>
     ge0 (ch_paste_count c) \<and> ge0 (ch_typing_duration_ms c)"

record session_features =
  session_age_ms :: "rat option"
  prior_interaction_count :: "int option"
  focus_blur_count :: "int option"
  navigation_count :: "int option"
  same_device_session_count :: "int option"

definition valid_session :: "session_features \<Rightarrow> bool" where
  "valid_session s \<longleftrightarrow>
     ge0 (session_age_ms s) \<and> ge0 (prior_interaction_count s) \<and> ge0 (focus_blur_count s) \<and>
     ge0 (navigation_count s) \<and> ge0 (same_device_session_count s)"

record environment_features =
  webdriver_detected :: "bool option"
  automation_framework_hint :: "bool option"
  headless_browser_hint :: "bool option"
  reduced_motion_enabled :: "bool option"
  timezone_offset_minutes :: "int option"
  viewport_width :: "int option"
  viewport_height :: "int option"

definition valid_environment :: "environment_features \<Rightarrow> bool" where
  "valid_environment e \<longleftrightarrow> ge0 (viewport_width e) \<and> ge0 (viewport_height e)"

record agentic_features =
  action_burst_count :: "int option"
  mean_burst_interval_ms :: "rat option"
  burst_interval_stddev_ms :: "rat option"
  idle_to_action_latency_ms :: "rat option"
  exploratory_action_count :: "int option"
  route_directness_score :: "rat option"
  large_instant_delta_count :: "int option"
  submit_after_instant_input_ms :: "rat option"
  structured_retry_count :: "int option"
  validation_repair_count :: "int option"

definition valid_agentic :: "agentic_features \<Rightarrow> bool" where
  "valid_agentic a \<longleftrightarrow>
     ge0 (action_burst_count a) \<and> ge0 (mean_burst_interval_ms a) \<and>
     ge0 (burst_interval_stddev_ms a) \<and> ge0 (idle_to_action_latency_ms a) \<and>
     ge0 (exploratory_action_count a) \<and> unit_opt (route_directness_score a) \<and>
     ge0 (large_instant_delta_count a) \<and> ge0 (submit_after_instant_input_ms a) \<and>
     ge0 (structured_retry_count a) \<and> ge0 (validation_repair_count a)"

record external_features =
  provider_id :: string
  provider_risk_score :: rat
  provider_confidence :: "rat option"
  provider_reason_codes :: "string list"

definition valid_external :: "external_features \<Rightarrow> bool" where
  "valid_external e \<longleftrightarrow> in_unit (provider_risk_score e) \<and> unit_opt (provider_confidence e)"

section \<open>The interaction packet, the request and the response\<close>

record feature_packet =
  pk_surface :: string
  pk_site_id :: "string option"
  pk_tenant_id :: "string option"
  pk_session_id :: "string option"
  pk_page_context :: dict
  pk_typing :: "typing_features option"
  pk_pointer :: "pointer_features option"
  pk_challenge :: "challenge_features option"
  pk_agentic :: "agentic_features option"
  pk_session_continuity :: "session_features option"
  pk_environment :: "environment_features option"
  pk_external_risk_provider :: "external_features list"
  pk_metadata :: dict

definition valid_packet :: "feature_packet \<Rightarrow> bool" where
  "valid_packet p \<longleftrightarrow>
     pred_option valid_typing (pk_typing p) \<and> pred_option valid_pointer (pk_pointer p) \<and>
     pred_option valid_challenge (pk_challenge p) \<and> pred_option valid_agentic (pk_agentic p) \<and>
     pred_option valid_session (pk_session_continuity p) \<and>
     pred_option valid_environment (pk_environment p) \<and>
     list_all valid_external (pk_external_risk_provider p)"

datatype recommended_action = Allow | Observe | SoftChallenge | StepUpAuth | ManualReview

datatype enforcement_mode = ObserveMode | ChallengeOnly | ReviewRequired | Enforce

record evaluation_request =
  rq_session_id :: string
  rq_tenant_id :: string
  rq_enforcement_mode :: enforcement_mode
  rq_feature_packet :: feature_packet

record evaluation_response =
  human_presence_likelihood :: rat
  automation_likelihood :: rat
  agentic_control_likelihood :: rat
  resp_confidence :: rat
  resp_reason_codes :: "string list"
  evidence_packet_id :: string
  resp_action :: recommended_action
  resp_enforcement_mode :: enforcement_mode

definition valid_response :: "evaluation_response \<Rightarrow> bool" where
  "valid_response r \<longleftrightarrow>
     in_unit (human_presence_likelihood r) \<and> in_unit (automation_likelihood r) \<and>
     in_unit (agentic_control_likelihood r) \<and> in_unit (resp_confidence r)"

text \<open>The order of severity in which the actions are documented, least to most restrictive.\<close>

fun action_rank :: "recommended_action \<Rightarrow> nat" where
  "action_rank Allow = 0"
| "action_rank Observe = 1"
| "action_rank SoftChallenge = 2"
| "action_rank StepUpAuth = 3"
| "action_rank ManualReview = 4"

lemma action_rank_inj: "action_rank a = action_rank b \<Longrightarrow> a = b"
  by (cases a; cases b) auto

instantiation recommended_action :: linorder
begin

definition less_eq_recommended_action :: "recommended_action \<Rightarrow> recommended_action \<Rightarrow> bool" where
  "less_eq_recommended_action a b = (action_rank a \<le> action_rank b)"

definition less_recommended_action :: "recommended_action \<Rightarrow> recommended_action \<Rightarrow> bool" where
  "less_recommended_action a b = (action_rank a < action_rank b)"

instance
  by standard (auto simp: less_eq_recommended_action_def less_recommended_action_def action_rank_inj)

end

text \<open>\<open>model_dump()\<close>, which the evaluation hands back to the privacy guard and the artifact store.\<close>

definition opt_num :: "rat option \<Rightarrow> pv" where
  "opt_num x = (case x of None \<Rightarrow> PNone | Some q \<Rightarrow> PFloat q)"

definition opt_int :: "int option \<Rightarrow> pv" where
  "opt_int x = (case x of None \<Rightarrow> PNone | Some i \<Rightarrow> PInt i)"

definition opt_bool :: "bool option \<Rightarrow> pv" where
  "opt_bool x = (case x of None \<Rightarrow> PNone | Some b \<Rightarrow> PBool b)"

definition opt_str :: "string option \<Rightarrow> pv" where
  "opt_str x = (case x of None \<Rightarrow> PNone | Some s \<Rightarrow> PStr s)"

definition opt_dump :: "('a \<Rightarrow> pv) \<Rightarrow> 'a option \<Rightarrow> pv" where
  "opt_dump f x = (case x of None \<Rightarrow> PNone | Some a \<Rightarrow> f a)"

definition dump_typing :: "typing_features \<Rightarrow> pv" where
  "dump_typing t = PDict
    [(''mean_inter_key_interval_ms'', opt_num (mean_inter_key_interval_ms t)),
     (''inter_key_interval_stddev_ms'', opt_num (inter_key_interval_stddev_ms t)),
     (''characters_per_minute'', opt_num (characters_per_minute t)),
     (''correction_count'', opt_int (correction_count t)),
     (''correction_rate'', opt_num (correction_rate t)),
     (''paste_count'', opt_int (paste_count t)),
     (''focus_to_first_input_ms'', opt_num (focus_to_first_input_ms t)),
     (''prompt_render_to_first_input_ms'', opt_num (prompt_render_to_first_input_ms t)),
     (''typing_duration_ms'', opt_num (typing_duration_ms t)),
     (''last_input_to_submit_ms'', opt_num (last_input_to_submit_ms t))]"

definition dump_pointer :: "pointer_features \<Rightarrow> pv" where
  "dump_pointer p = PDict
    [(''pointer_entropy'', opt_num (pointer_entropy p)),
     (''click_hesitation_ms'', opt_num (click_hesitation_ms p)),
     (''scroll_cadence_score'', opt_num (scroll_cadence_score p)),
     (''pointer_movement_count'', opt_int (pointer_movement_count p)),
     (''click_count'', opt_int (click_count p))]"

definition dump_challenge :: "challenge_features \<Rightarrow> pv" where
  "dump_challenge c = PDict
    [(''challenge_type'', opt_str (challenge_type c)),
     (''response_latency_ms'', opt_num (response_latency_ms c)),
     (''expected_reading_time_ms'', opt_num (expected_reading_time_ms c)),
     (''prompt_render_to_first_input_ms'', opt_num (ch_prompt_render_to_first_input_ms c)),
     (''correction_count'', opt_int (ch_correction_count c)),
     (''paste_count'', opt_int (ch_paste_count c)),
     (''typing_duration_ms'', opt_num (ch_typing_duration_ms c)),
     (''submitted_exactly'', opt_bool (submitted_exactly c))]"

definition dump_session :: "session_features \<Rightarrow> pv" where
  "dump_session s = PDict
    [(''session_age_ms'', opt_num (session_age_ms s)),
     (''prior_interaction_count'', opt_int (prior_interaction_count s)),
     (''focus_blur_count'', opt_int (focus_blur_count s)),
     (''navigation_count'', opt_int (navigation_count s)),
     (''same_device_session_count'', opt_int (same_device_session_count s))]"

definition dump_environment :: "environment_features \<Rightarrow> pv" where
  "dump_environment e = PDict
    [(''webdriver_detected'', opt_bool (webdriver_detected e)),
     (''automation_framework_hint'', opt_bool (automation_framework_hint e)),
     (''headless_browser_hint'', opt_bool (headless_browser_hint e)),
     (''reduced_motion_enabled'', opt_bool (reduced_motion_enabled e)),
     (''timezone_offset_minutes'', opt_int (timezone_offset_minutes e)),
     (''viewport_width'', opt_int (viewport_width e)),
     (''viewport_height'', opt_int (viewport_height e))]"

definition dump_agentic :: "agentic_features \<Rightarrow> pv" where
  "dump_agentic a = PDict
    [(''action_burst_count'', opt_int (action_burst_count a)),
     (''mean_burst_interval_ms'', opt_num (mean_burst_interval_ms a)),
     (''burst_interval_stddev_ms'', opt_num (burst_interval_stddev_ms a)),
     (''idle_to_action_latency_ms'', opt_num (idle_to_action_latency_ms a)),
     (''exploratory_action_count'', opt_int (exploratory_action_count a)),
     (''route_directness_score'', opt_num (route_directness_score a)),
     (''large_instant_delta_count'', opt_int (large_instant_delta_count a)),
     (''submit_after_instant_input_ms'', opt_num (submit_after_instant_input_ms a)),
     (''structured_retry_count'', opt_int (structured_retry_count a)),
     (''validation_repair_count'', opt_int (validation_repair_count a))]"

definition dump_external :: "external_features \<Rightarrow> pv" where
  "dump_external e = PDict
    [(''provider_id'', PStr (provider_id e)),
     (''risk_score'', PFloat (provider_risk_score e)),
     (''confidence'', opt_num (provider_confidence e)),
     (''reason_codes'', PList (map PStr (provider_reason_codes e)))]"

definition dump_packet :: "feature_packet \<Rightarrow> dict" where
  "dump_packet p =
    [(''surface'', PStr (pk_surface p)),
     (''site_id'', opt_str (pk_site_id p)),
     (''tenant_id'', opt_str (pk_tenant_id p)),
     (''session_id'', opt_str (pk_session_id p)),
     (''page_context'', PDict (pk_page_context p)),
     (''typing'', opt_dump dump_typing (pk_typing p)),
     (''pointer'', opt_dump dump_pointer (pk_pointer p)),
     (''challenge'', opt_dump dump_challenge (pk_challenge p)),
     (''agentic'', opt_dump dump_agentic (pk_agentic p)),
     (''session_continuity'', opt_dump dump_session (pk_session_continuity p)),
     (''environment'', opt_dump dump_environment (pk_environment p)),
     (''external_risk_provider'', PList (map dump_external (pk_external_risk_provider p))),
     (''metadata'', PDict (pk_metadata p))]"

fun mode_str :: "enforcement_mode \<Rightarrow> string" where
  "mode_str ObserveMode = ''observe''"
| "mode_str ChallengeOnly = ''challenge_only''"
| "mode_str ReviewRequired = ''review_required''"
| "mode_str Enforce = ''enforce''"

fun action_str :: "recommended_action \<Rightarrow> string" where
  "action_str Allow = ''allow''"
| "action_str Observe = ''observe''"
| "action_str SoftChallenge = ''soft_challenge''"
| "action_str StepUpAuth = ''step_up_auth''"
| "action_str ManualReview = ''manual_review''"

definition dump_request :: "evaluation_request \<Rightarrow> pv" where
  "dump_request r = PDict
    [(''session_id'', PStr (rq_session_id r)),
     (''tenant_id'', PStr (rq_tenant_id r)),
     (''enforcement_mode'', PStr (mode_str (rq_enforcement_mode r))),
     (''feature_packet'', PDict (dump_packet (rq_feature_packet r)))]"

end
