(* ===== verification/Detectors.thy ===== *)
theory Detectors
  imports Features
begin

text \<open>
  The behavioral detectors of \<open>truepresence/detectors/\<close>: \<open>human_plausibility.py\<close>,
  \<open>typing_cadence.py\<close>, \<open>reading_time.py\<close> and \<open>agentic_control.py\<close>. Each detector reads one
  optional feature section and returns a list of at most one signal; the runners concatenate them.
  The contract a scorer relies on (no evidence without features, confidences in the unit interval,
  risk targets only) is the locale \<open>risk_detector\<close>, interpreted for every runner.
\<close>

section \<open>Signals\<close>

datatype severity = SevLow | SevMedium | SevHigh

datatype contribution_target = HumanPresence | Automation | AgenticControl

datatype signal_category =
    TimingPlausibility
  | TypingCadence
  | InputMethod
  | PointerBehavior
  | SessionContinuity
  | Environment
  | AgenticBehavior
  | ExternalProvider

record detector_signal =
  reason_code :: string
  severity :: severity
  confidence :: rat
  contribution_target :: contribution_target
  category :: signal_category
  explanation :: string

definition mk_signal ::
    "string \<Rightarrow> severity \<Rightarrow> rat \<Rightarrow> contribution_target \<Rightarrow> string \<Rightarrow> signal_category \<Rightarrow> detector_signal" where
  "mk_signal rc sev conf target expl cat =
     \<lparr>reason_code = rc, severity = sev, confidence = clamp conf, contribution_target = target,
      category = cat, explanation = expl\<rparr>"

text \<open>The bound \<open>Field(ge=0, le=1)\<close> of the frozen model.\<close>

definition valid_signal :: "detector_signal \<Rightarrow> bool" where
  "valid_signal s = in_unit (confidence s)"

lemma valid_mk_signal [simp]: "valid_signal (mk_signal rc sev conf target expl cat)"
  by (simp add: valid_signal_def mk_signal_def)

lemma target_mk_signal [simp]: "contribution_target (mk_signal rc sev conf target expl cat) = target"
  by (simp add: mk_signal_def)

lemma category_mk_signal [simp]: "category (mk_signal rc sev conf target expl cat) = cat"
  by (simp add: mk_signal_def)

lemma reason_mk_signal [simp]: "reason_code (mk_signal rc sev conf target expl cat) = rc"
  by (simp add: mk_signal_def)

section \<open>Typing and input detectors\<close>

definition paste_triggers :: "typing_features \<Rightarrow> nat" where
  "paste_triggers f =
     (if or0 (paste_count f) > 0 then 1 else 0)
   + (case focus_to_first_input_ms f of Some v \<Rightarrow> if v \<le> 50 then 1 else 0 | None \<Rightarrow> 0)
   + (case prompt_render_to_first_input_ms f of Some v \<Rightarrow> if v \<le> 100 then 1 else 0 | None \<Rightarrow> 0)
   + (case typing_duration_ms f of Some v \<Rightarrow> if v \<le> 100 then 1 else 0 | None \<Rightarrow> 0)
   + (if or0 (characters_per_minute f) \<ge> 700 then 1 else 0)"

definition paste_or_instant_input :: "typing_features option \<Rightarrow> detector_signal list" where
  "paste_or_instant_input features = (case features of None \<Rightarrow> [] | Some f \<Rightarrow>
     let triggers = paste_triggers f in
     if triggers = 0 then []
     else let (sev, conf) =
         (if triggers \<ge> 3 then (SevHigh, 0.82)
          else if triggers = 1 \<and> or0 (paste_count f) = 0 then (SevLow, 0.45)
          else (SevMedium, 0.62))
       in [mk_signal ''paste_or_instant_input'' sev conf Automation
            ''Input timing suggests pasted, injected, or immediately populated content.''
            InputMethod])"

definition zero_correction_pattern :: "typing_features option \<Rightarrow> detector_signal list" where
  "zero_correction_pattern features = (case features of None \<Rightarrow> [] | Some f \<Rightarrow>
     let no_corrections = (correction_count f = Some 0 \<or> correction_rate f = Some 0) in
     if \<not> no_corrections then []
     else
       let high_speed = (or0 (characters_per_minute f) \<ge> 320);
           low_variance = (case inter_key_interval_stddev_ms f of Some v \<Rightarrow> v \<le> 15 | None \<Rightarrow> False)
       in if high_speed \<and> low_variance then
            [mk_signal ''zero_correction_pattern'' SevMedium 0.68 Automation
              ''No corrections combined with fast, low-variance input increases automation consistency.''
              TypingCadence]
          else
            [mk_signal ''zero_correction_pattern'' SevLow 0.35 Automation
              ''No corrections were observed; this is only weak evidence by itself.''
              TypingCadence])"

definition uniform_typing_cadence :: "typing_features option \<Rightarrow> detector_signal list" where
  "uniform_typing_cadence features = (case features of None \<Rightarrow> [] | Some f \<Rightarrow>
     (case inter_key_interval_stddev_ms f of None \<Rightarrow> [] | Some stddev \<Rightarrow>
       let cpm = or0 (characters_per_minute f) in
       if stddev \<le> 1 then
         [mk_signal ''uniform_typing_cadence'' SevHigh 0.9 Automation
           ''Inter-key interval variance is effectively zero.'' TypingCadence]
       else if stddev \<le> 8 \<and> cpm \<ge> 120 then
         [mk_signal ''uniform_typing_cadence'' SevMedium 0.76 Automation
           ''Typing cadence is unusually uniform for sustained human input.'' TypingCadence]
       else if stddev \<le> 15 \<and> cpm \<ge> 260 then
         [mk_signal ''uniform_typing_cadence'' SevMedium 0.66 Automation
           ''Fast input with very low cadence variation is automation-consistent.'' TypingCadence]
       else []))"

definition implausible_read_response_time :: "challenge_features option \<Rightarrow> detector_signal list" where
  "implausible_read_response_time features = (case features of None \<Rightarrow> [] | Some f \<Rightarrow>
     (case (response_latency_ms f, expected_reading_time_ms f) of
        (Some latency, Some expected) \<Rightarrow>
          if expected \<le> 0 then []
          else
            let floor = max 350 (expected * 0.55) in
            if latency \<ge> floor then []
            else
              let ratio = (if floor \<noteq> 0 then latency / floor else 1);
                  sev = (if latency \<le> 300 \<or> ratio \<le> 0.35 then SevHigh else SevMedium);
                  conf = min 0.92 (0.55 + (1 - ratio) * 0.45)
              in [mk_signal ''implausible_read_response_time'' sev conf AgenticControl
                   ''Response latency was faster than the expected human read-and-respond window.''
                   AgenticBehavior]
      | _ \<Rightarrow> []))"

section \<open>Agentic-control detectors\<close>

definition agentic_signal :: "string \<Rightarrow> severity \<Rightarrow> rat \<Rightarrow> string \<Rightarrow> detector_signal" where
  "agentic_signal rc sev conf expl = mk_signal rc sev conf AgenticControl expl AgenticBehavior"

definition model_thinking_cadence :: "agentic_features option \<Rightarrow> detector_signal list" where
  "model_thinking_cadence features = (case features of None \<Rightarrow> [] | Some f \<Rightarrow>
     let bursts = or0 (action_burst_count f) in
     (case (mean_burst_interval_ms f, burst_interval_stddev_ms f) of
        (Some mean_interval, Some stddev) \<Rightarrow>
          if bursts < 3 then []
          else if mean_interval < 1200 \<or> mean_interval > 8000 then []
          else if stddev > 450 then []
          else
            let (sev, conf) =
                  (if bursts \<ge> 4 \<and> mean_interval \<ge> 2200 \<and> stddev \<le> 180 then (SevHigh, 0.82)
                   else (SevMedium, 0.68));
                conf' = (case idle_to_action_latency_ms f of
                           Some idle \<Rightarrow> if idle \<ge> 2000 then min 0.9 (conf + 0.05) else conf
                         | None \<Rightarrow> conf)
            in [agentic_signal ''model_thinking_cadence'' sev conf'
                 ''Action bursts are separated by regular pause intervals consistent with plan/act loops.'']
      | _ \<Rightarrow> []))"

definition burst_pause_action_loop :: "agentic_features option \<Rightarrow> detector_signal list" where
  "burst_pause_action_loop features = (case features of None \<Rightarrow> [] | Some f \<Rightarrow>
     let bursts = or0 (action_burst_count f) in
     (case mean_burst_interval_ms f of
        None \<Rightarrow> []
      | Some mean_interval \<Rightarrow>
          if bursts < 3 \<or> mean_interval < 900 then []
          else
            let sev = (if bursts < 5 then SevMedium else SevHigh);
                conf = min 0.86 (0.56 + of_int bursts * 0.06)
            in [agentic_signal ''burst_pause_action_loop'' sev conf
                 ''The session alternates between compact action bursts and pauses.'']))"

definition large_instant_input_delta :: "agentic_features option \<Rightarrow> detector_signal list" where
  "large_instant_input_delta features = (case features of None \<Rightarrow> [] | Some f \<Rightarrow>
     let delta_count = or0 (large_instant_delta_count f) in
     if delta_count \<le> 0 then []
     else
       let fast_submit = (case submit_after_instant_input_ms f of Some v \<Rightarrow> v \<le> 250 | None \<Rightarrow> False);
           (sev, conf) = (if delta_count \<ge> 2 \<or> fast_submit then (SevHigh, 0.82) else (SevMedium, 0.66))
       in [agentic_signal ''large_instant_input_delta'' sev conf
            ''Input length changed by a large aggregate delta in one event without storing content.''])"

definition low_exploratory_noise :: "agentic_features option \<Rightarrow> detector_signal list" where
  "low_exploratory_noise features = (case features of None \<Rightarrow> [] | Some f \<Rightarrow>
     (case (exploratory_action_count f, route_directness_score f) of
        (Some exploratory, Some directness) \<Rightarrow>
          if exploratory > 1 \<or> directness < 0.85 then []
          else
            let sev = (if directness < 0.95 then SevMedium else SevHigh);
                conf = (if sev = SevMedium then 0.62 else 0.74)
            in [agentic_signal ''low_exploratory_noise'' sev conf
                 ''The interaction path is unusually direct with little exploratory activity.'']
      | _ \<Rightarrow> []))"

definition structured_retry_pattern :: "agentic_features option \<Rightarrow> detector_signal list" where
  "structured_retry_pattern features = (case features of None \<Rightarrow> [] | Some f \<Rightarrow>
     let retries = or0 (structured_retry_count f); repairs = or0 (validation_repair_count f) in
     if retries < 2 \<and> repairs < 2 then []
     else
       let (sev, conf) = (if retries \<ge> 3 \<or> repairs \<ge> 3 then (SevHigh, 0.8) else (SevMedium, 0.66))
       in [agentic_signal ''structured_retry_pattern'' sev conf
            ''Retry and validation-repair counts follow a structured correction pattern.''])"

definition implausible_task_efficiency :: "agentic_features option \<Rightarrow> detector_signal list" where
  "implausible_task_efficiency features = (case features of None \<Rightarrow> [] | Some f \<Rightarrow>
     (case (route_directness_score f, idle_to_action_latency_ms f,
            submit_after_instant_input_ms f, exploratory_action_count f) of
        (Some directness, Some idle, Some submit, Some exploratory) \<Rightarrow>
          if directness < 0.9 \<or> idle > 250 \<or> submit > 450 \<or> exploratory > 1 then []
          else
            let (sev, conf) =
              (if directness \<ge> 0.96 \<and> idle \<le> 120 \<and> submit \<le> 300 then (SevHigh, 0.82)
               else (SevMedium, 0.68))
            in [agentic_signal ''implausible_task_efficiency'' sev conf
                 ''The task path is highly direct with very low idle-to-action and submit latency.'']
      | _ \<Rightarrow> []))"

definition run_agentic_control_detectors :: "agentic_features option \<Rightarrow> detector_signal list" where
  "run_agentic_control_detectors features =
     model_thinking_cadence features @
     burst_pause_action_loop features @
     large_instant_input_delta features @
     low_exploratory_noise features @
     structured_retry_pattern features @
     implausible_task_efficiency features"

definition run_human_plausibility_detectors :: "feature_packet \<Rightarrow> detector_signal list" where
  "run_human_plausibility_detectors packet =
     implausible_read_response_time (pk_challenge packet) @
     uniform_typing_cadence (pk_typing packet) @
     paste_or_instant_input (pk_typing packet) @
     zero_correction_pattern (pk_typing packet) @
     run_agentic_control_detectors (pk_agentic packet)"

section \<open>The contract of a risk detector\<close>

definition risk_signal :: "contribution_target \<Rightarrow> signal_category \<Rightarrow> detector_signal \<Rightarrow> bool" where
  "risk_signal t c s = (valid_signal s \<and> contribution_target s = t \<and> category s = c)"

lemma risk_signal_mk [simp]:
  "risk_signal t c (mk_signal rc sev conf target expl cat) = (target = t \<and> cat = c)"
  by (simp add: risk_signal_def)

lemma risk_signal_agentic [simp]:
  "risk_signal AgenticControl AgenticBehavior (agentic_signal rc sev conf expl)"
  by (simp add: agentic_signal_def)

locale risk_detector =
  fixes run :: "'f \<Rightarrow> detector_signal list"
  assumes run_valid: "s \<in> set (run f) \<Longrightarrow> valid_signal s"
    and run_risk: "s \<in> set (run f) \<Longrightarrow> contribution_target s \<noteq> HumanPresence"
begin

lemma run_confidence: "s \<in> set (run f) \<Longrightarrow> 0 \<le> confidence s \<and> confidence s \<le> 1"
  using run_valid by (auto simp: valid_signal_def in_unit_def)

lemma no_human_signals: "filter (\<lambda>s. contribution_target s = HumanPresence) (run f) = []"
  using run_risk by (auto simp: filter_empty_conv)

end

text \<open>A detector over an optional feature section reports nothing when the section is absent.\<close>

locale section_detector = risk_detector run
  for run :: "'f option \<Rightarrow> detector_signal list" +
  assumes run_absent: "run None = []"
begin

lemma signals_need_section: "run f \<noteq> [] \<Longrightarrow> f \<noteq> None"
  by (cases f) (auto simp: run_absent)

end

named_theorems detector_wf \<open>target, category and validity of each detector's signals\<close>
named_theorems detector_codes \<open>the reason code of each detector\<close>
named_theorems signal_cases \<open>a predicate on a detector's result, pushed into its branches\<close>

text \<open>A property of a result is checked branch by branch of the code, without splitting its tests.\<close>

lemma on_if [signal_cases]: "P (if c then a else b) = ((c \<longrightarrow> P a) \<and> (\<not> c \<longrightarrow> P b))"
  by simp

lemma on_pair [signal_cases]: "P (case q of (a, b) \<Rightarrow> g a b) = P (g (fst q) (snd q))"
  by (cases q) simp

lemma on_opt [signal_cases]:
  "P (case y of None \<Rightarrow> a | Some x \<Rightarrow> g x) = ((y = None \<longrightarrow> P a) \<and> (\<forall>x. y = Some x \<longrightarrow> P (g x)))"
  by (cases y) auto

lemmas all_cases = signal_cases [of "list_all p" for p]

lemma paste_wf [detector_wf]: "list_all (risk_signal Automation InputMethod) (paste_or_instant_input f)"
  unfolding paste_or_instant_input_def Let_def by (simp add: all_cases)

lemma zero_wf [detector_wf]: "list_all (risk_signal Automation TypingCadence) (zero_correction_pattern f)"
  unfolding zero_correction_pattern_def Let_def by (simp add: all_cases)

lemma uniform_wf [detector_wf]: "list_all (risk_signal Automation TypingCadence) (uniform_typing_cadence f)"
  unfolding uniform_typing_cadence_def Let_def by (simp add: all_cases)

lemma reading_wf [detector_wf]: "list_all (risk_signal AgenticControl AgenticBehavior) (implausible_read_response_time f)"
  unfolding implausible_read_response_time_def Let_def by (simp add: all_cases)

lemma thinking_wf [detector_wf]: "list_all (risk_signal AgenticControl AgenticBehavior) (model_thinking_cadence f)"
  unfolding model_thinking_cadence_def Let_def by (simp add: all_cases)

lemma burst_wf [detector_wf]: "list_all (risk_signal AgenticControl AgenticBehavior) (burst_pause_action_loop f)"
  unfolding burst_pause_action_loop_def Let_def by (simp add: all_cases)

lemma delta_wf [detector_wf]: "list_all (risk_signal AgenticControl AgenticBehavior) (large_instant_input_delta f)"
  unfolding large_instant_input_delta_def Let_def by (simp add: all_cases)

lemma noise_wf [detector_wf]: "list_all (risk_signal AgenticControl AgenticBehavior) (low_exploratory_noise f)"
  unfolding low_exploratory_noise_def Let_def by (simp add: all_cases)

lemma retry_wf [detector_wf]: "list_all (risk_signal AgenticControl AgenticBehavior) (structured_retry_pattern f)"
  unfolding structured_retry_pattern_def Let_def by (simp add: all_cases)

lemma efficiency_wf [detector_wf]: "list_all (risk_signal AgenticControl AgenticBehavior) (implausible_task_efficiency f)"
  unfolding implausible_task_efficiency_def Let_def by (simp add: all_cases)

lemmas detector_wfD = detector_wf [unfolded list_all_iff, THEN bspec]

lemma agentic_suite_wf:
  "s \<in> set (run_agentic_control_detectors f) \<Longrightarrow> risk_signal AgenticControl AgenticBehavior s"
  by (auto simp: run_agentic_control_detectors_def dest: detector_wfD)

lemma human_suite_wf:
  "s \<in> set (run_human_plausibility_detectors p) \<Longrightarrow>
     risk_signal Automation InputMethod s \<or> risk_signal Automation TypingCadence s \<or>
     risk_signal AgenticControl AgenticBehavior s"
  by (auto simp: run_human_plausibility_detectors_def dest: detector_wfD agentic_suite_wf)

interpretation agentic_suite: section_detector run_agentic_control_detectors
proof
  show "valid_signal s" if "s \<in> set (run_agentic_control_detectors f)" for s f
    using agentic_suite_wf [OF that] by (simp add: risk_signal_def)
  show "contribution_target s \<noteq> HumanPresence" if "s \<in> set (run_agentic_control_detectors f)" for s f
    using agentic_suite_wf [OF that] by (simp add: risk_signal_def)
  show "run_agentic_control_detectors None = []"
    by (simp add: run_agentic_control_detectors_def model_thinking_cadence_def
        burst_pause_action_loop_def large_instant_input_delta_def low_exploratory_noise_def
        structured_retry_pattern_def implausible_task_efficiency_def)
qed

interpretation human_suite: risk_detector run_human_plausibility_detectors
proof
  show "valid_signal s" if "s \<in> set (run_human_plausibility_detectors p)" for s p
    using human_suite_wf [OF that] by (auto simp: risk_signal_def)
  show "contribution_target s \<noteq> HumanPresence" if "s \<in> set (run_human_plausibility_detectors p)" for s p
    using human_suite_wf [OF that] by (auto simp: risk_signal_def)
qed

section \<open>Each detector reports at most one signal, under its own code\<close>

definition at_most :: "string \<Rightarrow> detector_signal list \<Rightarrow> bool" where
  "at_most rc ss = (map reason_code ss = [] \<or> map reason_code ss = [rc])"

lemma at_most_single [simp]:
  "at_most rc []" "at_most rc [mk_signal rc sev conf target expl cat]"
  "at_most rc [agentic_signal rc sev conf expl]"
  by (simp_all add: at_most_def agentic_signal_def)

lemmas at_most_cases = signal_cases [of "at_most rc" for rc]

lemma detector_code_lemmas [detector_codes]:
  "at_most ''paste_or_instant_input'' (paste_or_instant_input f)"
  "at_most ''zero_correction_pattern'' (zero_correction_pattern f)"
  "at_most ''uniform_typing_cadence'' (uniform_typing_cadence f)"
  unfolding paste_or_instant_input_def zero_correction_pattern_def uniform_typing_cadence_def Let_def
  by (simp_all add: at_most_cases)

lemma reading_code [detector_codes]:
  "at_most ''implausible_read_response_time'' (implausible_read_response_time f)"
  unfolding implausible_read_response_time_def Let_def by (simp add: at_most_cases)

lemma agentic_codes [detector_codes]:
  "at_most ''model_thinking_cadence'' (model_thinking_cadence g)"
  "at_most ''burst_pause_action_loop'' (burst_pause_action_loop g)"
  "at_most ''large_instant_input_delta'' (large_instant_input_delta g)"
  "at_most ''low_exploratory_noise'' (low_exploratory_noise g)"
  "at_most ''structured_retry_pattern'' (structured_retry_pattern g)"
  "at_most ''implausible_task_efficiency'' (implausible_task_efficiency g)"
  unfolding model_thinking_cadence_def burst_pause_action_loop_def large_instant_input_delta_def
    low_exploratory_noise_def structured_retry_pattern_def implausible_task_efficiency_def Let_def
  by (simp_all add: at_most_cases)

lemma at_most_length: "at_most rc ss \<Longrightarrow> length ss \<le> 1"
  by (auto simp: at_most_def dest: arg_cong [where f = length])

definition detector_names :: "string list" where
  "detector_names =
    [''implausible_read_response_time'', ''uniform_typing_cadence'', ''paste_or_instant_input'',
     ''zero_correction_pattern'', ''model_thinking_cadence'', ''burst_pause_action_loop'',
     ''large_instant_input_delta'', ''low_exploratory_noise'', ''structured_retry_pattern'',
     ''implausible_task_efficiency'']"

lemma at_most_subseq: "at_most rc ss \<Longrightarrow> subseq (map reason_code ss) [rc]"
  by (auto simp: at_most_def)

lemma subseq_join: "subseq xs [a] \<Longrightarrow> subseq ys bs \<Longrightarrow> subseq (xs @ ys) (a # bs)"
  using list_emb_append_mono [of "(=)" xs "[a]" ys bs] by simp

lemma detector_suite_subseq:
  "subseq (map reason_code (run_human_plausibility_detectors p)) detector_names"
  unfolding run_human_plausibility_detectors_def run_agentic_control_detectors_def detector_names_def
    map_append append_assoc
  by (intro subseq_join at_most_subseq detector_codes)

text \<open>The SDK detector suite reports each of its ten reason codes at most once, in the fixed
  order of the runner, every signal with a confidence in the unit interval and a risk target.\<close>

theorem detector_suite_contract:
  "subseq (map reason_code (run_human_plausibility_detectors p)) detector_names \<and>
   list_all (\<lambda>s. valid_signal s \<and> contribution_target s \<noteq> HumanPresence)
     (run_human_plausibility_detectors p)"
  using detector_suite_subseq human_suite.run_valid human_suite.run_risk
  by (simp add: list_all_iff)

end
