(* ===== verification/Scoring.thy ===== *)
theory Scoring
  imports Detectors "HOL-Library.Multiset"
begin

text \<open>
  The probabilistic scoring model, \<open>truepresence/scoring/model.py\<close> and \<open>weights.py\<close>. The local
  variables of \<open>score_interaction\<close> that later stages read are definitions of their own, in the
  order in which the function computes them.

  The lemmas give the aggregation a closed form that does not mention the order of the signals (a
  product over the categories), from which bounds, order independence and monotonicity follow.
\<close>

section \<open>Weights\<close>

fun severity_weight :: "severity \<Rightarrow> rat" where
  "severity_weight SevLow = 0.25"
| "severity_weight SevMedium = 0.55"
| "severity_weight SevHigh = 0.85"

fun category_weight :: "signal_category \<Rightarrow> rat" where
  "category_weight TimingPlausibility = 0.70"
| "category_weight TypingCadence = 0.65"
| "category_weight InputMethod = 0.60"
| "category_weight PointerBehavior = 0.55"
| "category_weight SessionContinuity = 0.50"
| "category_weight Environment = 0.45"
| "category_weight AgenticBehavior = 0.80"
| "category_weight ExternalProvider = 0.50"

definition base_human_presence :: rat where
  "base_human_presence = 0.58"

section \<open>Human-feature support\<close>

definition typing_support :: "typing_features \<Rightarrow> rat" where
  "typing_support t =
     (case (inter_key_interval_stddev_ms t, characters_per_minute t) of
        (Some stddev, Some cpm) \<Rightarrow>
          if 25 \<le> stddev \<and> stddev \<le> 220 \<and> 80 \<le> cpm \<and> cpm \<le> 420 then 0.09 else 0
      | _ \<Rightarrow> 0)
   + (if or0 (correction_count t) > 0 \<or> or0 (correction_rate t) > 0 then 0.05 else 0)
   + (if or0 (paste_count t) = 0 then 0.03 else 0)
   + (case focus_to_first_input_ms t of Some v \<Rightarrow> if v \<ge> 150 then 0.03 else 0 | None \<Rightarrow> 0)"

definition challenge_support :: "challenge_features \<Rightarrow> rat" where
  "challenge_support c =
     (case (response_latency_ms c, expected_reading_time_ms c) of
        (Some latency, Some expected) \<Rightarrow> if latency \<ge> max 350 (expected * 0.75) then 0.07 else 0
      | _ \<Rightarrow> 0)"

definition pointer_support :: "pointer_features \<Rightarrow> rat" where
  "pointer_support p =
     (case pointer_entropy p of Some v \<Rightarrow> if v \<ge> 0.35 then 0.04 else 0 | None \<Rightarrow> 0)
   + (case click_hesitation_ms p of Some v \<Rightarrow> if v \<ge> 80 then 0.03 else 0 | None \<Rightarrow> 0)
   + (case scroll_cadence_score p of Some v \<Rightarrow> if v \<ge> 0.35 then 0.03 else 0 | None \<Rightarrow> 0)"

definition human_feature_support :: "feature_packet \<Rightarrow> rat" where
  "human_feature_support packet = min 0.30
     ((case pk_typing packet of None \<Rightarrow> 0 | Some t \<Rightarrow> typing_support t)
    + (case pk_challenge packet of None \<Rightarrow> 0 | Some c \<Rightarrow> challenge_support c)
    + (case pk_pointer packet of None \<Rightarrow> 0 | Some p \<Rightarrow> pointer_support p))"

section \<open>Aggregation\<close>

definition product_of_complements :: "rat list \<Rightarrow> rat" where
  "product_of_complements strengths =
     (let result = foldl (\<lambda>result s. result * (1 - clamp s)) 1 strengths in clamp (1 - result))"

definition signal_strength :: "detector_signal \<Rightarrow> rat" where
  "signal_strength s = severity_weight (severity s) * confidence s"

text \<open>\<open>by_cat[cat].append(x)\<close> on a \<open>defaultdict(list)\<close>, which keeps the order of first use.\<close>

fun append_under :: "'k \<Rightarrow> 'v \<Rightarrow> ('k \<times> 'v list) list \<Rightarrow> ('k \<times> 'v list) list" where
  "append_under k v [] = [(k, [v])]"
| "append_under k v ((k', vs) # d) =
     (if k' = k then (k', vs @ [v]) # d else (k', vs) # append_under k v d)"

definition partition_signals ::
    "detector_signal list \<Rightarrow> contribution_target \<Rightarrow> (signal_category \<times> rat list) list" where
  "partition_signals signals target =
     foldl (\<lambda>by_cat s. if contribution_target s = target
                       then append_under (category s) (signal_strength s) by_cat else by_cat)
       [] signals"

definition aggregate_risk :: "(signal_category \<times> rat list) list \<Rightarrow> rat \<times> nat" where
  "aggregate_risk by_category =
     (if by_category = [] then (0, 0)
      else (product_of_complements
              (map (\<lambda>(cat, strengths). category_weight cat * product_of_complements strengths) by_category),
            length by_category))"

definition evidence_sufficiency :: "nat \<Rightarrow> nat \<Rightarrow> rat" where
  "evidence_sufficiency n_categories n_signals =
     (if n_signals = 0 then 0.20
      else let cat_factor = min 1 (of_nat n_categories / 3);
               sig_factor = min 1 (of_nat n_signals / 4)
           in clamp (0.20 + 0.80 * ((cat_factor + sig_factor) / 2)))"

section \<open>The stages of \<open>score_interaction\<close>\<close>

definition target_risk :: "contribution_target \<Rightarrow> detector_signal list \<Rightarrow> rat" where
  "target_risk target signals = fst (aggregate_risk (partition_signals signals target))"

definition target_categories :: "contribution_target \<Rightarrow> detector_signal list \<Rightarrow> nat" where
  "target_categories target signals = snd (aggregate_risk (partition_signals signals target))"

definition total_risk_cats :: "detector_signal list \<Rightarrow> nat" where
  "total_risk_cats signals = target_categories Automation signals + target_categories AgenticControl signals"

definition corroboration_bonus :: "detector_signal list \<Rightarrow> rat" where
  "corroboration_bonus signals =
     clamp (min 0.15 (of_int (max 0 (int (total_risk_cats signals) - 1)) * 0.05))"

definition combined_risk :: "detector_signal list \<Rightarrow> rat" where
  "combined_risk signals =
     clamp (product_of_complements [target_risk Automation signals, target_risk AgenticControl signals]
            + corroboration_bonus signals)"

definition effective_human :: "detector_signal list \<Rightarrow> feature_packet \<Rightarrow> rat" where
  "effective_human signals packet =
     clamp (human_feature_support packet + target_risk HumanPresence signals * 0.5)"

definition supported_risk :: "detector_signal list \<Rightarrow> feature_packet \<Rightarrow> rat" where
  "supported_risk signals packet =
     clamp (combined_risk signals * (1 - effective_human signals packet * 0.6))"

definition contradiction_factor :: "detector_signal list \<Rightarrow> feature_packet \<Rightarrow> rat" where
  "contradiction_factor signals packet =
     (if effective_human signals packet > 0.5 \<and> supported_risk signals packet > 0.5 then 0.20 else 0)"

definition adjusted_risk :: "detector_signal list \<Rightarrow> feature_packet \<Rightarrow> rat" where
  "adjusted_risk signals packet =
     (if effective_human signals packet > 0.5 \<and> supported_risk signals packet > 0.5
      then clamp (supported_risk signals packet * (1 - contradiction_factor signals packet))
      else supported_risk signals packet)"

definition n_risk_signals :: "detector_signal list \<Rightarrow> nat" where
  "n_risk_signals signals =
     length (filter (\<lambda>s. contribution_target s \<in> {Automation, AgenticControl}) signals)"

definition score_confidence :: "detector_signal list \<Rightarrow> feature_packet \<Rightarrow> rat" where
  "score_confidence signals packet =
     clamp (evidence_sufficiency (total_risk_cats signals) (n_risk_signals signals)
            * (1 - contradiction_factor signals packet)
            * (0.5 + adjusted_risk signals packet * 0.5))"

definition recommended_action :: "rat \<Rightarrow> rat \<Rightarrow> recommended_action" where
  "recommended_action risk conf =
     (if risk < 0.30 then (if conf \<ge> 0.50 then Allow else Observe)
      else if risk < 0.50 then (if conf < 0.45 then Observe else SoftChallenge)
      else if risk < 0.70 then (if conf < 0.40 then SoftChallenge else StepUpAuth)
      else if conf < 0.45 then StepUpAuth
      else ManualReview)"

text \<open>The hexadecimal text of the random identifier is an argument.\<close>

definition score_interaction ::
    "detector_signal list \<Rightarrow> feature_packet \<Rightarrow> enforcement_mode \<Rightarrow> string \<Rightarrow> evaluation_response" where
  "score_interaction signals packet mode uuid_hex =
     (let eh = effective_human signals packet;
          ar = adjusted_risk signals packet;
          conf = score_confidence signals packet;
          automation = clamp (target_risk Automation signals * (1 - eh * 0.6));
          agentic = clamp (target_risk AgenticControl signals * (1 - eh * 0.3));
          human = clamp (base_human_presence * (1 - ar) + eh * 0.4)
      in \<lparr>human_presence_likelihood = py_round 4 human,
          automation_likelihood = py_round 4 automation,
          agentic_control_likelihood = py_round 4 agentic,
          resp_confidence = py_round 4 conf,
          resp_reason_codes = sorted_set (map reason_code signals),
          evidence_packet_id = ''ep_'' @ uuid_hex,
          resp_action = recommended_action ar conf,
          resp_enforcement_mode = mode\<rparr>)"

section \<open>Closed form of the aggregation\<close>

text \<open>The complement of \<open>product_of_complements\<close>, as a product.\<close>

definition complements :: "rat list \<Rightarrow> rat" where
  "complements xs = prod_list (map (\<lambda>x. 1 - clamp x) xs)"

lemma foldl_complements: "foldl (\<lambda>r s. r * (1 - clamp s)) a xs = a * complements xs"
  by (induction xs arbitrary: a) (auto simp: complements_def algebra_simps)

lemma in_unit_complements [simp]: "in_unit (complements xs)"
  by (induction xs) (auto simp: complements_def in_unit_mult in_unit_compl, simp add: in_unit_def)

lemma product_of_complements_eq: "product_of_complements xs = 1 - complements xs"
  using in_unit_compl [OF in_unit_complements [of xs]]
  by (simp add: product_of_complements_def foldl_complements)

lemma in_unit_product_of_complements [simp, unit_bounds]: "in_unit (product_of_complements xs)"
  by (simp add: product_of_complements_def)

lemma complements_Nil [simp]: "complements [] = 1"
  by (simp add: complements_def)

lemma complements_Cons [simp]: "complements (x # xs) = (1 - clamp x) * complements xs"
  by (simp add: complements_def)

lemma complements_append: "complements (xs @ ys) = complements xs * complements ys"
  by (simp add: complements_def)

lemma complements_mset: "mset xs = mset ys \<Longrightarrow> complements xs = complements ys"
  unfolding complements_def
  by (metis mset_map prod_mset_prod_list)

lemma complements_ge0: "0 \<le> complements xs"
  using in_unit_complements [of xs] by (simp add: in_unit_def)

lemma complements_Cons_le: "complements (x # xs) \<le> complements xs"
  using complements_ge0 [of xs] clamp_bounds(1) [of x]
  by (simp add: mult_left_le_one_le clamp_bounds)

text \<open>Strengths of the signals of one target in one category.\<close>

definition strengths_in :: "contribution_target \<Rightarrow> signal_category \<Rightarrow> detector_signal list \<Rightarrow> rat list" where
  "strengths_in target cat signals =
     map signal_strength (filter (\<lambda>s. contribution_target s = target \<and> category s = cat) signals)"

definition categories_of :: "contribution_target \<Rightarrow> detector_signal list \<Rightarrow> signal_category set" where
  "categories_of target signals = category ` {s \<in> set signals. contribution_target s = target}"

lemma map_of_append_under:
  "map_of (append_under k v d) k' =
     (if k' = k then Some (case map_of d k of None \<Rightarrow> [v] | Some vs \<Rightarrow> vs @ [v]) else map_of d k')"
  by (induction d) auto

lemma map_fst_append_under:
  "map fst (append_under k v d) = (if k \<in> set (map fst d) then map fst d else map fst d @ [k])"
  by (induction d) (auto simp: rev_image_eqI)

lemma partition_snoc:
  "partition_signals (ss @ [s]) t =
     (if contribution_target s = t
      then append_under (category s) (signal_strength s) (partition_signals ss t)
      else partition_signals ss t)"
  by (simp add: partition_signals_def)

lemma categories_of_snoc:
  "categories_of t (ss @ [s]) =
     (if contribution_target s = t then insert (category s) (categories_of t ss) else categories_of t ss)"
  by (auto simp: categories_of_def)

lemma partition_keys:
  "set (map fst (partition_signals ss t)) = categories_of t ss \<and> distinct (map fst (partition_signals ss t))"
proof (induction ss rule: rev_induct)
  case Nil
  show ?case by (simp add: partition_signals_def categories_of_def)
next
  case (snoc s ss)
  then show ?case
    by (auto simp: partition_snoc categories_of_snoc map_fst_append_under simp del: set_map)
qed

lemma partition_lookup:
  "map_of (partition_signals ss t) c =
     (if c \<in> categories_of t ss then Some (strengths_in t c ss) else None)"
proof (induction ss rule: rev_induct)
  case Nil
  show ?case by (simp add: partition_signals_def categories_of_def)
next
  case (snoc s ss)
  have "strengths_in t c ss = []" if "c \<notin> categories_of t ss"
    using that by (auto simp: strengths_in_def categories_of_def filter_empty_conv)
  with snoc show ?case
    by (auto simp: partition_snoc categories_of_snoc map_of_append_under strengths_in_def)
qed

lemma UNIV_signal_category:
  "(UNIV :: signal_category set) = {TimingPlausibility, TypingCadence, InputMethod, PointerBehavior,
     SessionContinuity, Environment, AgenticBehavior, ExternalProvider}"
  using signal_category.exhaust by blast

lemma finite_signal_category [simp]: "finite (A :: signal_category set)"
  by (rule finite_subset [OF subset_UNIV]) (simp add: UNIV_signal_category)

text \<open>What one category leaves of the complement.\<close>

definition category_complement :: "contribution_target \<Rightarrow> detector_signal list \<Rightarrow> signal_category \<Rightarrow> rat" where
  "category_complement t ss c = 1 - category_weight c * (1 - complements (strengths_in t c ss))"

lemma category_weight_unit: "in_unit (category_weight c)" "0 < category_weight c"
  by (cases c; simp add: in_unit_def)+

lemma in_unit_category_complement [simp]: "in_unit (category_complement t ss c)"
  unfolding category_complement_def
  by (intro in_unit_compl in_unit_mult category_weight_unit in_unit_complements)

lemma category_complement_absent: "c \<notin> categories_of t ss \<Longrightarrow> category_complement t ss c = 1"
proof -
  assume "c \<notin> categories_of t ss"
  then have "strengths_in t c ss = []"
    by (auto simp: strengths_in_def categories_of_def filter_empty_conv)
  then show ?thesis by (simp add: category_complement_def)
qed

lemma clamp_weighted: "clamp (category_weight c * product_of_complements xs) = category_weight c * product_of_complements xs"
  by (intro clamp_id in_unit_mult category_weight_unit in_unit_product_of_complements)

lemma target_risk_closed: "target_risk t ss = 1 - (\<Prod>c\<in>UNIV. category_complement t ss c)"
proof -
  let ?P = "partition_signals ss t"
  let ?f = "\<lambda>(cat, xs). category_weight cat * product_of_complements xs"
  have dist: "distinct (map fst ?P)" and keys: "set (map fst ?P) = categories_of t ss"
    using partition_keys [of ss t] by auto
  have look: "snd kv = strengths_in t (fst kv) ss" if "kv \<in> set ?P" for kv
  proof -
    have "map_of ?P (fst kv) = Some (snd kv)" using that dist by (simp add: map_of_is_SomeI)
    then show ?thesis by (simp add: partition_lookup split: if_splits)
  qed
  have "complements (map ?f ?P) = prod_list (map (\<lambda>kv. category_complement t ss (fst kv)) ?P)"
    unfolding complements_def map_map
    by (rule arg_cong [where f = prod_list], rule map_cong)
      (auto simp: split_beta clamp_weighted [unfolded product_of_complements_eq] category_complement_def
        product_of_complements_eq look)
  also have "\<dots> = prod_list (map (category_complement t ss) (map fst ?P))" by (simp add: o_def)
  also have "\<dots> = (\<Prod>c\<in>set (map fst ?P). category_complement t ss c)"
    using dist by (simp add: prod.distinct_set_conv_list del: set_map)
  also have "\<dots> = (\<Prod>c\<in>UNIV. category_complement t ss c)"
    unfolding keys by (rule prod.mono_neutral_left) (auto simp: category_complement_absent)
  finally have "complements (map ?f ?P) = (\<Prod>c\<in>UNIV. category_complement t ss c)" .
  then show ?thesis
    by (auto simp: target_risk_def aggregate_risk_def product_of_complements_eq)
qed

lemma target_categories_closed: "target_categories t ss = card (categories_of t ss)"
proof -
  have "length (partition_signals ss t) = card (categories_of t ss)"
    using partition_keys [of ss t] by (metis distinct_card length_map)
  then show ?thesis by (auto simp: target_categories_def aggregate_risk_def)
qed

lemma in_unit_prod: "finite A \<Longrightarrow> (\<And>x. x \<in> A \<Longrightarrow> in_unit (f x)) \<Longrightarrow> in_unit (prod f A)"
  by (induction A rule: finite_induct) (auto simp: in_unit_mult, simp add: in_unit_def)

lemma in_unit_target_risk [simp, unit_bounds]: "in_unit (target_risk t ss)"
  unfolding target_risk_closed by (intro in_unit_compl in_unit_prod) simp_all

section \<open>Order independence\<close>

lemma strengths_mset: "mset ss = mset ss' \<Longrightarrow> mset (strengths_in t c ss) = mset (strengths_in t c ss')"
  by (simp add: strengths_in_def)

lemma target_risk_mset:
  assumes "mset ss = mset ss'"
  shows "target_risk t ss = target_risk t ss'"
proof -
  have "complements (strengths_in t c ss) = complements (strengths_in t c ss')" for c
    by (rule complements_mset [OF strengths_mset [OF assms]])
  then show ?thesis by (simp add: target_risk_closed category_complement_def)
qed

lemma target_categories_mset: "mset ss = mset ss' \<Longrightarrow> target_categories t ss = target_categories t ss'"
  by (simp add: target_categories_closed categories_of_def) (metis set_mset_mset)

lemma n_risk_mset: "mset ss = mset ss' \<Longrightarrow> n_risk_signals ss = n_risk_signals ss'"
  unfolding n_risk_signals_def by (metis mset_filter size_mset)

lemmas stage_defs = total_risk_cats_def corroboration_bonus_def combined_risk_def effective_human_def
  supported_risk_def contradiction_factor_def adjusted_risk_def score_confidence_def

lemma score_stages_mset:
  assumes "mset ss = mset ss'"
  shows "effective_human ss p = effective_human ss' p" "adjusted_risk ss p = adjusted_risk ss' p"
    "score_confidence ss p = score_confidence ss' p"
  unfolding stage_defs Let_def target_risk_mset [OF assms] target_categories_mset [OF assms]
    n_risk_mset [OF assms]
  by (rule refl)+

section \<open>Bounds of the stages\<close>

lemma in_unit_effective_human [simp, unit_bounds]: "in_unit (effective_human ss p)"
  by (simp add: effective_human_def)

lemma in_unit_supported_risk [simp, unit_bounds]: "in_unit (supported_risk ss p)"
  by (simp add: supported_risk_def)

lemma in_unit_adjusted_risk [simp, unit_bounds]: "in_unit (adjusted_risk ss p)"
  by (simp add: adjusted_risk_def)

lemma in_unit_score_confidence [simp, unit_bounds]: "in_unit (score_confidence ss p)"
  by (simp add: score_confidence_def)

lemma human_feature_support_bounds: "0 \<le> human_feature_support p" "human_feature_support p \<le> 0.3"
proof -
  have "0 \<le> typing_support t" for t
    by (auto simp: typing_support_def split: option.splits)
  moreover have "0 \<le> challenge_support c" for c
    by (auto simp: challenge_support_def split: option.splits)
  moreover have "0 \<le> pointer_support q" for q
    by (auto simp: pointer_support_def split: option.splits)
  ultimately show "0 \<le> human_feature_support p"
    by (auto simp: human_feature_support_def split: option.splits intro!: add_nonneg_nonneg)
  show "human_feature_support p \<le> 0.3"
    unfolding human_feature_support_def min_def by simp
qed

lemma evidence_sufficiency_bounds:
  "0.2 \<le> evidence_sufficiency c n" "evidence_sufficiency c n \<le> 1"
  by (auto simp: evidence_sufficiency_def Let_def clamp_def min_def max_def field_simps)

section \<open>Monotonicity in the evidence\<close>

lemma strengths_in_Cons:
  "strengths_in t c (s # ss) =
     (if contribution_target s = t \<and> category s = c then signal_strength s # strengths_in t c ss
      else strengths_in t c ss)"
  by (simp add: strengths_in_def)

lemma category_complement_Cons: "category_complement t (s # ss) c \<le> category_complement t ss c"
proof -
  have "complements (strengths_in t c (s # ss)) \<le> complements (strengths_in t c ss)"
    unfolding strengths_in_Cons using complements_Cons_le by simp
  then show ?thesis
    unfolding category_complement_def using category_weight_unit(2) [of c]
    by (simp add: mult_left_mono less_imp_le)
qed

lemma target_risk_Cons: "target_risk t ss \<le> target_risk t (s # ss)"
proof -
  have "(\<Prod>c\<in>UNIV. category_complement t (s # ss) c) \<le> (\<Prod>c\<in>UNIV. category_complement t ss c)"
    by (rule prod_mono)
      (use in_unit_category_complement [of t "s # ss"] category_complement_Cons [of t s ss]
        in \<open>auto simp: in_unit_def\<close>)
  then show ?thesis by (simp add: target_risk_closed)
qed

lemma target_risk_other: "contribution_target s \<noteq> t \<Longrightarrow> target_risk t (s # ss) = target_risk t ss"
  by (simp add: target_risk_closed category_complement_def strengths_in_Cons)

lemma target_categories_Cons: "target_categories t ss \<le> target_categories t (s # ss)"
  unfolding target_categories_closed by (rule card_mono) (auto simp: categories_of_def)

lemma total_risk_cats_Cons: "total_risk_cats ss \<le> total_risk_cats (s # ss)"
  unfolding total_risk_cats_def by (intro add_mono target_categories_Cons)

lemma product_of_complements_mono2:
  assumes "in_unit a" "in_unit b" "in_unit a'" "in_unit b'" "a \<le> a'" "b \<le> b'"
  shows "product_of_complements [a, b] \<le> product_of_complements [a', b']"
proof -
  have "(1 - a') * (1 - b') \<le> (1 - a) * (1 - b)"
    by (rule mult_mono) (use assms in \<open>auto simp: in_unit_def\<close>)
  with assms show ?thesis by (simp add: product_of_complements_eq)
qed

lemma corroboration_bonus_mono:
  "total_risk_cats ss \<le> total_risk_cats ss' \<Longrightarrow> corroboration_bonus ss \<le> corroboration_bonus ss'"
  unfolding corroboration_bonus_def by (intro clamp_mono min.mono) auto

lemma combined_risk_Cons: "combined_risk ss \<le> combined_risk (s # ss)"
  unfolding combined_risk_def
  by (intro clamp_mono add_mono product_of_complements_mono2 target_risk_Cons
      in_unit_target_risk corroboration_bonus_mono total_risk_cats_Cons)

lemma effective_human_other:
  "contribution_target s \<noteq> HumanPresence \<Longrightarrow> effective_human (s # ss) p = effective_human ss p"
  by (simp add: effective_human_def target_risk_other)

lemma human_discount_bounds:
  "0 \<le> 1 - effective_human ss p * 0.6" "0 \<le> 1 - effective_human ss p * 0.3"
  using in_unit_effective_human [of ss p] by (auto simp: in_unit_def)

lemma supported_risk_Cons:
  "contribution_target s \<noteq> HumanPresence \<Longrightarrow> supported_risk ss p \<le> supported_risk (s # ss) p"
  unfolding supported_risk_def
  by (simp add: effective_human_other clamp_mono mult_right_mono combined_risk_Cons
      human_discount_bounds(1) [simplified])

lemma evidence_sufficiency_mono:
  assumes "c \<le> c'" and "n \<le> n'"
  shows "evidence_sufficiency c n \<le> evidence_sufficiency c' n'"
proof (cases "n = 0")
  case True
  then show ?thesis using evidence_sufficiency_bounds(1) [of c' n']
    by (simp add: evidence_sufficiency_def)
next
  case False
  have "min 1 (of_nat c / 3 :: rat) \<le> min 1 (of_nat c' / 3)"
    "min 1 (of_nat n / 4 :: rat) \<le> min 1 (of_nat n' / 4)"
    using assms by (intro min.mono divide_right_mono; simp)+
  then show ?thesis
    using False assms by (auto simp: evidence_sufficiency_def Let_def intro!: clamp_mono)
qed

lemma n_risk_signals_Cons: "n_risk_signals ss \<le> n_risk_signals (s # ss)"
  by (simp add: n_risk_signals_def)

text \<open>Without strong human evidence there is no contradiction penalty.\<close>

lemma no_contradiction:
  assumes "effective_human ss p \<le> 0.5"
  shows "contradiction_factor ss p = 0" "adjusted_risk ss p = supported_risk ss p"
  using assms by (auto simp: contradiction_factor_def adjusted_risk_def)

lemma confidence_product_mono:
  assumes "0 \<le> (a::rat)" "a \<le> a'" "0 \<le> r" "r \<le> r'"
  shows "a * (0.5 + r * 0.5) \<le> a' * (0.5 + r' * 0.5)"
  by (rule mult_mono) (use assms in auto)

lemma score_confidence_Cons:
  assumes "effective_human ss p \<le> 0.5" and "contribution_target s \<noteq> HumanPresence"
  shows "score_confidence ss p \<le> score_confidence (s # ss) p"
proof -
  have eh: "effective_human (s # ss) p \<le> 0.5" using assms by (simp add: effective_human_other)
  have "evidence_sufficiency (total_risk_cats ss) (n_risk_signals ss)
      \<le> evidence_sufficiency (total_risk_cats (s # ss)) (n_risk_signals (s # ss))"
    by (intro evidence_sufficiency_mono total_risk_cats_Cons n_risk_signals_Cons)
  moreover have "supported_risk ss p \<le> supported_risk (s # ss) p"
    by (rule supported_risk_Cons [OF assms(2)])
  moreover have "0 \<le> supported_risk ss p" using in_unit_supported_risk by (simp add: in_unit_def)
  moreover have "0 \<le> evidence_sufficiency (total_risk_cats ss) (n_risk_signals ss)"
    using evidence_sufficiency_bounds(1) [of "total_risk_cats ss" "n_risk_signals ss"] by simp
  ultimately show ?thesis
    unfolding score_confidence_def no_contradiction [OF assms(1)] no_contradiction [OF eh]
    by (intro clamp_mono) (simp only: diff_zero mult_1_right, rule confidence_product_mono)
qed

section \<open>How many signals an \<open>allow\<close> needs\<close>

lemma target_categories_le: "target_categories t ss \<le> length (filter (\<lambda>s. contribution_target s = t) ss)"
proof -
  have "categories_of t ss = category ` set (filter (\<lambda>s. contribution_target s = t) ss)"
    by (auto simp: categories_of_def)
  then show ?thesis unfolding target_categories_closed
    by (metis card_image_le card_length le_trans List.finite_set)
qed

lemma n_risk_split:
  "n_risk_signals ss = length (filter (\<lambda>s. contribution_target s = Automation) ss)
     + length (filter (\<lambda>s. contribution_target s = AgenticControl) ss)"
  by (induction ss) (auto simp: n_risk_signals_def)

lemma total_risk_cats_le: "total_risk_cats ss \<le> n_risk_signals ss"
  unfolding total_risk_cats_def n_risk_split by (intro add_mono target_categories_le)

lemma low_risk_uncontradicted:
  assumes "adjusted_risk ss p < 0.3"
  shows "contradiction_factor ss p = 0" "adjusted_risk ss p = supported_risk ss p"
proof -
  have "\<not> (effective_human ss p > 0.5 \<and> supported_risk ss p > 0.5)"
  proof
    assume h: "effective_human ss p > 0.5 \<and> supported_risk ss p > 0.5"
    then have "adjusted_risk ss p = clamp (supported_risk ss p * 0.8)"
      by (simp add: adjusted_risk_def contradiction_factor_def)
    moreover have "clamp (0.4 :: rat) \<le> clamp (supported_risk ss p * 0.8)"
      by (rule clamp_mono) (use h in simp)
    ultimately show False using assms by (simp add: clamp_def)
  qed
  then show "contradiction_factor ss p = 0" "adjusted_risk ss p = supported_risk ss p"
    by (auto simp: contradiction_factor_def adjusted_risk_def)
qed

lemma recommended_action_allow: "recommended_action r c = Allow \<longleftrightarrow> r < 0.3 \<and> 0.5 \<le> c"
  by (auto simp: recommended_action_def)

lemma allow_sufficiency:
  assumes "recommended_action (adjusted_risk ss p) (score_confidence ss p) = Allow"
  shows "10 / 13 < evidence_sufficiency (total_risk_cats ss) (n_risk_signals ss)"
proof -
  let ?e = "evidence_sufficiency (total_risk_cats ss) (n_risk_signals ss)"
  have r: "adjusted_risk ss p < 0.3" and c: "0.5 \<le> score_confidence ss p"
    using assms by (simp_all add: recommended_action_allow)
  have e0: "0 < ?e" using evidence_sufficiency_bounds(1) [of "total_risk_cats ss" "n_risk_signals ss"] by simp
  have r0: "0 \<le> adjusted_risk ss p" using in_unit_adjusted_risk by (simp add: in_unit_def)
  have "score_confidence ss p = clamp (?e * (0.5 + adjusted_risk ss p * 0.5))"
    by (simp add: score_confidence_def low_risk_uncontradicted(1) [OF r])
  also have "\<dots> \<le> ?e * (0.5 + adjusted_risk ss p * 0.5)"
    by (rule clamp_le) (use e0 r0 in auto)
  also have "\<dots> < ?e * 0.65"
    by (rule mult_strict_left_mono [OF _ e0]) (use r in simp)
  finally show ?thesis using c by simp
qed

lemma sufficiency_two:
  assumes "c \<le> n" and "n \<le> 2"
  shows "evidence_sufficiency c n \<le> 2 / 3"
proof -
  have "evidence_sufficiency c n \<le> evidence_sufficiency 2 2"
    by (rule evidence_sufficiency_mono) (use assms in auto)
  also have "\<dots> = 2 / 3" by (simp add: evidence_sufficiency_def clamp_def Let_def)
  finally show ?thesis .
qed

lemma allow_needs_three:
  assumes "recommended_action (adjusted_risk ss p) (score_confidence ss p) = Allow"
  shows "3 \<le> n_risk_signals ss"
proof (rule ccontr)
  assume "\<not> 3 \<le> n_risk_signals ss"
  then have "evidence_sufficiency (total_risk_cats ss) (n_risk_signals ss) \<le> 2 / 3"
    by (intro sufficiency_two total_risk_cats_le) simp
  with allow_sufficiency [OF assms] show False by simp
qed

section \<open>Properties\<close>

definition empty_packet :: feature_packet where
  "empty_packet = \<lparr>pk_surface = ''web'', pk_site_id = None, pk_tenant_id = None, pk_session_id = None,
     pk_page_context = [], pk_typing = None, pk_pointer = None, pk_challenge = None, pk_agentic = None,
     pk_session_continuity = None, pk_environment = None, pk_external_risk_provider = [],
     pk_metadata = []\<rparr>"

definition sample_signal :: "contribution_target \<Rightarrow> signal_category \<Rightarrow> detector_signal" where
  "sample_signal t c = mk_signal ''sample'' SevLow 0.1 t [] c"

text \<open>Whatever signals and features it is given, the scorer returns a response whose four
  likelihoods lie in the unit interval, with sorted, duplicate-free reason codes naming exactly the
  signals.\<close>

theorem score_response_valid:
  "valid_response (score_interaction ss p mode uid) \<and>
   sorted (resp_reason_codes (score_interaction ss p mode uid)) \<and>
   distinct (resp_reason_codes (score_interaction ss p mode uid)) \<and>
   set (resp_reason_codes (score_interaction ss p mode uid)) = reason_code ` set ss"
  by (simp add: score_interaction_def Let_def valid_response_def in_unit_py_round)

text \<open>In exact arithmetic the score does not depend on the order in which the detectors report. In floating point it
  does: sums round differently in different orders, and a score at a threshold may fall on either side.\<close>

theorem score_order_independent:
  assumes "mset ss = mset ss'"
  shows "score_interaction ss p mode uid = score_interaction ss' p mode uid"
proof -
  have "set (map reason_code ss) = set (map reason_code ss')"
    using mset_eq_setD [OF assms] by simp
  then have "sorted_set (map reason_code ss) = sorted_set (map reason_code ss')"
    by (rule sorted_set_cong)
  then show ?thesis
    by (simp only: score_interaction_def score_stages_mset [OF assms] target_risk_mset [OF assms])
qed

theorem score_order_independent_witness:
  "score_interaction [sample_signal Automation InputMethod, sample_signal AgenticControl AgenticBehavior]
     empty_packet ObserveMode [] =
   score_interaction [sample_signal AgenticControl AgenticBehavior, sample_signal Automation InputMethod]
     empty_packet ObserveMode []"
  by (rule score_order_independent) simp

text \<open>The agentic-control likelihood is derived from agentic signals and human evidence only:
  automation signals, however many, do not spill over into it.\<close>

theorem agentic_likelihood_no_spillover:
  assumes "filter (\<lambda>s. contribution_target s \<noteq> Automation) ss = filter (\<lambda>s. contribution_target s \<noteq> Automation) ss'"
  shows "agentic_control_likelihood (score_interaction ss p mode uid) =
         agentic_control_likelihood (score_interaction ss' p mode uid)"
proof -
  have "strengths_in t c ss = strengths_in t c ss'" if "t \<noteq> Automation" for t c
  proof -
    have *: "strengths_in t c xs = strengths_in t c (filter (\<lambda>s. contribution_target s \<noteq> Automation) xs)" for xs
      using that by (auto simp: strengths_in_def intro!: filter_cong arg_cong [where f = "map signal_strength"])
    show ?thesis using * [of ss] * [of ss'] assms by simp
  qed
  then have "target_risk t ss = target_risk t ss'" if "t \<noteq> Automation" for t
    using that by (simp add: target_risk_closed category_complement_def)
  then show ?thesis by (simp add: score_interaction_def Let_def effective_human_def)
qed

theorem agentic_likelihood_no_spillover_witness:
  "agentic_control_likelihood (score_interaction
      [sample_signal Automation InputMethod, sample_signal AgenticControl AgenticBehavior] empty_packet Enforce []) =
   agentic_control_likelihood (score_interaction
      [sample_signal AgenticControl AgenticBehavior] empty_packet Enforce [])"
  by (rule agentic_likelihood_no_spillover) (simp add: sample_signal_def)

text \<open>For a fixed confidence the recommended action never becomes less restrictive when the risk
  grows.\<close>

theorem recommended_action_mono_risk: "r \<le> r' \<Longrightarrow> recommended_action r c \<le> recommended_action r' c"
  by (auto simp: recommended_action_def less_eq_recommended_action_def)

theorem recommended_action_mono_risk_witness: "recommended_action 0.2 0.6 \<le> recommended_action 0.9 0.6"
  by (rule recommended_action_mono_risk) simp

text \<open>Adding a risk signal never lowers the adjusted risk, the confidence or the two risk
  likelihoods, as long as the human evidence does not exceed one half.\<close>

theorem evidence_is_monotone:
  assumes "contribution_target s \<noteq> HumanPresence" and "effective_human ss p \<le> 0.5"
  shows "adjusted_risk ss p \<le> adjusted_risk (s # ss) p \<and>
         score_confidence ss p \<le> score_confidence (s # ss) p \<and>
         automation_likelihood (score_interaction ss p mode uid) \<le>
           automation_likelihood (score_interaction (s # ss) p mode uid) \<and>
         agentic_control_likelihood (score_interaction ss p mode uid) \<le>
           agentic_control_likelihood (score_interaction (s # ss) p mode uid)"
proof -
  have eh: "effective_human (s # ss) p = effective_human ss p"
    using assms(1) by (rule effective_human_other)
  have "adjusted_risk ss p \<le> adjusted_risk (s # ss) p"
    using supported_risk_Cons [OF assms(1)] no_contradiction(2) assms(2) eh by simp
  then show ?thesis
    using score_confidence_Cons [OF assms(2,1)] human_discount_bounds [of ss p]
    by (simp add: score_interaction_def Let_def eh py_round_mono clamp_mono mult_right_mono target_risk_Cons)
qed

theorem evidence_is_monotone_witness:
  "adjusted_risk [] empty_packet \<le> adjusted_risk [sample_signal Automation InputMethod] empty_packet"
proof -
  have "effective_human [] empty_packet \<le> 0.5" by code_simp
  moreover have "contribution_target (sample_signal Automation InputMethod) \<noteq> HumanPresence"
    by (simp add: sample_signal_def)
  ultimately show ?thesis
    using evidence_is_monotone [of "sample_signal Automation InputMethod" "[]" empty_packet] by blast
qed

text \<open>The scorer recommends \<open>allow\<close> only when at least three risk signals fired: a session
  without any adverse evidence is never allowed outright.\<close>

theorem allow_needs_risk_evidence:
  "resp_action (score_interaction ss p mode uid) = Allow \<Longrightarrow> 3 \<le> n_risk_signals ss"
  by (simp add: score_interaction_def Let_def allow_needs_three)

definition allowed_signals :: "detector_signal list" where
  "allowed_signals = [sample_signal Automation InputMethod, sample_signal Automation TypingCadence,
     sample_signal AgenticControl AgenticBehavior, sample_signal AgenticControl AgenticBehavior]"

lemma allowed_signals_risk:
  "target_risk Automation allowed_signals = 4961 / 160000"
  "target_risk HumanPresence allowed_signals = 0"
  "target_risk AgenticControl allowed_signals = 79 / 2000"
  "target_categories Automation allowed_signals = 2"
  "target_categories AgenticControl allowed_signals = 1"
  "n_risk_signals allowed_signals = 4"
  by (simp_all add: allowed_signals_def sample_signal_def mk_signal_def target_risk_def
      target_categories_def partition_signals_def aggregate_risk_def product_of_complements_def
      signal_strength_def clamp_def n_risk_signals_def)

theorem allow_needs_risk_evidence_witness:
  "resp_action (score_interaction allowed_signals empty_packet ObserveMode []) = Allow \<and>
   3 \<le> n_risk_signals allowed_signals"
proof -
  have "recommended_action (adjusted_risk allowed_signals empty_packet)
      (score_confidence allowed_signals empty_packet) = Allow"
    by (simp add: stage_defs allowed_signals_risk human_feature_support_def empty_packet_def
        product_of_complements_def clamp_def evidence_sufficiency_def recommended_action_def)
  then have "resp_action (score_interaction allowed_signals empty_packet ObserveMode []) = Allow"
    by (simp add: score_interaction_def Let_def)
  with allow_needs_risk_evidence show ?thesis by blast
qed

end
