(* ===== verification/Artifacts.thy ===== *)
theory Artifacts
  imports Scoring
begin

text \<open>
  SDK evidence artifacts, \<open>truepresence/evidence/sdk_artifacts.py\<close>: the artifact record, the scan
  that keeps raw content out of it, the in-memory store, and the construction of an artifact from an
  evaluated packet. What an evaluation relies on from a store is the locale \<open>artifact_store\<close>; the
  in-memory store is its model. The SQL store only forwards to a database and is not modelled.
\<close>

section \<open>The artifact and its minimization scan\<close>

record sdk_artifact =
  art_packet_id :: string
  art_session_id :: string
  art_tenant_id :: string
  art_surface :: string
  art_created_at :: string
  art_feature_summaries :: dict
  art_detector_signals :: "pv list"
  art_reason_codes :: "string list"
  art_likelihoods :: "(string \<times> rat) list"
  art_confidence :: rat
  art_recommended_action :: string
  art_scoring_metadata :: dict

definition forbidden_key_names :: "string list" where
  "forbidden_key_names =
    [''caption'', ''card_number'', ''clientx'', ''file_id'', ''file_url'', ''key_values'', ''keys'',
     ''media_url'', ''message_text'', ''password'', ''raw_input'', ''raw_pointer_trail'',
     ''raw_text'', ''raw_value'', ''ssn'', ''thumbnail'', ''typed_text'']"

definition forbidden_value_fragments :: "string list" where
  "forbidden_value_fragments =
    [''card_number'', ''file_url'', ''key_values'', ''media_url'', ''message_text'',
     ''private message'', ''raw pointer trail'', ''raw_text'', ''thumbnail'', ''typed_text'']"

definition normalize_artifact_key :: "string \<Rightarrow> string" where
  "normalize_artifact_key k = replace_char (CHR ''-'') (CHR ''_'') (lower (strip k))"

definition forbidden_text :: "string \<Rightarrow> bool" where
  "forbidden_text s =
     (let n = replace_char (CHR ''-'') (CHR ''_'') (lower s) in
      list_ex (\<lambda>f. str_contains f n) forbidden_value_fragments)"

text \<open>The scan stops at the first violation and returns its path.\<close>

fun scan_raw :: "pv \<Rightarrow> string \<Rightarrow> string option"
  and scan_raw_items :: "dict \<Rightarrow> string \<Rightarrow> string option"
  and scan_raw_elems :: "pv list \<Rightarrow> nat \<Rightarrow> string \<Rightarrow> string option" where
  "scan_raw (PDict kvs) path = scan_raw_items kvs path"
| "scan_raw (PList xs) path = scan_raw_elems xs 0 path"
| "scan_raw (PStr s) path =
     (if forbidden_text s then Some (if path \<noteq> [] then path else ''<value>'') else None)"
| "scan_raw _ path = None"
| "scan_raw_items [] path = None"
| "scan_raw_items ((k, v) # kvs) path =
     (let child = (if path \<noteq> [] then path @ ''.'' @ k else k) in
      if normalize_artifact_key k \<in> set forbidden_key_names then Some child
      else case scan_raw v child of Some violation \<Rightarrow> Some violation | None \<Rightarrow> scan_raw_items kvs path)"
| "scan_raw_elems [] i path = None"
| "scan_raw_elems (x # xs) i path =
     (case scan_raw x (path @ ''['' @ nat_str i @ '']'') of
        Some violation \<Rightarrow> Some violation
      | None \<Rightarrow> scan_raw_elems xs (Suc i) path)"

definition dump_artifact :: "sdk_artifact \<Rightarrow> pv" where
  "dump_artifact a = PDict
    [(''evidence_packet_id'', PStr (art_packet_id a)),
     (''session_id'', PStr (art_session_id a)),
     (''tenant_id'', PStr (art_tenant_id a)),
     (''surface'', PStr (art_surface a)),
     (''created_at'', PStr (art_created_at a)),
     (''feature_summaries'', PDict (art_feature_summaries a)),
     (''detector_signals'', PList (art_detector_signals a)),
     (''reason_codes'', PList (map PStr (art_reason_codes a))),
     (''likelihoods'', PDict (map (\<lambda>(k, q). (k, PFloat q)) (art_likelihoods a))),
     (''confidence'', PFloat (art_confidence a)),
     (''recommended_action'', PStr (art_recommended_action a)),
     (''scoring_metadata'', PDict (art_scoring_metadata a))]"

definition ensure_sdk_artifact_minimized :: "sdk_artifact \<Rightarrow> unit res" where
  "ensure_sdk_artifact_minimized a =
     (case scan_raw (dump_artifact a) [] of
        Some violation \<Rightarrow>
          Inl (ValueError (''SDK evidence artifact contains disallowed raw-content field: '' @ violation))
      | None \<Rightarrow> Inr ())"

section \<open>The in-memory store\<close>

type_synonym store = "(string \<times> sdk_artifact) list"

definition store_put :: "store \<Rightarrow> sdk_artifact \<Rightarrow> store res" where
  "store_put st a =
     bind_res (ensure_sdk_artifact_minimized a) (\<lambda>_. Inr (dset (art_packet_id a) a st))"

definition store_get :: "store \<Rightarrow> string \<Rightarrow> sdk_artifact option" where
  "store_get st k = map_of st k"

text \<open>\<open>xs[:limit]\<close>: a negative limit drops from the end.\<close>

definition py_take :: "int \<Rightarrow> 'a list \<Rightarrow> 'a list" where
  "py_take n xs = (if 0 \<le> n then take (nat n) xs else take (length xs - nat (- n)) xs)"

definition sort_desc :: "('a \<Rightarrow> 'b::linorder) \<Rightarrow> 'a list \<Rightarrow> 'a list" where
  "sort_desc f xs = rev (sort_key f (rev xs))"

definition store_list_recent :: "store \<Rightarrow> string option \<Rightarrow> int \<Rightarrow> sdk_artifact list" where
  "store_list_recent st tenant limit =
     (let artifacts = map snd st;
          selected = (case tenant of
             Some t \<Rightarrow> if t \<noteq> [] then filter (\<lambda>a. art_tenant_id a = t) artifacts else artifacts
           | None \<Rightarrow> artifacts)
      in py_take limit (sort_desc art_created_at selected))"

definition store_clear :: "store \<Rightarrow> store" where
  "store_clear st = []"

definition store_count :: "store \<Rightarrow> nat" where
  "store_count st = length st"

section \<open>Building an artifact\<close>

fun severity_str :: "severity \<Rightarrow> string" where
  "severity_str SevLow = ''low''"
| "severity_str SevMedium = ''medium''"
| "severity_str SevHigh = ''high''"

fun target_str :: "contribution_target \<Rightarrow> string" where
  "target_str HumanPresence = ''human_presence''"
| "target_str Automation = ''automation''"
| "target_str AgenticControl = ''agentic_control''"

fun category_str :: "signal_category \<Rightarrow> string" where
  "category_str TimingPlausibility = ''timing_plausibility''"
| "category_str TypingCadence = ''typing_cadence''"
| "category_str InputMethod = ''input_method''"
| "category_str PointerBehavior = ''pointer_behavior''"
| "category_str SessionContinuity = ''session_continuity''"
| "category_str Environment = ''environment''"
| "category_str AgenticBehavior = ''agentic_behavior''"
| "category_str ExternalProvider = ''external_provider''"

definition dump_signal :: "detector_signal \<Rightarrow> pv" where
  "dump_signal s = PDict
    [(''reason_code'', PStr (reason_code s)),
     (''severity'', PStr (severity_str (severity s))),
     (''confidence'', PFloat (confidence s)),
     (''contribution_target'', PStr (target_str (contribution_target s))),
     (''category'', PStr (category_str (category s))),
     (''explanation'', PStr (explanation s))]"

definition feature_summary_sections :: "string list" where
  "feature_summary_sections =
    [''typing'', ''challenge'', ''pointer'', ''agentic'', ''environment'', ''session_continuity'',
     ''external_risk_provider'', ''page_context'', ''metadata'']"

text \<open>\<open>model_dump(exclude_none=True)\<close> drops the absent fields of every model; the free-form
  dictionaries keep their items.\<close>

fun drop_none :: "pv \<Rightarrow> pv" where
  "drop_none (PDict kvs) = PDict (filter (\<lambda>(k, v). v \<noteq> PNone) kvs)"
| "drop_none v = v"

definition compact_packet :: "feature_packet \<Rightarrow> dict" where
  "compact_packet p = filter (\<lambda>(k, v). v \<noteq> PNone)
     (map (\<lambda>(k, v).
        (k, if k = ''page_context'' \<or> k = ''metadata'' then v
            else if k = ''external_risk_provider''
            then PList (map (drop_none \<circ> dump_external) (pk_external_risk_provider p))
            else drop_none v)) (dump_packet p))"

definition feature_summaries :: "feature_packet \<Rightarrow> dict" where
  "feature_summaries p =
     map (\<lambda>section. (section, dget (compact_packet p) section))
       (filter (\<lambda>section. dget (compact_packet p) section \<notin> {PNone, PDict [], PList []})
          feature_summary_sections)"

definition str_or :: "string option \<Rightarrow> string \<Rightarrow> string" where
  "str_or x d = (case x of None \<Rightarrow> d | Some s \<Rightarrow> if s = [] then d else s)"

definition build_sdk_evidence_artifact ::
    "feature_packet \<Rightarrow> evaluation_response \<Rightarrow> detector_signal list \<Rightarrow> enforcement_mode \<Rightarrow> string \<Rightarrow> sdk_artifact" where
  "build_sdk_evidence_artifact packet response signals mode now =
    \<lparr>art_packet_id = evidence_packet_id response,
     art_session_id = str_or (pk_session_id packet) [],
     art_tenant_id = str_or (pk_tenant_id packet) ''default'',
     art_surface = str_or (Some (pk_surface packet)) ''web'',
     art_created_at = now,
     art_feature_summaries = feature_summaries packet,
     art_detector_signals = map dump_signal signals,
     art_reason_codes = resp_reason_codes response,
     art_likelihoods =
       [(''human_presence_likelihood'', human_presence_likelihood response),
        (''automation_likelihood'', automation_likelihood response),
        (''agentic_control_likelihood'', agentic_control_likelihood response)],
     art_confidence = resp_confidence response,
     art_recommended_action = action_str (resp_action response),
     art_scoring_metadata =
       [(''model'', PStr ''deterministic_probabilistic_v1''),
        (''aggregation'', PStr ''category_aware_product_of_complements''),
        (''enforcement_mode'', PStr (mode_str mode)),
        (''detector_signal_count'', PInt (int (length signals))),
        (''reason_code_count'', PInt (int (length (resp_reason_codes response))))]\<rparr>"

definition persist_sdk_evidence_artifact ::
    "store \<Rightarrow> feature_packet \<Rightarrow> evaluation_response \<Rightarrow> detector_signal list \<Rightarrow> enforcement_mode \<Rightarrow> string
     \<Rightarrow> (sdk_artifact \<times> store) res" where
  "persist_sdk_evidence_artifact st packet response signals mode now =
     (let a = build_sdk_evidence_artifact packet response signals mode now in
      bind_res (store_put st a) (\<lambda>st'. Inr (a, st')))"

section \<open>The store contract\<close>

text \<open>A sequence of writes, which stops at the first rejected one.\<close>

fun put_all :: "('s \<Rightarrow> 'a \<Rightarrow> 's res) \<Rightarrow> 's \<Rightarrow> 'a list \<Rightarrow> 's res" where
  "put_all put st [] = Inr st"
| "put_all put st (a # as) = bind_res (put st a) (\<lambda>st'. put_all put st' as)"

locale artifact_store =
  fixes empty :: 's
    and put :: "'s \<Rightarrow> 'a \<Rightarrow> 's res"
    and get :: "'s \<Rightarrow> string \<Rightarrow> 'a option"
    and ident :: "'a \<Rightarrow> string"
    and minimized :: "'a \<Rightarrow> bool"
  assumes get_empty: "get empty k = None"
    and put_accepts: "(\<exists>st'. put st a = Inr st') \<longleftrightarrow> minimized a"
    and get_put: "put st a = Inr st' \<Longrightarrow> get st' k = (if k = ident a then Some a else get st k)"
begin

definition faithful :: "'s \<Rightarrow> bool" where
  "faithful st \<longleftrightarrow> (\<forall>k a. get st k = Some a \<longrightarrow> minimized a \<and> ident a = k)"

lemma faithful_empty: "faithful empty"
  by (simp add: faithful_def get_empty)

lemma faithful_put: "faithful st \<Longrightarrow> put st a = Inr st' \<Longrightarrow> faithful st'"
  using put_accepts get_put by (fastforce simp: faithful_def split: if_splits)

lemma faithful_put_all: "faithful st \<Longrightarrow> put_all put st as = Inr st' \<Longrightarrow> faithful st'"
  by (induction as arbitrary: st) (auto simp: bind_res_eq_Inr intro: faithful_put)

lemma stored_is_minimized:
  "put_all put empty as = Inr st \<Longrightarrow> get st k = Some a \<Longrightarrow> minimized a \<and> ident a = k"
  using faithful_put_all [OF faithful_empty] by (auto simp: faithful_def)

lemma put_all_rejects: "put_all put st as = Inr st' \<Longrightarrow> a \<in> set as \<Longrightarrow> minimized a"
  using put_accepts by (induction as arbitrary: st) (auto simp: bind_res_eq_Inr)

lemma put_put_same: "put st a = Inr st1 \<Longrightarrow> put st1 b = Inr st2 \<Longrightarrow> ident b = ident a \<Longrightarrow>
    get st2 k = (if k = ident a then Some b else get st k)"
  by (simp add: get_put)

end

definition artifact_minimized :: "sdk_artifact \<Rightarrow> bool" where
  "artifact_minimized a = (scan_raw (dump_artifact a) [] = None)"

lemma ensure_minimized_Inr: "ensure_sdk_artifact_minimized a = Inr () \<longleftrightarrow> artifact_minimized a"
  by (simp add: ensure_sdk_artifact_minimized_def artifact_minimized_def split: option.split)

lemma store_put_Inr: "store_put st a = Inr st' \<longleftrightarrow> artifact_minimized a \<and> st' = dset (art_packet_id a) a st"
  by (auto simp: store_put_def bind_res_eq_Inr ensure_minimized_Inr)

interpretation memory_store:
  artifact_store "[]" store_put store_get art_packet_id artifact_minimized
  by unfold_locales (auto simp: store_get_def store_put_Inr)

section \<open>What the minimization scan excludes\<close>

fun raw_free :: "pv \<Rightarrow> bool"
  and raw_free_items :: "dict \<Rightarrow> bool"
  and raw_free_elems :: "pv list \<Rightarrow> bool" where
  "raw_free (PDict kvs) = raw_free_items kvs"
| "raw_free (PList xs) = raw_free_elems xs"
| "raw_free (PStr s) = (\<not> forbidden_text s)"
| "raw_free _ = True"
| "raw_free_items [] = True"
| "raw_free_items ((k, v) # kvs) =
     (normalize_artifact_key k \<notin> set forbidden_key_names \<and> raw_free v \<and> raw_free_items kvs)"
| "raw_free_elems [] = True"
| "raw_free_elems (x # xs) = (raw_free x \<and> raw_free_elems xs)"

lemma scan_raw_iff_aux:
  "scan_raw v path = None \<longleftrightarrow> raw_free v"
  "scan_raw_items kvs path = None \<longleftrightarrow> raw_free_items kvs"
  "scan_raw_elems xs i path = None \<longleftrightarrow> raw_free_elems xs"
  by (induction v path and kvs path and xs i path rule: scan_raw_scan_raw_items_scan_raw_elems.induct)
    (auto simp: Let_def split: option.splits)

lemma artifact_minimized_iff: "artifact_minimized a \<longleftrightarrow> raw_free (dump_artifact a)"
  by (simp add: artifact_minimized_def scan_raw_iff_aux)

lemma raw_free_items_iff:
  "raw_free_items kvs \<longleftrightarrow> (\<forall>(k, v) \<in> set kvs. normalize_artifact_key k \<notin> set forbidden_key_names \<and> raw_free v)"
  by (induction kvs) auto

lemma raw_free_elems_iff: "raw_free_elems xs \<longleftrightarrow> (\<forall>x \<in> set xs. raw_free x)"
  by (induction xs) auto

section \<open>Listing\<close>

lemma set_sort_desc [simp]: "set (sort_desc f xs) = set xs"
  by (simp add: sort_desc_def)

lemma sorted_sort_desc: "sorted_wrt (\<ge>) (map f (sort_desc f xs))"
proof -
  have "sorted (map f (sort_key f (rev xs)))" by simp
  then show ?thesis by (simp add: sort_desc_def sorted_wrt_rev flip: rev_map)
qed

lemma py_take_prefix: "\<exists>ys. xs = py_take n xs @ ys"
  by (auto simp: py_take_def) (metis append_take_drop_id)+

lemma sorted_wrt_py_take: "sorted_wrt P (map f xs) \<Longrightarrow> sorted_wrt P (map f (py_take n xs))"
  by (metis map_append py_take_prefix sorted_wrt_append)

lemma set_py_take: "set (py_take n xs) \<subseteq> set xs"
  by (auto simp: py_take_def dest: in_set_takeD)

lemma in_recent: "x \<in> set (py_take n (sort_desc f xs)) \<Longrightarrow> x \<in> set xs"
  using set_py_take [of n "sort_desc f xs"] by auto

definition sample_artifact :: "string \<Rightarrow> string \<Rightarrow> sdk_artifact" where
  "sample_artifact pid key =
    \<lparr>art_packet_id = pid, art_session_id = ''s'', art_tenant_id = ''t'', art_surface = ''web'',
     art_created_at = ''2026-01-01'', art_feature_summaries = [(key, PInt 1)],
     art_detector_signals = [], art_reason_codes = [], art_likelihoods = [], art_confidence = 0,
     art_recommended_action = ''observe'', art_scoring_metadata = []\<rparr>"

text \<open>Every artifact the in-memory store can ever return, after any sequence of writes, is filed
  under its own identifier and holds neither a forbidden key nor a string with a raw-content marker at
  any depth.\<close>

theorem stored_artifacts_are_minimized:
  assumes "put_all store_put [] as = Inr st" and "store_get st k = Some a"
  shows "raw_free (dump_artifact a) \<and> art_packet_id a = k \<and> list_all artifact_minimized as"
  using memory_store.stored_is_minimized [OF assms] memory_store.put_all_rejects [OF assms(1)]
  by (simp add: artifact_minimized_iff list_all_iff)

theorem stored_artifacts_are_minimized_witness:
  "raw_free (dump_artifact (sample_artifact ''ep_1'' ''paste_count''))"
proof -
  have ok: "artifact_minimized (sample_artifact ''ep_1'' ''paste_count'')" by code_simp
  have "put_all store_put [] [sample_artifact ''ep_1'' ''paste_count'']
      = Inr [(''ep_1'', sample_artifact ''ep_1'' ''paste_count'')]"
    using ok by (simp add: store_put_def ensure_minimized_Inr [THEN iffD2] sample_artifact_def)
  from stored_artifacts_are_minimized [OF this, of "''ep_1''"] show ?thesis
    by (simp add: store_get_def)
qed

text \<open>A listing returns stored artifacts only, newest first, and only those of the requested
  tenant when one is named.\<close>

theorem listing_sorted_and_scoped:
  "sorted_wrt (\<ge>) (map art_created_at (store_list_recent st tenant limit)) \<and>
   set (store_list_recent st tenant limit) \<subseteq>
     {a \<in> snd ` set st. tenant \<in> {None, Some []} \<or> tenant = Some (art_tenant_id a)}"
  unfolding store_list_recent_def Let_def
  by (cases tenant) (auto intro: sorted_wrt_py_take sorted_sort_desc dest!: in_recent)

end
