(* ===== verification/Privacy.thy ===== *)
theory Privacy
  imports Prelude
begin

text \<open>
  The SDK privacy guard, \<open>truepresence/sdk/privacy.py\<close>: the section allowlists, the global
  raw-content denylist, the recursive scanners that collect violation paths, the two entry
  points that raise, and the stripping pass.

  A scanner of the source appends to a shared list \<open>violations\<close>; here it returns the paths it
  would append, in the same order. The lemmas show that an empty scan is exactly the absence
  of denied keys at every depth, what acceptance by the guard guarantees, and for which
  payload shapes it guarantees nothing.
\<close>

section \<open>Tables\<close>

definition allowed_typing_fields :: "string list" where
  "allowed_typing_fields =
    [''characters_per_minute'', ''correction_count'', ''correction_rate'',
     ''focus_to_first_input_ms'', ''inter_key_interval_stddev_ms'', ''last_input_to_submit_ms'',
     ''mean_inter_key_interval_ms'', ''paste_count'', ''prompt_render_to_first_input_ms'',
     ''typing_duration_ms'']"

definition allowed_challenge_fields :: "string list" where
  "allowed_challenge_fields =
    [''challenge_type'', ''correction_count'', ''expected_reading_time_ms'', ''paste_count'',
     ''prompt_render_to_first_input_ms'', ''response_latency_ms'', ''submitted_exactly'',
     ''typing_duration_ms'']"

definition allowed_pointer_fields :: "string list" where
  "allowed_pointer_fields =
    [''click_count'', ''click_hesitation_ms'', ''pointer_entropy'', ''pointer_movement_count'',
     ''scroll_cadence_score'']"

definition allowed_environment_fields :: "string list" where
  "allowed_environment_fields =
    [''automation_framework_hint'', ''headless_browser_hint'', ''reduced_motion_enabled'',
     ''timezone_offset_minutes'', ''viewport_height'', ''viewport_width'', ''webdriver_detected'']"

definition allowed_agentic_fields :: "string list" where
  "allowed_agentic_fields =
    [''action_burst_count'', ''burst_interval_stddev_ms'', ''exploratory_action_count'',
     ''idle_to_action_latency_ms'', ''large_instant_delta_count'', ''mean_burst_interval_ms'',
     ''route_directness_score'', ''structured_retry_count'', ''submit_after_instant_input_ms'',
     ''validation_repair_count'']"

definition allowed_session_continuity_fields :: "string list" where
  "allowed_session_continuity_fields =
    [''focus_blur_count'', ''navigation_count'', ''prior_interaction_count'',
     ''same_device_session_count'', ''session_age_ms'']"

definition allowed_page_context_fields :: "string list" where
  "allowed_page_context_fields =
    [''hostname'', ''pathname'', ''referrer_present'', ''visibility_state'']"

definition allowed_typing_summary_fields :: "string list" where
  "allowed_typing_summary_fields =
    [''delete_key_count'', ''input_event_count'', ''last_input_to_submit_ms'',
     ''max_inter_key_interval_ms'', ''min_inter_key_interval_ms'', ''tracked_field_count'']"

definition allowed_metadata_fields :: "string list" where
  "allowed_metadata_fields = [''mode'', ''sdk_version'', ''tracked_field_count'', ''typing_summary'']"

definition allowed_external_risk_fields :: "string list" where
  "allowed_external_risk_fields = [''confidence'', ''provider_id'', ''reason_codes'', ''risk_score'']"

definition section_allowlists :: "(string \<times> string list) list" where
  "section_allowlists =
    [(''agentic'', allowed_agentic_fields),
     (''typing'', allowed_typing_fields),
     (''challenge'', allowed_challenge_fields),
     (''pointer'', allowed_pointer_fields),
     (''environment'', allowed_environment_fields),
     (''page_context'', allowed_page_context_fields),
     (''session_continuity'', allowed_session_continuity_fields)]"

definition allowed_packet_top_level :: "string list" where
  "allowed_packet_top_level =
    [''agentic'', ''challenge'', ''environment'', ''external_risk_provider'', ''metadata'',
     ''page_context'', ''pointer'', ''session_continuity'', ''session_id'', ''site_id'',
     ''surface'', ''tenant_id'', ''typing'']"

definition allowed_request_top_level :: "string list" where
  "allowed_request_top_level = [''enforcement_mode'', ''feature_packet'', ''session_id'', ''tenant_id'']"

definition raw_content_exact :: "string list" where
  "raw_content_exact =
    [''card_number'', ''cardnumber'', ''freeform_content'', ''freeformcontent'', ''key'',
     ''key_values'', ''keyvalues'', ''keys'', ''message_body'', ''messagebody'', ''password'',
     ''raw_text'', ''rawtext'', ''ssn'', ''text'', ''typed_text'', ''typedtext'', ''value'',
     ''answer'', ''body'', ''caption'', ''comment'', ''content'', ''description'',
     ''field_value'', ''file_url'', ''fileurl'', ''input_value'', ''media_url'', ''mediaurl'',
     ''message'', ''prompt'', ''raw_input'', ''raw_value'', ''response'', ''transcript'',
     ''user_input'']"

definition raw_content_fragments :: "string list" where
  "raw_content_fragments =
    [''card_number'', ''cardnumber'', ''credit'', ''creditcard'', ''cvc'', ''cvv'', ''freeform'',
     ''message_body'', ''password'', ''raw_'', ''social_security'', ''ssn'', ''typed_'']"

definition sensitive_input_types :: "string list" where
  "sensitive_input_types =
    [''cc-csc'', ''cc-exp'', ''cc-number'', ''credit-card'', ''file'', ''hidden'', ''payment'',
     ''password'']"

section \<open>Key classification\<close>

definition normalize_key :: "string \<Rightarrow> string" where
  "normalize_key k = replace_char (CHR ''-'') (CHR ''_'') (lower (strip k))"

definition is_raw_content_key :: "string \<Rightarrow> bool" where
  "is_raw_content_key k = (let n = normalize_key k in
     n \<in> set raw_content_exact \<or> list_ex (\<lambda>f. str_contains f n) raw_content_fragments)"

definition descriptor_keys :: "string list" where
  "descriptor_keys = [''input_type'', ''field_type'', ''autocomplete'']"

definition is_sensitive_field_descriptor :: "string \<Rightarrow> pv \<Rightarrow> bool" where
  "is_sensitive_field_descriptor k v =
     (if normalize_key k \<notin> set descriptor_keys then False
      else case v of PStr s \<Rightarrow> lower (strip s) \<in> set sensitive_input_types | _ \<Rightarrow> False)"

text \<open>The test the recursive passes apply to an item before descending into it.\<close>

definition denied :: "string \<Rightarrow> pv \<Rightarrow> bool" where
  "denied k v = (is_raw_content_key k \<or> is_sensitive_field_descriptor k v)"

section \<open>The recursive scan\<close>

definition child_path :: "string \<Rightarrow> string \<Rightarrow> string" where
  "child_path path k = (if path \<noteq> [] then path @ ''.'' @ k else k)"

definition index_path :: "string \<Rightarrow> nat \<Rightarrow> string" where
  "index_path path i = path @ ''['' @ nat_str i @ '']''"

fun global_scan :: "pv \<Rightarrow> string \<Rightarrow> string list"
  and global_scan_items :: "dict \<Rightarrow> string \<Rightarrow> string list"
  and global_scan_elems :: "pv list \<Rightarrow> nat \<Rightarrow> string \<Rightarrow> string list" where
  "global_scan (PDict kvs) path = global_scan_items kvs path"
| "global_scan (PList xs) path = global_scan_elems xs 0 path"
| "global_scan _ path = []"
| "global_scan_items [] path = []"
| "global_scan_items ((k, v) # kvs) path =
     (if denied k v then [child_path path k] else global_scan v (child_path path k))
     @ global_scan_items kvs path"
| "global_scan_elems [] i path = []"
| "global_scan_elems (x # xs) i path =
     global_scan x (index_path path i) @ global_scan_elems xs (Suc i) path"

section \<open>The section scanners\<close>

text \<open>One item of a section whose keys are checked against an allowlist.\<close>

definition scan_section_item :: "string list \<Rightarrow> string \<Rightarrow> string \<times> pv \<Rightarrow> string list" where
  "scan_section_item allow path kv = (case kv of (k, v) \<Rightarrow>
     let child = path @ ''.'' @ k in
     if is_raw_content_key k \<or> is_sensitive_field_descriptor k v then [child]
     else if normalize_key k \<notin> set allow then child # global_scan v child
     else global_scan v child)"

definition scan_section :: "pv \<Rightarrow> string list \<Rightarrow> string \<Rightarrow> string list" where
  "scan_section v allow path = (case v of
     PDict kvs \<Rightarrow> concat (map (scan_section_item allow path) kvs)
   | _ \<Rightarrow> [])"

definition scan_external_item :: "string \<Rightarrow> string \<times> pv \<Rightarrow> string list" where
  "scan_external_item path kv = (case kv of (k, v) \<Rightarrow>
     let child = path @ ''.'' @ k in
     if is_raw_content_key k then [child]
     else if normalize_key k \<notin> set allowed_external_risk_fields then child # global_scan v child
     else global_scan v child)"

fun scan_external_elems :: "pv list \<Rightarrow> nat \<Rightarrow> string \<Rightarrow> string list" where
  "scan_external_elems [] i path = []"
| "scan_external_elems (x # xs) i path =
     (case x of PDict kvs \<Rightarrow> concat (map (scan_external_item (index_path path i)) kvs) | _ \<Rightarrow> [])
     @ scan_external_elems xs (Suc i) path"

definition scan_external_risk_list :: "pv \<Rightarrow> string \<Rightarrow> string list" where
  "scan_external_risk_list items path = (case items of
     PList xs \<Rightarrow> scan_external_elems xs 0 path
   | _ \<Rightarrow> [])"

definition scan_metadata_item :: "string \<Rightarrow> string \<times> pv \<Rightarrow> string list" where
  "scan_metadata_item path kv = (case kv of (k, v) \<Rightarrow>
     let child = path @ ''.'' @ k; n = normalize_key k in
     if is_raw_content_key k \<or> is_sensitive_field_descriptor k v then [child]
     else if n \<notin> set allowed_metadata_fields then child # global_scan v child
     else if n = ''typing_summary'' then scan_section v allowed_typing_summary_fields child
     else global_scan v child)"

definition scan_metadata :: "pv \<Rightarrow> string \<Rightarrow> string list" where
  "scan_metadata m path = (case m of
     PDict kvs \<Rightarrow> concat (map (scan_metadata_item path) kvs)
   | _ \<Rightarrow> [])"

definition scan_packet_item :: "string \<Rightarrow> string \<times> pv \<Rightarrow> string list" where
  "scan_packet_item path kv = (case kv of (k, v) \<Rightarrow>
     let child = path @ ''.'' @ k; n = normalize_key k in
     if is_raw_content_key k then [child]
     else if n \<notin> set allowed_packet_top_level then child # global_scan v child
     else case map_of section_allowlists n of
         Some allow \<Rightarrow> scan_section v allow child
       | None \<Rightarrow>
           if n = ''metadata'' then scan_metadata v child
           else if n = ''external_risk_provider'' then scan_external_risk_list v child
           else global_scan v child)"

definition scan_feature_packet :: "pv \<Rightarrow> string \<Rightarrow> string list" where
  "scan_feature_packet p path = (case p of
     PDict kvs \<Rightarrow> concat (map (scan_packet_item path) kvs)
   | _ \<Rightarrow> [])"

definition scan_request_item :: "string \<times> pv \<Rightarrow> string list" where
  "scan_request_item kv = (case kv of (k, v) \<Rightarrow>
     if is_raw_content_key k then [k]
     else if normalize_key k \<notin> set allowed_request_top_level then k # global_scan v k
     else if normalize_key k = ''feature_packet'' then scan_feature_packet v k
     else global_scan v k)"

definition scan_request :: "pv \<Rightarrow> string list" where
  "scan_request payload = (case payload of
     PDict kvs \<Rightarrow> concat (map scan_request_item kvs)
   | _ \<Rightarrow> global_scan payload [])"

section \<open>The public operations\<close>

definition raise_if_violations :: "string list \<Rightarrow> unit res" where
  "raise_if_violations violations =
     (if violations = [] then Inr () else Inl (RawContentRejected (sorted_set violations)))"

definition ensure_privacy_safe_payload :: "pv \<Rightarrow> unit res" where
  "ensure_privacy_safe_payload payload = raise_if_violations (scan_request payload)"

definition ensure_privacy_safe_feature_packet :: "pv \<Rightarrow> unit res" where
  "ensure_privacy_safe_feature_packet p =
     raise_if_violations (scan_feature_packet p ''feature_packet'')"

fun strip_raw_content :: "pv \<Rightarrow> pv"
  and strip_raw_items :: "dict \<Rightarrow> dict \<Rightarrow> dict"
  and strip_raw_elems :: "pv list \<Rightarrow> pv list" where
  "strip_raw_content (PDict kvs) = PDict (strip_raw_items kvs [])"
| "strip_raw_content (PList xs) = PList (strip_raw_elems xs)"
| "strip_raw_content v = v"
| "strip_raw_items [] stripped = stripped"
| "strip_raw_items ((k, v) # kvs) stripped =
     (if denied k v then strip_raw_items kvs stripped
      else strip_raw_items kvs (dset k (strip_raw_content v) stripped))"
| "strip_raw_elems [] = []"
| "strip_raw_elems (x # xs) = strip_raw_content x # strip_raw_elems xs"

section \<open>What the guard promises: no denied item at any depth\<close>

fun clean :: "pv \<Rightarrow> bool"
  and clean_items :: "dict \<Rightarrow> bool"
  and clean_elems :: "pv list \<Rightarrow> bool" where
  "clean (PDict kvs) = clean_items kvs"
| "clean (PList xs) = clean_elems xs"
| "clean _ = True"
| "clean_items [] = True"
| "clean_items ((k, v) # kvs) = (\<not> denied k v \<and> clean v \<and> clean_items kvs)"
| "clean_elems [] = True"
| "clean_elems (x # xs) = (clean x \<and> clean_elems xs)"

text \<open>Keys of a Python \<open>dict\<close> are distinct, at every depth.\<close>

fun wf_pv :: "pv \<Rightarrow> bool"
  and wf_items :: "dict \<Rightarrow> bool"
  and wf_elems :: "pv list \<Rightarrow> bool" where
  "wf_pv (PDict kvs) = (distinct (map fst kvs) \<and> wf_items kvs)"
| "wf_pv (PList xs) = wf_elems xs"
| "wf_pv _ = True"
| "wf_items [] = True"
| "wf_items ((k, v) # kvs) = (wf_pv v \<and> wf_items kvs)"
| "wf_elems [] = True"
| "wf_elems (x # xs) = (wf_pv x \<and> wf_elems xs)"

lemma clean_items_iff: "clean_items kvs \<longleftrightarrow> (\<forall>(k, v) \<in> set kvs. \<not> denied k v \<and> clean v)"
  by (induction kvs) auto

lemma clean_elems_iff: "clean_elems xs \<longleftrightarrow> (\<forall>x \<in> set xs. clean x)"
  by (induction xs) auto

lemma wf_items_iff: "wf_items kvs \<longleftrightarrow> (\<forall>(k, v) \<in> set kvs. wf_pv v)"
  by (induction kvs) auto

lemma global_scan_clean_aux:
  "global_scan v path = [] \<longleftrightarrow> clean v"
  "global_scan_items kvs path = [] \<longleftrightarrow> clean_items kvs"
  "global_scan_elems xs i path = [] \<longleftrightarrow> clean_elems xs"
  by (induction v path and kvs path and xs i path
      rule: global_scan_global_scan_items_global_scan_elems.induct) auto

lemma global_scan_Nil_iff [scan_simps]: "global_scan v path = [] \<longleftrightarrow> clean v"
  by (rule global_scan_clean_aux)


section \<open>Soundness of the guard on payloads of the documented shape\<close>

text \<open>
  The section scanners return at once when the value is not of the container type they expect
  (\<open>if not isinstance(section_value, dict): return\<close>). A payload is \<open>well_shaped\<close> when no
  such early return skips a container: sections and the packet are not lists, the
  external-provider section is not a dictionary and its elements are not lists.
\<close>

definition not_list :: "pv \<Rightarrow> bool" where
  "not_list v = (\<not> is_list v)"

fun external_shaped :: "pv \<Rightarrow> bool" where
  "external_shaped (PDict _) = False"
| "external_shaped (PList xs) = list_all not_list xs"
| "external_shaped _ = True"

fun metadata_shaped :: "pv \<Rightarrow> bool" where
  "metadata_shaped (PList _) = False"
| "metadata_shaped (PDict kvs) =
     list_all (\<lambda>(k, v). normalize_key k = ''typing_summary'' \<longrightarrow> not_list v) kvs"
| "metadata_shaped _ = True"

definition section_shaped :: "string \<Rightarrow> pv \<Rightarrow> bool" where
  "section_shaped n v =
     (if map_of section_allowlists n \<noteq> None then not_list v
      else if n = ''metadata'' then metadata_shaped v
      else if n = ''external_risk_provider'' then external_shaped v
      else True)"

fun packet_shaped :: "pv \<Rightarrow> bool" where
  "packet_shaped (PList _) = False"
| "packet_shaped (PDict kvs) = list_all (\<lambda>(k, v). section_shaped (normalize_key k) v) kvs"
| "packet_shaped _ = True"

fun request_shaped :: "pv \<Rightarrow> bool" where
  "request_shaped (PDict kvs) =
     list_all (\<lambda>(k, v). normalize_key k = ''feature_packet'' \<longrightarrow> packet_shaped v) kvs"
| "request_shaped _ = True"

lemma raise_if_violations_Inr [simp]: "raise_if_violations vs = Inr () \<longleftrightarrow> vs = []"
  by (simp add: raise_if_violations_def)

lemma concat_map_Nil_iff: "concat (map f xs) = [] \<longleftrightarrow> (\<forall>x \<in> set xs. f x = [])"
  by auto

lemma clean_not_container: "\<not> is_dict v \<Longrightarrow> \<not> is_list v \<Longrightarrow> clean v"
  by (cases v) auto

lemma not_descriptorI:
  "normalize_key k \<notin> set descriptor_keys \<Longrightarrow> \<not> is_sensitive_field_descriptor k v"
  by (simp add: is_sensitive_field_descriptor_def)

lemma allowed_not_descriptor:
  "n \<in> set allowed_external_risk_fields \<Longrightarrow> n \<notin> set descriptor_keys"
  "n \<in> set allowed_packet_top_level \<Longrightarrow> n \<notin> set descriptor_keys"
  "n \<in> set allowed_request_top_level \<Longrightarrow> n \<notin> set descriptor_keys"
  by (auto simp: allowed_external_risk_fields_def allowed_packet_top_level_def
      allowed_request_top_level_def descriptor_keys_def)

lemma scan_section_item_Nil [scan_simps]:
  "scan_section_item allow path (k, v) = [] \<longleftrightarrow>
     \<not> denied k v \<and> normalize_key k \<in> set allow \<and> clean v"
  by (auto simp: scan_section_item_def denied_def Let_def scan_simps)

lemma scan_section_Nil [scan_simps]:
  "scan_section v allow path = [] \<longleftrightarrow>
     (case v of PDict kvs \<Rightarrow> \<forall>(k, x) \<in> set kvs. \<not> denied k x \<and> normalize_key k \<in> set allow \<and> clean x
      | _ \<Rightarrow> True)"
  unfolding scan_section_def
  by (cases v) (auto simp: concat_map_Nil_iff scan_simps)

lemma scan_section_clean: "scan_section v allow path = [] \<Longrightarrow> not_list v \<Longrightarrow> clean v"
  by (cases v) (auto simp: scan_simps not_list_def clean_items_iff)

lemma scan_external_item_Nil [scan_simps]:
  "scan_external_item path (k, v) = [] \<longleftrightarrow>
     \<not> denied k v \<and> normalize_key k \<in> set allowed_external_risk_fields \<and> clean v"
  by (auto simp: scan_external_item_def denied_def Let_def scan_simps
      dest: allowed_not_descriptor(1) not_descriptorI)

lemma scan_external_elems_clean:
  "scan_external_elems xs i path = [] \<Longrightarrow> list_all not_list xs \<Longrightarrow> clean_elems xs"
proof (induction xs i path rule: scan_external_elems.induct)
  case (1 i path)
  then show ?case by simp
next
  case (2 x xs i path)
  have "clean x"
  proof (cases x)
    case (PDict kvs)
    with "2.prems"(1) have "\<forall>kv \<in> set kvs. scan_external_item (index_path path i) kv = []"
      by (simp add: concat_map_Nil_iff)
    with PDict show ?thesis by (auto simp: clean_items_iff scan_simps)
  next
    case (PList ys)
    with "2.prems"(2) show ?thesis by (simp add: not_list_def)
  qed simp_all
  with 2 show ?case by simp
qed

lemma scan_external_risk_list_clean:
  "scan_external_risk_list v path = [] \<Longrightarrow> external_shaped v \<Longrightarrow> clean v"
  by (cases v) (auto simp: scan_external_risk_list_def intro: scan_external_elems_clean)

lemma scan_metadata_item_clean:
  assumes "scan_metadata_item path (k, v) = []"
    and "normalize_key k = ''typing_summary'' \<longrightarrow> not_list v"
  shows "\<not> denied k v \<and> normalize_key k \<in> set allowed_metadata_fields \<and> clean v"
  using assms
  by (auto simp: scan_metadata_item_def denied_def Let_def scan_simps split: if_splits
      intro: scan_section_clean)

lemma scan_metadata_clean:
  assumes "scan_metadata v path = []" and "metadata_shaped v"
  shows "clean v"
proof (cases v)
  case (PDict kvs)
  with assms have "\<forall>kv \<in> set kvs. scan_metadata_item path kv = []"
    by (simp add: scan_metadata_def concat_map_Nil_iff)
  with assms(2) PDict show ?thesis
    by (auto simp: clean_items_iff list_all_iff dest!: bspec scan_metadata_item_clean)
qed (use assms(2) in simp_all)

lemma scan_packet_item_clean:
  assumes "scan_packet_item path (k, v) = []" and "section_shaped (normalize_key k) v"
  shows "\<not> denied k v \<and> normalize_key k \<in> set allowed_packet_top_level \<and> clean v"
proof -
  from assms(1) have raw: "\<not> is_raw_content_key k"
    and top: "normalize_key k \<in> set allowed_packet_top_level"
    by (auto simp: scan_packet_item_def Let_def split: if_splits)
  have "clean v"
    using assms raw top
    by (auto simp: scan_packet_item_def section_shaped_def Let_def scan_simps
        split: if_splits option.splits
        intro: scan_section_clean scan_metadata_clean scan_external_risk_list_clean)
  with raw top show ?thesis
    by (auto simp: denied_def dest: allowed_not_descriptor(2) not_descriptorI)
qed

lemma scan_feature_packet_clean:
  assumes "scan_feature_packet v path = []" and "packet_shaped v"
  shows "clean v"
proof (cases v)
  case (PDict kvs)
  with assms have "\<forall>kv \<in> set kvs. scan_packet_item path kv = []"
    by (simp add: scan_feature_packet_def concat_map_Nil_iff)
  with assms(2) PDict show ?thesis
    by (auto simp: clean_items_iff list_all_iff dest!: bspec scan_packet_item_clean)
qed (use assms(2) in simp_all)

lemma scan_request_item_clean:
  assumes "scan_request_item (k, v) = []"
    and "normalize_key k = ''feature_packet'' \<longrightarrow> packet_shaped v"
  shows "\<not> denied k v \<and> normalize_key k \<in> set allowed_request_top_level \<and> clean v"
proof -
  from assms(1) have raw: "\<not> is_raw_content_key k"
    and top: "normalize_key k \<in> set allowed_request_top_level"
    by (auto simp: scan_request_item_def split: if_splits)
  have "clean v"
    using assms raw top
    by (auto simp: scan_request_item_def scan_simps split: if_splits intro: scan_feature_packet_clean)
  with raw top show ?thesis
    by (auto simp: denied_def dest: allowed_not_descriptor(3) not_descriptorI)
qed

lemma scan_request_clean:
  assumes "scan_request v = []" and "request_shaped v"
  shows "clean v"
proof (cases v)
  case (PDict kvs)
  with assms have "\<forall>kv \<in> set kvs. scan_request_item kv = []"
    by (simp add: scan_request_def concat_map_Nil_iff)
  with assms(2) PDict show ?thesis
    by (auto simp: clean_items_iff list_all_iff dest!: bspec scan_request_item_clean)
qed (use assms in \<open>simp_all add: scan_request_def global_scan_clean_aux\<close>)

section \<open>The stripping pass\<close>

lemma clean_items_dset: "clean_items d \<Longrightarrow> \<not> denied k v \<Longrightarrow> clean v \<Longrightarrow> clean_items (dset k v d)"
  using set_dset_subset [of k v d] by (fastforce simp: clean_items_iff)

lemma wf_items_dset: "wf_items d \<Longrightarrow> wf_pv v \<Longrightarrow> wf_items (dset k v d)"
  using set_dset_subset [of k v d] by (fastforce simp: wf_items_iff)

text \<open>Stripping a value that is not a string never turns it into one, so it cannot make a key a
  sensitive descriptor.\<close>

lemma denied_strip [simp]: "denied k (strip_raw_content v) = denied k v"
  by (cases v) (auto simp: denied_def is_sensitive_field_descriptor_def)

lemma strip_raw_clean_aux:
  "clean (strip_raw_content v)"
  "clean_items acc \<Longrightarrow> clean_items (strip_raw_items kvs acc)"
  "clean_elems (strip_raw_elems xs)"
  by (induction v and kvs acc and xs
      rule: strip_raw_content_strip_raw_items_strip_raw_elems.induct)
    (auto simp: clean_items_dset)

lemma strip_raw_wf_aux:
  "wf_pv (strip_raw_content v)"
  "distinct (map fst acc) \<and> wf_items acc \<Longrightarrow>
     distinct (map fst (strip_raw_items kvs acc)) \<and> wf_items (strip_raw_items kvs acc)"
  "wf_elems (strip_raw_elems xs)"
  by (induction v and kvs acc and xs
      rule: strip_raw_content_strip_raw_items_strip_raw_elems.induct)
    (auto simp: wf_items_dset distinct_update)

lemma strip_raw_id_aux:
  "wf_pv v \<Longrightarrow> clean v \<Longrightarrow> strip_raw_content v = v"
  "distinct (map fst (acc @ kvs)) \<Longrightarrow> wf_items kvs \<Longrightarrow> clean_items kvs \<Longrightarrow>
     strip_raw_items kvs acc = acc @ kvs"
  "wf_elems xs \<Longrightarrow> clean_elems xs \<Longrightarrow> strip_raw_elems xs = xs"
  by (induction v and kvs acc and xs
      rule: strip_raw_content_strip_raw_items_strip_raw_elems.induct)
    (auto simp: dset_absent map_of_eq_None_iff)

lemma strip_raw_content_clean: "clean (strip_raw_content v)"
  by (rule strip_raw_clean_aux)

lemma strip_raw_content_wf: "wf_pv (strip_raw_content v)"
  by (rule strip_raw_wf_aux)

lemma strip_raw_content_id: "wf_pv v \<Longrightarrow> clean v \<Longrightarrow> strip_raw_content v = v"
  by (rule strip_raw_id_aux)

section \<open>The report carries no field value\<close>

text \<open>
  \<open>redact\<close> erases every scalar of a payload, except the strings under the three descriptor
  keys, which the guard compares with its table of sensitive input types.
\<close>

fun redact :: "pv \<Rightarrow> pv"
  and redact_items :: "dict \<Rightarrow> dict"
  and redact_elems :: "pv list \<Rightarrow> pv list" where
  "redact (PDict kvs) = PDict (redact_items kvs)"
| "redact (PList xs) = PList (redact_elems xs)"
| "redact v = PNone"
| "redact_items [] = []"
| "redact_items ((k, v) # kvs) =
     (k, if normalize_key k \<in> set descriptor_keys \<and> is_str v then v else redact v) # redact_items kvs"
| "redact_elems [] = []"
| "redact_elems (x # xs) = redact x # redact_elems xs"

definition redact_under :: "string \<Rightarrow> pv \<Rightarrow> pv" where
  "redact_under k v = (if normalize_key k \<in> set descriptor_keys \<and> is_str v then v else redact v)"

lemma redact_items_map: "redact_items kvs = map (\<lambda>(k, v). (k, redact_under k v)) kvs"
  by (induction kvs) (auto simp: redact_under_def)

lemma descriptor_redact_under [simp]:
  "is_sensitive_field_descriptor k (redact_under k v) = is_sensitive_field_descriptor k v"
  by (cases v) (auto simp: is_sensitive_field_descriptor_def redact_under_def)

lemma denied_redact_under [simp]: "denied k (redact_under k v) = denied k v"
  by (simp add: denied_def)

lemma global_scan_redact_aux:
  "global_scan (redact v) path = global_scan v path"
  "global_scan_items (redact_items kvs) path = global_scan_items kvs path"
  "global_scan_elems (redact_elems xs) i path = global_scan_elems xs i path"
proof (induction v path and kvs path and xs i path
    rule: global_scan_global_scan_items_global_scan_elems.induct)
  case (5 k v kvs path)
  have "denied k (redact_under k v) = denied k v" by simp
  moreover have "global_scan (redact_under k v) (child_path path k) = global_scan v (child_path path k)"
    if "\<not> denied k v" using that 5 by (auto simp: redact_under_def)
  ultimately show ?case using 5 by (simp add: redact_under_def)
qed simp_all

lemma global_scan_redact_under [simp]: "global_scan (redact_under k v) path = global_scan v path"
  by (simp add: redact_under_def global_scan_redact_aux)

lemma concat_map_redact:
  "(\<And>k v. f (k, redact_under k v) = f (k, v)) \<Longrightarrow>
     concat (map f (redact_items kvs)) = concat (map f kvs)"
  by (induction kvs) (auto simp: redact_items_map)

lemma scan_section_redact: "scan_section (redact v) allow path = scan_section v allow path"
  by (cases v) (simp_all add: scan_section_def concat_map_redact scan_section_item_def Let_def)

lemma scan_section_redact_under [simp]:
  "scan_section (redact_under k v) allow path = scan_section v allow path"
  by (simp add: redact_under_def scan_section_redact)

lemma scan_external_elems_redact:
  "scan_external_elems (redact_elems xs) i path = scan_external_elems xs i path"
proof (induction xs i path rule: scan_external_elems.induct)
  case (2 x xs i path)
  then show ?case
    by (cases x) (simp_all add: concat_map_redact scan_external_item_def Let_def)
qed simp

lemma scan_external_redact_under [simp]:
  "scan_external_risk_list (redact_under k v) path = scan_external_risk_list v path"
  by (cases v) (simp_all add: redact_under_def scan_external_risk_list_def scan_external_elems_redact)

lemma scan_metadata_redact_under [simp]: "scan_metadata (redact_under k v) path = scan_metadata v path"
  by (cases v)
    (simp_all add: redact_under_def [of k] scan_metadata_def concat_map_redact scan_metadata_item_def
      Let_def)

lemma scan_packet_item_redact: "scan_packet_item path (k, redact_under k v) = scan_packet_item path (k, v)"
  by (simp add: scan_packet_item_def Let_def cong: option.case_cong)

lemma scan_packet_redact_under [simp]:
  "scan_feature_packet (redact_under k v) path = scan_feature_packet v path"
  by (cases v)
    (simp_all add: redact_under_def [of k] scan_feature_packet_def concat_map_redact scan_packet_item_redact)

lemma scan_request_redact: "scan_request (redact v) = scan_request v"
proof (cases v)
  case (PDict kvs)
  have "scan_request_item (k, redact_under k x) = scan_request_item (k, x)" for k x
    by (simp add: scan_request_item_def)
  with PDict show ?thesis by (simp add: scan_request_def concat_map_redact)
qed (simp_all add: scan_request_def global_scan_redact_aux)

section \<open>Properties\<close>

text \<open>C2: A payload of the documented shape that the guard accepts holds no denied key and no
  sensitive input descriptor at any nesting depth.\<close>

theorem guard_accepts_only_clean:
  "ensure_privacy_safe_payload p = Inr () \<Longrightarrow> request_shaped p \<Longrightarrow> clean p"
  by (simp add: ensure_privacy_safe_payload_def scan_request_clean)

definition sample_request :: pv where
  "sample_request = PDict
    [(''session_id'', PStr ''s1''),
     (''feature_packet'', PDict
       [(''typing'', PDict [(''paste_count'', PInt 0)]),
        (''metadata'', PDict [(''typing_summary'', PDict [(''input_event_count'', PInt 4)])]),
        (''external_risk_provider'', PList [PDict [(''risk_score'', PFloat (1 / 2))]])])]"

lemma sample_request_scan: "scan_request sample_request = []"
  by code_simp

lemma sample_request_shaped: "request_shaped sample_request"
  by code_simp

theorem guard_accepts_only_clean_witness: "clean sample_request"
  by (rule guard_accepts_only_clean)
    (simp_all add: ensure_privacy_safe_payload_def sample_request_scan sample_request_shaped)

text \<open>The guard is stricter than the stripping pass: it also rejects what is not on its allowlists.\<close>

lemma strip_keeps_accepted:
  "wf_pv p \<Longrightarrow> request_shaped p \<Longrightarrow> ensure_privacy_safe_payload p = Inr () \<Longrightarrow> strip_raw_content p = p"
  by (simp add: ensure_privacy_safe_payload_def scan_request_clean strip_raw_content_id)

lemma stripped_may_be_rejected:
  "strip_raw_content (PDict [(''foo'', PInt 1)]) = PDict [(''foo'', PInt 1)] \<and>
   isl (ensure_privacy_safe_payload (PDict [(''foo'', PInt 1)]))"
  by code_simp

text \<open>C13: The stripping pass removes every denied item at every depth (its docstring promises a shallow cleaning only),
  is idempotent, and leaves a payload unchanged exactly when the recursive denylist scan, one of the scans of the guard,
  reports nothing for it. So it changes nothing in a payload of the documented shape that the whole guard accepts; the
  guard, which has allowlists besides, may still reject a payload that stripping leaves as it is.\<close>

theorem strip_agrees_with_scan:
  "clean (strip_raw_content p) \<and>
   strip_raw_content (strip_raw_content p) = strip_raw_content p \<and>
   (wf_pv p \<longrightarrow> (strip_raw_content p = p \<longleftrightarrow> global_scan p path = [])) \<and>
   (wf_pv p \<longrightarrow> request_shaped p \<longrightarrow> ensure_privacy_safe_payload p = Inr () \<longrightarrow> strip_raw_content p = p)"
  using strip_raw_content_clean [of p] strip_raw_content_wf [of p] strip_keeps_accepted [of p]
  by (metis global_scan_Nil_iff strip_raw_content_id)

theorem strip_agrees_with_scan_witness:
  "strip_raw_content sample_request = sample_request \<longleftrightarrow> global_scan sample_request [] = []"
proof -
  have "wf_pv sample_request" by code_simp
  then show ?thesis using strip_agrees_with_scan [of sample_request "[]"] by blast
qed

text \<open>The report of a rejected payload depends on keys only: erasing every field value but the
  input-type descriptors leaves the outcome, including the raised list, unchanged; the raised list is
  sorted and without duplicates.\<close>

theorem rejection_echoes_no_value:
  "ensure_privacy_safe_payload (redact p) = ensure_privacy_safe_payload p \<and>
   (case ensure_privacy_safe_payload p of
      Inr _ \<Rightarrow> scan_request p = []
    | Inl (RawContentRejected vs) \<Rightarrow> sorted vs \<and> distinct vs \<and> set vs = set (scan_request p)
    | Inl _ \<Rightarrow> False)"
  by (simp add: ensure_privacy_safe_payload_def scan_request_redact raise_if_violations_def)

text \<open>The guard accepts any list in place of a structured section, whatever the list holds: a
  \<open>typing_summary\<close> (or a whole \<open>typing\<close> section) given as a list is never scanned, so raw-content
  keys inside it pass.\<close>

theorem guard_skips_lists_in_sections:
  "ensure_privacy_safe_feature_packet (PDict [(''typing'', PList xs)]) = Inr () \<and>
   ensure_privacy_safe_payload (PDict [(''feature_packet'', PDict
     [(''metadata'', PDict [(''typing_summary'', PList xs)])])]) = Inr ()"
proof -
  have "normalize_key ''typing'' = ''typing''" "normalize_key ''metadata'' = ''metadata''"
    "normalize_key ''typing_summary'' = ''typing_summary''"
    "normalize_key ''feature_packet'' = ''feature_packet''"
    by code_simp+
  moreover have "\<not> is_raw_content_key ''typing''" "\<not> is_raw_content_key ''metadata''"
    "\<not> is_raw_content_key ''typing_summary''" "\<not> is_raw_content_key ''feature_packet''"
    by code_simp+
  ultimately show ?thesis
    by (simp add: ensure_privacy_safe_feature_packet_def ensure_privacy_safe_payload_def
        scan_request_def scan_request_item_def scan_feature_packet_def scan_packet_item_def
        scan_metadata_def scan_metadata_item_def scan_section_def allowed_request_top_level_def
        allowed_packet_top_level_def allowed_metadata_fields_def section_allowlists_def
        is_sensitive_field_descriptor_def descriptor_keys_def Let_def)
qed

lemma guard_accepts_raw_answer:
  "\<not> clean (PDict [(''feature_packet'', PDict [(''metadata'', PDict
     [(''typing_summary'', PList [PDict [(''answer'', PStr ''my free text'')]])])])])"
  by code_simp

end
