(* ===== verification/Suite_Risk.thy ===== *)
theory Suite_Risk
  imports Scoring
begin

text \<open>
  The SDK detector suite and the scorer together: bounds on what
  \<open>run_human_plausibility_detectors\<close> can report (no direct human-presence evidence, at most three
  automation signals, agentic signals of at least medium severity) carried through the aggregation of
  \<open>scoring/model.py\<close>. The conclusion is a statement about the composed pipeline that neither file
  shows on its own: no suite output leads to \<open>allow\<close>.
\<close>

section \<open>The strength of the suite's signals\<close>

definition strong :: "detector_signal \<Rightarrow> bool" where
  "strong s = (0.3025 \<le> signal_strength s)"

lemma strong_mk: "0.55 \<le> conf \<Longrightarrow> sev \<noteq> SevLow \<Longrightarrow> strong (mk_signal rc sev conf t e c)"
  by (cases sev) (auto simp: strong_def signal_strength_def mk_signal_def clamp_def min_def max_def)

lemma strong_agentic: "0.55 \<le> conf \<Longrightarrow> sev \<noteq> SevLow \<Longrightarrow> strong (agentic_signal rc sev conf e)"
  unfolding agentic_signal_def by (rule strong_mk)

named_theorems strong_agentics \<open>agentic detectors never report weak evidence\<close>

lemma strong_reading [strong_agentics]: "list_all strong (implausible_read_response_time f)"
proof -
  have "0.55 \<le> min 0.92 (0.55 + (1 - l / m) * (0.45::rat))" if "l < m" "350 \<le> m" for l m
    using that by (simp add: field_simps)
  then show ?thesis
    unfolding implausible_read_response_time_def Let_def
    by (auto simp: all_cases intro!: strong_mk)
qed

lemma strong_thinking [strong_agentics]: "list_all strong (model_thinking_cadence f)"
  unfolding model_thinking_cadence_def Let_def
  by (auto simp: all_cases intro!: strong_agentic split: option.split)

lemma strong_burst [strong_agentics]: "list_all strong (burst_pause_action_loop f)"
  unfolding burst_pause_action_loop_def Let_def
  by (auto simp: all_cases intro!: strong_agentic)

lemma strong_others [strong_agentics]:
  "list_all strong (large_instant_input_delta f)" "list_all strong (low_exploratory_noise f)"
  "list_all strong (structured_retry_pattern f)" "list_all strong (implausible_task_efficiency f)"
  unfolding large_instant_input_delta_def low_exploratory_noise_def structured_retry_pattern_def
    implausible_task_efficiency_def Let_def
  by (auto simp: all_cases intro!: strong_agentic)

lemma paste_strength: "list_all (\<lambda>s. 0.1125 \<le> signal_strength s) (paste_or_instant_input f)"
  unfolding paste_or_instant_input_def Let_def
  by (auto simp: all_cases signal_strength_def mk_signal_def clamp_def)

section \<open>Lower bounds of the aggregation\<close>

definition agentic_of :: "detector_signal list \<Rightarrow> detector_signal list" where
  "agentic_of ss = filter (\<lambda>s. contribution_target s = AgenticControl) ss"

definition automation_of :: "detector_signal list \<Rightarrow> detector_signal list" where
  "automation_of ss = filter (\<lambda>s. contribution_target s = Automation) ss"

lemma target_risk_ge_category: "1 - category_complement t ss c \<le> target_risk t ss"
proof -
  have "(\<Prod>c'\<in>UNIV. category_complement t ss c') =
      category_complement t ss c * (\<Prod>c'\<in>UNIV - {c}. category_complement t ss c')"
    by (simp add: prod.remove [of UNIV c])
  moreover have "in_unit (\<Prod>c'\<in>UNIV - {c}. category_complement t ss c')"
    by (rule in_unit_prod) simp_all
  moreover have "in_unit (category_complement t ss c)" by simp
  ultimately have "(\<Prod>c'\<in>UNIV. category_complement t ss c') \<le> category_complement t ss c"
    by (simp add: in_unit_def mult_left_le)
  then show ?thesis by (simp add: target_risk_closed)
qed

lemma category_risk_ge:
  assumes "complements (strengths_in t c ss) \<le> k"
  shows "category_weight c * (1 - k) \<le> target_risk t ss"
proof -
  have "category_weight c * (1 - k) \<le> category_weight c * (1 - complements (strengths_in t c ss))"
    using assms category_weight_unit [of c] by (intro mult_left_mono) auto
  also have "\<dots> = 1 - category_complement t ss c"
    by (simp add: category_complement_def product_of_complements_eq)
  finally show ?thesis using target_risk_ge_category [of t ss c] by simp
qed

lemma complements_strong:
  assumes "list_all strong xs"
  shows "complements (map signal_strength xs) \<le> 0.6975 ^ length xs"
  using assms
proof (induction xs)
  case (Cons x xs)
  have "1 - clamp (signal_strength x) \<le> 0.6975"
    using Cons.prems by (auto simp: strong_def clamp_def)
  with Cons have "(1 - clamp (signal_strength x)) * complements (map signal_strength xs)
      \<le> 0.6975 * 0.6975 ^ length xs"
    using complements_ge0 by (intro mult_mono) simp_all
  then show ?case by simp
qed simp

lemma clamp_ge: "x \<le> y \<Longrightarrow> x \<le> 1 \<Longrightarrow> x \<le> clamp y"
  by (simp add: clamp_def)

lemma combined_risk_ge:
  assumes "a \<le> target_risk Automation ss" "g \<le> target_risk AgenticControl ss" "a \<le> 1" "g \<le> 1"
    and "b \<le> corroboration_bonus ss" and "1 - (1 - a) * (1 - g) + b \<le> 1"
  shows "1 - (1 - a) * (1 - g) + b \<le> combined_risk ss"
proof -
  have u: "in_unit (target_risk Automation ss)" "in_unit (target_risk AgenticControl ss)" by simp_all
  have "(1 - target_risk Automation ss) * (1 - target_risk AgenticControl ss) \<le> (1 - a) * (1 - g)"
    using assms(1-4) u by (intro mult_mono) (auto simp: in_unit_def)
  moreover have "product_of_complements [target_risk Automation ss, target_risk AgenticControl ss]
      = 1 - (1 - target_risk Automation ss) * (1 - target_risk AgenticControl ss)"
    using u by (simp add: product_of_complements_eq)
  ultimately show ?thesis
    unfolding combined_risk_def using assms(5,6) by (intro clamp_ge) auto
qed

text \<open>Without direct human-presence signals the human features discount at most 18 percent.\<close>

lemma low_risk_combined:
  assumes "filter (\<lambda>s. contribution_target s = HumanPresence) ss = []" and "adjusted_risk ss p < 0.3"
  shows "combined_risk ss < 15 / 41"
proof -
  have "target_risk HumanPresence ss = 0"
    using assms(1) by (simp add: target_risk_closed category_complement_def strengths_in_def filter_empty_conv)
  then have eh: "effective_human ss p \<le> 0.3" "0 \<le> effective_human ss p"
    using human_feature_support_bounds [of p] by (auto simp: effective_human_def clamp_def)
  have c: "in_unit (combined_risk ss)" by (simp add: combined_risk_def)
  have "supported_risk ss p < 0.3"
    using assms(2) low_risk_uncontradicted(2) [OF assms(2)] by simp
  moreover have "supported_risk ss p = combined_risk ss * (1 - effective_human ss p * 0.6)"
    unfolding supported_risk_def using c eh
    by (intro clamp_id in_unit_mult) (auto simp: in_unit_def)
  moreover have "combined_risk ss * 0.82 \<le> combined_risk ss * (1 - effective_human ss p * 0.6)"
    using c eh by (intro mult_left_mono) (auto simp: in_unit_def)
  ultimately show ?thesis by simp
qed

lemma sufficiency_narrow:
  assumes "c \<le> 2" "n \<le> 3"
  shows "evidence_sufficiency c n \<le> 23 / 30"
proof -
  have "evidence_sufficiency c n \<le> evidence_sufficiency 2 3"
    using assms by (rule evidence_sufficiency_mono)
  also have "\<dots> = 23 / 30" by (simp add: evidence_sufficiency_def Let_def clamp_def)
  finally show ?thesis .
qed

lemma bonus_ge: "3 \<le> total_risk_cats ss \<Longrightarrow> 0.1 \<le> corroboration_bonus ss"
  unfolding corroboration_bonus_def by (intro clamp_ge) auto

section \<open>The suite, by target and category\<close>

lemma strengths_in_category:
  assumes "\<And>s. s \<in> set ss \<Longrightarrow> contribution_target s = t \<Longrightarrow> category s = c"
  shows "strengths_in t c ss = map signal_strength (filter (\<lambda>s. contribution_target s = t) ss)"
  using assms by (induction ss) (auto simp: strengths_in_Cons, simp add: strengths_in_def)


lemma suite_strong: "list_all strong (agentic_of (run_human_plausibility_detectors p))"
proof -
  have "agentic_of (paste_or_instant_input f) = []" "agentic_of (zero_correction_pattern f) = []"
    "agentic_of (uniform_typing_cadence f) = []" for f
    by (auto simp: agentic_of_def filter_empty_conv risk_signal_def dest!: detector_wfD)
  moreover have "list_all strong (agentic_of xs)" if "list_all strong xs" for xs
    using that by (simp add: agentic_of_def list_all_iff)
  moreover have "list_all strong (run_agentic_control_detectors f)" for f
    by (simp add: run_agentic_control_detectors_def strong_agentics)
  moreover have "agentic_of (xs @ ys) = agentic_of xs @ agentic_of ys" for xs ys
    by (simp add: agentic_of_def)
  ultimately show ?thesis
    using strong_agentics(1) by (simp add: run_human_plausibility_detectors_def)
qed

lemma suite_agentic_risk:
  assumes "n \<le> length (agentic_of (run_human_plausibility_detectors p))"
  shows "0.8 * (1 - 0.6975 ^ n) \<le> target_risk AgenticControl (run_human_plausibility_detectors p)"
proof -
  let ?ss = "run_human_plausibility_detectors p"
  have "strengths_in AgenticControl AgenticBehavior ?ss = map signal_strength (agentic_of ?ss)"
    unfolding agentic_of_def
    by (rule strengths_in_category) (auto dest!: human_suite_wf simp: risk_signal_def)
  then have "complements (strengths_in AgenticControl AgenticBehavior ?ss) \<le> 0.6975 ^ length (agentic_of ?ss)"
    using complements_strong [OF suite_strong] by simp
  also have "\<dots> \<le> 0.6975 ^ n"
    using assms by (intro power_decreasing) simp_all
  finally show ?thesis using category_risk_ge [of AgenticControl AgenticBehavior ?ss] by simp
qed

lemma suite_automation:
  "length (automation_of (run_human_plausibility_detectors p)) \<le> 3"
  "categories_of Automation (run_human_plausibility_detectors p) \<subseteq> {InputMethod, TypingCadence}"
proof -
  have empty: "filter (\<lambda>s. contribution_target s = Automation) (implausible_read_response_time c) = []"
    "filter (\<lambda>s. contribution_target s = Automation) (run_agentic_control_detectors a) = []" for c a
    by (auto simp: filter_empty_conv risk_signal_def dest!: detector_wfD agentic_suite_wf)
  have "length (filter (\<lambda>s. contribution_target s = Automation) xs) \<le> length xs" for xs :: "detector_signal list"
    by simp
  note len = order_trans [OF this at_most_length [OF detector_codes(1)]]
    order_trans [OF this at_most_length [OF detector_codes(2)]]
    order_trans [OF this at_most_length [OF detector_codes(3)]]
  show "length (automation_of (run_human_plausibility_detectors p)) \<le> 3"
    using len(1,2,3) [of "pk_typing p"]
    by (simp add: automation_of_def run_human_plausibility_detectors_def empty)
  show "categories_of Automation (run_human_plausibility_detectors p) \<subseteq> {InputMethod, TypingCadence}"
    by (auto simp: categories_of_def risk_signal_def dest!: human_suite_wf)
qed

lemma suite_by_category:
  "length (filter (\<lambda>s. category s = InputMethod) (automation_of (run_human_plausibility_detectors p))) \<le> 1"
  "length (filter (\<lambda>s. category s = TypingCadence) (automation_of (run_human_plausibility_detectors p))) \<le> 2"
proof -
  let ?F = "\<lambda>c ss. filter (\<lambda>s. category s = c \<and> contribution_target s = Automation) ss"
  have other: "?F c (implausible_read_response_time f) = []" "?F c (run_agentic_control_detectors g) = []"
    "?F TypingCadence (paste_or_instant_input h) = []" "?F InputMethod (uniform_typing_cadence h) = []"
    "?F InputMethod (zero_correction_pattern h) = []" for c f g h
    by (auto simp: filter_empty_conv risk_signal_def dest!: detector_wfD agentic_suite_wf)
  have len: "length (?F c (paste_or_instant_input h)) \<le> 1" "length (?F c (uniform_typing_cadence h)) \<le> 1"
    "length (?F c (zero_correction_pattern h)) \<le> 1" for c h
    using detector_codes(1-3) [of h, THEN at_most_length] length_filter_le order_trans by blast+
  show "length (filter (\<lambda>s. category s = InputMethod) (automation_of (run_human_plausibility_detectors p))) \<le> 1"
    using len(1) [of InputMethod "pk_typing p"]
    by (simp add: automation_of_def run_human_plausibility_detectors_def other conj_commute)
  show "length (filter (\<lambda>s. category s = TypingCadence) (automation_of (run_human_plausibility_detectors p))) \<le> 2"
    using len(2,3) [of TypingCadence "pk_typing p"]
    by (simp add: automation_of_def run_human_plausibility_detectors_def other conj_commute)
qed

lemma card_two_subset: "A \<subseteq> {a, b} \<Longrightarrow> 2 \<le> card A \<Longrightarrow> a \<in> A \<and> b \<in> A"
  using card_seteq [of "{a, b}" A] card_insert_le_m1 [of 2 "{b}" a] by (auto simp: card_insert_if)

lemma suite_three_automation:
  assumes "3 \<le> length (automation_of (run_human_plausibility_detectors p))"
  shows "card (categories_of Automation (run_human_plausibility_detectors p)) = 2"
proof -
  let ?A = "automation_of (run_human_plausibility_detectors p)"
  have "set ?A \<subseteq> {s. category s \<in> {InputMethod, TypingCadence}}"
    using suite_automation(2) [of p] by (auto simp: automation_of_def categories_of_def)
  then have "filter (\<lambda>s. category s \<noteq> InputMethod) ?A = filter (\<lambda>s. category s = TypingCadence) ?A"
    by (intro filter_cong) auto
  moreover have "length ?A = length (filter (\<lambda>s. category s = InputMethod) ?A)
      + length (filter (\<lambda>s. category s \<noteq> InputMethod) ?A)"
    by (simp add: sum_length_filter_compl)
  ultimately have "filter (\<lambda>s. category s = InputMethod) ?A \<noteq> []" "filter (\<lambda>s. category s = TypingCadence) ?A \<noteq> []"
    using assms suite_by_category [of p] by auto
  then have "categories_of Automation (run_human_plausibility_detectors p) = {InputMethod, TypingCadence}"
    using suite_automation(2) [of p]
    by (auto simp: automation_of_def categories_of_def filter_empty_conv intro: rev_image_eqI)
  then show ?thesis by simp
qed

lemma suite_input_risk:
  assumes "InputMethod \<in> categories_of Automation (run_human_plausibility_detectors p)"
  shows "0.0675 \<le> target_risk Automation (run_human_plausibility_detectors p)"
proof -
  let ?ss = "run_human_plausibility_detectors p"
  obtain s where s: "s \<in> set ?ss" "contribution_target s = Automation" "category s = InputMethod"
    using assms by (auto simp: categories_of_def)
  then have "s \<in> set (paste_or_instant_input (pk_typing p))"
    by (auto simp: run_human_plausibility_detectors_def risk_signal_def dest!: detector_wfD agentic_suite_wf)
  then have strength: "0.1125 \<le> signal_strength s"
    using paste_strength by (auto simp: list_all_iff)
  obtain xs ys where split: "?ss = xs @ s # ys"
    using s(1) by (auto simp: in_set_conv_decomp)
  let ?rest = "complements (strengths_in Automation InputMethod (xs @ ys))"
  have "complements (strengths_in Automation InputMethod ?ss) = (1 - clamp (signal_strength s)) * ?rest"
    using s by (simp add: split strengths_in_def complements_append)
  also have "\<dots> \<le> 0.8875 * 1"
    using strength in_unit_complements [of "strengths_in Automation InputMethod (xs @ ys)"]
    by (intro mult_mono) (auto simp: in_unit_def clamp_def)
  finally show ?thesis using category_risk_ge [of Automation InputMethod ?ss "0.8875"] by simp
qed

lemma suite_never_allowed:
  "recommended_action (adjusted_risk (run_human_plausibility_detectors p) q)
     (score_confidence (run_human_plausibility_detectors p) q) \<noteq> Allow"
proof
  let ?ss = "run_human_plausibility_detectors p"
  let ?n = "length (agentic_of ?ss)" and ?m = "length (automation_of ?ss)"
  assume allow: "recommended_action (adjusted_risk ?ss q) (score_confidence ?ss q) = Allow"
  then have low: "combined_risk ?ss < 15 / 41"
    by (intro low_risk_combined [OF human_suite.no_human_signals, where p = q])
      (simp add: recommended_action_allow)
  have suff: "10 / 13 < evidence_sufficiency (total_risk_cats ?ss) (?m + ?n)"
    using allow_sufficiency [OF allow] by (simp add: n_risk_split agentic_of_def automation_of_def)
  have "?n < 2"
  proof (rule ccontr)
    assume "\<not> ?n < 2"
    then have g: "0.41 \<le> target_risk AgenticControl ?ss"
      using suite_agentic_risk [of 2 p] by (simp add: power2_eq_square)
    have "1 - (1 - 0) * (1 - 0.41) + 0 \<le> combined_risk ?ss"
      using g in_unit_target_risk [of Automation ?ss]
      by (intro combined_risk_ge) (auto simp: in_unit_def corroboration_bonus_def clamp_bounds)
    with low show False by simp
  qed
  moreover have auto_cats: "target_categories Automation ?ss \<le> 2"
    using card_mono [OF _ suite_automation(2) [of p]] by (simp add: target_categories_closed)
  moreover have "target_categories AgenticControl ?ss \<le> ?n"
    using target_categories_le [of AgenticControl ?ss] by (simp add: agentic_of_def)
  moreover have "\<not> (total_risk_cats ?ss \<le> 2 \<and> ?m + ?n \<le> 3)"
    using sufficiency_narrow suff by fastforce
  moreover have "?m \<le> 3" by (rule suite_automation(1))
  moreover have "?m = 3 \<Longrightarrow> target_categories Automation ?ss = 2"
    using suite_three_automation [of p] by (simp add: target_categories_closed)
  moreover have "1 \<le> ?n \<Longrightarrow> 1 \<le> target_categories AgenticControl ?ss"
    by (cases "agentic_of ?ss") (auto simp: target_categories_closed categories_of_def agentic_of_def
        Suc_le_eq card_gt_0_iff filter_eq_Cons_iff)
  ultimately have n: "1 \<le> ?n" and two: "2 \<le> target_categories Automation ?ss"
    and three: "3 \<le> total_risk_cats ?ss"
    by (auto simp: total_risk_cats_def)
  have "0.0675 \<le> target_risk Automation ?ss"
    using two card_two_subset [OF suite_automation(2)] suite_input_risk
    by (simp add: target_categories_closed)
  moreover have "0.242 \<le> target_risk AgenticControl ?ss"
    using suite_agentic_risk [OF n] by simp
  ultimately have "1 - (1 - 0.0675) * (1 - 0.242) + 0.1 \<le> combined_risk ?ss"
    by (intro combined_risk_ge bonus_ge three) simp_all
  with low show False by simp
qed

end
