(* ===== verification/Evaluation.thy ===== *)
theory Evaluation
  imports Artifacts Privacy Suite_Risk
begin

text \<open>
  The SDK evaluation, \<open>truepresence/sdk/evaluation.py\<close>: guard, detectors, scorer and artifact store
  composed as \<open>evaluate_interaction_request\<close> composes them. The random identifier and the clock are
  arguments; the store is threaded through.
\<close>

definition resolve_packet :: "evaluation_request \<Rightarrow> feature_packet" where
  "resolve_packet r = (rq_feature_packet r)
     \<lparr>pk_tenant_id := Some (str_or (pk_tenant_id (rq_feature_packet r)) (rq_tenant_id r)),
      pk_session_id := Some (str_or (pk_session_id (rq_feature_packet r)) (rq_session_id r))\<rparr>"

definition evaluate_interaction_request ::
    "store \<Rightarrow> evaluation_request \<Rightarrow> string \<Rightarrow> string \<Rightarrow> (evaluation_response \<times> store) res" where
  "evaluate_interaction_request st r uuid_hex now =
     bind_res (ensure_privacy_safe_payload (dump_request r)) (\<lambda>_.
       let packet = resolve_packet r;
           signals = run_human_plausibility_detectors packet;
           response = score_interaction signals packet (rq_enforcement_mode r) uuid_hex
       in bind_res (persist_sdk_evidence_artifact st packet response signals (rq_enforcement_mode r) now)
            (\<lambda>(artifact, st'). Inr (response, st')))"

section \<open>The guard on typed requests\<close>

text \<open>A key that every scanner lets through unchanged.\<close>

definition plain_key :: "string \<Rightarrow> bool" where
  "plain_key k = (normalize_key k = k \<and> \<not> is_raw_content_key k \<and> k \<notin> set descriptor_keys)"

lemma plain_not_denied: "plain_key k \<Longrightarrow> \<not> denied k v"
  by (simp add: plain_key_def denied_def is_sensitive_field_descriptor_def)

lemma plain_field_keys:
  "list_all plain_key allowed_typing_fields" "list_all plain_key allowed_challenge_fields"
  "list_all plain_key allowed_pointer_fields" "list_all plain_key allowed_environment_fields"
  "list_all plain_key allowed_agentic_fields" "list_all plain_key allowed_session_continuity_fields"
  "list_all plain_key allowed_external_risk_fields" "list_all plain_key allowed_packet_top_level"
  "list_all plain_key allowed_request_top_level"
  by code_simp+

text \<open>A dump whose keys are all allowed and whose values are scalars passes the section scan.\<close>

definition scalar_section :: "string list \<Rightarrow> dict \<Rightarrow> bool" where
  "scalar_section allow kvs =
     list_all (\<lambda>(k, v). k \<in> set allow \<and> plain_key k \<and> \<not> is_dict v \<and> \<not> is_list v) kvs"

lemma scan_scalar_section: "scalar_section allow kvs \<Longrightarrow> scan_section (PDict kvs) allow path = []"
  unfolding scan_simps
  by (auto simp: scalar_section_def list_all_iff plain_key_def plain_not_denied
      intro: clean_not_container dest!: bspec)

lemma scalar_opts [simp]:
  "\<not> is_dict (opt_num x)" "\<not> is_list (opt_num x)" "\<not> is_dict (opt_int i)" "\<not> is_list (opt_int i)"
  "\<not> is_dict (opt_bool b)" "\<not> is_list (opt_bool b)" "\<not> is_dict (opt_str s)" "\<not> is_list (opt_str s)"
  by (auto simp: opt_num_def opt_int_def opt_bool_def opt_str_def split: option.splits)

named_theorems dump_scans \<open>the guard finds nothing in the dump of a typed section\<close>

lemma plain_memberI: "list_all plain_key ks \<Longrightarrow> k \<in> set ks \<Longrightarrow> plain_key k"
  by (simp add: list_all_iff)

lemma scalar_sectionI:
  assumes "list_all plain_key allow" and "map fst kvs = ks" and "set ks \<subseteq> set allow"
    and "list_all (\<lambda>v. \<not> is_dict v \<and> \<not> is_list v) (map snd kvs)"
  shows "scalar_section allow kvs"
  using assms by (auto simp: scalar_section_def list_all_iff) force+

lemma dump_typing_scan [dump_scans]: "scan_section (opt_dump dump_typing x) allowed_typing_fields path = []"
proof (cases x)
  case (Some t)
  have "scan_section (dump_typing t) allowed_typing_fields path = []"
    unfolding dump_typing_def
    by (rule scan_scalar_section, rule scalar_sectionI [OF plain_field_keys(1) refl])
      (simp_all add: allowed_typing_fields_def)
  with Some show ?thesis by (simp add: opt_dump_def)
qed (simp add: opt_dump_def scan_section_def)

lemma dump_pointer_scan [dump_scans]: "scan_section (opt_dump dump_pointer x) allowed_pointer_fields path = []"
proof (cases x)
  case (Some t)
  have "scan_section (dump_pointer t) allowed_pointer_fields path = []"
    unfolding dump_pointer_def
    by (rule scan_scalar_section, rule scalar_sectionI [OF plain_field_keys(3) refl])
      (simp_all add: allowed_pointer_fields_def)
  with Some show ?thesis by (simp add: opt_dump_def)
qed (simp add: opt_dump_def scan_section_def)

lemma dump_challenge_scan [dump_scans]:
  "scan_section (opt_dump dump_challenge x) allowed_challenge_fields path = []"
proof (cases x)
  case (Some t)
  have "scan_section (dump_challenge t) allowed_challenge_fields path = []"
    unfolding dump_challenge_def
    by (rule scan_scalar_section, rule scalar_sectionI [OF plain_field_keys(2) refl])
      (simp_all add: allowed_challenge_fields_def)
  with Some show ?thesis by (simp add: opt_dump_def)
qed (simp add: opt_dump_def scan_section_def)

lemma dump_agentic_scan [dump_scans]: "scan_section (opt_dump dump_agentic x) allowed_agentic_fields path = []"
proof (cases x)
  case (Some t)
  have "scan_section (dump_agentic t) allowed_agentic_fields path = []"
    unfolding dump_agentic_def
    by (rule scan_scalar_section, rule scalar_sectionI [OF plain_field_keys(5) refl])
      (simp_all add: allowed_agentic_fields_def)
  with Some show ?thesis by (simp add: opt_dump_def)
qed (simp add: opt_dump_def scan_section_def)

lemma dump_session_scan [dump_scans]:
  "scan_section (opt_dump dump_session x) allowed_session_continuity_fields path = []"
proof (cases x)
  case (Some t)
  have "scan_section (dump_session t) allowed_session_continuity_fields path = []"
    unfolding dump_session_def
    by (rule scan_scalar_section, rule scalar_sectionI [OF plain_field_keys(6) refl])
      (simp_all add: allowed_session_continuity_fields_def)
  with Some show ?thesis by (simp add: opt_dump_def)
qed (simp add: opt_dump_def scan_section_def)

lemma dump_environment_scan [dump_scans]:
  "scan_section (opt_dump dump_environment x) allowed_environment_fields path = []"
proof (cases x)
  case (Some t)
  have "scan_section (dump_environment t) allowed_environment_fields path = []"
    unfolding dump_environment_def
    by (rule scan_scalar_section, rule scalar_sectionI [OF plain_field_keys(4) refl])
      (simp_all add: allowed_environment_fields_def)
  with Some show ?thesis by (simp add: opt_dump_def)
qed (simp add: opt_dump_def scan_section_def)

lemma clean_elems_strs: "clean_elems (map PStr xs)"
  by (induction xs) auto

lemma dump_external_scan [dump_scans]:
  "scan_external_risk_list (PList (map dump_external es)) path = []"
proof -
  have keys: "plain_key k" if "k \<in> set allowed_external_risk_fields" for k
    using plain_memberI [OF plain_field_keys(7) that] .
  have item: "scan_external_item q (k, v) = []"
    if "k \<in> set allowed_external_risk_fields" and "clean v" for q k v
    using keys [OF that(1)] that plain_not_denied [OF keys [OF that(1)]]
    by (simp add: scan_external_item_Nil plain_key_def)
  have "scan_external_elems (map dump_external es) i path = []" for i
    by (induction es arbitrary: i)
      (simp_all add: dump_external_def item allowed_external_risk_fields_def clean_elems_strs clean_not_container)
  then show ?thesis by (simp add: scan_external_risk_list_def)
qed

lemma packet_item_plain:
  assumes "k \<in> set allowed_packet_top_level"
  shows "scan_packet_item path (k, v) =
     (case map_of section_allowlists k of
        Some allow \<Rightarrow> scan_section v allow (path @ ''.'' @ k)
      | None \<Rightarrow> if k = ''metadata'' then scan_metadata v (path @ ''.'' @ k)
          else if k = ''external_risk_provider'' then scan_external_risk_list v (path @ ''.'' @ k)
          else global_scan v (path @ ''.'' @ k))"
  using assms plain_memberI [OF plain_field_keys(8) assms]
  unfolding scan_packet_item_def plain_key_def Let_def
  by (simp cong: option.case_cong)

text \<open>The dispatch table of the packet scan, looked up key by key.\<close>

lemma packet_keys:
  "''surface'' \<in> set allowed_packet_top_level" "''site_id'' \<in> set allowed_packet_top_level"
  "''tenant_id'' \<in> set allowed_packet_top_level" "''session_id'' \<in> set allowed_packet_top_level"
  "''page_context'' \<in> set allowed_packet_top_level" "''typing'' \<in> set allowed_packet_top_level"
  "''pointer'' \<in> set allowed_packet_top_level" "''challenge'' \<in> set allowed_packet_top_level"
  "''agentic'' \<in> set allowed_packet_top_level" "''session_continuity'' \<in> set allowed_packet_top_level"
  "''environment'' \<in> set allowed_packet_top_level" "''metadata'' \<in> set allowed_packet_top_level"
  "''external_risk_provider'' \<in> set allowed_packet_top_level"
  by code_simp+

lemma section_lookup:
  "map_of section_allowlists ''surface'' = None" "map_of section_allowlists ''site_id'' = None"
  "map_of section_allowlists ''tenant_id'' = None" "map_of section_allowlists ''session_id'' = None"
  "map_of section_allowlists ''metadata'' = None"
  "map_of section_allowlists ''external_risk_provider'' = None"
  "map_of section_allowlists ''page_context'' = Some allowed_page_context_fields"
  "map_of section_allowlists ''typing'' = Some allowed_typing_fields"
  "map_of section_allowlists ''pointer'' = Some allowed_pointer_fields"
  "map_of section_allowlists ''challenge'' = Some allowed_challenge_fields"
  "map_of section_allowlists ''agentic'' = Some allowed_agentic_fields"
  "map_of section_allowlists ''session_continuity'' = Some allowed_session_continuity_fields"
  "map_of section_allowlists ''environment'' = Some allowed_environment_fields"
  by (simp_all add: section_allowlists_def)

lemma global_scan_scalar: "\<not> is_dict v \<Longrightarrow> \<not> is_list v \<Longrightarrow> global_scan v path = []"
  by (cases v) auto

text \<open>Only the two free-form sections of a typed packet can be rejected.\<close>

lemma dump_packet_scan:
  "scan_feature_packet (PDict (dump_packet p)) path =
     scan_section (PDict (pk_page_context p)) allowed_page_context_fields (path @ ''.page_context'') @
     scan_metadata (PDict (pk_metadata p)) (path @ ''.metadata'')"
  by (simp add: scan_feature_packet_def dump_packet_def packet_item_plain packet_keys section_lookup
      dump_scans global_scan_scalar)

lemma dump_request_scan:
  "scan_request (dump_request r) =
     scan_section (PDict (pk_page_context (rq_feature_packet r))) allowed_page_context_fields
       ''feature_packet.page_context'' @
     scan_metadata (PDict (pk_metadata (rq_feature_packet r))) ''feature_packet.metadata''"
proof -
  have plain: "plain_key k" if "k \<in> set allowed_request_top_level" for k
    using plain_memberI [OF plain_field_keys(9) that] .
  have str: "scan_request_item (k, PStr s) = []"
    if "k \<in> {''session_id'', ''tenant_id'', ''enforcement_mode''}" for k s
    using that plain [of k]
    by (auto simp: scan_request_item_def plain_key_def allowed_request_top_level_def)
  have fp: "scan_request_item (''feature_packet'', v) = scan_feature_packet v ''feature_packet''" for v
    using plain [of "''feature_packet''"]
    by (simp add: scan_request_item_def plain_key_def allowed_request_top_level_def)
  show ?thesis
    by (simp add: scan_request_def dump_request_def str fp dump_packet_scan)
qed

section \<open>The composed evaluation\<close>

lemma evaluate_Inr:
  "evaluate_interaction_request st r uid now = Inr (resp, st') \<longleftrightarrow>
     ensure_privacy_safe_payload (dump_request r) = Inr () \<and>
     (let p = resolve_packet r; ss = run_human_plausibility_detectors p;
          a = build_sdk_evidence_artifact p resp ss (rq_enforcement_mode r) now in
      resp = score_interaction ss p (rq_enforcement_mode r) uid \<and>
      store_put st a = Inr st')"
  by (auto simp: evaluate_interaction_request_def persist_sdk_evidence_artifact_def Let_def bind_res_eq_Inr)

lemma guard_Inr_iff:
  "ensure_privacy_safe_payload (dump_request r) = Inr () \<longleftrightarrow>
     scan_section (PDict (pk_page_context (rq_feature_packet r))) allowed_page_context_fields
       ''feature_packet.page_context'' = [] \<and>
     scan_metadata (PDict (pk_metadata (rq_feature_packet r))) ''feature_packet.metadata'' = []"
  by (simp add: ensure_privacy_safe_payload_def raise_if_violations_def dump_request_scan)

definition plain_request :: evaluation_request where
  "plain_request = \<lparr>rq_session_id = ''s1'', rq_tenant_id = ''t1'', rq_enforcement_mode = ObserveMode,
     rq_feature_packet = empty_packet\<rparr>"

lemma plain_guard: "ensure_privacy_safe_payload (dump_request plain_request) = Inr ()"
  unfolding guard_Inr_iff
  by (simp add: plain_request_def empty_packet_def scan_section_def scan_metadata_def)

lemma plain_signals: "run_human_plausibility_detectors (resolve_packet plain_request) = []"
  by code_simp

lemma plain_minimized:
  "artifact_minimized (build_sdk_evidence_artifact (resolve_packet plain_request)
     (score_interaction [] (resolve_packet plain_request) ObserveMode ''1'') [] ObserveMode ''now'')"
  by code_simp

lemma plain_evaluates:
  "\<exists>resp st'. evaluate_interaction_request [] plain_request ''1'' ''now'' = Inr (resp, st')"
proof -
  have "rq_enforcement_mode plain_request = ObserveMode" by (simp add: plain_request_def)
  then show ?thesis
    using plain_minimized plain_guard
    by (simp add: evaluate_Inr plain_signals Let_def store_put_Inr)
qed

text \<open>A typed request is rejected for raw content exactly when one of its two free-form sections,
  \<open>page_context\<close> or \<open>metadata\<close>, is: no value of a typed feature section can trip the guard.\<close>

theorem typed_request_guard:
  "(\<exists>e. evaluate_interaction_request st r uid now = Inl (RawContentRejected e)) \<longleftrightarrow>
   \<not> (scan_section (PDict (pk_page_context (rq_feature_packet r))) allowed_page_context_fields
       ''feature_packet.page_context'' = [] \<and>
     scan_metadata (PDict (pk_metadata (rq_feature_packet r))) ''feature_packet.metadata'' = [])"
proof (cases "ensure_privacy_safe_payload (dump_request r)")
  case (Inl e)
  then show ?thesis using guard_Inr_iff [of r]
    by (auto simp: evaluate_interaction_request_def ensure_privacy_safe_payload_def raise_if_violations_def
        split: if_splits)
next
  case (Inr u)
  have "store_put st a \<noteq> Inl (RawContentRejected e)" for a e
    by (auto simp: store_put_def ensure_sdk_artifact_minimized_def split: option.splits)
  with Inr show ?thesis using guard_Inr_iff [of r]
    by (auto simp: evaluate_interaction_request_def persist_sdk_evidence_artifact_def Let_def
        bind_res_def split: sum.splits)
qed

text \<open>C14: A successful evaluation returns a valid response and files exactly one artifact, under the
  response's packet id, with the response's codes, likelihoods, confidence and action, free of raw
  content; every other stored artifact is untouched.\<close>

theorem evaluation_files_its_response:
  assumes "evaluate_interaction_request st r uid now = Inr (resp, st')"
  shows "valid_response resp \<and> evidence_packet_id resp = ''ep_'' @ uid \<and>
    (\<exists>a. store_get st' (''ep_'' @ uid) = Some a \<and> raw_free (dump_artifact a) \<and>
         art_reason_codes a = resp_reason_codes resp \<and>
         art_recommended_action a = action_str (resp_action resp) \<and>
         art_confidence a = resp_confidence resp \<and>
         map snd (art_likelihoods a) = [human_presence_likelihood resp, automation_likelihood resp,
           agentic_control_likelihood resp]) \<and>
    (\<forall>k. k = ''ep_'' @ uid \<or> store_get st' k = store_get st k)"
proof -
  let ?p = "resolve_packet r"
  let ?ss = "run_human_plausibility_detectors ?p"
  let ?a = "build_sdk_evidence_artifact ?p resp ?ss (rq_enforcement_mode r) now"
  have resp: "resp = score_interaction ?ss ?p (rq_enforcement_mode r) uid"
    and put: "store_put st ?a = Inr st'"
    using assms by (auto simp add: evaluate_Inr Let_def)
  have pid: "evidence_packet_id resp = ''ep_'' @ uid"
    by (simp add: resp score_interaction_def Let_def)
  then have ident: "art_packet_id ?a = ''ep_'' @ uid"
    by (simp add: build_sdk_evidence_artifact_def)
  have get: "store_get st' k = (if k = ''ep_'' @ uid then Some ?a else store_get st k)" for k
    using memory_store.get_put [OF put] ident by simp
  have "artifact_minimized ?a"
    using put memory_store.put_accepts by blast
  then have free: "raw_free (dump_artifact ?a)" by (simp add: artifact_minimized_iff)
  have "valid_response resp"
    by (simp add: resp score_interaction_def Let_def valid_response_def in_unit_py_round)
  with pid get free show ?thesis by (simp add: build_sdk_evidence_artifact_def)
qed

theorem evaluation_files_its_response_witness:
  "\<exists>resp st'. evaluate_interaction_request [] plain_request ''1'' ''now'' = Inr (resp, st') \<and>
     valid_response resp \<and> store_get st' ''ep_1'' \<noteq> None"
proof -
  obtain resp st' where ok: "evaluate_interaction_request [] plain_request ''1'' ''now'' = Inr (resp, st')"
    using plain_evaluates by blast
  from evaluation_files_its_response [OF this] ok show ?thesis by auto
qed

text \<open>C37: The SDK evaluation never recommends \<open>allow\<close>, whatever the features: the evidence the suite
  can report is either too sparse for the confidence that \<open>allow\<close> asks for, or too strong for its risk
  threshold.\<close>

theorem evaluation_never_allows:
  assumes "evaluate_interaction_request st r uid now = Inr (resp, st')"
  shows "resp_action resp \<noteq> Allow"
proof -
  have "resp = score_interaction (run_human_plausibility_detectors (resolve_packet r)) (resolve_packet r)
      (rq_enforcement_mode r) uid"
    using assms by (simp add: evaluate_Inr Let_def)
  then show ?thesis using suite_never_allowed by (simp add: score_interaction_def Let_def)
qed

theorem evaluation_never_allows_witness:
  "\<exists>resp st'. evaluate_interaction_request [] plain_request ''1'' ''now'' = Inr (resp, st') \<and>
     resp_action resp \<noteq> Allow"
  using plain_evaluates evaluation_never_allows by fast

end
