(* ===== verification/Community.thy ===== *)
theory Community
  imports Detectors
begin

text \<open>
  The Telegram community surface: the derived features of \<open>truepresence/surfaces/telegram/community.py\<close>
  and the detectors of \<open>truepresence/detectors/telegram_community.py\<close> over them. The suite meets the
  same detector contract as the SDK suite.
\<close>

record community_features =
  join_to_first_message_ms :: "rat option"
  cf_join_to_first_media_ms :: "rat option"
  join_to_first_link_ms :: "rat option"
  message_count_window :: "int option"
  burst_count :: "int option"
  mean_message_interval_ms :: "rat option"
  message_interval_stddev_ms :: "rat option"
  joined_within_cluster_count :: "int option"
  synchronized_peer_count :: "int option"
  group_hop_count :: "int option"
  link_present :: bool
  cf_media_present :: bool

definition community_signal ::
    "string \<Rightarrow> severity \<Rightarrow> rat \<Rightarrow> contribution_target \<Rightarrow> signal_category \<Rightarrow> string \<Rightarrow> detector_signal" where
  "community_signal rc sev conf target cat expl = mk_signal rc sev conf target expl cat"

definition join_to_action_plausibility :: "community_features option \<Rightarrow> detector_signal list" where
  "join_to_action_plausibility features = (case features of None \<Rightarrow> [] | Some f \<Rightarrow>
     (case join_to_first_message_ms f of None \<Rightarrow> [] | Some latency \<Rightarrow>
       if latency > 10000 then []
       else let (sev, conf) = (if latency \<le> 1500 then (SevHigh, 0.78) else (SevMedium, 0.62)) in
         [community_signal ''join_to_action_plausibility'' sev conf Automation SessionContinuity
           ''First observed action followed the join event unusually quickly.'']))"

definition instant_post_after_join :: "community_features option \<Rightarrow> detector_signal list" where
  "instant_post_after_join features = (case features of None \<Rightarrow> [] | Some f \<Rightarrow>
     (case join_to_first_message_ms f of None \<Rightarrow> [] | Some latency \<Rightarrow>
       if latency > 3000 then []
       else let (sev, conf) = (if latency \<le> 1000 then (SevHigh, 0.84) else (SevMedium, 0.7)) in
         [community_signal ''instant_post_after_join'' sev conf Automation SessionContinuity
           ''A message was posted almost immediately after joining.'']))"

definition link_drop_after_join :: "community_features option \<Rightarrow> detector_signal list" where
  "link_drop_after_join features = (case features of None \<Rightarrow> [] | Some f \<Rightarrow>
     if \<not> link_present f then [] else
     (case join_to_first_link_ms f of None \<Rightarrow> [] | Some latency \<Rightarrow>
       if latency > 30000 then []
       else let (sev, conf) = (if latency \<le> 5000 then (SevHigh, 0.82) else (SevMedium, 0.68)) in
         [community_signal ''link_drop_after_join'' sev conf Automation Environment
           ''A link entity appeared shortly after joining, using Telegram metadata only.'']))"

definition message_burst_pattern :: "community_features option \<Rightarrow> detector_signal list" where
  "message_burst_pattern features = (case features of None \<Rightarrow> [] | Some f \<Rightarrow>
     let message_count = or0 (message_count_window f); bursts = or0 (burst_count f) in
     if message_count < 5 \<or> bursts < 4 then []
     else let (sev, conf) =
         (if message_count \<ge> 8 \<or> bursts \<ge> 6 then (SevHigh, 0.82) else (SevMedium, 0.7)) in
       [community_signal ''message_burst_pattern'' sev conf Automation SessionContinuity
         ''Multiple messages landed in a compact timing window.''])"

definition conversation_cadence_anomaly :: "community_features option \<Rightarrow> detector_signal list" where
  "conversation_cadence_anomaly features = (case features of None \<Rightarrow> [] | Some f \<Rightarrow>
     let message_count = or0 (message_count_window f) in
     (case (mean_message_interval_ms f, message_interval_stddev_ms f) of
        (Some mean_interval, Some stddev) \<Rightarrow>
          if message_count < 4 then []
          else if mean_interval > 3000 \<or> stddev > 500 then []
          else let (sev, conf) =
              (if message_count \<ge> 6 \<and> stddev \<le> 150 then (SevHigh, 0.76) else (SevMedium, 0.64)) in
            [community_signal ''conversation_cadence_anomaly'' sev conf Automation SessionContinuity
              ''Message intervals are unusually regular over the rolling window.'']
      | _ \<Rightarrow> []))"

definition synchronized_posting_cluster :: "community_features option \<Rightarrow> detector_signal list" where
  "synchronized_posting_cluster features = (case features of None \<Rightarrow> [] | Some f \<Rightarrow>
     let peer_count = or0 (synchronized_peer_count f) in
     if peer_count < 2 then []
     else let (sev, conf) = (if peer_count \<ge> 4 then (SevHigh, 0.82) else (SevMedium, 0.68)) in
       [community_signal ''synchronized_posting_cluster'' sev conf AgenticControl AgenticBehavior
         ''Several distinct peers posted in a tight time cluster.''])"

definition coordinated_join_pattern :: "community_features option \<Rightarrow> detector_signal list" where
  "coordinated_join_pattern features = (case features of None \<Rightarrow> [] | Some f \<Rightarrow>
     let join_count = or0 (joined_within_cluster_count f) in
     if join_count < 5 then []
     else let (sev, conf) = (if join_count \<ge> 10 then (SevHigh, 0.82) else (SevMedium, 0.66)) in
       [community_signal ''coordinated_join_pattern'' sev conf Automation SessionContinuity
         ''Several users joined the same group in a compact time cluster.''])"

definition repeat_group_hopping_pattern :: "community_features option \<Rightarrow> detector_signal list" where
  "repeat_group_hopping_pattern features = (case features of None \<Rightarrow> [] | Some f \<Rightarrow>
     let hop_count = or0 (group_hop_count f) in
     if hop_count < 3 then []
     else let (sev, conf) = (if hop_count \<ge> 5 then (SevHigh, 0.78) else (SevMedium, 0.64)) in
       [community_signal ''repeat_group_hopping_pattern'' sev conf Automation Environment
         ''The account appears across several groups in recent metadata.''])"

definition run_telegram_community_detectors :: "community_features option \<Rightarrow> detector_signal list" where
  "run_telegram_community_detectors features =
     join_to_action_plausibility features @
     instant_post_after_join features @
     link_drop_after_join features @
     message_burst_pattern features @
     conversation_cadence_anomaly features @
     synchronized_posting_cluster features @
     coordinated_join_pattern features @
     repeat_group_hopping_pattern features"

section \<open>The suite meets the detector contract\<close>

definition community_wf :: "detector_signal \<Rightarrow> bool" where
  "community_wf s = (valid_signal s \<and>
     (contribution_target s = AgenticControl \<longleftrightarrow> category s = AgenticBehavior) \<and>
     contribution_target s \<noteq> HumanPresence)"

named_theorems community_lemmas \<open>well-formedness of each community detector\<close>

lemma community_wf_mk: "community_wf (community_signal rc sev conf t c expl) =
     ((t = AgenticControl \<longleftrightarrow> c = AgenticBehavior) \<and> t \<noteq> HumanPresence)"
  by (simp add: community_wf_def community_signal_def)

lemma join_community [community_lemmas]: "list_all community_wf (join_to_action_plausibility f)"
  unfolding join_to_action_plausibility_def Let_def by (simp add: all_cases community_wf_mk)

lemma instant_community [community_lemmas]: "list_all community_wf (instant_post_after_join f)"
  unfolding instant_post_after_join_def Let_def by (simp add: all_cases community_wf_mk)

lemma link_community [community_lemmas]: "list_all community_wf (link_drop_after_join f)"
  unfolding link_drop_after_join_def Let_def by (simp add: all_cases community_wf_mk)

lemma burst_community [community_lemmas]: "list_all community_wf (message_burst_pattern f)"
  unfolding message_burst_pattern_def Let_def by (simp add: all_cases community_wf_mk)

lemma cadence_community [community_lemmas]: "list_all community_wf (conversation_cadence_anomaly f)"
  unfolding conversation_cadence_anomaly_def Let_def by (simp add: all_cases community_wf_mk)

lemma sync_community [community_lemmas]: "list_all community_wf (synchronized_posting_cluster f)"
  unfolding synchronized_posting_cluster_def Let_def by (simp add: all_cases community_wf_mk)

lemma coordinated_community [community_lemmas]: "list_all community_wf (coordinated_join_pattern f)"
  unfolding coordinated_join_pattern_def Let_def by (simp add: all_cases community_wf_mk)

lemma hopping_community [community_lemmas]: "list_all community_wf (repeat_group_hopping_pattern f)"
  unfolding repeat_group_hopping_pattern_def Let_def by (simp add: all_cases community_wf_mk)

lemma community_suite_wf: "s \<in> set (run_telegram_community_detectors f) \<Longrightarrow> community_wf s"
  by (auto simp: run_telegram_community_detectors_def dest: community_lemmas [unfolded list_all_iff, THEN bspec])

interpretation community_suite: section_detector run_telegram_community_detectors
proof
  show "valid_signal s" if "s \<in> set (run_telegram_community_detectors f)" for s f
    using community_suite_wf [OF that] by (simp add: community_wf_def)
  show "contribution_target s \<noteq> HumanPresence" if "s \<in> set (run_telegram_community_detectors f)" for s f
    using community_suite_wf [OF that] by (simp add: community_wf_def)
  show "run_telegram_community_detectors None = []"
    by (simp add: run_telegram_community_detectors_def join_to_action_plausibility_def
        instant_post_after_join_def link_drop_after_join_def message_burst_pattern_def
        conversation_cadence_anomaly_def synchronized_posting_cluster_def
        coordinated_join_pattern_def repeat_group_hopping_pattern_def)
qed

text \<open>The post detectors are nested: an instant post is always also an implausible join-to-action.\<close>

lemma instant_post_implies_join_plausibility:
  "instant_post_after_join f \<noteq> [] \<Longrightarrow> join_to_action_plausibility f \<noteq> []"
  by (auto simp: instant_post_after_join_def join_to_action_plausibility_def Let_def
      split: option.splits if_splits)

end
