(* ===== verification/Conversions.thy ===== *)
theory Conversions
  imports Prelude
begin

text \<open>
  Conversions between dynamic values that the dictionary-driven parts of the program apply to
  untrusted data: \<open>float(x)\<close>, \<open>int(x)\<close>, \<open>str(x)\<close>, \<open>bool(x)\<close> and \<open>d.get(k, default)\<close> on a value that
  may not be a dictionary. \<open>float\<close> reads the decimal notation of Python (sign, digits, fraction,
  exponent); the spellings of infinity and not-a-number are outside the model's rationals and are
  rejected like other text. \<open>str\<close> of a float or a container is an argument \<open>rep\<close>.
\<close>

section \<open>Decimal notation\<close>

definition digit_code :: "char \<Rightarrow> int" where
  "digit_code c = of_char c - 48"

definition is_digit :: "char \<Rightarrow> bool" where
  "is_digit c = (0 \<le> digit_code c \<and> digit_code c \<le> 9)"

definition digits_val :: "string \<Rightarrow> int" where
  "digits_val s = foldl (\<lambda>acc c. acc * 10 + digit_code c) 0 s"

definition split_sign :: "string \<Rightarrow> int \<times> string" where
  "split_sign s = (case s of
      [] \<Rightarrow> (1, [])
    | c # t \<Rightarrow> if [c] = ''-'' then (-1, t) else if [c] = ''+'' then (1, t) else (1, s))"

definition pow10 :: "int \<Rightarrow> rat" where
  "pow10 e = (if 0 \<le> e then 10 ^ nat e else 1 / 10 ^ nat (- e))"

definition parse_exponent :: "string \<Rightarrow> int option" where
  "parse_exponent s = (case s of
      [] \<Rightarrow> Some 0
    | c # t \<Rightarrow>
        if [c] \<in> {''e'', ''E''} then
          (let (sign, ds) = split_sign t in
           if ds \<noteq> [] \<and> list_all is_digit ds then Some (sign * digits_val ds) else None)
        else None)"

definition parse_unsigned :: "string \<Rightarrow> rat option" where
  "parse_unsigned s =
     (let ip = takeWhile is_digit s;
          r = dropWhile is_digit s;
          (fp, r') = (if take 1 r = ''.'' then (takeWhile is_digit (drop 1 r), dropWhile is_digit (drop 1 r))
                      else ([], r))
      in if ip = [] \<and> fp = [] then None
         else map_option (\<lambda>e. of_int (digits_val (ip @ fp)) * pow10 (e - int (length fp)))
                (parse_exponent r'))"

definition parse_float :: "string \<Rightarrow> rat option" where
  "parse_float s = (let (sign, t) = split_sign (strip s) in map_option (\<lambda>x. of_int sign * x) (parse_unsigned t))"

definition parse_int :: "string \<Rightarrow> int option" where
  "parse_int s = (let (sign, t) = split_sign (strip s) in
     if t \<noteq> [] \<and> list_all is_digit t then Some (sign * digits_val t) else None)"

section \<open>Conversions of dynamic values\<close>

fun py_float :: "pv \<Rightarrow> rat res" where
  "py_float (PBool b) = Inr (if b then 1 else 0)"
| "py_float (PInt i) = Inr (of_int i)"
| "py_float (PFloat q) = Inr q"
| "py_float (PStr s) = (case parse_float s of
      None \<Rightarrow> Inl (ValueError ''could not convert string to float'') | Some q \<Rightarrow> Inr q)"
| "py_float _ = Inl (TypeError ''float() argument must be a string or a real number'')"

text \<open>\<open>isinstance(v, (int, float))\<close>, with the value.\<close>

fun num_of :: "pv \<Rightarrow> rat option" where
  "num_of (PBool b) = Some (if b then 1 else 0)"
| "num_of (PInt i) = Some (of_int i)"
| "num_of (PFloat q) = Some q"
| "num_of _ = None"

text \<open>\<open>int(x)\<close> truncates a float towards zero.\<close>

definition trunc :: "rat \<Rightarrow> int" where
  "trunc q = (if 0 \<le> q then floor q else ceiling q)"

fun py_int :: "pv \<Rightarrow> int res" where
  "py_int (PBool b) = Inr (if b then 1 else 0)"
| "py_int (PInt i) = Inr i"
| "py_int (PFloat q) = Inr (trunc q)"
| "py_int (PStr s) = (case parse_int s of
      None \<Rightarrow> Inl (ValueError ''invalid literal for int()'') | Some i \<Rightarrow> Inr i)"
| "py_int _ = Inl (TypeError ''int() argument must be a string or a real number'')"

definition int_str :: "int \<Rightarrow> string" where
  "int_str i = (if i < 0 then ''-'' @ nat_str (nat (- i)) else nat_str (nat i))"

fun py_str :: "(pv \<Rightarrow> string) \<Rightarrow> pv \<Rightarrow> string" where
  "py_str rep PNone = ''None''"
| "py_str rep (PBool b) = (if b then ''True'' else ''False'')"
| "py_str rep (PInt i) = int_str i"
| "py_str rep (PStr s) = s"
| "py_str rep v = rep v"

text \<open>\<open>v.get(k, d)\<close>: an attribute error unless \<open>v\<close> is a dictionary; and the total form the code
  writes as \<open>v.get(k, d) if isinstance(v, dict) else e\<close>.\<close>

fun py_get :: "pv \<Rightarrow> string \<Rightarrow> pv \<Rightarrow> pv res" where
  "py_get (PDict d) k dflt = Inr (dget_default d k dflt)"
| "py_get _ k dflt = Inl (AttributeError ''get'')"

fun get_if_dict :: "pv \<Rightarrow> string \<Rightarrow> pv \<Rightarrow> pv \<Rightarrow> pv" where
  "get_if_dict (PDict d) k dflt alt = dget_default d k dflt"
| "get_if_dict _ k dflt alt = alt"

text \<open>\<open>dict(v)\<close>: a copy of a dictionary, or of a list of key/value pairs (with string keys).\<close>

fun dict_of_pairs :: "pv list \<Rightarrow> dict \<Rightarrow> dict res" where
  "dict_of_pairs [] d = Inr d"
| "dict_of_pairs (PList [PStr k, v] # xs) d = dict_of_pairs xs (dset k v d)"
| "dict_of_pairs (x # xs) d = Inl (TypeError ''cannot convert dictionary update sequence element to a pair'')"

fun py_dict :: "pv \<Rightarrow> dict res" where
  "py_dict (PDict d) = Inr d"
| "py_dict (PList xs) = dict_of_pairs xs []"
| "py_dict (PStr s) = (if s = [] then Inr [] else Inl (ValueError ''dictionary update sequence element''))"
| "py_dict _ = Inl (TypeError ''object is not iterable'')"

text \<open>\<open>for x in v\<close>.\<close>

fun py_iter :: "pv \<Rightarrow> pv list res" where
  "py_iter (PList xs) = Inr xs"
| "py_iter (PDict d) = Inr (map (PStr \<circ> fst) d)"
| "py_iter (PStr s) = Inr (map (\<lambda>c. PStr [c]) s)"
| "py_iter _ = Inl (TypeError ''object is not iterable'')"

fun items_of :: "pv \<Rightarrow> dict" where
  "items_of (PDict d) = d"
| "items_of _ = []"

fun elems_of :: "pv \<Rightarrow> pv list" where
  "elems_of (PList xs) = xs"
| "elems_of _ = []"

text \<open>The exceptions \<open>float(x)\<close> can raise, and \<open>_coerce_float\<close> style recovery from them.\<close>

definition float_or :: "rat \<Rightarrow> pv \<Rightarrow> rat" where
  "float_or dflt v = (case py_float v of Inl _ \<Rightarrow> dflt | Inr q \<Rightarrow> q)"

lemma float_or_simps [simp]:
  "float_or d (PInt i) = of_int i" "float_or d (PFloat q) = q" "float_or d PNone = d"
  "float_or d (PBool b) = (if b then 1 else 0)" "float_or d (PList xs) = d" "float_or d (PDict kvs) = d"
  by (simp_all add: float_or_def)

lemma is_digit_sign: "is_digit c \<Longrightarrow> split_sign (c # s) = (1, c # s)"
  by (auto simp: split_sign_def is_digit_def digit_code_def)

text \<open>Printing a number and reading it back.\<close>

lemma digits_val_append: "digits_val (s @ [c]) = digits_val s * 10 + digit_code c"
  by (simp add: digits_val_def)

lemma digit_code_char: "0 \<le> k \<Longrightarrow> k \<le> 9 \<Longrightarrow> digit_code (char_of (48 + k)) = k"
  by (simp add: digit_code_def)

lemma nat_str_digits: "list_all is_digit (nat_str n) \<and> nat_str n \<noteq> [] \<and> digits_val (nat_str n) = int n"
proof (induction n rule: nat_str.induct)
  case (1 n)
  have d: "is_digit (char_of (48 + int k))" "digit_code (char_of (48 + int k)) = int k" if "k < 10" for k
    using that digit_code_char [of "int k"] by (simp_all add: is_digit_def)
  show ?case
  proof (cases "n < 10")
    case True
    then show ?thesis using d [of n]
      by (subst (1 2 3) nat_str.simps) (simp add: digits_val_def)
  next
    case False
    then have IH: "list_all is_digit (nat_str (n div 10))" "digits_val (nat_str (n div 10)) = int (n div 10)"
      using 1 by auto
    have "nat_str n = nat_str (n div 10) @ [char_of (48 + int (n mod 10))]"
      using False by (subst nat_str.simps) simp
    moreover have "int (n div 10) * 10 + int (n mod 10) = int n" by presburger
    ultimately show ?thesis using IH d [of "n mod 10"] by (simp add: digits_val_append)
  qed
qed

end
