(* ===== verification/Evidence_Card.thy ===== *)
theory Evidence_Card
  imports Community Conversions
begin

text \<open>
  The Telegram admin evidence card of \<open>truepresence/surfaces/telegram/community.py\<close>, built from the
  dictionaries of an event, an action and an evaluation. Every place where the code would raise on a
  value of the wrong type is a branch. The clock is an argument, as is the text of floats and
  containers used as reason codes (\<open>rep\<close>).
\<close>

fun feature_summary :: "pv \<Rightarrow> dict" where
  "feature_summary (PDict d) = d"
| "feature_summary _ = []"

definition source_reason_codes :: "(pv \<Rightarrow> string) \<Rightarrow> pv \<Rightarrow> string list res" where
  "source_reason_codes rep source = (case source of
      PDict d \<Rightarrow>
        let direct = dget d ''reason_codes'';
            vals = (if direct = PNone \<and> is_dict (dget d ''final'')
                    then get_if_dict (dget d ''final'') ''reason_codes'' PNone PNone else direct)
        in if \<not> truthy vals then Inr []
           else bind_res (py_iter vals) (\<lambda>xs. Inr (map (py_str rep) xs))
    | _ \<Rightarrow> Inr [])"

definition reason_codes_from :: "(pv \<Rightarrow> string) \<Rightarrow> pv list \<Rightarrow> string list res" where
  "reason_codes_from rep sources =
     bind_res (map_res (source_reason_codes rep) sources) (\<lambda>xss. Inr (dedup (concat xss)))"

definition signal_fields :: "string list" where
  "signal_fields =
    [''reason_code'', ''severity'', ''confidence'', ''contribution_target'', ''category'', ''explanation'']"

definition detector_signal_summaries :: "pv \<Rightarrow> dict list" where
  "detector_signal_summaries signals =
     map (\<lambda>s. map (\<lambda>k. (k, dget (items_of s) k)) signal_fields) (filter is_dict (elems_of signals))"

definition card_risk_level :: "rat \<Rightarrow> string" where
  "card_risk_level score = (if score \<ge> 0.75 then ''high'' else if score \<ge> 0.5 then ''medium'' else ''low'')"

text \<open>\<open>float(v or 0.0)\<close>.\<close>

definition float_or_zero :: "pv \<Rightarrow> rat res" where
  "float_or_zero v = py_float (py_or v (PFloat 0))"

definition build_telegram_community_evidence_card ::
    "(pv \<Rightarrow> string) \<Rightarrow> pv \<Rightarrow> dict \<Rightarrow> dict option \<Rightarrow> string \<Rightarrow> dict res" where
  "build_telegram_community_evidence_card rep event action evaluation now =
     (let evaluation = (case evaluation of None \<Rightarrow> [] | Some d \<Rightarrow> d);
          context = get_if_dict event ''context'' PNone (PDict []);
          community = get_if_dict context ''telegram_community'' (PDict []) (PDict [])
      in bind_res (py_get community ''features'' PNone) (\<lambda>feature_value.
         bind_res (py_get community ''detector_signals'' PNone) (\<lambda>signal_value.
         let features = feature_summary feature_value;
             detector_signals = detector_signal_summaries signal_value
         in
         bind_res (reason_codes_from rep [community, PDict evaluation, PDict action]) (\<lambda>reason_codes.
         bind_res (map_res (\<lambda>s. float_or_zero (dget s ''confidence'')) detector_signals) (\<lambda>confs.
         bind_res (float_or_zero (dget action ''confidence'')) (\<lambda>action_confidence.
         bind_res (if is_dict (dget evaluation ''final'')
                   then float_or_zero (get_if_dict (dget evaluation ''final'') ''confidence'' PNone PNone)
                   else Inr 0) (\<lambda>final_confidence.
         let conf = max action_confidence (max final_confidence (max_default 0 confs)) in
         Inr
          [(''surface'', PStr ''telegram''),
           (''risk'', PDict [(''score'', PFloat (py_round 3 conf)), (''level'', PStr (card_risk_level conf))]),
           (''confidence'', PFloat (py_round 3 conf)),
           (''reason_codes'', PList (map PStr reason_codes)),
           (''timestamps'', PDict [(''event_timestamp'', get_if_dict event ''timestamp'' PNone PNone),
                                   (''created_at'', PStr now)]),
           (''recommended_action'', dget action ''action''),
           (''feature_summaries'', PDict features),
           (''detector_signals'', PList (map PDict detector_signals)),
           (''actor_refs'', PDict [(''user_id'', get_if_dict context ''user_id'' PNone PNone),
                                   (''group_id'', get_if_dict context ''group_id'' PNone PNone)]),
           (''privacy_boundary'', PStr ''metadata_only_no_content_preview'')])))))))"

section \<open>The card reads metadata only\<close>

definition pick :: "string list \<Rightarrow> dict \<Rightarrow> dict" where
  "pick ks d = filter (\<lambda>(k, v). k \<in> set ks) d"

lemma dget_default_pick [simp]: "k \<in> set ks \<Longrightarrow> dget_default (pick ks d) k x = dget_default d k x"
  by (induction d) (auto simp: pick_def dget_default_def)

lemma dget_pick [simp]: "k \<in> set ks \<Longrightarrow> dget (pick ks d) k = dget d k"
  by (induction d) (auto simp: pick_def dget_def)

fun pick_pv :: "string list \<Rightarrow> pv \<Rightarrow> pv" where
  "pick_pv ks (PDict d) = PDict (pick ks d)"
| "pick_pv ks v = v"

lemma pick_pv_simps [simp]:
  "k \<in> set ks \<Longrightarrow> get_if_dict (pick_pv ks v) k x y = get_if_dict v k x y"
  "k \<in> set ks \<Longrightarrow> py_get (pick_pv ks v) k x = py_get v k x"
  "k \<in> set ks \<Longrightarrow> dget (items_of (pick_pv ks v)) k = dget (items_of v) k"
  "is_dict (pick_pv ks v) = is_dict v"
  by (cases v; simp)+

text \<open>What is left of an event once everything but the derived metadata is erased: no payload, no
  message text, no raw update.\<close>

definition minimal_event :: "pv \<Rightarrow> pv" where
  "minimal_event event =
     (case event of PDict e \<Rightarrow>
        PDict (map (\<lambda>(k, v). (k, if k = ''context'' then pick_pv [''telegram_community'', ''user_id'', ''group_id''] v else v))
          (pick [''context'', ''timestamp''] e))
      | _ \<Rightarrow> event)"

lemma map_of_map_value: "map_of (map (\<lambda>(k, v). (k, f k v)) d) k = map_option (f k) (map_of d k)"
  by (induction d) auto

lemma map_of_pick: "map_of (pick ks d) k = (if k \<in> set ks then map_of d k else None)"
  by (induction d) (auto simp: pick_def)

lemma minimal_event_simps:
  "k \<noteq> ''context'' \<Longrightarrow> k \<in> {''timestamp''} \<Longrightarrow> get_if_dict (minimal_event e) k x y = get_if_dict e k x y"
  "get_if_dict (minimal_event e) ''context'' PNone y =
     (if is_dict e then pick_pv [''telegram_community'', ''user_id'', ''group_id''] (get_if_dict e ''context'' PNone y)
      else y)"
  by (cases e; auto simp: minimal_event_def dget_default_def map_of_map_value map_of_pick split: option.split)+

text \<open>The admin evidence card depends on an event only through its timestamp and, in its context,
  the two actor references and the derived community section: message text, captions, media objects
  and the raw update never reach it, nor do they change whether building it fails.\<close>

theorem evidence_card_reads_metadata_only:
  "build_telegram_community_evidence_card rep (minimal_event e) action evaluation now =
   build_telegram_community_evidence_card rep e action evaluation now"
proof (cases "is_dict e")
  case True
  then have "get_if_dict (minimal_event e) ''context'' PNone (PDict []) =
      pick_pv [''telegram_community'', ''user_id'', ''group_id''] (get_if_dict e ''context'' PNone (PDict []))"
    by (simp add: minimal_event_simps)
  then show ?thesis
    unfolding build_telegram_community_evidence_card_def Let_def
    by (simp add: minimal_event_simps)
next
  case False
  then have "minimal_event e = e" by (cases e) (simp_all add: minimal_event_def)
  then show ?thesis by simp
qed

end
