(* ===== verification/Safety.thy ===== *)
theory Safety
  imports Conversions
begin

text \<open>
  The Telegram safety policy: \<open>truepresence/safety/policy.py\<close> (signals from media-distribution
  metadata), \<open>escalation.py\<close> (the risk score, its confidence and the action) and
  \<open>evidence_minimization.py\<close> (the evidence card). Identifiers, which the code types as
  \<open>int | str | None\<close>, are dynamic values. The validation that turns a dictionary into a
  \<open>ProviderRiskSignal\<close> is the constructor of the model library and an argument here; the fresh
  identifier of a card is an argument too.
\<close>

section \<open>Policy\<close>

datatype safety_severity = SafeMedium | SafeHigh | SafeCritical

record safety_features =
  sf_chat_id :: pv
  sf_message_id :: pv
  sf_sender_id :: pv
  sf_event_timestamp :: pv
  sf_event_type :: string
  sf_media_present :: bool
  sf_join_to_first_media_ms :: "rat option"
  sf_media_count_window :: int
  sf_media_burst_count :: int
  sf_synchronized_media_peer_count :: int
  sf_group_hop_count :: int
  sf_account_age_days :: "int option"
  sf_rapid_delete_repost_count :: int

record safety_signal =
  ss_reason_code :: string
  ss_severity :: safety_severity
  ss_confidence :: rat
  ss_explanation :: string

definition safety_mk_signal :: "string \<Rightarrow> safety_severity \<Rightarrow> rat \<Rightarrow> string \<Rightarrow> safety_signal" where
  "safety_mk_signal rc sev conf expl =
     \<lparr>ss_reason_code = rc, ss_severity = sev, ss_confidence = max 0 (min 1 conf), ss_explanation = expl\<rparr>"

definition safety_reason_codes :: "string list" where
  "safety_reason_codes =
    [''instant_media_post_after_join'', ''media_burst_pattern'', ''rapid_delete_repost_pattern'',
     ''coordinated_media_distribution_cluster'', ''new_account_high_risk_media_behavior'',
     ''repeat_group_hopping_pattern'']"

definition severity_of :: "rat \<Rightarrow> safety_severity" where
  "severity_of conf = (if conf \<ge> 0.85 then SafeCritical else SafeHigh)"

definition high_risk_codes :: "string list" where
  "high_risk_codes =
    [''instant_media_post_after_join'', ''media_burst_pattern'', ''coordinated_media_distribution_cluster'']"

definition evaluate_telegram_safety_policy :: "safety_features \<Rightarrow> safety_signal list" where
  "evaluate_telegram_safety_policy f =
     (if \<not> sf_media_present f then []
      else
        let instant = (case sf_join_to_first_media_ms f of None \<Rightarrow> [] | Some ms \<Rightarrow>
              if ms \<le> 5000 then
                let conf = (if ms \<le> 1500 then 0.86 else 0.74) in
                [safety_mk_signal ''instant_media_post_after_join'' (severity_of conf) conf
                  ''Media was posted shortly after the account joined the group.'']
              else []);
            burst = (if sf_media_count_window f \<ge> 3 \<and> sf_media_burst_count f \<ge> 2 then
                let conf = (if sf_media_count_window f \<ge> 4 then 0.88 else 0.8) in
                [safety_mk_signal ''media_burst_pattern'' (severity_of conf) conf
                  ''Multiple media messages appeared in a compact rolling window.'']
              else []);
            repost = (if sf_rapid_delete_repost_count f \<ge> 2 then
                let conf = (if sf_rapid_delete_repost_count f < 4 then 0.84 else 0.9) in
                [safety_mk_signal ''rapid_delete_repost_pattern'' (severity_of conf) conf
                  ''Delete/repost metadata indicates repeated media redistribution behavior.'']
              else []);
            cluster = (if sf_synchronized_media_peer_count f \<ge> 2 then
                let conf = (if sf_synchronized_media_peer_count f < 4 then 0.82 else 0.9) in
                [safety_mk_signal ''coordinated_media_distribution_cluster'' (severity_of conf) conf
                  ''Several distinct peers distributed media within a tight time cluster.'']
              else []);
            hopping = (if sf_group_hop_count f \<ge> 3 then
                let conf = (if sf_group_hop_count f < 5 then 0.72 else 0.82) in
                [safety_mk_signal ''repeat_group_hopping_pattern'' SafeHigh conf
                  ''The account appears across several groups in recent metadata.'']
              else []);
            signals = instant @ burst @ repost @ cluster @ hopping;
            high_risk_behavior = list_ex (\<lambda>s. ss_reason_code s \<in> set high_risk_codes) signals;
            new_account = (case sf_account_age_days f of None \<Rightarrow> [] | Some age \<Rightarrow>
              if age \<le> 30 \<and> high_risk_behavior then
                [safety_mk_signal ''new_account_high_risk_media_behavior'' SafeCritical 0.86
                  ''A new account is associated with high-risk media distribution metadata.'']
              else [])
        in signals @ new_account)"

section \<open>Evidence minimization\<close>

datatype safety_action = QuarantineMessage | RestrictSender | AdminReview | MandatorySafetyEscalation

datatype risk_label = LabelLow | LabelMedium | LabelHigh | LabelCritical

definition risk_label_for_score :: "rat \<Rightarrow> risk_label" where
  "risk_label_for_score score =
     (if score \<ge> 0.85 then LabelCritical
      else if score \<ge> 0.65 then LabelHigh
      else if score \<ge> 0.4 then LabelMedium
      else LabelLow)"

fun label_str :: "risk_label \<Rightarrow> string" where
  "label_str LabelLow = ''low''"
| "label_str LabelMedium = ''medium''"
| "label_str LabelHigh = ''high''"
| "label_str LabelCritical = ''critical''"

fun safety_action_str :: "safety_action \<Rightarrow> string" where
  "safety_action_str QuarantineMessage = ''quarantine_message''"
| "safety_action_str RestrictSender = ''restrict_sender''"
| "safety_action_str AdminReview = ''admin_review''"
| "safety_action_str MandatorySafetyEscalation = ''mandatory_safety_escalation''"

record safety_card =
  sc_evidence_id :: string
  sc_chat_id :: pv
  sc_message_id :: pv
  sc_sender_id :: pv
  sc_timestamps :: dict
  sc_media_present :: bool
  sc_event_type :: string
  sc_reason_codes :: "string list"
  sc_risk_score :: rat
  sc_risk_text :: risk_label
  sc_confidence :: rat
  sc_risk_label :: risk_label
  sc_recommended_action :: safety_action
  sc_provider_reference_id :: "string option"
  sc_provider_outcome :: "string option"

definition str_or_none :: "string option \<Rightarrow> pv" where
  "str_or_none x = (case x of None \<Rightarrow> PNone | Some s \<Rightarrow> PStr s)"

text \<open>\<open>card.model_dump(exclude_none=True)\<close>.\<close>

definition dump_safety_card :: "safety_card \<Rightarrow> dict" where
  "dump_safety_card c = filter (\<lambda>(k, v). v \<noteq> PNone)
    [(''evidence_id'', PStr (sc_evidence_id c)),
     (''chat_id'', sc_chat_id c),
     (''message_id'', sc_message_id c),
     (''sender_id'', sc_sender_id c),
     (''timestamps'', PDict (sc_timestamps c)),
     (''media_present'', PBool (sc_media_present c)),
     (''event_type'', PStr (sc_event_type c)),
     (''reason_codes'', PList (map PStr (sc_reason_codes c))),
     (''risk'', PDict [(''score'', PFloat (sc_risk_score c)), (''label'', PStr (label_str (sc_risk_text c)))]),
     (''confidence'', PFloat (sc_confidence c)),
     (''risk_label'', PStr (label_str (sc_risk_label c))),
     (''recommended_action'', PStr (safety_action_str (sc_recommended_action c))),
     (''provider_reference_id'', str_or_none (sc_provider_reference_id c)),
     (''provider_outcome'', str_or_none (sc_provider_outcome c))]"

definition build_safety_evidence_card ::
    "pv \<Rightarrow> pv \<Rightarrow> pv \<Rightarrow> pv \<Rightarrow> string \<Rightarrow> bool \<Rightarrow> string list \<Rightarrow> rat \<Rightarrow> rat \<Rightarrow> safety_action \<Rightarrow>
     string option \<Rightarrow> string option \<Rightarrow> string \<Rightarrow> safety_card" where
  "build_safety_evidence_card chat_id message_id sender_id event_timestamp event_type media_present
     reason_codes risk_score conf action provider_reference_id provider_outcome uuid =
     (let score = max 0 (min 1 risk_score);
          bounded_confidence = max 0 (min 1 conf)
      in \<lparr>sc_evidence_id = uuid, sc_chat_id = chat_id, sc_message_id = message_id, sc_sender_id = sender_id,
          sc_timestamps = [(''event_timestamp'', event_timestamp)], sc_media_present = media_present,
          sc_event_type = event_type, sc_reason_codes = dedup reason_codes,
          sc_risk_score = py_round 3 score, sc_risk_text = risk_label_for_score score,
          sc_confidence = py_round 3 bounded_confidence, sc_risk_label = risk_label_for_score score,
          sc_recommended_action = action, sc_provider_reference_id = provider_reference_id,
          sc_provider_outcome = provider_outcome\<rparr>)"

definition telegram_event_metadata :: "pv \<Rightarrow> dict res" where
  "telegram_event_metadata event =
     (let context = get_if_dict event ''context'' (PDict []) (PDict []);
          payload = get_if_dict event ''payload'' (PDict []) (PDict []);
          safety = get_if_dict context ''telegram_safety'' (PDict []) (PDict []);
          evidence = get_if_dict safety ''evidence_card'' (PDict []) (PDict [])
      in if truthy evidence then
           bind_res (py_get evidence ''chat_id'' PNone) (\<lambda>chat.
           bind_res (py_get evidence ''message_id'' PNone) (\<lambda>message.
           bind_res (py_get evidence ''sender_id'' PNone) (\<lambda>sender.
           bind_res (py_get evidence ''timestamps'' (PDict [])) (\<lambda>stamps.
           bind_res (py_dict stamps) (\<lambda>stamps.
           bind_res (py_get evidence ''media_present'' (PBool False)) (\<lambda>media.
           bind_res (py_get evidence ''event_type'' PNone) (\<lambda>etype.
             Inr [(''chat_id'', chat), (''message_id'', message), (''sender_id'', sender),
                  (''timestamps'', PDict stamps), (''media_present'', PBool (truthy media)),
                  (''event_type'', etype)])))))))
         else
           Inr [(''chat_id'', get_if_dict context ''group_id'' PNone PNone),
                (''message_id'', get_if_dict payload ''message_id'' PNone PNone),
                (''sender_id'', get_if_dict context ''user_id'' PNone PNone),
                (''timestamps'', PDict [(''event_timestamp'', get_if_dict event ''timestamp'' PNone PNone)]),
                (''media_present'', PBool (truthy (get_if_dict payload ''has_attachments'' PNone (PBool False)))),
                (''event_type'', get_if_dict event ''event_type'' PNone PNone)])"

section \<open>Escalation\<close>

record provider_risk_signal =
  provider_id :: string
  provider_reference_id :: string
  outcome :: string
  risk_score :: rat
  provider_confidence :: "rat option"

definition valid_provider :: "provider_risk_signal \<Rightarrow> bool" where
  "valid_provider p = (in_unit (risk_score p) \<and>
     (case provider_confidence p of None \<Rightarrow> True | Some c \<Rightarrow> in_unit c))"

datatype provider_value = NoProvider | ProviderSignal provider_risk_signal | ProviderDict dict | OtherValue

fun provider_signal_from ::
    "(dict \<Rightarrow> provider_risk_signal res) \<Rightarrow> provider_value \<Rightarrow> provider_risk_signal option res" where
  "provider_signal_from validate NoProvider = Inr None"
| "provider_signal_from validate (ProviderSignal p) = Inr (Some p)"
| "provider_signal_from validate (ProviderDict d) = bind_res (validate d) (\<lambda>p. Inr (Some p))"
| "provider_signal_from validate OtherValue = Inr None"

record safety_escalation =
  se_reason_codes :: "string list"
  se_risk_score :: rat
  se_confidence :: rat
  se_risk_label :: risk_label
  se_recommended_action :: safety_action
  se_evidence_card :: dict
  se_detector_signals :: "safety_signal list"

definition safety_recommended_action :: "rat \<Rightarrow> nat \<Rightarrow> provider_risk_signal option \<Rightarrow> safety_action" where
  "safety_recommended_action score reason_count provider =
     (if (case provider of None \<Rightarrow> False | Some p \<Rightarrow> risk_score p \<ge> 0.85) then MandatorySafetyEscalation
      else if score \<ge> 0.85 \<or> (score \<ge> 0.8 \<and> reason_count \<ge> 2) then MandatorySafetyEscalation
      else if score \<ge> 0.8 then RestrictSender
      else if score \<ge> 0.75 then AdminReview
      else if score \<ge> 0.65 then QuarantineMessage
      else AdminReview)"

definition provider_assessment_confidence :: "provider_risk_signal option \<Rightarrow> rat" where
  "provider_assessment_confidence provider = (case provider of None \<Rightarrow> 0 | Some p \<Rightarrow>
     (case provider_confidence p of Some c \<Rightarrow> clamp c | None \<Rightarrow> min 0.55 (clamp (risk_score p))))"

definition has_sufficient_metadata :: "safety_features \<Rightarrow> provider_risk_signal option \<Rightarrow> bool" where
  "has_sufficient_metadata f provider =
     (let references = [sf_chat_id f, sf_message_id f, sf_sender_id f, sf_event_timestamp f];
          present = length (filter (\<lambda>r. r \<noteq> PNone) references)
            + (case provider of None \<Rightarrow> 0 | Some p \<Rightarrow> if provider_reference_id p \<noteq> [] then 1 else 0)
      in sf_media_present f \<and> present \<ge> 3)"

definition reason_corroboration_bonus ::
    "string list \<Rightarrow> safety_features \<Rightarrow> provider_risk_signal option \<Rightarrow> rat" where
  "reason_corroboration_bonus reason_codes f provider =
     (if \<not> has_sufficient_metadata f provider then 0
      else let additional_reasons = max 0 (int (card (set reason_codes)) - 1)
           in min 0.12 (of_int additional_reasons * 0.04))"

definition assessment_confidence ::
    "safety_signal list \<Rightarrow> provider_risk_signal option \<Rightarrow> string list \<Rightarrow> safety_features \<Rightarrow> rat" where
  "assessment_confidence signals provider reason_codes f =
     (let signal_confidence = max_default 0 (map ss_confidence signals);
          provider_conf = provider_assessment_confidence provider;
          reason_bonus = reason_corroboration_bonus reason_codes f provider
      in clamp (max signal_confidence provider_conf + reason_bonus))"

definition provider_signals :: "provider_risk_signal option \<Rightarrow> safety_signal list" where
  "provider_signals provider = (case provider of None \<Rightarrow> [] | Some p \<Rightarrow>
     if risk_score p \<ge> 0.65 then
       [\<lparr>ss_reason_code = ''new_account_high_risk_media_behavior'',
         ss_severity = (if risk_score p \<ge> 0.85 then SafeCritical else SafeHigh),
         ss_confidence = provider_assessment_confidence (Some p),
         ss_explanation = ''Lawful provider supplied a high-risk media reference outcome.''\<rparr>]
     else [])"

definition escalate :: "safety_features \<Rightarrow> provider_risk_signal option \<Rightarrow> string \<Rightarrow> safety_escalation option" where
  "escalate f provider uuid =
     (let policy_signals = evaluate_telegram_safety_policy f;
          signals = policy_signals @ provider_signals provider;
          reason_codes = dedup (map ss_reason_code signals)
      in if reason_codes = [] then None
         else
           let signal_score = max_default 0 (map ss_confidence policy_signals);
               provider_score = (case provider of None \<Rightarrow> 0 | Some p \<Rightarrow> risk_score p);
               score = max signal_score provider_score;
               conf = assessment_confidence signals provider reason_codes f;
               action = safety_recommended_action score (length reason_codes) provider;
               evidence_card = build_safety_evidence_card (sf_chat_id f) (sf_message_id f) (sf_sender_id f)
                 (sf_event_timestamp f) (sf_event_type f) (sf_media_present f) reason_codes score conf action
                 (map_option provider_reference_id provider) (map_option outcome provider) uuid
           in Some \<lparr>se_reason_codes = reason_codes, se_risk_score = score, se_confidence = conf,
                    se_risk_label = risk_label_for_score score, se_recommended_action = action,
                    se_evidence_card = dump_safety_card evidence_card, se_detector_signals = signals\<rparr>)"

definition evaluate_telegram_safety_escalation ::
    "(dict \<Rightarrow> provider_risk_signal res) \<Rightarrow> safety_features \<Rightarrow> provider_value \<Rightarrow> string \<Rightarrow>
     safety_escalation option res" where
  "evaluate_telegram_safety_escalation validate f provider_signal uuid =
     bind_res (provider_signal_from validate provider_signal) (\<lambda>provider. Inr (escalate f provider uuid))"

section \<open>Bounds\<close>

lemma safety_mk_signal_simps [simp]:
  "ss_reason_code (safety_mk_signal rc sev conf expl) = rc"
  "ss_severity (safety_mk_signal rc sev conf expl) = sev"
  "in_unit (ss_confidence (safety_mk_signal rc sev conf expl))"
  by (simp_all add: safety_mk_signal_def in_unit_def)

text \<open>What every policy signal satisfies: a registered code, a valid confidence of at least 0.72, and
  the critical severity exactly from 0.85 on.\<close>

definition policy_signal_ok :: "safety_signal \<Rightarrow> bool" where
  "policy_signal_ok s =
     (ss_reason_code s \<in> set safety_reason_codes \<and> in_unit (ss_confidence s) \<and> 0.72 \<le> ss_confidence s \<and>
      (ss_severity s = SafeCritical \<longleftrightarrow> 0.85 \<le> ss_confidence s))"

lemma policy_signal_ok_mk:
  "policy_signal_ok (safety_mk_signal rc sev conf expl) \<longleftrightarrow>
     rc \<in> set safety_reason_codes \<and> 0.72 \<le> max 0 (min 1 conf) \<and> (sev = SafeCritical \<longleftrightarrow> 0.85 \<le> max 0 (min 1 conf))"
  by (auto simp: policy_signal_ok_def safety_mk_signal_def in_unit_def)

lemma all_parts:
  "list_all P xs \<Longrightarrow> list_all P ys \<Longrightarrow> list_all P (xs @ ys)"
  "list_all P xs \<Longrightarrow> list_all P (if c then xs else [])"
  "list_all P xs \<Longrightarrow> list_all P (if c then [] else xs)"
  "(\<And>x. list_all P (g x)) \<Longrightarrow> list_all P (case y of None \<Rightarrow> [] | Some x \<Rightarrow> g x)"
  "P x \<Longrightarrow> list_all P [x]"
  by (auto split: option.split)

lemma policy_signals_ok: "list_all policy_signal_ok (evaluate_telegram_safety_policy f)"
  unfolding evaluate_telegram_safety_policy_def Let_def
  by (intro all_parts) (simp_all add: policy_signal_ok_mk safety_reason_codes_def severity_of_def)

lemma in_unit_max_default: "list_all in_unit xs \<Longrightarrow> in_unit (max_default 0 xs)"
  by (rule max_default_unit) (simp_all add: list_all_iff in_unit_def)

lemma in_unit_policy_score: "in_unit (max_default 0 (map ss_confidence (evaluate_telegram_safety_policy f)))"
  by (rule in_unit_max_default)
    (use policy_signals_ok in \<open>auto simp: list_all_iff policy_signal_ok_def\<close>)

lemma in_unit_assessment [simp]: "in_unit (assessment_confidence signals provider codes f)"
  by (simp add: assessment_confidence_def Let_def)

section \<open>Escalation facts\<close>

lemma provider_codes: "s \<in> set (provider_signals provider) \<Longrightarrow> ss_reason_code s \<in> set safety_reason_codes"
  by (auto simp: provider_signals_def safety_reason_codes_def split: option.splits if_splits)

lemma escalation_codes:
  "set (dedup (map ss_reason_code (evaluate_telegram_safety_policy f @ provider_signals provider)))
     \<subseteq> set safety_reason_codes"
  using policy_signals_ok [of f] provider_codes by (auto simp: list_all_iff policy_signal_ok_def)

definition escalation_score :: "safety_features \<Rightarrow> provider_risk_signal option \<Rightarrow> rat" where
  "escalation_score f provider =
     max (max_default 0 (map ss_confidence (evaluate_telegram_safety_policy f)))
         (case provider of None \<Rightarrow> 0 | Some p \<Rightarrow> risk_score p)"

lemma in_unit_escalation_score:
  "pred_option valid_provider provider \<Longrightarrow> in_unit (escalation_score f provider)"
  unfolding escalation_score_def
  by (intro in_unit_max in_unit_policy_score)
    (auto simp: valid_provider_def in_unit_def split: option.split)

lemma policy_confidence_le_score:
  "s \<in> set (evaluate_telegram_safety_policy f) \<Longrightarrow> ss_confidence s \<le> escalation_score f provider"
  using max_default_upper [of "ss_confidence s" "map ss_confidence (evaluate_telegram_safety_policy f)" 0]
  by (simp add: escalation_score_def le_max_iff_disj)

lemma escalate_SomeD:
  assumes "escalate f provider uuid = Some e"
  shows "se_risk_score e = escalation_score f provider"
    and "se_risk_label e = risk_label_for_score (escalation_score f provider)"
    and "se_reason_codes e = dedup (map ss_reason_code (evaluate_telegram_safety_policy f @ provider_signals provider))"
    and "se_reason_codes e \<noteq> []"
    and "se_recommended_action e =
           safety_recommended_action (escalation_score f provider) (length (se_reason_codes e)) provider"
    and "se_detector_signals e = evaluate_telegram_safety_policy f @ provider_signals provider"
    and "se_confidence e = assessment_confidence (se_detector_signals e) provider (se_reason_codes e) f"
  using assms by (auto simp: escalate_def escalation_score_def Let_def split: if_splits)

lemma escalate_card:
  assumes "escalate f provider uuid = Some e"
  shows "se_evidence_card e = dump_safety_card (build_safety_evidence_card (sf_chat_id f) (sf_message_id f)
           (sf_sender_id f) (sf_event_timestamp f) (sf_event_type f) (sf_media_present f) (se_reason_codes e)
           (se_risk_score e) (se_confidence e) (se_recommended_action e)
           (map_option provider_reference_id provider) (map_option outcome provider) uuid)"
  using assms by (auto simp: escalate_def Let_def split: if_splits)

lemma escalate_None_iff:
  "escalate f provider uuid = None \<longleftrightarrow> evaluate_telegram_safety_policy f = [] \<and> provider_signals provider = []"
  by (simp add: escalate_def Let_def)

definition card_keys :: "string list" where
  "card_keys = [''evidence_id'', ''chat_id'', ''message_id'', ''sender_id'', ''timestamps'', ''media_present'',
     ''event_type'', ''reason_codes'', ''risk'', ''confidence'', ''risk_label'', ''recommended_action'',
     ''provider_reference_id'', ''provider_outcome'']"

lemma keys_filter: "set (map fst (filter P kvs)) \<subseteq> set (map fst kvs)"
  by auto

lemma dget_present: "distinct (map fst kvs) \<Longrightarrow> dget (filter (\<lambda>(k, v). v \<noteq> PNone) kvs) k = dget kvs k"
proof (induction kvs)
  case (Cons kv kvs)
  have "map_of (filter P kvs) (fst kv) = None" for P
    using Cons.prems by (auto simp: map_of_eq_None_iff)
  with Cons show ?case by (cases kv) (auto simp: dget_def split: option.splits)
qed simp

lemma dump_card_facts:
  "set (map fst (dump_safety_card c)) \<subseteq> set card_keys"
  "PNone \<notin> snd ` set (dump_safety_card c)"
  "dget (dump_safety_card c) ''recommended_action'' = PStr (safety_action_str (sc_recommended_action c))"
  "dget (dump_safety_card c) ''risk_label'' = PStr (label_str (sc_risk_label c))"
  "dget (dump_safety_card c) ''reason_codes'' = PList (map PStr (sc_reason_codes c))"
proof -
  show "set (map fst (dump_safety_card c)) \<subseteq> set card_keys"
    unfolding dump_safety_card_def
    by (rule order_trans [OF keys_filter]) (simp add: card_keys_def)
  show "PNone \<notin> snd ` set (dump_safety_card c)"
    unfolding dump_safety_card_def by (auto simp del: filter.simps)
qed (unfold dump_safety_card_def, (subst dget_present, simp, simp add: dget_def)+)

text \<open>C36: An escalation the safety policy returns is well formed whatever the metadata and the provider
  reference: its score and confidence lie in the unit interval, the confidence is no lower than any
  signal's, the reason codes are registered, distinct and non-empty, and the evidence card repeats
  label, action and codes under the fixed metadata-only keys, without absent entries.\<close>

theorem escalation_well_formed:
  assumes "evaluate_telegram_safety_escalation validate f pval uuid = Inr (Some e)"
    and "\<And>d p. validate d = Inr p \<Longrightarrow> valid_provider p"
    and "\<And>p. pval = ProviderSignal p \<Longrightarrow> valid_provider p"
  shows "in_unit (se_risk_score e) \<and> in_unit (se_confidence e) \<and>
    list_all (\<lambda>s. ss_confidence s \<le> se_confidence e) (se_detector_signals e) \<and>
    se_reason_codes e \<noteq> [] \<and> distinct (se_reason_codes e) \<and>
    set (se_reason_codes e) \<subseteq> set safety_reason_codes \<and>
    set (map fst (se_evidence_card e)) \<subseteq> set card_keys \<and> PNone \<notin> snd ` set (se_evidence_card e) \<and>
    dget (se_evidence_card e) ''recommended_action'' = PStr (safety_action_str (se_recommended_action e)) \<and>
    dget (se_evidence_card e) ''risk_label'' = PStr (label_str (se_risk_label e)) \<and>
    dget (se_evidence_card e) ''reason_codes'' = PList (map PStr (se_reason_codes e))"
proof -
  obtain provider where from_val: "provider_signal_from validate pval = Inr provider"
    and esc: "escalate f provider uuid = Some e"
    using assms(1) by (auto simp: evaluate_telegram_safety_escalation_def bind_res_eq_Inr)
  have valid: "pred_option valid_provider provider"
    using from_val assms(2,3) by (cases pval) (auto simp: bind_res_eq_Inr)
  note e = escalate_SomeD [OF esc]
  have bonus: "0 \<le> reason_corroboration_bonus codes f provider" for codes
    by (simp add: reason_corroboration_bonus_def Let_def)
  have "ss_confidence s \<le> se_confidence e" if s: "s \<in> set (se_detector_signals e)" for s
  proof -
    have "ss_confidence s \<le> 1"
      using s policy_signals_ok [of f] clamp_bounds
      by (auto simp: e(6) list_all_iff policy_signal_ok_def in_unit_def provider_signals_def
          provider_assessment_confidence_def min_le_iff_disj split: option.splits if_splits)
    moreover have "ss_confidence s \<le> max_default 0 (map ss_confidence (se_detector_signals e))"
      using s by (intro max_default_upper) simp
    ultimately show ?thesis
      using bonus [of "se_reason_codes e"] unfolding e(7) assessment_confidence_def Let_def clamp_def
      by (auto simp: le_max_iff_disj min_def max_def)
  qed
  moreover have "se_risk_label e = risk_label_for_score (se_risk_score e)"
    by (simp add: e(1,2))
  moreover have "max 0 (min 1 (se_risk_score e)) = se_risk_score e"
    using in_unit_escalation_score [OF valid, of f] by (simp add: e(1) in_unit_def)
  moreover have "distinct (se_reason_codes e)" by (simp add: e(3))
  moreover have "set (se_reason_codes e) \<subseteq> set safety_reason_codes"
    unfolding e(3) by (rule escalation_codes)
  ultimately show ?thesis
    using e(4) in_unit_escalation_score [OF valid, of f] dump_card_facts escalate_card [OF esc]
    by (simp add: e(1) e(7) list_all_iff build_safety_evidence_card_def Let_def dedup_distinct
        del: set_map)
qed

definition burst_features :: safety_features where
  "burst_features = \<lparr>sf_chat_id = PInt 5, sf_message_id = PInt 7, sf_sender_id = PInt 9,
     sf_event_timestamp = PNone, sf_event_type = ''message'', sf_media_present = True,
     sf_join_to_first_media_ms = None, sf_media_count_window = 4, sf_media_burst_count = 2,
     sf_synchronized_media_peer_count = 0, sf_group_hop_count = 0, sf_account_age_days = None,
     sf_rapid_delete_repost_count = 0\<rparr>"

lemma burst_escalates: "\<exists>e. escalate burst_features None uuid = Some e"
proof -
  have "evaluate_telegram_safety_policy burst_features \<noteq> []"
    by (simp add: evaluate_telegram_safety_policy_def burst_features_def Let_def)
  then show ?thesis using escalate_None_iff [of burst_features None uuid] by auto
qed

theorem escalation_well_formed_witness:
  "\<exists>e. escalate burst_features None ''id'' = Some e \<and> in_unit (se_risk_score e) \<and> se_reason_codes e \<noteq> []"
proof -
  obtain e where e: "escalate burst_features None ''id'' = Some e" using burst_escalates by blast
  then have "evaluate_telegram_safety_escalation (\<lambda>d. Inl (ValueError [])) burst_features NoProvider ''id''
      = Inr (Some e)"
    by (simp add: evaluate_telegram_safety_escalation_def)
  from escalation_well_formed [OF this] e show ?thesis by simp
qed

text \<open>C35: The safety action is decided by the evidence: escalation is mandatory exactly from a score of
  0.85, or of 0.80 with two reasons, on; every critical signal, from the policy or the provider, forces
  it, together with the critical label.\<close>

theorem critical_evidence_escalates:
  assumes "escalate f provider uuid = Some e"
  shows "(se_recommended_action e = MandatorySafetyEscalation \<longleftrightarrow>
           0.85 \<le> se_risk_score e \<or> 0.8 \<le> se_risk_score e \<and> 2 \<le> length (se_reason_codes e)) \<and>
    (list_ex (\<lambda>s. ss_severity s = SafeCritical) (se_detector_signals e) \<longrightarrow>
       se_recommended_action e = MandatorySafetyEscalation \<and> se_risk_label e = LabelCritical)"
proof -
  note e = escalate_SomeD [OF assms]
  have prov: "risk_score p \<le> se_risk_score e" if "provider = Some p" for p
    using that by (simp add: e(1) escalation_score_def)
  have iff: "se_recommended_action e = MandatorySafetyEscalation \<longleftrightarrow>
      0.85 \<le> se_risk_score e \<or> 0.8 \<le> se_risk_score e \<and> 2 \<le> length (se_reason_codes e)"
    unfolding e(5) safety_recommended_action_def e(1) [symmetric]
    using prov by (cases provider) (auto dest: order_trans)
  have "0.85 \<le> se_risk_score e" if "s \<in> set (se_detector_signals e)" "ss_severity s = SafeCritical" for s
    using that prov policy_signals_ok [of f] policy_confidence_le_score [of s f provider]
    by (fastforce simp: e(1,6) list_all_iff policy_signal_ok_def provider_signals_def
        split: option.splits if_splits)
  then show ?thesis using iff by (auto simp: list_ex_iff e(1,2) risk_label_for_score_def)
qed

theorem critical_evidence_escalates_witness:
  "\<exists>e. escalate burst_features None ''id'' = Some e \<and>
     (se_recommended_action e = MandatorySafetyEscalation \<longleftrightarrow>
        0.85 \<le> se_risk_score e \<or> 0.8 \<le> se_risk_score e \<and> 2 \<le> length (se_reason_codes e))"
  using burst_escalates critical_evidence_escalates by blast

end
