(* ===== verification/Packet.thy ===== *)
theory Packet
  imports Conversions
begin

text \<open>
  Evidence packets: \<open>truepresence/evidence/packet.py\<close> and \<open>packet_builder.py\<close>, which turns an
  untrusted event and the server's context into the packet that every later decision reads. Events
  and contexts are dynamic dictionaries; the places where Python raises on a value of the wrong type
  are branches. The random identifier and the clock are arguments.
\<close>

section \<open>The packet\<close>

record evidence_packet =
  packet_id :: string
  ep_session_id :: string
  ep_tenant_id :: string
  ep_surface :: string
  actor_id :: pv
  received_at :: string
  event_window_start :: pv
  event_window_end :: pv
  raw_events :: "dict list"
  challenge_data :: dict
  timing_features :: dict
  behavioral_features :: dict
  identity_refs :: dict
  session_history :: "pv list"
  policy_context :: dict
  risk_context :: dict
  provenance :: dict
  session_context :: dict
  ep_metadata :: dict

definition latest_event :: "evidence_packet \<Rightarrow> dict" where
  "latest_event p = (if raw_events p = [] then [] else last (raw_events p))"

definition challenge_results :: "evidence_packet \<Rightarrow> dict list" where
  "challenge_results p = (if challenge_data p = [] then [] else [challenge_data p])"

definition role_signals :: "evidence_packet \<Rightarrow> dict" where
  "role_signals p =
     (let signals = dupdate (dupdate [] (timing_features p)) (behavioral_features p);
          signals = (if dget (challenge_data p) ''status'' = PStr ''passed''
                     then dsetdefault ''challenge_verified'' (PFloat 1) signals else signals)
      in if dget (identity_refs p) ''cluster_risk'' \<noteq> PNone
         then dsetdefault ''cluster_risk'' (dget (identity_refs p) ''cluster_risk'') signals
         else signals)"

section \<open>Helpers of the builder\<close>

fun to_dict :: "pv \<Rightarrow> dict" where
  "to_dict PNone = []"
| "to_dict (PDict d) = d"
| "to_dict v = [(''value'', v)]"

definition timing_keys :: "string list" where
  "timing_keys =
    [''response_time_ms'', ''response_time'', ''relay_risk'', ''constant_latency_pattern'',
     ''temporal_drift'', ''message_velocity'', ''avg_interval'', ''timing_consistency'']"

definition merge_feature_sources :: "dict \<Rightarrow> dict" where
  "merge_feature_sources event =
     dupdate (dupdate [] (to_dict (dget event ''features''))) (to_dict (dget event ''signals''))"

text \<open>\<open>v >= q\<close> for a dynamic value: numbers compare, everything else raises.\<close>

fun py_ge :: "pv \<Rightarrow> rat \<Rightarrow> bool res" where
  "py_ge (PBool b) q = Inr ((if b then 1 else 0) \<ge> q)"
| "py_ge (PInt i) q = Inr (of_int i \<ge> q)"
| "py_ge (PFloat x) q = Inr (x \<ge> q)"
| "py_ge _ q = Inl (TypeError ''>= not supported between these instances'')"

text \<open>\<open>v in {names}\<close>: a set lookup hashes \<open>v\<close> first.\<close>

fun in_names :: "pv \<Rightarrow> string list \<Rightarrow> bool res" where
  "in_names (PList xs) names = Inl (TypeError ''unhashable type: list'')"
| "in_names (PDict d) names = Inl (TypeError ''unhashable type: dict'')"
| "in_names (PStr s) names = Inr (s \<in> set names)"
| "in_names _ names = Inr False"

text \<open>\<open>a or b\<close> over two tests that may raise.\<close>

definition or_else :: "bool res \<Rightarrow> bool res \<Rightarrow> bool res" where
  "or_else a b = bind_res a (\<lambda>x. if x then Inr True else b)"

text \<open>The response time, in seconds when the value looks like milliseconds.\<close>

definition response_value :: "dict \<Rightarrow> pv" where
  "response_value payload = py_or (dget payload ''response_time_ms'') (dget payload ''response_time'')"

definition response_seconds :: "pv \<Rightarrow> rat res" where
  "response_seconds v = bind_res (py_float v) (\<lambda>x. Inr (if x > 10 then x / 1000 else x))"

definition derive_timing_features :: "dict \<Rightarrow> dict \<Rightarrow> dict res" where
  "derive_timing_features event ctx =
     (let payload = to_dict (dget event ''payload'');
          merged = merge_feature_sources event;
          timing = foldl (\<lambda>t key. if dhas merged key \<and> \<not> dhas t key then dset key (dget merged key) t else t)
                     (to_dict (dget ctx ''timing_features'')) timing_keys;
          response = response_value payload
      in bind_res
          (if response \<noteq> PNone \<and> \<not> dhas timing ''constant_latency_pattern''
           then bind_res (response_seconds response) (\<lambda>secs.
                  Inr (dset ''constant_latency_pattern'' (PBool (secs < 0.3)) timing))
           else Inr timing)
          (\<lambda>timing.
             if \<not> dhas timing ''relay_risk'' \<and> dget merged ''content_similarity'' \<noteq> PNone
             then bind_res (py_float (dget merged ''content_similarity'')) (\<lambda>x.
                    Inr (dset ''relay_risk'' (PFloat x) timing))
             else Inr timing))"

definition derive_behavioral_features :: "dict \<Rightarrow> dict \<Rightarrow> dict res" where
  "derive_behavioral_features event ctx =
     (let merged = merge_feature_sources event;
          behavioral = foldl (\<lambda>b (key, val). dsetdefault key val b)
                         (to_dict (dget ctx ''behavioral_features'')) merged
      in bind_res
          (if \<not> dhas behavioral ''automation_pattern''
           then bind_res
                  (or_else (py_ge (dget_default merged ''ai_mediation'' (PInt 0)) 0.7)
                    (or_else (py_ge (dget_default merged ''message_velocity'' (PInt 0)) 50)
                      (py_ge (dget_default merged ''content_similarity'' (PInt 0)) 0.9)))
                  (\<lambda>b. Inr (dset ''automation_pattern'' (PBool b) behavioral))
           else Inr behavioral)
          (\<lambda>behavioral.
             Inr (if \<not> dhas behavioral ''known_automation_fingerprint''
                  then dset ''known_automation_fingerprint''
                         (PBool (truthy (dget_default ctx ''known_automation_fingerprint'' (PBool False)))) behavioral
                  else behavioral)))"

record default_signals =
  ds_liveness :: rat
  ds_ai_mediation :: rat
  ds_relay_risk :: rat
  ds_policy_violation :: rat

definition derive_default_signals :: "dict \<Rightarrow> dict \<Rightarrow> default_signals res" where
  "derive_default_signals event challenge =
     (let ctx = to_dict (dget event ''context'');
          payload = to_dict (dget event ''payload'');
          threat_analysis = to_dict (dget event ''threat_analysis'');
          verified = (if dget challenge ''status'' = PStr ''passed'' then 1 else 0)
      in bind_res (in_names (dget event ''event_type'') [''cursor_move'', ''key_timing'', ''click'']) (\<lambda>direct.
         bind_res (if direct then Inr 0.8
                   else bind_res (in_names (dget event ''event_type'') [''message'', ''member_join'', ''member_update''])
                          (\<lambda>social. Inr (if social then 0.45 else 0.2)))
         (\<lambda>base.
           let direct_interaction = (if truthy (dget ctx ''is_bot'') then 0.05 else base);
               liveness = min 1 (direct_interaction + 0.2 * verified);
               pasted = truthy (dget payload ''pasted'') \<or> truthy (dget payload ''paste'') \<or> truthy (dget payload ''is_paste'');
               mediation = (if pasted then 0.75 else 0.1);
               ai_mediation = (if dget event ''event_type'' = PStr ''clipboard'' then max mediation 0.6 else mediation);
               response = response_value payload
           in bind_res (if response = PNone then Inr 0.1
                        else bind_res (response_seconds response) (\<lambda>secs.
                               Inr (if secs < 0.3 then 0.9 else if secs > 8 then 0.7 else 0.3)))
              (\<lambda>relay. bind_res (py_float (py_or (dget_default (merge_feature_sources event) ''content_similarity'' (PFloat 0)) (PFloat 0)))
              (\<lambda>similarity.
                Inr \<lparr>ds_liveness = liveness, ds_ai_mediation = ai_mediation,
                      ds_relay_risk = max relay similarity,
                      ds_policy_violation = (if truthy (dget threat_analysis ''threats_detected'') then 1 else 0)\<rparr>)))))"

definition derive_challenge_data :: "dict \<Rightarrow> dict \<Rightarrow> dict" where
  "derive_challenge_data event ctx =
     (let base = to_dict (dget ctx ''challenge_data'');
          raw = py_or (dget event ''challenge_result'') (dget event ''challenge_response'');
          challenge = (if truthy raw then dupdate base (to_dict raw) else base)
      in if dhas challenge ''status'' then challenge
         else if dget challenge ''verified'' = PBool True then dset ''status'' (PStr ''passed'') challenge
         else if dget challenge ''verified'' = PBool False then dset ''status'' (PStr ''failed'') challenge
         else if challenge \<noteq> [] then dset ''status'' (PStr ''submitted'') challenge
         else challenge)"

definition derive_identity_refs :: "string \<Rightarrow> dict \<Rightarrow> dict" where
  "derive_identity_refs sid ctx =
     dsetdefault ''session_id'' (PStr sid) (to_dict (dget ctx ''identity_refs''))"

definition derive_policy_context :: "dict \<Rightarrow> dict \<Rightarrow> dict" where
  "derive_policy_context event ctx =
     (let policy = to_dict (dget ctx ''policy_context'') in
      if dget event ''event_type'' = PStr ''high_value_transaction''
      then dsetdefault ''high_value_flow'' (PBool True) policy else policy)"

definition derive_risk_context :: "dict \<Rightarrow> dict \<Rightarrow> dict res" where
  "derive_risk_context event ctx =
     (let risk = to_dict (dget ctx ''risk_context'');
          risk = (if dhas event ''event_type'' \<and> \<not> dhas risk ''event_type''
                  then dset ''event_type'' (dget event ''event_type'') risk else risk);
          threats = dget (to_dict (dget event ''threat_analysis'')) ''threats_detected''
      in if truthy threats
         then bind_res (py_iter threats) (\<lambda>xs. Inr (dsetdefault ''threats_detected'' (PList xs) risk))
         else Inr risk)"

definition packet_of ::
    "string \<Rightarrow> string \<Rightarrow> string \<Rightarrow> dict \<Rightarrow> dict \<Rightarrow> string \<Rightarrow> string \<Rightarrow> dict \<Rightarrow> dict \<Rightarrow> default_signals \<Rightarrow>
     pv list \<Rightarrow> dict \<Rightarrow> evidence_packet" where
  "packet_of surface sid tenant event ctx uuid now timing behavioral defaults history risk =
     \<lparr>packet_id = uuid, ep_session_id = sid, ep_tenant_id = tenant, ep_surface = surface,
      actor_id = dget ctx ''actor_id'', received_at = now,
      event_window_start = dget ctx ''event_window_start'', event_window_end = dget ctx ''event_window_end'',
      raw_events = [event],
      challenge_data = derive_challenge_data event ctx,
      timing_features = dsetdefault ''relay_risk'' (PFloat (ds_relay_risk defaults)) timing,
      behavioral_features =
        dsetdefault ''deterministic_policy_violation'' (PFloat (ds_policy_violation defaults))
          (dsetdefault ''ai_mediation'' (PFloat (ds_ai_mediation defaults))
            (dsetdefault ''liveness'' (PFloat (ds_liveness defaults)) behavioral)),
      identity_refs = derive_identity_refs sid ctx,
      session_history = history,
      policy_context = derive_policy_context event ctx,
      risk_context = risk,
      provenance =
        [(''normalizer_version'', PStr ''1.0''), (''source_surface'', PStr surface),
         (''invalid_attestation'',
           PBool (truthy (dget ctx ''invalid_attestation'') \<or>
                  truthy (dget (to_dict (dget event ''context'')) ''invalid_attestation'')))],
      session_context = to_dict (dget ctx ''session''),
      ep_metadata = [(''event_type'', dget event ''event_type''),
                     (''context'', PDict (to_dict (dget event ''context'')))]\<rparr>"

definition build_evidence_packet ::
    "string \<Rightarrow> string \<Rightarrow> string \<Rightarrow> dict \<Rightarrow> dict \<Rightarrow> string \<Rightarrow> string \<Rightarrow> evidence_packet res" where
  "build_evidence_packet surface sid tenant event ctx uuid now =
     bind_res (derive_timing_features event ctx) (\<lambda>timing.
     bind_res (derive_behavioral_features event ctx) (\<lambda>behavioral.
     bind_res (derive_default_signals event (derive_challenge_data event ctx)) (\<lambda>defaults.
     bind_res (py_iter (dget_default ctx ''session_history'' (PList []))) (\<lambda>history.
     bind_res (derive_risk_context event ctx) (\<lambda>risk.
       Inr (packet_of surface sid tenant event ctx uuid now timing behavioral defaults history risk))))))"

section \<open>The compatibility builder\<close>

text \<open>The latest challenge result becomes the challenge data unless the context already has some; the
  decision engine resolves it in the same way.\<close>

definition resolve_challenge :: "dict list \<Rightarrow> dict \<Rightarrow> dict" where
  "resolve_challenge results ctx =
     (if results \<noteq> [] \<and> \<not> dhas ctx ''challenge_data'' then
        let latest = last results;
            latest = (if dget latest ''verified'' = PBool True then dsetdefault ''status'' (PStr ''passed'') latest
                      else if dget latest ''verified'' = PBool False then dsetdefault ''status'' (PStr ''failed'') latest
                      else latest)
        in dset ''challenge_data'' (PDict latest) ctx
      else ctx)"

definition resolve_tenant :: "string option \<Rightarrow> dict \<Rightarrow> dict \<Rightarrow> pv" where
  "resolve_tenant tenant session ctx =
     py_or (case tenant of None \<Rightarrow> PNone | Some t \<Rightarrow> PStr t)
       (py_or (dget session ''tenant_id'') (py_or (dget ctx ''tenant_id'') (PStr ''default'')))"

definition setdefault_res :: "string \<Rightarrow> dict \<Rightarrow> pv res \<Rightarrow> dict res" where
  "setdefault_res k d r = bind_res r (\<lambda>v. Inr (dsetdefault k v d))"

definition builder_context ::
    "dict \<Rightarrow> dict list \<Rightarrow> pv list \<Rightarrow> dict \<Rightarrow> dict \<Rightarrow> dict res" where
  "builder_context session challenges history refs ctx =
     (let ctx = dsetdefault ''actor_id'' (py_or (dget session ''actor_id'') (dget session ''user_id'')) ctx in
      bind_res (setdefault_res ''session_history'' ctx
        (if history \<noteq> [] then Inr (PList history)
         else bind_res (py_iter (dget_default ctx ''session_history'' (PList []))) (\<lambda>xs. Inr (PList xs)))) (\<lambda>ctx.
      bind_res (setdefault_res ''identity_refs'' ctx
        (if refs \<noteq> [] then Inr (PDict refs)
         else bind_res (py_dict (dget_default ctx ''identity_refs'' (PDict []))) (\<lambda>d. Inr (PDict d)))) (\<lambda>ctx.
      bind_res (setdefault_res ''policy_context'' ctx
        (bind_res (py_dict (dget_default ctx ''policy_context'' (PDict []))) (\<lambda>d. Inr (PDict d)))) (\<lambda>ctx.
      bind_res (setdefault_res ''risk_context'' ctx
        (bind_res (py_dict (dget_default ctx ''risk_context'' (PDict []))) (\<lambda>d. Inr (PDict d)))) (\<lambda>ctx.
        Inr (resolve_challenge challenges ctx))))))"

text \<open>The tenant of a packet is a string in the code's types; other values are passed through as
  they are, here as their text.\<close>

definition packet_builder_build ::
    "(pv \<Rightarrow> string) \<Rightarrow> string \<Rightarrow> string \<Rightarrow> dict \<Rightarrow> dict \<Rightarrow> dict list \<Rightarrow> pv list \<Rightarrow> dict \<Rightarrow> string option \<Rightarrow>
     dict \<Rightarrow> string \<Rightarrow> string \<Rightarrow> evidence_packet res" where
  "packet_builder_build rep sid surface event session challenges history refs tenant ctx uuid now =
     bind_res (builder_context session challenges history refs ctx) (\<lambda>ctx.
       build_evidence_packet surface sid (py_str rep (resolve_tenant tenant session ctx)) event ctx uuid now)"

section \<open>What a packet always holds\<close>

lemma dhas_Cons: "dhas ((k', v) # d) k \<longleftrightarrow> k = k' \<or> dhas d k"
  by (auto simp: dhas_def)

lemma dget_Cons: "dget ((k', v) # d) k = (if k = k' then v else dget d k)"
  by (simp add: dget_def)

lemma dget_absent: "\<not> dhas d k \<Longrightarrow> dget d k = PNone"
  by (simp add: dhas_def dget_def)

lemma dhas_foldl_setdefault:
  "dhas (foldl (\<lambda>b (key, val). dsetdefault key val b) d kvs) k \<longleftrightarrow> dhas d k \<or> dhas kvs k"
proof (induction kvs arbitrary: d)
  case Nil
  then show ?case by (simp add: dhas_def)
next
  case (Cons kv kvs)
  then show ?case by (cases kv) (auto simp: dhas_Cons)
qed

lemma dget_foldl_setdefault:
  "distinct (map fst kvs) \<Longrightarrow> dget (foldl (\<lambda>b (key, val). dsetdefault key val b) d kvs) k =
     (if dhas d k then dget d k else dget kvs k)"
proof (induction kvs arbitrary: d)
  case Nil
  then show ?case by (simp add: dget_absent) (simp add: dget_def)
next
  case (Cons kv kvs)
  obtain k' v where kv: "kv = (k', v)" by (cases kv)
  have "\<not> dhas kvs k'" using Cons.prems by (auto simp: kv dhas_iff)
  with Cons show ?case by (auto simp: kv dget_dsetdefault dget_Cons dget_absent)
qed

lemma distinct_merge: "distinct (map fst (merge_feature_sources event))"
  unfolding merge_feature_sources_def by (intro distinct_dupdate) simp

lemma derive_behavioral_Inr:
  assumes "derive_behavioral_features event ctx = Inr b"
  shows "dget b ''known_automation_fingerprint'' =
    (let server = to_dict (dget ctx ''behavioral_features''); merged = merge_feature_sources event;
         k = ''known_automation_fingerprint'' in
     if dhas server k then dget server k else if dhas merged k then dget merged k
     else PBool (truthy (dget_default ctx k (PBool False))))"
    and "dhas b ''automation_pattern''" "dhas b ''known_automation_fingerprint''"
proof -
  let ?b0 = "foldl (\<lambda>b (key, val). dsetdefault key val b) (to_dict (dget ctx ''behavioral_features''))
               (merge_feature_sources event)"
  obtain b1 where step: "(if \<not> dhas ?b0 ''automation_pattern''
         then bind_res (or_else (py_ge (dget_default (merge_feature_sources event) ''ai_mediation'' (PInt 0)) 0.7)
                (or_else (py_ge (dget_default (merge_feature_sources event) ''message_velocity'' (PInt 0)) 50)
                  (py_ge (dget_default (merge_feature_sources event) ''content_similarity'' (PInt 0)) 0.9)))
              (\<lambda>x. Inr (dset ''automation_pattern'' (PBool x) ?b0))
         else Inr ?b0) = Inr b1"
    and b: "b = (if \<not> dhas b1 ''known_automation_fingerprint''
                 then dset ''known_automation_fingerprint''
                    (PBool (truthy (dget_default ctx ''known_automation_fingerprint'' (PBool False)))) b1 else b1)"
    using assms unfolding derive_behavioral_features_def Let_def bind_res_eq_Inr sum.inject by blast
  have b1: "b1 = ?b0 \<or> (\<exists>x. b1 = dset ''automation_pattern'' (PBool x) ?b0)" "dhas b1 ''automation_pattern''"
    using step by (auto simp: bind_res_eq_Inr split: if_splits)
  have same: "dhas b1 ''known_automation_fingerprint'' = dhas ?b0 ''known_automation_fingerprint''"
    "dget b1 ''known_automation_fingerprint'' = dget ?b0 ''known_automation_fingerprint''"
    using b1(1) by auto
  show "dget b ''known_automation_fingerprint'' =
    (let server = to_dict (dget ctx ''behavioral_features''); merged = merge_feature_sources event;
         k = ''known_automation_fingerprint'' in
     if dhas server k then dget server k else if dhas merged k then dget merged k
     else PBool (truthy (dget_default ctx k (PBool False))))"
    using same by (simp add: b dhas_foldl_setdefault dget_foldl_setdefault distinct_merge Let_def)
  show "dhas b ''automation_pattern''" "dhas b ''known_automation_fingerprint''"
    using b1(2) by (auto simp: b)
qed

lemma build_packet_Inr:
  assumes "build_evidence_packet surface sid tenant event ctx uuid now = Inr p"
  obtains b and ds :: default_signals where "derive_behavioral_features event ctx = Inr b"
    "behavioral_features p =
       dsetdefault ''deterministic_policy_violation'' (PFloat (ds_policy_violation ds))
         (dsetdefault ''ai_mediation'' (PFloat (ds_ai_mediation ds))
           (dsetdefault ''liveness'' (PFloat (ds_liveness ds)) b))"
    "packet_id p = uuid" "ep_session_id p = sid" "ep_tenant_id p = tenant"
    "challenge_data p = derive_challenge_data event ctx" "policy_context p = derive_policy_context event ctx"
    "identity_refs p = derive_identity_refs sid ctx"
proof -
  from assms obtain t b ds h r where parts: "derive_behavioral_features event ctx = Inr b"
    and p: "p = packet_of surface sid tenant event ctx uuid now t b ds h r"
    by (auto simp: build_evidence_packet_def bind_res_eq_Inr)
  show ?thesis by (rule that [OF parts, of ds]) (simp_all add: p packet_of_def)
qed

end
