(* ===== verification/Decision.thy ===== *)
theory Decision
  imports Packet
begin

text \<open>
  The decision layer: the argument graph (\<open>truepresence/evidence/claims.py\<close>, \<open>argument_graph.py\<close>),
  the tier router (\<open>decision/tier_router.py\<close>, \<open>decision_router.py\<close>) and the synthesizer
  (\<open>decision/synthesizer.py\<close>, \<open>decision_object.py\<close>, \<open>reason_codes.py\<close>), which folds packet, tier and
  role reports into one decision. The stages of \<open>synthesize_decision\<close> are definitions on the tuple of
  local variables the function updates, in the order of the code.
\<close>

section \<open>Claims and the argument graph\<close>

datatype claim_type = Presence | Risk | Challenge | Identity | Policy

record claim =
  claim_id :: string
  claim_type :: claim_type
  claim_label :: string
  evidence_refs :: "string list"

record argument_graph =
  claims :: "(string \<times> claim) list"
  support_edges :: "(string \<times> string) list"
  attack_edges :: "(string \<times> string) list"

definition empty_graph :: argument_graph where
  "empty_graph = \<lparr>claims = [], support_edges = [], attack_edges = []\<rparr>"

definition add_claim :: "claim \<Rightarrow> argument_graph \<Rightarrow> argument_graph" where
  "add_claim c g = g\<lparr>claims := dset (claim_id c) c (claims g)\<rparr>"

definition graph_supports :: "string \<Rightarrow> string \<Rightarrow> argument_graph \<Rightarrow> argument_graph" where
  "graph_supports source target g = g\<lparr>support_edges := support_edges g @ [(source, target)]\<rparr>"

definition graph_attacks :: "string \<Rightarrow> string \<Rightarrow> argument_graph \<Rightarrow> argument_graph" where
  "graph_attacks source target g = g\<lparr>attack_edges := attack_edges g @ [(source, target)]\<rparr>"

definition mk_claim :: "string \<Rightarrow> claim_type \<Rightarrow> string \<Rightarrow> claim" where
  "mk_claim cid t label = \<lparr>claim_id = cid, claim_type = t, claim_label = label, evidence_refs = []\<rparr>"

text \<open>\<open>graph.claims[cid].evidence_refs.extend(refs)\<close>.\<close>

definition extend_refs :: "string \<Rightarrow> string list \<Rightarrow> argument_graph \<Rightarrow> argument_graph" where
  "extend_refs cid refs g =
     (case map_of (claims g) cid of None \<Rightarrow> g
      | Some c \<Rightarrow> g\<lparr>claims := dset cid (c\<lparr>evidence_refs := evidence_refs c @ refs\<rparr>) (claims g)\<rparr>)"

definition base_graph :: argument_graph where
  "base_graph =
     (graph_attacks ''policy_step_up_required'' ''human_presence_supported'' \<circ>
      graph_supports ''identity_cluster_risk_supported'' ''automation_pattern_supported'' \<circ>
      graph_attacks ''automation_pattern_supported'' ''human_presence_supported'' \<circ>
      graph_attacks ''challenge_failure_supported'' ''human_presence_supported'' \<circ>
      graph_supports ''challenge_success_supported'' ''human_presence_supported'' \<circ>
      add_claim (mk_claim ''policy_step_up_required'' Policy ''Tenant or flow policy requires step-up verification'') \<circ>
      add_claim (mk_claim ''identity_cluster_risk_supported'' Identity ''Cross-session identity graph indicates elevated cluster risk'') \<circ>
      add_claim (mk_claim ''challenge_failure_supported'' Challenge ''Challenge result undermines human continuity'') \<circ>
      add_claim (mk_claim ''challenge_success_supported'' Challenge ''Challenge result supports human continuity'') \<circ>
      add_claim (mk_claim ''automation_pattern_supported'' Risk ''Observed patterns support automation or non-human behavior'') \<circ>
      add_claim (mk_claim ''human_presence_supported'' Presence ''Actor appears to be a legitimate human participant''))
     empty_graph"

definition challenge_refs :: "evidence_packet \<Rightarrow> argument_graph \<Rightarrow> argument_graph res" where
  "challenge_refs p g =
     (let status = dget (challenge_data p) ''status'' in
      if status = PStr ''passed'' then Inr (extend_refs ''challenge_success_supported'' [''challenge_data''] g)
      else bind_res (in_names status [''failed'', ''deterministic_failure'']) (\<lambda>failed.
        Inr (if failed then extend_refs ''challenge_failure_supported'' [''challenge_data''] g else g)))"

definition build_argument_graph :: "evidence_packet \<Rightarrow> argument_graph res" where
  "build_argument_graph p =
     bind_res (challenge_refs p base_graph) (\<lambda>g.
     let g = (if truthy (dget (identity_refs p) ''cluster_risk'')
              then extend_refs ''identity_cluster_risk_supported'' [''identity_refs''] g else g);
         g = (if truthy (dget (policy_context p) ''require_step_up'')
              then extend_refs ''policy_step_up_required'' [''policy_context''] g else g);
         refs = (if truthy (dget (timing_features p) ''constant_latency_pattern'') then [''timing_features''] else []) @
                (if truthy (dget (behavioral_features p) ''automation_pattern'') then [''behavioral_features''] else [])
     in Inr (if refs \<noteq> [] then extend_refs ''automation_pattern_supported'' refs g else g))"

section \<open>Tier routing\<close>

datatype tier = Tier0 | Tier1 | Tier2

text \<open>\<open>set(v)\<close>: iterates and hashes.\<close>

definition hashable :: "pv \<Rightarrow> bool" where
  "hashable v = (\<not> is_dict v \<and> \<not> is_list v)"

definition py_set :: "pv \<Rightarrow> pv set res" where
  "py_set v = bind_res (py_iter v) (\<lambda>xs.
     if list_all hashable xs then Inr (set xs) else Inl (TypeError ''unhashable type''))"

definition tier0_marker :: "evidence_packet \<Rightarrow> bool" where
  "tier0_marker p =
     (truthy (dget (provenance p) ''invalid_attestation'') \<or>
      truthy (dget (behavioral_features p) ''known_automation_fingerprint'') \<or>
      truthy (dget (risk_context p) ''impossible_event_sequence'') \<or>
      dget (challenge_data p) ''status'' = PStr ''deterministic_failure'')"

definition tier2_marker :: "evidence_packet \<Rightarrow> dict \<Rightarrow> bool" where
  "tier2_marker p ctx =
     (truthy (dget (policy_context p) ''high_value_flow'') \<or>
      dget (identity_refs p) ''cluster_risk'' = PStr ''high'' \<or>
      truthy (dget ctx ''force_tier2''))"

definition choose_tier :: "evidence_packet \<Rightarrow> dict \<Rightarrow> tier res" where
  "choose_tier p ctx =
     bind_res (py_set (dget_default (risk_context p) ''threats_detected'' (PList []))) (\<lambda>threats.
       Inr (if tier0_marker p then Tier0
            else if PStr ''illegal_content'' \<in> threats \<or> PStr ''child_exploitation'' \<in> threats then Tier0
            else if tier2_marker p ctx then Tier2
            else Tier1))"

section \<open>The decision\<close>

datatype decision_state =
  ALLOW | OBSERVE | ELEVATED_OBSERVE | CHALLENGE | STEP_UP_AUTH | RESTRICT | BLOCK | EJECT

datatype enforcement =
  EnfAllow | EnfObserve | EnfChallenge | EnfStepUp | EnfRestrict | EnfBlock | EnfEject

datatype risk_level = LowRisk | MediumRisk | HighRisk

fun risk_rank :: "risk_level \<Rightarrow> nat" where
  "risk_rank LowRisk = 0"
| "risk_rank MediumRisk = 1"
| "risk_rank HighRisk = 2"

definition max_risk :: "risk_level \<Rightarrow> risk_level \<Rightarrow> risk_level" where
  "max_risk left right = (if risk_rank left \<ge> risk_rank right then left else right)"

datatype decision_reason =
    INVALID_ATTESTATION
  | KNOWN_AUTOMATION_FINGERPRINT
  | IMPOSSIBLE_EVENT_SEQUENCE
  | CHALLENGE_FAILURE_DETERMINISTIC
  | TIMING_AUTOMATION_PATTERN
  | CROSS_SESSION_CLUSTER_MATCH
  | EXCESSIVE_ROLE_DISAGREEMENT
  | HIGH_VALUE_TRANSACTION_ESCALATION
  | POLICY_REQUIRES_STEP_UP

record decision_object =
  decision_id :: string
  do_session_id :: string
  do_tenant_id :: string
  do_surface :: string
  state :: decision_state
  recommended_enforcement :: enforcement
  do_confidence :: rat
  do_risk_level :: risk_level
  reason_codes :: "decision_reason list"
  challenge_required :: bool
  step_up_required :: bool
  human_review_required :: bool
  evidence_packet_id :: string
  argument_graph_id :: string
  role_report_ids :: "pv list"
  decision_trace_id :: string
  tier_path :: tier
  human_probability :: rat
  bot_probability :: rat
  do_explanation :: string

fun explanation_for_state :: "decision_state \<Rightarrow> string" where
  "explanation_for_state ALLOW = ''Signals are coherent enough to allow the session.''"
| "explanation_for_state OBSERVE = ''Signals are mixed; keep the session under observation.''"
| "explanation_for_state ELEVATED_OBSERVE = ''Signals are mixed with elevated risk; continue with stronger observation.''"
| "explanation_for_state CHALLENGE = ''The session should complete an active challenge before proceeding.''"
| "explanation_for_state STEP_UP_AUTH = ''The session should be stepped up for stronger verification.''"
| "explanation_for_state RESTRICT = ''Limit high-risk actions while the session is evaluated further.''"
| "explanation_for_state BLOCK = ''The session should be blocked based on ensemble risk.''"
| "explanation_for_state EJECT = ''Deterministic policy violations require immediate removal.''"

definition average :: "rat list \<Rightarrow> rat \<Rightarrow> rat" where
  "average xs dflt = (if xs = [] then dflt else sum_list xs / of_nat (length xs))"

definition coerced :: "string \<Rightarrow> dict list \<Rightarrow> rat list" where
  "coerced key reports =
     map (\<lambda>r. float_or 0 (dget r key)) (filter (\<lambda>r. dget r key \<noteq> PNone) reports)"

text \<open>The local variables that the stages update.\<close>

record synth =
  sy_codes :: "decision_reason list"
  sy_state :: decision_state
  sy_enforcement :: enforcement
  sy_confidence :: rat
  sy_risk :: risk_level

definition add_code :: "decision_reason \<Rightarrow> synth \<Rightarrow> synth" where
  "add_code c s = (if c \<in> set (sy_codes s) then s else s\<lparr>sy_codes := sy_codes s @ [c]\<rparr>)"

definition move_to :: "decision_state \<Rightarrow> enforcement \<Rightarrow> rat \<Rightarrow> risk_level \<Rightarrow> synth \<Rightarrow> synth" where
  "move_to st enf conf risk s =
     s\<lparr>sy_state := st, sy_enforcement := enf, sy_confidence := max (sy_confidence s) conf,
       sy_risk := max_risk (sy_risk s) risk\<rparr>"

definition tier0_codes :: "evidence_packet \<Rightarrow> decision_reason list" where
  "tier0_codes p =
     (if truthy (dget (provenance p) ''invalid_attestation'') then [INVALID_ATTESTATION] else []) @
     (if truthy (dget (behavioral_features p) ''known_automation_fingerprint'') then [KNOWN_AUTOMATION_FINGERPRINT] else []) @
     (if truthy (dget (risk_context p) ''impossible_event_sequence'') then [IMPOSSIBLE_EVENT_SEQUENCE] else []) @
     (if dget (challenge_data p) ''status'' = PStr ''deterministic_failure'' then [CHALLENGE_FAILURE_DETERMINISTIC] else [])"

definition stage_step_up :: "evidence_packet \<Rightarrow> synth \<Rightarrow> synth" where
  "stage_step_up p s =
     (if truthy (dget (policy_context p) ''require_step_up'')
      then move_to STEP_UP_AUTH EnfStepUp 0.75 MediumRisk (s\<lparr>sy_codes := sy_codes s @ [POLICY_REQUIRES_STEP_UP]\<rparr>)
      else s)"

definition stage_cluster :: "evidence_packet \<Rightarrow> tier \<Rightarrow> synth \<Rightarrow> synth" where
  "stage_cluster p t s =
     (if dget (identity_refs p) ''cluster_risk'' = PStr ''high'' then
        let s = add_code CROSS_SESSION_CLUSTER_MATCH s in
        if t = Tier2 then move_to CHALLENGE EnfChallenge 0.80 HighRisk s else s
      else s)"

definition stage_timing :: "evidence_packet \<Rightarrow> synth \<Rightarrow> synth" where
  "stage_timing p s =
     (if truthy (dget (timing_features p) ''constant_latency_pattern'') then
        let s = add_code TIMING_AUTOMATION_PATTERN s in
        if sy_state s = ALLOW then move_to CHALLENGE EnfChallenge 0.70 MediumRisk s else s
      else s)"

definition stage_high_value :: "evidence_packet \<Rightarrow> tier \<Rightarrow> synth \<Rightarrow> synth" where
  "stage_high_value p t s =
     (if t = Tier2 \<and> truthy (dget (policy_context p) ''high_value_flow'') then
        let s = add_code HIGH_VALUE_TRANSACTION_ESCALATION s in
        if sy_state s \<in> {ALLOW, OBSERVE} then move_to STEP_UP_AUTH EnfStepUp 0.80 HighRisk s else s
      else s)"

fun disagreement_of :: "dict list \<Rightarrow> rat \<Rightarrow> rat res" where
  "disagreement_of [] d = Inr d"
| "disagreement_of (r # rs) d =
     bind_res (py_get (dget_default r ''metadata'' (PDict [])) ''disagreement_score'' PNone) (\<lambda>v.
       disagreement_of rs (max d (float_or 0 v)))"

definition stage_disagreement :: "rat \<Rightarrow> synth \<Rightarrow> synth" where
  "stage_disagreement disagreement s =
     (if disagreement > 0.8 then
        move_to RESTRICT EnfRestrict 0.65 MediumRisk (add_code EXCESSIVE_ROLE_DISAGREEMENT s)
      else if disagreement > 0.5 \<and> sy_state s = ALLOW then
        move_to ELEVATED_OBSERVE EnfObserve 0.6 MediumRisk s
      else s)"

definition stage_probability :: "rat \<Rightarrow> synth \<Rightarrow> synth" where
  "stage_probability human s =
     (if human \<le> 0.25 \<and> sy_confidence s \<ge> 0.75 then
        s\<lparr>sy_state := BLOCK, sy_enforcement := EnfBlock, sy_risk := max_risk (sy_risk s) HighRisk\<rparr>
      else if human \<le> 0.45 \<and> sy_state s = ALLOW then
        s\<lparr>sy_state := OBSERVE, sy_enforcement := EnfObserve, sy_risk := max_risk (sy_risk s) MediumRisk\<rparr>
      else s)"

definition initial_synth :: "dict list \<Rightarrow> synth" where
  "initial_synth reports =
     \<lparr>sy_codes = [], sy_state = ALLOW, sy_enforcement = EnfAllow,
      sy_confidence = max 0.5 (average (coerced ''confidence'' reports) 0.5), sy_risk = LowRisk\<rparr>"

definition synthesize_stages :: "evidence_packet \<Rightarrow> dict list \<Rightarrow> tier \<Rightarrow> synth res" where
  "synthesize_stages p reports t =
     (let s = stage_high_value p t (stage_timing p (stage_cluster p t (stage_step_up p (initial_synth reports))));
          human = average (coerced ''human_probability'' reports) 0.5
      in bind_res (disagreement_of reports 0) (\<lambda>d. Inr (stage_probability human (stage_disagreement d s))))"

text \<open>The object returned at the end of \<open>synthesize_decision\<close>.\<close>

definition decision_of ::
    "evidence_packet \<Rightarrow> dict list \<Rightarrow> tier \<Rightarrow> string \<Rightarrow> synth \<Rightarrow> rat \<Rightarrow> rat \<Rightarrow> decision_object" where
  "decision_of p reports t uuid s human nonhuman =
     \<lparr>decision_id = uuid, do_session_id = ep_session_id p, do_tenant_id = ep_tenant_id p,
      do_surface = ep_surface p, state = sy_state s, recommended_enforcement = sy_enforcement s,
      do_confidence = sy_confidence s, do_risk_level = sy_risk s,
      reason_codes = dedup (sy_codes s),
      challenge_required = (sy_state s = CHALLENGE),
      step_up_required = (sy_state s = STEP_UP_AUTH),
      human_review_required = (sy_state s = RESTRICT \<and> t = Tier2),
      evidence_packet_id = packet_id p,
      argument_graph_id = ''graph:'' @ packet_id p,
      role_report_ids = filter truthy (map (\<lambda>r. dget r ''report_id'') reports),
      decision_trace_id = ''trace:'' @ packet_id p,
      tier_path = t, human_probability = human, bot_probability = nonhuman,
      do_explanation = explanation_for_state (sy_state s)\<rparr>"

definition tier0_synth :: "evidence_packet \<Rightarrow> synth" where
  "tier0_synth p = \<lparr>sy_codes = tier0_codes p, sy_state = EJECT, sy_enforcement = EnfEject,
     sy_confidence = 0.99, sy_risk = HighRisk\<rparr>"

definition synthesize_decision :: "evidence_packet \<Rightarrow> dict list \<Rightarrow> tier \<Rightarrow> string \<Rightarrow> decision_object res" where
  "synthesize_decision p reports t uuid =
     (let human = average (coerced ''human_probability'' reports) 0.5 in
      if t = Tier0 then Inr (decision_of p reports t uuid (tier0_synth p) 0.01 0.99)
      else bind_res (synthesize_stages p reports t) (\<lambda>s.
             Inr (decision_of p reports t uuid s human (max 0 (min 1 (1 - human))))))"

text \<open>The compatibility router: a route exists exactly for tier 0.\<close>

definition decision_route :: "evidence_packet \<Rightarrow> dict \<Rightarrow> (decision_state \<times> rat \<times> decision_reason list) option res" where
  "decision_route p ctx = bind_res (choose_tier p ctx) (\<lambda>t.
     Inr (if t = Tier0 then Some (EJECT, 0.99, []) else None))"

instantiation risk_level :: linorder
begin

definition less_eq_risk_level :: "risk_level \<Rightarrow> risk_level \<Rightarrow> bool" where
  "less_eq_risk_level a b = (risk_rank a \<le> risk_rank b)"

definition less_risk_level :: "risk_level \<Rightarrow> risk_level \<Rightarrow> bool" where
  "less_risk_level a b = (risk_rank a < risk_rank b)"

instance
proof
  fix x y z :: risk_level
  show "(x < y) = (x \<le> y \<and> \<not> y \<le> x)" by (auto simp: less_eq_risk_level_def less_risk_level_def)
  show "x \<le> x" by (simp add: less_eq_risk_level_def)
  show "x \<le> y \<Longrightarrow> y \<le> z \<Longrightarrow> x \<le> z" by (simp add: less_eq_risk_level_def)
  show "x \<le> y \<Longrightarrow> y \<le> x \<Longrightarrow> x = y" by (cases x; cases y; simp add: less_eq_risk_level_def)
  show "x \<le> y \<or> y \<le> x" by (auto simp: less_eq_risk_level_def)
qed

end

lemma max_risk_eq: "max_risk a b = max a b"
  by (cases a; cases b; simp add: max_risk_def max_def less_eq_risk_level_def)

section \<open>The closed form of the synthesizer\<close>

fun enforcement_of :: "decision_state \<Rightarrow> enforcement" where
  "enforcement_of ALLOW = EnfAllow"
| "enforcement_of OBSERVE = EnfObserve"
| "enforcement_of ELEVATED_OBSERVE = EnfObserve"
| "enforcement_of CHALLENGE = EnfChallenge"
| "enforcement_of STEP_UP_AUTH = EnfStepUp"
| "enforcement_of RESTRICT = EnfRestrict"
| "enforcement_of BLOCK = EnfBlock"
| "enforcement_of EJECT = EnfEject"

text \<open>What every stage preserves: state and enforcement agree, the risk is low exactly in the initial
  state, tier 0's state is not produced, and the confidence does not drop below one half.\<close>

definition synth_ok :: "synth \<Rightarrow> bool" where
  "synth_ok s \<longleftrightarrow> sy_enforcement s = enforcement_of (sy_state s) \<and> (sy_risk s = LowRisk \<longleftrightarrow> sy_state s = ALLOW) \<and>
     sy_state s \<noteq> EJECT \<and> 0.5 \<le> sy_confidence s"

lemma max_risk_Low: "max_risk a b = LowRisk \<longleftrightarrow> a = LowRisk \<and> b = LowRisk"
  by (cases a; cases b; simp add: max_risk_def)

lemma synth_ok_add_code [simp]: "synth_ok (add_code c s) = synth_ok s"
  by (simp add: synth_ok_def add_code_def)

lemma add_code_simps [simp]:
  "sy_state (add_code c s) = sy_state s" "sy_confidence (add_code c s) = sy_confidence s"
  by (simp_all add: add_code_def)

lemma move_to_simps [simp]:
  "sy_state (move_to st e c r s) = st" "sy_codes (move_to st e c r s) = sy_codes s"
  "sy_confidence (move_to st e c r s) = max (sy_confidence s) c"
  by (simp_all add: move_to_def)

lemma synth_ok_move:
  "synth_ok s \<Longrightarrow> e = enforcement_of st \<Longrightarrow> st \<noteq> ALLOW \<Longrightarrow> st \<noteq> EJECT \<Longrightarrow> r \<noteq> LowRisk \<Longrightarrow>
     synth_ok (move_to st e c r s)"
  by (auto simp: synth_ok_def move_to_def max_risk_Low)

lemma synth_ok_initial: "synth_ok (initial_synth reports)"
  by (simp add: synth_ok_def initial_synth_def)

lemma synth_ok_stages:
  "synth_ok s \<Longrightarrow> synth_ok (stage_step_up p s)" "synth_ok s \<Longrightarrow> synth_ok (stage_cluster p t s)"
  "synth_ok s \<Longrightarrow> synth_ok (stage_timing p s)" "synth_ok s \<Longrightarrow> synth_ok (stage_high_value p t s)"
  "synth_ok s \<Longrightarrow> synth_ok (stage_disagreement d s)" "synth_ok s \<Longrightarrow> synth_ok (stage_probability h s)"
  by (auto simp: stage_step_up_def stage_cluster_def stage_timing_def stage_high_value_def
      stage_disagreement_def stage_probability_def Let_def intro!: synth_ok_move)
    (auto simp: synth_ok_def max_risk_Low)

lemma synthesize_stages_ok: "synthesize_stages p reports t = Inr s \<Longrightarrow> synth_ok s"
  by (auto simp: synthesize_stages_def Let_def bind_res_eq_Inr
      intro!: synth_ok_stages synth_ok_initial)

text \<open>The order of precedence of the conditions, after tier 0.\<close>

definition decided_state :: "evidence_packet \<Rightarrow> tier \<Rightarrow> rat \<Rightarrow> rat \<Rightarrow> rat \<Rightarrow> decision_state" where
  "decided_state p t disagreement human conf =
     (if t = Tier0 then EJECT
      else if human \<le> 0.25 \<and> conf \<ge> 0.75 then BLOCK
      else if disagreement > 0.8 then RESTRICT
      else if t = Tier2 \<and> dget (identity_refs p) ''cluster_risk'' = PStr ''high'' then CHALLENGE
      else if truthy (dget (policy_context p) ''require_step_up'') then STEP_UP_AUTH
      else if truthy (dget (timing_features p) ''constant_latency_pattern'') then CHALLENGE
      else if t = Tier2 \<and> truthy (dget (policy_context p) ''high_value_flow'') then STEP_UP_AUTH
      else if disagreement > 0.5 then ELEVATED_OBSERVE
      else if human \<le> 0.45 then OBSERVE
      else ALLOW)"

lemma synthesize_stages_state:
  assumes "synthesize_stages p reports t = Inr s" and "t \<noteq> Tier0" and "disagreement_of reports 0 = Inr d"
  shows "sy_state s = decided_state p t d (average (coerced ''human_probability'' reports) 0.5) (sy_confidence s)"
proof -
  let ?s0 = "stage_step_up p (initial_synth reports)"
  let ?s3 = "stage_high_value p t (stage_timing p (stage_cluster p t ?s0))"
  let ?h = "average (coerced ''human_probability'' reports) 0.5"
  have s: "s = stage_probability ?h (stage_disagreement d ?s3)"
    using assms by (simp add: synthesize_stages_def Let_def)
  have s0: "sy_state ?s0 = (if truthy (dget (policy_context p) ''require_step_up'') then STEP_UP_AUTH else ALLOW)"
    by (simp add: stage_step_up_def initial_synth_def)
  have s3: "sy_state ?s3 =
     (if t = Tier2 \<and> dget (identity_refs p) ''cluster_risk'' = PStr ''high'' then CHALLENGE
      else if truthy (dget (policy_context p) ''require_step_up'') then STEP_UP_AUTH
      else if truthy (dget (timing_features p) ''constant_latency_pattern'') then CHALLENGE
      else if t = Tier2 \<and> truthy (dget (policy_context p) ''high_value_flow'') then STEP_UP_AUTH
      else ALLOW)"
    using s0 by (auto simp: stage_high_value_def stage_timing_def stage_cluster_def Let_def)
  have s4: "sy_state (stage_disagreement d ?s3) =
     (if d > 0.8 then RESTRICT else if d > 0.5 \<and> sy_state ?s3 = ALLOW then ELEVATED_OBSERVE else sy_state ?s3)"
    by (simp add: stage_disagreement_def)
  have conf: "sy_confidence s = sy_confidence (stage_disagreement d ?s3)"
    by (simp add: s stage_probability_def)
  have "sy_state s = (if ?h \<le> 0.25 \<and> sy_confidence s \<ge> 0.75 then BLOCK
      else if ?h \<le> 0.45 \<and> sy_state (stage_disagreement d ?s3) = ALLOW then OBSERVE
      else sy_state (stage_disagreement d ?s3))"
    unfolding conf by (simp add: s stage_probability_def)
  then show ?thesis
    unfolding decided_state_def s4 s3 using assms(2) by auto
qed

lemma decision_of_simps [simp]:
  "state (decision_of p reports t uuid s h b) = sy_state s"
  "recommended_enforcement (decision_of p reports t uuid s h b) = sy_enforcement s"
  "do_confidence (decision_of p reports t uuid s h b) = sy_confidence s"
  "do_risk_level (decision_of p reports t uuid s h b) = sy_risk s"
  "reason_codes (decision_of p reports t uuid s h b) = dedup (sy_codes s)"
  "human_probability (decision_of p reports t uuid s h b) = h"
  "bot_probability (decision_of p reports t uuid s h b) = b"
  "challenge_required (decision_of p reports t uuid s h b) = (sy_state s = CHALLENGE)"
  "step_up_required (decision_of p reports t uuid s h b) = (sy_state s = STEP_UP_AUTH)"
  "human_review_required (decision_of p reports t uuid s h b) = (sy_state s = RESTRICT \<and> t = Tier2)"
  "tier_path (decision_of p reports t uuid s h b) = t"
  "evidence_packet_id (decision_of p reports t uuid s h b) = packet_id p"
  "do_session_id (decision_of p reports t uuid s h b) = ep_session_id p"
  "do_tenant_id (decision_of p reports t uuid s h b) = ep_tenant_id p"
  "decision_id (decision_of p reports t uuid s h b) = uuid"
  by (simp_all add: decision_of_def)

lemma synthesize_tier0:
  "synthesize_decision p reports Tier0 uuid = Inr d \<longleftrightarrow>
     d = decision_of p reports Tier0 uuid (tier0_synth p) 0.01 0.99"
  by (auto simp: synthesize_decision_def Let_def)

lemma synthesize_other:
  assumes "t \<noteq> Tier0" and "synthesize_decision p reports t uuid = Inr d"
  obtains s h where "synthesize_stages p reports t = Inr s"
    "h = average (coerced ''human_probability'' reports) 0.5"
    "d = decision_of p reports t uuid s h (max 0 (min 1 (1 - h)))"
  using assms by (auto simp: synthesize_decision_def Let_def bind_res_eq_Inr)

lemma synthesize_decision_state:
  assumes "synthesize_decision p reports t uuid = Inr d" and "disagreement_of reports 0 = Inr dis"
  shows "state d = decided_state p t dis (human_probability d) (do_confidence d)"
proof (cases "t = Tier0")
  case True
  with assms(1) have "state d = EJECT" by (simp add: synthesize_tier0 tier0_synth_def)
  with True show ?thesis by (simp add: decided_state_def)
next
  case False
  then obtain s h where s: "synthesize_stages p reports t = Inr s"
    "h = average (coerced ''human_probability'' reports) 0.5"
    "d = decision_of p reports t uuid s h (max 0 (min 1 (1 - h)))"
    using assms(1) by (rule synthesize_other)
  show ?thesis
    using synthesize_stages_state [OF s(1) False assms(2)] unfolding s(3) decision_of_simps s(2) .
qed

section \<open>Properties\<close>

text \<open>The state of a decision is determined by an order of precedence: ejection exactly in tier 0,
  then a block for a confidently non-human verdict, then restriction for role disagreement, the
  cluster challenge of tier 2, the step-up policy, the timing challenge, the high-value step-up,
  elevated observation, observation, and allow last.\<close>

theorem decision_precedence:
  assumes "synthesize_decision p reports t uuid = Inr d" and "disagreement_of reports 0 = Inr dis"
  shows "state d = decided_state p t dis (human_probability d) (do_confidence d)"
  using assms by (rule synthesize_decision_state)

definition plain_packet :: evidence_packet where
  "plain_packet = \<lparr>packet_id = ''p1'', ep_session_id = ''s1'', ep_tenant_id = ''t1'', ep_surface = ''web'',
     actor_id = PNone, received_at = [], event_window_start = PNone, event_window_end = PNone,
     raw_events = [[]], challenge_data = [], timing_features = [], behavioral_features = [],
     identity_refs = [], session_history = [], policy_context = [(''require_step_up'', PBool True)],
     risk_context = [], provenance = [], session_context = [], ep_metadata = []\<rparr>"

lemma plain_decides: "\<exists>d. synthesize_decision plain_packet [] Tier1 ''d1'' = Inr d"
  by (simp add: synthesize_decision_def synthesize_stages_def Let_def)

theorem decision_precedence_witness:
  "\<exists>d. synthesize_decision plain_packet [] Tier1 ''d1'' = Inr d \<and> state d = STEP_UP_AUTH \<and>
     state d = decided_state plain_packet Tier1 0 (human_probability d) (do_confidence d)"
proof -
  obtain d where d: "synthesize_decision plain_packet [] Tier1 ''d1'' = Inr d" using plain_decides by blast
  have h: "human_probability d = 1 / 2"
    using d by (rule synthesize_other [rotated]) (simp_all add: coerced_def average_def)
  have "state d = decided_state plain_packet Tier1 0 (human_probability d) (do_confidence d)"
    by (rule decision_precedence [OF d]) simp
  moreover from this have "state d = STEP_UP_AUTH"
    by (simp add: h decided_state_def plain_packet_def dget_def)
  ultimately show ?thesis using d by blast
qed

text \<open>Every decision is coherent: the enforcement and the three request flags follow from the state,
  the risk is low exactly for allow, the confidence is at least one half, the bot probability lies in
  the unit interval, and no reason code is listed twice.\<close>

theorem decision_coherent:
  assumes "synthesize_decision p reports t uuid = Inr d"
  shows "recommended_enforcement d = enforcement_of (state d) \<and>
    (do_risk_level d = LowRisk \<longleftrightarrow> state d = ALLOW) \<and> (state d = EJECT \<longleftrightarrow> t = Tier0) \<and>
    challenge_required d = (state d = CHALLENGE) \<and> step_up_required d = (state d = STEP_UP_AUTH) \<and>
    human_review_required d = (state d = RESTRICT \<and> t = Tier2) \<and>
    0.5 \<le> do_confidence d \<and> in_unit (bot_probability d) \<and> distinct (reason_codes d)"
proof (cases "t = Tier0")
  case True
  with assms have "d = decision_of p reports Tier0 uuid (tier0_synth p) 0.01 0.99"
    by (simp add: synthesize_tier0)
  with True show ?thesis by (simp add: tier0_synth_def in_unit_def)
next
  case False
  then obtain s h where s: "synthesize_stages p reports t = Inr s"
    and d: "d = decision_of p reports t uuid s h (max 0 (min 1 (1 - h)))"
    using assms by (rule synthesize_other)
  show ?thesis
    using synthesize_stages_ok [OF s] False by (simp add: d synth_ok_def in_unit_def)
qed

theorem decision_coherent_witness:
  "\<exists>d. synthesize_decision plain_packet [] Tier1 ''d1'' = Inr d \<and>
     recommended_enforcement d = enforcement_of (state d)"
  using plain_decides decision_coherent by blast

text \<open>C7: A routed decision allows a session if and only if seven conditions hold: no tier 0 marker, no
  step-up policy, no high-value flow, no cluster risk \<open>high\<close>, no constant latency pattern, role disagreement of
  at most one half, and a human probability above 0.45. Nothing else is consulted directly: what else is on record,
  a failed challenge or a detected threat short of tier 0, counts only through the human probability.\<close>

theorem allow_iff_nothing_adverse:
  assumes "choose_tier p ctx = Inr t" and "synthesize_decision p reports t uuid = Inr d"
    and "disagreement_of reports 0 = Inr dis"
  shows "state d = ALLOW \<longleftrightarrow>
    t \<noteq> Tier0 \<and> \<not> truthy (dget (policy_context p) ''require_step_up'') \<and>
    \<not> truthy (dget (policy_context p) ''high_value_flow'') \<and>
    dget (identity_refs p) ''cluster_risk'' \<noteq> PStr ''high'' \<and>
    \<not> truthy (dget (timing_features p) ''constant_latency_pattern'') \<and>
    dis \<le> 0.5 \<and> 0.45 < human_probability d"
proof -
  have tier2: "t = Tier2" if "truthy (dget (policy_context p) ''high_value_flow'') \<or>
      dget (identity_refs p) ''cluster_risk'' = PStr ''high''" "t \<noteq> Tier0"
    using assms(1) that by (auto simp: choose_tier_def bind_res_eq_Inr tier2_marker_def split: if_splits)
  have "decided_state p t dis h c = ALLOW \<longleftrightarrow> t \<noteq> Tier0 \<and>
      \<not> truthy (dget (policy_context p) ''require_step_up'') \<and>
      \<not> (t = Tier2 \<and> truthy (dget (policy_context p) ''high_value_flow'')) \<and>
      \<not> (t = Tier2 \<and> dget (identity_refs p) ''cluster_risk'' = PStr ''high'') \<and>
      \<not> truthy (dget (timing_features p) ''constant_latency_pattern'') \<and> dis \<le> 0.5 \<and> 0.45 < h" for h c
    unfolding decided_state_def by auto
  then show ?thesis
    unfolding synthesize_decision_state [OF assms(2,3)] using tier2 by blast
qed

theorem allow_iff_nothing_adverse_witness:
  "\<exists>d. synthesize_decision plain_packet [] Tier1 ''d1'' = Inr d \<and> state d \<noteq> ALLOW"
proof -
  obtain d where d: "synthesize_decision plain_packet [] Tier1 ''d1'' = Inr d" using plain_decides by blast
  have tier: "choose_tier plain_packet [] = Inr Tier1"
    by (simp add: choose_tier_def plain_packet_def dget_default_def dget_def py_set_def tier0_marker_def tier2_marker_def)
  have "truthy (dget (policy_context plain_packet) ''require_step_up'')"
    by (simp add: plain_packet_def dget_def)
  with allow_iff_nothing_adverse [OF tier d, of 0] d show ?thesis by auto
qed

section \<open>The shape of the argument graph\<close>

definition claim_names :: "string list" where
  "claim_names = [''human_presence_supported'', ''automation_pattern_supported'', ''challenge_success_supported'',
     ''challenge_failure_supported'', ''identity_cluster_risk_supported'', ''policy_step_up_required'']"

definition refs_of :: "argument_graph \<Rightarrow> string \<Rightarrow> string list" where
  "refs_of g cid = (case map_of (claims g) cid of None \<Rightarrow> [] | Some c \<Rightarrow> evidence_refs c)"

definition graph_edges :: "argument_graph \<Rightarrow> (string \<times> string) list" where
  "graph_edges g = support_edges g @ attack_edges g"

lemma add_claim_absent:
  "\<not> dhas (claims g) (claim_id c) \<Longrightarrow> claims (add_claim c g) = claims g @ [(claim_id c, c)]"
  by (simp add: add_claim_def dset_absent dhas_def)

lemma dhas_append: "dhas (d @ e) k \<longleftrightarrow> dhas d k \<or> dhas e k"
  by (auto simp: dhas_def map_add_def split: option.split)

lemma graph_op_simps [simp]:
  "claims (graph_supports a b g) = claims g" "claims (graph_attacks a b g) = claims g"
  "claims empty_graph = []" "claim_id (mk_claim cid t label) = cid" "evidence_refs (mk_claim cid t label) = []"
  "support_edges (add_claim c g) = support_edges g" "attack_edges (add_claim c g) = attack_edges g"
  "support_edges (graph_supports a b g) = support_edges g @ [(a, b)]" "attack_edges (graph_supports a b g) = attack_edges g"
  "support_edges (graph_attacks a b g) = support_edges g" "attack_edges (graph_attacks a b g) = attack_edges g @ [(a, b)]"
  "support_edges empty_graph = []" "attack_edges empty_graph = []" "\<not> dhas [] k"
  by (simp_all add: graph_supports_def graph_attacks_def empty_graph_def mk_claim_def add_claim_def dhas_def)

lemma base_graph_claims:
  "map fst (claims base_graph) = claim_names" "list_all (\<lambda>(k, c). evidence_refs c = []) (claims base_graph)"
  unfolding base_graph_def comp_apply graph_op_simps claim_names_def
  by (simp_all add: add_claim_absent dhas_append dhas_Cons)

lemma base_graph_facts:
  "map fst (claims base_graph) = claim_names"
  "set (graph_edges base_graph) \<subseteq> set claim_names \<times> set claim_names" "length (graph_edges base_graph) = 5"
  "refs_of base_graph cid = []"
proof -
  show "set (graph_edges base_graph) \<subseteq> set claim_names \<times> set claim_names" "length (graph_edges base_graph) = 5"
    by (simp_all add: base_graph_def graph_edges_def claim_names_def)
  show "refs_of base_graph cid = []"
    using base_graph_claims(2) by (auto simp: refs_of_def list_all_iff split: option.split dest: map_of_SomeD)
qed (rule base_graph_claims)

lemma extend_refs_facts:
  "map fst (claims (extend_refs cid rs g)) = map fst (claims g)"
  "graph_edges (extend_refs cid rs g) = graph_edges g"
  "refs_of (extend_refs cid rs g) k =
     (if k = cid \<and> cid \<in> set (map fst (claims g)) then refs_of g k @ rs else refs_of g k)"
proof -
  show "map fst (claims (extend_refs cid rs g)) = map fst (claims g)"
    by (auto simp: extend_refs_def dset_present split: option.split)
  show "graph_edges (extend_refs cid rs g) = graph_edges g"
    by (simp add: extend_refs_def graph_edges_def split: option.split)
  have "cid \<in> set (map fst (claims g)) \<longleftrightarrow> map_of (claims g) cid \<noteq> None"
    by (simp add: map_of_eq_None_iff)
  then show "refs_of (extend_refs cid rs g) k =
     (if k = cid \<and> cid \<in> set (map fst (claims g)) then refs_of g k @ rs else refs_of g k)"
    by (auto simp: extend_refs_def refs_of_def split: option.splits)
qed

lemma extend_if_facts:
  "map fst (claims (if c then extend_refs cid rs g else g)) = map fst (claims g)"
  "graph_edges (if c then extend_refs cid rs g else g) = graph_edges g"
  "cid \<in> set (map fst (claims g)) \<Longrightarrow> refs_of (if c then extend_refs cid rs g else g) k =
     refs_of g k @ (if c \<and> k = cid then rs else [])"
  by (simp_all add: extend_refs_facts)

text \<open>The argument graph of a packet always has the same six claims, its five edges join claims of
  the graph, the presence claim never has evidence of its own, and each other claim names exactly the
  packet sections that support it.\<close>

theorem argument_graph_shape:
  assumes "build_argument_graph p = Inr g"
  shows "map fst (claims g) = claim_names \<and> length (graph_edges g) = 5 \<and>
    set (graph_edges g) \<subseteq> set (map fst (claims g)) \<times> set (map fst (claims g)) \<and>
    refs_of g ''human_presence_supported'' = [] \<and>
    refs_of g ''challenge_success_supported'' =
      (if dget (challenge_data p) ''status'' = PStr ''passed'' then [''challenge_data''] else []) \<and>
    refs_of g ''challenge_failure_supported'' =
      (if dget (challenge_data p) ''status'' \<in> {PStr ''failed'', PStr ''deterministic_failure''}
       then [''challenge_data''] else []) \<and>
    refs_of g ''identity_cluster_risk_supported'' =
      (if truthy (dget (identity_refs p) ''cluster_risk'') then [''identity_refs''] else []) \<and>
    refs_of g ''policy_step_up_required'' =
      (if truthy (dget (policy_context p) ''require_step_up'') then [''policy_context''] else []) \<and>
    refs_of g ''automation_pattern_supported'' =
      (if truthy (dget (timing_features p) ''constant_latency_pattern'') then [''timing_features''] else []) @
      (if truthy (dget (behavioral_features p) ''automation_pattern'') then [''behavioral_features''] else [])"
proof -
  obtain g0 where g0: "challenge_refs p base_graph = Inr g0"
    using assms by (auto simp: build_argument_graph_def bind_res_eq_Inr)
  define status where "status = dget (challenge_data p) ''status''"
  have in_iff: "in_names status names = Inr b \<Longrightarrow> b \<longleftrightarrow> status \<in> PStr ` set names" for names b
    by (cases status) auto
  have g0_eq: "g0 = (if status = PStr ''passed'' then extend_refs ''challenge_success_supported'' [''challenge_data''] base_graph
      else if status \<in> {PStr ''failed'', PStr ''deterministic_failure''}
      then extend_refs ''challenge_failure_supported'' [''challenge_data''] base_graph else base_graph)"
    using g0 by (auto simp: challenge_refs_def status_def [symmetric] bind_res_eq_Inr Let_def dest!: in_iff
        split: if_splits)
  have names: "''human_presence_supported'' \<in> set claim_names" "''automation_pattern_supported'' \<in> set claim_names"
    "''challenge_success_supported'' \<in> set claim_names" "''challenge_failure_supported'' \<in> set claim_names"
    "''identity_cluster_risk_supported'' \<in> set claim_names" "''policy_step_up_required'' \<in> set claim_names"
    by (simp_all add: claim_names_def)
  have k0: "map fst (claims g0) = claim_names" "graph_edges g0 = graph_edges base_graph"
    and r0: "refs_of g0 k = (if k = ''challenge_success_supported'' \<and> status = PStr ''passed'' then [''challenge_data'']
      else if k = ''challenge_failure_supported'' \<and> status \<in> {PStr ''failed'', PStr ''deterministic_failure''}
      then [''challenge_data''] else [])" for k
    using names by (simp_all add: g0_eq extend_refs_facts base_graph_facts)
  define c1 where "c1 = truthy (dget (identity_refs p) ''cluster_risk'')"
  define c2 where "c2 = truthy (dget (policy_context p) ''require_step_up'')"
  define rs where "rs = (if truthy (dget (timing_features p) ''constant_latency_pattern'') then [''timing_features''] else []) @
     (if truthy (dget (behavioral_features p) ''automation_pattern'') then [''behavioral_features''] else [])"
  define g1 where "g1 = (if c1 then extend_refs ''identity_cluster_risk_supported'' [''identity_refs''] g0 else g0)"
  define g2 where "g2 = (if c2 then extend_refs ''policy_step_up_required'' [''policy_context''] g1 else g1)"
  have g: "g = (if rs \<noteq> [] then extend_refs ''automation_pattern_supported'' rs g2 else g2)"
    using assms unfolding build_argument_graph_def g0 bind_res_Inr Let_def sum.inject c1_def c2_def rs_def
      g1_def g2_def by (rule sym)
  have k1: "map fst (claims g1) = claim_names" "graph_edges g1 = graph_edges base_graph"
    unfolding g1_def by (simp_all only: extend_if_facts k0)
  have k2: "map fst (claims g2) = claim_names" "graph_edges g2 = graph_edges base_graph"
    unfolding g2_def by (simp_all only: extend_if_facts k1)
  have k3: "map fst (claims g) = claim_names" "graph_edges g = graph_edges base_graph"
    unfolding g by (simp_all only: extend_if_facts k2)
  have r1: "refs_of g1 k = refs_of g0 k @ (if c1 \<and> k = ''identity_cluster_risk_supported'' then [''identity_refs''] else [])" for k
    unfolding g1_def using names k0 by (intro extend_if_facts(3)) simp
  have r2: "refs_of g2 k = refs_of g1 k @ (if c2 \<and> k = ''policy_step_up_required'' then [''policy_context''] else [])" for k
    unfolding g2_def using names k1 by (intro extend_if_facts(3)) simp
  have "refs_of g k = refs_of g2 k @ (if rs \<noteq> [] \<and> k = ''automation_pattern_supported'' then rs else [])" for k
    unfolding g using names k2 by (intro extend_if_facts(3)) simp
  then show ?thesis
    unfolding k3 using base_graph_facts(2,3)
    by (simp add: r0 r1 r2 status_def c1_def c2_def) (simp add: rs_def)
qed

theorem argument_graph_shape_witness:
  "\<exists>g. build_argument_graph plain_packet = Inr g \<and> refs_of g ''policy_step_up_required'' = [''policy_context'']"
proof -
  obtain g where g: "build_argument_graph plain_packet = Inr g"
    by (simp add: build_argument_graph_def challenge_refs_def plain_packet_def dget_def Let_def)
  have "truthy (dget (policy_context plain_packet) ''require_step_up'')"
    by (simp add: plain_packet_def dget_def)
  with argument_graph_shape [OF g] g show ?thesis by auto
qed

end
