(* ===== verification/Ensemble.thy ===== *)
theory Ensemble
  imports Decision
begin

text \<open>
  Role reports: \<open>truepresence/ensemble/orchestrator.py\<close>. Whatever shape an orchestrator returns is
  normalized into a list of reports, to which the reasoning-integrity review appends its own. Fresh
  identifiers are drawn from the argument \<open>uuids\<close>, one per report.
\<close>

record role_report =
  report_id :: pv
  rr_role :: pv
  rr_summary :: pv
  rr_confidence :: rat
  rr_human_probability :: pv
  rr_findings :: "string list"
  rr_metadata :: dict

definition dump_report :: "role_report \<Rightarrow> dict" where
  "dump_report r =
    [(''report_id'', report_id r), (''role'', rr_role r), (''summary'', rr_summary r),
     (''confidence'', PFloat (rr_confidence r)), (''human_probability'', rr_human_probability r),
     (''findings'', PList (map PStr (rr_findings r))), (''metadata'', PDict (rr_metadata r))]"

text \<open>\<open>for item in raw.get(k, []) or []\<close>.\<close>

definition iter_or_empty :: "dict \<Rightarrow> string \<Rightarrow> pv list res" where
  "iter_or_empty raw k = py_iter (py_or (dget_default raw k (PList [])) (PList []))"

definition flatten_findings :: "(pv \<Rightarrow> string) \<Rightarrow> dict \<Rightarrow> string list res" where
  "flatten_findings rep raw =
     (let head = (if truthy (dget raw ''finding'') then [py_str rep (dget raw ''finding'')] else []) in
      bind_res (iter_or_empty raw ''findings'') (\<lambda>fs.
      bind_res (iter_or_empty raw ''threat_categories'') (\<lambda>ts.
        Inr (dedup (head @ map (py_str rep) fs @ map (py_str rep) ts)))))"

definition normalize_single_report :: "(pv \<Rightarrow> string) \<Rightarrow> string \<Rightarrow> pv \<Rightarrow> dict \<Rightarrow> role_report res" where
  "normalize_single_report rep uuid role raw =
     bind_res (flatten_findings rep raw) (\<lambda>findings.
     bind_res (py_float (dget_default raw ''confidence'' (PFloat 0.5))) (\<lambda>conf.
     bind_res (py_dict (dget_default raw ''metadata'' (PDict []))) (\<lambda>meta.
       Inr \<lparr>report_id = py_or (dget raw ''report_id'') (PStr (''report:'' @ py_str rep role @ '':'' @ uuid)),
            rr_role = role,
            rr_summary = py_or (dget raw ''summary'') (py_or (dget raw ''finding'')
               (py_or (PStr (join '', '' findings))
                  (PStr (py_str rep role @ '' completed without a structured summary.'')))),
            rr_confidence = conf,
            rr_human_probability = dget raw ''human_probability'',
            rr_findings = findings,
            rr_metadata = dset ''raw_role_output'' (PDict raw) meta\<rparr>)))"

text \<open>\<open>max(ps) - min(ps)\<close>: raises unless every probability is a number.\<close>

definition min_list :: "rat \<Rightarrow> rat list \<Rightarrow> rat" where
  "min_list x xs = foldl min x xs"

definition spread :: "pv list \<Rightarrow> rat res" where
  "spread ps = (if ps = [] then Inr 0
     else if list_all (\<lambda>p. num_of p \<noteq> None) ps
     then let ns = map (the \<circ> num_of) ps in Inr (max_default 0 ns - min_list (hd ns) (tl ns))
     else Inl (TypeError ''unsupported operand types for -''))"

definition unsupported_by :: "(pv \<Rightarrow> string) \<Rightarrow> pv \<Rightarrow> role_report \<Rightarrow> string list" where
  "unsupported_by rep challenge_status r =
     (if rr_confidence r > 0.9 \<and> rr_findings r = []
      then [py_str rep (rr_role r) @ '':high_confidence_without_findings''] else []) @
     (if challenge_status = PStr ''passed'' \<and>
         (case num_of (rr_human_probability r) of None \<Rightarrow> False | Some h \<Rightarrow> h < 0.2)
      then [py_str rep (rr_role r) @ '':contradicts_passed_challenge''] else [])"

definition reasoning_integrity_review ::
    "(pv \<Rightarrow> string) \<Rightarrow> string \<Rightarrow> role_report list \<Rightarrow> evidence_packet \<Rightarrow> role_report res" where
  "reasoning_integrity_review rep uuid reports packet =
     bind_res (spread (filter (\<lambda>p. p \<noteq> PNone) (map rr_human_probability reports))) (\<lambda>disagreement_score.
     let challenge_status = dget (challenge_data packet) ''status'';
         unsupported = concat (map (unsupported_by rep challenge_status) reports)
     in Inr \<lparr>report_id = PStr (''report:reasoning_integrity_reviewer:'' @ uuid),
             rr_role = PStr ''reasoning_integrity_reviewer'',
             rr_summary = PStr ''Reviewed whether role conclusions are supported by the current evidence packet and argument graph.'',
             rr_confidence = max 0.4 (min 0.95 (0.55 + disagreement_score / 2)),
             rr_human_probability = PNone,
             rr_findings =
               (if unsupported \<noteq> [] then [''unsupported_inference_detected''] else []) @
               (if disagreement_score > 0.5 then [''material_role_disagreement''] else []),
             rr_metadata = [(''disagreement_score'', PFloat disagreement_score),
                            (''unsupported_claims'', PList (map PStr unsupported))]\<rparr>)"

fun normalize_items :: "(pv \<Rightarrow> string) \<Rightarrow> (nat \<Rightarrow> string) \<Rightarrow> nat \<Rightarrow> pv list \<Rightarrow> role_report list res" where
  "normalize_items rep uuids i [] = Inr []"
| "normalize_items rep uuids i (x # xs) =
     (let raw = (case x of PDict d \<Rightarrow> d | _ \<Rightarrow> [(''value'', x)]);
          role = py_or (dget raw ''role'') (PStr (''role_'' @ nat_str i))
      in bind_res (normalize_single_report rep (uuids i) role raw) (\<lambda>r.
         bind_res (normalize_items rep uuids (Suc i) xs) (\<lambda>rs. Inr (r # rs))))"

fun normalize_roles :: "(pv \<Rightarrow> string) \<Rightarrow> (nat \<Rightarrow> string) \<Rightarrow> nat \<Rightarrow> dict \<Rightarrow> role_report list res" where
  "normalize_roles rep uuids i [] = Inr []"
| "normalize_roles rep uuids i ((role, v) # kvs) =
     bind_res (py_dict v) (\<lambda>raw.
     bind_res (normalize_single_report rep (uuids i) (PStr role) raw) (\<lambda>r.
     bind_res (normalize_roles rep uuids (Suc i) kvs) (\<lambda>rs. Inr (r # rs))))"

definition normalize_result :: "(pv \<Rightarrow> string) \<Rightarrow> (nat \<Rightarrow> string) \<Rightarrow> pv \<Rightarrow> role_report list res" where
  "normalize_result rep uuids result = (case result of
      PList xs \<Rightarrow> normalize_items rep uuids 0 xs
    | PDict d \<Rightarrow>
        (case dget d ''roles'' of
           PDict roles \<Rightarrow> normalize_roles rep uuids 0 roles
         | _ \<Rightarrow> if d = [] then Inr []
               else bind_res (normalize_single_report rep (uuids 0)
                      (dget_default d ''role'' (PStr ''ensemble'')) d) (\<lambda>r. Inr [r]))
    | _ \<Rightarrow> Inr [])"

definition normalize_role_reports ::
    "(pv \<Rightarrow> string) \<Rightarrow> (nat \<Rightarrow> string) \<Rightarrow> pv \<Rightarrow> evidence_packet option \<Rightarrow> role_report list res" where
  "normalize_role_reports rep uuids result payload =
     bind_res (normalize_result rep uuids result) (\<lambda>reports.
       (case payload of None \<Rightarrow> Inr reports
        | Some packet \<Rightarrow>
            bind_res (reasoning_integrity_review rep (uuids (length reports)) reports packet) (\<lambda>review.
              Inr (reports @ [review]))))"

section \<open>Facts\<close>

lemma normalize_single_metadata:
  "normalize_single_report rep u role raw = Inr r \<Longrightarrow> rr_role r = role \<and> distinct (rr_findings r)"
  by (auto simp: normalize_single_report_def flatten_findings_def bind_res_eq_Inr Let_def)

lemma normalize_items_length: "normalize_items rep uuids i xs = Inr rs \<Longrightarrow> length rs = length xs"
  by (induction xs arbitrary: i rs) (auto simp: bind_res_eq_Inr Let_def)

lemma normalize_roles_roles:
  "normalize_roles rep uuids i kvs = Inr rs \<Longrightarrow> map rr_role rs = map (PStr \<circ> fst) kvs"
proof (induction kvs arbitrary: i rs)
  case (Cons kv kvs)
  then show ?case
    by (cases kv) (auto simp: bind_res_eq_Inr dest!: normalize_single_metadata)
qed simp

lemma foldl_min_le: "foldl min (x::rat) xs \<le> x"
proof (induction xs arbitrary: x)
  case (Cons y ys)
  have "foldl min (min x y) ys \<le> min x y" by (rule Cons)
  then show ?case by simp
qed simp

lemma foldl_min_in: "foldl min (x::rat) xs \<in> set (x # xs)"
proof (induction xs arbitrary: x)
  case (Cons y ys)
  have "min x y \<in> {x, y}" by (simp add: min_def)
  then show ?case using Cons [of "min x y"] by auto
qed simp

lemma foldl_min_lower: "y \<in> set (x # xs) \<Longrightarrow> foldl min (x::rat) xs \<le> y"
proof (induction xs arbitrary: x)
  case (Cons z zs)
  have "foldl min (min x z) zs \<le> min x z" by (rule foldl_min_le)
  with Cons show ?case by auto
qed simp

text \<open>The spread is the largest difference between two of the probabilities.\<close>

lemma spread_bounds:
  assumes "spread ps = Inr d" and "p \<in> set ps" "q \<in> set ps" "num_of p = Some a" "num_of q = Some b"
  shows "a - b \<le> d" and "0 \<le> d"
proof -
  let ?ns = "map (the \<circ> num_of) ps"
  have ne: "ps \<noteq> []" using assms(2) by auto
  then have d: "d = max_default 0 ?ns - min_list (hd ?ns) (tl ?ns)"
    using assms(1) by (auto simp: spread_def Let_def split: if_splits)
  have ns: "?ns = hd ?ns # tl ?ns" using ne by simp
  have upper: "x \<le> max_default 0 ?ns" if "x \<in> set ?ns" for x
    using that by (rule max_default_upper)
  have lower: "min_list (hd ?ns) (tl ?ns) \<le> x" if "x \<in> set ?ns" for x
    unfolding min_list_def using that ns by (intro foldl_min_lower) simp
  have "a \<in> set ?ns" "b \<in> set ?ns" using assms(2-5) by force+
  then show "a - b \<le> d" "0 \<le> d"
    using upper [of a] lower [of b] lower [of a] unfolding d by linarith+
qed

lemma normalize_role_reports_Some:
  "normalize_role_reports rep uuids result (Some p) = Inr rs \<longleftrightarrow>
     (\<exists>rs0 review. normalize_result rep uuids result = Inr rs0 \<and>
        reasoning_integrity_review rep (uuids (length rs0)) rs0 p = Inr review \<and> rs = rs0 @ [review])"
  by (auto simp: normalize_role_reports_def bind_res_eq_Inr)

text \<open>The integrity review is always the last report, keeps its confidence between 0.4 and 0.95, and
  its disagreement score bounds the difference between the human probabilities of any two roles; a
  score above one half is always a finding.\<close>

theorem integrity_review_last:
  assumes "normalize_role_reports rep uuids result (Some p) = Inr rs"
  shows "\<exists>rs0 review score. rs = rs0 @ [review] \<and> rr_role review = PStr ''reasoning_integrity_reviewer'' \<and>
    0.4 \<le> rr_confidence review \<and> rr_confidence review \<le> 0.95 \<and>
    dget (rr_metadata review) ''disagreement_score'' = PFloat score \<and> 0 \<le> score \<and>
    (''material_role_disagreement'' \<in> set (rr_findings review) \<longleftrightarrow> 0.5 < score) \<and>
    {a - b | a b r s. r \<in> set rs0 \<and> s \<in> set rs0 \<and> num_of (rr_human_probability r) = Some a \<and>
       num_of (rr_human_probability s) = Some b} \<subseteq> {..score}"
proof -
  obtain rs0 review where r: "rs = rs0 @ [review]"
    "reasoning_integrity_review rep (uuids (length rs0)) rs0 p = Inr review"
    using assms by (auto simp: normalize_role_reports_Some)
  let ?ps = "filter (\<lambda>x. x \<noteq> PNone) (map rr_human_probability rs0)"
  obtain score where sp: "spread ?ps = Inr score"
    using r(2) by (auto simp: reasoning_integrity_review_def bind_res_eq_Inr)
  have review: "rr_role review = PStr ''reasoning_integrity_reviewer''"
    "rr_confidence review = max 0.4 (min 0.95 (0.55 + score / 2))"
    "dget (rr_metadata review) ''disagreement_score'' = PFloat score"
    "''material_role_disagreement'' \<in> set (rr_findings review) \<longleftrightarrow> 0.5 < score"
    using r(2) sp by (auto simp: reasoning_integrity_review_def Let_def dget_def)
  have in_ps: "rr_human_probability r \<in> set ?ps" if "r \<in> set rs0" "num_of (rr_human_probability r) = Some a" for r a
    using that by auto
  have "0 \<le> score"
  proof (cases ?ps)
    case Nil
    then show ?thesis using sp by (simp add: spread_def)
  next
    case (Cons q qs)
    then have "num_of q \<noteq> None" using sp by (auto simp: spread_def split: if_splits)
    then show ?thesis using spread_bounds(2) [OF sp, of q q] Cons by auto
  qed
  moreover have "{a - b | a b r s. r \<in> set rs0 \<and> s \<in> set rs0 \<and> num_of (rr_human_probability r) = Some a \<and>
       num_of (rr_human_probability s) = Some b} \<subseteq> {..score}"
    using spread_bounds(1) [OF sp] in_ps by fastforce
  moreover have "0.4 \<le> rr_confidence review \<and> rr_confidence review \<le> 0.95"
    unfolding review(2) by (simp add: max_def min_def)
  ultimately show ?thesis using r(1) review(1,3,4) by blast
qed

definition two_roles :: pv where
  "two_roles = PList [PDict [(''role'', PStr ''liveness''), (''human_probability'', PFloat 0.9)],
                      PDict [(''role'', PStr ''relay''), (''human_probability'', PFloat 0.2)]]"

theorem integrity_review_last_witness:
  "\<exists>rs. normalize_role_reports (\<lambda>_. []) (\<lambda>_. ''u'') two_roles (Some plain_packet) = Inr rs \<and>
     rr_role (last rs) = PStr ''reasoning_integrity_reviewer''"
proof -
  have "\<exists>rs. normalize_role_reports (\<lambda>_. []) (\<lambda>_. ''u'') two_roles (Some plain_packet) = Inr rs"
    by (simp add: two_roles_def normalize_role_reports_def normalize_result_def normalize_single_report_def
        flatten_findings_def iter_or_empty_def dget_default_def dget_def py_or_def
        reasoning_integrity_review_def spread_def Let_def del: not_None_eq)
  then obtain rs where rs: "normalize_role_reports (\<lambda>_. []) (\<lambda>_. ''u'') two_roles (Some plain_packet) = Inr rs"
    by blast
  from integrity_review_last [OF rs] rs show ?thesis by auto
qed

end
