(* ===== verification/Engine.thy ===== *)
theory Engine
  imports Ensemble
begin

text \<open>
  The decision engine, \<open>truepresence/decision/engine.py\<close>, with the artifact store it files into
  (\<open>artifacts/artifact_store.py\<close>) and the ensemble adapter it calls (\<open>ensemble/orchestrator.py\<close>). The
  collaborators that are injected into the engine (timeline window, identity graph, orchestrator) are
  the fields of \<open>ensemble_runtime\<close>; identifiers and the clock are arguments.
\<close>

section \<open>The artifact store\<close>

record decision_artifact =
  da_decision :: decision_object
  da_role_reports :: "dict list"
  da_threat_categories :: pv
  da_block_reason :: string
  da_mode :: string
  da_degraded_reason :: "string option"

datatype stored =
    StoredPacket evidence_packet
  | StoredGraph argument_graph
  | StoredReport dict
  | StoredDecision decision_artifact

text \<open>\<open>al_dist\<close> is the backing runtime's key space, absent when the runtime has no
  \<open>update_session_field\<close>, in which case nothing is persisted.\<close>

record artifact_log =
  al_packets :: "evidence_packet list"
  al_graphs :: "argument_graph list"
  al_reports :: "dict list"
  al_decisions :: "decision_artifact list"
  al_dist :: "(string \<times> stored) list option"

definition persist :: "string \<Rightarrow> stored \<Rightarrow> artifact_log \<Rightarrow> artifact_log" where
  "persist key val st = (case al_dist st of None \<Rightarrow> st | Some kv \<Rightarrow> st\<lparr>al_dist := Some (dset key val kv)\<rparr>)"

definition store_evidence_packet :: "evidence_packet \<Rightarrow> artifact_log \<Rightarrow> artifact_log" where
  "store_evidence_packet p st =
     persist (''artifact:packet:'' @ packet_id p) (StoredPacket p) (st\<lparr>al_packets := al_packets st @ [p]\<rparr>)"

text \<open>\<open>getattr(graph, "graph_id", "unknown")\<close>: the graph class has no such attribute.\<close>

definition store_argument_graph :: "argument_graph \<Rightarrow> artifact_log \<Rightarrow> artifact_log" where
  "store_argument_graph g st =
     persist ''artifact:graph:unknown'' (StoredGraph g) (st\<lparr>al_graphs := al_graphs st @ [g]\<rparr>)"

fun store_role_reports :: "(pv \<Rightarrow> string) \<Rightarrow> dict list \<Rightarrow> artifact_log \<Rightarrow> artifact_log" where
  "store_role_reports rep [] st = st"
| "store_role_reports rep (r # rs) st =
     store_role_reports rep rs
       (persist (''artifact:report:'' @ py_str rep (dget_default r ''report_id'' (PStr ''unknown''))) (StoredReport r)
         (st\<lparr>al_reports := al_reports st @ [r]\<rparr>))"

definition store_decision_artifact :: "decision_artifact \<Rightarrow> artifact_log \<Rightarrow> artifact_log" where
  "store_decision_artifact a st =
     persist (''artifact:decision:'' @ decision_id (da_decision a)) (StoredDecision a)
       (st\<lparr>al_decisions := al_decisions st @ [a]\<rparr>)"

section \<open>The engine\<close>

text \<open>The orchestrator is handed the packet itself and may write to the dictionaries in it; the production one
  writes to the identity references and the metadata. What it leaves there is part of its answer.\<close>

record packet_update =
  pu_identity_refs :: dict
  pu_metadata :: dict

definition updated_packet :: "evidence_packet \<Rightarrow> packet_update \<Rightarrow> evidence_packet" where
  "updated_packet p u = p\<lparr>identity_refs := pu_identity_refs u, ep_metadata := pu_metadata u\<rparr>"

definition no_update :: "evidence_packet \<Rightarrow> packet_update" where
  "no_update p = \<lparr>pu_identity_refs = identity_refs p, pu_metadata = ep_metadata p\<rparr>"

lemma updated_packet_simps [simp]:
  "packet_id (updated_packet p u) = packet_id p" "ep_session_id (updated_packet p u) = ep_session_id p"
  "identity_refs (updated_packet p u) = pu_identity_refs u" "updated_packet p (no_update p) = p"
  by (simp_all add: updated_packet_def no_update_def)

record ensemble_runtime =
  er_window :: "string \<Rightarrow> nat \<Rightarrow> pv list"
  er_identity_graph :: "((string \<Rightarrow> string list) \<times> (string \<Rightarrow> rat)) option"
  er_orchestrate :: "evidence_packet \<Rightarrow> argument_graph \<Rightarrow> dict \<Rightarrow> (pv \<times> packet_update) res"
  er_mode :: string
  er_degraded_reason :: "string option"

definition ensemble_run ::
    "(pv \<Rightarrow> string) \<Rightarrow> (nat \<Rightarrow> string) \<Rightarrow> ensemble_runtime \<Rightarrow> evidence_packet \<Rightarrow> argument_graph \<Rightarrow> dict \<Rightarrow>
     (role_report list \<times> evidence_packet) res" where
  "ensemble_run rep uuids rt p g ctx =
     bind_res (py_dict (dget_default ctx ''session'' (PDict []))) (\<lambda>session.
     let session = dsetdefault ''tenant_id'' (PStr (ep_tenant_id p))
                     (dsetdefault ''session_id'' (PStr (ep_session_id p)) session)
     in bind_res (er_orchestrate rt p g session) (\<lambda>(result, u).
        bind_res (normalize_role_reports rep uuids result (Some (updated_packet p u))) (\<lambda>reports.
          Inr (reports, updated_packet p u))))"

definition session_context_of :: "dict \<Rightarrow> dict \<Rightarrow> dict" where
  "session_context_of session ctx =
     (if session \<noteq> [] then
        dsetdefault ''actor_id'' (py_or (dget session ''actor_id'') (dget session ''user_id''))
          (dsetdefault ''session'' (PDict session) ctx)
      else ctx)"

definition history_context :: "ensemble_runtime \<Rightarrow> string \<Rightarrow> dict \<Rightarrow> dict" where
  "history_context rt sid ctx =
     (if dhas ctx ''session_history'' then ctx
      else dset ''session_history'' (PList (er_window rt sid 50)) ctx)"

definition identity_context :: "ensemble_runtime \<Rightarrow> string \<Rightarrow> dict \<Rightarrow> dict" where
  "identity_context rt sid ctx =
     (if dhas ctx ''identity_refs'' then ctx
      else case er_identity_graph rt of None \<Rightarrow> ctx
        | Some (get_connected, get_risk) \<Rightarrow>
            let connected = get_connected sid;
                refs = [(''connected_sessions'', PInt (int (length connected)))];
                refs = (if connected \<noteq> []
                        then let risk = get_risk sid in
                             refs @ [(''cluster_risk'', if risk \<ge> 0.75 then PStr ''high'' else PFloat risk)]
                        else refs)
            in dset ''identity_refs'' (PDict refs) ctx)"

definition prepare_context :: "ensemble_runtime \<Rightarrow> string \<Rightarrow> dict \<Rightarrow> dict list \<Rightarrow> dict \<Rightarrow> dict" where
  "prepare_context rt sid session challenges ctx =
     identity_context rt sid (history_context rt sid
       (resolve_challenge challenges (session_context_of session ctx)))"

record fresh_ids =
  fi_packet :: string
  fi_reports :: "nat \<Rightarrow> string"
  fi_decision :: string
  fi_now :: string

record decision_result =
  dr_decision :: decision_object
  dr_packet :: evidence_packet
  dr_graph :: argument_graph
  dr_artifact :: decision_artifact

definition role_reports_for ::
    "(pv \<Rightarrow> string) \<Rightarrow> (nat \<Rightarrow> string) \<Rightarrow> ensemble_runtime \<Rightarrow> evidence_packet \<Rightarrow> argument_graph \<Rightarrow> dict \<Rightarrow> tier \<Rightarrow>
     (dict list \<times> evidence_packet) res" where
  "role_reports_for rep uuids rt p g ctx t =
     (if t = Tier0 then Inr ([], p)
      else bind_res (ensemble_run rep uuids rt p g ctx) (\<lambda>(rs, p'). Inr (map dump_report rs, p')))"

definition decide ::
    "(pv \<Rightarrow> string) \<Rightarrow> ensemble_runtime \<Rightarrow> fresh_ids \<Rightarrow> evidence_packet \<Rightarrow> dict \<Rightarrow> decision_result res" where
  "decide rep rt ids p0 ctx =
     bind_res (build_argument_graph p0) (\<lambda>g.
     bind_res (choose_tier p0 ctx) (\<lambda>t.
     bind_res (role_reports_for rep (fi_reports ids) rt p0 g ctx t) (\<lambda>(reports, p).
     bind_res (synthesize_decision p reports t (fi_decision ids)) (\<lambda>d.
       Inr \<lparr>dr_decision = d, dr_packet = p, dr_graph = g,
            dr_artifact = \<lparr>da_decision = d, da_role_reports = reports,
              da_threat_categories = dget_default (risk_context p) ''threats_detected'' (PList []),
              da_block_reason = (if t = Tier0 then ''Deterministic policy violation'' else []),
              da_mode = er_mode rt, da_degraded_reason = er_degraded_reason rt\<rparr>\<rparr>))))"

definition file_result :: "(pv \<Rightarrow> string) \<Rightarrow> decision_result \<Rightarrow> artifact_log \<Rightarrow> artifact_log" where
  "file_result rep r st =
     store_decision_artifact (dr_artifact r)
       (store_role_reports rep (da_role_reports (dr_artifact r))
         (store_argument_graph (dr_graph r) (store_evidence_packet (dr_packet r) st)))"

definition evaluate ::
    "(pv \<Rightarrow> string) \<Rightarrow> ensemble_runtime \<Rightarrow> fresh_ids \<Rightarrow> artifact_log \<Rightarrow> string \<Rightarrow> string \<Rightarrow> string option \<Rightarrow>
     dict option \<Rightarrow> dict \<Rightarrow> dict \<Rightarrow> dict list \<Rightarrow> (decision_result \<times> artifact_log) res" where
  "evaluate rep rt ids st surface sid tenant event context session challenges =
     (case event of None \<Rightarrow> Inl (ValueError ''event is required'')
      | Some event \<Rightarrow>
          let with_session = session_context_of session context;
              ctx = prepare_context rt sid session challenges context
          in bind_res (build_evidence_packet surface sid (py_str rep (resolve_tenant tenant session with_session))
                        event ctx (fi_packet ids) (fi_now ids)) (\<lambda>p.
             bind_res (decide rep rt ids p ctx) (\<lambda>r. Inr (r, file_result rep r st))))"

fun legacy_decision_for_state :: "decision_state \<Rightarrow> string" where
  "legacy_decision_for_state ALLOW = ''allow''"
| "legacy_decision_for_state OBSERVE = ''allow''"
| "legacy_decision_for_state ELEVATED_OBSERVE = ''review''"
| "legacy_decision_for_state CHALLENGE = ''challenge''"
| "legacy_decision_for_state STEP_UP_AUTH = ''challenge''"
| "legacy_decision_for_state RESTRICT = ''review''"
| "legacy_decision_for_state BLOCK = ''block''"
| "legacy_decision_for_state EJECT = ''block''"

section \<open>Filing\<close>

lemma persist_logs [simp]:
  "al_packets (persist k v st) = al_packets st" "al_graphs (persist k v st) = al_graphs st"
  "al_reports (persist k v st) = al_reports st" "al_decisions (persist k v st) = al_decisions st"
  by (simp_all add: persist_def split: option.split)

lemma persist_dist: "al_dist (persist k v st) = map_option (dset k v) (al_dist st)"
  by (simp add: persist_def split: option.split)

lemma store_role_reports_logs [simp]:
  "al_packets (store_role_reports rep rs st) = al_packets st" "al_graphs (store_role_reports rep rs st) = al_graphs st"
  "al_reports (store_role_reports rep rs st) = al_reports st @ rs"
  "al_decisions (store_role_reports rep rs st) = al_decisions st"
  by (induction rs arbitrary: st) simp_all

lemma file_result_logs:
  "al_packets (file_result rep r st) = al_packets st @ [dr_packet r]"
  "al_graphs (file_result rep r st) = al_graphs st @ [dr_graph r]"
  "al_reports (file_result rep r st) = al_reports st @ da_role_reports (dr_artifact r)"
  "al_decisions (file_result rep r st) = al_decisions st @ [dr_artifact r]"
  by (simp_all add: file_result_def store_decision_artifact_def store_argument_graph_def store_evidence_packet_def)

lemma engine_evaluate_Inr:
  "evaluate rep rt ids st surface sid tenant event context session challenges = Inr (r, st') \<longleftrightarrow>
     (\<exists>ev p. event = Some ev \<and>
        build_evidence_packet surface sid
          (py_str rep (resolve_tenant tenant session (session_context_of session context)))
          ev (prepare_context rt sid session challenges context) (fi_packet ids) (fi_now ids) = Inr p \<and>
        decide rep rt ids p (prepare_context rt sid session challenges context) = Inr r \<and>
        st' = file_result rep r st)"
  by (cases event) (auto simp: evaluate_def Let_def bind_res_eq_Inr)

lemma decide_Inr:
  assumes "decide rep rt ids p ctx = Inr r"
  obtains t reports where "build_argument_graph p = Inr (dr_graph r)" "choose_tier p ctx = Inr t"
    "role_reports_for rep (fi_reports ids) rt p (dr_graph r) ctx t = Inr (reports, dr_packet r)"
    "synthesize_decision (dr_packet r) reports t (fi_decision ids) = Inr (dr_decision r)"
    "da_role_reports (dr_artifact r) = reports" "da_decision (dr_artifact r) = dr_decision r"
    "tier_path (dr_decision r) = t"
proof -
  from assms obtain g t reports p' d where parts: "build_argument_graph p = Inr g" "choose_tier p ctx = Inr t"
    "role_reports_for rep (fi_reports ids) rt p g ctx t = Inr (reports, p')"
    "synthesize_decision p' reports t (fi_decision ids) = Inr d"
    and r: "dr_decision r = d" "dr_graph r = g" "dr_packet r = p'" "da_role_reports (dr_artifact r) = reports"
      "da_decision (dr_artifact r) = d"
    by (auto simp: decide_def bind_res_eq_Inr)
  have "tier_path d = t"
    using parts(4) by (cases "t = Tier0") (auto simp: synthesize_tier0 elim!: synthesize_other)
  with parts r that show ?thesis by simp
qed

lemma role_reports_packet:
  "role_reports_for rep uuids rt p g ctx t = Inr (reports, p') \<Longrightarrow> \<exists>u. p' = updated_packet p u"
  by (auto simp: role_reports_for_def ensemble_run_def Let_def bind_res_eq_Inr split: if_splits prod.splits
      intro: exI [of _ "no_update p"])

section \<open>Properties\<close>

text \<open>C1: A tier 0 session is ejected deterministically: neither the orchestrator nor its answer, nor even
  its failure, can influence the outcome, and no role report is filed.\<close>

theorem tier0_ignores_the_ensemble:
  assumes "evaluate rep rt ids st surface sid tenant event context session challenges = Inr (r, st')"
    and "tier_path (dr_decision r) = Tier0"
  shows "evaluate rep (rt\<lparr>er_orchestrate := orch\<rparr>) ids st surface sid tenant event context session challenges
      = Inr (r, st') \<and> state (dr_decision r) = EJECT \<and> al_reports st' = al_reports st"
proof -
  let ?ctx = "prepare_context rt sid session challenges context"
  obtain ev p where ev: "event = Some ev" "decide rep rt ids p ?ctx = Inr r" "st' = file_result rep r st"
    and p: "build_evidence_packet surface sid
          (py_str rep (resolve_tenant tenant session (session_context_of session context)))
          ev ?ctx (fi_packet ids) (fi_now ids) = Inr p"
    using assms(1) by (auto simp: engine_evaluate_Inr)
  obtain t reports where d: "choose_tier p ?ctx = Inr t"
    "role_reports_for rep (fi_reports ids) rt p (dr_graph r) ?ctx t = Inr (reports, dr_packet r)"
    "synthesize_decision (dr_packet r) reports t (fi_decision ids) = Inr (dr_decision r)"
    "da_role_reports (dr_artifact r) = reports" "tier_path (dr_decision r) = t"
    using ev(2) by (elim decide_Inr) blast
  have t: "t = Tier0" using d(5) assms(2) by simp
  then have reports: "reports = []" using d(2) by (simp add: role_reports_for_def)
  have same: "er_window (rt\<lparr>er_orchestrate := orch\<rparr>) = er_window rt"
    "er_identity_graph (rt\<lparr>er_orchestrate := orch\<rparr>) = er_identity_graph rt"
    by simp_all
  have ctx: "prepare_context (rt\<lparr>er_orchestrate := orch\<rparr>) sid session challenges context = ?ctx"
    unfolding prepare_context_def identity_context_def history_context_def same by (rule refl)
  have "decide rep (rt\<lparr>er_orchestrate := orch\<rparr>) ids p ?ctx = decide rep rt ids p ?ctx"
    using d(1) t by (simp add: decide_def role_reports_for_def)
  with ev p ctx
  have "evaluate rep (rt\<lparr>er_orchestrate := orch\<rparr>) ids st surface sid tenant event context session challenges = Inr (r, st')"
    by (simp add: engine_evaluate_Inr)
  moreover have "state (dr_decision r) = EJECT"
    using d(3) t by (simp add: synthesize_tier0 tier0_synth_def)
  ultimately show ?thesis using ev(3) d(4) reports by (simp add: file_result_logs)
qed

definition idle_runtime :: ensemble_runtime where
  "idle_runtime = \<lparr>er_window = (\<lambda>sid n. []), er_identity_graph = None,
     er_orchestrate = (\<lambda>p g s. Inl (ValueError ''unavailable'')), er_mode = ''full'', er_degraded_reason = None\<rparr>"

definition some_ids :: fresh_ids where
  "some_ids = \<lparr>fi_packet = ''p'', fi_reports = (\<lambda>_. ''r''), fi_decision = ''d'', fi_now = ''now''\<rparr>"

definition empty_log :: artifact_log where
  "empty_log = \<lparr>al_packets = [], al_graphs = [], al_reports = [], al_decisions = [], al_dist = Some []\<rparr>"

definition bot_context :: dict where
  "bot_context = [(''known_automation_fingerprint'', PBool True)]"

lemma bot_is_ejected:
  "\<exists>r st'. evaluate (\<lambda>_. []) idle_runtime some_ids empty_log ''web'' ''s1'' None (Some []) bot_context [] [] = Inr (r, st') \<and>
     tier_path (dr_decision r) = Tier0"
proof -
  have ctx: "prepare_context idle_runtime ''s1'' [] [] bot_context =
      [(''known_automation_fingerprint'', PBool True), (''session_history'', PList [])]"
    by (simp add: prepare_context_def idle_runtime_def bot_context_def session_context_of_def
        resolve_challenge_def history_context_def identity_context_def dhas_def)
  have "case build_evidence_packet ''web'' ''s1'' ''default'' []
      [(''known_automation_fingerprint'', PBool True), (''session_history'', PList [])] ''p'' ''now'' of
      Inl _ \<Rightarrow> False
    | Inr p \<Rightarrow> truthy (dget (behavioral_features p) ''known_automation_fingerprint'') \<and>
        challenge_data p = [] \<and> risk_context p = []"
    by code_simp
  then obtain p where p: "build_evidence_packet ''web'' ''s1'' ''default'' []
      [(''known_automation_fingerprint'', PBool True), (''session_history'', PList [])] ''p'' ''now'' = Inr p"
    and fp: "truthy (dget (behavioral_features p) ''known_automation_fingerprint'')"
    and ch: "challenge_data p = []" and th: "risk_context p = []"
    by (auto split: sum.splits)
  have tier: "choose_tier p ctx = Inr Tier0" for ctx
    using fp by (simp add: choose_tier_def tier0_marker_def th dget_default_def py_set_def)
  obtain g where g: "build_argument_graph p = Inr g"
    by (simp add: build_argument_graph_def challenge_refs_def ch dget_def Let_def)
  have "decide (\<lambda>_. []) idle_runtime some_ids p ctx \<noteq> Inl e" for ctx e
    by (simp add: decide_def g tier role_reports_for_def synthesize_decision_def Let_def)
  then obtain r where r: "decide (\<lambda>_. []) idle_runtime some_ids p
      [(''known_automation_fingerprint'', PBool True), (''session_history'', PList [])] = Inr r"
    by (metis sumE)
  have "tier_path (dr_decision r) = Tier0"
    using r by (elim decide_Inr) (simp add: tier)
  moreover have "py_str (\<lambda>_. []) (resolve_tenant None [] (session_context_of [] bot_context)) = ''default''"
    by (simp add: resolve_tenant_def py_or_def session_context_of_def bot_context_def dget_def)
  ultimately show ?thesis
    using p r by (simp add: engine_evaluate_Inr ctx) (simp add: some_ids_def)
qed

theorem tier0_ignores_the_ensemble_witness:
  "\<exists>r st'. evaluate (\<lambda>_. []) (idle_runtime\<lparr>er_orchestrate := (\<lambda>p g s. Inr (PNone, no_update p))\<rparr>) some_ids empty_log ''web'' ''s1''
      None (Some []) bot_context [] [] = Inr (r, st') \<and> state (dr_decision r) = EJECT"
  using bot_is_ejected tier0_ignores_the_ensemble by blast

text \<open>A successful evaluation files its packet, graph, reports and decision at the end of the four logs
  and nothing else; the filed decision is the returned one and refers to the filed packet.\<close>

theorem evaluation_is_filed:
  assumes "evaluate rep rt ids st surface sid tenant event context session challenges = Inr (r, st')"
  shows "al_packets st' = al_packets st @ [dr_packet r] \<and> al_graphs st' = al_graphs st @ [dr_graph r] \<and>
    al_decisions st' = al_decisions st @ [dr_artifact r] \<and> da_decision (dr_artifact r) = dr_decision r \<and>
    evidence_packet_id (dr_decision r) = packet_id (dr_packet r) \<and>
    packet_id (dr_packet r) = fi_packet ids \<and> do_session_id (dr_decision r) = sid \<and>
    (\<exists>reports. al_reports st' = al_reports st @ reports \<and>
       role_report_ids (dr_decision r) = filter truthy (map (\<lambda>x. dget x ''report_id'') reports))"
proof -
  obtain ev p where d: "decide rep rt ids p (prepare_context rt sid session challenges context) = Inr r"
    and st': "st' = file_result rep r st" and p: "packet_id p = fi_packet ids" "ep_session_id p = sid"
    using assms unfolding engine_evaluate_Inr by (blast elim: build_packet_Inr)
  obtain t reports where s: "synthesize_decision (dr_packet r) (da_role_reports (dr_artifact r)) t (fi_decision ids) = Inr (dr_decision r)"
    and r: "da_decision (dr_artifact r) = dr_decision r"
    and f: "role_reports_for rep (fi_reports ids) rt p (dr_graph r) (prepare_context rt sid session challenges context) t = Inr (reports, dr_packet r)"
    using d by (elim decide_Inr) blast
  obtain u where u: "dr_packet r = updated_packet p u" using role_reports_packet [OF f] by blast
  obtain s h b where "dr_decision r = decision_of (dr_packet r) (da_role_reports (dr_artifact r)) t (fi_decision ids) s h b"
  proof (cases "t = Tier0")
    case True
    with s that show ?thesis by (simp add: synthesize_tier0)
  next
    case False
    from False s show ?thesis by (rule synthesize_other) (rule that)
  qed
  then show ?thesis
    using p r by (simp add: st' file_result_logs decision_of_def u)
qed

theorem evaluation_is_filed_witness:
  "\<exists>r st'. evaluate (\<lambda>_. []) idle_runtime some_ids empty_log ''web'' ''s1'' None (Some []) bot_context [] [] = Inr (r, st') \<and>
     al_decisions st' = [dr_artifact r]"
proof -
  obtain r st' where ok: "evaluate (\<lambda>_. []) idle_runtime some_ids empty_log ''web'' ''s1'' None (Some []) bot_context [] []
      = Inr (r, st')"
    using bot_is_ejected by blast
  from evaluation_is_filed [OF ok] ok show ?thesis by (auto simp: empty_log_def)
qed

text \<open>An event decides the automation-fingerprint flag of its own packet: unless the server's
  behavioral features carry the flag, a value the event supplies replaces the one of the server's
  context, so an event that denies the fingerprint is not ejected for it.\<close>

theorem event_overrides_fingerprint:
  assumes "build_evidence_packet surface sid tenant event ctx uuid now = Inr p"
    and "dhas (merge_feature_sources event) ''known_automation_fingerprint''"
    and "\<not> dhas (to_dict (dget ctx ''behavioral_features'')) ''known_automation_fingerprint''"
  shows "dget (behavioral_features p) ''known_automation_fingerprint'' =
      dget (merge_feature_sources event) ''known_automation_fingerprint''"
proof -
  obtain b where b: "derive_behavioral_features event ctx = Inr b"
    and p: "\<exists>x y z. behavioral_features p = dsetdefault ''deterministic_policy_violation'' x
      (dsetdefault ''ai_mediation'' y (dsetdefault ''liveness'' z b))"
    using assms(1) by (rule build_packet_Inr) blast
  have "dhas b ''known_automation_fingerprint''" using derive_behavioral_Inr(3) [OF b] .
  then show ?thesis
    using p derive_behavioral_Inr(1) [OF b] assms(2,3) by (auto simp: dget_dsetdefault Let_def)
qed

theorem event_overrides_fingerprint_witness:
  "\<exists>p. build_evidence_packet ''web'' ''s1'' ''t1'' [(''signals'', PDict [(''known_automation_fingerprint'', PBool False)])]
     bot_context ''p'' ''now'' = Inr p \<and>
     dget (behavioral_features p) ''known_automation_fingerprint'' = PBool False"
proof -
  let ?ev = "[(''signals'', PDict [(''known_automation_fingerprint'', PBool False)])]"
  have "\<not> isl (build_evidence_packet ''web'' ''s1'' ''t1'' ?ev bot_context ''p'' ''now'')"
    by code_simp
  then obtain p where p: "build_evidence_packet ''web'' ''s1'' ''t1'' ?ev bot_context ''p'' ''now'' = Inr p"
    by (auto simp: isl_def) (metis sumE)
  have "dhas (merge_feature_sources ?ev) ''known_automation_fingerprint''"
    "\<not> dhas (to_dict (dget bot_context ''behavioral_features'')) ''known_automation_fingerprint''"
    "dget (merge_feature_sources ?ev) ''known_automation_fingerprint'' = PBool False"
    by (simp_all add: merge_feature_sources_def dget_def dhas_def bot_context_def)
  with event_overrides_fingerprint [OF p] p show ?thesis by simp
qed

end
