(* ===== verification/Identity.thy ===== *)
theory Identity
  imports Conversions
begin

text \<open>
  The identity graph, \<open>truepresence/memory/identity_graph.py\<close>: sessions under a pseudonymous hash, their
  feature vectors, an undirected similarity graph, the depth-first cluster search and the cluster
  risk. The keyed hash is the argument \<open>hash\<close>; the Euclidean norm of the array library is the argument
  \<open>nrm\<close>, of which nothing is assumed. Python sets are duplicate-free lists; their iteration order,
  which Python leaves open, is the order of insertion here and no property depends on it.
\<close>

section \<open>State and feature extraction\<close>

record identity_graph =
  ig_sessions :: "(string \<times> dict) list"
  ig_graph :: "(string \<times> string list) list"
  ig_features :: "(string \<times> rat list) list"

definition empty_identity :: identity_graph where
  "empty_identity = \<lparr>ig_sessions = [], ig_graph = [], ig_features = []\<rparr>"

definition normalize_feature :: "pv \<Rightarrow> rat" where
  "normalize_feature v = (case num_of v of
      None \<Rightarrow> 0.5
    | Some x \<Rightarrow> if x > 1000 then min (x / 10000) 1 else min (max x 0) 1)"

definition extract_features :: "dict \<Rightarrow> rat list res" where
  "extract_features session =
     (let duration = dget_default session ''duration'' (PInt 0);
          event_count = dget_default session ''event_count'' (PInt 0);
          avg_interval = dget_default session ''avg_interval'' (PFloat 1);
          behavior = dget_default session ''behavior'' (PDict []);
          detection = dget_default session ''detection'' (PDict [])
      in bind_res (py_get behavior ''mouse_variance'' (PFloat 0.5)) (\<lambda>mouse_variance.
         bind_res (py_get behavior ''typing_speed'' (PFloat 0.5)) (\<lambda>typing_speed.
         bind_res (py_get behavior ''timing_consistency'' (PFloat 0.5)) (\<lambda>timing_consistency.
         bind_res (py_get detection ''human_probability'' (PFloat 0.5)) (\<lambda>human_prob.
         bind_res (py_get detection ''confidence'' (PFloat 0.5)) (\<lambda>conf.
           Inr (map normalize_feature
             [duration, event_count, avg_interval, mouse_variance, typing_speed, timing_consistency,
              human_prob, conf])))))))"

definition dot :: "rat list \<Rightarrow> rat list \<Rightarrow> rat" where
  "dot v w = sum_list (map2 (*) v w)"

definition cosine_similarity :: "(rat list \<Rightarrow> rat) \<Rightarrow> rat list \<Rightarrow> rat list \<Rightarrow> rat" where
  "cosine_similarity nrm v w =
     (if v = [] \<or> w = [] then 0
      else let n1 = nrm v; n2 = nrm w in
           if n1 = 0 \<or> n2 = 0 then 0 else dot v w / (n1 * n2))"

section \<open>Adding a session\<close>

definition neighbours :: "(string \<times> string list) list \<Rightarrow> string \<Rightarrow> string list" where
  "neighbours g s = (case map_of g s of None \<Rightarrow> [] | Some ns \<Rightarrow> ns)"

text \<open>\<open>graph[a].add(b)\<close> on a \<open>defaultdict(set)\<close>.\<close>

definition add_edge :: "string \<Rightarrow> string \<Rightarrow> (string \<times> string list) list \<Rightarrow> (string \<times> string list) list" where
  "add_edge a b g = dset a (if b \<in> set (neighbours g a) then neighbours g a else neighbours g a @ [b]) g"

fun connect_all ::
    "(rat list \<Rightarrow> rat) \<Rightarrow> rat \<Rightarrow> string \<Rightarrow> rat list \<Rightarrow> (string \<times> rat list) list \<Rightarrow>
     (string \<times> string list) list \<Rightarrow> (string \<times> string list) list" where
  "connect_all nrm threshold s target [] g = g"
| "connect_all nrm threshold s target ((e, fs) # rest) g =
     connect_all nrm threshold s target rest
       (if e = s then g
        else if cosine_similarity nrm target fs \<ge> threshold then add_edge e s (add_edge s e g)
        else g)"

definition build_connections :: "(rat list \<Rightarrow> rat) \<Rightarrow> rat \<Rightarrow> string \<Rightarrow> identity_graph \<Rightarrow> identity_graph" where
  "build_connections nrm threshold s ig =
     (case map_of (ig_features ig) s of None \<Rightarrow> ig
      | Some target \<Rightarrow>
          ig\<lparr>ig_graph := connect_all nrm threshold s target (ig_features ig) (ig_graph ig)\<rparr>)"

text \<open>The session is recorded before its features are extracted, so a failure leaves it recorded.\<close>

definition add_session ::
    "(string \<Rightarrow> string) \<Rightarrow> (rat list \<Rightarrow> rat) \<Rightarrow> rat \<Rightarrow> string \<Rightarrow> dict \<Rightarrow> identity_graph \<Rightarrow>
     unit res \<times> identity_graph" where
  "add_session hash nrm threshold sid session ig =
     (let h = hash sid;
          ig1 = ig\<lparr>ig_sessions := dset h session (ig_sessions ig)\<rparr>
      in case extract_features session of
           Inl e \<Rightarrow> (Inl e, ig1)
         | Inr fs \<Rightarrow>
             (Inr (), build_connections nrm threshold h (ig1\<lparr>ig_features := dset h fs (ig_features ig1)\<rparr>)))"

definition get_connected_sessions :: "(string \<Rightarrow> string) \<Rightarrow> identity_graph \<Rightarrow> string \<Rightarrow> string list" where
  "get_connected_sessions hash ig sid = neighbours (ig_graph ig) (hash sid)"

definition get_session_info :: "(string \<Rightarrow> string) \<Rightarrow> identity_graph \<Rightarrow> string \<Rightarrow> dict option" where
  "get_session_info hash ig sid = map_of (ig_sessions ig) (hash sid)"

section \<open>Clusters\<close>

text \<open>The work list: the head is the top of the stack.\<close>

function explore :: "(string \<times> string list) list \<Rightarrow> string list \<Rightarrow> string list \<Rightarrow> string list" where
  "explore g [] visited = visited"
| "explore g (c # stack) visited =
     (if c \<in> set visited then explore g stack visited
      else explore g (rev (filter (\<lambda>n. n \<notin> set (visited @ [c])) (neighbours g c)) @ stack) (visited @ [c]))"
  by pat_completeness auto

termination
proof (relation "measures [\<lambda>(g, stack, visited). card (set (map fst g) - set visited), \<lambda>(g, stack, visited). length stack]",
       goal_cases)
  case (3 g c stack visited)
  show ?case
  proof (cases "c \<in> set (map fst g)")
    case True
    then have "set (map fst g) - set (visited @ [c]) \<subset> set (map fst g) - set visited" using 3 by auto
    then have "card (set (map fst g) - set (visited @ [c])) < card (set (map fst g) - set visited)"
      by (intro psubset_card_mono) auto
    then show ?thesis by simp
  next
    case False
    then have "set (map fst g) - set (visited @ [c]) = set (map fst g) - set visited" by auto
    moreover have "neighbours g c = []"
      using False by (simp add: neighbours_def map_of_eq_None_iff [THEN iffD2])
    ultimately show ?thesis by simp
  qed
qed auto

definition get_session_cluster :: "(string \<Rightarrow> string) \<Rightarrow> identity_graph \<Rightarrow> string \<Rightarrow> string list" where
  "get_session_cluster hash ig sid = explore (ig_graph ig) [hash sid] []"

section \<open>Cluster risk\<close>

text \<open>One session's contribution: its weighted risk and whether it counts as a bot.\<close>

definition session_contribution :: "dict \<Rightarrow> (rat \<times> bool) res" where
  "session_contribution session =
     bind_res (py_get (dget_default session ''detection'' (PDict [])) ''bot_probability'' (PFloat 0.5)) (\<lambda>b.
     bind_res (py_get (dget_default session ''detection'' (PDict [])) ''confidence'' (PFloat 0.5)) (\<lambda>c.
       (case (num_of b, num_of c) of
          (Some bot_prob, Some conf) \<Rightarrow> Inr (bot_prob * conf, bot_prob > 0.7)
        | _ \<Rightarrow> Inl (TypeError ''unsupported operand types''))))"

definition cluster_contribution :: "identity_graph \<Rightarrow> string \<Rightarrow> (rat \<times> bool) res" where
  "cluster_contribution ig h = (case map_of (ig_sessions ig) h of
      None \<Rightarrow> Inl (KeyError h)
    | Some session \<Rightarrow> session_contribution session)"

definition cluster_risk_of :: "(rat \<times> bool) list \<Rightarrow> rat" where
  "cluster_risk_of contributions =
     (let total_risk = sum_list (map fst contributions);
          bot_count = length (filter snd contributions);
          cluster_size = length contributions;
          avg_risk = total_risk / of_nat cluster_size
      in if bot_count > 1
         then min (avg_risk + min (of_nat bot_count / of_nat cluster_size) 0.8) 1
         else avg_risk)"

definition get_session_risk :: "(string \<Rightarrow> string) \<Rightarrow> identity_graph \<Rightarrow> string \<Rightarrow> rat res" where
  "get_session_risk hash ig sid =
     (if map_of (ig_sessions ig) (hash sid) = None then Inr 0.5
      else let cluster = get_session_cluster hash ig sid in
           if cluster = [] then Inr 0.5
           else bind_res (map_res (cluster_contribution ig) cluster) (\<lambda>cs. Inr (cluster_risk_of cs)))"

section \<open>The invariant of the graph\<close>

definition edge_rel :: "(string \<times> string list) list \<Rightarrow> (string \<times> string) set" where
  "edge_rel g = {(a, b). b \<in> set (neighbours g a)}"

text \<open>Symmetric, without self loops, and every endpoint is a recorded session.\<close>

definition graph_ok :: "(string \<times> string) set \<Rightarrow> string set \<Rightarrow> string set \<Rightarrow> bool" where
  "graph_ok E D F \<longleftrightarrow> sym E \<and> irrefl E \<and> E \<subseteq> D \<times> D \<and> F \<subseteq> D"

definition identity_ok :: "identity_graph \<Rightarrow> bool" where
  "identity_ok ig = graph_ok (edge_rel (ig_graph ig)) (dom (map_of (ig_sessions ig))) (dom (map_of (ig_features ig)))"

lemma graph_ok_insert: "graph_ok E D F \<Longrightarrow> graph_ok E (insert h D) F"
  by (auto simp: graph_ok_def)

lemma graph_ok_star:
  "graph_ok E D F \<Longrightarrow> h \<in> D \<Longrightarrow> S \<subseteq> insert h F \<Longrightarrow> h \<notin> S \<Longrightarrow>
     graph_ok (E \<union> ({h} \<times> S \<union> S \<times> {h})) D (insert h F)"
  by (auto simp: graph_ok_def sym_def irrefl_def)

lemma neighbours_add_edge:
  "set (neighbours (add_edge a b g) c) = (if c = a then insert b (set (neighbours g a)) else set (neighbours g c))"
  by (auto simp: add_edge_def neighbours_def)

lemma edge_rel_add_edge: "edge_rel (add_edge a b g) = insert (a, b) (edge_rel g)"
  by (auto simp: edge_rel_def neighbours_add_edge split: if_splits)

lemma connect_all_edges:
  "edge_rel (connect_all nrm threshold s target kvs g) =
     edge_rel g \<union>
     (let similar = {e. \<exists>fs. (e, fs) \<in> set kvs \<and> e \<noteq> s \<and> cosine_similarity nrm target fs \<ge> threshold}
      in {s} \<times> similar \<union> similar \<times> {s})"
proof (induction kvs arbitrary: g)
  case (Cons kv kvs)
  then show ?case by (cases kv) (auto simp: edge_rel_add_edge Let_def)
qed simp

lemma identity_ok_empty: "identity_ok empty_identity"
  by (auto simp: identity_ok_def graph_ok_def empty_identity_def edge_rel_def neighbours_def sym_def irrefl_def)

lemma dom_dset: "dom (map_of (dset k v d)) = insert k (dom (map_of d))"
  by (auto split: if_splits)

lemma add_session_Inl:
  "extract_features session = Inl e \<Longrightarrow> add_session hash nrm threshold sid session ig =
     (Inl e, ig\<lparr>ig_sessions := dset (hash sid) session (ig_sessions ig)\<rparr>)"
  by (simp add: add_session_def Let_def)

lemma add_session_Inr:
  "extract_features session = Inr fs \<Longrightarrow> add_session hash nrm threshold sid session ig =
     (Inr (), ig\<lparr>ig_sessions := dset (hash sid) session (ig_sessions ig),
                ig_features := dset (hash sid) fs (ig_features ig),
                ig_graph := connect_all nrm threshold (hash sid) fs (dset (hash sid) fs (ig_features ig)) (ig_graph ig)\<rparr>)"
  by (simp add: add_session_def build_connections_def Let_def)

lemma identity_ok_add_session:
  assumes "identity_ok ig"
  shows "identity_ok (snd (add_session hash nrm threshold sid session ig))"
proof (cases "extract_features session")
  case (Inl e)
  then show ?thesis
    using assms by (simp add: add_session_Inl identity_ok_def dom_dset graph_ok_insert del: map_of_dset)
next
  case (Inr fs)
  let ?h = "hash sid"
  let ?fts = "dset ?h fs (ig_features ig)"
  let ?similar = "{e. \<exists>gs. (e, gs) \<in> set ?fts \<and> e \<noteq> ?h \<and> cosine_similarity nrm fs gs \<ge> threshold}"
  have "?similar \<subseteq> dom (map_of ?fts)"
    unfolding dom_map_of_conv_image_fst by force
  then have "?similar \<subseteq> insert ?h (dom (map_of (ig_features ig)))"
    unfolding dom_dset .
  moreover have "edge_rel (connect_all nrm threshold ?h fs ?fts (ig_graph ig)) =
      edge_rel (ig_graph ig) \<union> ({?h} \<times> ?similar \<union> ?similar \<times> {?h})"
    by (simp add: connect_all_edges Let_def)
  moreover have "graph_ok (edge_rel (ig_graph ig)) (insert ?h (dom (map_of (ig_sessions ig)))) (dom (map_of (ig_features ig)))"
    using assms by (simp add: identity_ok_def graph_ok_insert)
  ultimately have "graph_ok (edge_rel (connect_all nrm threshold ?h fs ?fts (ig_graph ig)))
      (insert ?h (dom (map_of (ig_sessions ig)))) (insert ?h (dom (map_of (ig_features ig))))"
    by (simp only:) (rule graph_ok_star, auto)
  then show ?thesis
    using Inr by (simp add: add_session_Inr identity_ok_def dom_dset del: map_of_dset)
qed

section \<open>The cluster is the connected component\<close>

lemma edge_rel_iff: "(a, b) \<in> edge_rel g \<longleftrightarrow> b \<in> set (neighbours g a)"
  by (simp add: edge_rel_def)

text \<open>What the search keeps: it explores what it finds, and every edge out of a visited node leads to a
  visited or a pending one.\<close>

lemma explore_mono: "set visited \<subseteq> set (explore g stack visited)"
  by (induction g stack visited rule: explore.induct) auto

lemma explore_stack: "set stack \<subseteq> set (explore g stack visited)"
proof (induction g stack visited rule: explore.induct)
  case (2 g c stack visited)
  then show ?case using explore_mono [of "visited @ [c]" g] explore_mono [of visited g stack] by auto
qed simp

lemma explore_closed:
  "(\<And>a b. a \<in> set visited \<Longrightarrow> (a, b) \<in> edge_rel g \<Longrightarrow> b \<in> set visited \<union> set stack) \<Longrightarrow>
     a \<in> set (explore g stack visited) \<Longrightarrow> (a, b) \<in> edge_rel g \<Longrightarrow> b \<in> set (explore g stack visited)"
proof (induction g stack visited rule: explore.induct)
  case (2 g c stack visited)
  show ?case
  proof (cases "c \<in> set visited")
    case True
    with 2 show ?thesis by fastforce
  next
    case False
    have "b' \<in> set (visited @ [c]) \<union> set (rev (filter (\<lambda>n. n \<notin> set (visited @ [c])) (neighbours g c)) @ stack)"
      if "a' \<in> set (visited @ [c])" "(a', b') \<in> edge_rel g" for a' b'
      using that 2(3) [of a' b'] by (auto simp: edge_rel_iff)
    with 2 False show ?thesis by simp
  qed
qed auto

lemma explore_sound:
  "set (explore g stack visited) \<subseteq> set visited \<union> (edge_rel g)\<^sup>* `` set stack"
proof (induction g stack visited rule: explore.induct)
  case (2 g c stack visited)
  have step: "(edge_rel g)\<^sup>* `` set (neighbours g c) \<subseteq> (edge_rel g)\<^sup>* `` {c}"
    by (auto simp: edge_rel_iff [symmetric] intro: converse_rtrancl_into_rtrancl)
  show ?case
  proof (cases "c \<in> set visited")
    case True
    with 2 show ?thesis by auto
  next
    case False
    with 2 have "set (explore g (c # stack) visited) \<subseteq> set visited \<union> {c} \<union> (edge_rel g)\<^sup>* `` (set (neighbours g c) \<union> set stack)"
      by fastforce
    then show ?thesis using step by fastforce
  qed
qed simp

lemma explore_distinct: "distinct visited \<Longrightarrow> distinct (explore g stack visited)"
  by (induction g stack visited rule: explore.induct) auto

lemma cluster_is_component:
  "set (get_session_cluster hash ig sid) = (edge_rel (ig_graph ig))\<^sup>* `` {hash sid}"
proof
  show "set (get_session_cluster hash ig sid) \<subseteq> (edge_rel (ig_graph ig))\<^sup>* `` {hash sid}"
    using explore_sound [of "ig_graph ig" "[hash sid]" "[]"] by (simp add: get_session_cluster_def)
  have "b \<in> set (get_session_cluster hash ig sid)" if "(hash sid, b) \<in> (edge_rel (ig_graph ig))\<^sup>*" for b
    using that
  proof (induction rule: rtrancl_induct)
    case base
    show ?case
      unfolding get_session_cluster_def using explore_stack [of "[hash sid]" "ig_graph ig" "[]"]
      by (simp only: list.set insert_subset)
  next
    case (step b c)
    then show ?case
      unfolding get_session_cluster_def by (intro explore_closed [of "[]" "ig_graph ig" _ b c]) simp_all
  qed
  then show "(edge_rel (ig_graph ig))\<^sup>* `` {hash sid} \<subseteq> set (get_session_cluster hash ig sid)" by auto
qed

section \<open>Every graph the program can build\<close>

fun add_sessions ::
    "(string \<Rightarrow> string) \<Rightarrow> (rat list \<Rightarrow> rat) \<Rightarrow> rat \<Rightarrow> (string \<times> dict) list \<Rightarrow> identity_graph \<Rightarrow> identity_graph" where
  "add_sessions hash nrm threshold [] ig = ig"
| "add_sessions hash nrm threshold ((sid, d) # xs) ig =
     add_sessions hash nrm threshold xs (snd (add_session hash nrm threshold sid d ig))"

lemma identity_ok_add_sessions: "identity_ok ig \<Longrightarrow> identity_ok (add_sessions hash nrm threshold xs ig)"
  by (induction hash nrm threshold xs ig rule: add_sessions.induct) (auto intro: identity_ok_add_session)

lemma sessions_add_session: "ig_sessions (snd (add_session hash nrm threshold sid d ig)) = dset (hash sid) d (ig_sessions ig)"
  by (cases "extract_features d") (simp_all add: add_session_Inl add_session_Inr)

lemma sessions_from:
  "map_of (ig_sessions (add_sessions hash nrm threshold xs ig)) h = Some d \<Longrightarrow>
     d \<in> snd ` set xs \<or> map_of (ig_sessions ig) h = Some d"
  by (induction hash nrm threshold xs ig rule: add_sessions.induct)
    (fastforce simp: sessions_add_session split: if_splits)+

lemma component_in_sessions:
  assumes "identity_ok ig" and "map_of (ig_sessions ig) h \<noteq> None" and "(h, k) \<in> (edge_rel (ig_graph ig))\<^sup>*"
  shows "map_of (ig_sessions ig) k \<noteq> None"
  using assms(3,1,2) by (induction rule: rtrancl_induct) (auto simp: identity_ok_def graph_ok_def)

lemma sym_component:
  "sym E \<Longrightarrow> (a, b) \<in> E\<^sup>* \<Longrightarrow> E\<^sup>* `` {b} = E\<^sup>* `` {a}"
  by (auto dest: sym_rtrancl [THEN symD] intro: rtrancl_trans)

lemma map_res_all:
  "(\<And>x. x \<in> set xs \<Longrightarrow> \<exists>y. f x = Inr y \<and> P y) \<Longrightarrow> \<exists>ys. map_res f xs = Inr ys \<and> list_all P ys \<and> length ys = length xs"
proof (induction xs)
  case (Cons x xs)
  then obtain y ys where "f x = Inr y" "P y" "map_res f xs = Inr ys" "list_all P ys" "length ys = length xs"
    by fastforce
  then show ?case by auto
qed simp

lemma sum_list_unit: "list_all in_unit xs \<Longrightarrow> 0 \<le> sum_list xs \<and> sum_list xs \<le> of_nat (length xs)"
  by (induction xs) (auto simp: in_unit_def)

lemma in_unit_cluster_risk:
  assumes "list_all (\<lambda>c. in_unit (fst c)) cs" and "cs \<noteq> []"
  shows "in_unit (cluster_risk_of cs)"
proof -
  have s: "0 \<le> sum_list (map fst cs)" "sum_list (map fst cs) \<le> of_nat (length cs)"
    using sum_list_unit [of "map fst cs"] assms(1) by (simp_all add: list_all_iff)
  have n: "0 < (of_nat (length cs) :: rat)" using assms(2) by simp
  have avg: "in_unit (sum_list (map fst cs) / of_nat (length cs))"
    using s n by (simp add: in_unit_def divide_le_eq)
  have "0 \<le> min (of_nat (length (filter snd cs)) / of_nat (length cs)) (0.8::rat)" using n by simp
  then show ?thesis
    using avg by (auto simp: cluster_risk_of_def Let_def in_unit_def simp del: of_nat_0_le_iff)
qed

lemma session_risk_usable:
  assumes "ig = add_sessions hash nrm threshold xs empty_identity"
    and "\<And>s d. (s, d) \<in> set xs \<Longrightarrow> \<exists>x bot. session_contribution d = Inr (x, bot) \<and> in_unit x"
  shows "\<exists>r. get_session_risk hash ig sid = Inr r \<and> in_unit r"
proof (cases "map_of (ig_sessions ig) (hash sid)")
  case None
  then show ?thesis by (intro exI [of _ "0.5"]) (simp add: get_session_risk_def in_unit_def)
next
  case (Some d0)
  have ok: "identity_ok ig"
    unfolding assms(1) by (intro identity_ok_add_sessions identity_ok_empty)
  let ?cluster = "get_session_cluster hash ig sid"
  have "\<exists>c. cluster_contribution ig h = Inr c \<and> in_unit (fst c)" if "h \<in> set ?cluster" for h
  proof -
    have "map_of (ig_sessions ig) h \<noteq> None"
      by (rule component_in_sessions [OF ok, of "hash sid"]) (use that Some in \<open>auto simp: cluster_is_component\<close>)
    then obtain d where d: "map_of (ig_sessions ig) h = Some d" by auto
    have "d \<in> snd ` set xs"
      using sessions_from [OF d [unfolded assms(1)]] by (auto simp: empty_identity_def)
    then obtain x bot where "session_contribution d = Inr (x, bot)" "in_unit x"
      using assms(2) by force
    with d show ?thesis by (simp add: cluster_contribution_def)
  qed
  then obtain cs where cs: "map_res (cluster_contribution ig) ?cluster = Inr cs"
    "list_all (\<lambda>c. in_unit (fst c)) cs" "length cs = length ?cluster"
    using map_res_all [of ?cluster "cluster_contribution ig" "\<lambda>c. in_unit (fst c)"] by blast
  have "hash sid \<in> set ?cluster" by (simp add: cluster_is_component)
  then have "?cluster \<noteq> []" "cs \<noteq> []" using cs(3) by auto
  then show ?thesis
    using cs Some in_unit_cluster_risk by (auto simp: get_session_risk_def Let_def)
qed

section \<open>Properties\<close>

text \<open>However sessions are added, re-added or rejected halfway for malformed data, the similarity
  graph stays undirected, has no self loop, and only ever connects recorded sessions.\<close>

theorem identity_graph_undirected:
  "let ig = add_sessions hash nrm threshold xs empty_identity; g = ig_graph ig in
   (b \<in> set (neighbours g a)) = (a \<in> set (neighbours g b)) \<and> a \<notin> set (neighbours g a) \<and>
   set (neighbours g a) \<subseteq> dom (map_of (ig_sessions ig))"
proof -
  have "identity_ok (add_sessions hash nrm threshold xs empty_identity)"
    by (intro identity_ok_add_sessions identity_ok_empty)
  then show ?thesis
    unfolding identity_ok_def graph_ok_def Let_def edge_rel_iff [symmetric]
    by (auto simp: sym_def irrefl_def edge_rel_iff [symmetric])
qed

text \<open>C4: The cluster search terminates with exactly the sessions that are transitively connected to the
  start, each once, and any two sessions of one cluster have the same cluster.\<close>

theorem cluster_is_equivalence_class:
  assumes "ig = add_sessions hash nrm threshold xs empty_identity"
  shows "set (get_session_cluster hash ig s) = (edge_rel (ig_graph ig))\<^sup>* `` {hash s} \<and>
    distinct (get_session_cluster hash ig s) \<and>
    (hash t \<in> set (get_session_cluster hash ig s) \<longrightarrow>
       set (get_session_cluster hash ig t) = set (get_session_cluster hash ig s))"
proof -
  have "sym (edge_rel (ig_graph ig))"
    using identity_ok_add_sessions [OF identity_ok_empty, of hash nrm threshold xs] assms
    by (simp add: identity_ok_def graph_ok_def)
  note comp = sym_component [OF this, of "hash s" "hash t"]
  have "distinct (get_session_cluster hash ig s)"
    by (simp only: get_session_cluster_def explore_distinct distinct.simps)
  then show ?thesis
    unfolding cluster_is_component using comp by blast
qed

definition sample_session :: dict where
  "sample_session = [(''detection'', PDict [(''bot_probability'', PFloat 0.9), (''confidence'', PFloat 0.8)])]"

theorem cluster_is_equivalence_class_witness:
  "distinct (get_session_cluster id
     (add_sessions id (\<lambda>v. 1) 0.75 [(''a'', sample_session), (''b'', sample_session)] empty_identity) ''a'')"
  using cluster_is_equivalence_class [OF refl, of id "\<lambda>v. 1" "0.75" "[(''a'', sample_session), (''b'', sample_session)]" "''a''"]
  by blast

text \<open>C40: The risk of a session never fails on a missing cluster member: if every session added so far
  has a usable detection section, its value is defined and lies in the unit interval, whatever the
  graph looks like.\<close>

theorem session_risk_total:
  assumes "ig = add_sessions hash nrm threshold xs empty_identity"
    and "\<And>s d. (s, d) \<in> set xs \<Longrightarrow> \<exists>x bot. session_contribution d = Inr (x, bot) \<and> in_unit x"
  shows "\<exists>r. get_session_risk hash ig sid = Inr r \<and> in_unit r"
  using assms by (rule session_risk_usable)

theorem session_risk_total_witness:
  "\<exists>r. get_session_risk id (add_sessions id (\<lambda>v. 1) 0.75 [(''a'', sample_session)] empty_identity) ''a'' = Inr r \<and>
     in_unit r"
proof (rule session_risk_total [OF refl])
  fix s d
  assume "(s, d) \<in> set [(''a'', sample_session)]"
  then show "\<exists>x bot. session_contribution d = Inr (x, bot) \<and> in_unit x"
    by (intro exI [of _ "0.72"] exI [of _ True])
      (simp add: session_contribution_def sample_session_def dget_default_def in_unit_def)
qed

end
