(* ===== verification/Session_Store.thy ===== *)
theory Session_Store
  imports Conversions
begin

text \<open>
  The two keepers of session events: the rolling timeline of \<open>truepresence/memory/session_timeline.py\<close>
  and the in-memory fallback of \<open>truepresence/runtime/distributed.py\<close> (the Redis client is a library
  and is not modelled: the definitions are the branches taken when it is unavailable). What both
  promise about an event log is the locale \<open>event_log\<close>; both are interpreted. The clock is an argument.
  Python hands out references to the stored dictionaries; the model returns their values.
\<close>

section \<open>The contract of an event log\<close>

text \<open>\<open>xs[-n:]\<close>.\<close>

definition py_last :: "int \<Rightarrow> 'a list \<Rightarrow> 'a list" where
  "py_last n xs =
     (if n > 0 then drop (length xs - nat n) xs
      else if n = 0 then xs
      else drop (nat (- n)) xs)"

locale event_log =
  fixes append :: "'s \<Rightarrow> string \<Rightarrow> 'e \<Rightarrow> 's"
    and events :: "'s \<Rightarrow> string \<Rightarrow> 'm list"
    and mark :: "'e \<Rightarrow> 'm"
    and trim :: "'m list \<Rightarrow> 'm list"
  assumes events_append: "events (append s k e) k' = (if k' = k then trim (events s k @ [mark e]) else events s k')"
    and trim_suffix: "suffix (trim xs) xs"
    and trim_trim: "trim (trim xs @ ys) = trim (xs @ ys)"
begin

fun append_all :: "'s \<Rightarrow> (string \<times> 'e) list \<Rightarrow> 's" where
  "append_all s [] = s"
| "append_all s ((k, e) # kes) = append_all (append s k e) kes"

definition written :: "string \<Rightarrow> (string \<times> 'e) list \<Rightarrow> 'm list" where
  "written k kes = map (mark \<circ> snd) (filter (\<lambda>(k', e). k' = k) kes)"

text \<open>The log of a key depends only on what was written to that key, in order; other keys interleaved
  with it do not matter.\<close>

lemma events_append_all:
  "trim (events s k) = events s k \<Longrightarrow> events (append_all s kes) k = trim (events s k @ written k kes)"
proof (induction s kes rule: append_all.induct)
  case (2 s k' e kes)
  have t: "trim (trim xs) = trim xs" for xs using trim_trim [of xs "[]"] by simp
  have "trim (events (append s k' e) k) = events (append s k' e) k"
    using 2(2) by (simp add: events_append t)
  with 2(1) have "events (append_all s ((k', e) # kes)) k = trim (events (append s k' e) k @ written k kes)"
    by simp
  then show ?case
    by (auto simp: events_append written_def trim_trim)
qed (simp add: written_def)

lemma events_suffix:
  "trim (events s k) = events s k \<Longrightarrow> suffix (events (append_all s kes) k) (events s k @ written k kes)"
  by (simp add: events_append_all trim_suffix)

end

section \<open>The session timeline\<close>

definition keep_last :: "nat \<Rightarrow> 'a list \<Rightarrow> 'a list" where
  "keep_last n xs = drop (length xs - n) xs"

record timeline =
  tl_maxlen :: nat
  tl_events :: "(string \<times> dict list) list"

definition timeline_events :: "timeline \<Rightarrow> string \<Rightarrow> dict list" where
  "timeline_events tm sid = (case map_of (tl_events tm) sid of None \<Rightarrow> [] | Some es \<Rightarrow> es)"

definition resolve_session_and_event ::
    "(pv \<Rightarrow> string) \<Rightarrow> pv \<Rightarrow> dict option \<Rightarrow> (string \<times> dict) res" where
  "resolve_session_and_event rep session_or_event event = (case event of
      Some e \<Rightarrow> Inr (py_str rep session_or_event, e)
    | None \<Rightarrow>
        (case session_or_event of
           PDict d \<Rightarrow> Inr (py_str rep (py_or (dget d ''session_id'') (PStr ''default'')), d)
         | _ \<Rightarrow> Inl (ValueError ''event is required when session_id is provided explicitly'')))"

definition stamp_ts :: "rat \<Rightarrow> dict \<Rightarrow> dict" where
  "stamp_ts now e = dsetdefault ''ts'' (PFloat now) e"

text \<open>Appending to a \<open>deque(maxlen=n)\<close> drops the oldest event when full.\<close>

definition timeline_append :: "rat \<Rightarrow> timeline \<Rightarrow> string \<Rightarrow> dict \<Rightarrow> timeline" where
  "timeline_append now tm sid e =
     tm\<lparr>tl_events := dset sid (keep_last (tl_maxlen tm) (timeline_events tm sid @ [stamp_ts now e])) (tl_events tm)\<rparr>"

definition add_event :: "(pv \<Rightarrow> string) \<Rightarrow> rat \<Rightarrow> pv \<Rightarrow> dict option \<Rightarrow> timeline \<Rightarrow> timeline res" where
  "add_event rep now session_or_event event tm =
     bind_res (resolve_session_and_event rep session_or_event event) (\<lambda>(sid, e).
       Inr (timeline_append now tm sid e))"

text \<open>Reading \<open>self._events[sid]\<close> creates an empty entry.\<close>

definition touch :: "string \<Rightarrow> timeline \<Rightarrow> timeline" where
  "touch sid tm = tm\<lparr>tl_events := dsetdefault sid [] (tl_events tm)\<rparr>"

definition window :: "timeline \<Rightarrow> string \<Rightarrow> int \<Rightarrow> dict list \<times> timeline" where
  "window tm sid limit = (py_last limit (timeline_events tm sid), touch sid tm)"

definition window_of :: "timeline \<Rightarrow> string + int \<Rightarrow> int option \<Rightarrow> dict list \<times> timeline" where
  "window_of tm session_or_count cnt = (case session_or_count of
      Inl sid \<Rightarrow> window tm sid (case cnt of None \<Rightarrow> 50 | Some c \<Rightarrow> c)
    | Inr limit \<Rightarrow> window tm ''default'' limit)"

fun intervals :: "dict list \<Rightarrow> rat list res" where
  "intervals (a # b # es) =
     (case (map_of a ''ts'', map_of b ''ts'') of
        (Some x, Some y) \<Rightarrow>
          (case (num_of x, num_of y) of
             (Some t1, Some t2) \<Rightarrow> bind_res (intervals (b # es)) (\<lambda>ds. Inr ((t2 - t1) # ds))
           | _ \<Rightarrow> Inl (TypeError ''unsupported operand types for -''))
      | _ \<Rightarrow> Inl (KeyError ''ts''))"
| "intervals _ = Inr []"

definition variance :: "rat list \<Rightarrow> rat" where
  "variance xs = (let mean = sum_list xs / of_nat (length xs) in
     sum_list (map (\<lambda>x. (x - mean) ^ 2) xs) / of_nat (length xs))"

definition drift :: "timeline \<Rightarrow> string \<Rightarrow> rat res \<times> timeline" where
  "drift tm sid =
     (bind_res (intervals (timeline_events tm sid)) (\<lambda>ds. Inr (if length ds < 2 then 0 else variance ds)),
      touch sid tm)"

definition clear_session :: "string \<Rightarrow> timeline \<Rightarrow> timeline" where
  "clear_session sid tm = tm\<lparr>tl_events := dpop sid (tl_events tm)\<rparr>"

definition clear_all :: "timeline \<Rightarrow> timeline" where
  "clear_all tm = tm\<lparr>tl_events := []\<rparr>"

definition timeline_len :: "timeline \<Rightarrow> nat" where
  "timeline_len tm = sum_list (map (length \<circ> snd) (tl_events tm))"

section \<open>The distributed runtime without Redis\<close>

datatype entry = SessionEntry dict | EventsEntry "dict list"

type_synonym memory_store = "(string \<times> entry) list"

definition session_key :: "string \<Rightarrow> string" where
  "session_key sid = ''truepresence:session:'' @ sid"

definition events_key :: "string \<Rightarrow> string" where
  "events_key sid = ''truepresence:events:'' @ sid"

definition store_session :: "rat \<Rightarrow> string \<Rightarrow> dict \<Rightarrow> memory_store \<Rightarrow> memory_store" where
  "store_session now sid data m =
     dset (session_key sid) (SessionEntry (dset ''updated_at'' (PFloat now) data)) m"

definition load_session :: "string \<Rightarrow> memory_store \<Rightarrow> dict option" where
  "load_session sid m = (case map_of m (session_key sid) of
      Some (SessionEntry d) \<Rightarrow> if d = [] then None else Some d
    | _ \<Rightarrow> None)"

definition stored_events :: "memory_store \<Rightarrow> string \<Rightarrow> dict list" where
  "stored_events m sid = (case map_of m (events_key sid) of Some (EventsEntry es) \<Rightarrow> es | _ \<Rightarrow> [])"

definition stamp_timestamp :: "rat \<Rightarrow> dict \<Rightarrow> dict" where
  "stamp_timestamp now e = dset ''timestamp'' (PFloat now) e"

definition append_event :: "rat \<Rightarrow> memory_store \<Rightarrow> string \<Rightarrow> dict \<Rightarrow> memory_store" where
  "append_event now m sid e =
     dset (events_key sid) (EventsEntry (stored_events m sid @ [stamp_timestamp now e])) m"

definition get_events :: "memory_store \<Rightarrow> string \<Rightarrow> int \<Rightarrow> dict list" where
  "get_events m sid limit = py_last limit (stored_events m sid)"

definition delete_session :: "string \<Rightarrow> memory_store \<Rightarrow> memory_store" where
  "delete_session sid m = dpop (events_key sid) (dpop (session_key sid) m)"

definition update_session_field ::
    "rat \<Rightarrow> string \<Rightarrow> string \<Rightarrow> pv \<Rightarrow> int option \<Rightarrow> memory_store \<Rightarrow> memory_store" where
  "update_session_field now sid field val ttl m =
     (let session = (case load_session sid m of None \<Rightarrow> [] | Some d \<Rightarrow> d);
          session = dset field val session
      in case ttl of
           Some _ \<Rightarrow> dset (session_key sid) (SessionEntry session) m
         | None \<Rightarrow> store_session now sid session m)"

definition get_session_count :: "memory_store \<Rightarrow> nat" where
  "get_session_count m = length (filter (\<lambda>(k, v). str_contains ''session:'' k) m)"

definition health_check :: "memory_store \<Rightarrow> dict" where
  "health_check m = [(''status'', PStr ''using_fallback''), (''redis_connected'', PBool False),
     (''active_sessions'', PInt (int (get_session_count m)))]"

section \<open>Both stores meet the contract\<close>

lemma suffix_keep_last: "suffix (keep_last n xs) xs"
  by (simp add: keep_last_def suffix_drop)

lemma length_keep_last: "length (keep_last n xs) = min n (length xs)"
  by (simp add: keep_last_def)

lemma keep_last_keep_last: "keep_last n (keep_last n xs @ ys) = keep_last n (xs @ ys)"
  by (simp add: keep_last_def) (cases "length xs \<le> n", auto simp: drop_append min_def add.commute)

lemma keys_differ [simp]: "session_key a \<noteq> events_key b" "events_key b \<noteq> session_key a"
  by (simp_all add: session_key_def events_key_def)

lemma key_inj [simp]: "session_key a = session_key b \<longleftrightarrow> a = b" "events_key a = events_key b \<longleftrightarrow> a = b"
  by (simp_all add: session_key_def events_key_def)

lemma timeline_events_append:
  "timeline_events (timeline_append now tm sid e) sid' =
     (if sid' = sid then keep_last (tl_maxlen tm) (timeline_events tm sid @ [stamp_ts now e]) else timeline_events tm sid')"
  by (simp add: timeline_append_def timeline_events_def)

text \<open>A timeline of a fixed capacity, which never changes; each event comes with the reading of the
  clock at which it is added.\<close>

definition sized_append :: "nat \<Rightarrow> timeline \<Rightarrow> string \<Rightarrow> rat \<times> dict \<Rightarrow> timeline" where
  "sized_append n tm sid te = timeline_append (fst te) (tm\<lparr>tl_maxlen := n\<rparr>) sid (snd te)"

definition add_stamp :: "rat \<times> dict \<Rightarrow> dict" where
  "add_stamp te = stamp_ts (fst te) (snd te)"

interpretation timeline_log:
  event_log "sized_append n" timeline_events add_stamp "keep_last n" for n
proof
  show "timeline_events (sized_append n s k e) k' =
      (if k' = k then keep_last n (timeline_events s k @ [add_stamp e]) else timeline_events s k')" for s k e k'
    using timeline_events_append [of "fst e" "s\<lparr>tl_maxlen := n\<rparr>" k "snd e" k']
    by (simp add: sized_append_def add_stamp_def timeline_events_def)
  show "suffix (keep_last n xs) xs" for xs :: "dict list" by (rule suffix_keep_last)
  show "keep_last n (keep_last n xs @ ys) = keep_last n (xs @ ys)" for xs ys :: "dict list"
    by (rule keep_last_keep_last)
qed

lemma stored_events_append:
  "stored_events (append_event now m sid e) sid' =
     (if sid' = sid then stored_events m sid @ [stamp_timestamp now e] else stored_events m sid')"
  by (simp add: append_event_def stored_events_def)

interpretation memory_log:
  event_log "\<lambda>m sid te. append_event (fst te) m sid (snd te)" stored_events
    "\<lambda>te. stamp_timestamp (fst te) (snd te)" "\<lambda>xs. xs"
  by unfold_locales (simp_all add: stored_events_append)

section \<open>The contract of a session table\<close>

locale session_table =
  fixes store :: "string \<Rightarrow> dict \<Rightarrow> 's \<Rightarrow> 's"
    and load :: "string \<Rightarrow> 's \<Rightarrow> dict option"
    and delete :: "string \<Rightarrow> 's \<Rightarrow> 's"
    and stamp :: "dict \<Rightarrow> dict"
  assumes load_store: "load k' (store k d s) = (if k' = k then Some (stamp d) else load k' s)"
    and load_delete: "load k' (delete k s) = (if k' = k then None else load k' s)"
begin

lemma store_delete_store: "load k (store k d (delete k (store k e s))) = Some (stamp d)"
  by (simp add: load_store)

lemma delete_other: "k' \<noteq> k \<Longrightarrow> load k' (delete k (store k d s)) = load k' s"
  by (simp add: load_store load_delete)

end

lemma dset_not_Nil [simp]: "dset k v d \<noteq> []"
  by (cases d) auto

lemma map_of_dpop: "map_of (dpop k d) k' = (if k' = k then None else map_of d k')"
  by (induction d) auto

interpretation memory_sessions:
  session_table "store_session now" load_session delete_session "dset ''updated_at'' (PFloat now)" for now
  by unfold_locales (auto simp: store_session_def load_session_def delete_session_def map_of_dpop split: option.split)

section \<open>Properties\<close>

text \<open>After any interleaving of events for any sessions, the timeline of a session is the most recent
  \<open>maxlen\<close> of the events written to it, in order, each with a time stamp, and other sessions' events
  never appear in it.\<close>

theorem timeline_is_recent_suffix:
  "timeline_events (timeline_log.append_all n \<lparr>tl_maxlen = n, tl_events = []\<rparr> kes) sid =
     keep_last n (map (add_stamp \<circ> snd) (filter (\<lambda>(k, e). k = sid) kes)) \<and>
   length (timeline_events (timeline_log.append_all n \<lparr>tl_maxlen = n, tl_events = []\<rparr> kes) sid) \<le> n"
proof -
  have nil: "timeline_events \<lparr>tl_maxlen = n, tl_events = []\<rparr> sid = []" by (simp add: timeline_events_def)
  then have "keep_last n (timeline_events \<lparr>tl_maxlen = n, tl_events = []\<rparr> sid) =
      timeline_events \<lparr>tl_maxlen = n, tl_events = []\<rparr> sid"
    by (simp add: keep_last_def)
  from timeline_log.events_append_all [OF this, of kes] nil show ?thesis
    by (simp add: timeline_log.written_def length_keep_last)
qed

lemma variance_ge_0: "0 \<le> variance xs"
proof -
  have "0 \<le> sum_list (map (\<lambda>x. (x - c) ^ 2) xs)" for c :: rat
    by (rule sum_list_nonneg) auto
  then show ?thesis by (simp add: variance_def Let_def divide_nonneg_nonneg)
qed

lemma intervals_stamped:
  "list_all (\<lambda>e. \<exists>x. map_of e ''ts'' = Some x \<and> num_of x \<noteq> None) es \<Longrightarrow> \<exists>ds. intervals es = Inr ds"
proof (induction es rule: intervals.induct)
  case (1 a b es)
  then obtain x t1 y t2 where
    "map_of a ''ts'' = Some x" "num_of x = Some t1" "map_of b ''ts'' = Some y" "num_of y = Some t2"
    by auto
  moreover from 1(2) have "list_all (\<lambda>e. \<exists>x. map_of e ''ts'' = Some x \<and> num_of x \<noteq> None) (b # es)" by simp
  ultimately obtain ds where "intervals (b # es) = Inr ds" using 1(1) by metis
  with \<open>map_of a ''ts'' = Some x\<close> \<open>num_of x = Some t1\<close> \<open>map_of b ''ts'' = Some y\<close> \<open>num_of y = Some t2\<close>
  show ?case by simp
qed simp_all

text \<open>The drift of a timeline is defined, and is a variance, whenever the stamps its writers supplied
  are numbers: the timeline itself stamps every event that has none.\<close>

theorem drift_total:
  assumes "\<And>now e. (sid, now, e) \<in> set kes \<Longrightarrow> map_of e ''ts'' = None \<or> (\<exists>x q. map_of e ''ts'' = Some x \<and> num_of x = Some q)"
  shows "\<exists>v. fst (drift (timeline_log.append_all n \<lparr>tl_maxlen = n, tl_events = []\<rparr> kes) sid) = Inr v \<and> 0 \<le> v"
proof -
  let ?tm = "timeline_log.append_all n \<lparr>tl_maxlen = n, tl_events = []\<rparr> kes"
  have "timeline_events \<lparr>tl_maxlen = n, tl_events = []\<rparr> sid = []" by (simp add: timeline_events_def)
  then have "suffix (timeline_events ?tm sid) (timeline_log.written sid kes)"
    using timeline_log.events_suffix [of n "\<lparr>tl_maxlen = n, tl_events = []\<rparr>" sid kes]
    by (simp add: keep_last_def)
  then have "set (timeline_events ?tm sid) \<subseteq> set (timeline_log.written sid kes)"
    by (auto simp: suffix_def)
  moreover have "\<exists>x. map_of (add_stamp te) ''ts'' = Some x \<and> num_of x \<noteq> None" if "(sid, te) \<in> set kes" for te
    using assms [of "fst te" "snd te"] that by (auto simp: add_stamp_def stamp_ts_def)
  ultimately have "list_all (\<lambda>e. \<exists>x. map_of e ''ts'' = Some x \<and> num_of x \<noteq> None) (timeline_events ?tm sid)"
    by (fastforce simp: list_all_iff timeline_log.written_def)
  then obtain ds where "intervals (timeline_events ?tm sid) = Inr ds" using intervals_stamped by blast
  then show ?thesis by (simp add: drift_def variance_ge_0)
qed

theorem drift_total_witness:
  "\<exists>v. fst (drift (timeline_log.append_all 2 \<lparr>tl_maxlen = 2, tl_events = []\<rparr> [(''s'', 7, []), (''s'', 9, [])]) ''s'') = Inr v \<and> 0 \<le> v"
  by (rule drift_total) auto

text \<open>The in-memory runtime keeps sessions and events apart: what is loaded is what was last stored
  under that very id, with the time of the write; deletion removes the session and its events and
  nothing of any other session.\<close>

theorem memory_runtime_sessions:
  "load_session sid (store_session now sid d m) = Some (dset ''updated_at'' (PFloat now) d) \<and>
   stored_events (store_session now sid d m) sid' = stored_events m sid' \<and>
   load_session sid' (append_event now m sid e) = load_session sid' m \<and>
   load_session sid (delete_session sid m) = None \<and> stored_events (delete_session sid m) sid = [] \<and>
   (sid' = sid \<or>
      load_session sid' (store_session now sid d m) = load_session sid' m \<and>
      load_session sid' (delete_session sid m) = load_session sid' m \<and>
      stored_events (delete_session sid m) sid' = stored_events m sid')"
  using memory_sessions.load_store [of sid' now sid d m] memory_sessions.load_delete [of sid' sid m]
  by (auto simp: memory_sessions.load_store memory_sessions.load_delete
      stored_events_def store_session_def append_event_def load_session_def delete_session_def map_of_dpop)

text \<open>Without Redis the session count is wrong for session ids that contain \<open>session:\<close>: the event
  log of such an id is counted as one more session.\<close>

theorem session_count_counts_event_logs:
  "get_session_count (append_event now [] (''session:'' @ sid) e) = 1 \<and>
   load_session sid' (append_event now [] (''session:'' @ sid) e) = None"
proof -
  have "str_contains ''session:'' (''truepresence:events:'' @ ''session:'' @ sid)"
    unfolding str_contains_iff by (intro sublist_appendI sublist_append_leftI)
  then show ?thesis
    by (simp add: append_event_def get_session_count_def events_key_def load_session_def session_key_def)
qed

end
