(* ===== verification/Telegram_Actions.thy ===== *)
theory Telegram_Actions
  imports Decision
begin

text \<open>
  From a decision to a Telegram action: \<open>TelegramAdapter.build_response\<close> of
  \<open>truepresence/adapters/telegram.py\<close> with its table of bans, the \<open>TelegramAction\<close> model of
  \<open>adapters/telegram_models.py\<close>, and \<open>TelegramGuardAdapter.enforce\<close> of
  \<open>surfaces/telegram/adapter.py\<close>, which feeds it a decision object. The clock and the printer of
  containers (\<open>rep\<close>) are arguments. Python's \<open>{x:.0%}\<close> is the rounded percentage; for a negative value
  that rounds to zero Python prints a sign, the model does not.
\<close>

section \<open>The action\<close>

record telegram_action =
  ta_action :: string
  ta_reason :: string
  ta_confidence :: rat
  ta_threat_categories :: "string list"
  ta_tenant_id :: "string option"
  ta_rate_limited :: bool

text \<open>The field types of \<open>TelegramAction\<close> as the schema library enforces them: a string reason, a
  number or numeric string as confidence, a list of strings.\<close>

fun str_list :: "pv list \<Rightarrow> string list option" where
  "str_list [] = Some []"
| "str_list (PStr s # xs) = map_option (Cons s) (str_list xs)"
| "str_list (_ # xs) = None"

fun str_list_of :: "pv \<Rightarrow> string list option" where
  "str_list_of (PList xs) = str_list xs"
| "str_list_of _ = None"

definition telegram_action :: "string \<Rightarrow> pv \<Rightarrow> pv \<Rightarrow> pv \<Rightarrow> string option \<Rightarrow> bool \<Rightarrow> telegram_action res" where
  "telegram_action action reason confidence categories tenant limited =
     (case (reason, py_float confidence, str_list_of categories) of
        (PStr r, Inr c, Some cats) \<Rightarrow>
          Inr \<lparr>ta_action = action, ta_reason = r, ta_confidence = c, ta_threat_categories = cats,
               ta_tenant_id = tenant, ta_rate_limited = limited\<rparr>
      | _ \<Rightarrow> Inl (ValueError ''validation error for TelegramAction''))"

section \<open>The table of bans\<close>

text \<open>Keys of \<open>_ban_actions\<close>: the code reads the text \<open>tenant:user\<close> and writes the bare user id.\<close>

datatype ban_key = TenantUser string | UserId int

type_synonym ban_table = "(ban_key \<times> rat) list"

definition ban_key_of :: "string option \<Rightarrow> int \<Rightarrow> ban_key" where
  "ban_key_of tenant user =
     TenantUser ((case tenant of None \<Rightarrow> ''None'' | Some t \<Rightarrow> t) @ '':'' @ int_str user)"

definition last_ban_time :: "string option \<Rightarrow> int \<Rightarrow> ban_table \<Rightarrow> rat" where
  "last_ban_time tenant user bans = (case map_of bans (ban_key_of tenant user) of None \<Rightarrow> 0 | Some t \<Rightarrow> t)"

definition record_ban :: "int option \<Rightarrow> rat \<Rightarrow> ban_table \<Rightarrow> ban_table" where
  "record_ban user now bans = (case user of None \<Rightarrow> bans | Some u \<Rightarrow> AList.update (UserId u) now bans)"

definition ban_cooldown :: rat where
  "ban_cooldown = 60"

definition rate_limited :: "string option \<Rightarrow> int option \<Rightarrow> rat \<Rightarrow> ban_table \<Rightarrow> bool" where
  "rate_limited tenant user now bans = (case user of None \<Rightarrow> False
     | Some u \<Rightarrow> now - last_ban_time tenant u bans < ban_cooldown)"

section \<open>Choosing the action\<close>

definition critical_factors :: "string list" where
  "critical_factors = [''child_exploitation'', ''illegal_content'']"

definition policy_factors :: "string list" where
  "policy_factors = [''copyright_violation'', ''torrent_sharing'', ''crypto_mining'', ''remote_access'']"

text \<open>\<open>any(x in names for x in v)\<close>: membership in a set hashes the element.\<close>

fun any_elem_in :: "string list \<Rightarrow> pv list \<Rightarrow> bool res" where
  "any_elem_in names [] = Inr False"
| "any_elem_in names (x # xs) =
     (if \<not> hashable x then Inl (TypeError ''unhashable type'')
      else if x \<in> PStr ` set names then Inr True else any_elem_in names xs)"

definition any_in :: "string list \<Rightarrow> pv \<Rightarrow> bool res" where
  "any_in names v = bind_res (py_iter v) (any_elem_in names)"

definition factor_present :: "string list \<Rightarrow> pv \<Rightarrow> pv \<Rightarrow> bool res" where
  "factor_present names categories codes =
     bind_res (any_in names categories) (\<lambda>b. if b then Inr True else any_in names codes)"

definition gt :: "pv \<Rightarrow> rat \<Rightarrow> bool res" where
  "gt v q = (case num_of v of None \<Rightarrow> Inl (TypeError ''> not supported'') | Some x \<Rightarrow> Inr (x > q))"

definition percent :: "pv \<Rightarrow> string res" where
  "percent v = (case num_of v of
      Some x \<Rightarrow> Inr (int_str (round_half_even (x * 100)) @ ''%'')
    | None \<Rightarrow> (case v of PStr _ \<Rightarrow> Inl (ValueError ''Unknown format code'')
                | _ \<Rightarrow> Inl (TypeError ''unsupported format string'')))"

text \<open>What the function reads from the evaluation result.\<close>

record response_input =
  ri_state :: pv
  ri_decision :: pv
  ri_confidence :: pv
  ri_human :: pv
  ri_categories :: pv
  ri_codes :: pv
  ri_block_reason :: pv
  ri_risk_factors :: pv

definition response_input_of :: "dict \<Rightarrow> response_input" where
  "response_input_of d =
     \<lparr>ri_state = dget d ''state'', ri_decision = dget_default d ''decision'' (PStr ''allow''),
      ri_confidence = dget_default d ''confidence'' (PFloat 0),
      ri_human = dget_default d ''human_probability'' (PFloat 0.5),
      ri_categories = dget_default d ''threat_categories'' (PList []),
      ri_codes = dget_default d ''reason_codes'' (PList []),
      ri_block_reason = dget_default d ''block_reason'' (PStr []),
      ri_risk_factors = dget_default d ''risk_factors'' (PList [])\<rparr>"

text \<open>A chosen response: the arguments of \<open>TelegramAction\<close>, and whether the ban is recorded first.\<close>

record choice =
  ch_action :: string
  ch_reason :: pv
  ch_categories :: pv
  ch_records :: bool

definition or_text :: "pv \<Rightarrow> string \<Rightarrow> pv" where
  "or_text v s = py_or v (PStr s)"

definition bot_reason :: "pv \<Rightarrow> string \<Rightarrow> pv \<Rightarrow> pv res" where
  "bot_reason block_reason label human =
     (if truthy block_reason then Inr block_reason
      else bind_res (percent human) (\<lambda>s. Inr (PStr (label @ '' ('' @ s @ '' human probability)''))))"

text \<open>Steps 1 and 2: critical and policy violations; \<open>None\<close> falls through.\<close>

definition threat_choice :: "(pv \<Rightarrow> string) \<Rightarrow> response_input \<Rightarrow> choice option res" where
  "threat_choice rep r =
     (let choice = (\<lambda>action label default records.
            Some \<lparr>ch_action = action,
                  ch_reason = PStr (label @ py_str rep (or_text (ri_block_reason r) default)),
                  ch_categories = ri_categories r, ch_records = records\<rparr>)
      in bind_res (factor_present critical_factors (ri_categories r) (ri_codes r)) (\<lambda>critical.
         if critical
         then Inr (choice ''ban'' ''CRITICAL SECURITY VIOLATION: '' ''Illegal content detected'' True)
         else bind_res (factor_present policy_factors (ri_categories r) (ri_codes r)) (\<lambda>policy.
           if \<not> policy then Inr None
           else bind_res (gt (ri_confidence r) 0.8) (\<lambda>high.
             if high then Inr (choice ''ban'' ''Policy Violation: '' ''Repeated policy breach'' True)
             else bind_res (gt (ri_confidence r) 0.5) (\<lambda>medium.
               Inr (if medium then choice ''kick'' ''Policy Warning: '' ''Suspicious activity'' False else None))))))"

text \<open>Step 3: the state of the engine.\<close>

definition state_choice :: "response_input \<Rightarrow> choice option" where
  "state_choice r =
     (if ri_state r = PStr ''EJECT'' then
        Some \<lparr>ch_action = ''ban'', ch_reason = or_text (ri_block_reason r) ''Deterministic policy violation'',
              ch_categories = ri_categories r, ch_records = True\<rparr>
      else if ri_state r = PStr ''RESTRICT'' then
        Some \<lparr>ch_action = ''kick'', ch_reason = or_text (ri_block_reason r) ''Restricted pending further review'',
              ch_categories = ri_categories r, ch_records = False\<rparr>
      else if ri_state r = PStr ''STEP_UP_AUTH'' then
        Some \<lparr>ch_action = ''challenge'', ch_reason = PStr ''Additional verification required'',
              ch_categories = PList [], ch_records = False\<rparr>
      else if ri_state r = PStr ''OBSERVE'' then
        Some \<lparr>ch_action = ''allow'', ch_reason = PStr ''Allowed with monitoring'',
              ch_categories = PList [], ch_records = False\<rparr>
      else None)"

text \<open>Step 4: general bot detection. The comparison is only evaluated for a block.\<close>

definition blocked_above :: "response_input \<Rightarrow> rat \<Rightarrow> bool res" where
  "blocked_above r q = (if ri_decision r = PStr ''block'' then gt (ri_confidence r) q else Inr False)"

definition bot_choice :: "(pv \<Rightarrow> string) \<Rightarrow> response_input \<Rightarrow> choice res" where
  "bot_choice rep r =
     bind_res (blocked_above r 0.8) (\<lambda>ban.
       if ban then
         bind_res (bot_reason (ri_block_reason r) ''Bot detected'' (ri_human r)) (\<lambda>why.
           Inr \<lparr>ch_action = ''ban'', ch_reason = why, ch_categories = PList [], ch_records = True\<rparr>)
       else bind_res (blocked_above r 0.6) (\<lambda>kick.
         if kick then
           bind_res (bot_reason (ri_block_reason r) ''Suspicious'' (ri_human r)) (\<lambda>why.
             Inr \<lparr>ch_action = ''kick'', ch_reason = why, ch_categories = PList [], ch_records = False\<rparr>)
         else if ri_decision r = PStr ''challenge'' then
           Inr \<lparr>ch_action = ''challenge'', ch_reason = PStr ''Verification required'',
                ch_categories = PList [], ch_records = False\<rparr>
         else if ri_decision r = PStr ''review'' then
           Inr \<lparr>ch_action = ''alert_admin'', ch_reason = PStr (''Review needed - '' @ py_str rep (ri_risk_factors r)),
                ch_categories = PList [], ch_records = False\<rparr>
         else
           Inr \<lparr>ch_action = ''allow'', ch_reason = PStr [], ch_categories = PList [], ch_records = False\<rparr>))"

definition choose_response :: "(pv \<Rightarrow> string) \<Rightarrow> response_input \<Rightarrow> choice res" where
  "choose_response rep r =
     bind_res (threat_choice rep r) (\<lambda>t. case t of
        Some c \<Rightarrow> Inr c
      | None \<Rightarrow> (case state_choice r of Some c \<Rightarrow> Inr c | None \<Rightarrow> bot_choice rep r))"

text \<open>A ban is recorded before the action is built, so it stays recorded when validation fails; in the
  last step it is recorded before the reason is formatted.\<close>

definition records_ban :: "(pv \<Rightarrow> string) \<Rightarrow> response_input \<Rightarrow> bool" where
  "records_ban rep r =
     (case threat_choice rep r of
        Inl _ \<Rightarrow> False
      | Inr (Some c) \<Rightarrow> ch_records c
      | Inr None \<Rightarrow> (case state_choice r of
            Some c \<Rightarrow> ch_records c
          | None \<Rightarrow> blocked_above r 0.8 = Inr True))"

definition build_response ::
    "(pv \<Rightarrow> string) \<Rightarrow> rat \<Rightarrow> dict \<Rightarrow> string option \<Rightarrow> int option \<Rightarrow> ban_table \<Rightarrow>
     telegram_action res \<times> ban_table" where
  "build_response rep now evaluation tenant user bans =
     (let r = response_input_of evaluation in
      if rate_limited tenant user now bans then
        (telegram_action ''alert_admin'' (PStr (''Rate-limited: '' @ py_str rep (ri_risk_factors r)))
           (ri_confidence r) (PList []) tenant True, bans)
      else
        (bind_res (choose_response rep r) (\<lambda>c.
           telegram_action (ch_action c) (ch_reason c) (ri_confidence r) (ch_categories c) tenant False),
         if records_ban rep r then record_ban user now bans else bans))"

section \<open>Enforcing a decision\<close>

fun state_str :: "decision_state \<Rightarrow> string" where
  "state_str ALLOW = ''ALLOW''"
| "state_str OBSERVE = ''OBSERVE''"
| "state_str ELEVATED_OBSERVE = ''ELEVATED_OBSERVE''"
| "state_str CHALLENGE = ''CHALLENGE''"
| "state_str STEP_UP_AUTH = ''STEP_UP_AUTH''"
| "state_str RESTRICT = ''RESTRICT''"
| "state_str BLOCK = ''BLOCK''"
| "state_str EJECT = ''EJECT''"

fun enforcement_str :: "enforcement \<Rightarrow> string" where
  "enforcement_str EnfAllow = ''allow''"
| "enforcement_str EnfObserve = ''observe''"
| "enforcement_str EnfChallenge = ''challenge''"
| "enforcement_str EnfStepUp = ''step_up_auth''"
| "enforcement_str EnfRestrict = ''restrict''"
| "enforcement_str EnfBlock = ''block''"
| "enforcement_str EnfEject = ''eject''"

fun reason_str :: "decision_reason \<Rightarrow> string" where
  "reason_str INVALID_ATTESTATION = ''INVALID_ATTESTATION''"
| "reason_str KNOWN_AUTOMATION_FINGERPRINT = ''KNOWN_AUTOMATION_FINGERPRINT''"
| "reason_str IMPOSSIBLE_EVENT_SEQUENCE = ''IMPOSSIBLE_EVENT_SEQUENCE''"
| "reason_str CHALLENGE_FAILURE_DETERMINISTIC = ''CHALLENGE_FAILURE_DETERMINISTIC''"
| "reason_str TIMING_AUTOMATION_PATTERN = ''TIMING_AUTOMATION_PATTERN''"
| "reason_str CROSS_SESSION_CLUSTER_MATCH = ''CROSS_SESSION_CLUSTER_MATCH''"
| "reason_str EXCESSIVE_ROLE_DISAGREEMENT = ''EXCESSIVE_ROLE_DISAGREEMENT''"
| "reason_str HIGH_VALUE_TRANSACTION_ESCALATION = ''HIGH_VALUE_TRANSACTION_ESCALATION''"
| "reason_str POLICY_REQUIRES_STEP_UP = ''POLICY_REQUIRES_STEP_UP''"

definition enforce_input :: "decision_object \<Rightarrow> dict" where
  "enforce_input d =
     (let codes = PList (map (PStr \<circ> reason_str) (reason_codes d)) in
      [(''state'', PStr (state_str (state d))),
       (''decision'', PStr (enforcement_str (recommended_enforcement d))),
       (''confidence'', PFloat (do_confidence d)),
       (''human_probability'', PFloat (human_probability d)),
       (''reason_codes'', codes), (''risk_factors'', codes), (''threat_categories'', codes)])"

definition enforce ::
    "(pv \<Rightarrow> string) \<Rightarrow> rat \<Rightarrow> decision_object \<Rightarrow> ban_table \<Rightarrow> telegram_action res \<times> ban_table" where
  "enforce rep now d bans = build_response rep now (enforce_input d) (Some (do_tenant_id d)) None bans"

section \<open>The cooldown\<close>

type_synonym response_call = "rat \<times> dict \<times> string option \<times> int option"

fun respond_all ::
    "(pv \<Rightarrow> string) \<Rightarrow> response_call list \<Rightarrow> ban_table \<Rightarrow> telegram_action res list \<times> ban_table" where
  "respond_all rep [] bans = ([], bans)"
| "respond_all rep ((now, evaluation, tenant, user) # calls) bans =
     (let (a, bans') = build_response rep now evaluation tenant user bans;
          (as, bans'') = respond_all rep calls bans'
      in (a # as, bans''))"

text \<open>The table only ever holds bare user ids.\<close>

definition only_user_ids :: "ban_table \<Rightarrow> bool" where
  "only_user_ids bans \<longleftrightarrow> fst ` set bans \<subseteq> range UserId"

lemma only_user_ids_record: "only_user_ids bans \<Longrightarrow> only_user_ids (record_ban user now bans)"
  by (auto simp: only_user_ids_def record_ban_def dom_update split: option.split)

lemma only_user_ids_response: "only_user_ids bans \<Longrightarrow> only_user_ids (snd (build_response rep now e tenant user bans))"
  by (simp add: build_response_def Let_def only_user_ids_record)

lemma not_rate_limited:
  assumes "only_user_ids bans" and "60 \<le> now"
  shows "\<not> rate_limited tenant user now bans"
proof -
  have "map_of bans (ban_key_of tenant u) = None" for u
    using assms(1) by (fastforce simp: only_user_ids_def ban_key_of_def map_of_eq_None_iff)
  then show ?thesis
    using assms(2) by (simp add: rate_limited_def last_ban_time_def ban_cooldown_def split: option.split)
qed

lemma telegram_action_Inr:
  "telegram_action action reason confidence cats tenant limited = Inr a \<Longrightarrow>
     ta_action a = action \<and> ta_rate_limited a = limited \<and> ta_tenant_id a = tenant"
  by (auto simp: telegram_action_def split: pv.splits sum.splits option.splits)

lemma response_unlimited:
  assumes "only_user_ids bans" and "60 \<le> now"
    and "fst (build_response rep now e tenant user bans) = Inr a"
  shows "\<not> ta_rate_limited a"
  using assms not_rate_limited [OF assms(1,2)]
  by (auto simp: build_response_def Let_def bind_res_eq_Inr dest!: telegram_action_Inr)

lemma responses_unlimited:
  "only_user_ids bans \<Longrightarrow> list_all (\<lambda>c. 60 \<le> fst c) calls \<Longrightarrow>
     Inr a \<in> set (fst (respond_all rep calls bans)) \<Longrightarrow> \<not> ta_rate_limited a"
proof (induction rep calls bans rule: respond_all.induct)
  case (2 rep now e tenant user calls bans)
  obtain r bans' where r: "build_response rep now e tenant user bans = (r, bans')" by fastforce
  have ok: "only_user_ids bans'" using only_user_ids_response [OF 2(2), of rep now e tenant user] r by simp
  have "Inr a = r \<or> Inr a \<in> set (fst (respond_all rep calls bans'))"
    using 2(4) r by (simp add: Let_def split_beta)
  then show ?case
  proof
    assume "Inr a = r"
    with r 2(2,3) show ?thesis using response_unlimited [of bans now rep e tenant user a] by simp
  next
    assume "Inr a \<in> set (fst (respond_all rep calls bans'))"
    with r ok 2(3) show ?thesis using 2(1) [of "(r, bans')" r bans'] by simp
  qed
qed simp

section \<open>Properties\<close>

text \<open>The cooldown between bans never takes effect: whatever sequence of evaluations the adapter
  answers, starting without bans, no answer is rate limited, because bans are recorded under the
  bare user id and looked up under tenant and user (readings of the clock are at least a minute
  after the epoch).\<close>

theorem cooldown_never_engages:
  assumes "\<And>now e tenant user. (now, e, tenant, user) \<in> set calls \<Longrightarrow> 60 \<le> now"
    and "Inr a \<in> set (fst (respond_all rep calls []))"
  shows "\<not> ta_rate_limited a"
proof (rule responses_unlimited)
  show "only_user_ids []" by (simp add: only_user_ids_def)
  show "list_all (\<lambda>c. 60 \<le> fst c) calls" using assms(1) by (auto simp: list_all_iff)
qed (rule assms(2))

definition ejected :: dict where
  "ejected = [(''state'', PStr ''EJECT''), (''confidence'', PFloat 0.99)]"

lemma ejected_twice:
  "fst (respond_all (\<lambda>_. []) [(100, ejected, Some ''t'', Some 7), (101, ejected, Some ''t'', Some 7)] []) =
     [Inr \<lparr>ta_action = ''ban'', ta_reason = ''Deterministic policy violation'', ta_confidence = 0.99,
           ta_threat_categories = [], ta_tenant_id = Some ''t'', ta_rate_limited = False\<rparr>,
      Inr \<lparr>ta_action = ''ban'', ta_reason = ''Deterministic policy violation'', ta_confidence = 0.99,
           ta_threat_categories = [], ta_tenant_id = Some ''t'', ta_rate_limited = False\<rparr>]"
  by code_simp

theorem cooldown_never_engages_witness:
  "\<exists>a \<in> set (fst (respond_all (\<lambda>_. []) [(100, ejected, Some ''t'', Some 7), (101, ejected, Some ''t'', Some 7)] [])).
     \<exists>b. a = Inr b \<and> \<not> ta_rate_limited b"
proof -
  let ?calls = "[(100, ejected, Some ''t'', Some 7), (101, ejected, Some ''t'', Some 7)]"
  obtain b where "Inr b \<in> set (fst (respond_all (\<lambda>_. []) ?calls []))"
    unfolding ejected_twice by auto
  with cooldown_never_engages [of ?calls b "\<lambda>_. []"] show ?thesis by fastforce
qed

section \<open>Enforcement of engine decisions\<close>

lemma any_elem_in_disjoint:
  "(\<And>s. s \<in> set ss \<Longrightarrow> s \<notin> set names) \<Longrightarrow> any_elem_in names (map PStr ss) = Inr False"
  by (induction ss) (auto simp: hashable_def)

lemma reason_not_factor: "reason_str c \<notin> set critical_factors" "reason_str c \<notin> set policy_factors"
  by (cases c; simp add: critical_factors_def policy_factors_def)+

lemma reasons_no_factor:
  "any_in critical_factors (PList (map (PStr \<circ> reason_str) cs)) = Inr False"
  "any_in policy_factors (PList (map (PStr \<circ> reason_str) cs)) = Inr False"
  using any_elem_in_disjoint [of "map reason_str cs"] reason_not_factor by (auto simp: any_in_def)

lemma str_list_map: "str_list (map PStr ss) = Some ss"
  by (induction ss) simp_all

lemma str_list_codes: "str_list (map (PStr \<circ> reason_str) cs) = Some (map reason_str cs)"
  using str_list_map [of "map reason_str cs"] by simp

lemma stage_probability_block:
  "sy_state s \<noteq> BLOCK \<Longrightarrow> sy_state (stage_probability h s) = BLOCK \<Longrightarrow> 0.75 \<le> sy_confidence (stage_probability h s)"
  by (auto simp: stage_probability_def split: if_splits)

lemma stages_not_block:
  "sy_state s \<noteq> BLOCK \<Longrightarrow> sy_state (stage_step_up p s) \<noteq> BLOCK"
  "sy_state s \<noteq> BLOCK \<Longrightarrow> sy_state (stage_cluster p t s) \<noteq> BLOCK"
  "sy_state s \<noteq> BLOCK \<Longrightarrow> sy_state (stage_timing p s) \<noteq> BLOCK"
  "sy_state s \<noteq> BLOCK \<Longrightarrow> sy_state (stage_high_value p t s) \<noteq> BLOCK"
  "sy_state s \<noteq> BLOCK \<Longrightarrow> sy_state (stage_disagreement d s) \<noteq> BLOCK"
  by (simp_all add: stage_step_up_def stage_cluster_def stage_timing_def stage_high_value_def
      stage_disagreement_def Let_def)

lemma synthesized_enforcement:
  assumes "synthesize_decision p reports t uuid = Inr d"
  shows "recommended_enforcement d = enforcement_of (state d) \<and> (state d = BLOCK \<longrightarrow> 0.75 \<le> do_confidence d)"
proof (cases "t = Tier0")
  case True
  with assms show ?thesis by (simp add: synthesize_tier0 tier0_synth_def)
next
  case False
  then obtain s h where s: "synthesize_stages p reports t = Inr s"
    and d: "d = decision_of p reports t uuid s h (max 0 (min 1 (1 - h)))"
    using assms by (rule synthesize_other)
  define s3 where "s3 = stage_high_value p t (stage_timing p (stage_cluster p t (stage_step_up p (initial_synth reports))))"
  obtain dis where sp: "s = stage_probability (average (coerced ''human_probability'' reports) 0.5) (stage_disagreement dis s3)"
    using s by (auto simp: synthesize_stages_def Let_def bind_res_eq_Inr s3_def)
  have "sy_state (initial_synth reports) \<noteq> BLOCK" by (simp add: initial_synth_def)
  then have "sy_state (stage_disagreement dis s3) \<noteq> BLOCK" unfolding s3_def by (intro stages_not_block)
  then have "sy_state s = BLOCK \<Longrightarrow> 0.75 \<le> sy_confidence s" unfolding sp by (rule stage_probability_block)
  then show ?thesis using synthesize_stages_ok [OF s] by (simp add: d synth_ok_def)
qed

text \<open>The action for a decision state.\<close>

fun enforced_action :: "decision_state \<Rightarrow> rat \<Rightarrow> string" where
  "enforced_action ALLOW c = ''allow''"
| "enforced_action OBSERVE c = ''allow''"
| "enforced_action ELEVATED_OBSERVE c = ''allow''"
| "enforced_action CHALLENGE c = ''challenge''"
| "enforced_action STEP_UP_AUTH c = ''challenge''"
| "enforced_action RESTRICT c = ''kick''"
| "enforced_action BLOCK c = (if c > 0.8 then ''ban'' else ''kick'')"
| "enforced_action EJECT c = ''ban''"

lemma response_input_of_decision:
  "response_input_of (enforce_input d) =
     \<lparr>ri_state = PStr (state_str (state d)), ri_decision = PStr (enforcement_str (recommended_enforcement d)),
      ri_confidence = PFloat (do_confidence d), ri_human = PFloat (human_probability d),
      ri_categories = PList (map (PStr \<circ> reason_str) (reason_codes d)),
      ri_codes = PList (map (PStr \<circ> reason_str) (reason_codes d)), ri_block_reason = PStr [],
      ri_risk_factors = PList (map (PStr \<circ> reason_str) (reason_codes d))\<rparr>"
  by (simp add: response_input_of_def enforce_input_def dget_def dget_default_def Let_def)

lemma enforce_state:
  assumes "recommended_enforcement d = enforcement_of (state d)"
    and "state d = BLOCK \<Longrightarrow> 0.6 < do_confidence d"
  shows "\<exists>a. enforce rep now d bans = (Inr a, bans) \<and> ta_action a = enforced_action (state d) (do_confidence d) \<and>
    ta_confidence a = do_confidence d \<and> ta_tenant_id a = Some (do_tenant_id d) \<and> \<not> ta_rate_limited a"
proof -
  let ?r = "response_input_of (enforce_input d)"
  have threat: "threat_choice rep ?r = Inr None"
    by (simp add: threat_choice_def response_input_of_decision factor_present_def reasons_no_factor)
  show ?thesis
    unfolding enforce_def build_response_def Let_def choose_response_def records_ban_def threat
    using assms
    by (cases "state d")
      (simp_all add: response_input_of_decision rate_limited_def state_choice_def bot_choice_def blocked_above_def
        gt_def bot_reason_def percent_def or_text_def py_or_def telegram_action_def str_list_codes record_ban_def)
qed

text \<open>C34: Enforcing a decision in Telegram follows its state: whatever was synthesized is answered by one
  valid action, for every state, and exactly the allowing and observing states let the member pass;
  a block is at least a kick, since its confidence is never below three quarters. Without a user id
  no ban is recorded.\<close>

theorem enforce_follows_state:
  assumes "synthesize_decision p reports t uuid = Inr d"
  shows "\<exists>a. enforce rep now d bans = (Inr a, bans) \<and> ta_action a = enforced_action (state d) (do_confidence d) \<and>
    (ta_action a = ''allow'' \<longleftrightarrow> state d \<in> {ALLOW, OBSERVE, ELEVATED_OBSERVE}) \<and>
    ta_confidence a = do_confidence d \<and> \<not> ta_rate_limited a"
proof -
  have rec: "recommended_enforcement d = enforcement_of (state d)"
    and block: "state d = BLOCK \<Longrightarrow> 0.75 \<le> do_confidence d"
    using synthesized_enforcement [OF assms] by auto
  from block have "state d = BLOCK \<Longrightarrow> 0.6 < do_confidence d" by fastforce
  from enforce_state [OF rec this] obtain a where a: "enforce rep now d bans = (Inr a, bans)"
    "ta_action a = enforced_action (state d) (do_confidence d)" "ta_confidence a = do_confidence d"
    "\<not> ta_rate_limited a"
    by blast
  moreover have "enforced_action (state d) (do_confidence d) = ''allow'' \<longleftrightarrow> state d \<in> {ALLOW, OBSERVE, ELEVATED_OBSERVE}"
    by (cases "state d") simp_all
  ultimately show ?thesis by metis
qed

theorem enforce_follows_state_witness:
  "\<exists>d a. synthesize_decision plain_packet [] Tier1 ''d1'' = Inr d \<and>
     enforce (\<lambda>_. []) 100 d [] = (Inr a, []) \<and> ta_action a = enforced_action (state d) (do_confidence d)"
  using plain_decides enforce_follows_state by blast

end
