(* ===== verification/Telegram_Content.thy ===== *)
theory Telegram_Content
  imports Conversions
begin

text \<open>
  Content analysis of the Telegram adapter (\<open>truepresence/adapters/telegram.py\<close>): the detector tables and
  their tenant configuration, the pattern scores, the mirror rule, the Jaccard similarity and the
  account age estimate. The regular expression engine is the argument \<open>findall pat text\<close>, of which
  nothing is assumed; in the pattern literals the tilde stands for the backslash.
\<close>

section \<open>Detector tables\<close>

definition regex :: "string \<Rightarrow> string" where
  "regex s = map (\<lambda>c. if c = CHR ''~'' then CHR 0x5C else c) s"

definition core_detectors :: "(string \<times> string list) list" where
  "core_detectors =
     [(''child_exploitation'', map regex
        [''~bchild.*porn~b'',
         ''~bkiddie.*porn~b'',
         ''~bcp~b(?!~s*(?:certificate|panel|apache|copyright|cpu|cpus|center|connection))'',
         ''~blolita~b(?!~s*(?:book|novel|nabokov|fashion))'',
         ''~bpedo~b(?!~s*(?:bear|file|meter|pedometry))'']),
      (''illegal_content'', map regex
        [''~b(buy|purchase|order|get)~s+.*~b(drugs|narcotics|opioids|cocaine|heroin|meth)~b'',
         ''~b(fake|forged|counterfeit)~s+.*~b(id|passport|drivers~s+license|credit~s+card)~b'',
         ''~bcarding~b'',
         ''~bhacking~s+.*(service|tool|tutorial)~b'',
         ''~b(weapon|firearm|gun)~s+.*(sale|buy|purchase)~b''])]"

definition policy_detectors :: "(string \<times> string list) list" where
  "policy_detectors =
     [(''copyright_violation'', map regex
        [''download.*full.*movie'', ''free.*download'', ''full.*album'', ''leaked.*album'', ''pirated'']),
      (''torrent_sharing'', map regex
        [''magnet:~?xt=urn:btih:'', ''~.torrent$'', ''torrentz2'', ''kickasstorrents'', ''rarbg'']),
      (''crypto_mining'', map regex
        [''monero'', ''xmrig'', ''cryptonight'', ''nicehash'', ''pool~.mine'']),
      (''remote_access'', map regex
        [''vnc://'', ''rdp://'', ''remote~.desktop'', ''anydesk'', ''teamviewer''])]"

datatype detector_tier = CoreTier | PolicyTier | CustomTier

record detector_config =
  dc_enabled :: pv
  dc_patterns :: pv
  dc_tier :: detector_tier

type_synonym detectors = "(string \<times> detector_config) list"

section \<open>Tenant configuration\<close>

text \<open>\<open>xs + v\<close> for a list \<open>xs\<close>.\<close>

fun list_plus :: "pv list \<Rightarrow> pv \<Rightarrow> pv list res" where
  "list_plus xs (PList ys) = Inr (xs @ ys)"
| "list_plus xs _ = Inl (TypeError ''can only concatenate list to list'')"

definition core_config :: detectors where
  "core_config = map (\<lambda>(name, ps).
     (name, \<lparr>dc_enabled = PBool True, dc_patterns = PList (map PStr ps), dc_tier = CoreTier\<rparr>)) core_detectors"

fun add_policy :: "dict \<Rightarrow> (string \<times> string list) list \<Rightarrow> detectors \<Rightarrow> detectors res" where
  "add_policy cfg [] ds = Inr ds"
| "add_policy cfg ((name, ps) # rest) ds =
     bind_res (py_get (dget_default cfg ''detectors'' (PDict [])) name (PDict [])) (\<lambda>override.
     bind_res (py_get override ''enabled'' (PBool True)) (\<lambda>enabled.
     bind_res (py_get override ''patterns'' (PList [])) (\<lambda>custom.
     bind_res (list_plus (map PStr ps) custom) (\<lambda>patterns.
       add_policy cfg rest
         (dset name \<lparr>dc_enabled = enabled, dc_patterns = PList patterns, dc_tier = PolicyTier\<rparr> ds)))))"

fun add_custom :: "dict \<Rightarrow> detectors \<Rightarrow> detectors res" where
  "add_custom [] ds = Inr ds"
| "add_custom ((name, cfg) # rest) ds =
     bind_res (py_get cfg ''enabled'' (PBool True)) (\<lambda>enabled.
     bind_res (py_get cfg ''patterns'' (PList [])) (\<lambda>patterns.
       add_custom rest
         (dset name \<lparr>dc_enabled = enabled, dc_patterns = patterns, dc_tier = CustomTier\<rparr> ds)))"

text \<open>\<open>v.items()\<close>.\<close>

fun py_items :: "pv \<Rightarrow> dict res" where
  "py_items (PDict d) = Inr d"
| "py_items _ = Inl (AttributeError ''items'')"

lemma py_items_Inr: "py_items v = Inr d \<longleftrightarrow> v = PDict d"
  by (cases v) auto

definition configure_detectors :: "dict \<Rightarrow> detectors res" where
  "configure_detectors cfg =
     bind_res (add_policy cfg policy_detectors core_config) (\<lambda>ds.
       bind_res (py_items (dget_default cfg ''custom_detectors'' (PDict []))) (\<lambda>customs. add_custom customs ds))"

text \<open>\<open>'|'.join(config['patterns'])\<close>.\<close>

fun join_patterns :: "pv list \<Rightarrow> string list res" where
  "join_patterns [] = Inr []"
| "join_patterns (PStr s # ps) = bind_res (join_patterns ps) (\<lambda>ss. Inr (s # ss))"
| "join_patterns (_ # ps) = Inl (TypeError ''sequence item: expected str instance'')"

fun compile_patterns :: "detectors \<Rightarrow> (string \<times> string) list res" where
  "compile_patterns [] = Inr []"
| "compile_patterns ((name, c) # ds) =
     (if truthy (dc_enabled c) \<and> truthy (dc_patterns c) then
        bind_res (py_iter (dc_patterns c)) (\<lambda>ps.
        bind_res (join_patterns ps) (\<lambda>ss.
        bind_res (compile_patterns ds) (\<lambda>compiled. Inr ((name, join ''|'' ss) # compiled))))
      else compile_patterns ds)"

section \<open>Scoring a text\<close>

record analysis =
  an_threats :: "string list"
  an_scores :: "(string \<times> rat) list"
  an_matches :: "(string \<times> pv list) list"

definition match_score :: "pv list \<Rightarrow> rat" where
  "match_score matches = min 1 (of_nat (length matches) * 0.25)"

definition analyze_detector ::
    "(string \<Rightarrow> string \<Rightarrow> pv list) \<Rightarrow> (string \<times> string) list \<Rightarrow> string \<Rightarrow> string \<times> detector_config \<Rightarrow> analysis \<Rightarrow> analysis" where
  "analyze_detector findall compiled text_lower d a =
     (let (name, c) = d in
      if \<not> truthy (dc_enabled c) then a
      else case map_of compiled name of None \<Rightarrow> a
        | Some pattern \<Rightarrow>
            let matches = findall pattern text_lower;
                score = match_score matches;
                a = a\<lparr>an_scores := dset name score (an_scores a),
                      an_matches := dset name matches (an_matches a)\<rparr>
            in if score > 0 \<and> score \<ge> 0.5 then a\<lparr>an_threats := an_threats a @ [name]\<rparr> else a)"

definition promotional_words :: "string list" where
  "promotional_words = [''join'', ''channel'', ''subscribe'', ''follow'', ''link'', ''free'', ''gift'', ''promo'']"

definition mirror_score :: "string \<Rightarrow> rat \<Rightarrow> rat" where
  "mirror_score text content_similarity =
     (let promotional_keywords = length (filter (\<lambda>w. str_contains w (lower text)) promotional_words) in
      if length text > 150 \<and> promotional_keywords \<ge> 2 \<and> content_similarity > 0.6 then 0.7 else 0)"

definition analyze_content ::
    "(string \<Rightarrow> string \<Rightarrow> pv list) \<Rightarrow> detectors \<Rightarrow> (string \<times> string) list \<Rightarrow> string \<Rightarrow> rat \<Rightarrow> analysis" where
  "analyze_content findall ds compiled text content_similarity =
     (let a = fold (analyze_detector findall compiled (lower text)) ds
                \<lparr>an_threats = [], an_scores = [], an_matches = []\<rparr>;
          mirrored = mirror_score text content_similarity;
          a = (if mirrored > 0 then a\<lparr>an_threats := an_threats a @ [''mirrors_userbots'']\<rparr> else a)
      in a\<lparr>an_scores := dset ''mirrored_content'' mirrored (an_scores a)\<rparr>)"

section \<open>Similarity and account age\<close>

text \<open>\<open>text.split()\<close>.\<close>

function words :: "string \<Rightarrow> string list" where
  "words s = (let t = lstrip s in
     if t = [] then [] else takeWhile (\<lambda>c. \<not> is_space c) t # words (dropWhile (\<lambda>c. \<not> is_space c) t))"
  by pat_completeness auto


termination
proof (relation "measure length", simp)
  fix s t :: string
  assume t: "t = lstrip s" "t \<noteq> []"
  then have "\<not> is_space (hd t)" by (simp add: lstrip_def hd_dropWhile)
  with t(2) have "length (dropWhile (\<lambda>c. \<not> is_space c) t) < length t"
    by (cases t) (auto intro: le_imp_less_Suc length_dropWhile_le)
  also have "length t \<le> length s" by (simp add: t(1) lstrip_def length_dropWhile_le)
  finally show "(dropWhile (\<lambda>c. \<not> is_space c) t, s) \<in> measure length" by simp
qed

definition jaccard :: "string list \<Rightarrow> string list \<Rightarrow> rat" where
  "jaccard xs ys =
     of_nat (card (set xs \<inter> set ys)) / of_nat (card (set xs \<union> set ys))"

definition calc_content_similarity :: "string list \<Rightarrow> string \<Rightarrow> rat" where
  "calc_content_similarity recent text =
     (if text = [] \<or> recent = [] then 0
      else let current_words = words (lower text) in
        if current_words = [] then 0
        else let similarities = map (jaccard current_words) (filter (\<lambda>ws. ws \<noteq> []) (map (words \<circ> lower) recent))
          in if similarities = [] then 0
             else py_round 3 (sum_list similarities / of_nat (length similarities)))"

text \<open>An absent or zero id counts as unknown; a non-numeric id cannot be compared.\<close>

definition estimate_account_age :: "pv \<Rightarrow> int res" where
  "estimate_account_age user_id =
     (if \<not> truthy user_id then Inr 30
      else case num_of user_id of None \<Rightarrow> Inl (TypeError ''< not supported'')
        | Some i \<Rightarrow> Inr (if i < 100000 then 4500 else if i < 10000000 then 3500
            else if i < 100000000 then 2500 else if i < 500000000 then 1200
            else if i < 1000000000 then 600 else if i < 5000000000 then 180 else 30))"

section \<open>The analysis in closed form\<close>

definition matches_of :: "(string \<Rightarrow> string \<Rightarrow> pv list) \<Rightarrow> (string \<times> string) list \<Rightarrow> string \<Rightarrow> string \<times> detector_config \<Rightarrow> pv list" where
  "matches_of findall compiled t d =
     (if truthy (dc_enabled (snd d))
      then case map_of compiled (fst d) of None \<Rightarrow> [] | Some p \<Rightarrow> findall p t
      else [])"

lemma match_score_ge: "1 \<le> match_score ms * 2 \<longleftrightarrow> 2 \<le> length ms"
proof -
  have "1 \<le> match_score ms * 2 \<longleftrightarrow> (2::rat) \<le> of_nat (length ms)"
    by (auto simp: match_score_def min_def)
  also have "\<dots> \<longleftrightarrow> 2 \<le> length ms" by (metis of_nat_le_iff of_nat_numeral)
  finally show ?thesis .
qed

lemma match_score_pos: "2 \<le> length ms \<Longrightarrow> 0 < match_score ms"
  by (cases ms) (simp_all add: match_score_def)

lemma in_unit_match_score [unit_bounds]: "in_unit (match_score ms)"
  by (simp add: match_score_def in_unit_def)

lemma analyze_threats:
  "an_threats (analyze_detector findall compiled t d a) =
     an_threats a @ (if 2 \<le> length (matches_of findall compiled t d) then [fst d] else [])"
  using match_score_pos
  by (cases d) (auto simp: analyze_detector_def matches_of_def Let_def match_score_ge split: option.split)

lemma fold_threats:
  "an_threats (fold (analyze_detector findall compiled t) ds a) =
     an_threats a @ map fst (filter (\<lambda>d. 2 \<le> length (matches_of findall compiled t d)) ds)"
  by (induction ds arbitrary: a) (simp_all add: analyze_threats)

section \<open>Configured detectors\<close>

lemma add_policy_facts:
  "add_policy cfg ps ds = Inr ds' \<Longrightarrow> distinct (map fst ds) \<Longrightarrow>
     distinct (map fst ds') \<and> (name \<notin> set (map fst ps) \<longrightarrow> map_of ds' name = map_of ds name)"
  by (induction cfg ps ds rule: add_policy.induct) (auto simp: bind_res_eq_Inr distinct_dset)

lemma add_custom_facts:
  "add_custom cs ds = Inr ds' \<Longrightarrow> distinct (map fst ds) \<Longrightarrow>
     distinct (map fst ds') \<and> (name \<notin> set (map fst cs) \<longrightarrow> map_of ds' name = map_of ds name)"
  by (induction cs ds rule: add_custom.induct) (auto simp: bind_res_eq_Inr distinct_dset)

lemma core_names: "(name, ps) \<in> set core_detectors \<Longrightarrow> name \<notin> set (map fst policy_detectors)"
  by (auto simp: core_detectors_def policy_detectors_def)

lemma core_config_lookup:
  assumes "(name, ps) \<in> set core_detectors"
  shows "map_of core_config name =
    Some \<lparr>dc_enabled = PBool True, dc_patterns = PList (map PStr ps), dc_tier = CoreTier\<rparr>"
  using assms unfolding core_config_def by (auto simp: core_detectors_def)

lemma distinct_core_config: "distinct (map fst core_config)"
  by (simp add: core_config_def core_detectors_def)

lemma configure_core:
  assumes "configure_detectors cfg = Inr ds" and "(name, ps) \<in> set core_detectors"
    and "\<not> dhas (items_of (dget_default cfg ''custom_detectors'' (PDict []))) name"
  shows "distinct (map fst ds)"
    "map_of ds name = Some \<lparr>dc_enabled = PBool True, dc_patterns = PList (map PStr ps), dc_tier = CoreTier\<rparr>"
proof -
  obtain ds1 customs where 1: "add_policy cfg policy_detectors core_config = Inr ds1"
    and c: "dget_default cfg ''custom_detectors'' (PDict []) = PDict customs" "add_custom customs ds1 = Inr ds"
    using assms(1) by (auto simp: configure_detectors_def bind_res_eq_Inr py_items_Inr)
  have n: "name \<notin> set (map fst customs)" using assms(3) c(1) by (simp add: dhas_iff)
  have d1: "distinct (map fst ds1)" "map_of ds1 name = map_of core_config name"
    using add_policy_facts [OF 1 distinct_core_config, of name] core_names [OF assms(2)] by blast+
  show "distinct (map fst ds)" using add_custom_facts [OF c(2) d1(1)] by blast
  show "map_of ds name = Some \<lparr>dc_enabled = PBool True, dc_patterns = PList (map PStr ps), dc_tier = CoreTier\<rparr>"
    using add_custom_facts [OF c(2) d1(1), of name] n d1(2) core_config_lookup [OF assms(2)] by simp
qed

lemma join_patterns_strs: "join_patterns (map PStr ss) = Inr ss"
  by (induction ss) simp_all

lemma compile_fst: "compile_patterns ds = Inr compiled \<Longrightarrow> name \<notin> set (map fst ds) \<Longrightarrow> map_of compiled name = None"
  by (induction ds arbitrary: compiled rule: compile_patterns.induct) (auto simp: bind_res_eq_Inr split: if_splits)

lemma compile_lookup:
  "compile_patterns ds = Inr compiled \<Longrightarrow> distinct (map fst ds) \<Longrightarrow> map_of ds name = Some c \<Longrightarrow>
     truthy (dc_enabled c) \<Longrightarrow> dc_patterns c = PList (map PStr ss) \<Longrightarrow> ss \<noteq> [] \<Longrightarrow>
     map_of compiled name = Some (join ''|'' ss)"
proof (induction ds arbitrary: compiled rule: compile_patterns.induct)
  case (2 n d ds)
  show ?case
  proof (cases "truthy (dc_enabled d) \<and> truthy (dc_patterns d)")
    case True
    then obtain ss' rest where r: "compile_patterns ds = Inr rest" "compiled = (n, join ''|'' ss') # rest"
      and ss': "bind_res (py_iter (dc_patterns d)) join_patterns = Inr ss'"
      using 2(3) by (auto simp: bind_res_eq_Inr)
    show ?thesis
    proof (cases "name = n")
      case True
      then show ?thesis using 2(5,7) r ss' by (simp add: join_patterns_strs)
    next
      case False
      then show ?thesis using 2 r True by (auto simp: bind_res_eq_Inr)
    qed
  next
    case False
    then show ?thesis using 2 by (auto split: if_splits)
  qed
qed simp

lemma threats_iff:
  assumes "distinct (map fst ds)" and "map_of ds name = Some c" and "name \<noteq> ''mirrors_userbots''"
  shows "name \<in> set (an_threats (analyze_content findall ds compiled text sim)) \<longleftrightarrow>
    2 \<le> length (matches_of findall compiled (lower text) (name, c))"
proof -
  have "name \<in> set (an_threats (analyze_content findall ds compiled text sim)) \<longleftrightarrow>
      name \<in> fst ` set (filter (\<lambda>d. 2 \<le> length (matches_of findall compiled (lower text) d)) ds)"
    using assms(3) by (simp add: analyze_content_def Let_def fold_threats)
  also have "\<dots> \<longleftrightarrow> (\<exists>d. (name, d) \<in> set ds \<and> 2 \<le> length (matches_of findall compiled (lower text) (name, d)))"
    by force
  also have "\<dots> \<longleftrightarrow> 2 \<le> length (matches_of findall compiled (lower text) (name, c))"
    using assms(2) unfolding map_of_eq_Some_iff [OF assms(1), symmetric] by simp
  finally show ?thesis .
qed

section \<open>Properties\<close>

text \<open>C38: The core detectors are always active: whatever a tenant configures for its policy and custom
  detectors, as long as it defines no custom detector of that very name, a core category is
  reported exactly when its default patterns match a text at least twice.\<close>

theorem core_detectors_always_active:
  assumes "configure_detectors cfg = Inr ds" and "compile_patterns ds = Inr compiled"
    and "(name, ps) \<in> set core_detectors"
    and "\<not> dhas (items_of (dget_default cfg ''custom_detectors'' (PDict []))) name"
  shows "name \<in> set (an_threats (analyze_content findall ds compiled text sim)) \<longleftrightarrow>
    2 \<le> length (findall (join ''|'' ps) (lower text))"
proof -
  note conf = configure_core [OF assms(1,3,4)]
  have ne: "ps \<noteq> []" "name \<noteq> ''mirrors_userbots''"
    using assms(3) by (auto simp: core_detectors_def)
  have "map_of compiled name = Some (join ''|'' ps)"
    using compile_lookup [OF assms(2) conf] ne by simp
  then show ?thesis
    unfolding threats_iff [OF conf ne(2)] by (simp add: matches_of_def)
qed

definition lax_tenant :: dict where
  "lax_tenant = [(''detectors'', PDict [(''crypto_mining'', PDict [(''enabled'', PBool False)])])]"

theorem core_detectors_always_active_witness:
  "\<exists>ds compiled. configure_detectors lax_tenant = Inr ds \<and> compile_patterns ds = Inr compiled \<and>
     ''illegal_content'' \<in> set (an_threats (analyze_content (\<lambda>p t. [PStr t, PStr t]) ds compiled ''x'' 0))"
proof -
  have "\<not> isl (bind_res (configure_detectors lax_tenant) compile_patterns)" by code_simp
  then obtain ds compiled where c: "configure_detectors lax_tenant = Inr ds" "compile_patterns ds = Inr compiled"
    by (cases "configure_detectors lax_tenant"; cases "bind_res (configure_detectors lax_tenant) compile_patterns") auto
  obtain ps where "(''illegal_content'', ps) \<in> set core_detectors" by (auto simp: core_detectors_def)
  from core_detectors_always_active [OF c this] have
    "''illegal_content'' \<in> set (an_threats (analyze_content (\<lambda>p t. [PStr t, PStr t]) ds compiled ''x'' 0))"
    by (simp add: lax_tenant_def dget_default_def dhas_def)
  with c show ?thesis by blast
qed

text \<open>A custom detector silently replaces a core detector of the same name: a tenant that configures
  a disabled custom detector \<open>child_exploitation\<close> switches the core category off for every text.\<close>

theorem custom_detector_disables_core:
  "\<exists>ds compiled. configure_detectors [(''custom_detectors'',
       PDict [(''child_exploitation'', PDict [(''enabled'', PBool False)])])] = Inr ds \<and>
     compile_patterns ds = Inr compiled \<and>
     ''child_exploitation'' \<notin> set (an_threats (analyze_content findall ds compiled text sim))"
proof -
  let ?cfg = "[(''custom_detectors'', PDict [(''child_exploitation'', PDict [(''enabled'', PBool False)])])]"
  have "case configure_detectors ?cfg of Inl _ \<Rightarrow> False | Inr ds \<Rightarrow> distinct (map fst ds) \<and>
      (case map_of ds ''child_exploitation'' of None \<Rightarrow> False | Some c \<Rightarrow> dc_enabled c = PBool False) \<and>
      \<not> isl (compile_patterns ds)"
    by code_simp
  then obtain ds c where ds: "configure_detectors ?cfg = Inr ds" "distinct (map fst ds)"
    "map_of ds ''child_exploitation'' = Some c" "dc_enabled c = PBool False" "\<not> isl (compile_patterns ds)"
    by (auto split: sum.splits option.splits)
  obtain compiled where "compile_patterns ds = Inr compiled" using ds(5) by (cases "compile_patterns ds") auto
  with ds threats_iff [OF ds(2,3), of findall compiled "text" sim] show ?thesis
    by (auto simp: matches_of_def)
qed

end
