(* ===== verification/Telegram_Windows.thy ===== *)
theory Telegram_Windows
  imports Session_Store Community Safety
begin

text \<open>
  The behavioural memory of the Telegram adapter (\<open>truepresence/adapters/telegram.py\<close>): bounded queues of
  time stamps per user and per chat that are evicted by age, the latencies of first actions after a
  join, and the community and safety features derived from them. Users and chats are their printed
  ids; time stamps are rationals; \<open>sqroot\<close> stands for the square root inside \<open>statistics.pstdev\<close> and
  nothing is assumed of it.
\<close>

section \<open>Bounded queues evicted by age\<close>

text \<open>\<open>deque(maxlen=n).append(e)\<close>, and \<open>while recent and time(recent[0]) < cutoff: popleft()\<close>.\<close>

definition push :: "nat \<Rightarrow> 'e \<Rightarrow> 'e list \<Rightarrow> 'e list" where
  "push n e xs = keep_last n (xs @ [e])"

definition evict :: "('e \<Rightarrow> rat) \<Rightarrow> rat \<Rightarrow> 'e list \<Rightarrow> 'e list" where
  "evict time cutoff xs = dropWhile (\<lambda>e. time e < cutoff) xs"

text \<open>Reading a \<open>defaultdict(deque)\<close>.\<close>

definition queue_at :: "(string \<times> 'e list) list \<Rightarrow> string \<Rightarrow> 'e list" where
  "queue_at qs k = (case map_of qs k of None \<Rightarrow> [] | Some xs \<Rightarrow> xs)"

lemma queue_at_dset [simp]: "queue_at (dset k xs qs) k' = (if k' = k then xs else queue_at qs k')"
  by (simp add: queue_at_def)

section \<open>The state of the adapter\<close>

type_synonym user_chat = "string \<times> string"

record telegram_state =
  user_message_times :: "(string \<times> rat list) list"
  user_recent_texts :: "(string \<times> string list) list"
  user_chat_join_times :: "(user_chat \<times> rat) list"
  user_chat_first_message_ms :: "(user_chat \<times> rat) list"
  user_chat_first_media_ms :: "(user_chat \<times> rat) list"
  user_chat_first_link_ms :: "(user_chat \<times> rat) list"
  chat_join_times :: "(string \<times> rat list) list"
  chat_message_times :: "(string \<times> (rat \<times> string) list) list"
  user_joined_groups :: "(string \<times> string list) list"
  user_media_times :: "(string \<times> rat list) list"
  chat_media_times :: "(string \<times> (rat \<times> string) list) list"

definition fresh_adapter :: telegram_state where
  "fresh_adapter = \<lparr>user_message_times = [], user_recent_texts = [], user_chat_join_times = [],
     user_chat_first_message_ms = [], user_chat_first_media_ms = [], user_chat_first_link_ms = [],
     chat_join_times = [], chat_message_times = [], user_joined_groups = [], user_media_times = [],
     chat_media_times = []\<rparr>"

section \<open>Messages and joins\<close>

text \<open>The argument is \<open>float(timestamp or time.time())\<close>.\<close>

definition calc_message_velocity :: "string \<Rightarrow> rat \<Rightarrow> telegram_state \<Rightarrow> rat \<times> telegram_state" where
  "calc_message_velocity user now st =
     (if user = [] then (0, st)
      else let recent = evict (\<lambda>t. t) (now - 60) (push 100 now (queue_at (user_message_times st) user))
        in (of_nat (length recent), st\<lparr>user_message_times := dset user recent (user_message_times st)\<rparr>))"

definition remember_text :: "string \<Rightarrow> string \<Rightarrow> telegram_state \<Rightarrow> telegram_state" where
  "remember_text user txt st =
     st\<lparr>user_recent_texts := dset user (push 10 txt (queue_at (user_recent_texts st) user)) (user_recent_texts st)\<rparr>"

definition record_join_metadata :: "string \<Rightarrow> string \<Rightarrow> rat \<Rightarrow> telegram_state \<Rightarrow> telegram_state" where
  "record_join_metadata user chat ts st =
     (let key = (user, chat);
          joins = evict (\<lambda>t. t) (ts - 60) (push 250 ts (queue_at (chat_join_times st) chat));
          groups = queue_at (user_joined_groups st) user
      in st\<lparr>user_chat_join_times := AList.update key ts (user_chat_join_times st),
            user_chat_first_message_ms := AList.delete key (user_chat_first_message_ms st),
            user_chat_first_media_ms := AList.delete key (user_chat_first_media_ms st),
            user_chat_first_link_ms := AList.delete key (user_chat_first_link_ms st),
            chat_join_times := dset chat joins (chat_join_times st),
            user_joined_groups :=
              dset user (if chat \<in> set groups then groups else push 50 chat groups) (user_joined_groups st)\<rparr>)"

definition first_action_latency_ms ::
    "(user_chat \<times> rat) list \<Rightarrow> user_chat \<Rightarrow> rat option \<Rightarrow> rat \<Rightarrow> bool \<Rightarrow>
     rat option \<times> (user_chat \<times> rat) list" where
  "first_action_latency_ms store key join_time ts condition =
     (case join_time of
        None \<Rightarrow> (map_of store key, store)
      | Some joined \<Rightarrow>
          if \<not> condition then (map_of store key, store)
          else let store = (if map_of store key = None
                            then AList.update key (max 0 ((ts - joined) * 1000)) store else store)
            in (map_of store key, store))"

definition intervals_ms :: "rat list \<Rightarrow> rat list" where
  "intervals_ms ts = map2 (\<lambda>left right. max 0 ((right - left) * 1000)) ts (drop 1 ts)"

record interval_summary =
  is_count :: int
  is_bursts :: int
  is_mean :: "rat option"
  is_stddev :: "rat option"

definition message_interval_summary :: "(rat \<Rightarrow> rat) \<Rightarrow> string \<Rightarrow> telegram_state \<Rightarrow> interval_summary" where
  "message_interval_summary sqroot user st =
     (let recent = queue_at (user_message_times st) user; gaps = intervals_ms recent in
      if gaps = [] then \<lparr>is_count = int (length recent), is_bursts = 0, is_mean = None, is_stddev = None\<rparr>
      else \<lparr>is_count = int (length recent),
            is_bursts = int (length (filter (\<lambda>g. g \<le> 2000) gaps)),
            is_mean = Some (py_round 3 (sum_list gaps / of_nat (length gaps))),
            is_stddev = Some (if length gaps > 1 then py_round 3 (sqroot (variance gaps)) else 0)\<rparr>)"

definition joined_within_count :: "string \<Rightarrow> rat \<Rightarrow> telegram_state \<Rightarrow> int \<times> telegram_state" where
  "joined_within_count chat ts st =
     (if queue_at (chat_join_times st) chat = [] then (0, st)
      else let recent = evict (\<lambda>t. t) (ts - 60) (queue_at (chat_join_times st) chat)
        in (int (length recent), st\<lparr>chat_join_times := dset chat recent (chat_join_times st)\<rparr>))"

definition peers_of :: "string \<Rightarrow> (rat \<times> string) list \<Rightarrow> int" where
  "peers_of user recent = int (card (snd ` set (filter (\<lambda>e. snd e \<noteq> user) recent)))"

definition synchronized_peers :: "string \<Rightarrow> string \<Rightarrow> rat \<Rightarrow> telegram_state \<Rightarrow> int \<times> telegram_state" where
  "synchronized_peers chat user ts st =
     (let recent = evict fst (ts - 3) (queue_at (chat_message_times st) chat)
      in (peers_of user recent, st\<lparr>chat_message_times := dset chat recent (chat_message_times st)\<rparr>))"

definition record_message_cluster :: "string \<Rightarrow> string \<Rightarrow> rat \<Rightarrow> telegram_state \<Rightarrow> telegram_state" where
  "record_message_cluster chat user ts st =
     st\<lparr>chat_message_times :=
          dset chat (evict fst (ts - 60) (push 250 (ts, user) (queue_at (chat_message_times st) chat)))
            (chat_message_times st)\<rparr>"

definition group_hops :: "string \<Rightarrow> telegram_state \<Rightarrow> int" where
  "group_hops user st = int (card (set (queue_at (user_joined_groups st) user)))"

section \<open>Community features\<close>

definition build_community_features_for_member ::
    "string \<Rightarrow> string \<Rightarrow> rat \<Rightarrow> telegram_state \<Rightarrow> community_features \<times> telegram_state" where
  "build_community_features_for_member user chat ts st =
     (let (joined, st) = joined_within_count chat ts st in
      (\<lparr>join_to_first_message_ms = None, cf_join_to_first_media_ms = None, join_to_first_link_ms = None,
        message_count_window = None, burst_count = None, mean_message_interval_ms = None,
        message_interval_stddev_ms = None, joined_within_cluster_count = Some joined,
        synchronized_peer_count = None, group_hop_count = Some (group_hops user st),
        link_present = False, cf_media_present = False\<rparr>, st))"

definition build_community_features_for_message ::
    "(rat \<Rightarrow> rat) \<Rightarrow> string \<Rightarrow> string \<Rightarrow> rat \<Rightarrow> bool \<Rightarrow> bool \<Rightarrow> telegram_state \<Rightarrow>
     community_features \<times> telegram_state" where
  "build_community_features_for_message sqroot user chat ts link media st =
     (let key = (user, chat);
          join_time = map_of (user_chat_join_times st) key;
          (first_message, messages) = first_action_latency_ms (user_chat_first_message_ms st) key join_time ts True;
          (first_media, medias) = first_action_latency_ms (user_chat_first_media_ms st) key join_time ts media;
          (first_link, links) = first_action_latency_ms (user_chat_first_link_ms st) key join_time ts link;
          st = st\<lparr>user_chat_first_message_ms := messages, user_chat_first_media_ms := medias,
                  user_chat_first_link_ms := links\<rparr>;
          summary = message_interval_summary sqroot user st;
          (peers, st) = synchronized_peers chat user ts st;
          st = record_message_cluster chat user ts st;
          (joined, st) = joined_within_count chat ts st
      in (\<lparr>join_to_first_message_ms = first_message, cf_join_to_first_media_ms = first_media,
            join_to_first_link_ms = first_link, message_count_window = Some (is_count summary),
            burst_count = Some (is_bursts summary), mean_message_interval_ms = is_mean summary,
            message_interval_stddev_ms = is_stddev summary, joined_within_cluster_count = Some joined,
            synchronized_peer_count = Some peers, group_hop_count = Some (group_hops user st),
            link_present = link, cf_media_present = media\<rparr>, st))"

section \<open>Safety features\<close>

definition media_interval_summary :: "string \<Rightarrow> rat \<Rightarrow> bool \<Rightarrow> telegram_state \<Rightarrow> (int \<times> int) \<times> telegram_state" where
  "media_interval_summary user ts media st =
     (let recent = queue_at (user_media_times st) user;
          recent = (if media then push 100 ts recent else recent);
          recent = evict (\<lambda>t. t) (ts - 60) recent
      in ((int (length recent), int (length (filter (\<lambda>g. g \<le> 10000) (intervals_ms recent)))),
          st\<lparr>user_media_times := dset user recent (user_media_times st)\<rparr>))"

definition synchronized_media_peers :: "string \<Rightarrow> string \<Rightarrow> rat \<Rightarrow> telegram_state \<Rightarrow> int \<times> telegram_state" where
  "synchronized_media_peers chat user ts st =
     (let recent = evict fst (ts - 10) (queue_at (chat_media_times st) chat)
      in (peers_of user recent, st\<lparr>chat_media_times := dset chat recent (chat_media_times st)\<rparr>))"

definition record_media_cluster :: "string \<Rightarrow> string \<Rightarrow> rat \<Rightarrow> telegram_state \<Rightarrow> telegram_state" where
  "record_media_cluster chat user ts st =
     st\<lparr>chat_media_times :=
          dset chat (evict fst (ts - 60) (push 250 (ts, user) (queue_at (chat_media_times st) chat)))
            (chat_media_times st)\<rparr>"

text \<open>The ids given here are those of the message itself, as it carries them; the time stamp is the raw one.\<close>

definition build_safety_features_for_message ::
    "string \<Rightarrow> string \<Rightarrow> rat \<Rightarrow> pv \<Rightarrow> pv \<Rightarrow> pv \<Rightarrow> pv \<Rightarrow> bool \<Rightarrow> community_features \<Rightarrow> int \<Rightarrow>
     telegram_state \<Rightarrow> safety_features \<times> telegram_state" where
  "build_safety_features_for_message user chat ts chat_id message_id sender_id raw_ts media cf age st =
     (let ((media_count, media_bursts), st) = media_interval_summary user ts media st;
          (peers, st) = synchronized_media_peers chat user ts st;
          st = (if media then record_media_cluster chat user ts st else st)
      in (\<lparr>sf_chat_id = chat_id, sf_message_id = message_id, sf_sender_id = sender_id,
            sf_event_timestamp = raw_ts, sf_event_type = ''message'', sf_media_present = media,
            sf_join_to_first_media_ms = cf_join_to_first_media_ms cf,
            sf_media_count_window = media_count, sf_media_burst_count = media_bursts,
            sf_synchronized_media_peer_count = (if media then peers else 0),
            sf_group_hop_count = (case group_hop_count cf of None \<Rightarrow> 0 | Some n \<Rightarrow> n),
            sf_account_age_days = Some age, sf_rapid_delete_repost_count = 0\<rparr>, st))"

section \<open>Windows over a history\<close>

text \<open>A queue represents a history when it holds the most recent \<open>n\<close> entries from some cutoff on that is
  not above \<open>bound\<close>.\<close>

definition window_of_history :: "('e \<Rightarrow> rat) \<Rightarrow> nat \<Rightarrow> rat \<Rightarrow> 'e list \<Rightarrow> 'e list \<Rightarrow> bool" where
  "window_of_history time n bound es q \<longleftrightarrow>
     (\<exists>c \<le> bound. q = keep_last n (filter (\<lambda>e. c \<le> time e) es))"

lemma dropWhile_sorted:
  "sorted (map time es) \<Longrightarrow> dropWhile (\<lambda>e. time e < c) es = filter (\<lambda>e. c \<le> time e) es"
proof (induction es)
  case (Cons e es)
  show ?case
  proof (cases "time e < c")
    case False
    then have "\<forall>x \<in> set es. c \<le> time x" using Cons(2) by fastforce
    with False show ?thesis by (simp add: filter_id_conv [THEN iffD2])
  qed (use Cons in simp)
qed simp

lemma filter_sorted_suffix:
  "sorted (map time es) \<Longrightarrow> \<exists>k. filter (\<lambda>e. c \<le> time e) es = drop k es"
  by (metis dropWhile_sorted dropWhile_eq_drop)

lemma sorted_drop_map: "sorted (map time es) \<Longrightarrow> sorted (map time (drop k es))"
  by (metis drop_map sorted_wrt_drop)

lemma sorted_filter_map: "sorted (map time es) \<Longrightarrow> sorted (map time (filter P es))"
  by (rule sorted_filter)

lemma filter_keep_last:
  assumes "sorted (map time es)"
  shows "filter (\<lambda>e. c \<le> time e) (keep_last n es) = keep_last n (filter (\<lambda>e. c \<le> time e) es)"
proof -
  obtain k where k: "filter (\<lambda>e. c \<le> time e) es = drop k es" using filter_sorted_suffix [OF assms] by blast
  let ?m = "length es - n"
  have "filter (\<lambda>e. c \<le> time e) (drop ?m es) = drop (max k ?m) es"
  proof (cases "?m \<le> k")
    case True
    have "filter (\<lambda>e. c \<le> time e) es =
        filter (\<lambda>e. c \<le> time e) (take ?m es) @ filter (\<lambda>e. c \<le> time e) (drop ?m es)"
      by (simp flip: filter_append)
    moreover have "filter (\<lambda>e. c \<le> time e) (take ?m es) = []"
    proof (rule ccontr)
      assume ne: "filter (\<lambda>e. c \<le> time e) (take ?m es) \<noteq> []"
      then obtain i where i: "i < ?m" "i < length es" "c \<le> time (es ! i)"
        by (auto simp: filter_empty_conv in_set_conv_nth)
      have "length (filter (\<lambda>e. c \<le> time e) es) \<ge> length (drop i es)"
      proof -
        have "c \<le> time (es ! j)" if "i \<le> j" "j < length es" for j
          using sorted_nth_mono [OF assms that(1)] i that by simp
        then have "\<forall>x \<in> set (drop i es). c \<le> time x" by (auto simp: in_set_conv_nth)
        then have "filter (\<lambda>e. c \<le> time e) (drop i es) = drop i es" by simp
        moreover have "length (filter (\<lambda>e. c \<le> time e) es) \<ge> length (filter (\<lambda>e. c \<le> time e) (drop i es))"
          by (metis append_take_drop_id filter_append le_add2 length_append)
        ultimately show ?thesis by simp
      qed
      then show False using i True by (simp add: k)
    qed
    ultimately show ?thesis using True k by (simp add: max_absorb1)
  next
    case False
    then have "drop ?m es = drop (?m - k) (drop k es)" by simp
    moreover have "\<forall>x \<in> set (drop k es). c \<le> time x" unfolding k [symmetric] by simp
    ultimately have "\<forall>x \<in> set (drop ?m es). c \<le> time x" by (metis in_set_dropD)
    then show ?thesis using False by (simp add: max_absorb2)
  qed
  moreover have "keep_last n (drop k es) = drop (max k ?m) es"
  proof -
    have "length es - (k + n) + k = max k ?m" by linarith
    then show ?thesis by (simp add: keep_last_def)
  qed
  ultimately show ?thesis by (simp add: keep_last_def k)
qed

lemma window_nil: "window_of_history time n bound [] []"
  by (auto simp: window_of_history_def keep_last_def)

lemma window_mono: "window_of_history time n b es q \<Longrightarrow> b \<le> b' \<Longrightarrow> window_of_history time n b' es q"
  by (auto simp: window_of_history_def intro: order_trans)

lemma window_push:
  assumes "window_of_history time n b es q" and "b \<le> time e"
  shows "window_of_history time n b (es @ [e]) (push n e q)"
proof -
  obtain c where "c \<le> b" "q = keep_last n (filter (\<lambda>e. c \<le> time e) es)"
    using assms(1) by (auto simp: window_of_history_def)
  with assms(2) show ?thesis
    by (auto simp: window_of_history_def push_def keep_last_keep_last intro!: exI [of _ c])
qed

lemma evict_window:
  assumes "window_of_history time n b es q" and "sorted (map time es)"
  shows "\<exists>c \<le> b. evict time c' q = keep_last n (filter (\<lambda>e. max c c' \<le> time e) es)"
proof -
  obtain c where c: "c \<le> b" "q = keep_last n (filter (\<lambda>e. c \<le> time e) es)"
    using assms(1) by (auto simp: window_of_history_def)
  have s: "sorted (map time (filter (\<lambda>e. c \<le> time e) es))" by (rule sorted_filter) (rule assms(2))
  then have "sorted (map time q)" unfolding c(2) keep_last_def by (rule sorted_drop_map)
  then have "evict time c' q = filter (\<lambda>e. c' \<le> time e) q" by (simp add: evict_def dropWhile_sorted)
  also have "\<dots> = keep_last n (filter (\<lambda>e. max c c' \<le> time e) es)"
    unfolding c(2) filter_keep_last [OF s] by (simp add: conj_commute)
  finally show ?thesis using c(1) by blast
qed

lemma window_evict:
  assumes "window_of_history time n b es q" and "sorted (map time es)"
  shows "window_of_history time n (max b c') es (evict time c' q)"
  using evict_window [OF assms, of c'] unfolding window_of_history_def by (metis max.mono order_refl)

lemma evict_exact:
  assumes "window_of_history time n b es q" and "sorted (map time es)" and "b \<le> c'"
  shows "evict time c' q = keep_last n (filter (\<lambda>e. c' \<le> time e) es)"
proof -
  obtain c where "c \<le> b" "evict time c' q = keep_last n (filter (\<lambda>e. max c c' \<le> time e) es)"
    using evict_window [OF assms(1,2)] by blast
  moreover from this have "max c c' = c'" using assms(3) by simp
  ultimately show ?thesis by metis
qed

section \<open>Histories of the adapter\<close>

datatype observation =
    Joined (ob_user: string) (ob_chat: string) (ob_time: rat)
  | Posted (ob_user: string) (ob_chat: string) (ob_time: rat) (ob_link: bool) (ob_media: bool)

text \<open>The effect of one update on the windows: a join records its metadata and reads the join window; a
  message computes the velocity, the community features and the safety features, in that order. The time stamp of
  a message is not zero, which the velocity would replace by the clock (\<open>message_velocity_step\<close>).\<close>

fun observe :: "(rat \<Rightarrow> rat) \<Rightarrow> observation \<Rightarrow> telegram_state \<Rightarrow> community_features \<times> telegram_state" where
  "observe sqroot (Joined user chat ts) st =
     build_community_features_for_member user chat ts (record_join_metadata user chat ts st)"
| "observe sqroot (Posted user chat ts link media) st =
     (let (velocity, st) = calc_message_velocity user ts st;
          (cf, st) = build_community_features_for_message sqroot user chat ts link media st;
          (sf, st) = build_safety_features_for_message user chat ts PNone PNone PNone PNone media cf 0 st
      in (cf, st))"

declare observe.simps [simp del]

definition observe_all :: "(rat \<Rightarrow> rat) \<Rightarrow> observation list \<Rightarrow> telegram_state \<Rightarrow> telegram_state" where
  "observe_all sqroot obs st = fold (\<lambda>ob st. snd (observe sqroot ob st)) obs st"

definition posts_by :: "string \<Rightarrow> observation list \<Rightarrow> rat list" where
  "posts_by u obs = [ob_time x. x \<leftarrow> obs, \<not> is_Joined x \<and> ob_user x = u]"

definition posts_in :: "string \<Rightarrow> observation list \<Rightarrow> (rat \<times> string) list" where
  "posts_in c obs = [(ob_time x, ob_user x). x \<leftarrow> obs, \<not> is_Joined x \<and> ob_chat x = c]"

definition joins_in :: "string \<Rightarrow> observation list \<Rightarrow> rat list" where
  "joins_in c obs = [ob_time x. x \<leftarrow> obs, is_Joined x \<and> ob_chat x = c]"

text \<open>Every window represents its part of the history, up to the age the adapter evicts at.\<close>

definition windows_ok :: "rat \<Rightarrow> observation list \<Rightarrow> telegram_state \<Rightarrow> bool" where
  "windows_ok now obs st \<longleftrightarrow>
     (\<forall>u. u \<noteq> [] \<longrightarrow> window_of_history (\<lambda>t. t) 100 (now - 60) (posts_by u obs) (queue_at (user_message_times st) u)) \<and>
     (\<forall>c. window_of_history fst 250 (now - 3) (posts_in c obs) (queue_at (chat_message_times st) c)) \<and>
     (\<forall>c. window_of_history (\<lambda>t. t) 250 (now - 60) (joins_in c obs) (queue_at (chat_join_times st) c))"

lemma windows_okI:
  assumes "\<And>v. v \<noteq> [] \<Longrightarrow> window_of_history (\<lambda>t. t) 100 (now - 60) (posts_by v obs) (queue_at (user_message_times st) v)"
    and "\<And>v. window_of_history fst 250 (now - 3) (posts_in v obs) (queue_at (chat_message_times st) v)"
    and "\<And>v. window_of_history (\<lambda>t. t) 250 (now - 60) (joins_in v obs) (queue_at (chat_join_times st) v)"
  shows "windows_ok now obs st"
  using assms by (simp add: windows_ok_def)

lemma windows_okD:
  assumes "windows_ok now obs st"
  shows "v \<noteq> [] \<Longrightarrow> window_of_history (\<lambda>t. t) 100 (now - 60) (posts_by v obs) (queue_at (user_message_times st) v)"
    "window_of_history fst 250 (now - 3) (posts_in v obs) (queue_at (chat_message_times st) v)"
    "window_of_history (\<lambda>t. t) 250 (now - 60) (joins_in v obs) (queue_at (chat_join_times st) v)"
  using assms by (simp_all add: windows_ok_def)

lemma window_later:
  "window_of_history time n (now - age) es q \<Longrightarrow> now \<le> t \<Longrightarrow> window_of_history time n (t - age) es q"
  by (erule window_mono) (rule diff_right_mono)

lemma windows_ok_later: "windows_ok now obs st \<Longrightarrow> now \<le> t \<Longrightarrow> windows_ok t obs st"
  by (rule windows_okI; rule window_later [of _ _ now]; (rule windows_okD)?; assumption)

lemma history_simps [simp]:
  "posts_by u (obs @ [x]) = posts_by u obs @ (if \<not> is_Joined x \<and> ob_user x = u then [ob_time x] else [])"
  "posts_in c (obs @ [x]) = posts_in c obs @ (if \<not> is_Joined x \<and> ob_chat x = c then [(ob_time x, ob_user x)] else [])"
  "joins_in c (obs @ [x]) = joins_in c obs @ (if is_Joined x \<and> ob_chat x = c then [ob_time x] else [])"
  by (simp_all add: posts_by_def posts_in_def joins_in_def)

lemma sorted_histories:
  assumes "sorted (map ob_time obs)"
  shows "sorted (posts_by u obs)" "sorted (map fst (posts_in c obs))" "sorted (joins_in c obs)"
proof -
  have "posts_by u obs = map ob_time (filter (\<lambda>x. \<not> is_Joined x \<and> ob_user x = u) obs)"
    "map fst (posts_in c obs) = map ob_time (filter (\<lambda>x. \<not> is_Joined x \<and> ob_chat x = c) obs)"
    "joins_in c obs = map ob_time (filter (\<lambda>x. is_Joined x \<and> ob_chat x = c) obs)"
    by (induction obs) (simp_all add: posts_by_def posts_in_def joins_in_def)
  then show "sorted (posts_by u obs)" "sorted (map fst (posts_in c obs))" "sorted (joins_in c obs)"
    using sorted_filter [OF assms] by simp_all
qed

lemmas window_ops = calc_message_velocity_def build_community_features_for_message_def
  build_safety_features_for_message_def record_join_metadata_def build_community_features_for_member_def
  joined_within_count_def synchronized_peers_def record_message_cluster_def media_interval_summary_def
  synchronized_media_peers_def record_media_cluster_def

lemma evict_Nil [simp]: "evict time c [] = []"
  by (simp add: evict_def)

lemma posted_windows:
  assumes "snd (observe sqroot (Posted u c t link media) st) = st'"
  shows "u \<noteq> [] \<Longrightarrow> queue_at (user_message_times st') u = evict (\<lambda>t. t) (t - 60) (push 100 t (queue_at (user_message_times st) u))"
    "u' \<noteq> u \<Longrightarrow> queue_at (user_message_times st') u' = queue_at (user_message_times st) u'"
    "queue_at (chat_message_times st') c =
       evict fst (t - 60) (push 250 (t, u) (evict fst (t - 3) (queue_at (chat_message_times st) c)))"
    "c' \<noteq> c \<Longrightarrow> queue_at (chat_message_times st') c' = queue_at (chat_message_times st) c'"
    "queue_at (chat_join_times st') c = evict (\<lambda>t. t) (t - 60) (queue_at (chat_join_times st) c)"
    "c' \<noteq> c \<Longrightarrow> queue_at (chat_join_times st') c' = queue_at (chat_join_times st) c'"
  unfolding assms [symmetric]
  by (simp_all add: observe.simps window_ops split_beta Let_def)

lemma joined_windows:
  assumes "snd (observe sqroot (Joined u c t) st) = st'"
  shows "user_message_times st' = user_message_times st" "chat_message_times st' = chat_message_times st"
    "queue_at (chat_join_times st') c =
       evict (\<lambda>t. t) (t - 60) (evict (\<lambda>t. t) (t - 60) (push 250 t (queue_at (chat_join_times st) c)))"
    "c' \<noteq> c \<Longrightarrow> queue_at (chat_join_times st') c' = queue_at (chat_join_times st) c'"
  unfolding assms [symmetric]
  by (simp_all add: observe.simps window_ops split_beta Let_def)

lemma window_step:
  assumes "window_of_history time n (now - age) es q" and "sorted (map time es)"
    and "now \<le> t" and "0 \<le> age" and "\<And>e. e \<in> set es \<Longrightarrow> time e \<le> t" and "time e = t"
  shows "window_of_history time n (t - age) (es @ [e]) (evict time (t - age) (push n e q))"
proof -
  have "window_of_history time n (t - age) (es @ [e]) (push n e q)"
    using assms by (intro window_push window_mono [OF assms(1)]) auto
  moreover have "sorted (map time (es @ [e]))"
    using assms by (auto simp: sorted_append)
  ultimately show ?thesis using window_evict [of time n "t - age" "es @ [e]" "push n e q" "t - age"] by simp
qed

lemma history_le:
  assumes "\<And>x. x \<in> set obs \<Longrightarrow> ob_time x \<le> t"
  shows "x \<in> set (posts_by v obs) \<Longrightarrow> x \<le> t" "x \<in> set (joins_in v obs) \<Longrightarrow> x \<le> t"
    "y \<in> set (posts_in v obs) \<Longrightarrow> fst y \<le> t"
  using assms by (auto simp: posts_by_def joins_in_def posts_in_def)

lemma user_window_posted:
  assumes old: "window_of_history (\<lambda>t. t) 100 (now - 60) (posts_by v obs) (queue_at (user_message_times st) v)"
    and so: "sorted (map ob_time obs)" and le: "\<And>x. x \<in> set obs \<Longrightarrow> ob_time x \<le> t" and "now \<le> t" and "v \<noteq> []"
  shows "window_of_history (\<lambda>t. t) 100 (t - 60) (posts_by v (obs @ [Posted u c t link media]))
    (queue_at (user_message_times (snd (observe sqroot (Posted u c t link media) st))) v)"
proof (cases "v = u")
  case True
  have "window_of_history (\<lambda>t. t) 100 (t - 60) (posts_by v obs @ [t])
      (evict (\<lambda>t. t) (t - 60) (push 100 t (queue_at (user_message_times st) v)))"
    using window_step [OF old _ \<open>now \<le> t\<close>] sorted_histories(1) [OF so] history_le(1) [OF le] by simp
  with True \<open>v \<noteq> []\<close> show ?thesis by (simp add: posted_windows(1) [OF refl])
next
  case False
  then show ?thesis using window_mono [OF old, of "t - 60"] \<open>now \<le> t\<close> by (simp add: posted_windows(2) [OF refl])
qed

lemma chat_window_posted:
  assumes old: "window_of_history fst 250 (now - 3) (posts_in v obs) (queue_at (chat_message_times st) v)"
    and so: "sorted (map ob_time obs)" and le: "\<And>x. x \<in> set obs \<Longrightarrow> ob_time x \<le> t" and "now \<le> t"
  shows "window_of_history fst 250 (t - 3) (posts_in v (obs @ [Posted u c t link media]))
    (queue_at (chat_message_times (snd (observe sqroot (Posted u c t link media) st))) v)"
proof -
  have old: "window_of_history fst 250 (t - 3) (posts_in v obs) (queue_at (chat_message_times st) v)"
    using window_mono [OF old] \<open>now \<le> t\<close> by simp
  note sh = sorted_histories(2) [OF so]
  show ?thesis
  proof (cases "v = c")
    case True
    have "window_of_history fst 250 (t - 3) (posts_in c obs) (evict fst (t - 3) (queue_at (chat_message_times st) c))"
      using window_evict [OF old sh, of "t - 3"] True by simp
    then have p: "window_of_history fst 250 (t - 3) (posts_in c obs @ [(t, u)])
        (push 250 (t, u) (evict fst (t - 3) (queue_at (chat_message_times st) c)))"
      by (rule window_push) simp
    have "sorted (map fst (posts_in c obs @ [(t, u)]))"
      using sh [of c] history_le(3) [OF le] by (auto simp: sorted_append)
    from window_evict [OF p this, of "t - 60"] show ?thesis using True by (simp add: posted_windows(3) [OF refl])
  next
    case False
    then show ?thesis using old by (simp add: posted_windows(4) [OF refl])
  qed
qed

lemma join_window_posted:
  assumes old: "window_of_history (\<lambda>t. t) 250 (now - 60) (joins_in v obs) (queue_at (chat_join_times st) v)"
    and so: "sorted (map ob_time obs)" and "now \<le> t"
  shows "window_of_history (\<lambda>t. t) 250 (t - 60) (joins_in v (obs @ [Posted u c t link media]))
    (queue_at (chat_join_times (snd (observe sqroot (Posted u c t link media) st))) v)"
proof -
  have old: "window_of_history (\<lambda>t. t) 250 (t - 60) (joins_in v obs) (queue_at (chat_join_times st) v)"
    using window_mono [OF old] \<open>now \<le> t\<close> by simp
  then show ?thesis
    using window_evict [OF old, of "t - 60"] sorted_histories(3) [OF so]
    by (cases "v = c") (simp_all add: posted_windows(5,6) [OF refl])
qed

lemma windows_posted:
  assumes ok: "windows_ok now obs st" and s: "sorted (map ob_time (obs @ [Posted u c t link media]))" and "now \<le> t"
  shows "windows_ok t (obs @ [Posted u c t link media]) (snd (observe sqroot (Posted u c t link media) st))"
proof -
  have so: "sorted (map ob_time obs)" and le: "\<And>x. x \<in> set obs \<Longrightarrow> ob_time x \<le> t"
    using s by (auto simp: sorted_append)
  note user = user_window_posted [OF _ so le \<open>now \<le> t\<close>]
    and chat = chat_window_posted [OF _ so le \<open>now \<le> t\<close>] and join = join_window_posted [OF _ so \<open>now \<le> t\<close>]
  show ?thesis
    by (rule windows_okI) (rule user chat join; (rule windows_okD [OF ok])?; assumption?)+
qed

lemma windows_joined:
  assumes "windows_ok now obs st" and s: "sorted (map ob_time (obs @ [Joined u c t]))" and "now \<le> t"
  shows "windows_ok t (obs @ [Joined u c t]) (snd (observe sqroot (Joined u c t) st))"
proof -
  note w = joined_windows [OF refl, where sqroot = sqroot and u = u and c = c and t = t and st = st]
  have so: "sorted (map ob_time obs)" and le: "\<And>x. x \<in> set obs \<Longrightarrow> ob_time x \<le> t"
    using s by (auto simp: sorted_append)
  have join: "window_of_history (\<lambda>t. t) 250 (t - 60) (joins_in v (obs @ [Joined u c t]))
      (queue_at (chat_join_times (snd (observe sqroot (Joined u c t) st))) v)"
    if old: "window_of_history (\<lambda>t. t) 250 (now - 60) (joins_in v obs) (queue_at (chat_join_times st) v)" for v
  proof (cases "v = c")
    case True
    have "window_of_history (\<lambda>t. t) 250 (t - 60) (joins_in c obs @ [t])
        (evict (\<lambda>t. t) (t - 60) (push 250 t (queue_at (chat_join_times st) c)))"
      using window_step [OF old _ \<open>now \<le> t\<close>] sorted_histories(3) [OF so] history_le(2) [OF le] True by simp
    moreover have "sorted (map (\<lambda>t. t) (joins_in c obs @ [t]))"
      using sorted_histories(3) [OF so] history_le(2) [OF le] by (auto simp: sorted_append)
    ultimately show ?thesis
      using window_evict [of "\<lambda>t. t" 250 "t - 60" "joins_in c obs @ [t]" _ "t - 60"] True w(3) by simp
  next
    case False
    then show ?thesis using window_mono [OF old, of "t - 60"] \<open>now \<le> t\<close> w(4) by simp
  qed
  show ?thesis
  proof (rule windows_okI)
    show "window_of_history (\<lambda>t. t) 100 (t - 60) (posts_by v (obs @ [Joined u c t]))
        (queue_at (user_message_times (snd (observe sqroot (Joined u c t) st))) v)" if "v \<noteq> []" for v
      using window_later [OF windows_okD(1) [OF assms(1) that] \<open>now \<le> t\<close>] by (simp add: w(1))
    show "window_of_history fst 250 (t - 3) (posts_in v (obs @ [Joined u c t]))
        (queue_at (chat_message_times (snd (observe sqroot (Joined u c t) st))) v)" for v
      using window_later [OF windows_okD(2) [OF assms(1)] \<open>now \<le> t\<close>] by (simp add: w(2))
  qed (rule join, rule windows_okD(3) [OF assms(1)])
qed

lemma windows_fresh: "windows_ok now [] fresh_adapter"
  by (simp add: windows_ok_def posts_by_def posts_in_def joins_in_def fresh_adapter_def queue_at_def window_nil)

lemma windows_all:
  "sorted (map ob_time obs) \<Longrightarrow> windows_ok (if obs = [] then now else ob_time (last obs)) obs (observe_all sqroot obs fresh_adapter)"
proof (induction obs rule: rev_induct)
  case Nil
  show ?case using windows_fresh by (simp add: observe_all_def)
next
  case (snoc x obs)
  define t0 where "t0 = (if obs = [] then ob_time x else ob_time (last obs))"
  have ok: "windows_ok t0 obs (observe_all sqroot obs fresh_adapter)"
    using snoc windows_fresh [of t0] by (cases "obs = []") (simp_all add: t0_def observe_all_def sorted_append)
  have le: "t0 \<le> ob_time x"
    using snoc(2) by (auto simp: t0_def sorted_append)
  have step: "observe_all sqroot (obs @ [x]) fresh_adapter =
      snd (observe sqroot x (observe_all sqroot obs fresh_adapter))"
    by (simp add: observe_all_def)
  show ?case
    using windows_posted [OF ok] windows_joined [OF ok] snoc(2) le unfolding step by (cases x) simp_all
qed

lemma posted_features:
  assumes "fst (observe sqroot (Posted u c t link media) st) = cf" and "u \<noteq> []"
  shows "message_count_window cf =
      Some (int (length (evict (\<lambda>t. t) (t - 60) (push 100 t (queue_at (user_message_times st) u)))))"
    "synchronized_peer_count cf = Some (peers_of u (evict fst (t - 3) (queue_at (chat_message_times st) c)))"
    "joined_within_cluster_count cf = Some (int (length (evict (\<lambda>t. t) (t - 60) (queue_at (chat_join_times st) c))))"
  unfolding assms(1) [symmetric] using assms(2)
  by (simp_all add: observe.simps window_ops message_interval_summary_def split_beta Let_def)

section \<open>Properties\<close>

text \<open>C33: The features of a message are those of the history: if updates arrive in the order of their time
  stamps, the message count is the number of the sender's messages of the last minute, the
  synchronized peers are the other members with a message in the chat in the last three seconds, and
  the join count is the number of joins of the chat in the last minute, up to the queue capacities.\<close>

theorem features_reflect_history:
  assumes "sorted (map ob_time (obs @ [Posted u c t link media]))" and "u \<noteq> []"
    and "cf = fst (observe sqroot (Posted u c t link media) (observe_all sqroot obs fresh_adapter))"
  shows "message_count_window cf = Some (int (min 100 (length (filter (\<lambda>x. t - 60 \<le> x) (posts_by u obs @ [t]))))) \<and>
    synchronized_peer_count cf =
      Some (peers_of u (keep_last 250 (filter (\<lambda>e. t - 3 \<le> fst e) (posts_in c obs)))) \<and>
    joined_within_cluster_count cf = Some (int (min 250 (length (filter (\<lambda>x. t - 60 \<le> x) (joins_in c obs)))))"
proof -
  let ?st = "observe_all sqroot obs fresh_adapter"
  have so: "sorted (map ob_time obs)" and le: "\<And>x. x \<in> set obs \<Longrightarrow> ob_time x \<le> t"
    using assms(1) by (auto simp: sorted_append)
  have ok: "windows_ok t obs ?st"
    using windows_all [OF so, of t sqroot] le
    by (cases "obs = []") (auto intro: windows_ok_later)
  note f = posted_features [OF assms(3) [symmetric] assms(2)]
  have "window_of_history (\<lambda>t. t) 100 (t - 60) (posts_by u obs @ [t]) (push 100 t (queue_at (user_message_times ?st) u))"
    using windows_okD(1) [OF ok assms(2)] by (rule window_push) simp
  moreover have "sorted (map (\<lambda>t. t) (posts_by u obs @ [t]))"
    using sorted_histories(1) [OF so] history_le(1) [OF le] by (auto simp: sorted_append)
  ultimately have "evict (\<lambda>t. t) (t - 60) (push 100 t (queue_at (user_message_times ?st) u)) =
      keep_last 100 (filter (\<lambda>x. t - 60 \<le> x) (posts_by u obs @ [t]))"
    by (rule evict_exact) simp
  moreover have "evict fst (t - 3) (queue_at (chat_message_times ?st) c) =
      keep_last 250 (filter (\<lambda>e. t - 3 \<le> fst e) (posts_in c obs))"
    using windows_okD(2) [OF ok] sorted_histories(2) [OF so] by (rule evict_exact) simp
  moreover have "evict (\<lambda>t. t) (t - 60) (queue_at (chat_join_times ?st) c) =
      keep_last 250 (filter (\<lambda>x. t - 60 \<le> x) (joins_in c obs))"
    using windows_okD(3) [OF ok] sorted_histories(3) [OF so] by (intro evict_exact) auto
  ultimately show ?thesis
    unfolding f by (simp only: length_keep_last of_nat_min min.commute)
qed

theorem features_reflect_history_witness:
  "message_count_window (fst (observe (\<lambda>x. x) (Posted ''u'' ''c'' 90 False False)
     (observe_all (\<lambda>x. x) [Joined ''u'' ''c'' 1, Posted ''u'' ''c'' 10 False False, Posted ''u'' ''c'' 40 False False]
       fresh_adapter))) = Some 2"
  using features_reflect_history [of "[Joined ''u'' ''c'' 1, Posted ''u'' ''c'' 10 False False, Posted ''u'' ''c'' 40 False False]"
      "''u''" "''c''" 90 False False _ "\<lambda>x. x", OF _ _ refl]
  by (simp add: posts_by_def)

section \<open>The first message after a join\<close>

definition key_view :: "user_chat \<Rightarrow> telegram_state \<Rightarrow> rat option \<times> rat option" where
  "key_view key st = (map_of (user_chat_join_times st) key, map_of (user_chat_first_message_ms st) key)"

definition first_latency :: "rat option \<Rightarrow> rat option \<Rightarrow> rat \<Rightarrow> rat option" where
  "first_latency joined first t = (case joined of None \<Rightarrow> first
     | Some j \<Rightarrow> (case first of None \<Rightarrow> Some (max 0 ((t - j) * 1000)) | Some x \<Rightarrow> Some x))"

fun key_step :: "user_chat \<Rightarrow> observation \<Rightarrow> rat option \<times> rat option \<Rightarrow> rat option \<times> rat option" where
  "key_step key (Joined u c t) v = (if (u, c) = key then (Some t, None) else v)"
| "key_step key (Posted u c t link media) v = (if (u, c) = key then (fst v, first_latency (fst v) (snd v) t) else v)"

lemma first_action_eq:
  "fst (first_action_latency_ms store key joined t True) = first_latency joined (map_of store key) t"
  "map_of (snd (first_action_latency_ms store key joined t True)) key' =
     (if key' = key then first_latency joined (map_of store key) t else map_of store key')"
  by (auto simp: first_action_latency_ms_def first_latency_def update_conv' split: option.split)

lemma key_view_observe: "key_view key (snd (observe sqroot x st)) = key_step key x (key_view key st)"
proof (cases x)
  case (Joined u c t)
  then show ?thesis
    by (auto simp: observe.simps key_view_def record_join_metadata_def build_community_features_for_member_def
        joined_within_count_def update_conv' delete_conv' split_beta Let_def)
next
  case (Posted u c t link media)
  then show ?thesis
    by (auto simp: observe.simps key_view_def window_ops first_action_eq split_beta Let_def)
qed

lemma posted_latency:
  "join_to_first_message_ms (fst (observe sqroot (Posted u c t link media) st)) =
     first_latency (fst (key_view (u, c) st)) (snd (key_view (u, c) st)) t"
  by (simp add: observe.simps key_view_def window_ops first_action_eq split_beta Let_def)

lemma key_view_all: "key_view key (observe_all sqroot obs st) = fold (key_step key) obs (key_view key st)"
  unfolding observe_all_def by (induction obs arbitrary: st) (simp_all add: key_view_observe)

lemma key_steps_other:
  "(\<And>x. x \<in> set obs \<Longrightarrow> (ob_user x, ob_chat x) \<noteq> key) \<Longrightarrow> fold (key_step key) obs v = v"
proof (induction obs arbitrary: v)
  case (Cons x obs)
  then have "key_step key x v = v" by (cases x) fastforce+
  with Cons show ?case by simp
qed simp

lemma key_steps_stable:
  "(\<And>x. x \<in> set obs \<Longrightarrow> is_Joined x \<Longrightarrow> (ob_user x, ob_chat x) \<noteq> key) \<Longrightarrow>
     fold (key_step key) obs (Some j, Some f) = (Some j, Some f)"
proof (induction obs)
  case (Cons x obs)
  then have "key_step key x (Some j, Some f) = (Some j, Some f)" by (cases x) (fastforce simp: first_latency_def)+
  with Cons show ?case by simp
qed simp

text \<open>The latency of a member's first message is measured once per join: until the member joins the
  chat again, every later message reports the time from the join to the first message after it,
  however other members' updates are interleaved, and a first message within a second marks all of
  them as instant posts.\<close>

theorem first_message_latency_sticks:
  assumes "obs = pre @ Joined u c t0 # mid @ Posted u c t1 link1 media1 # post"
    and "\<And>x. x \<in> set mid \<Longrightarrow> (ob_user x, ob_chat x) \<noteq> (u, c)"
    and "\<And>x. x \<in> set post \<Longrightarrow> is_Joined x \<Longrightarrow> (ob_user x, ob_chat x) \<noteq> (u, c)"
    and "cf = fst (observe sqroot (Posted u c t link media) (observe_all sqroot obs fresh_adapter))"
  shows "join_to_first_message_ms cf = Some (max 0 ((t1 - t0) * 1000)) \<and>
    (t1 - t0 \<le> 1 \<longrightarrow> (\<exists>s \<in> set (run_telegram_community_detectors (Some cf)).
       reason_code s = ''instant_post_after_join'' \<and> confidence s = 0.84))"
proof
  let ?f = "max 0 ((t1 - t0) * 1000)"
  have "key_view (u, c) (observe_all sqroot obs fresh_adapter) = (Some t0, Some ?f)"
    unfolding key_view_all assms(1)
    using key_steps_other [of mid "(u, c)"] key_steps_stable [of post "(u, c)"] assms(2,3)
    by (simp add: first_latency_def)
  then show f: "join_to_first_message_ms cf = Some ?f"
    unfolding assms(4) posted_latency by (simp add: first_latency_def)
  show "t1 - t0 \<le> 1 \<longrightarrow> (\<exists>s \<in> set (run_telegram_community_detectors (Some cf)).
       reason_code s = ''instant_post_after_join'' \<and> confidence s = 0.84)"
  proof
    assume "t1 - t0 \<le> 1"
    then have "?f \<le> 1000" by simp
    then have "community_signal ''instant_post_after_join'' SevHigh 0.84 Automation SessionContinuity
        ''A message was posted almost immediately after joining.'' \<in> set (instant_post_after_join (Some cf))"
      by (simp add: instant_post_after_join_def f)
    then show "\<exists>s \<in> set (run_telegram_community_detectors (Some cf)).
        reason_code s = ''instant_post_after_join'' \<and> confidence s = 0.84"
      unfolding run_telegram_community_detectors_def
      by (intro bexI [rotated]) (auto simp: community_signal_def mk_signal_def clamp_def)
  qed
qed

theorem first_message_latency_sticks_witness:
  "join_to_first_message_ms (fst (observe (\<lambda>x. x) (Posted ''u'' ''c'' 90 False False)
     (observe_all (\<lambda>x. x) [Joined ''u'' ''c'' 10, Posted ''v'' ''c'' 10 False False, Posted ''u'' ''c'' 11 False False]
       fresh_adapter))) = Some 1000"
  using first_message_latency_sticks [of _ "[]" "''u''" "''c''" 10 "[Posted ''v'' ''c'' 10 False False]" 11 False False "[]"
      _ "\<lambda>x. x" 90 False False, OF _ _ _ refl]
  by simp

end
