(* ===== verification/Telegram_Events.thy ===== *)
theory Telegram_Events
  imports Telegram_Content Telegram_Windows Artifacts
begin

text \<open>
  Parsing of Telegram updates (\<open>TelegramAdapter.parse_update\<close>, \<open>_parse_message\<close> and \<open>_parse_chat_member\<close>
  of \<open>truepresence/adapters/telegram.py\<close>): an update is an untyped dictionary, the parser threads the
  behavioural memory and may fail at any point, keeping the updates of the memory made so far. The
  clock, the regular expression engine, the logarithm and square root, the printer of containers, the
  media risk provider with the validation of its answers, the identifier generator and the database
  lookup of warnings are arguments, collected in \<open>adapter_env\<close>.
\<close>

section \<open>Steps on the memory\<close>

type_synonym 'a step = "telegram_state \<Rightarrow> 'a res \<times> telegram_state"

definition bind_step :: "'a step \<Rightarrow> ('a \<Rightarrow> 'b step) \<Rightarrow> 'b step" where
  "bind_step m f = (\<lambda>st. case m st of (Inl e, st') \<Rightarrow> (Inl e, st') | (Inr x, st') \<Rightarrow> f x st')"

definition try_res :: "'a res \<Rightarrow> 'a step" where
  "try_res r = (\<lambda>st. (r, st))"

definition do_step :: "(telegram_state \<Rightarrow> 'a \<times> telegram_state) \<Rightarrow> 'a step" where
  "do_step f = (\<lambda>st. (Inr (fst (f st)), snd (f st)))"

definition do_update :: "(telegram_state \<Rightarrow> telegram_state) \<Rightarrow> unit step" where
  "do_update f = (\<lambda>st. (Inr (), f st))"

definition read_step :: "(telegram_state \<Rightarrow> 'a) \<Rightarrow> 'a step" where
  "read_step f = (\<lambda>st. (Inr (f st), st))"

lemma bind_step_simps [simp]:
  "bind_step (try_res (Inr x)) f st = f x st" "bind_step (try_res (Inl e)) f st = (Inl e, st)"
  "bind_step (do_step g) f st = f (fst (g st)) (snd (g st))" "bind_step (do_update h) f' st = f' () (h st)"
  "bind_step (read_step r) f'' st = f'' (r st) st"
  by (simp_all add: bind_step_def try_res_def do_step_def do_update_def read_step_def)

lemma bind_step_Inr:
  "bind_step m f st = (Inr y, st') \<longleftrightarrow> (\<exists>x st1. m st = (Inr x, st1) \<and> f x st1 = (Inr y, st'))"
  by (auto simp: bind_step_def split: prod.splits sum.splits)

section \<open>The environment\<close>

record adapter_env =
  ae_clock :: rat
  ae_findall :: "string \<Rightarrow> string \<Rightarrow> pv list"
  ae_sqroot :: "rat \<Rightarrow> rat"
  ae_log2 :: "rat \<Rightarrow> rat"
  ae_rep :: "pv \<Rightarrow> string"
  ae_provider :: "(dict \<Rightarrow> provider_value res) option"
  ae_validate :: "dict \<Rightarrow> provider_risk_signal res"
  ae_uuid :: string
  ae_warnings :: "pv \<Rightarrow> int"
  ae_detectors :: detectors
  ae_compiled :: "(string \<times> string) list"

section \<open>What a message shows\<close>

text \<open>\<open>entity.get("type") in {"url", "text_link"}\<close> hashes the type.\<close>

fun link_entity :: "pv list \<Rightarrow> bool res" where
  "link_entity [] = Inr False"
| "link_entity (PDict d # es) =
     (let t = dget d ''type'' in
      if is_dict t \<or> is_list t then Inl (TypeError ''unhashable type'')
      else if t = PStr ''url'' \<or> t = PStr ''text_link'' then Inr True
      else link_entity es)"
| "link_entity (_ # es) = link_entity es"

definition message_has_link_entity :: "dict \<Rightarrow> bool res" where
  "message_has_link_entity m =
     bind_res (py_iter (py_or (dget m ''entities'') (PList []))) (\<lambda>es.
     bind_res (link_entity es) (\<lambda>found.
       if found then Inr True
       else bind_res (py_iter (py_or (dget m ''caption_entities'') (PList []))) link_entity))"

definition message_has_media :: "dict \<Rightarrow> bool" where
  "message_has_media m = list_ex (\<lambda>k. truthy (dget m k))
     [''photo'', ''video'', ''document'', ''animation'', ''audio'', ''voice'', ''video_note'', ''sticker'']"

section \<open>Sections of the event\<close>

definition opt_item :: "string \<Rightarrow> pv option \<Rightarrow> dict" where
  "opt_item k v = (case v of None \<Rightarrow> [] | Some x \<Rightarrow> [(k, x)])"

definition community_dump :: "community_features \<Rightarrow> dict" where
  "community_dump f =
     opt_item ''join_to_first_message_ms'' (map_option PFloat (join_to_first_message_ms f)) @
     opt_item ''join_to_first_media_ms'' (map_option PFloat (cf_join_to_first_media_ms f)) @
     opt_item ''join_to_first_link_ms'' (map_option PFloat (join_to_first_link_ms f)) @
     opt_item ''message_count_window'' (map_option PInt (message_count_window f)) @
     opt_item ''burst_count'' (map_option PInt (burst_count f)) @
     opt_item ''mean_message_interval_ms'' (map_option PFloat (mean_message_interval_ms f)) @
     opt_item ''message_interval_stddev_ms'' (map_option PFloat (message_interval_stddev_ms f)) @
     opt_item ''joined_within_cluster_count'' (map_option PInt (joined_within_cluster_count f)) @
     opt_item ''synchronized_peer_count'' (map_option PInt (synchronized_peer_count f)) @
     opt_item ''group_hop_count'' (map_option PInt (group_hop_count f)) @
     [(''link_present'', PBool (link_present f)), (''media_present'', PBool (cf_media_present f))]"

fun feature_score :: "pv \<Rightarrow> rat option" where
  "feature_score (PBool b) = Some (if b then 1 else 0)"
| "feature_score (PInt i) = Some (of_int i)"
| "feature_score (PFloat q) = Some q"
| "feature_score _ = None"

definition community_feature_scores :: "community_features \<Rightarrow> (string \<times> rat) list" where
  "community_feature_scores f =
     [(''telegram_community_'' @ k, q). (k, v) \<leftarrow> community_dump f, q \<leftarrow> (case feature_score v of None \<Rightarrow> [] | Some q \<Rightarrow> [q])]"

definition community_signal_scores :: "detector_signal list \<Rightarrow> (string \<times> rat) list" where
  "community_signal_scores ss = dupdate [] (map (\<lambda>s. (''telegram_community_'' @ reason_code s, confidence s)) ss)"

definition community_context :: "community_features \<Rightarrow> detector_signal list \<Rightarrow> dict" where
  "community_context f ss =
     [(''features'', PDict (community_dump f)),
      (''reason_codes'', PList (map (PStr \<circ> reason_code) ss)),
      (''detector_signals'', PList (map dump_signal ss))]"

definition dump_safety_signal :: "safety_signal \<Rightarrow> pv" where
  "dump_safety_signal s = PDict [(''reason_code'', PStr (ss_reason_code s)),
     (''severity'', PStr (case ss_severity s of SafeMedium \<Rightarrow> ''medium'' | SafeHigh \<Rightarrow> ''high'' | SafeCritical \<Rightarrow> ''critical'')),
     (''confidence'', PFloat (ss_confidence s)), (''explanation'', PStr (ss_explanation s))]"

definition safety_context :: "safety_escalation option \<Rightarrow> safety_features \<Rightarrow> dict" where
  "safety_context escalation f =
     (let none_risk = PDict [(''score'', PFloat 0), (''label'', PStr ''low'')] in
      case escalation of
        None \<Rightarrow>
          [(''reason_codes'', PList []), (''recommended_action'', PNone), (''risk'', none_risk),
           (''evidence_card'', PDict
             [(''chat_id'', sf_chat_id f), (''message_id'', sf_message_id f), (''sender_id'', sf_sender_id f),
              (''timestamps'', PDict [(''event_timestamp'', sf_event_timestamp f)]),
              (''media_present'', PBool (sf_media_present f)), (''event_type'', PStr (sf_event_type f)),
              (''reason_codes'', PList []), (''risk'', none_risk), (''confidence'', PFloat 0),
              (''risk_label'', PStr ''low''), (''recommended_action'', PNone)])]
      | Some e \<Rightarrow>
          [(''reason_codes'', PList (map PStr (se_reason_codes e))),
           (''recommended_action'', PStr (safety_action_str (se_recommended_action e))),
           (''risk'', PDict [(''score'', PFloat (py_round 3 (se_risk_score e))),
                             (''label'', PStr (label_str (se_risk_label e)))]),
           (''confidence'', PFloat (py_round 3 (se_confidence e))),
           (''detector_signals'', PList (map dump_safety_signal (se_detector_signals e))),
           (''evidence_card'', PDict (se_evidence_card e))])"

definition threat_dict :: "analysis \<Rightarrow> dict" where
  "threat_dict a =
     [(''threats_detected'', PList (map PStr (an_threats a))),
      (''scores'', PDict (map (\<lambda>(k, q). (k, PFloat q)) (an_scores a))),
      (''matches'', PDict (map (\<lambda>(k, ms). (k, PList ms)) (an_matches a)))]"

definition score_of :: "analysis \<Rightarrow> string \<Rightarrow> rat" where
  "score_of a k = (case map_of (an_scores a) k of None \<Rightarrow> 0 | Some q \<Rightarrow> q)"

definition threat_scores :: "(string \<Rightarrow> rat) \<Rightarrow> (string \<times> rat) list" where
  "threat_scores score =
     [(''torrent_indicators'', score ''torrent_sharing''),
      (''crypto_mining_indicators'', score ''crypto_mining''),
      (''vnc_indicators'', score ''remote_access''),
      (''copyright_indicators'', score ''copyright_violation''),
      (''illegal_indicators'', score ''illegal_content''),
      (''mirrored_content_score'', score ''mirrored_content'')]"

definition float_dict :: "(string \<times> rat) list \<Rightarrow> pv" where
  "float_dict kvs = PDict (map (\<lambda>(k, q). (k, PFloat q)) kvs)"

text \<open>The schema of an event: an integral time stamp; the other fields are built with their types.\<close>

definition event_timestamp :: "pv \<Rightarrow> int res" where
  "event_timestamp v = (case num_of v of
      Some q \<Rightarrow> if of_int (floor q) = q then Inr (floor q) else Inl (ValueError ''Input should be a valid integer'')
    | None \<Rightarrow> (case v of
        PStr s \<Rightarrow> (case parse_int s of Some i \<Rightarrow> Inr i | None \<Rightarrow> Inl (ValueError ''Input should be a valid integer''))
      | _ \<Rightarrow> Inl (ValueError ''Input should be a valid integer'')))"

definition telegram_event :: "string \<Rightarrow> pv \<Rightarrow> dict \<Rightarrow> pv \<Rightarrow> pv \<Rightarrow> dict \<Rightarrow> dict \<Rightarrow> dict res" where
  "telegram_event event_type ts payload features signals ctx threats =
     bind_res (event_timestamp ts) (\<lambda>i. Inr
       [(''event_type'', PStr event_type), (''timestamp'', PInt i), (''payload'', PDict payload),
        (''features'', features), (''signals'', signals), (''context'', PDict ctx),
        (''threat_analysis'', PDict threats)])"

section \<open>Messages\<close>

text \<open>The media risk provider is asked about media only; any answer but a signal, a dictionary or nothing
  is an error.\<close>

definition provider_signal_for_media :: "adapter_env \<Rightarrow> safety_features \<Rightarrow> provider_value res" where
  "provider_signal_for_media env f =
     (if \<not> sf_media_present f then Inr NoProvider
      else case ae_provider env of None \<Rightarrow> Inr NoProvider
        | Some provider \<Rightarrow>
            bind_res (provider
              [(''chat_id'', sf_chat_id f), (''message_id'', sf_message_id f), (''sender_id'', sf_sender_id f),
               (''event_timestamp'', sf_event_timestamp f), (''event_type'', PStr (sf_event_type f)),
               (''media_present'', PBool (sf_media_present f))]) (\<lambda>answer.
              case answer of
                ProviderDict d \<Rightarrow> bind_res (ae_validate env d) (\<lambda>p. Inr (ProviderSignal p))
              | OtherValue \<Rightarrow> Inl (TypeError ''safety provider must return ProviderRiskSignal, dict, or None'')
              | v \<Rightarrow> Inr v))"

text \<open>Ids accepted by the safety features: integers, strings or nothing (booleans and integral floats,
  which the schema library would coerce, are not modelled).\<close>

definition valid_ref :: "pv \<Rightarrow> bool" where
  "valid_ref v = (case v of PNone \<Rightarrow> True | PInt _ \<Rightarrow> True | PStr _ \<Rightarrow> True | _ \<Rightarrow> False)"

definition check_refs :: "pv list \<Rightarrow> unit res" where
  "check_refs vs = (if list_all valid_ref vs then Inr () else Inl (ValueError ''validation error for TelegramSafetyFeatures''))"

definition message_velocity_step :: "adapter_env \<Rightarrow> string \<Rightarrow> pv \<Rightarrow> rat step" where
  "message_velocity_step env user ts =
     (if user = [] then try_res (Inr 0)
      else bind_step (try_res (py_float (py_or ts (PFloat (ae_clock env))))) (\<lambda>now.
             do_step (calc_message_velocity user now)))"

fun text_of :: "pv \<Rightarrow> string res" where
  "text_of (PStr s) = Inr s"
| "text_of _ = Inl (AttributeError ''lower'')"

definition similarity_step :: "string \<Rightarrow> string \<Rightarrow> rat step" where
  "similarity_step user txt =
     read_step (\<lambda>st. calc_content_similarity (queue_at (user_recent_texts st) user) txt)"

definition community_step :: "adapter_env \<Rightarrow> dict \<Rightarrow> string \<Rightarrow> string \<Rightarrow> pv \<Rightarrow> community_features step" where
  "community_step env message user chat ts =
     bind_step (try_res (message_has_link_entity message)) (\<lambda>link.
     bind_step (try_res (py_float ts)) (\<lambda>t.
       do_step (build_community_features_for_message (ae_sqroot env) user chat t link (message_has_media message))))"

definition safety_step ::
    "adapter_env \<Rightarrow> dict \<Rightarrow> pv \<Rightarrow> pv \<Rightarrow> string \<Rightarrow> string \<Rightarrow> pv \<Rightarrow> community_features \<Rightarrow> dict step" where
  "safety_step env message sender_id chat_id user chat ts cf =
     bind_step (try_res (estimate_account_age sender_id)) (\<lambda>age.
     bind_step (try_res (py_float ts)) (\<lambda>t.
     bind_step (do_step (build_safety_features_for_message user chat t chat_id (dget message ''message_id'')
         sender_id ts (message_has_media message) cf age)) (\<lambda>f.
     bind_step (try_res (check_refs [sf_chat_id f, sf_message_id f, sf_sender_id f])) (\<lambda>_.
     bind_step (try_res (provider_signal_for_media env f)) (\<lambda>provider.
     bind_step (try_res (evaluate_telegram_safety_escalation (ae_validate env) f provider (ae_uuid env))) (\<lambda>e.
       try_res (Inr (safety_context e f))))))))"

definition message_event ::
    "dict \<Rightarrow> pv \<Rightarrow> pv \<Rightarrow> pv \<Rightarrow> string \<Rightarrow> rat \<Rightarrow> rat \<Rightarrow> analysis \<Rightarrow> community_features \<Rightarrow> dict \<Rightarrow> dict res" where
  "message_event message from_user chat ts txt velocity similarity threats cf safety =
     (let signals = run_telegram_community_detectors (Some cf);
          behaviour = [(''message_velocity'', velocity), (''content_similarity'', similarity)];
          media = truthy (dget message ''photo'') \<or> truthy (dget message ''video'') \<or> truthy (dget message ''document'')
      in bind_res (py_get chat ''type'' PNone) (\<lambda>chat_type.
         bind_res (py_get from_user ''id'' PNone) (\<lambda>user_id.
         bind_res (py_get from_user ''username'' (PStr [])) (\<lambda>username.
         bind_res (py_get from_user ''is_bot'' (PBool False)) (\<lambda>is_bot.
         bind_res (py_get chat ''id'' PNone) (\<lambda>group_id.
           telegram_event ''message'' ts
             [(''message_id'', dget message ''message_id''), (''text'', PStr txt), (''has_attachments'', PBool media),
              (''is_reply'', PBool (dget message ''reply_to_message'' \<noteq> PNone)), (''chat_type'', chat_type)]
             (float_dict ((''text_length'', of_nat (length txt)) #
                dupdate (threat_scores (score_of threats) @ behaviour) (community_feature_scores cf)))
             (float_dict (dupdate (behaviour @ threat_scores (score_of threats)) (community_signal_scores signals)))
             [(''platform'', PStr ''telegram''), (''user_id'', user_id), (''username'', username), (''is_bot'', is_bot),
              (''group_id'', group_id), (''telegram_community'', PDict (community_context cf signals)),
              (''telegram_safety'', PDict safety)]
             (threat_dict threats)))))))"

definition parse_message_parts :: "adapter_env \<Rightarrow> dict \<Rightarrow> pv \<Rightarrow> pv \<Rightarrow> pv \<Rightarrow> dict step" where
  "parse_message_parts env message from_user chat ts =
     bind_step (try_res (py_get from_user ''id'' (PStr ''unknown''))) (\<lambda>uid.
     let user = py_str (ae_rep env) uid in
     bind_step (message_velocity_step env user ts) (\<lambda>velocity.
     bind_step (try_res (text_of (py_or (dget_default message ''text'' (PStr [])) (PStr [])))) (\<lambda>txt.
     bind_step (similarity_step user txt) (\<lambda>similarity.
     let threats = analyze_content (ae_findall env) (ae_detectors env) (ae_compiled env) txt similarity in
     bind_step (do_update (remember_text user txt)) (\<lambda>_.
     bind_step (try_res (py_get chat ''id'' (PStr ''unknown''))) (\<lambda>cid.
     let chat_id = py_str (ae_rep env) cid in
     bind_step (community_step env message user chat_id ts) (\<lambda>cf.
     bind_step (try_res (py_get from_user ''id'' PNone)) (\<lambda>sender_id.
     bind_step (try_res (py_get chat ''id'' PNone)) (\<lambda>raw_chat.
     bind_step (safety_step env message sender_id raw_chat user chat_id ts cf) (\<lambda>safety.
       try_res (message_event message from_user chat ts txt velocity similarity threats cf safety)))))))))))"

definition parse_message :: "adapter_env \<Rightarrow> dict \<Rightarrow> dict step" where
  "parse_message env message =
     parse_message_parts env message (dget_default message ''from'' (PDict []))
       (dget_default message ''chat'' (PDict [])) (dget_default message ''date'' (PFloat (ae_clock env)))"

section \<open>Membership changes\<close>

fun member_event_type :: "pv \<Rightarrow> string res" where
  "member_event_type (PDict _) = Inl (TypeError ''unhashable type'')"
| "member_event_type (PList _) = Inl (TypeError ''unhashable type'')"
| "member_event_type v = Inr
     (if v = PStr ''member'' then ''member_join''
      else if v = PStr ''left_member'' then ''member_leave''
      else if v = PStr ''kicked'' then ''member_banned''
      else if v = PStr ''restricted'' then ''member_restricted''
      else ''member_update'')"

text \<open>The entropy of the character frequencies of a name.\<close>

definition calc_entropy :: "(rat \<Rightarrow> rat) \<Rightarrow> pv \<Rightarrow> rat res" where
  "calc_entropy log2 v =
     (if \<not> truthy v then Inr 0
      else bind_res (py_iter v) (\<lambda>cs.
        if list_ex (\<lambda>c. is_dict c \<or> is_list c) cs then Inl (TypeError ''unhashable type'') else
        let n = of_nat (length cs); freqs = map (\<lambda>c. of_nat (count_list cs c)) (remdups cs)
        in Inr (py_round 2 (- sum_list (map (\<lambda>f. f / n * log2 (f / n)) freqs)))))"

definition warning_count :: "adapter_env \<Rightarrow> pv \<Rightarrow> int" where
  "warning_count env user_id = (if \<not> truthy user_id then 0 else ae_warnings env user_id)"

definition member_event ::
    "adapter_env \<Rightarrow> dict \<Rightarrow> pv \<Rightarrow> pv \<Rightarrow> string \<Rightarrow> pv \<Rightarrow> community_features \<Rightarrow> dict res" where
  "member_event env member user chat event_type new_status cf =
     (let signals = run_telegram_community_detectors (Some cf);
          zeros = threat_scores (\<lambda>_. 0)
      in bind_res (py_get (dget_default member ''old_chat_member'' (PDict [])) ''status'' (PStr [])) (\<lambda>old_status.
         bind_res (py_get user ''id'' (PInt 0)) (\<lambda>age_id.
         bind_res (estimate_account_age age_id) (\<lambda>age.
         bind_res (py_get user ''username'' (PStr [])) (\<lambda>username.
         bind_res (calc_entropy (ae_log2 env) username) (\<lambda>entropy.
         bind_res (py_get user ''id'' PNone) (\<lambda>user_id.
         bind_res (py_get user ''first_name'' (PStr [])) (\<lambda>first_name.
         bind_res (py_get user ''is_bot'' (PBool False)) (\<lambda>is_bot.
         bind_res (py_get chat ''id'' PNone) (\<lambda>group_id.
         bind_res (py_get chat ''title'' (PStr [])) (\<lambda>title.
           telegram_event event_type (dget_default member ''date'' (PInt 0))
             [(''old_status'', old_status), (''new_status'', new_status)]
             (float_dict ([(''account_age_days'', of_int age), (''username_entropy'', entropy),
                 (''previous_warnings'', of_int (warning_count env user_id))] @
                dupdate zeros (community_feature_scores cf)))
             (float_dict (dupdate zeros (community_signal_scores signals)))
             [(''platform'', PStr ''telegram''), (''user_id'', user_id), (''username'', username),
              (''first_name'', first_name), (''is_bot'', is_bot), (''group_id'', group_id), (''group_title'', title),
              (''telegram_community'', PDict (community_context cf signals))]
             [(''threats_detected'', PList [])])))))))))))"

definition parse_chat_member :: "adapter_env \<Rightarrow> dict \<Rightarrow> dict step" where
  "parse_chat_member env member =
     (let user = dget_default member ''user'' (PDict []);
          chat = dget_default member ''chat'' (PDict [])
      in bind_step (try_res (py_get (dget_default member ''new_chat_member'' (PDict [])) ''status'' (PStr []))) (\<lambda>new_status.
         bind_step (try_res (member_event_type new_status)) (\<lambda>event_type.
         bind_step (try_res (py_get user ''id'' (PStr ''unknown''))) (\<lambda>uid.
         bind_step (try_res (py_get chat ''id'' (PStr ''unknown''))) (\<lambda>cid.
         let user_id = py_str (ae_rep env) uid; chat_id = py_str (ae_rep env) cid in
         bind_step (try_res (py_float (py_or (dget_default member ''date'' (PInt 0)) (PFloat (ae_clock env))))) (\<lambda>ts.
         bind_step (do_update (if event_type = ''member_join'' then record_join_metadata user_id chat_id ts else (\<lambda>st. st))) (\<lambda>_.
         bind_step (do_step (build_community_features_for_member user_id chat_id ts)) (\<lambda>cf.
           try_res (member_event env member user chat event_type new_status cf)))))))))"

section \<open>Updates\<close>

text \<open>Any failure surfaces as an evidence error.\<close>

definition wrap_evidence :: "'a step \<Rightarrow> 'a step" where
  "wrap_evidence m = (\<lambda>st. case m st of (Inl e, st') \<Rightarrow> (Inl (EvidenceError ''Failed to parse Telegram update''), st')
     | (Inr x, st') \<Rightarrow> (Inr x, st'))"

definition dict_step :: "(dict \<Rightarrow> dict step) \<Rightarrow> pv \<Rightarrow> dict step" where
  "dict_step f v = (case v of PDict d \<Rightarrow> f d | _ \<Rightarrow> try_res (Inl (AttributeError ''get'')))"

definition parse_update :: "adapter_env \<Rightarrow> dict \<Rightarrow> dict option step" where
  "parse_update env update = wrap_evidence
     (let parsed = (\<lambda>f k. bind_step (dict_step f (dget update k)) (\<lambda>e. try_res (Inr (Some e)))) in
      if dhas update ''message'' then parsed (parse_message env) ''message''
      else if dhas update ''edited_message'' then parsed (parse_message env) ''edited_message''
      else if dhas update ''chat_member'' then parsed (parse_chat_member env) ''chat_member''
      else if dhas update ''my_chat_member'' then parsed (parse_chat_member env) ''my_chat_member''
      else try_res (Inr None))"

section \<open>Texts do not reach the windows\<close>

abbreviation with_texts :: "(string \<times> string list) list \<Rightarrow> telegram_state \<Rightarrow> telegram_state" where
  "with_texts r st \<equiv> st\<lparr>user_recent_texts := r\<rparr>"

lemma with_texts_queue: "remember_text user txt st =
    with_texts (dset user (push 10 txt (queue_at (user_recent_texts st) user)) (user_recent_texts st)) st"
  by (simp add: remember_text_def)

lemma community_with_texts:
  "build_community_features_for_message sqroot user chat t link media (with_texts r st) =
     apsnd (with_texts r) (build_community_features_for_message sqroot user chat t link media st)"
  by (simp add: window_ops message_interval_summary_def group_hops_def split_beta Let_def)

lemma safety_with_texts:
  "build_safety_features_for_message user chat t ci mi si raw media cf age (with_texts r st) =
     apsnd (with_texts r) (build_safety_features_for_message user chat t ci mi si raw media cf age st)"
  by (simp add: window_ops split_beta Let_def)

lemma community_step_with_texts:
  "community_step env m user chat ts (with_texts r st) = apsnd (with_texts r) (community_step env m user chat ts st)"
  by (cases "message_has_link_entity m"; cases "py_float ts")
    (simp_all add: community_step_def bind_step_def try_res_def do_step_def community_with_texts)

lemma safety_step_with_texts:
  "safety_step env m sid cid user chat ts cf (with_texts r st) =
     apsnd (with_texts r) (safety_step env m sid cid user chat ts cf st)"
  by (cases "estimate_account_age sid"; cases "py_float ts")
    (simp_all add: safety_step_def safety_with_texts bind_step_def try_res_def do_step_def split: sum.split)

text \<open>Two messages with the same metadata: the keys the parser reads as such are the same, and the same
  kinds of media are present; texts, captions and the media objects may differ.\<close>

definition same_metadata :: "dict \<Rightarrow> dict \<Rightarrow> bool" where
  "same_metadata m m' \<longleftrightarrow>
     (\<forall>k \<in> {''from'', ''chat'', ''date'', ''entities'', ''caption_entities'', ''message_id''}. map_of m k = map_of m' k) \<and>
     (\<forall>k \<in> {''photo'', ''video'', ''document'', ''animation'', ''audio'', ''voice'', ''video_note'', ''sticker''}.
        truthy (dget m k) = truthy (dget m' k))"

lemma same_metadata_reads:
  assumes "same_metadata m m'"
  shows "message_has_link_entity m = message_has_link_entity m'" "message_has_media m = message_has_media m'"
    "dget m ''message_id'' = dget m' ''message_id''" "dget_default m ''date'' x = dget_default m' ''date'' x"
    "dget_default m ''from'' x = dget_default m' ''from'' x" "dget_default m ''chat'' x = dget_default m' ''chat'' x"
proof -
  have same: "dget m k = dget m' k" "dget_default m k x = dget_default m' k x"
    if "k \<in> {''from'', ''chat'', ''date'', ''entities'', ''caption_entities'', ''message_id''}" for k x
  proof -
    have "map_of m k = map_of m' k" by (rule bspec [OF conjunct1 [OF assms [unfolded same_metadata_def]] that])
    then show "dget m k = dget m' k" "dget_default m k x = dget_default m' k x"
      by (simp_all add: dget_def dget_default_def)
  qed
  show "message_has_link_entity m = message_has_link_entity m'"
    unfolding message_has_link_entity_def same(1) [of "''entities''", simplified]
      same(1) [of "''caption_entities''", simplified] by (rule refl)
  show "message_has_media m = message_has_media m'"
    using assms unfolding same_metadata_def message_has_media_def by simp
  show "dget m ''message_id'' = dget m' ''message_id''" by (rule same(1)) simp
  show "dget_default m ''date'' x = dget_default m' ''date'' x"
    "dget_default m ''from'' x = dget_default m' ''from'' x" "dget_default m ''chat'' x = dget_default m' ''chat'' x"
    by (rule same(2); simp)+
qed

lemma same_metadata_steps:
  assumes "same_metadata m m'"
  shows "community_step env m = community_step env m'" "safety_step env m = safety_step env m'"
  using same_metadata_reads [OF assms]
  by (auto simp: community_step_def safety_step_def intro!: ext)

lemma telegram_event_context:
  "telegram_event ty ts payload features signals ctx threats = Inr e \<Longrightarrow> dget e ''context'' = PDict ctx"
  by (auto simp: telegram_event_def bind_res_eq_Inr dget_def)

definition message_context :: "pv \<Rightarrow> pv \<Rightarrow> community_features \<Rightarrow> dict \<Rightarrow> dict" where
  "message_context from_user chat cf safety =
     (let from = items_of from_user in
      [(''platform'', PStr ''telegram''), (''user_id'', dget from ''id''),
       (''username'', dget_default from ''username'' (PStr [])), (''is_bot'', dget_default from ''is_bot'' (PBool False)),
       (''group_id'', dget (items_of chat) ''id''),
       (''telegram_community'', PDict (community_context cf (run_telegram_community_detectors (Some cf)))),
       (''telegram_safety'', PDict safety)])"

lemma py_get_Inr: "py_get v k d = Inr x \<longleftrightarrow> is_dict v \<and> x = dget_default (items_of v) k d"
  by (cases v) auto

lemma telegram_event_timestamp:
  "telegram_event ty ts payload features signals ctx threats = Inr e \<Longrightarrow> \<exists>t. dget e ''timestamp'' = PInt t"
  by (auto simp: telegram_event_def bind_res_eq_Inr dget_def)

lemma message_event_timestamp:
  "message_event m from_user chat ts tx v s th cf safety = Inr e \<Longrightarrow> \<exists>t. dget e ''timestamp'' = PInt t"
  unfolding message_event_def Let_def bind_res_eq_Inr by (elim exE conjE) (rule telegram_event_timestamp)

lemma member_event_timestamp:
  "member_event env m user chat ty new_status cf = Inr e \<Longrightarrow> \<exists>t. dget e ''timestamp'' = PInt t"
  unfolding member_event_def Let_def bind_res_eq_Inr by (elim exE conjE) (rule telegram_event_timestamp)

lemma message_event_context:
  "message_event m from_user chat ts txt v s th cf safety = Inr e \<Longrightarrow>
     dget e ''context'' = PDict (message_context from_user chat cf safety)"
  by (auto simp: message_event_def Let_def bind_res_eq_Inr py_get_Inr message_context_def dget_default_def dget_def
      dest!: telegram_event_context)

lemma try_res_Inr: "try_res r st = (Inr x, st') \<longleftrightarrow> r = Inr x \<and> st' = st"
  by (auto simp: try_res_def)

text \<open>A successful parse, with the texts taken out of the memory: what the windows see does not involve
  them.\<close>

lemma apsnd_eq: "apsnd f p = (x, y) \<longleftrightarrow> (\<exists>z. p = (x, z) \<and> y = f z)"
  by (cases p) auto

lemma parse_parts_Inr:
  assumes "parse_message_parts env m from_user chat ts st = (Inr e, st')"
  obtains uid cid sid rid v st1 cf st2 safety st3 r tx sim th where
    "py_get from_user ''id'' (PStr ''unknown'') = Inr uid" "py_get chat ''id'' (PStr ''unknown'') = Inr cid"
    "py_get from_user ''id'' PNone = Inr sid" "py_get chat ''id'' PNone = Inr rid"
    "message_velocity_step env (py_str (ae_rep env) uid) ts st = (Inr v, st1)"
    "community_step env m (py_str (ae_rep env) uid) (py_str (ae_rep env) cid) ts st1 = (Inr cf, st2)"
    "safety_step env m sid rid (py_str (ae_rep env) uid) (py_str (ae_rep env) cid) ts cf st2 = (Inr safety, st3)"
    "st' = with_texts r st3" "message_event m from_user chat ts tx v sim th cf safety = Inr e"
proof -
  obtain uid cid sid rid v st1 tx cf st2' safety where
    ids: "py_get from_user ''id'' (PStr ''unknown'') = Inr uid" "py_get chat ''id'' (PStr ''unknown'') = Inr cid"
      "py_get from_user ''id'' PNone = Inr sid" "py_get chat ''id'' PNone = Inr rid"
    and vel: "message_velocity_step env (py_str (ae_rep env) uid) ts st = (Inr v, st1)"
    and com: "community_step env m (py_str (ae_rep env) uid) (py_str (ae_rep env) cid) ts
        (remember_text (py_str (ae_rep env) uid) tx st1) = (Inr cf, st2')"
    and saf: "safety_step env m sid rid (py_str (ae_rep env) uid) (py_str (ae_rep env) cid) ts cf st2' = (Inr safety, st')"
    and ev: "\<exists>sim th. message_event m from_user chat ts tx v sim th cf safety = Inr e"
    using assms unfolding parse_message_parts_def Let_def bind_step_Inr try_res_Inr similarity_step_def read_step_def do_update_def
    apply (elim exE conjE)
    apply (simp only: prod.inject sum.inject)
    apply (elim conjE)
    apply hypsubst
    apply (rule that)
            apply assumption+
    apply (intro exI)
    apply assumption
    done
  define r where "r = user_recent_texts (remember_text (py_str (ae_rep env) uid) tx st1)"
  have t: "remember_text (py_str (ae_rep env) uid) tx st1 = with_texts r st1"
    by (simp add: remember_text_def r_def)
  obtain st2 where st2: "community_step env m (py_str (ae_rep env) uid) (py_str (ae_rep env) cid) ts st1 = (Inr cf, st2)"
    "st2' = with_texts r st2"
    using com unfolding t community_step_with_texts apsnd_eq by blast
  obtain st3 where st3:
    "safety_step env m sid rid (py_str (ae_rep env) uid) (py_str (ae_rep env) cid) ts cf st2 = (Inr safety, st3)"
    "st' = with_texts r st3"
    using saf unfolding st2(2) safety_step_with_texts apsnd_eq by blast
  obtain sim th where "message_event m from_user chat ts tx v sim th cf safety = Inr e" using ev by blast
  from that [OF ids vel st2(1) st3 this] show thesis .
qed

section \<open>Properties\<close>

text \<open>Message content does not reach the community and safety evidence: two messages with the same
  metadata, whatever their texts, captions and media objects, leave the same behavioural memory (up to
  the remembered texts themselves) and produce the same event context.\<close>

theorem context_ignores_content:
  assumes "same_metadata m m'"
    and "parse_message env m st = (Inr e, st1)" and "parse_message env m' st = (Inr e', st1')"
  shows "dget e ''context'' = dget e' ''context'' \<and> st1'\<lparr>user_recent_texts := user_recent_texts st1\<rparr> = st1"
proof -
  define f c ts where "f = dget_default m' ''from'' (PDict [])" and "c = dget_default m' ''chat'' (PDict [])"
    and "ts = dget_default m' ''date'' (PFloat (ae_clock env))"
  have parts: "parse_message_parts env m f c ts st = (Inr e, st1)" "parse_message_parts env m' f c ts st = (Inr e', st1')"
    using assms(2,3) by (simp_all add: parse_message_def same_metadata_reads [OF assms(1)] f_def c_def ts_def)
  show ?thesis
    by (rule parse_parts_Inr [OF parts(1)], rule parse_parts_Inr [OF parts(2)])
      (simp add: same_metadata_steps [OF assms(1)] message_event_context)
qed

definition plain_env :: adapter_env where
  "plain_env = \<lparr>ae_clock = 0, ae_findall = (\<lambda>p t. []), ae_sqroot = (\<lambda>x. x), ae_log2 = (\<lambda>x. x), ae_rep = (\<lambda>_. []),
     ae_provider = None, ae_validate = (\<lambda>d. Inl (ValueError [])), ae_uuid = ''u'', ae_warnings = (\<lambda>_. 0),
     ae_detectors = core_config, ae_compiled = []\<rparr>"

definition greeting :: "string \<Rightarrow> dict" where
  "greeting s = [(''from'', PDict [(''id'', PInt 7)]), (''chat'', PDict [(''id'', PInt 9)]), (''date'', PInt 100),
     (''text'', PStr s)]"

theorem context_ignores_content_witness:
  "\<exists>e e' st1 st2. parse_message plain_env (greeting ''hi'') fresh_adapter = (Inr e, st1) \<and>
     parse_message plain_env (greeting ''free'') fresh_adapter = (Inr e', st2) \<and>
     dget e ''context'' = dget e' ''context''"
proof -
  have ok: "\<not> isl (fst (parse_message plain_env (greeting ''hi'') fresh_adapter))"
    "\<not> isl (fst (parse_message plain_env (greeting ''free'') fresh_adapter))"
    by code_simp+
  obtain e st1 where 1: "parse_message plain_env (greeting ''hi'') fresh_adapter = (Inr e, st1)"
    using ok(1) by (cases "parse_message plain_env (greeting ''hi'') fresh_adapter"; cases "fst (parse_message plain_env (greeting ''hi'') fresh_adapter)") auto
  obtain e' st2 where 2: "parse_message plain_env (greeting ''free'') fresh_adapter = (Inr e', st2)"
    using ok(2) by (cases "parse_message plain_env (greeting ''free'') fresh_adapter"; cases "fst (parse_message plain_env (greeting ''free'') fresh_adapter)") auto
  have "same_metadata (greeting ''hi'') (greeting ''free'')"
    by (simp add: same_metadata_def greeting_def dget_def)
  from context_ignores_content [OF this 1 2] 1 2 show ?thesis by blast
qed

lemma message_timestamp: "parse_message env m st = (Inr e, st') \<Longrightarrow> \<exists>t. dget e ''timestamp'' = PInt t"
  unfolding parse_message_def by (erule parse_parts_Inr) (rule message_event_timestamp)

lemma member_timestamp: "parse_chat_member env m st = (Inr e, st') \<Longrightarrow> \<exists>t. dget e ''timestamp'' = PInt t"
  unfolding parse_chat_member_def Let_def bind_step_Inr try_res_Inr
  by (elim exE conjE) (rule member_event_timestamp)

definition wrap_outcome :: "dict option res \<times> telegram_state \<Rightarrow> bool" where
  "wrap_outcome r = (case fst r of
      Inl e \<Rightarrow> e = EvidenceError ''Failed to parse Telegram update''
    | Inr None \<Rightarrow> False
    | Inr (Some e) \<Rightarrow> (\<exists>t. dget e ''timestamp'' = PInt t))"

text \<open>Parsing an update is total up to one documented error: it yields an event, or nothing exactly for
  updates of another kind, or the evidence error, never another exception; an update of another kind
  leaves the memory untouched.\<close>

theorem update_outcomes:
  "(case parse_update env update st of
      (Inl e, st') \<Rightarrow> e = EvidenceError ''Failed to parse Telegram update''
    | (Inr None, st') \<Rightarrow> st' = st \<and> fst ` set update \<inter> {''message'', ''edited_message'', ''chat_member'', ''my_chat_member''} = {}
    | (Inr (Some e), st') \<Rightarrow> (\<exists>t. dget e ''timestamp'' = PInt t))"
proof -
  let ?run = "\<lambda>f k. bind_step (dict_step f (dget update k)) (\<lambda>e. try_res (Inr (Some e))) st"
  have run: "wrap_outcome (wrap_evidence (bind_step (dict_step f v) (\<lambda>e. try_res (Inr (Some e)))) st)"
    if "\<And>d e st st'. f d st = (Inr e, st') \<Longrightarrow> \<exists>t. dget e ''timestamp'' = PInt t" for f v
    using that by (cases v) (auto simp: wrap_outcome_def wrap_evidence_def bind_step_def dict_step_def try_res_def
        split: prod.splits sum.splits)
  have "wrap_outcome (parse_update env update st) \<or> parse_update env update st = (Inr None, st) \<and>
      fst ` set update \<inter> {''message'', ''edited_message'', ''chat_member'', ''my_chat_member''} = {}"
    unfolding parse_update_def Let_def
    using run [of "parse_message env"] run [of "parse_chat_member env"] message_timestamp member_timestamp
    by (auto simp: dhas_iff wrap_evidence_def try_res_def)
  then show ?thesis by (auto simp: wrap_outcome_def split: prod.splits sum.splits option.splits)
qed

end
