(* ===== verification/Ese_Config.thy ===== *)
theory Ese_Config
  imports Conversions
begin

text \<open>
  \<open>ese/config.py\<close>: the configuration of a pipeline run. The first part models the functions that read
  effective settings from an untyped configuration (\<open>resolve_*\<close>); the second the schema: one record per
  model class, its field validators, the adapter contract and the dump of the validated model. The
  coercions of the schema library (numbers and booleans from other values) are an argument; the text of
  its error report beyond the prefix is not modelled.
\<close>

section \<open>Reading settings\<close>

text \<open>\<open>s.partition(":")\<close> without the separator.\<close>

definition partition_colon :: "string \<Rightarrow> string \<times> string" where
  "partition_colon s = (takeWhile (\<lambda>c. c \<noteq> CHR '':'') s, tl (dropWhile (\<lambda>c. c \<noteq> CHR '':'') s))"

text \<open>\<open>key in value\<close>.\<close>

fun py_has :: "string \<Rightarrow> pv \<Rightarrow> bool res" where
  "py_has k (PDict d) = Inr (dhas d k)"
| "py_has k (PList xs) = Inr (PStr k \<in> set xs)"
| "py_has k (PStr s) = Inr (str_contains k s)"
| "py_has k _ = Inl (TypeError ''argument is not iterable'')"

text \<open>\<open>value.get(key, dflt) or {}\<close>.\<close>

definition get_or_empty :: "pv \<Rightarrow> string \<Rightarrow> pv res" where
  "get_or_empty v k = bind_res (py_get v k (PDict [])) (\<lambda>w. Inr (py_or w (PDict [])))"

text \<open>\<open>if key in role_cfg and role_cfg.get(key): setting = role_cfg[key]\<close>.\<close>

definition override :: "pv \<Rightarrow> string \<Rightarrow> pv \<Rightarrow> pv res" where
  "override role_cfg k setting =
     bind_res (py_has k role_cfg) (\<lambda>b.
       if \<not> b then Inr setting
       else bind_res (py_get role_cfg k PNone) (\<lambda>v. Inr (if truthy v then v else setting)))"

definition resolve_role_model :: "(pv \<Rightarrow> string) \<Rightarrow> dict \<Rightarrow> string \<Rightarrow> string res" where
  "resolve_role_model rep cfg role =
     bind_res (get_or_empty (PDict cfg) ''roles'') (\<lambda>roles_cfg.
     bind_res (get_or_empty roles_cfg role) (\<lambda>role_cfg.
     bind_res (get_or_empty (PDict cfg) ''provider'') (\<lambda>provider_cfg.
     bind_res (py_get provider_cfg ''name'' (PStr ''unknown'')) (\<lambda>name.
     bind_res (py_get provider_cfg ''model'' (PStr ''unknown'')) (\<lambda>model0.
     bind_res (override role_cfg ''provider'' name) (\<lambda>provider.
     bind_res (override role_cfg ''model'' model0) (\<lambda>model.
       if lower (strip (py_str rep provider)) = ''unknown'' \<and> lower (strip (py_str rep model)) = ''unknown''
       then Inl (ConfigValidationError (''Cannot resolve model for role '' @ role))
       else Inr (py_str rep provider @ '':'' @ py_str rep model))))))))"

definition or_unknown :: "string \<Rightarrow> string" where
  "or_unknown s = (if s = [] then ''unknown'' else s)"

definition resolve_role_provider :: "(pv \<Rightarrow> string) \<Rightarrow> dict \<Rightarrow> string \<Rightarrow> string res" where
  "resolve_role_provider rep cfg role =
     bind_res (resolve_role_model rep cfg role) (\<lambda>pm.
       Inr (or_unknown (lower (strip (fst (partition_colon pm))))))"

definition resolve_role_identity :: "(pv \<Rightarrow> string) \<Rightarrow> dict \<Rightarrow> string \<Rightarrow> string res" where
  "resolve_role_identity rep cfg role =
     bind_res (resolve_role_model rep cfg role) (\<lambda>pm.
       let p = or_unknown (lower (strip (fst (partition_colon pm))));
           m = lower (strip (snd (partition_colon pm)))
       in Inr (if m = [] then p else p @ '':'' @ m))"

text \<open>The first non-blank string among the candidates.\<close>

fun first_text :: "pv list \<Rightarrow> string" where
  "first_text [] = []"
| "first_text (PStr s # vs) = (if strip s = [] then first_text vs else strip s)"
| "first_text (v # vs) = first_text vs"

definition resolve_scope_text :: "dict \<Rightarrow> string res" where
  "resolve_scope_text cfg =
     bind_res (get_or_empty (PDict cfg) ''input'') (\<lambda>input.
     bind_res (py_get input ''scope'' PNone) (\<lambda>scope.
     bind_res (py_get input ''prompt'' PNone) (\<lambda>prompt.
       Inr (first_text [scope, dget cfg ''scope'', prompt, dget cfg ''prompt'']))))"

definition resolve_prompt_text :: "dict \<Rightarrow> string res" where
  "resolve_prompt_text cfg =
     bind_res (get_or_empty (PDict cfg) ''input'') (\<lambda>input.
     bind_res (py_get input ''prompt'' PNone) (\<lambda>prompt.
       Inr (first_text [prompt, dget cfg ''prompt''])))"

definition resolve_role_prompt_text :: "dict \<Rightarrow> string \<Rightarrow> string" where
  "resolve_role_prompt_text cfg role =
     (case py_or (dget cfg ''roles'') (PDict []) of
        PDict roles \<Rightarrow>
          (case py_or (dget roles role) (PDict []) of
             PDict rc \<Rightarrow> first_text [dget rc ''prompt'']
           | _ \<Rightarrow> [])
      | _ \<Rightarrow> [])"

section \<open>Role lists\<close>

fun normalize_role_pair :: "pv \<Rightarrow> (string \<times> string) res" where
  "normalize_role_pair (PList [PStr l, PStr r]) =
     (if strip l = [] \<or> strip r = [] then Inl (ValueError ''pair entries must be non-empty strings'')
      else Inr (strip l, strip r))"
| "normalize_role_pair (PList [l, r]) = Inl (ValueError ''pair entries must be strings'')"
| "normalize_role_pair v = Inl (ValueError ''each pair must contain exactly two role names'')"

fun normalize_role_pairs :: "pv \<Rightarrow> (string \<times> string) list res" where
  "normalize_role_pairs PNone = Inr []"
| "normalize_role_pairs (PList vs) = map_res normalize_role_pair vs"
| "normalize_role_pairs v = Inl (ValueError ''must be a list of role name pairs'')"

fun role_list :: "pv list \<Rightarrow> string list \<Rightarrow> string list res" where
  "role_list [] roles = Inr roles"
| "role_list (PStr s # vs) roles =
     (if strip s = [] then Inl (ValueError ''role entries must be non-empty strings'')
      else role_list vs (if strip s \<in> set roles then roles else roles @ [strip s]))"
| "role_list (v # vs) roles = Inl (ValueError ''role entries must be strings'')"

fun normalize_role_list :: "pv \<Rightarrow> string list res" where
  "normalize_role_list PNone = Inr []"
| "normalize_role_list (PList vs) = role_list vs []"
| "normalize_role_list v = Inl (ValueError ''must be a list of role names'')"

section \<open>The schema\<close>

record coercions =
  to_int :: "pv \<Rightarrow> int option"
  to_float :: "pv \<Rightarrow> rat option"
  to_bool :: "pv \<Rightarrow> bool option"

record provider_config =
  pc_name :: string
  pc_model :: string
  pc_api_key_env :: "string option"
  pc_base_url :: "string option"
  pc_extra :: dict

record role_config =
  rc_provider :: "string option"
  rc_model :: "string option"
  rc_temperature :: "rat option"
  rc_prompt :: "string option"
  rc_extra :: dict

record constraints_config =
  cc_same_model_pairs :: "(string \<times> string) list"
  cc_require_roles :: "string list"
  cc_minimum_distinct_models :: "int option"
  cc_minimum_specialist_roles :: "int option"
  cc_same_provider_pairs :: "(string \<times> string) list"
  cc_require_json_for_roles :: "string list"
  cc_extra :: dict

record input_config =
  ic_scope :: "string option"
  ic_prompt :: "string option"
  ic_extra :: dict

record output_config =
  oc_artifacts_dir :: string
  oc_enforce_json :: bool
  oc_extra :: dict

record gating_config =
  gc_fail_on_high :: bool
  gc_extra :: dict

record endpoint_config =
  ec_base_url :: "string option"
  ec_auth :: "bool option"
  ec_extra :: dict

record runtime_config =
  rt_adapter :: string
  rt_timeout_seconds :: rat
  rt_max_retries :: int
  rt_retry_backoff_seconds :: rat
  rt_max_output_tokens :: "int option"
  rt_review_isolation :: string
  rt_openai :: endpoint_config
  rt_custom_api :: "endpoint_config option"
  rt_local :: endpoint_config
  rt_extra :: dict

record ese_config =
  es_version :: int
  es_mode :: string
  es_strict :: bool
  es_provider :: provider_config
  es_roles :: "(string \<times> role_config) list"
  es_role_order :: "string list option"
  es_constraints :: constraints_config
  es_input :: input_config
  es_output :: output_config
  es_gating :: gating_config
  es_runtime :: runtime_config
  es_extra :: dict

subsection \<open>Fields\<close>

text \<open>A field that is absent takes its default (\<open>None\<close>: it is required); \<open>Optional\<close> fields accept null. A value
  is invalid when the result is \<open>None\<close>.\<close>

definition field :: "dict \<Rightarrow> string \<Rightarrow> 'a option \<Rightarrow> (pv \<Rightarrow> 'a option) \<Rightarrow> 'a option" where
  "field d k dflt f = (case map_of d k of None \<Rightarrow> dflt | Some v \<Rightarrow> f v)"

definition nullable :: "(pv \<Rightarrow> 'a option) \<Rightarrow> pv \<Rightarrow> 'a option option" where
  "nullable f v = (if v = PNone then Some None else map_option Some (f v))"

definition checked :: "('a \<Rightarrow> bool) \<Rightarrow> (pv \<Rightarrow> 'a option) \<Rightarrow> pv \<Rightarrow> 'a option" where
  "checked ok f v = (case f v of None \<Rightarrow> None | Some x \<Rightarrow> if ok x then Some x else None)"

fun non_empty :: "pv \<Rightarrow> string option" where
  "non_empty (PStr s) = (if strip s = [] then None else Some (strip s))"
| "non_empty v = None"

definition of_res :: "'a res \<Rightarrow> 'a option" where
  "of_res r = (case r of Inl _ \<Rightarrow> None | Inr x \<Rightarrow> Some x)"

definition model_extra :: "string list \<Rightarrow> dict \<Rightarrow> dict" where
  "model_extra names d = filter (\<lambda>(k, v). k \<notin> set names) d"

fun str_choice :: "(pv \<Rightarrow> string) \<Rightarrow> string \<Rightarrow> string list \<Rightarrow> pv \<Rightarrow> string option" where
  "str_choice rep dflt choices v =
     (let c = lower (strip (py_str rep (py_or v (PStr dflt)))) in if c \<in> set choices then Some c else None)"

subsection \<open>The sections of a configuration\<close>

definition parse_provider :: "pv \<Rightarrow> provider_config option" where
  "parse_provider v = (case v of
      PDict d \<Rightarrow>
        Option.bind (field d ''name'' None non_empty) (\<lambda>name.
        Option.bind (field d ''model'' None non_empty) (\<lambda>model.
        Option.bind (field d ''api_key_env'' (Some None) (nullable non_empty)) (\<lambda>key.
        Option.bind (field d ''base_url'' (Some None) (nullable non_empty)) (\<lambda>url.
          Some \<lparr>pc_name = name, pc_model = model, pc_api_key_env = key, pc_base_url = url,
                pc_extra = model_extra [''name'', ''model'', ''api_key_env'', ''base_url''] d\<rparr>))))
    | _ \<Rightarrow> None)"

definition strict_role_keys :: "string list" where
  "strict_role_keys = [''provider'', ''model'', ''temperature'', ''prompt'']"

definition parse_role :: "coercions \<Rightarrow> pv \<Rightarrow> role_config option" where
  "parse_role co v = (case v of
      PDict d \<Rightarrow>
        Option.bind (field d ''provider'' (Some None) (nullable non_empty)) (\<lambda>provider.
        Option.bind (field d ''model'' (Some None) (nullable non_empty)) (\<lambda>model.
        Option.bind (field d ''temperature'' (Some None) (nullable (to_float co))) (\<lambda>temperature.
        Option.bind (field d ''prompt'' (Some None) (nullable non_empty)) (\<lambda>prompt.
          Some \<lparr>rc_provider = provider, rc_model = model, rc_temperature = temperature, rc_prompt = prompt,
                rc_extra = model_extra strict_role_keys d\<rparr>))))
    | _ \<Rightarrow> None)"

fun parse_roles :: "coercions \<Rightarrow> dict \<Rightarrow> (string \<times> role_config) list option" where
  "parse_roles co [] = Some []"
| "parse_roles co ((role, v) # d) =
     Option.bind (parse_role co v) (\<lambda>rc. Option.bind (parse_roles co d) (\<lambda>rs. Some ((role, rc) # rs)))"

definition constraint_fields :: "string list" where
  "constraint_fields = [''disallow_same_model_pairs'', ''require_roles'', ''minimum_distinct_models'',
     ''minimum_specialist_roles'', ''disallow_same_provider_pairs'', ''require_json_for_roles'']"

definition parse_constraints :: "coercions \<Rightarrow> pv \<Rightarrow> constraints_config option" where
  "parse_constraints co v = (case v of
      PDict d \<Rightarrow>
        Option.bind (field d ''disallow_same_model_pairs'' (Some []) (of_res \<circ> normalize_role_pairs)) (\<lambda>models.
        Option.bind (field d ''require_roles'' (Some []) (of_res \<circ> normalize_role_list)) (\<lambda>required.
        Option.bind (field d ''minimum_distinct_models'' (Some None) (nullable (checked (\<lambda>i. 0 < i) (to_int co)))) (\<lambda>distinct_models.
        Option.bind (field d ''minimum_specialist_roles'' (Some None) (nullable (checked (\<lambda>i. 0 \<le> i) (to_int co)))) (\<lambda>specialists.
        Option.bind (field d ''disallow_same_provider_pairs'' (Some []) (of_res \<circ> normalize_role_pairs)) (\<lambda>providers.
        Option.bind (field d ''require_json_for_roles'' (Some []) (of_res \<circ> normalize_role_list)) (\<lambda>json.
          Some \<lparr>cc_same_model_pairs = models, cc_require_roles = required,
                cc_minimum_distinct_models = distinct_models, cc_minimum_specialist_roles = specialists,
                cc_same_provider_pairs = providers, cc_require_json_for_roles = json,
                cc_extra = model_extra constraint_fields d\<rparr>))))))
    | _ \<Rightarrow> None)"

definition parse_input :: "pv \<Rightarrow> input_config option" where
  "parse_input v = (case v of
      PDict d \<Rightarrow>
        Option.bind (field d ''scope'' (Some None) (nullable non_empty)) (\<lambda>scope.
        Option.bind (field d ''prompt'' (Some None) (nullable non_empty)) (\<lambda>prompt.
          Some \<lparr>ic_scope = scope, ic_prompt = prompt, ic_extra = model_extra [''scope'', ''prompt''] d\<rparr>))
    | _ \<Rightarrow> None)"

definition parse_output :: "coercions \<Rightarrow> pv \<Rightarrow> output_config option" where
  "parse_output co v = (case v of
      PDict d \<Rightarrow>
        Option.bind (field d ''artifacts_dir'' (Some ''artifacts'') non_empty) (\<lambda>dir.
        Option.bind (field d ''enforce_json'' (Some True) (to_bool co)) (\<lambda>json.
          Some \<lparr>oc_artifacts_dir = dir, oc_enforce_json = json,
                oc_extra = model_extra [''artifacts_dir'', ''enforce_json''] d\<rparr>))
    | _ \<Rightarrow> None)"

definition parse_gating :: "coercions \<Rightarrow> pv \<Rightarrow> gating_config option" where
  "parse_gating co v = (case v of
      PDict d \<Rightarrow>
        Option.bind (field d ''fail_on_high'' (Some True) (to_bool co)) (\<lambda>high.
          Some \<lparr>gc_fail_on_high = high, gc_extra = model_extra [''fail_on_high''] d\<rparr>)
    | _ \<Rightarrow> None)"

text \<open>The three endpoint sections: a required address with a default, an optional one, and the local one with
  its authentication flag.\<close>

definition parse_openai :: "pv \<Rightarrow> endpoint_config option" where
  "parse_openai v = (case v of
      PDict d \<Rightarrow>
        Option.bind (field d ''base_url'' (Some ''https://api.openai.com/v1'') non_empty) (\<lambda>url.
          Some \<lparr>ec_base_url = Some url, ec_auth = None, ec_extra = model_extra [''base_url''] d\<rparr>)
    | _ \<Rightarrow> None)"

definition parse_custom_api :: "pv \<Rightarrow> endpoint_config option" where
  "parse_custom_api v = (case v of
      PDict d \<Rightarrow>
        Option.bind (field d ''base_url'' (Some None) (nullable non_empty)) (\<lambda>url.
          Some \<lparr>ec_base_url = url, ec_auth = None, ec_extra = model_extra [''base_url''] d\<rparr>)
    | _ \<Rightarrow> None)"

definition parse_local :: "coercions \<Rightarrow> pv \<Rightarrow> endpoint_config option" where
  "parse_local co v = (case v of
      PDict d \<Rightarrow>
        Option.bind (field d ''base_url'' (Some ''http://localhost:11434/v1'') non_empty) (\<lambda>url.
        Option.bind (field d ''use_openai_compat_auth'' (Some True) (to_bool co)) (\<lambda>auth.
          Some \<lparr>ec_base_url = Some url, ec_auth = Some auth,
                ec_extra = model_extra [''base_url'', ''use_openai_compat_auth''] d\<rparr>))
    | _ \<Rightarrow> None)"

definition builtin_adapters :: "string list" where
  "builtin_adapters = [''dry-run'', ''openai'', ''local'', ''custom_api'']"

text \<open>A built-in adapter, or \<open>module:function\<close>.\<close>

definition adapter_name_ok :: "string \<Rightarrow> bool" where
  "adapter_name_ok s =
     (s \<in> set builtin_adapters \<or>
      (CHR '':'' \<in> set s \<and> strip (fst (partition_colon s)) \<noteq> [] \<and> strip (snd (partition_colon s)) \<noteq> []))"

definition review_isolation_choices :: "string list" where
  "review_isolation_choices = [''framed'', ''implementation_only'', ''scope_only'', ''scope_and_implementation'']"

definition runtime_fields :: "string list" where
  "runtime_fields = [''adapter'', ''timeout_seconds'', ''max_retries'', ''retry_backoff_seconds'',
     ''max_output_tokens'', ''review_isolation'', ''openai'', ''custom_api'', ''local'']"

definition default_openai :: endpoint_config where
  "default_openai = \<lparr>ec_base_url = Some ''https://api.openai.com/v1'', ec_auth = None, ec_extra = []\<rparr>"

definition default_local :: endpoint_config where
  "default_local = \<lparr>ec_base_url = Some ''http://localhost:11434/v1'', ec_auth = Some True, ec_extra = []\<rparr>"

definition parse_runtime :: "coercions \<Rightarrow> (pv \<Rightarrow> string) \<Rightarrow> pv \<Rightarrow> runtime_config option" where
  "parse_runtime co rep v = (case v of
      PDict d \<Rightarrow>
        Option.bind (field d ''adapter'' (Some ''dry-run'') (checked adapter_name_ok non_empty)) (\<lambda>adapter.
        Option.bind (field d ''timeout_seconds'' (Some 60) (checked (\<lambda>q. 0 < q) (to_float co))) (\<lambda>timeout.
        Option.bind (field d ''max_retries'' (Some 2) (checked (\<lambda>i. 0 \<le> i) (to_int co))) (\<lambda>retries.
        Option.bind (field d ''retry_backoff_seconds'' (Some 1) (checked (\<lambda>q. 0 < q) (to_float co))) (\<lambda>backoff.
        Option.bind (field d ''max_output_tokens'' (Some None) (nullable (checked (\<lambda>i. 0 < i) (to_int co)))) (\<lambda>tokens.
        Option.bind (field d ''review_isolation'' (Some ''scope_and_implementation'')
            (str_choice rep ''scope_and_implementation'' review_isolation_choices)) (\<lambda>isolation.
        Option.bind (field d ''openai'' (Some default_openai) parse_openai) (\<lambda>openai.
        Option.bind (field d ''custom_api'' (Some None) (nullable parse_custom_api)) (\<lambda>custom.
        Option.bind (field d ''local'' (Some default_local) (parse_local co)) (\<lambda>local.
          Some \<lparr>rt_adapter = adapter, rt_timeout_seconds = timeout, rt_max_retries = retries,
                rt_retry_backoff_seconds = backoff, rt_max_output_tokens = tokens, rt_review_isolation = isolation,
                rt_openai = openai, rt_custom_api = custom, rt_local = local,
                rt_extra = model_extra runtime_fields d\<rparr>)))))))))
    | _ \<Rightarrow> None)"

subsection \<open>The whole configuration\<close>

text \<open>The shape of \<open>role_order\<close>: distinct non-blank names.\<close>

fun order_shape :: "pv list \<Rightarrow> string list \<Rightarrow> string list option" where
  "order_shape [] seen = Some seen"
| "order_shape (PStr s # vs) seen =
     (if strip s = [] \<or> strip s \<in> set seen then None else order_shape vs (seen @ [strip s]))"
| "order_shape (v # vs) seen = None"

fun parse_role_order :: "pv \<Rightarrow> string list option" where
  "parse_role_order (PList vs) = order_shape vs []"
| "parse_role_order v = None"

fun parse_role_map :: "coercions \<Rightarrow> pv \<Rightarrow> (string \<times> role_config) list option" where
  "parse_role_map co (PDict d) = (if d = [] then None else parse_roles co d)"
| "parse_role_map co v = None"

definition config_fields :: "string list" where
  "config_fields = [''version'', ''mode'', ''strict_config'', ''provider'', ''roles'', ''role_order'',
     ''constraints'', ''input'', ''output'', ''gating'', ''runtime'']"

definition default_constraints :: constraints_config where
  "default_constraints = \<lparr>cc_same_model_pairs = [], cc_require_roles = [], cc_minimum_distinct_models = None,
     cc_minimum_specialist_roles = None, cc_same_provider_pairs = [], cc_require_json_for_roles = [], cc_extra = []\<rparr>"

definition default_runtime :: runtime_config where
  "default_runtime = \<lparr>rt_adapter = ''dry-run'', rt_timeout_seconds = 60, rt_max_retries = 2,
     rt_retry_backoff_seconds = 1, rt_max_output_tokens = None, rt_review_isolation = ''scope_and_implementation'',
     rt_openai = default_openai, rt_custom_api = None, rt_local = default_local, rt_extra = []\<rparr>"

definition parse_config :: "coercions \<Rightarrow> (pv \<Rightarrow> string) \<Rightarrow> dict \<Rightarrow> ese_config option" where
  "parse_config co rep d =
     Option.bind (field d ''version'' (Some 1) (checked (\<lambda>i. i = 1) (to_int co))) (\<lambda>version.
     Option.bind (field d ''mode'' (Some ''ensemble'') (str_choice rep ''ensemble'' [''ensemble'', ''solo''])) (\<lambda>mode.
     Option.bind (field d ''strict_config'' (Some False) (to_bool co)) (\<lambda>strict.
     Option.bind (field d ''provider'' None parse_provider) (\<lambda>provider.
     Option.bind (field d ''roles'' (Some []) (parse_role_map co)) (\<lambda>roles.
     Option.bind (field d ''role_order'' (Some None) (nullable parse_role_order)) (\<lambda>order.
     Option.bind (field d ''constraints'' (Some default_constraints) (parse_constraints co)) (\<lambda>constraints.
     Option.bind (field d ''input'' (Some \<lparr>ic_scope = None, ic_prompt = None, ic_extra = []\<rparr>) parse_input) (\<lambda>input.
     Option.bind (field d ''output'' (Some \<lparr>oc_artifacts_dir = ''artifacts'', oc_enforce_json = True, oc_extra = []\<rparr>)
         (parse_output co)) (\<lambda>output.
     Option.bind (field d ''gating'' (Some \<lparr>gc_fail_on_high = True, gc_extra = []\<rparr>) (parse_gating co)) (\<lambda>gating.
     Option.bind (field d ''runtime'' (Some default_runtime) (parse_runtime co rep)) (\<lambda>runtime.
       Some \<lparr>es_version = version, es_mode = mode, es_strict = strict, es_provider = provider, es_roles = roles,
             es_role_order = order, es_constraints = constraints, es_input = input, es_output = output,
             es_gating = gating, es_runtime = runtime, es_extra = model_extra config_fields d\<rparr>)))))))))))"

subsection \<open>The adapter contract\<close>

definition role_names :: "ese_config \<Rightarrow> string list" where
  "role_names c = map fst (es_roles c)"

text \<open>\<open>(role_cfg.provider or self.provider.name).strip().lower()\<close>.\<close>

definition resolved_provider :: "ese_config \<Rightarrow> role_config \<Rightarrow> string" where
  "resolved_provider c rc =
     lower (strip (case rc_provider rc of None \<Rightarrow> pc_name (es_provider c)
       | Some p \<Rightarrow> if p = [] then pc_name (es_provider c) else p))"

definition all_providers :: "ese_config \<Rightarrow> string \<Rightarrow> bool" where
  "all_providers c p = list_all (\<lambda>(role, rc). resolved_provider c rc = p) (es_roles c)"

definition json_contract :: "ese_config \<Rightarrow> bool" where
  "json_contract c =
     ((gc_fail_on_high (es_gating c) \<longrightarrow> oc_enforce_json (es_output c)) \<and>
      (list_ex (\<lambda>r. r \<in> set (role_names c)) (cc_require_json_for_roles (es_constraints c)) \<longrightarrow>
         oc_enforce_json (es_output c)))"

definition strict_contract :: "ese_config \<Rightarrow> bool" where
  "strict_contract c =
     (es_strict c \<longrightarrow> es_extra c = [] \<and>
        list_all (\<lambda>(role, rc). filter (\<lambda>k. k \<notin> set strict_role_keys) (map fst (rc_extra rc)) = []) (es_roles c))"

definition order_contract :: "ese_config \<Rightarrow> bool" where
  "order_contract c = (case es_role_order c of
      None \<Rightarrow> True
    | Some order \<Rightarrow> list_all (\<lambda>r. r \<in> set (role_names c)) order \<and> list_all (\<lambda>r. r \<in> set order) (role_names c))"

definition text_set :: "string option \<Rightarrow> bool" where
  "text_set t = (case t of None \<Rightarrow> False | Some s \<Rightarrow> s \<noteq> [])"

definition provider_contract :: "ese_config \<Rightarrow> bool" where
  "provider_contract c =
     (let adapter = lower (strip (rt_adapter (es_runtime c)));
          provider = lower (strip (pc_name (es_provider c)));
          custom_url = (case rt_custom_api (es_runtime c) of None \<Rightarrow> None | Some e \<Rightarrow> ec_base_url e)
      in if adapter = ''openai'' then provider = ''openai'' \<and> all_providers c ''openai''
         else if adapter = ''local'' then provider = ''local'' \<and> all_providers c ''local''
         else if adapter \<noteq> ''custom_api'' then True
         else provider \<noteq> ''openai'' \<and> text_set (pc_api_key_env (es_provider c)) \<and>
              (text_set (pc_base_url (es_provider c)) \<or> text_set custom_url) \<and> all_providers c provider)"

definition adapter_contract :: "ese_config \<Rightarrow> bool" where
  "adapter_contract c = (json_contract c \<and> strict_contract c \<and> order_contract c \<and> provider_contract c)"

subsection \<open>The dump of the model\<close>

text \<open>\<open>model_dump(exclude_none=True)\<close>: unset fields are left out, unknown keys follow the fields; a tuple is a
  list of its components.\<close>

definition some_item :: "string \<Rightarrow> ('a \<Rightarrow> pv) \<Rightarrow> 'a option \<Rightarrow> dict" where
  "some_item k f v = (case v of None \<Rightarrow> [] | Some x \<Rightarrow> [(k, f x)])"

definition non_null :: "dict \<Rightarrow> dict" where
  "non_null d = filter (\<lambda>(k, v). v \<noteq> PNone) d"

definition dump_provider :: "provider_config \<Rightarrow> pv" where
  "dump_provider p = PDict ([(''name'', PStr (pc_name p)), (''model'', PStr (pc_model p))] @
     some_item ''api_key_env'' PStr (pc_api_key_env p) @ some_item ''base_url'' PStr (pc_base_url p) @
     non_null (pc_extra p))"

definition dump_role :: "role_config \<Rightarrow> pv" where
  "dump_role r = PDict (some_item ''provider'' PStr (rc_provider r) @ some_item ''model'' PStr (rc_model r) @
     some_item ''temperature'' PFloat (rc_temperature r) @ some_item ''prompt'' PStr (rc_prompt r) @
     non_null (rc_extra r))"

definition dump_strs :: "string list \<Rightarrow> pv" where
  "dump_strs xs = PList (map PStr xs)"

definition dump_pairs :: "(string \<times> string) list \<Rightarrow> pv" where
  "dump_pairs xs = PList (map (\<lambda>(l, r). PList [PStr l, PStr r]) xs)"

definition dump_constraints :: "constraints_config \<Rightarrow> pv" where
  "dump_constraints c = PDict (
     [(''disallow_same_model_pairs'', dump_pairs (cc_same_model_pairs c)),
      (''require_roles'', dump_strs (cc_require_roles c))] @
     some_item ''minimum_distinct_models'' PInt (cc_minimum_distinct_models c) @
     some_item ''minimum_specialist_roles'' PInt (cc_minimum_specialist_roles c) @
     [(''disallow_same_provider_pairs'', dump_pairs (cc_same_provider_pairs c)),
      (''require_json_for_roles'', dump_strs (cc_require_json_for_roles c))] @ non_null (cc_extra c))"

definition dump_input :: "input_config \<Rightarrow> pv" where
  "dump_input i = PDict (some_item ''scope'' PStr (ic_scope i) @ some_item ''prompt'' PStr (ic_prompt i) @
     non_null (ic_extra i))"

definition dump_output :: "output_config \<Rightarrow> pv" where
  "dump_output c = PDict ([(''artifacts_dir'', PStr (oc_artifacts_dir c)),
     (''enforce_json'', PBool (oc_enforce_json c))] @ non_null (oc_extra c))"

definition dump_gating :: "gating_config \<Rightarrow> pv" where
  "dump_gating g = PDict ([(''fail_on_high'', PBool (gc_fail_on_high g))] @ non_null (gc_extra g))"

definition dump_endpoint :: "endpoint_config \<Rightarrow> pv" where
  "dump_endpoint e = PDict (some_item ''base_url'' PStr (ec_base_url e) @
     some_item ''use_openai_compat_auth'' PBool (ec_auth e) @ non_null (ec_extra e))"

definition dump_runtime :: "runtime_config \<Rightarrow> pv" where
  "dump_runtime r = PDict (
     [(''adapter'', PStr (rt_adapter r)), (''timeout_seconds'', PFloat (rt_timeout_seconds r)),
      (''max_retries'', PInt (rt_max_retries r)), (''retry_backoff_seconds'', PFloat (rt_retry_backoff_seconds r))] @
     some_item ''max_output_tokens'' PInt (rt_max_output_tokens r) @
     [(''review_isolation'', PStr (rt_review_isolation r)), (''openai'', dump_endpoint (rt_openai r))] @
     some_item ''custom_api'' dump_endpoint (rt_custom_api r) @
     [(''local'', dump_endpoint (rt_local r))] @ non_null (rt_extra r))"

definition dump_config :: "ese_config \<Rightarrow> dict" where
  "dump_config c =
     [(''version'', PInt (es_version c)), (''mode'', PStr (es_mode c)), (''strict_config'', PBool (es_strict c)),
      (''provider'', dump_provider (es_provider c)),
      (''roles'', PDict (map (apsnd dump_role) (es_roles c)))] @
     some_item ''role_order'' dump_strs (es_role_order c) @
     [(''constraints'', dump_constraints (es_constraints c)), (''input'', dump_input (es_input c)),
      (''output'', dump_output (es_output c)), (''gating'', dump_gating (es_gating c)),
      (''runtime'', dump_runtime (es_runtime c))] @ non_null (es_extra c)"

definition validate_config :: "coercions \<Rightarrow> (pv \<Rightarrow> string) \<Rightarrow> dict \<Rightarrow> dict res" where
  "validate_config co rep cfg =
     (case parse_config co rep cfg of
        None \<Rightarrow> Inl (ConfigValidationError ''Invalid ESE config'')
      | Some c \<Rightarrow> if adapter_contract c then Inr (dump_config c)
          else Inl (ConfigValidationError ''Invalid ESE config''))"

section \<open>Validating twice\<close>

text \<open>The documented behaviour of the coercions on values that already have the type.\<close>

definition coercions_ok :: "coercions \<Rightarrow> bool" where
  "coercions_ok co \<longleftrightarrow> (\<forall>i. to_int co (PInt i) = Some i) \<and> (\<forall>q. to_float co (PFloat q) = Some q) \<and>
     (\<forall>b. to_bool co (PBool b) = Some b)"

lemma coercions_okD:
  "coercions_ok co \<Longrightarrow> to_int co (PInt i) = Some i" "coercions_ok co \<Longrightarrow> to_float co (PFloat q) = Some q"
  "coercions_ok co \<Longrightarrow> to_bool co (PBool b) = Some b"
  by (auto simp: coercions_ok_def)

definition stripped :: "string \<Rightarrow> bool" where
  "stripped s \<longleftrightarrow> s \<noteq> [] \<and> strip s = s"

lemma stripped_strip: "strip s \<noteq> [] \<Longrightarrow> stripped (strip s)"
  by (simp add: stripped_def)

lemma non_empty_stripped: "non_empty v = Some s \<Longrightarrow> stripped s"
  by (cases v) (auto simp: stripped_def split: if_splits)

lemma stripped_non_empty [simp]: "stripped s \<Longrightarrow> non_empty (PStr s) = Some s"
  by (simp add: stripped_def)

lemma normalize_pair_stripped: "normalize_role_pair v = Inr p \<Longrightarrow> stripped (fst p) \<and> stripped (snd p)"
  by (induction v rule: normalize_role_pair.induct) (auto simp: stripped_strip split: if_splits)

lemma normalize_pairs_stripped: "normalize_role_pairs v = Inr ps \<Longrightarrow> list_all (\<lambda>p. stripped (fst p) \<and> stripped (snd p)) ps"
proof (induction v arbitrary: ps rule: normalize_role_pairs.induct)
  case (2 vs)
  then have "list_all2 (\<lambda>v p. normalize_role_pair v = Inr p) vs ps" by (simp add: map_res_Inr_iff)
  then show ?case
    by (induction rule: list_all2_induct) (auto dest: normalize_pair_stripped)
qed auto

lemma normalize_dump_pairs:
  "list_all (\<lambda>p. stripped (fst p) \<and> stripped (snd p)) ps \<Longrightarrow> normalize_role_pairs (dump_pairs ps) = Inr ps"
  unfolding dump_pairs_def by (induction ps) (auto simp: stripped_def)

lemma role_list_distinct:
  "role_list vs roles = Inr rs \<Longrightarrow> distinct roles \<Longrightarrow> list_all stripped roles \<Longrightarrow> distinct rs \<and> list_all stripped rs"
  by (induction vs roles rule: role_list.induct) (auto simp: stripped_strip split: if_splits)

lemma role_list_id: "distinct (roles @ rs) \<Longrightarrow> list_all stripped rs \<Longrightarrow> role_list (map PStr rs) roles = Inr (roles @ rs)"
  by (induction rs arbitrary: roles) (auto simp: stripped_def)

definition names_ok :: "string list \<Rightarrow> bool" where
  "names_ok rs \<longleftrightarrow> distinct rs \<and> list_all stripped rs"

lemma normalize_list_ok: "normalize_role_list v = Inr rs \<Longrightarrow> names_ok rs"
  unfolding names_ok_def
  by (induction v arbitrary: rs rule: normalize_role_list.induct) (auto dest: role_list_distinct)

lemma normalize_dump_strs: "names_ok rs \<Longrightarrow> normalize_role_list (dump_strs rs) = Inr rs"
  using role_list_id [of "[]" rs] by (simp add: names_ok_def dump_strs_def)

lemma order_shape_ok:
  "order_shape vs seen = Some rs \<Longrightarrow> names_ok seen \<Longrightarrow> names_ok rs"
  by (induction vs seen rule: order_shape.induct) (auto simp: names_ok_def stripped_strip split: if_splits)

lemma order_shape_id: "names_ok (seen @ rs) \<Longrightarrow> order_shape (map PStr rs) seen = Some (seen @ rs)"
  by (induction rs arbitrary: seen) (auto simp: names_ok_def stripped_def)

lemma parse_role_order_ok: "parse_role_order v = Some rs \<Longrightarrow> names_ok rs"
  using order_shape_ok [of _ "[]"] by (cases v) (auto simp: names_ok_def)

lemma parse_dump_order: "names_ok rs \<Longrightarrow> parse_role_order (dump_strs rs) = Some rs"
  using order_shape_id [of "[]" rs] by (simp add: dump_strs_def)

subsection \<open>Reading a dumped field\<close>

lemma field_cases:
  assumes "field d k dflt f = Some x"
  obtains "dflt = Some x" | v where "f v = Some x"
  using assms by (auto simp: field_def split: option.splits)

lemma field_present: "map_of d k = Some v \<Longrightarrow> field d k dflt f = f v"
  by (simp add: field_def)

lemma field_optional:
  assumes "map_of d k = map_option g x" and "\<And>y. x = Some y \<Longrightarrow> f (g y) = Some (h y) \<and> g y \<noteq> PNone"
  shows "field d k (Some None) (nullable f) = Some (map_option h x)"
  using assms by (cases x) (auto simp: field_def nullable_def)

lemmas field_optional_same = field_optional [where h = "\<lambda>y. y", unfolded option.map_ident]

lemma nullable_cases:
  assumes "nullable f v = Some x" obtains "x = None" | y where "x = Some y" "f v = Some y"
  using assms by (auto simp: nullable_def split: if_splits)

lemma field_nullable:
  assumes "field d k (Some None) (nullable f) = Some x" and "x = Some y" and "\<And>v. f v = Some y \<Longrightarrow> P y"
  shows "P y"
  using assms by (auto elim!: field_cases nullable_cases)

lemma map_of_some_item [simp]: "map_of (some_item k g x) k' = (if k' = k then map_option g x else None)"
  by (simp add: some_item_def split: option.splits)

lemma map_of_extra [simp]: "k \<in> set names \<Longrightarrow> map_of (non_null (model_extra names d)) k = None"
  by (auto simp: non_null_def model_extra_def map_of_eq_None_iff)

lemma non_null_idem [simp]: "non_null (non_null d) = non_null d"
  by (simp add: non_null_def)

lemma model_extra_append [simp]: "model_extra names (d @ e) = model_extra names d @ model_extra names e"
  by (simp add: model_extra_def)

lemma model_extra_Cons: "model_extra names ((k, v) # d) = (if k \<in> set names then [] else [(k, v)]) @ model_extra names d"
  by (simp add: model_extra_def)

lemma model_extra_Nil [simp]: "model_extra names [] = []"
  by (simp add: model_extra_def)

lemma model_extra_some_item: "k \<in> set names \<Longrightarrow> model_extra names (some_item k g x) = []"
  by (simp add: some_item_def model_extra_def split: option.splits)

lemma model_extra_extra [simp]: "model_extra names (non_null (model_extra names d)) = non_null (model_extra names d)"
  unfolding model_extra_def non_null_def by (induction d) auto

lemma extra_nonfield: "x = model_extra names d \<Longrightarrow> k \<in> set names \<Longrightarrow> map_of (non_null x) k = None"
  by simp

named_theorems dump_fields \<open>looking up the fields of a dumped section\<close>
lemmas [dump_fields] = map_add_def model_extra_Cons model_extra_some_item

lemma parse_dump_provider:
  assumes "parse_provider v = Some p"
  shows "parse_provider (dump_provider p) = Some (p\<lparr>pc_extra := non_null (pc_extra p)\<rparr>)"
proof -
  from assms obtain d where d: "v = PDict d" by (cases v) (auto simp: parse_provider_def)
  let ?names = "[''name'', ''model'', ''api_key_env'', ''base_url'']"
  from assms have
    f: "field d ''name'' None non_empty = Some (pc_name p)" "field d ''model'' None non_empty = Some (pc_model p)"
      "field d ''api_key_env'' (Some None) (nullable non_empty) = Some (pc_api_key_env p)"
      "field d ''base_url'' (Some None) (nullable non_empty) = Some (pc_base_url p)"
      "pc_extra p = model_extra ?names d"
    by (auto simp: parse_provider_def d bind_eq_Some_conv)
  have s: "stripped (pc_name p)" "stripped (pc_model p)"
    using f(1,2) by (auto elim!: field_cases dest: non_empty_stripped)
  have o: "pc_api_key_env p = Some k \<Longrightarrow> stripped k" "pc_base_url p = Some k \<Longrightarrow> stripped k" for k
    using f(3,4) by (auto intro: non_empty_stripped elim: field_nullable)
  obtain D where D: "dump_provider p = PDict D" by (simp add: dump_provider_def)
  have m: "map_of D ''name'' = Some (PStr (pc_name p))" "map_of D ''model'' = Some (PStr (pc_model p))"
    "map_of D ''api_key_env'' = map_option PStr (pc_api_key_env p)"
    "map_of D ''base_url'' = map_option PStr (pc_base_url p)" "model_extra ?names D = non_null (pc_extra p)"
    using D by (auto simp: dump_provider_def dump_fields f(5) split: option.splits)
  have g: "field D ''name'' None non_empty = Some (pc_name p)" "field D ''model'' None non_empty = Some (pc_model p)"
    "field D ''api_key_env'' (Some None) (nullable non_empty) = Some (pc_api_key_env p)"
    "field D ''base_url'' (Some None) (nullable non_empty) = Some (pc_base_url p)"
    using s o by (simp_all add: field_present m(1,2) field_optional_same [OF m(3)] field_optional_same [OF m(4)] stripped_def)
  show ?thesis
    by (simp add: D parse_provider_def g m(5))
qed

lemma parse_dump_role:
  assumes co: "coercions_ok co" and "parse_role co v = Some r"
  shows "parse_role co (dump_role r) = Some (r\<lparr>rc_extra := non_null (rc_extra r)\<rparr>)"
proof -
  from assms(2) obtain d where d: "v = PDict d" by (cases v) (auto simp: parse_role_def)
  from assms(2) have
    f: "field d ''provider'' (Some None) (nullable non_empty) = Some (rc_provider r)"
      "field d ''model'' (Some None) (nullable non_empty) = Some (rc_model r)"
      "field d ''prompt'' (Some None) (nullable non_empty) = Some (rc_prompt r)"
      "rc_extra r = model_extra strict_role_keys d"
    by (auto simp: parse_role_def d bind_eq_Some_conv)
  have o: "rc_provider r = Some k \<Longrightarrow> stripped k" "rc_model r = Some k \<Longrightarrow> stripped k"
      "rc_prompt r = Some k \<Longrightarrow> stripped k" for k
    using f(1-3) by (auto intro: non_empty_stripped elim: field_nullable)
  obtain D where D: "dump_role r = PDict D" by (simp add: dump_role_def)
  have m: "map_of D ''provider'' = map_option PStr (rc_provider r)" "map_of D ''model'' = map_option PStr (rc_model r)"
    "map_of D ''temperature'' = map_option PFloat (rc_temperature r)"
    "map_of D ''prompt'' = map_option PStr (rc_prompt r)" "model_extra strict_role_keys D = non_null (rc_extra r)"
    using D by (auto simp: dump_role_def dump_fields f(4) strict_role_keys_def split: option.splits)
  have g: "field D ''provider'' (Some None) (nullable non_empty) = Some (rc_provider r)"
    "field D ''model'' (Some None) (nullable non_empty) = Some (rc_model r)"
    "field D ''temperature'' (Some None) (nullable (to_float co)) = Some (rc_temperature r)"
    "field D ''prompt'' (Some None) (nullable non_empty) = Some (rc_prompt r)"
    using o by (simp_all add: field_optional_same [OF m(1)] field_optional_same [OF m(2)] field_optional_same [OF m(3)]
        field_optional_same [OF m(4)] stripped_def coercions_okD [OF co])
  show ?thesis by (simp add: D parse_role_def g m(5))
qed

lemma parse_dump_constraints:
  assumes co: "coercions_ok co" and "parse_constraints co v = Some c"
  shows "parse_constraints co (dump_constraints c) = Some (c\<lparr>cc_extra := non_null (cc_extra c)\<rparr>)"
proof -
  from assms(2) obtain d where d: "v = PDict d" by (cases v) (auto simp: parse_constraints_def)
  from assms(2) have
    f: "field d ''disallow_same_model_pairs'' (Some []) (of_res \<circ> normalize_role_pairs) = Some (cc_same_model_pairs c)"
      "field d ''require_roles'' (Some []) (of_res \<circ> normalize_role_list) = Some (cc_require_roles c)"
      "field d ''minimum_distinct_models'' (Some None) (nullable (checked (\<lambda>i. 0 < i) (to_int co))) =
         Some (cc_minimum_distinct_models c)"
      "field d ''minimum_specialist_roles'' (Some None) (nullable (checked (\<lambda>i. 0 \<le> i) (to_int co))) =
         Some (cc_minimum_specialist_roles c)"
      "field d ''disallow_same_provider_pairs'' (Some []) (of_res \<circ> normalize_role_pairs) = Some (cc_same_provider_pairs c)"
      "field d ''require_json_for_roles'' (Some []) (of_res \<circ> normalize_role_list) = Some (cc_require_json_for_roles c)"
      "cc_extra c = model_extra constraint_fields d"
    by (auto simp: parse_constraints_def d bind_eq_Some_conv)
  have p: "normalize_role_pairs (dump_pairs ps) = Inr ps"
    if "field d k (Some []) (of_res \<circ> normalize_role_pairs) = Some ps" for k ps
    using that by (intro normalize_dump_pairs)
      (auto elim!: field_cases dest!: normalize_pairs_stripped simp: of_res_def split: sum.splits)
  have q: "normalize_role_list (dump_strs rs) = Inr rs"
    if "field d k (Some []) (of_res \<circ> normalize_role_list) = Some rs" for k rs
    using that by (intro normalize_dump_strs)
      (auto elim!: field_cases dest!: normalize_list_ok simp: of_res_def names_ok_def split: sum.splits)
  have n: "cc_minimum_distinct_models c = Some i \<Longrightarrow> 0 < i" "cc_minimum_specialist_roles c = Some i \<Longrightarrow> 0 \<le> i" for i
    using f(3,4) by (auto elim: field_nullable simp: checked_def split: option.splits if_splits)
  obtain D where D: "dump_constraints c = PDict D" by (simp add: dump_constraints_def)
  have m: "map_of D ''disallow_same_model_pairs'' = Some (dump_pairs (cc_same_model_pairs c))"
    "map_of D ''require_roles'' = Some (dump_strs (cc_require_roles c))"
    "map_of D ''minimum_distinct_models'' = map_option PInt (cc_minimum_distinct_models c)"
    "map_of D ''minimum_specialist_roles'' = map_option PInt (cc_minimum_specialist_roles c)"
    "map_of D ''disallow_same_provider_pairs'' = Some (dump_pairs (cc_same_provider_pairs c))"
    "map_of D ''require_json_for_roles'' = Some (dump_strs (cc_require_json_for_roles c))"
    "model_extra constraint_fields D = non_null (cc_extra c)"
    using D by (auto simp: dump_constraints_def dump_fields f(7) constraint_fields_def split: option.splits)
  have g: "field D ''disallow_same_model_pairs'' (Some []) (of_res \<circ> normalize_role_pairs) = Some (cc_same_model_pairs c)"
    "field D ''require_roles'' (Some []) (of_res \<circ> normalize_role_list) = Some (cc_require_roles c)"
    "field D ''disallow_same_provider_pairs'' (Some []) (of_res \<circ> normalize_role_pairs) = Some (cc_same_provider_pairs c)"
    "field D ''require_json_for_roles'' (Some []) (of_res \<circ> normalize_role_list) = Some (cc_require_json_for_roles c)"
    "field D ''minimum_distinct_models'' (Some None) (nullable (checked (\<lambda>i. 0 < i) (to_int co))) =
         Some (cc_minimum_distinct_models c)"
    "field D ''minimum_specialist_roles'' (Some None) (nullable (checked (\<lambda>i. 0 \<le> i) (to_int co))) =
         Some (cc_minimum_specialist_roles c)"
    using n p [OF f(1)] p [OF f(5)] q [OF f(2)] q [OF f(6)]
    by (simp_all add: field_present m(1,2,5,6) of_res_def field_optional_same [OF m(3)] field_optional_same [OF m(4)]
        checked_def coercions_okD [OF co])
  show ?thesis by (simp add: D parse_constraints_def g m(7))
qed

lemma parse_dump_input:
  assumes "parse_input v = Some i"
  shows "parse_input (dump_input i) = Some (i\<lparr>ic_extra := non_null (ic_extra i)\<rparr>)"
proof -
  from assms obtain d where d: "v = PDict d" by (cases v) (auto simp: parse_input_def)
  from assms have f: "field d ''scope'' (Some None) (nullable non_empty) = Some (ic_scope i)"
      "field d ''prompt'' (Some None) (nullable non_empty) = Some (ic_prompt i)"
      "ic_extra i = model_extra [''scope'', ''prompt''] d"
    by (auto simp: parse_input_def d bind_eq_Some_conv)
  have o: "ic_scope i = Some k \<Longrightarrow> stripped k" "ic_prompt i = Some k \<Longrightarrow> stripped k" for k
    using f(1,2) by (auto intro: non_empty_stripped elim: field_nullable)
  obtain D where D: "dump_input i = PDict D" by (simp add: dump_input_def)
  have m: "map_of D ''scope'' = map_option PStr (ic_scope i)" "map_of D ''prompt'' = map_option PStr (ic_prompt i)"
    "model_extra [''scope'', ''prompt''] D = non_null (ic_extra i)"
    using D by (auto simp: dump_input_def dump_fields f(3) split: option.splits)
  have g: "field D ''scope'' (Some None) (nullable non_empty) = Some (ic_scope i)"
    "field D ''prompt'' (Some None) (nullable non_empty) = Some (ic_prompt i)"
    using o by (simp_all add: field_optional_same [OF m(1)] field_optional_same [OF m(2)] stripped_def)
  show ?thesis by (simp add: D parse_input_def g m(3))
qed

lemma stripped_artifacts: "stripped ''artifacts''" "stripped ''https://api.openai.com/v1''"
    "stripped ''http://localhost:11434/v1''" "stripped ''dry-run''"
  by code_simp+

lemma parse_dump_output:
  assumes co: "coercions_ok co" and "parse_output co v = Some c"
  shows "parse_output co (dump_output c) = Some (c\<lparr>oc_extra := non_null (oc_extra c)\<rparr>)"
proof -
  from assms(2) obtain d where d: "v = PDict d" by (cases v) (auto simp: parse_output_def)
  from assms(2) have f: "field d ''artifacts_dir'' (Some ''artifacts'') non_empty = Some (oc_artifacts_dir c)"
      "oc_extra c = model_extra [''artifacts_dir'', ''enforce_json''] d"
    by (auto simp: parse_output_def d bind_eq_Some_conv)
  have o: "stripped (oc_artifacts_dir c)"
    using f(1) stripped_artifacts by (auto elim!: field_cases dest: non_empty_stripped)
  obtain D where D: "dump_output c = PDict D" by (simp add: dump_output_def)
  have m: "map_of D ''artifacts_dir'' = Some (PStr (oc_artifacts_dir c))"
    "map_of D ''enforce_json'' = Some (PBool (oc_enforce_json c))"
    "model_extra [''artifacts_dir'', ''enforce_json''] D = non_null (oc_extra c)"
    using D by (auto simp: dump_output_def dump_fields f(2))
  show ?thesis
    using o by (simp add: D parse_output_def m field_present [OF m(1)] field_present [OF m(2)] coercions_okD [OF co] stripped_def)
qed

lemma parse_dump_gating:
  assumes co: "coercions_ok co" and "parse_gating co v = Some c"
  shows "parse_gating co (dump_gating c) = Some (c\<lparr>gc_extra := non_null (gc_extra c)\<rparr>)"
proof -
  from assms(2) obtain d where d: "v = PDict d" by (cases v) (auto simp: parse_gating_def)
  from assms(2) have f: "gc_extra c = model_extra [''fail_on_high''] d"
    by (auto simp: parse_gating_def d bind_eq_Some_conv)
  obtain D where D: "dump_gating c = PDict D" by (simp add: dump_gating_def)
  have m: "map_of D ''fail_on_high'' = Some (PBool (gc_fail_on_high c))"
    "model_extra [''fail_on_high''] D = non_null (gc_extra c)"
    using D by (auto simp: dump_gating_def dump_fields f)
  show ?thesis by (simp add: D parse_gating_def m field_present [OF m(1)] coercions_okD [OF co])
qed

abbreviation clean_endpoint :: "endpoint_config \<Rightarrow> endpoint_config" where
  "clean_endpoint e \<equiv> e\<lparr>ec_extra := non_null (ec_extra e)\<rparr>"

lemma parse_openai_Some:
  assumes "parse_openai v = Some e"
  obtains u d where "e = \<lparr>ec_base_url = Some u, ec_auth = None, ec_extra = model_extra [''base_url''] d\<rparr>" "stripped u"
proof -
  from assms obtain d where d: "v = PDict d" by (cases v) (auto simp: parse_openai_def)
  from assms obtain u where u: "field d ''base_url'' (Some ''https://api.openai.com/v1'') non_empty = Some u"
    "e = \<lparr>ec_base_url = Some u, ec_auth = None, ec_extra = model_extra [''base_url''] d\<rparr>"
    by (auto simp: parse_openai_def d bind_eq_Some_conv)
  moreover have "stripped u" using u(1) stripped_artifacts by (auto elim!: field_cases dest: non_empty_stripped)
  ultimately show ?thesis using that by blast
qed

lemma parse_endpoint_openai:
  assumes "stripped u" and "e = \<lparr>ec_base_url = Some u, ec_auth = None, ec_extra = model_extra [''base_url''] d\<rparr>"
  shows "parse_openai (dump_endpoint e) = Some (clean_endpoint e)"
proof -
  have D: "dump_endpoint e = PDict ((''base_url'', PStr u) # non_null (model_extra [''base_url''] d))"
    by (simp add: dump_endpoint_def some_item_def assms(2))
  have "field ((''base_url'', PStr u) # t) ''base_url'' dflt non_empty = Some u" for t dflt
    using assms(1) by (simp add: field_def stripped_def)
  then show ?thesis unfolding D parse_openai_def by (simp add: assms(2) model_extra_Cons)
qed

lemma parse_dump_openai: "parse_openai v = Some e \<Longrightarrow> parse_openai (dump_endpoint e) = Some (clean_endpoint e)"
  by (erule parse_openai_Some) (rule parse_endpoint_openai)

lemma parse_dump_custom_api:
  assumes "parse_custom_api v = Some e"
  shows "parse_custom_api (dump_endpoint e) = Some (clean_endpoint e)"
proof -
  from assms obtain d where d: "v = PDict d" by (cases v) (auto simp: parse_custom_api_def)
  from assms obtain u where u: "field d ''base_url'' (Some None) (nullable non_empty) = Some u"
    "e = \<lparr>ec_base_url = u, ec_auth = None, ec_extra = model_extra [''base_url''] d\<rparr>"
    by (auto simp: parse_custom_api_def d bind_eq_Some_conv)
  have o: "u = Some k \<Longrightarrow> stripped k" for k using u(1) by (auto intro: non_empty_stripped elim: field_nullable)
  obtain D where D: "dump_endpoint e = PDict D" by (simp add: dump_endpoint_def)
  have m: "map_of D ''base_url'' = map_option PStr u" "model_extra [''base_url''] D = non_null (ec_extra e)"
    using D by (auto simp: dump_endpoint_def dump_fields u(2) some_item_def split: option.splits)
  have "field D ''base_url'' (Some None) (nullable non_empty) = Some u"
    using o by (simp add: field_optional_same [OF m(1)] stripped_def)
  then show ?thesis by (simp add: D parse_custom_api_def m(2)) (simp add: u(2))
qed

lemma parse_local_Some:
  assumes "parse_local co v = Some e"
  obtains u a d where "e = \<lparr>ec_base_url = Some u, ec_auth = Some a,
      ec_extra = model_extra [''base_url'', ''use_openai_compat_auth''] d\<rparr>" "stripped u"
proof -
  from assms obtain d where d: "v = PDict d" by (cases v) (auto simp: parse_local_def)
  from assms obtain u a where u: "field d ''base_url'' (Some ''http://localhost:11434/v1'') non_empty = Some u"
    "e = \<lparr>ec_base_url = Some u, ec_auth = Some a, ec_extra = model_extra [''base_url'', ''use_openai_compat_auth''] d\<rparr>"
    by (auto simp: parse_local_def d bind_eq_Some_conv)
  moreover have "stripped u" using u(1) stripped_artifacts by (auto elim!: field_cases dest: non_empty_stripped)
  ultimately show ?thesis using that by blast
qed

lemma parse_endpoint_local:
  assumes co: "coercions_ok co" and "stripped u"
    and e: "e = \<lparr>ec_base_url = Some u, ec_auth = Some a, ec_extra = model_extra [''base_url'', ''use_openai_compat_auth''] d\<rparr>"
  shows "parse_local co (dump_endpoint e) = Some (clean_endpoint e)"
proof -
  have D: "dump_endpoint e = PDict ((''base_url'', PStr u) # (''use_openai_compat_auth'', PBool a) #
      non_null (model_extra [''base_url'', ''use_openai_compat_auth''] d))"
    by (simp add: dump_endpoint_def some_item_def e)
  have "field ((''base_url'', PStr u) # t) ''base_url'' dflt non_empty = Some u"
    "field ((''base_url'', PStr u) # (''use_openai_compat_auth'', PBool a) # t) ''use_openai_compat_auth'' dflt'
       (to_bool co) = Some a" for t dflt dflt'
    using assms(2) by (simp_all add: field_def stripped_def coercions_okD [OF co])
  then show ?thesis unfolding D parse_local_def by (simp add: e model_extra_Cons)
qed

lemma parse_dump_local:
  "coercions_ok co \<Longrightarrow> parse_local co v = Some e \<Longrightarrow> parse_local co (dump_endpoint e) = Some (clean_endpoint e)"
  by (erule parse_local_Some) (rule parse_endpoint_local)

lemma parse_dump_defaults:
  "parse_openai (dump_endpoint default_openai) = Some (clean_endpoint default_openai)"
  "coercions_ok co \<Longrightarrow> parse_local co (dump_endpoint default_local) = Some (clean_endpoint default_local)"
  by (rule parse_endpoint_openai [OF stripped_artifacts(2), of _ "[]"], simp add: default_openai_def)
    (erule parse_endpoint_local [OF _ stripped_artifacts(3), of _ _ True "[]"], simp add: default_local_def)

definition choices_ok :: "string list \<Rightarrow> bool" where
  "choices_ok cs \<longleftrightarrow> list_all (\<lambda>c. c \<noteq> [] \<and> lower (strip c) = c) cs"

lemma choices_ok_lists: "choices_ok review_isolation_choices" "choices_ok [''ensemble'', ''solo'']"
  by code_simp+

lemma str_choice_in: "str_choice rep dflt cs v = Some c \<Longrightarrow> c \<in> set cs"
  by (auto simp: Let_def split: if_splits)

lemma str_choice_same: "choices_ok cs \<Longrightarrow> c \<in> set cs \<Longrightarrow> str_choice rep dflt cs (PStr c) = Some c"
  by (auto simp: choices_ok_def list_all_iff py_or_def)

declare str_choice.simps [simp del]

lemma checked_Some: "checked ok f v = Some x \<longleftrightarrow> f v = Some x \<and> ok x"
  by (auto simp: checked_def split: option.splits)

lemma dump_endpoint_not_None [simp]: "dump_endpoint e \<noteq> PNone" "dump_strs xs \<noteq> PNone"
  by (simp_all add: dump_endpoint_def dump_strs_def)

lemma choice_defaults: "''scope_and_implementation'' \<in> set review_isolation_choices" "''ensemble'' \<in> set [''ensemble'', ''solo'']"
    "adapter_name_ok ''dry-run''"
  by code_simp+

abbreviation clean_runtime :: "runtime_config \<Rightarrow> runtime_config" where
  "clean_runtime r \<equiv> r\<lparr>rt_openai := clean_endpoint (rt_openai r), rt_custom_api := map_option clean_endpoint (rt_custom_api r),
     rt_local := clean_endpoint (rt_local r), rt_extra := non_null (rt_extra r)\<rparr>"

lemma parse_dump_runtime:
  assumes co: "coercions_ok co" and "parse_runtime co rep v = Some r"
  shows "parse_runtime co rep (dump_runtime r) = Some (clean_runtime r)"
proof -
  from assms(2) obtain d where d: "v = PDict d" by (cases v) (auto simp: parse_runtime_def)
  from assms(2) have
    f: "field d ''adapter'' (Some ''dry-run'') (checked adapter_name_ok non_empty) = Some (rt_adapter r)"
      "field d ''timeout_seconds'' (Some 60) (checked (\<lambda>q. 0 < q) (to_float co)) = Some (rt_timeout_seconds r)"
      "field d ''max_retries'' (Some 2) (checked (\<lambda>i. 0 \<le> i) (to_int co)) = Some (rt_max_retries r)"
      "field d ''retry_backoff_seconds'' (Some 1) (checked (\<lambda>q. 0 < q) (to_float co)) = Some (rt_retry_backoff_seconds r)"
      "field d ''max_output_tokens'' (Some None) (nullable (checked (\<lambda>i. 0 < i) (to_int co))) = Some (rt_max_output_tokens r)"
      "field d ''review_isolation'' (Some ''scope_and_implementation'')
         (str_choice rep ''scope_and_implementation'' review_isolation_choices) = Some (rt_review_isolation r)"
      "field d ''openai'' (Some default_openai) parse_openai = Some (rt_openai r)"
      "field d ''custom_api'' (Some None) (nullable parse_custom_api) = Some (rt_custom_api r)"
      "field d ''local'' (Some default_local) (parse_local co) = Some (rt_local r)"
      "rt_extra r = model_extra runtime_fields d"
    by (auto simp: parse_runtime_def d bind_eq_Some_conv)
  have a: "adapter_name_ok (rt_adapter r)" "stripped (rt_adapter r)"
    using f(1) stripped_artifacts choice_defaults by (auto elim!: field_cases simp: checked_Some dest: non_empty_stripped)
  have n: "0 < rt_timeout_seconds r" "0 \<le> rt_max_retries r" "0 < rt_retry_backoff_seconds r"
    using f(2-4) by (auto elim!: field_cases simp: checked_Some)
  have t: "rt_max_output_tokens r = Some i \<Longrightarrow> 0 < i" for i
    using f(5) by (auto elim: field_nullable simp: checked_Some)
  have i: "rt_review_isolation r \<in> set review_isolation_choices"
    using f(6) choice_defaults by (auto elim!: field_cases dest: str_choice_in)
  have e: "parse_openai (dump_endpoint (rt_openai r)) = Some (clean_endpoint (rt_openai r))"
    "parse_local co (dump_endpoint (rt_local r)) = Some (clean_endpoint (rt_local r))"
    using f(7,9) parse_dump_defaults co by (auto elim!: field_cases intro: parse_dump_openai parse_dump_local)
  have c: "rt_custom_api r = Some x \<Longrightarrow> parse_custom_api (dump_endpoint x) = Some (clean_endpoint x)" for x
    using f(8) by (auto elim: field_nullable intro: parse_dump_custom_api)
  obtain D where D: "dump_runtime r = PDict D" by (simp add: dump_runtime_def)
  have m: "map_of D ''adapter'' = Some (PStr (rt_adapter r))" "map_of D ''timeout_seconds'' = Some (PFloat (rt_timeout_seconds r))"
    "map_of D ''max_retries'' = Some (PInt (rt_max_retries r))"
    "map_of D ''retry_backoff_seconds'' = Some (PFloat (rt_retry_backoff_seconds r))"
    "map_of D ''max_output_tokens'' = map_option PInt (rt_max_output_tokens r)"
    "map_of D ''review_isolation'' = Some (PStr (rt_review_isolation r))"
    "map_of D ''openai'' = Some (dump_endpoint (rt_openai r))"
    "map_of D ''custom_api'' = map_option dump_endpoint (rt_custom_api r)"
    "map_of D ''local'' = Some (dump_endpoint (rt_local r))"
    "model_extra runtime_fields D = non_null (rt_extra r)"
    using D by (auto simp: dump_runtime_def dump_fields f(10) runtime_fields_def split: option.splits)
  have g: "field D ''adapter'' (Some ''dry-run'') (checked adapter_name_ok non_empty) = Some (rt_adapter r)"
      "field D ''timeout_seconds'' (Some 60) (checked (\<lambda>q. 0 < q) (to_float co)) = Some (rt_timeout_seconds r)"
      "field D ''max_retries'' (Some 2) (checked (\<lambda>i. 0 \<le> i) (to_int co)) = Some (rt_max_retries r)"
      "field D ''retry_backoff_seconds'' (Some 1) (checked (\<lambda>q. 0 < q) (to_float co)) = Some (rt_retry_backoff_seconds r)"
      "field D ''max_output_tokens'' (Some None) (nullable (checked (\<lambda>i. 0 < i) (to_int co))) = Some (rt_max_output_tokens r)"
      "field D ''review_isolation'' (Some ''scope_and_implementation'')
         (str_choice rep ''scope_and_implementation'' review_isolation_choices) = Some (rt_review_isolation r)"
      "field D ''openai'' (Some default_openai) parse_openai = Some (clean_endpoint (rt_openai r))"
      "field D ''local'' (Some default_local) (parse_local co) = Some (clean_endpoint (rt_local r))"
    using a n t i e
    by (simp_all add: field_present m(1-4,6,7,9) field_optional_same [OF m(5)] checked_Some coercions_okD [OF co]
        str_choice_same choices_ok_lists del: non_empty.simps)
  have h: "field D ''custom_api'' (Some None) (nullable parse_custom_api) = Some (map_option clean_endpoint (rt_custom_api r))"
    using c by (intro field_optional [OF m(8)]) simp
  show ?thesis by (simp add: D parse_runtime_def g h m(10))
qed

abbreviation clean_role :: "role_config \<Rightarrow> role_config" where
  "clean_role r \<equiv> r\<lparr>rc_extra := non_null (rc_extra r)\<rparr>"

lemma parse_dump_roles:
  "coercions_ok co \<Longrightarrow> parse_roles co d = Some rs \<Longrightarrow>
     parse_roles co (map (apsnd dump_role) rs) = Some (map (apsnd clean_role) rs)"
proof (induction d arbitrary: rs)
  case (Cons x d)
  obtain role v where x: "x = (role, v)" by (cases x)
  from Cons(3) obtain rc rest where p: "parse_role co v = Some rc" "parse_roles co d = Some rest" "rs = (role, rc) # rest"
    by (auto simp: x bind_eq_Some_conv)
  from Cons(1) [OF Cons(2) p(2)] parse_dump_role [OF Cons(2) p(1)] show ?case by (simp add: p(3))
qed simp

lemma parse_roles_names: "parse_roles co d = Some rs \<Longrightarrow> map fst rs = map fst d"
  by (induction d arbitrary: rs) (auto simp: bind_eq_Some_conv)

abbreviation clean_provider :: "provider_config \<Rightarrow> provider_config" where
  "clean_provider p \<equiv> p\<lparr>pc_extra := non_null (pc_extra p)\<rparr>"

definition clean_config :: "ese_config \<Rightarrow> ese_config" where
  "clean_config c = c\<lparr>
     es_provider := clean_provider (es_provider c),
     es_roles := map (apsnd clean_role) (es_roles c),
     es_constraints := (es_constraints c)\<lparr>cc_extra := non_null (cc_extra (es_constraints c))\<rparr>,
     es_input := (es_input c)\<lparr>ic_extra := non_null (ic_extra (es_input c))\<rparr>,
     es_output := (es_output c)\<lparr>oc_extra := non_null (oc_extra (es_output c))\<rparr>,
     es_gating := (es_gating c)\<lparr>gc_extra := non_null (gc_extra (es_gating c))\<rparr>,
     es_runtime := clean_runtime (es_runtime c), es_extra := non_null (es_extra c)\<rparr>"

text \<open>What a validated configuration satisfies.\<close>

definition config_ok :: "coercions \<Rightarrow> (pv \<Rightarrow> string) \<Rightarrow> ese_config \<Rightarrow> bool" where
  "config_ok co rep c \<longleftrightarrow> es_version c = 1 \<and> es_mode c \<in> {''ensemble'', ''solo''} \<and>
     (\<forall>order. es_role_order c = Some order \<longrightarrow> names_ok order) \<and>
     (\<exists>d. es_extra c = model_extra config_fields d)"

text \<open>The default of a section is what an empty section gives.\<close>

lemma default_sections:
  "parse_constraints co (PDict []) = Some default_constraints"
  "parse_input (PDict []) = Some \<lparr>ic_scope = None, ic_prompt = None, ic_extra = []\<rparr>"
  "parse_output co (PDict []) = Some \<lparr>oc_artifacts_dir = ''artifacts'', oc_enforce_json = True, oc_extra = []\<rparr>"
  "parse_gating co (PDict []) = Some \<lparr>gc_fail_on_high = True, gc_extra = []\<rparr>"
  "parse_runtime co rep (PDict []) = Some default_runtime"
  by (simp_all add: parse_constraints_def default_constraints_def parse_input_def parse_output_def parse_gating_def
      parse_runtime_def default_runtime_def field_def model_extra_def)

lemma field_section:
  assumes "field d k (Some dflt) f = Some x" and "f (PDict []) = Some dflt"
  obtains v where "f v = Some x"
  using assms by (auto elim!: field_cases)

lemma parse_config_fields:
  assumes "parse_config co rep d = Some c"
  shows "field d ''version'' (Some 1) (checked (\<lambda>i. i = 1) (to_int co)) = Some (es_version c)"
    "field d ''mode'' (Some ''ensemble'') (str_choice rep ''ensemble'' [''ensemble'', ''solo'']) = Some (es_mode c)"
    "field d ''strict_config'' (Some False) (to_bool co) = Some (es_strict c)"
    "field d ''provider'' None parse_provider = Some (es_provider c)"
    "field d ''roles'' (Some []) (parse_role_map co) = Some (es_roles c)"
    "field d ''role_order'' (Some None) (nullable parse_role_order) = Some (es_role_order c)"
    "field d ''constraints'' (Some default_constraints) (parse_constraints co) = Some (es_constraints c)"
    "field d ''input'' (Some \<lparr>ic_scope = None, ic_prompt = None, ic_extra = []\<rparr>) parse_input = Some (es_input c)"
    "field d ''output'' (Some \<lparr>oc_artifacts_dir = ''artifacts'', oc_enforce_json = True, oc_extra = []\<rparr>)
       (parse_output co) = Some (es_output c)"
    "field d ''gating'' (Some \<lparr>gc_fail_on_high = True, gc_extra = []\<rparr>) (parse_gating co) = Some (es_gating c)"
    "field d ''runtime'' (Some default_runtime) (parse_runtime co rep) = Some (es_runtime c)"
    "es_extra c = model_extra config_fields d"
  using assms by (auto simp: parse_config_def bind_eq_Some_conv)

lemma dumped_config_fields:
  assumes "es_extra c = model_extra config_fields d"
  shows "map_of (dump_config c) ''version'' = Some (PInt (es_version c))"
    "map_of (dump_config c) ''mode'' = Some (PStr (es_mode c))"
    "map_of (dump_config c) ''strict_config'' = Some (PBool (es_strict c))"
    "map_of (dump_config c) ''provider'' = Some (dump_provider (es_provider c))"
    "map_of (dump_config c) ''roles'' = Some (PDict (map (apsnd dump_role) (es_roles c)))"
    "map_of (dump_config c) ''role_order'' = map_option dump_strs (es_role_order c)"
    "map_of (dump_config c) ''constraints'' = Some (dump_constraints (es_constraints c))"
    "map_of (dump_config c) ''input'' = Some (dump_input (es_input c))"
    "map_of (dump_config c) ''output'' = Some (dump_output (es_output c))"
    "map_of (dump_config c) ''gating'' = Some (dump_gating (es_gating c))"
    "map_of (dump_config c) ''runtime'' = Some (dump_runtime (es_runtime c))"
    "model_extra config_fields (dump_config c) = non_null (es_extra c)"
  by (auto simp: dump_config_def dump_fields assms config_fields_def split: option.splits)

lemma clean_endpoint_default: "clean_endpoint default_openai = default_openai" "clean_endpoint default_local = default_local"
  by (simp_all add: default_openai_def default_local_def non_null_def)

lemma reparse_config:
  assumes co: "coercions_ok co" and p: "parse_config co rep d = Some c"
  shows "parse_config co rep (dump_config c) = (if es_roles c = [] then None else Some (clean_config c))"
proof -
  note f = parse_config_fields [OF p]
  note m = dumped_config_fields [OF f(12)]
  have v: "es_version c = 1" using f(1) by (auto elim!: field_cases simp: checked_Some)
  have mode: "es_mode c \<in> set [''ensemble'', ''solo'']"
    using f(2) choice_defaults by (auto elim!: field_cases dest: str_choice_in)
  have order: "es_role_order c = Some ord \<Longrightarrow> parse_role_order (dump_strs ord) = Some ord" for ord
    using f(6) by (auto elim: field_nullable intro!: parse_dump_order parse_role_order_ok)
  have prov: "parse_provider (dump_provider (es_provider c)) = Some (clean_provider (es_provider c))"
    using f(4) by (auto elim!: field_cases intro: parse_dump_provider)
  have roles: "parse_roles co (map (apsnd dump_role) (es_roles c)) = Some (map (apsnd clean_role) (es_roles c))"
  proof (cases "es_roles c = []")
    case False
    then obtain w where "parse_role_map co w = Some (es_roles c)" using f(5) by (auto elim!: field_cases)
    then show ?thesis using parse_dump_roles [OF co] by (cases w) (auto split: if_splits)
  qed simp
  have cons: "parse_constraints co (dump_constraints (es_constraints c)) = Some (es_constraints (clean_config c))"
    by (rule field_section [OF f(7) default_sections(1)]) (simp add: parse_dump_constraints [OF co] clean_config_def)
  have inp: "parse_input (dump_input (es_input c)) = Some (es_input (clean_config c))"
    by (rule field_section [OF f(8) default_sections(2)]) (simp add: parse_dump_input clean_config_def)
  have outp: "parse_output co (dump_output (es_output c)) = Some (es_output (clean_config c))"
    by (rule field_section [OF f(9) default_sections(3)]) (simp add: parse_dump_output [OF co] clean_config_def)
  have gat: "parse_gating co (dump_gating (es_gating c)) = Some (es_gating (clean_config c))"
    by (rule field_section [OF f(10) default_sections(4)]) (simp add: parse_dump_gating [OF co] clean_config_def)
  have run: "parse_runtime co rep (dump_runtime (es_runtime c)) = Some (es_runtime (clean_config c))"
    by (rule field_section [OF f(11) default_sections(5)]) (simp add: parse_dump_runtime [OF co] clean_config_def)
  have g: "field (dump_config c) ''version'' (Some 1) (checked (\<lambda>i. i = 1) (to_int co)) = Some 1"
    "field (dump_config c) ''mode'' (Some ''ensemble'') (str_choice rep ''ensemble'' [''ensemble'', ''solo'']) = Some (es_mode c)"
    "field (dump_config c) ''strict_config'' (Some False) (to_bool co) = Some (es_strict c)"
    by (simp_all add: field_present m(1-3) v checked_Some coercions_okD [OF co] str_choice_same [OF choices_ok_lists(2) mode])
  have h: "field (dump_config c) ''role_order'' (Some None) (nullable parse_role_order) = Some (es_role_order c)"
    using order by (intro field_optional_same [OF m(6)]) simp
  show ?thesis
  proof (cases "es_roles c = []")
    case True
    then have "field (dump_config c) ''roles'' (Some []) (parse_role_map co) = None"
      by (simp add: field_present m(5))
    with True show ?thesis by (simp add: parse_config_def g field_present m(4) prov)
  next
    case False
    then have "field (dump_config c) ''roles'' (Some []) (parse_role_map co) = Some (map (apsnd clean_role) (es_roles c))"
      by (simp add: field_present m(5) roles)
    with False show ?thesis
      by (simp add: parse_config_def g h field_present m(4,7-12) prov cons inp outp gat run) (simp add: clean_config_def v)
  qed
qed

lemma dump_clean_endpoint [simp]: "dump_endpoint (clean_endpoint e) = dump_endpoint e"
  by (simp add: dump_endpoint_def)

lemma dump_clean_config: "dump_config (clean_config c) = dump_config c"
proof -
  have "dump_role (clean_role r) = dump_role r" for r by (simp add: dump_role_def)
  then have "map (apsnd dump_role \<circ> apsnd clean_role) rs = map (apsnd dump_role) rs" for rs
    by (auto simp: apsnd_def)
  moreover have "some_item k dump_endpoint (map_option clean_endpoint e) = some_item k dump_endpoint e" for k e
    by (simp add: some_item_def split: option.splits)
  ultimately show ?thesis
    by (simp add: dump_config_def clean_config_def dump_provider_def dump_constraints_def dump_input_def dump_output_def
        dump_gating_def dump_runtime_def)
qed

lemma adapter_contract_clean: "adapter_contract c \<Longrightarrow> adapter_contract (clean_config c)"
proof -
  assume a: "adapter_contract c"
  have names: "role_names (clean_config c) = role_names c" by (simp add: role_names_def clean_config_def)
  have prov: "all_providers (clean_config c) p = all_providers c p" for p
    by (auto simp: all_providers_def clean_config_def resolved_provider_def list_all_iff split: option.splits)
  have sub: "set (non_null x) \<subseteq> set x" for x by (auto simp: non_null_def)
  have "strict_contract (clean_config c)"
    unfolding strict_contract_def
  proof (intro impI conjI)
    assume s: "es_strict (clean_config c)"
    then have e: "es_extra c = []"
      and r: "list_all (\<lambda>(role, rc). filter (\<lambda>k. k \<notin> set strict_role_keys) (map fst (rc_extra rc)) = []) (es_roles c)"
      using a by (simp_all add: adapter_contract_def strict_contract_def clean_config_def)
    from e show "es_extra (clean_config c) = []" by (simp add: clean_config_def non_null_def)
    show "list_all (\<lambda>(role, rc). filter (\<lambda>k. k \<notin> set strict_role_keys) (map fst (rc_extra rc)) = []) (es_roles (clean_config c))"
      using r sub by (fastforce simp: clean_config_def list_all_iff filter_empty_conv)
  qed
  moreover have "provider_contract (clean_config c)"
    using a unfolding adapter_contract_def provider_contract_def prov
    by (simp add: clean_config_def Let_def split: option.splits)
  moreover have "json_contract (clean_config c)" "order_contract (clean_config c)"
    using a unfolding adapter_contract_def json_contract_def order_contract_def names
    by (simp_all add: clean_config_def split: option.splits)
  ultimately show ?thesis by (simp add: adapter_contract_def)
qed

lemma parsed_roles_Nil:
  assumes "parse_config co rep d = Some c"
  shows "es_roles c = [] \<longleftrightarrow> \<not> dhas d ''roles''"
proof -
  have "parse_role_map co w = Some rs \<Longrightarrow> rs \<noteq> []" for w rs
    by (cases w) (auto split: if_splits dest!: parse_roles_names)
  then show ?thesis using parse_config_fields(5) [OF assms] by (auto simp: field_def dhas_def split: option.splits)
qed

lemma validate_config_Inr:
  assumes "validate_config co rep cfg = Inr cfg'"
  obtains c where "parse_config co rep cfg = Some c" "adapter_contract c" "cfg' = dump_config c"
  using assms by (auto simp: validate_config_def split: option.splits if_splits)

section \<open>Properties\<close>

text \<open>C21: Validation is a projection: a validated configuration validates to itself, so reading the written
  snapshot of a run gives the same settings. The one exception is a configuration without roles, which
  passes the first time, since the check of the roles is skipped for the default value, and is rejected
  the second time.\<close>

theorem validation_idempotent:
  assumes "coercions_ok co" and "validate_config co rep cfg = Inr cfg'"
  shows "validate_config co rep cfg' =
    (if dhas cfg ''roles'' then Inr cfg' else Inl (ConfigValidationError ''Invalid ESE config''))"
proof -
  from validate_config_Inr [OF assms(2)] obtain c where
    c: "parse_config co rep cfg = Some c" "adapter_contract c" "cfg' = dump_config c" .
  show ?thesis
    using reparse_config [OF assms(1) c(1)] parsed_roles_Nil [OF c(1)] adapter_contract_clean [OF c(2)]
    by (auto simp: validate_config_def c(3) dump_clean_config)
qed

definition exact_coercions :: coercions where
  "exact_coercions = \<lparr>to_int = (\<lambda>v. case v of PInt i \<Rightarrow> Some i | _ \<Rightarrow> None),
     to_float = (\<lambda>v. case v of PFloat q \<Rightarrow> Some q | PInt i \<Rightarrow> Some (of_int i) | _ \<Rightarrow> None),
     to_bool = (\<lambda>v. case v of PBool b \<Rightarrow> Some b | _ \<Rightarrow> None)\<rparr>"

definition sample_config :: dict where
  "sample_config =
     [(''provider'', PDict [(''name'', PStr '' openai ''), (''model'', PStr ''gpt'')]),
      (''roles'', PDict [(''implementer'', PDict []), (''architect'', PDict [(''model'', PStr ''o1'')])]),
      (''input'', PDict [(''scope'', PStr ''Add a cache'')]),
      (''runtime'', PDict [(''adapter'', PStr ''openai'')])]"

theorem validation_idempotent_witness:
  "\<exists>cfg'. validate_config exact_coercions (\<lambda>_. []) sample_config = Inr cfg' \<and>
     validate_config exact_coercions (\<lambda>_. []) cfg' = Inr cfg'"
proof -
  have co: "coercions_ok exact_coercions" by (simp add: coercions_ok_def exact_coercions_def)
  have "\<not> isl (validate_config exact_coercions (\<lambda>_. []) sample_config)" by code_simp
  then obtain cfg' where v: "validate_config exact_coercions (\<lambda>_. []) sample_config = Inr cfg'"
    by (cases "validate_config exact_coercions (\<lambda>_. []) sample_config") auto
  moreover have "dhas sample_config ''roles''" by (simp add: dhas_def sample_config_def)
  ultimately show ?thesis using validation_idempotent [OF co v] by simp
qed

end
