(* ===== verification/Json.thy ===== *)
theory Json
  imports Conversions
begin

text \<open>
  What the program uses of \<open>json.dumps\<close> and \<open>json.loads\<close>: the printer with and without
  \<open>indent=2\<close> (ASCII output), and a recursive descent parser. Every second step of the parser consumes
  a character, so twice the length of the text is enough fuel. The representation of a float is an
  argument. Not modelled: the literals \<open>NaN\<close> and \<open>Infinity\<close>, and escapes of code points from 256 on,
  which the parser rejects.
\<close>

section \<open>Characters\<close>

definition quote_char :: char where "quote_char = CHR 0x22"
definition backslash :: char where "backslash = CHR 0x5C"
definition newline :: char where "newline = CHR 0x0A"

definition code :: "char \<Rightarrow> nat" where
  "code c = of_char c"

definition hex_digit :: "nat \<Rightarrow> char" where
  "hex_digit n = (if n < 10 then char_of (48 + n) else char_of (87 + n))"

definition hex_val :: "char \<Rightarrow> nat option" where
  "hex_val c = (let n = code c in
     if 48 \<le> n \<and> n \<le> 57 then Some (n - 48)
     else if 97 \<le> n \<and> n \<le> 102 then Some (n - 87)
     else if 65 \<le> n \<and> n \<le> 70 then Some (n - 55) else None)"

lemma code_less [simp]: "code c < 256"
  using nat_of_char_less_256 [of c] by (simp add: code_def)

lemma char_of_code [simp]: "char_of (code c) = c"
  by (simp add: code_def)

lemma code_char_of: "n < 256 \<Longrightarrow> code (char_of n) = n"
  by (simp add: code_def)

lemma hex_round [simp]: "n < 16 \<Longrightarrow> hex_val (hex_digit n) = Some n"
  by (auto simp: hex_val_def hex_digit_def code_char_of)

section \<open>Printing\<close>

definition escape :: "char \<Rightarrow> string" where
  "escape c =
     (if c = quote_char \<or> c = backslash then [backslash, c]
      else if code c = 10 then backslash # ''n''
      else if code c = 13 then backslash # ''r''
      else if code c = 9 then backslash # ''t''
      else if code c = 12 then backslash # ''f''
      else if code c = 8 then backslash # ''b''
      else if 32 \<le> code c \<and> code c \<le> 126 then [c]
      else backslash # ''u00'' @ [hex_digit (code c div 16), hex_digit (code c mod 16)])"

definition quote :: "string \<Rightarrow> string" where
  "quote s = quote_char # concat (map escape s) @ [quote_char]"

definition line_break :: "bool \<Rightarrow> nat \<Rightarrow> string" where
  "line_break indent l = (if indent then newline # replicate (2 * l) (CHR '' '') else [])"

definition item_separator :: "bool \<Rightarrow> nat \<Rightarrow> string" where
  "item_separator indent l = (if indent then '','' @ line_break indent l else '', '')"

fun dump :: "(rat \<Rightarrow> string) \<Rightarrow> bool \<Rightarrow> nat \<Rightarrow> pv \<Rightarrow> string"
  and dump_elems :: "(rat \<Rightarrow> string) \<Rightarrow> bool \<Rightarrow> nat \<Rightarrow> pv list \<Rightarrow> string"
  and dump_items :: "(rat \<Rightarrow> string) \<Rightarrow> bool \<Rightarrow> nat \<Rightarrow> dict \<Rightarrow> string" where
  "dump fr ind l PNone = ''null''"
| "dump fr ind l (PBool b) = (if b then ''true'' else ''false'')"
| "dump fr ind l (PInt i) = int_str i"
| "dump fr ind l (PFloat q) = fr q"
| "dump fr ind l (PStr s) = quote s"
| "dump fr ind l (PList xs) = (if xs = [] then ''[]''
     else ''['' @ line_break ind (Suc l) @ dump_elems fr ind (Suc l) xs @ line_break ind l @ '']'')"
| "dump fr ind l (PDict kvs) = (if kvs = [] then ''{}''
     else ''{'' @ line_break ind (Suc l) @ dump_items fr ind (Suc l) kvs @ line_break ind l @ ''}'')"
| "dump_elems fr ind l [] = []"
| "dump_elems fr ind l (x # xs) =
     dump fr ind l x @ (if xs = [] then [] else item_separator ind l @ dump_elems fr ind l xs)"
| "dump_items fr ind l [] = []"
| "dump_items fr ind l ((k, v) # kvs) =
     quote k @ '': '' @ dump fr ind l v @ (if kvs = [] then [] else item_separator ind l @ dump_items fr ind l kvs)"

text \<open>\<open>json.dumps(v, indent=2)\<close> and \<open>json.dumps(v)\<close>.\<close>

definition json_pretty :: "(rat \<Rightarrow> string) \<Rightarrow> pv \<Rightarrow> string" where
  "json_pretty fr v = dump fr True 0 v"

definition json_compact :: "(rat \<Rightarrow> string) \<Rightarrow> pv \<Rightarrow> string" where
  "json_compact fr v = dump fr False 0 v"

section \<open>Parsing\<close>

definition is_ws :: "char \<Rightarrow> bool" where
  "is_ws c = (code c \<in> {32, 9, 10, 13})"

definition skip_ws :: "string \<Rightarrow> string" where
  "skip_ws s = dropWhile is_ws s"

definition unescape :: "char \<Rightarrow> char option" where
  "unescape c =
     (if c = quote_char \<or> c = backslash \<or> c = CHR ''/'' then Some c
      else if c = CHR ''n'' then Some (char_of (10::nat)) else if c = CHR ''r'' then Some (char_of (13::nat))
      else if c = CHR ''t'' then Some (char_of (9::nat)) else if c = CHR ''f'' then Some (char_of (12::nat))
      else if c = CHR ''b'' then Some (char_of (8::nat)) else None)"

definition hex_char :: "char \<Rightarrow> char \<Rightarrow> char \<Rightarrow> char \<Rightarrow> char option" where
  "hex_char a b c d = (case (hex_val a, hex_val b, hex_val c, hex_val d) of
      (Some 0, Some 0, Some m, Some n) \<Rightarrow> Some (char_of (16 * m + n)) | _ \<Rightarrow> None)"

fun parse_chars :: "string \<Rightarrow> (string \<times> string) option" where
  "parse_chars [] = None"
| "parse_chars (c # s) =
     (if c = quote_char then Some ([], s)
      else if c = backslash then
        (case s of
           [] \<Rightarrow> None
         | e # t \<Rightarrow>
             if e = CHR ''u'' then
               (case t of
                  h1 # h2 # h3 # h4 # t' \<Rightarrow>
                    (case hex_char h1 h2 h3 h4 of
                       None \<Rightarrow> None
                     | Some d \<Rightarrow> map_option (apfst ((#) d)) (parse_chars t'))
                | _ \<Rightarrow> None)
             else (case unescape e of None \<Rightarrow> None | Some d \<Rightarrow> map_option (apfst ((#) d)) (parse_chars t)))
      else if code c < 32 then None
      else map_option (apfst ((#) c)) (parse_chars s))"

definition parse_number :: "string \<Rightarrow> (pv \<times> string) option" where
  "parse_number s =
     (let sign = (s \<noteq> [] \<and> hd s = CHR ''-''); t = (if sign then tl s else s);
          ds = takeWhile is_digit t
      in if ds = [] then None
         else let ip = (if hd ds = CHR ''0'' then [hd ds] else ds); r = drop (length ip) t;
                  fs = (if r \<noteq> [] \<and> hd r = CHR ''.'' then takeWhile is_digit (tl r) else []);
                  r1 = (if fs = [] then r else drop (Suc (length fs)) r);
                  has_exp = (r1 \<noteq> [] \<and> hd r1 \<in> {CHR ''e'', CHR ''E''});
                  t2 = (if has_exp then tl r1 else []);
                  esign = (t2 \<noteq> [] \<and> hd t2 \<in> {CHR ''-'', CHR ''+''});
                  es = takeWhile is_digit (if esign then tl t2 else t2);
                  r2 = (if es = [] then r1 else drop (length es) (if esign then tl t2 else t2));
                  m = digits_val ip; e = (if esign \<and> hd t2 = CHR ''-'' then - digits_val es else digits_val es)
              in if fs = [] \<and> es = [] then Some (PInt (if sign then - m else m), r)
                 else let x = (of_int m + of_int (digits_val fs) / 10 ^ length fs) * pow10 e
                   in Some (PFloat (if sign then - x else x), r2))"

definition parse_literal :: "string \<Rightarrow> (pv \<times> string) option" where
  "parse_literal s =
     (if starts_with ''null'' s then Some (PNone, drop 4 s)
      else if starts_with ''true'' s then Some (PBool True, drop 4 s)
      else if starts_with ''false'' s then Some (PBool False, drop 5 s)
      else parse_number s)"

fun parse_value :: "nat \<Rightarrow> string \<Rightarrow> (pv \<times> string) option"
  and parse_elems :: "nat \<Rightarrow> string \<Rightarrow> (pv list \<times> string) option"
  and parse_members :: "nat \<Rightarrow> dict \<Rightarrow> string \<Rightarrow> (dict \<times> string) option" where
  "parse_value 0 s = None"
| "parse_value (Suc n) [] = None"
| "parse_value (Suc n) (c # s) =
     (if c = quote_char then map_option (apfst PStr) (parse_chars s)
      else if c = CHR ''['' then
        (let t = skip_ws s in
         if t \<noteq> [] \<and> hd t = CHR '']'' then Some (PList [], tl t) else map_option (apfst PList) (parse_elems n t))
      else if c = CHR ''{'' then
        (let t = skip_ws s in
         if t \<noteq> [] \<and> hd t = CHR ''}'' then Some (PDict [], tl t) else map_option (apfst PDict) (parse_members n [] t))
      else parse_literal (c # s))"
| "parse_elems 0 s = None"
| "parse_elems (Suc n) s =
     (case parse_value n s of
        None \<Rightarrow> None
      | Some (v, r) \<Rightarrow>
          let t = skip_ws r in
          if t \<noteq> [] \<and> hd t = CHR '','' then map_option (apfst ((#) v)) (parse_elems n (skip_ws (tl t)))
          else if t \<noteq> [] \<and> hd t = CHR '']'' then Some ([v], tl t) else None)"
| "parse_members 0 acc s = None"
| "parse_members (Suc n) acc s =
     (if s = [] \<or> hd s \<noteq> quote_char then None
      else case parse_chars (tl s) of
        None \<Rightarrow> None
      | Some (k, r) \<Rightarrow>
          let t = skip_ws r in
          if t = [] \<or> hd t \<noteq> CHR '':'' then None
          else case parse_value n (skip_ws (tl t)) of
            None \<Rightarrow> None
          | Some (v, r') \<Rightarrow>
              let t' = skip_ws r' in
              if t' \<noteq> [] \<and> hd t' = CHR '','' then parse_members n (dset k v acc) (skip_ws (tl t'))
              else if t' \<noteq> [] \<and> hd t' = CHR ''}'' then Some (dset k v acc, tl t') else None)"

definition json_loads :: "string \<Rightarrow> pv option" where
  "json_loads s = (case parse_value (2 * length s + 2) (skip_ws s) of
      None \<Rightarrow> None
    | Some (v, r) \<Rightarrow> if skip_ws r = [] then Some v else None)"

section \<open>The round trip\<close>

lemma parse_chars_escape:
  "parse_chars (concat (map escape s) @ quote_char # r) = Some (s, r)"
proof (induction s)
  case Nil
  then show ?case by simp
next
  case (Cons c s)
  have hex: "hex_char CHR ''0'' CHR ''0'' (hex_digit (code c div 16)) (hex_digit (code c mod 16)) = Some c"
  proof -
    have "hex_val CHR ''0'' = Some 0" by (simp add: hex_val_def code_def)
    moreover have "code c div 16 < 16" using code_less [of c] by (simp add: less_mult_imp_div_less del: code_less)
    ultimately show ?thesis by (simp add: hex_char_def)
  qed
  have ne: "quote_char \<noteq> backslash" "CHR ''u'' \<noteq> quote_char" "CHR ''u'' \<noteq> backslash" "backslash \<noteq> quote_char"
    by (simp_all add: quote_char_def backslash_def)
  have un: "unescape CHR ''n'' = Some (char_of (10::nat))" "unescape CHR ''r'' = Some (char_of (13::nat))"
     "unescape CHR ''t'' = Some (char_of (9::nat))" "unescape CHR ''f'' = Some (char_of (12::nat))"
     "unescape CHR ''b'' = Some (char_of (8::nat))" "unescape quote_char = Some quote_char" "unescape backslash = Some backslash"
    by (simp_all add: unescape_def quote_char_def backslash_def)
  have same: "code c = n \<Longrightarrow> char_of n = c" for n by auto
  have u: "quote_char \<noteq> CHR ''u''" "backslash \<noteq> CHR ''u''"  by (simp_all add: quote_char_def backslash_def)
  show ?case
    using Cons ne un hex u by (auto simp: same escape_def [of c])
qed

lemma parse_chars_quote: "parse_chars (tl (quote s) @ r) = Some (s, r)"
  using parse_chars_escape [of s r] by (simp add: quote_def)

definition stops :: "string \<Rightarrow> bool" where
  "stops r \<longleftrightarrow> r = [] \<or> hd r \<in> {CHR '','', newline, CHR '']'', CHR ''}''}"

lemma nat_str_zero: "hd (nat_str n) = CHR ''0'' \<Longrightarrow> n = 0 \<and> nat_str n = ''0''"
proof (induction n rule: nat_str.induct)
  case (1 n)
  show ?case
  proof (cases "n < 10")
    case True
    then have "nat_str n = [char_of (48 + int n)]" by (simp add: nat_str.simps [of n])
    with 1(2) digit_code_char [of "int n"] True show ?thesis by (auto simp: digit_code_def)
  next
    case False
    then have "nat_str n = nat_str (n div 10) @ [char_of (48 + int (n mod 10))]" by (simp add: nat_str.simps [of n])
    moreover have "nat_str (n div 10) \<noteq> []" using nat_str_digits [of "n div 10"] by simp
    ultimately have "hd (nat_str (n div 10)) = CHR ''0''" using 1(2) by simp
    with 1(1) False show ?thesis by auto
  qed
qed

lemma stops_number: 
  assumes "stops r"
  shows "takeWhile is_digit r = []" "r \<noteq> [] \<Longrightarrow> hd r \<notin> {CHR ''.'', CHR ''e'', CHR ''E''}"
  using assms by (cases r; auto simp: stops_def newline_def is_digit_def digit_code_def)+

lemma takeWhile_digits: "list_all is_digit ds \<Longrightarrow> stops r \<Longrightarrow> takeWhile is_digit (ds @ r) = ds"
  using stops_number(1) by (induction ds) auto

lemma parse_number_digits:
  assumes "stops r" "list_all is_digit ds" "ds \<noteq> []" "hd ds = CHR ''0'' \<Longrightarrow> ds = ''0''"
  shows "parse_number (ds @ r) = Some (PInt (digits_val ds), r)"
    and "parse_number (CHR ''-'' # ds @ r) = Some (PInt (- digits_val ds), r)"
proof -
  have tw: "takeWhile is_digit (ds @ r) = ds" by (rule takeWhile_digits [OF assms(2,1)])
  have hd: "hd (ds @ r) \<noteq> CHR ''-''" using assms(2,3) by (cases ds) (auto simp: is_digit_def digit_code_def)
  have z: "(if hd ds = CHR ''0'' then [hd ds] else ds) = ds" using assms(4) by auto
  have nd: "(r \<noteq> [] \<and> hd r = CHR ''.'') = False" "(r \<noteq> [] \<and> hd r \<in> {CHR ''e'', CHR ''E''}) = False"
    using stops_number(2) [OF assms(1)] by auto
  show "parse_number (ds @ r) = Some (PInt (digits_val ds), r)"
    unfolding parse_number_def Let_def
    by (simp only: hd tw z nd assms(3) simp_thms if_False if_True append_is_Nil_conv append_eq_conv_conj drop_append
        diff_self_eq_0 drop0 drop_all le_refl append_Nil takeWhile.simps list.size)
  show "parse_number (CHR ''-'' # ds @ r) = Some (PInt (- digits_val ds), r)"
    unfolding parse_number_def Let_def
    by (simp only: list.sel list.distinct tw z nd assms(3) simp_thms if_False if_True drop_append
        diff_self_eq_0 drop0 drop_all le_refl append_Nil takeWhile.simps list.size)
qed

lemma parse_number_nat:
  assumes "stops r"
  shows "parse_number (nat_str n @ r) = Some (PInt (int n), r)"
    and "parse_number (CHR ''-'' # nat_str n @ r) = Some (PInt (- int n), r)"
  using parse_number_digits [OF assms, of "nat_str n"] nat_str_digits [of n] nat_str_zero [of n] by auto

lemma parse_number_int: "stops r \<Longrightarrow> parse_number (int_str i @ r) = Some (PInt i, r)"
  using parse_number_nat [of r] by (cases "i < 0") (auto simp: int_str_def)

text \<open>What can be printed and read back: no floats, and distinct keys in every object.\<close>

fun json_ok :: "pv \<Rightarrow> bool"
  and json_ok_elems :: "pv list \<Rightarrow> bool"
  and json_ok_items :: "dict \<Rightarrow> bool" where
  "json_ok (PFloat q) = False"
| "json_ok (PList xs) = json_ok_elems xs"
| "json_ok (PDict kvs) = (distinct (map fst kvs) \<and> json_ok_items kvs)"
| "json_ok v = True"
| "json_ok_elems [] = True"
| "json_ok_elems (x # xs) = (json_ok x \<and> json_ok_elems xs)"
| "json_ok_items [] = True"
| "json_ok_items ((k, v) # kvs) = (json_ok v \<and> json_ok_items kvs)"

lemma json_ok_elems_iff [simp]: "json_ok_elems xs \<longleftrightarrow> (\<forall>x \<in> set xs. json_ok x)"
  by (induction xs) auto

lemma json_ok_items_iff [simp]: "json_ok_items kvs \<longleftrightarrow> (\<forall>x \<in> set kvs. json_ok (snd x))"
  by (induction kvs) auto

definition first_ok :: "string \<Rightarrow> bool" where
  "first_ok s = (s \<noteq> [] \<and> \<not> is_ws (hd s) \<and> hd s \<noteq> CHR '']'' \<and> hd s \<noteq> CHR ''}'')"

lemma skip_ws_first: "first_ok s \<Longrightarrow> skip_ws (s @ r) = s @ r"
  by (cases s) (auto simp: first_ok_def skip_ws_def)

lemma first_ok_quote: "first_ok (quote s)"
  by (simp add: first_ok_def quote_def quote_char_def is_ws_def code_def)

lemma digit_code_nat: "digit_code c = int (code c) - 48"
  by (simp add: digit_code_def code_def of_nat_of_char)

lemma first_ok_digits: "list_all is_digit s \<Longrightarrow> s \<noteq> [] \<Longrightarrow> first_ok s"
proof (cases s)
  case (Cons c t)
  assume "list_all is_digit s" "s \<noteq> []"
  then have "48 \<le> code c" "code c \<le> 57" using Cons by (simp_all add: is_digit_def digit_code_nat)
  moreover have "code CHR '']'' = 93" "code CHR ''}'' = 125" by (simp_all add: code_def)
  ultimately show ?thesis using Cons by (auto simp: first_ok_def is_ws_def)
qed simp

lemma first_ok_dump: "json_ok v \<Longrightarrow> first_ok (dump fr ind l v)"
proof (cases v)
  case (PInt i)
  have "first_ok (CHR ''-'' # s)" for s by (simp add: first_ok_def is_ws_def code_def)
  then show ?thesis using PInt nat_str_digits by (auto simp: int_str_def intro!: first_ok_digits)
qed (auto simp: first_ok_quote, auto simp: first_ok_def is_ws_def code_def)

lemma skip_ws_break [simp]: "skip_ws (line_break ind l @ s) = skip_ws s"
proof -
  have "list_all is_ws (line_break ind l)"
    by (auto simp: line_break_def is_ws_def newline_def code_def list_all_iff)
  then show ?thesis unfolding skip_ws_def by (induction "line_break ind l" arbitrary: l) (auto simp: list_all_iff)
qed

lemma skip_ws_close [simp]: "skip_ws (CHR '']'' # r) = CHR '']'' # r" "skip_ws (CHR ''}'' # r) = CHR ''}'' # r"
    "skip_ws (CHR '','' # r) = CHR '','' # r" "skip_ws (CHR '':'' # r) = CHR '':'' # r"
    "skip_ws (CHR '' '' # r) = skip_ws r"
  by (simp_all add: skip_ws_def is_ws_def code_def)

lemma stops_close [simp]: "stops (line_break ind l @ CHR '']'' # r)" "stops (line_break ind l @ CHR ''}'' # r)"
    "stops (item_separator ind l @ s)" "stops (CHR '']'' # r)" "stops (CHR ''}'' # r)"
  by (auto simp: stops_def line_break_def item_separator_def)

lemma separator_shape: "\<exists>w. item_separator ind l @ s = CHR '','' # w @ s \<and> (\<forall>t. skip_ws (w @ t) = skip_ws t)"
proof (cases ind)
  case True
  then show ?thesis by (intro exI [of _ "line_break ind l"]) (simp add: item_separator_def)
next
  case False
  then show ?thesis by (intro exI [of _ "'' ''"]) (simp add: item_separator_def)
qed

lemma separator_length: "2 \<le> length (item_separator ind l)"
  by (simp add: item_separator_def line_break_def)

lemma parse_elems_item:
  assumes "parse_value n (s @ item_separator ind l @ r) = Some (v, item_separator ind l @ r)" "skip_ws r = r"
  shows "parse_elems (Suc n) (s @ item_separator ind l @ r) = map_option (apfst ((#) v)) (parse_elems n r)"
proof -
  obtain w where w: "item_separator ind l @ r = CHR '','' # w @ r" "\<And>t. skip_ws (w @ t) = skip_ws t"
    using separator_shape [of ind l r] by auto
  show ?thesis using assms unfolding w(1) by (simp add: w(2))
qed

lemma parse_elems_last:
  assumes "parse_value n (s @ line_break ind l @ CHR '']'' # r) = Some (v, line_break ind l @ CHR '']'' # r)"
  shows "parse_elems (Suc n) (s @ line_break ind l @ CHR '']'' # r) = Some ([v], r)"
  using assms by simp

lemma parse_members_entry:
  assumes "parse_value n (s @ t) = Some (v, t)" "first_ok s"
  shows "parse_members (Suc n) acc (quote k @ '': '' @ s @ t) =
    (let t' = skip_ws t in
     if t' \<noteq> [] \<and> hd t' = CHR '','' then parse_members n (dset k v acc) (skip_ws (tl t'))
     else if t' \<noteq> [] \<and> hd t' = CHR ''}'' then Some (dset k v acc, tl t') else None)"
proof -
  have q: "quote k @ u \<noteq> []" "hd (quote k @ u) = quote_char" "tl (quote k @ u) = tl (quote k) @ u" for u
    by (simp_all add: quote_def)
  have "skip_ws ('' '' @ s @ t) = s @ t" using skip_ws_first [OF assms(2), of t] by simp
  then show ?thesis using assms(1) unfolding parse_members.simps q(3) parse_chars_quote Let_def
    by (simp add: q)
qed

lemma parse_members_item:
  assumes "parse_value n (s @ item_separator ind l @ r) = Some (v, item_separator ind l @ r)" "skip_ws r = r" "first_ok s"
  shows "parse_members (Suc n) acc (quote k @ '': '' @ s @ item_separator ind l @ r) = parse_members n (dset k v acc) r"
proof -
  obtain w where w: "item_separator ind l @ r = CHR '','' # w @ r" "\<And>t. skip_ws (w @ t) = skip_ws t"
    using separator_shape [of ind l r] by auto
  show ?thesis using parse_members_entry [OF assms(1,3), of acc k] assms(2) unfolding w(1) by (simp add: w(2))
qed

lemma parse_members_last:
  assumes "parse_value n (s @ line_break ind l @ CHR ''}'' # r) = Some (v, line_break ind l @ CHR ''}'' # r)" "first_ok s"
  shows "parse_members (Suc n) acc (quote k @ '': '' @ s @ line_break ind l @ CHR ''}'' # r) = Some (dset k v acc, r)"
  using parse_members_entry [OF assms, of acc k] by simp

lemma parse_value_list:
  assumes "first_ok s" "parse_elems n (s @ t) = Some (xs, r)"
  shows "parse_value (Suc n) (CHR ''['' # line_break ind l @ s @ t) = Some (PList xs, r)"
proof -
  have "CHR ''['' \<noteq> quote_char" by (simp add: quote_char_def)
  moreover have "s @ t \<noteq> []" "hd (s @ t) \<noteq> CHR '']''" using assms(1) by (auto simp: first_ok_def)
  ultimately show ?thesis using assms(2) skip_ws_first [OF assms(1), of t] by simp
qed

lemma parse_value_dict:
  assumes "first_ok s" "parse_members n [] (s @ t) = Some (kvs, r)"
  shows "parse_value (Suc n) (CHR ''{'' # line_break ind l @ s @ t) = Some (PDict kvs, r)"
proof -
  have "CHR ''{'' \<noteq> quote_char" "CHR ''{'' \<noteq> CHR ''[''" by (simp_all add: quote_char_def)
  moreover have "s @ t \<noteq> []" "hd (s @ t) \<noteq> CHR ''}''" using assms(1) by (auto simp: first_ok_def)
  ultimately show ?thesis using assms(2) skip_ws_first [OF assms(1), of t] by simp
qed

lemma parse_value_int: "stops r \<Longrightarrow> parse_value (Suc n) (int_str i @ r) = Some (PInt i, r)"
proof -
  assume r: "stops r"
  obtain c s where c: "int_str i = c # s" "is_digit c \<or> c = CHR ''-''"
    using nat_str_digits [of "nat i"] by (cases "i < 0"; cases "nat_str (nat i)") (auto simp: int_str_def)
  have n: "c \<noteq> quote_char" "c \<noteq> CHR ''[''" "c \<noteq> CHR ''{''" "c \<noteq> CHR ''n''" "c \<noteq> CHR ''t''" "c \<noteq> CHR ''f''"
    using c(2) by (auto simp: is_digit_def digit_code_def quote_char_def)
  then have "parse_literal (c # s @ r) = parse_number (c # s @ r)"
    by (auto simp: parse_literal_def)
  then show ?thesis using parse_number_int [OF r, of i] n by (simp add: c)
qed

lemma length_dump_items: "kvs \<noteq> [] \<Longrightarrow> 2 \<le> length (dump_items fr ind l kvs)"
  by (cases kvs) (auto simp: quote_def)

lemma first_ok_elems: "xs \<noteq> [] \<Longrightarrow> json_ok (hd xs) \<Longrightarrow> first_ok (dump_elems fr ind l xs)"
  using first_ok_dump [of "hd xs" fr ind l] by (cases xs) (auto simp: first_ok_def)

lemma first_ok_items: "kvs \<noteq> [] \<Longrightarrow> first_ok (dump_items fr ind l kvs)"
  using first_ok_quote by (cases kvs) (auto simp: first_ok_def)

lemma parse_dump:
  "json_ok v \<Longrightarrow> stops r \<Longrightarrow> 2 * length (dump fr ind l v) \<le> n \<Longrightarrow>
     parse_value n (dump fr ind l v @ r) = Some (v, r)"
  "json_ok_elems xs \<Longrightarrow> xs \<noteq> [] \<Longrightarrow> 2 * length (dump_elems fr ind l xs) + 1 \<le> n \<Longrightarrow>
     parse_elems n (dump_elems fr ind l xs @ line_break ind l' @ CHR '']'' # r) = Some (xs, r)"
  "json_ok_items kvs \<Longrightarrow> kvs \<noteq> [] \<Longrightarrow> distinct (map fst (acc @ kvs)) \<Longrightarrow>
     2 * length (dump_items fr ind l kvs) + 1 \<le> n \<Longrightarrow>
     parse_members n acc (dump_items fr ind l kvs @ line_break ind l' @ CHR ''}'' # r) = Some (acc @ kvs, r)"
proof (induction fr ind l v and fr ind l xs and fr ind l kvs
    arbitrary: n r and n r l' and n r l' acc rule: dump_dump_elems_dump_items.induct)
  case (1 fr ind l)
  then show ?case by (cases n) (simp_all add: parse_literal_def quote_char_def)
next
  case (2 fr ind l b)
  then show ?case by (cases n; cases b) (simp_all add: parse_literal_def quote_char_def)
next
  case (3 fr ind l i)
  have "int_str i \<noteq> []" using nat_str_digits by (simp add: int_str_def)
  with 3 show ?case using parse_value_int [OF 3(2)] by (cases n) auto
next
  case (4 fr ind l q)
  then show ?case by simp
next
  case (5 fr ind l s)
  have "parse_value (Suc m) (quote s @ r) = Some (PStr s, r)" for m
    using parse_chars_quote [of s r] by (simp add: quote_def)
  then show ?case using 5 by (cases n) (auto simp: quote_def)
next
  case (6 fr ind l xs)
  show ?case
  proof (cases "xs = []")
    case True
    with 6 show ?thesis by (cases n) (auto simp: quote_char_def)
  next
    case False
    then obtain m where n: "n = Suc m" using 6(4) by (cases n) auto
    have m: "2 * length (dump_elems fr ind (Suc l) xs) + 1 \<le> m" using 6(4) False by (simp add: n)
    have "parse_elems m (dump_elems fr ind (Suc l) xs @ line_break ind l @ CHR '']'' # r) = Some (xs, r)"
      using 6 False m by simp
    moreover have "first_ok (dump_elems fr ind (Suc l) xs)" using 6(2) False by (intro first_ok_elems) auto
    ultimately show ?thesis using False parse_value_list [of "dump_elems fr ind (Suc l) xs" m _ xs r ind "Suc l"]
      by (simp add: n)
  qed
next
  case (7 fr ind l kvs)
  show ?case
  proof (cases "kvs = []")
    case True
    with 7 show ?thesis by (cases n) (auto simp: quote_char_def)
  next
    case False
    then obtain m where n: "n = Suc m" using 7(4) by (cases n) auto
    have m: "2 * length (dump_items fr ind (Suc l) kvs) + 1 \<le> m" using 7(4) False by (simp add: n)
    have "parse_members m [] (dump_items fr ind (Suc l) kvs @ line_break ind l @ CHR ''}'' # r) = Some ([] @ kvs, r)"
      using 7(2) by (intro 7(1) False m) auto
    then show ?thesis
      using False parse_value_dict [OF first_ok_items [OF False], of m fr ind "Suc l" _ kvs r ind "Suc l"]
      by (simp add: n)
  qed
next
  case (8 fr ind l)
  then show ?case by simp
next
  case (9 fr ind l x xs)
  from 9(5) obtain m where n: "n = Suc m" by (cases n) auto
  have x: "json_ok x" "json_ok_elems xs" using 9(3) by auto
  show ?case
  proof (cases "xs = []")
    case True
    then have "2 * length (dump fr ind l x) \<le> m" using 9(5) by (simp add: n)
    from 9(1) [OF x(1) _ this] True show ?thesis
      by (simp add: n parse_elems_last del: parse_elems.simps)
  next
    case False
    let ?r = "dump_elems fr ind l xs @ line_break ind l' @ CHR '']'' # r"
    have m: "2 * length (dump fr ind l x) \<le> m" "2 * length (dump_elems fr ind l xs) + 1 \<le> m"
      using 9(5) False separator_length [of ind l] by (simp_all add: n)
    have "skip_ws ?r = ?r" using x(2) False by (intro skip_ws_first first_ok_elems) auto
    from parse_elems_item [OF 9(1) [OF x(1) _ m(1)] this] 9(2) [OF False x(2) False m(2), of l' r] False
    show ?thesis by (simp add: n del: parse_elems.simps)
  qed
next
  case (10 fr ind l)
  then show ?case by simp
next
  case (11 fr ind l k v kvs)
  from 11(6) obtain m where n: "n = Suc m" by (cases n) auto
  have v: "json_ok v" "json_ok_items kvs" using 11(3) by auto
  have acc: "dset k v acc = acc @ [(k, v)]"
    using 11(5) by (intro dset_absent) (auto simp: map_of_eq_None_iff)
  show ?case
  proof (cases "kvs = []")
    case True
    then have "2 * length (dump fr ind l v) \<le> m" using 11(6) by (simp add: n)
    from parse_members_last [OF 11(1) [OF v(1) _ this] first_ok_dump [OF v(1)]] True acc show ?thesis
      by (simp add: n del: parse_members.simps)
  next
    case False
    let ?r = "dump_items fr ind l kvs @ line_break ind l' @ CHR ''}'' # r"
    have m: "2 * length (dump fr ind l v) \<le> m" "2 * length (dump_items fr ind l kvs) + 1 \<le> m"
      using 11(6) False separator_length [of ind l] by (simp_all add: n)
    have "skip_ws ?r = ?r" using False by (intro skip_ws_first first_ok_items) auto
    from parse_members_item [OF 11(1) [OF v(1) _ m(1)] this first_ok_dump [OF v(1)], where acc = acc and k = k]
      11(2) [OF False v(2) False _ m(2), of "acc @ [(k, v)]" l' r] 11(5) False acc
    show ?thesis by (simp add: n del: parse_members.simps)
  qed
qed

text \<open>What was printed, with or without a final line break, is read back.\<close>

lemma json_loads_dump:
  assumes "json_ok v" and "t = [] \<or> t = [newline]"
  shows "json_loads (dump fr ind l v @ t) = Some v"
proof -
  have st: "stops t" and ws: "skip_ws t = []"
    using assms(2) by (auto simp: stops_def newline_def skip_ws_def is_ws_def code_def)
  have "parse_value (2 * length (dump fr ind l v @ t) + 2) (dump fr ind l v @ t) = Some (v, t)"
    by (rule parse_dump(1) [OF assms(1) st]) simp
  then show ?thesis by (simp add: json_loads_def skip_ws_first first_ok_dump assms(1) ws)
qed

lemma json_loads_pretty: "json_ok v \<Longrightarrow> json_loads (json_pretty fr v @ [newline]) = Some v"
  by (simp add: json_pretty_def json_loads_dump)

lemma json_loads_compact: "json_ok v \<Longrightarrow> json_loads (json_compact fr v) = Some v"
  using json_loads_dump [of v "[]"] by (simp add: json_compact_def)

section \<open>Blanks and lower case\<close>

lemma is_space_lower: "is_space (lower_char c) = is_space c"
proof -
  have c: "(of_char c :: int) = int (code c)" by (simp add: code_def of_nat_of_char)
  show ?thesis
  proof (cases "65 \<le> code c \<and> code c \<le> 90 \<or> 192 \<le> code c \<and> code c \<le> 222 \<and> code c \<noteq> 215")
    case True
    then have "lower_char c = char_of (int (code c) + 32)" by (auto simp: lower_char_def Let_def c)
    then have "(of_char (lower_char c) :: int) = int (code c) + 32"
      using True by (auto simp: of_char_of take_bit_eq_mod)
    with True show ?thesis by (auto simp: is_space_def space_codes_def c)
  next
    case False
    then have "lower_char c = c" by (auto simp: lower_char_def Let_def c)
    then show ?thesis by simp
  qed
qed

lemma lower_Nil [simp]: "lower s = [] \<longleftrightarrow> s = []"
  by (simp add: lower_def)

lemma strip_lower: "strip (lower s) = lower (strip s)"
proof -
  have d: "dropWhile is_space (lower t) = lower (dropWhile is_space t)" for t
    by (induction t) (auto simp: lower_def is_space_lower)
  have r: "rev (lower t) = lower (rev t)" for t by (simp add: lower_def rev_map)
  show ?thesis by (simp only: strip_def rstrip_def lstrip_def d r)
qed

end
