(* ===== verification/Pipeline_Setup.thy ===== *)
theory Pipeline_Setup
  imports Ese_Config Json
begin

text \<open>
  The first half of \<open>ese/pipeline.py\<close>: the settings a run reads from its configuration (role order,
  output, gating, parallelism, isolation), and the prompt and context each role receives from the outputs
  of the roles before it. The outputs are an association list in the order of the runs.
\<close>

section \<open>Constants\<close>

definition pipeline_order :: "string list" where
  "pipeline_order =
     [''architect'', ''implementer'', ''adversarial_reviewer'', ''security_auditor'',
      ''test_generator'', ''performance_analyst'', ''documentation_writer'', ''devops_sre'', ''database_engineer'', ''release_manager'']"

definition specialist_instructions :: "(string \<times> string) list" where
  "specialist_instructions = [
      (''adversarial_reviewer'',
       ''Act as an adversarial code reviewer. Hunt for correctness bugs, edge cases, '' @
       ''regressions, unsafe assumptions, and missing validation.''),
      (''security_auditor'',
       ''Perform a security review. Focus on trust boundaries, authz/authn gaps, secrets '' @
       ''handling, injection risks, data exposure, and abuse paths.''),
      (''test_generator'',
       ''Design a pragmatic automated test plan. Focus on missing unit, integration, and '' @
       ''end-to-end coverage, including the highest-risk failure modes.''),
      (''performance_analyst'',
       ''Review performance and scalability. Focus on hot paths, latency risks, query or '' @
       ''algorithmic complexity, memory pressure, and caching opportunities.''),
      (''documentation_writer'',
       ''Produce documentation deliverables. Focus on README updates, API usage notes, migration '' @
       ''guidance, operator runbooks, and any documentation gaps that block adoption.''),
      (''devops_sre'',
       ''Review operational readiness. Focus on CI/CD safety, deployment sequencing, rollback '' @
       ''plans, observability, alerting, and day-2 operability.''),
      (''database_engineer'',
       ''Review data-layer design. Focus on schema correctness, migrations, indexes, query '' @
       ''plans, transaction safety, consistency, and rollback strategy.''),
      (''release_manager'',
       ''Assess release readiness. Focus on blockers, rollout sequencing, rollback readiness, '' @
       ''dependency coordination, and launch sign-off criteria.'')
     ]"

definition json_report_contract :: string where
  "json_report_contract = join [newline] [
      ''Return valid JSON only, with no Markdown fences or prose outside the JSON object.'',
      ''Use this schema exactly:'',
      ''{'',
      ''  \"summary\": \"string\",'',
      ''  \"confidence\": \"LOW | MEDIUM | HIGH\",'',
      ''  \"assumptions\": [\"string\"],'',
      ''  \"unknowns\": [\"string\"],'',
      ''  \"evidence_basis\": [\"string\"],'',
      ''  \"findings\": ['',
      ''    {'',
      ''      \"severity\": \"LOW | MEDIUM | HIGH | CRITICAL\",'',
      ''      \"title\": \"string\",'',
      ''      \"details\": \"string\"'',
      ''    }'',
      ''  ],'',
      ''  \"artifacts\": [\"string\"],'',
      ''  \"next_steps\": [\"string\"],'',
      ''  \"code_suggestions\": ['',
      ''    {'',
      ''      \"path\": \"string\",'',
      ''      \"kind\": \"edit | patch | test | refactor | config\",'',
      ''      \"summary\": \"string\",'',
      ''      \"suggestion\": \"string\",'',
      ''      \"snippet\": \"string\"'',
      ''    }'',
      ''  ]'',
      ''}'',
      ''confidence is required and should reflect execution certainty, not severity.'',
      ''assumptions and unknowns are required string arrays.'',
      ''evidence_basis is optional; include it when you relied on concrete artifacts, tests, logs, or docs.'',
      ''Use empty arrays when there are no findings, artifacts, next steps, code suggestions, assumptions, or unknowns.'',
      ''Use code_suggestions for concrete programmer-facing edits, ideally naming the target file and'',
      ''including a short patch-style snippet when you can.''
     ]"

section \<open>Settings of a run\<close>

fun explicit_order :: "dict \<Rightarrow> pv list \<Rightarrow> string list \<Rightarrow> string list res" where
  "explicit_order roles [] acc = Inr acc"
| "explicit_order roles (PStr s # vs) acc =
     (if strip s = [] then Inl (PipelineError ''role_order entries must be non-empty strings'')
      else if \<not> dhas roles (strip s) then Inl (PipelineError (''role_order references unknown role '' @ strip s))
      else if strip s \<in> set acc then Inl (PipelineError (''role_order contains duplicate role '' @ strip s))
      else explicit_order roles vs (acc @ [strip s]))"
| "explicit_order roles (v # vs) acc = Inl (PipelineError ''role_order entries must be non-empty strings'')"

definition default_order :: "string list \<Rightarrow> string list" where
  "default_order configured =
     (let ordered = filter (\<lambda>r. r \<in> set configured) pipeline_order
      in ordered @ filter (\<lambda>r. r \<notin> set ordered) configured)"

definition normalize_role_order :: "dict \<Rightarrow> string list res" where
  "normalize_role_order cfg =
     (case py_or (dget cfg ''roles'') (PDict []) of
        PDict roles \<Rightarrow>
          let configured = map fst roles in
          if configured = [] then Inr []
          else (case dget cfg ''role_order'' of
              PNone \<Rightarrow> Inr (default_order configured)
            | PList vs \<Rightarrow>
                bind_res (explicit_order roles vs []) (\<lambda>order.
                  let missing = filter (\<lambda>r. r \<notin> set order) configured in
                  if missing \<noteq> [] then Inl (PipelineError (''role_order omits configured roles: '' @ join '', '' missing))
                  else Inr order)
            | _ \<Rightarrow> Inl (PipelineError ''role_order must be a list of configured role names''))
      | _ \<Rightarrow> Inl (PipelineError ''roles must be a mapping of role names to role configs''))"

definition require_scope :: "dict \<Rightarrow> string res" where
  "require_scope cfg = bind_res (resolve_scope_text cfg) (\<lambda>scope.
     if scope \<noteq> [] then Inr scope else Inl (PipelineError ''No project scope supplied''))"

text \<open>\<open>_output_cfg\<close>: the directory and whether reports must be JSON; \<open>_gating_cfg\<close>; \<open>_parallel_cfg\<close>.\<close>

definition output_cfg :: "dict \<Rightarrow> pv \<times> bool" where
  "output_cfg cfg = (case dget cfg ''output'' of
      PDict out \<Rightarrow> (py_or (dget out ''artifacts_dir'') (PStr ''artifacts''), truthy (dget_default out ''enforce_json'' (PBool True)))
    | _ \<Rightarrow> (PStr ''artifacts'', True))"

definition gating_cfg :: "dict \<Rightarrow> bool" where
  "gating_cfg cfg = (case dget cfg ''gating'' of
      PDict g \<Rightarrow> truthy (dget_default g ''fail_on_high'' (PBool True)) | _ \<Rightarrow> True)"

definition parallel_cfg :: "dict \<Rightarrow> (bool \<times> int) res" where
  "parallel_cfg cfg = (case dget cfg ''runtime'' of
      PDict r \<Rightarrow>
        (case py_int (dget_default r ''max_parallel_roles'' (PInt 4)) of
           Inl _ \<Rightarrow> Inl (PipelineError ''runtime.max_parallel_roles must be an integer'')
         | Inr n \<Rightarrow> if n \<le> 0 then Inl (PipelineError ''runtime.max_parallel_roles must be > 0'')
             else Inr (truthy (dget_default r ''parallel_specialists'' (PBool True)), n))
    | _ \<Rightarrow> Inr (True, 4))"

definition resolve_artifacts_dir :: "dict \<Rightarrow> string option \<Rightarrow> string" where
  "resolve_artifacts_dir cfg dir =
     (case dir of
        Some d \<Rightarrow> if strip d \<noteq> [] then strip d else first_text [fst (output_cfg cfg), PStr ''artifacts'']
      | None \<Rightarrow> first_text [fst (output_cfg cfg), PStr ''artifacts''])"

definition assurance_level :: "string \<Rightarrow> string" where
  "assurance_level mode =
     (if lower (strip (if mode = [] then ''ensemble'' else mode)) = ''solo'' then ''degraded'' else ''standard'')"

definition review_isolation :: "(pv \<Rightarrow> string) \<Rightarrow> dict \<Rightarrow> string" where
  "review_isolation rep cfg = (case dget cfg ''runtime'' of
      PDict r \<Rightarrow>
        (let v = lower (strip (py_str rep (py_or (dget r ''review_isolation'') (PStr ''scope_and_implementation'')))) in
         if v \<in> set review_isolation_choices then v else ''scope_and_implementation'')
    | _ \<Rightarrow> ''scope_and_implementation'')"

section \<open>Text blocks\<close>

text \<open>\<open>str.splitlines\<close> on code points below 256.\<close>

definition is_break :: "char \<Rightarrow> bool" where
  "is_break c = (code c \<in> {10, 11, 12, 13, 28, 29, 30, 133})"

function splitlines :: "string \<Rightarrow> string list" where
  "splitlines s =
     (if s = [] then []
      else let l = takeWhile (\<lambda>c. \<not> is_break c) s; r = dropWhile (\<lambda>c. \<not> is_break c) s
        in if r = [] then [l]
           else l # splitlines (if code (hd r) = 13 \<and> tl r \<noteq> [] \<and> code (hd (tl r)) = 10 then tl (tl r) else tl r))"
  by pat_completeness auto
termination
proof (relation "measure length")
  fix s :: string and x xa
  assume a: "s \<noteq> []" "xa = dropWhile (\<lambda>c. \<not> is_break c) s" "xa \<noteq> []"
  then have "length xa \<le> length s" by (simp add: length_dropWhile_le)
  moreover have "length (tl xa) < length xa" "length (tl (tl xa)) < length xa" using a(3) by (cases xa; simp)+
  ultimately show "(if code (hd xa) = 13 \<and> tl xa \<noteq> [] \<and> code (hd (tl xa)) = 10 then tl (tl xa) else tl xa, s) \<in> measure length"
    by simp
qed simp

declare splitlines.simps [simp del]

definition blank :: "string \<Rightarrow> bool" where
  "blank l = (strip l = [])"

definition compact_lines :: "string \<Rightarrow> string" where
  "compact_lines s =
     join [newline] (rev (dropWhile blank (rev (dropWhile blank (splitlines s)))))"

definition truncation_marker :: string where
  "truncation_marker = ''[...truncated for size...]''"

definition truncate_prompt_block :: "string \<Rightarrow> nat \<Rightarrow> string" where
  "truncate_prompt_block s limit =
     (if length (strip s) \<le> limit then strip s
      else rstrip (take (limit - length truncation_marker - 1) (strip s)) @ newline # truncation_marker)"

definition prompt_section :: "string \<Rightarrow> string \<Rightarrow> nat \<Rightarrow> string" where
  "prompt_section title s limit =
     (if strip s = [] then [] else title @ '':'' @ newline # truncate_prompt_block (strip s) limit)"

section \<open>What a role sees\<close>

type_synonym outputs = "(string \<times> string) list"

definition output_of :: "outputs \<Rightarrow> string \<Rightarrow> string" where
  "output_of outputs role = strip (case map_of outputs role of None \<Rightarrow> [] | Some s \<Rightarrow> s)"

definition is_specialist :: "string \<Rightarrow> bool" where
  "is_specialist role = (role \<in> fst ` set specialist_instructions)"

definition upstream_section :: "string \<times> string \<Rightarrow> string \<times> string \<times> nat" where
  "upstream_section x = (''Upstream Artifact ('' @ fst x @ '')'', strip (snd x), 6000)"

definition role_upstream_sections :: "string \<Rightarrow> outputs \<Rightarrow> string \<Rightarrow> (string \<times> string \<times> nat) list" where
  "role_upstream_sections role outputs isolation =
     (let architect = output_of outputs ''architect''; implementer = output_of outputs ''implementer'';
          plan = (''Architect Plan'', architect, 6000) in
      if role = ''architect'' then []
      else if role = ''implementer'' then (if architect \<noteq> [] then [plan] else [])
      else if isolation = ''scope_only'' then []
      else let sections = (if isolation = ''framed'' \<and> architect \<noteq> [] then [plan] else []) @
                 (if implementer \<noteq> [] then [(''Implementer Output'', implementer, 8000)] else []) in
        if is_specialist role then sections
        else let shown = filter (\<lambda>x. strip (snd x) \<noteq> []) outputs in
          sections @ map upstream_section
            (if isolation = ''framed'' \<and> architect = [] then shown
             else filter (\<lambda>x. fst x \<notin> {''architect'', ''implementer''}) shown))"

definition role_intro :: "string \<Rightarrow> string \<Rightarrow> string" where
  "role_intro role custom =
     (if strip custom \<noteq> [] then strip custom
      else if role = ''architect'' then ''You are the Architect. Produce a concise implementation plan for this scope.''
      else if role = ''implementer'' then ''You are the Implementer. Build from the Architect plan and scope.''
      else case map_of specialist_instructions role of
          Some text \<Rightarrow> ''You are the '' @ role @ ''. '' @ text
        | None \<Rightarrow> ''You are the '' @ role @ ''. Review the implementation against scope and report findings.'')"

definition artifact_guidance :: string where
  "artifact_guidance = [newline, newline] @
     ''Use `findings` only for actionable issues or gaps. '' @
     ''Use `artifacts` for concrete deliverables such as docs, runbooks, test files, '' @
     ''rollout checklists, or migration notes. '' @
     ''Use `code_suggestions` for concrete file-targeted edits, test additions, or short patch-like snippets.''"

text \<open>What every prompt of a run shares: the scope, the context, the feedback, the report format.\<close>

record prompt_frame =
  pf_scope :: string
  pf_context :: string
  pf_feedback :: string
  pf_json :: bool
  pf_isolation :: string

definition role_prompt :: "prompt_frame \<Rightarrow> string \<Rightarrow> string \<Rightarrow> outputs \<Rightarrow> string" where
  "role_prompt f role custom outputs =
     (let sections =
            [strip (role_intro role custom), prompt_section ''Scope'' (pf_scope f) 4000,
             prompt_section ''Additional Run Context'' (pf_context f) 6000] @
            map (\<lambda>(title, body, limit). prompt_section title body limit)
              (role_upstream_sections role outputs (pf_isolation f)) @
            [prompt_section ''Operator Feedback'' (pf_feedback f) 3000];
          assembled = join [newline, newline] (filter (\<lambda>s. s \<noteq> []) sections)
      in compact_lines (strip (assembled @
           (if pf_json f then artifact_guidance @ [newline, newline] @ json_report_contract else []))))"

definition ends_with :: "string \<Rightarrow> string \<Rightarrow> bool" where
  "ends_with f s = starts_with (rev f) (rev s)"

definition context_key :: "string \<Rightarrow> string option" where
  "context_key title =
     (if title = ''Architect Plan'' then Some ''architect''
      else if title = ''Implementer Output'' then Some ''implementer''
      else if starts_with ''Upstream Artifact ('' title \<and> ends_with '')'' title
      then Some (butlast (drop (length ''Upstream Artifact ('') title))
      else None)"

definition role_context :: "string \<Rightarrow> outputs \<Rightarrow> string \<Rightarrow> (string \<times> string) list" where
  "role_context role outputs isolation =
     fold (\<lambda>(title, body, limit) ctx. case context_key title of None \<Rightarrow> ctx | Some k \<Rightarrow> dset k body ctx)
       (role_upstream_sections role outputs isolation) []"

section \<open>Lengths\<close>

lemma length_strip: "length (strip s) \<le> length s" "length (rstrip s) \<le> length s"
proof -
  show "length (rstrip s) \<le> length s" for s using length_dropWhile_le [of is_space "rev s"] by (simp add: rstrip_def)
  from this [of "lstrip s"] length_dropWhile_le [of is_space s] show "length (strip s) \<le> length s"
    by (simp add: strip_def lstrip_def)
qed

lemma length_join: "xs \<noteq> [] \<Longrightarrow> length (join sep xs) + length sep = sum_list (map (\<lambda>x. length x + length sep) xs)"
  by (induction sep xs rule: join.induct) auto

lemma length_join_le: "length (join sep xs) \<le> sum_list (map (\<lambda>x. length x + length sep) xs)"
  using length_join [of xs sep] by (cases "xs = []") auto

lemma length_join_sublist:
  assumes "sum_list (map (\<lambda>x. length x + length sep) ys) \<le> sum_list (map (\<lambda>x. length x + length sep) xs)"
  shows "length (join sep ys) \<le> length (join sep xs)"
proof (cases "ys = []")
  case False
  note y = length_join [OF this, of sep]
  show ?thesis
  proof (cases "xs = []")
    case True
    with assms have "sum_list (map (\<lambda>x. length x + length sep) ys) = 0" by simp
    with y show ?thesis by linarith
  next
    case False
    with y length_join [OF False, of sep] assms show ?thesis by linarith
  qed
qed simp

lemma length_join_splitlines: "length (join [newline] (splitlines s)) \<le> length s"
proof (induction s rule: splitlines.induct)
  case (1 s)
  define l r where "l = takeWhile (\<lambda>c. \<not> is_break c) s" and "r = dropWhile (\<lambda>c. \<not> is_break c) s"
  have s: "length s = length l + length r"
    unfolding l_def r_def by (metis length_append takeWhile_dropWhile_id)
  consider "s = []" | "s \<noteq> []" "r = []" | "s \<noteq> []" "r \<noteq> []" by blast
  then show ?case
  proof cases
    case 1
    then show ?thesis by (subst splitlines.simps) simp
  next
    case 2
    then have "splitlines s = [l]" by (subst splitlines.simps) (simp add: l_def r_def)
    then show ?thesis using s by simp
  next
    case 3
    define t where "t = (if code (hd r) = 13 \<and> tl r \<noteq> [] \<and> code (hd (tl r)) = 10 then tl (tl r) else tl r)"
    have sp: "splitlines s = l # splitlines t" by (subst splitlines.simps) (simp only: Let_def l_def [symmetric] r_def [symmetric] t_def [symmetric] 3 if_False)
    have ih: "length (join [newline] (splitlines t)) \<le> length t"
      unfolding t_def using 1 [OF 3(1) l_def r_def 3(2)] .
    have t: "length t + 1 \<le> length r" using 3(2) unfolding t_def by (cases r) auto
    have "length (join [newline] (l # xs)) \<le> length l + 1 + length (join [newline] xs)" for xs by (cases xs) auto
    from this [of "splitlines t"] show ?thesis unfolding sp using ih t s by linarith
  qed
qed

lemma length_compact_lines: "length (compact_lines s) \<le> length s"
proof -
  let ?w = "\<lambda>xs. sum_list (map (\<lambda>x. length x + length [newline]) xs)"
  have dw: "?w (dropWhile P xs) \<le> ?w xs" for P and xs :: "string list" by (induction xs) auto
  have rv: "?w (rev xs) = ?w xs" for xs :: "string list" by (simp add: rev_map [symmetric] sum_list_rev)
  have "length (compact_lines s) \<le> length (join [newline] (splitlines s))"
    unfolding compact_lines_def
    by (rule length_join_sublist, simp only: rv, rule order_trans [OF dw], simp only: rv, rule dw)
  with length_join_splitlines show ?thesis by (rule order_trans [rotated])
qed

lemma length_marker: "length truncation_marker = 26"
  by (simp add: truncation_marker_def)

lemma length_truncate: "26 < limit \<Longrightarrow> length (truncate_prompt_block s limit) \<le> limit"
proof -
  assume l: "26 < limit"
  have "length (rstrip (take (limit - 26 - 1) (strip s))) \<le> limit - 27"
    using length_strip(2) [of "take (limit - 26 - 1) (strip s)"] by simp
  then have "length (rstrip (take (limit - 26 - 1) (strip s))) + 27 \<le> limit" using l by linarith
  with l show ?thesis by (simp add: truncate_prompt_block_def length_marker)
qed

lemma length_prompt_section:
  "26 < limit \<Longrightarrow> length (prompt_section title s limit) \<le> length title + 2 + limit"
  using length_truncate [of limit "strip s"] by (simp add: prompt_section_def)

section \<open>What a prompt depends on\<close>

lemma specialist_names: "\<not> is_specialist ''architect''" "\<not> is_specialist ''implementer''"
  by code_simp+

lemma specialist_sections:
  assumes "is_specialist role" and "output_of o1 ''implementer'' = output_of o2 ''implementer''"
    and "isolation = ''framed'' \<Longrightarrow> output_of o1 ''architect'' = output_of o2 ''architect''"
  shows "role_upstream_sections role o1 isolation = role_upstream_sections role o2 isolation"
  using assms specialist_names by (auto simp: role_upstream_sections_def Let_def)

lemma scope_only_sections:
  "role \<notin> {''architect'', ''implementer''} \<Longrightarrow> role_upstream_sections role outputs ''scope_only'' = []"
  by (simp add: role_upstream_sections_def Let_def)

lemma sections_determine:
  assumes "role_upstream_sections role o1 (pf_isolation f) = role_upstream_sections role o2 (pf_isolation f)"
  shows "role_prompt f role custom o1 = role_prompt f role custom o2"
    and "role_context role o1 (pf_isolation f) = role_context role o2 (pf_isolation f)"
  using assms by (simp_all add: role_prompt_def role_context_def)

definition weight :: "string list \<Rightarrow> nat" where
  "weight ss = sum_list (map (\<lambda>s. length s + 2) (filter (\<lambda>s. s \<noteq> []) ss))"

lemma weight_simps [simp]: "weight [] = 0" "weight (s # ss) = (if s = [] then 0 else length s + 2) + weight ss"
    "weight (ss @ ts) = weight ss + weight ts"
  by (simp_all add: weight_def)

lemma known_role_sections:
  assumes "role \<in> {''architect'', ''implementer''} \<or> is_specialist role"
  shows "weight (map (\<lambda>(title, body, limit). prompt_section title body limit)
           (role_upstream_sections role outputs isolation)) \<le> 14040"
proof -
  define pa where "pa = prompt_section ''Architect Plan'' (output_of outputs ''architect'') 6000"
  define pi' where "pi' = prompt_section ''Implementer Output'' (output_of outputs ''implementer'') 8000"
  have l: "length pa \<le> 6016" "length pi' \<le> 8020"
    using length_prompt_section [of 6000 "''Architect Plan''"] length_prompt_section [of 8000 "''Implementer Output''"]
    by (simp_all add: pa_def pi'_def)
  have "map (\<lambda>(title, body, limit). prompt_section title body limit) (role_upstream_sections role outputs isolation)
      \<in> {[], [pa], [pi'], [pa, pi']}"
    using assms specialist_names by (auto simp: role_upstream_sections_def Let_def pa_def pi'_def)
  with l show ?thesis by auto
qed

lemma length_join_weight: "length (join [newline, newline] (filter (\<lambda>s. s \<noteq> []) ss)) \<le> weight ss"
  using length_join_le [of "[newline, newline]" "filter (\<lambda>s. s \<noteq> []) ss"] by (simp add: weight_def)

section \<open>The order of the roles\<close>

lemma explicit_order_ok:
  "explicit_order roles vs acc = Inr order \<Longrightarrow> distinct acc \<Longrightarrow> set acc \<subseteq> fst ` set roles \<Longrightarrow>
     distinct order \<and> set order \<subseteq> fst ` set roles"
  by (induction roles vs acc rule: explicit_order.induct) (auto simp: dhas_iff split: if_splits)

lemma distinct_pipeline_order: "distinct pipeline_order"
  by code_simp

lemma default_order_ok: "distinct configured \<Longrightarrow> distinct (default_order configured) \<and> set (default_order configured) = set configured"
  using distinct_pipeline_order by (auto simp: default_order_def Let_def)

lemma normalize_role_order_Inr:
  assumes "normalize_role_order cfg = Inr order" and "py_or (dget cfg ''roles'') (PDict []) = PDict roles" 
    and "distinct (map fst roles)"
  shows "distinct order \<and> set order = fst ` set roles"
proof (cases "roles = []")
  case True
  with assms(1,2) show ?thesis by (simp add: normalize_role_order_def)
next
  case ne: False
  show ?thesis
  proof (cases "dget cfg ''role_order''")
    case PNone
    with assms ne default_order_ok [OF assms(3)] show ?thesis by (simp add: normalize_role_order_def)
  next
    case (PList vs)
    with assms(1,2) ne have e: "explicit_order roles vs [] = Inr order" "\<forall>r \<in> fst ` set roles. r \<in> set order"
      by (auto simp: normalize_role_order_def Let_def bind_res_eq_Inr filter_empty_conv split: if_splits)
    with explicit_order_ok [OF e(1)] show ?thesis by auto
  qed (use assms(1,2) ne in \<open>simp_all add: normalize_role_order_def\<close>)
qed

lemma explicit_order_id:
  "names_ok (acc @ rs) \<Longrightarrow> set rs \<subseteq> fst ` set roles \<Longrightarrow> explicit_order roles (map PStr rs) acc = Inr (acc @ rs)"
  by (induction rs arbitrary: acc) (auto simp: names_ok_def stripped_def dhas_iff)

section \<open>The provider of a role\<close>

lemma colon_lower: "CHR '':'' \<in> set s \<Longrightarrow> CHR '':'' \<in> set (lower s)"
proof -
  assume "CHR '':'' \<in> set s"
  moreover have "lower_char CHR '':'' = CHR '':''" by code_simp
  ultimately show ?thesis by (force simp: lower_def)
qed

lemma partition_first: "CHR '':'' \<notin> set p \<Longrightarrow> fst (partition_colon (p @ '':'' @ m)) = p"
  by (induction p) (auto simp: partition_colon_def)

lemma override_dumped:
  assumes "map_of d k = map_option PStr x" and "\<And>s. x = Some s \<Longrightarrow> s \<noteq> []"
  shows "override (PDict d) k v = Inr (case x of None \<Rightarrow> v | Some s \<Rightarrow> PStr s)"
  using assms by (cases x) (auto simp: override_def dhas_def dget_default_def)

lemma parse_provider_name: "parse_provider v = Some p \<Longrightarrow> stripped (pc_name p)"
  by (auto simp: parse_provider_def bind_eq_Some_conv split: pv.splits elim!: field_cases dest: non_empty_stripped)

lemma parse_role_texts:
  assumes "parse_role co v = Some r"
  shows "rc_provider r = Some s \<Longrightarrow> stripped s" "rc_model r = Some s \<Longrightarrow> stripped s"
    "\<exists>d. rc_extra r = model_extra strict_role_keys d"
proof -
  from assms obtain d where d: "v = PDict d" by (cases v) (auto simp: parse_role_def)
  from assms have f: "field d ''provider'' (Some None) (nullable non_empty) = Some (rc_provider r)"
      "field d ''model'' (Some None) (nullable non_empty) = Some (rc_model r)" "rc_extra r = model_extra strict_role_keys d"
    by (auto simp: parse_role_def d bind_eq_Some_conv)
  show "rc_provider r = Some s \<Longrightarrow> stripped s" by (rule field_nullable [OF f(1)]) (auto dest: non_empty_stripped)
  show "rc_model r = Some s \<Longrightarrow> stripped s" by (rule field_nullable [OF f(2)]) (auto dest: non_empty_stripped)
  show "\<exists>d. rc_extra r = model_extra strict_role_keys d" using f(3) by blast
qed

lemma dumped_role_provider:
  assumes p: "parse_config co rep d = Some c" and r: "map_of (es_roles c) role = Some rc"
    and P: "resolved_provider c rc = P" "CHR '':'' \<notin> set P" "P \<notin> {[], ''unknown''}"
    and rc: "parse_role co w = Some rc"
  shows "resolve_role_provider rep (dump_config c) role = Inr P"
proof -
  note f = parse_config_fields [OF p]
  note m = dumped_config_fields [OF f(12)]
  let ?d = "dump_config c"
  have pc: "stripped (pc_name (es_provider c))"
    using f(4) by (auto elim!: field_cases dest: parse_provider_name)
  note rs = parse_role_texts(1,2) [OF rc]
  obtain R where R: "dump_role rc = PDict R" by (simp add: dump_role_def)
  obtain x where x: "rc_extra rc = model_extra strict_role_keys x"
    using parse_role_texts(3) [OF rc] by blast
  have mR: "map_of R ''provider'' = map_option PStr (rc_provider rc)" "map_of R ''model'' = map_option PStr (rc_model rc)"
    using R by (auto simp: dump_role_def dump_fields x strict_role_keys_def split: option.splits)
  have er: "es_roles c \<noteq> []" using r by auto
  have roles: "get_or_empty (PDict ?d) ''roles'' = Inr (PDict (map (apsnd dump_role) (es_roles c)))"
    by (simp add: get_or_empty_def dget_default_def m(5) py_or_def)
  have look: "map_of (map (apsnd dump_role) (es_roles c)) role = Some (PDict R)"
    using r R by (simp add: apsnd_def map_prod_def map_of_map)
  have "get_or_empty (PDict (map (apsnd dump_role) (es_roles c))) role = Inr (PDict R)"
    by (simp add: get_or_empty_def dget_default_def look py_or_def)
  moreover obtain Q where Q: "dump_provider (es_provider c) = PDict Q" by (simp add: dump_provider_def)
  moreover have "get_or_empty (PDict ?d) ''provider'' = Inr (PDict Q)"
    using Q by (auto simp: get_or_empty_def dget_default_def m(4) py_or_def)
  moreover have mQ: "map_of Q ''name'' = Some (PStr (pc_name (es_provider c)))" "map_of Q ''model'' = Some (PStr (pc_model (es_provider c)))"
    using Q by (auto simp: dump_provider_def)
  moreover define p where "p = (case rc_provider rc of None \<Rightarrow> pc_name (es_provider c) | Some s \<Rightarrow> s)"
  moreover have "override (PDict R) ''provider'' (PStr (pc_name (es_provider c))) = Inr (PStr p)"
    using rs(1) by (auto simp: override_dumped [OF mR(1)] stripped_def p_def split: option.splits)
  moreover define mm where "mm = (case rc_model rc of None \<Rightarrow> pc_model (es_provider c) | Some s \<Rightarrow> s)"
  moreover have "override (PDict R) ''model'' (PStr (pc_model (es_provider c))) = Inr (PStr mm)"
    using rs(2) by (auto simp: override_dumped [OF mR(2)] stripped_def mm_def split: option.splits)
  moreover have p: "stripped p" "lower (strip p) = P"
    using pc rs(1) P(1) by (auto simp: p_def resolved_provider_def stripped_def split: option.splits)
  ultimately have "resolve_role_model rep ?d role = Inr (p @ '':'' @ mm)"
    using roles P(3) by (simp add: resolve_role_model_def dget_default_def)
  moreover have "CHR '':'' \<notin> set p" using p P(2) colon_lower [of p] by (auto simp: stripped_def)
  ultimately show ?thesis using partition_first p(2) P(3) by (simp add: resolve_role_provider_def or_unknown_def del: lower_Nil)
qed

lemma parsed_roles_in:
  assumes "parse_config co rep d = Some c" and "map_of (es_roles c) role = Some rc"
  shows "\<exists>w. parse_role co w = Some rc"
proof -
  have "parse_roles co e = Some rs \<Longrightarrow> (role, rc) \<in> set rs \<Longrightarrow> \<exists>w. parse_role co w = Some rc" for e rs
    by (induction e arbitrary: rs) (auto simp: bind_eq_Some_conv, blast)
  moreover have "(role, rc) \<in> set (es_roles c)" using assms(2) by (rule map_of_SomeD)
  ultimately have "parse_role_map co w = Some (es_roles c) \<Longrightarrow> \<exists>w. parse_role co w = Some rc" for w
    by (cases w) (auto split: if_splits)
  then show ?thesis using parse_config_fields(5) [OF assms(1)] assms(2) by (auto elim!: field_cases)
qed

lemma live_provider:
  assumes "parse_config co rep d = Some c" and "provider_contract c"
    and "lower (strip (rt_adapter (es_runtime c))) = a" and "a \<in> {''openai'', ''local''}" and "role \<in> set (role_names c)"
  shows "resolve_role_provider rep (dump_config c) role = Inr a"
proof -
  obtain rc where r: "map_of (es_roles c) role = Some rc"
    using assms(5) by (auto simp: role_names_def dest: weak_map_of_SomeI)
  obtain w where w: "parse_role co w = Some rc" using parsed_roles_in [OF assms(1) r] by blast
  have "all_providers c a" using assms(2-4) by (auto simp: provider_contract_def)
  then have "resolved_provider c rc = a" using map_of_SomeD [OF r] by (auto simp: all_providers_def list_all_iff)
  moreover have "CHR '':'' \<notin> set a" "a \<notin> {[], ''unknown''}" using assms(4) by auto
  ultimately show ?thesis by (rule dumped_role_provider [OF assms(1) r _ _ _ w])
qed

lemma dumped_order:
  assumes "parse_config co rep d = Some c" and "order_contract c" and "role_names c \<noteq> []"
  shows "normalize_role_order (dump_config c) =
    Inr (case es_role_order c of None \<Rightarrow> default_order (role_names c) | Some order \<Rightarrow> order)"
proof -
  note f = parse_config_fields [OF assms(1)]
  note m = dumped_config_fields [OF f(12)]
  let ?roles = "map (apsnd dump_role) (es_roles c)"
  have roles: "py_or (dget (dump_config c) ''roles'') (PDict []) = PDict ?roles" and names: "map fst ?roles = role_names c"
    by (simp_all add: dget_def m(5) py_or_def role_names_def)
  show ?thesis
  proof (cases "es_role_order c")
    case None
    then have "dget (dump_config c) ''role_order'' = PNone" by (simp add: dget_def m(6))
    with None assms(3) show ?thesis unfolding normalize_role_order_def roles by (simp add: names del: map_map)
  next
    case (Some order)
    then have d: "dget (dump_config c) ''role_order'' = PList (map PStr order)" by (simp add: dget_def m(6) dump_strs_def)
    have ok: "names_ok order" by (rule field_nullable [OF f(6) Some]) (rule parse_role_order_ok)
    from assms(2) Some have eq: "set order = set (role_names c)" by (auto simp: order_contract_def list_all_iff)
    have "fst ` set ?roles = set (role_names c)" unfolding names [symmetric] by (simp only: set_map)
    with eq explicit_order_id [of "[]" order ?roles] ok have "explicit_order ?roles (map PStr order) [] = Inr order" by simp
    with eq assms(3) show ?thesis unfolding normalize_role_order_def roles d
      by (simp add: names Some del: map_map)
  qed
qed

section \<open>Properties\<close>

text \<open>C16: A validated configuration runs: the pipeline accepts its role order, which lists every configured
  role once, as given or in the default order; with the built-in live adapters every role resolves to
  the provider of the adapter; and gating on severe findings is only on when reports are structured.\<close>

theorem validated_config_schedules_every_role:
  assumes "validate_config co rep cfg = Inr cfg'" and "parse_config co rep cfg = Some c"
    and "distinct (role_names c)" and "role_names c \<noteq> []"
  shows "(\<exists>order. normalize_role_order cfg' = Inr order \<and> distinct order \<and> set order = set (role_names c) \<and>
       (case es_role_order c of None \<Rightarrow> order = default_order (role_names c) | Some given \<Rightarrow> order = given)) \<and>
    (\<forall>a \<in> {''openai'', ''local''}. lower (strip (rt_adapter (es_runtime c))) = a \<longrightarrow>
       (\<forall>role \<in> set (role_names c). resolve_role_provider rep cfg' role = Inr a)) \<and>
    (gating_cfg cfg' \<longrightarrow> snd (output_cfg cfg'))"
proof -
  note f = parse_config_fields [OF assms(2)]
  note m = dumped_config_fields [OF f(12)]
  have cfg': "cfg' = dump_config c" and ac: "adapter_contract c"
    using assms(1,2) by (auto simp: validate_config_def split: if_splits)
  have o: "normalize_role_order cfg' = Inr (case es_role_order c of None \<Rightarrow> default_order (role_names c) | Some order \<Rightarrow> order)"
    using dumped_order [OF assms(2) _ assms(4)] ac by (simp add: adapter_contract_def cfg')
  have "distinct order \<and> set order = set (role_names c)" if "normalize_role_order cfg' = Inr order" for order
    using normalize_role_order_Inr [OF that, of "map (apsnd dump_role) (es_roles c)"] assms(3)
    by (simp add: cfg' dget_def m(5) py_or_def role_names_def image_image)
  with o have "\<exists>order. normalize_role_order cfg' = Inr order \<and> distinct order \<and> set order = set (role_names c) \<and>
       (case es_role_order c of None \<Rightarrow> order = default_order (role_names c) | Some given \<Rightarrow> order = given)"
    by (auto split: option.splits)
  moreover have "gating_cfg cfg' \<longrightarrow> snd (output_cfg cfg')"
    using ac by (auto simp: adapter_contract_def json_contract_def gating_cfg_def output_cfg_def cfg' dget_def
        m(9,10) dump_gating_def dump_output_def dget_default_def)
  moreover have "resolve_role_provider rep cfg' role = Inr a"
    if "a \<in> {''openai'', ''local''}" "lower (strip (rt_adapter (es_runtime c))) = a" "role \<in> set (role_names c)" for a role
    unfolding cfg' using ac that by (intro live_provider [OF assms(2)]) (simp_all add: adapter_contract_def)
  ultimately show ?thesis by blast
qed

theorem validated_config_schedules_every_role_witness:
  "\<exists>cfg'. validate_config exact_coercions (\<lambda>_. []) sample_config = Inr cfg' \<and>
     resolve_role_provider (\<lambda>_. []) cfg' ''architect'' = Inr ''openai'' \<and>
     normalize_role_order cfg' = Inr [''architect'', ''implementer'']"
proof -
  have p: "case parse_config exact_coercions (\<lambda>_. []) sample_config of None \<Rightarrow> False
      | Some c \<Rightarrow> role_names c = [''implementer'', ''architect''] \<and> es_role_order c = None \<and>
          rt_adapter (es_runtime c) = ''openai''"
    "\<not> isl (validate_config exact_coercions (\<lambda>_. []) sample_config)"
    by code_simp+
  then obtain c cfg' where c: "parse_config exact_coercions (\<lambda>_. []) sample_config = Some c"
      "role_names c = [''implementer'', ''architect'']" "es_role_order c = None" "rt_adapter (es_runtime c) = ''openai''"
      "validate_config exact_coercions (\<lambda>_. []) sample_config = Inr cfg'"
    by (cases "validate_config exact_coercions (\<lambda>_. []) sample_config") (auto split: option.splits)
  have "lower (strip ''openai'') = ''openai''" "default_order [''implementer'', ''architect''] = [''architect'', ''implementer'']"
    by code_simp+
  with validated_config_schedules_every_role [OF c(5,1)] c show ?thesis by auto
qed

text \<open>C17: Reviewers are isolated as configured: the prompt and the context of a specialist depend on the output of
  the implementer, on the plan of the architect in the framed mode only, and on no other reviewer; with
  scope-only isolation they depend on no output at all.\<close>

theorem reviews_are_isolated:
  assumes "is_specialist role"
    and "pf_isolation f \<noteq> ''scope_only'' \<Longrightarrow> output_of o1 ''implementer'' = output_of o2 ''implementer''"
    and "pf_isolation f = ''framed'' \<Longrightarrow> output_of o1 ''architect'' = output_of o2 ''architect''"
  shows "role_prompt f role custom o1 = role_prompt f role custom o2 \<and>
    role_context role o1 (pf_isolation f) = role_context role o2 (pf_isolation f)"
proof -
  have "role \<notin> {''architect'', ''implementer''}" using assms(1) specialist_names by auto
  with assms have "role_upstream_sections role o1 (pf_isolation f) = role_upstream_sections role o2 (pf_isolation f)"
    by (cases "pf_isolation f = ''scope_only''") (auto simp: scope_only_sections intro!: specialist_sections)
  from sections_determine [OF this] show ?thesis by blast
qed

theorem reviews_are_isolated_witness:
  "role_prompt \<lparr>pf_scope = ''s'', pf_context = [], pf_feedback = [], pf_json = True, pf_isolation = ''implementation_only''\<rparr>
     ''security_auditor'' [] [(''architect'', ''plan a''), (''implementer'', ''code''), (''test_generator'', ''x'')] =
   role_prompt \<lparr>pf_scope = ''s'', pf_context = [], pf_feedback = [], pf_json = True, pf_isolation = ''implementation_only''\<rparr>
     ''security_auditor'' [] [(''architect'', ''plan b''), (''implementer'', ''code'')]"
  using reviews_are_isolated [of "''security_auditor''"
      "\<lparr>pf_scope = ''s'', pf_context = [], pf_feedback = [], pf_json = True, pf_isolation = ''implementation_only''\<rparr>"
      "[(''architect'', ''plan a''), (''implementer'', ''code''), (''test_generator'', ''x'')]"
      "[(''architect'', ''plan b''), (''implementer'', ''code'')]" "[]"]
  by (simp add: is_specialist_def specialist_instructions_def output_of_def)

text \<open>Prompts are bounded: whatever the upstream outputs, the scope and the feedback, the prompt of a
  built-in role is at most 27110 characters longer than its introduction and the report format.\<close>

theorem prompts_are_bounded:
  assumes "role \<in> {''architect'', ''implementer''} \<or> is_specialist role"
  shows "length (role_prompt f role custom outputs) \<le> length (role_intro role custom) + 27110 +
    (if pf_json f then length artifact_guidance + 2 + length json_report_contract else 0)"
proof -
  let ?up = "map (\<lambda>(title, body, limit). prompt_section title body limit) (role_upstream_sections role outputs (pf_isolation f))"
  let ?ss = "[strip (role_intro role custom), prompt_section ''Scope'' (pf_scope f) 4000,
      prompt_section ''Additional Run Context'' (pf_context f) 6000] @ ?up @ [prompt_section ''Operator Feedback'' (pf_feedback f) 3000]"
  have "length (prompt_section ''Scope'' (pf_scope f) 4000) \<le> 4007"
    "length (prompt_section ''Additional Run Context'' (pf_context f) 6000) \<le> 6024"
    "length (prompt_section ''Operator Feedback'' (pf_feedback f) 3000) \<le> 3019"
    using length_prompt_section [of 4000 "''Scope''"] length_prompt_section [of 6000 "''Additional Run Context''"]
      length_prompt_section [of 3000 "''Operator Feedback''"] by simp_all
  moreover have "length (strip (role_intro role custom)) \<le> length (role_intro role custom)" by (rule length_strip)
  ultimately have "weight ?ss \<le> length (role_intro role custom) + 27110"
    using known_role_sections [OF assms, of outputs "pf_isolation f"] by simp
  with length_join_weight [of ?ss]
  have "length (join [newline, newline] (filter (\<lambda>s. s \<noteq> []) ?ss)) \<le> length (role_intro role custom) + 27110" by linarith
  then show ?thesis unfolding role_prompt_def Let_def
    by (intro order_trans [OF length_compact_lines] order_trans [OF length_strip(1)]) simp
qed

theorem prompts_are_bounded_witness:
  "length (role_prompt \<lparr>pf_scope = ''s'', pf_context = [], pf_feedback = [], pf_json = False, pf_isolation = ''framed''\<rparr>
     ''architect'' ''plan'' [(''implementer'', replicate 100000 (CHR ''x''))]) \<le> 27114"
  using prompts_are_bounded [of "''architect''" "\<lparr>pf_scope = ''s'', pf_context = [], pf_feedback = [], pf_json = False, pf_isolation = ''framed''\<rparr>"
      "''plan''" "[(''implementer'', replicate 100000 (CHR ''x''))]"]
  by (simp add: role_intro_def strip_def rstrip_def lstrip_def is_space_def space_codes_def)

end
