(* ===== verification/Run_Files.thy ===== *)
theory Run_Files
  imports Json
begin

text \<open>
  The file system as the pipeline uses it: a partial map from absolute component lists to the text of the file there, POSIX paths, and the
  operations of \<open>os.path\<close> and \<open>pathlib\<close> on them. There are no symbolic links, directories exist as soon
  as a file in them is written, and writing does not fail.
\<close>

section \<open>Paths\<close>

type_synonym path = "string list"
type_synonym files = "path \<rightharpoonup> string"

text \<open>The components of a path string: empty ones and dots are dropped.\<close>

function split_slash :: "string \<Rightarrow> string list" where
  "split_slash s =
     (let c = takeWhile (\<lambda>c. c \<noteq> CHR ''/'') s; r = dropWhile (\<lambda>c. c \<noteq> CHR ''/'') s
      in if r = [] then [c] else c # split_slash (tl r))"
  by pat_completeness auto
termination
proof (relation "measure length")
  fix s :: string and x xa
  assume "xa = dropWhile (\<lambda>c. c \<noteq> CHR ''/'') s" "xa \<noteq> []"
  then have "length xa \<le> length s" "length (tl xa) < length xa" by (simp_all add: length_dropWhile_le)
  then show "(tl xa, s) \<in> measure length" by simp
qed simp

declare split_slash.simps [simp del]

definition components :: "string \<Rightarrow> path" where
  "components s = filter (\<lambda>c. c \<noteq> [] \<and> c \<noteq> ''.'') (split_slash s)"

definition is_abs :: "string \<Rightarrow> bool" where
  "is_abs s = starts_with ''/'' s"

text \<open>\<open>Path(s).resolve()\<close> from a working directory: \<open>..\<close> removes the component before it.\<close>

definition normalize_path :: "path \<Rightarrow> path" where
  "normalize_path cs = foldl (\<lambda>acc c. if c = ''..'' then butlast acc else acc @ [c]) [] cs"

definition resolve :: "path \<Rightarrow> string \<Rightarrow> path" where
  "resolve cwd s = normalize_path (if is_abs s then components s else cwd @ components s)"

text \<open>\<open>str\<close> of a resolved path, and \<open>os.path.join\<close>.\<close>

definition path_str :: "path \<Rightarrow> string" where
  "path_str cs = ''/'' @ join ''/'' cs"

definition path_join :: "string \<Rightarrow> string \<Rightarrow> string" where
  "path_join a b =
     (if is_abs b then b else if a = [] \<or> last a = CHR ''/'' then a @ b else a @ ''/'' @ b)"

section \<open>Files\<close>

definition write_file :: "path \<Rightarrow> string \<Rightarrow> string \<Rightarrow> files \<Rightarrow> files" where
  "write_file cwd s contents fs = fs(resolve cwd s \<mapsto> contents)"

definition read_file :: "path \<Rightarrow> string \<Rightarrow> files \<Rightarrow> string option" where
  "read_file cwd s fs = fs (resolve cwd s)"

definition file_exists :: "path \<Rightarrow> string \<Rightarrow> files \<Rightarrow> bool" where
  "file_exists cwd s fs = (read_file cwd s fs \<noteq> None)"

section \<open>Facts about paths\<close>

definition component_ok :: "string \<Rightarrow> bool" where
  "component_ok c \<longleftrightarrow> c \<noteq> [] \<and> c \<noteq> ''.'' \<and> c \<noteq> ''..'' \<and> CHR ''/'' \<notin> set c"

definition path_ok :: "path \<Rightarrow> bool" where
  "path_ok cs \<longleftrightarrow> list_all component_ok cs"

lemma path_ok_simps [simp]: "path_ok []" "path_ok (c # cs) \<longleftrightarrow> component_ok c \<and> path_ok cs"
    "path_ok (cs @ ds) \<longleftrightarrow> path_ok cs \<and> path_ok ds"
  by (simp_all add: path_ok_def)

lemma split_slash_plain: "CHR ''/'' \<notin> set c \<Longrightarrow> split_slash c = [c]"
  by (subst split_slash.simps) (simp add: Let_def takeWhile_eq_all_conv [THEN iffD2])

lemma split_at_slash:
  "CHR ''/'' \<notin> set c \<Longrightarrow> takeWhile (\<lambda>c. c \<noteq> CHR ''/'') (c @ CHR ''/'' # s) = c"
  "CHR ''/'' \<notin> set c \<Longrightarrow> dropWhile (\<lambda>c. c \<noteq> CHR ''/'') (c @ CHR ''/'' # s) = CHR ''/'' # s"
  by (induction c) auto

lemma split_slash_append: "CHR ''/'' \<notin> set c \<Longrightarrow> split_slash (c @ CHR ''/'' # s) = c # split_slash s"
  by (subst split_slash.simps) (simp add: Let_def split_at_slash)

lemma split_slash_join: "path_ok (c # cs) \<Longrightarrow> split_slash (join ''/'' (c # cs)) = c # cs"
  by (induction cs arbitrary: c) (simp_all add: split_slash_plain split_slash_append component_ok_def)

lemma components_join: "path_ok cs \<Longrightarrow> components (join ''/'' cs) = cs"
proof (cases cs)
  case Nil
  then show ?thesis by (simp add: components_def split_slash_plain)
next
  case (Cons c ds)
  assume "path_ok cs"
  then have "filter (\<lambda>c. c \<noteq> [] \<and> c \<noteq> ''.'') cs = cs"
    by (auto simp: path_ok_def list_all_iff component_ok_def filter_id_conv)
  with \<open>path_ok cs\<close> Cons show ?thesis by (simp add: components_def split_slash_join del: join.simps)
qed

lemma normalize_path_ok: "path_ok cs \<Longrightarrow> normalize_path (acc @ cs) = normalize_path acc @ cs"
  by (induction cs arbitrary: acc rule: rev_induct)
    (auto simp: normalize_path_def component_ok_def simp flip: append_assoc)

lemma normalize_path_id: "path_ok cs \<Longrightarrow> normalize_path cs = cs"
  using normalize_path_ok [of cs "[]"] by (simp add: normalize_path_def)

lemma resolve_path_str: "path_ok cs \<Longrightarrow> resolve cwd (path_str cs) = cs"
proof -
  assume ok: "path_ok cs"
  have "components (path_str cs) = cs"
    using components_join [OF ok] split_slash_append [of "[]" "join ''/'' cs"] by (simp add: components_def path_str_def)
  then show ?thesis using ok by (simp add: resolve_def is_abs_def path_str_def normalize_path_id)
qed

lemma set_head_or_rest:
  "x \<in> set (if r = [] then [c] else c # ys) \<Longrightarrow> x = c \<or> r \<noteq> [] \<and> x \<in> set ys"
  by (auto split: if_splits)

lemma split_slash_no_slash: "x \<in> set (split_slash s) \<Longrightarrow> CHR ''/'' \<notin> set x"
proof (induction s rule: split_slash.induct)
  case (1 s)
  let ?c = "takeWhile (\<lambda>c. c \<noteq> CHR ''/'') s" and ?r = "dropWhile (\<lambda>c. c \<noteq> CHR ''/'') s"
  have c: "CHR ''/'' \<notin> set ?c" by (auto dest: set_takeWhileD)
  have sp: "split_slash s = (if ?r = [] then [?c] else ?c # split_slash (tl ?r))"
    by (subst split_slash.simps) (simp only: Let_def)
  have "x = ?c \<or> ?r \<noteq> [] \<and> x \<in> set (split_slash (tl ?r))"
    by (rule set_head_or_rest) (use 1(2) in \<open>simp only: sp\<close>)
  then show ?case
  proof
    assume "x = ?c" with c show ?thesis by simp
  next
    assume "?r \<noteq> [] \<and> x \<in> set (split_slash (tl ?r))"
    then show ?thesis using 1(1) [OF refl refl] by blast
  qed
qed

lemma normalize_components_ok:
  assumes "path_ok acc" and "\<And>c. c \<in> set cs \<Longrightarrow> c \<noteq> [] \<and> c \<noteq> ''.'' \<and> CHR ''/'' \<notin> set c"
  shows "path_ok (foldl (\<lambda>acc c. if c = ''..'' then butlast acc else acc @ [c]) acc cs)"
  using assms
proof (induction cs arbitrary: acc)
  case (Cons c cs)
  have "path_ok (if c = ''..'' then butlast acc else acc @ [c])"
    using Cons(2,3) by (auto simp: path_ok_def list_all_iff component_ok_def dest: in_set_butlastD)
  from Cons(1) [OF this] Cons(3) show ?case by simp
qed simp

lemma path_ok_resolve: "path_ok cwd \<Longrightarrow> path_ok (resolve cwd s)"
proof -
  assume cwd: "path_ok cwd"
  have "c \<in> set (components s) \<Longrightarrow> c \<noteq> [] \<and> c \<noteq> ''.'' \<and> CHR ''/'' \<notin> set c" for c
    by (auto simp: components_def dest: split_slash_no_slash)
  moreover have "c \<in> set cwd \<Longrightarrow> c \<noteq> [] \<and> c \<noteq> ''.'' \<and> CHR ''/'' \<notin> set c" for c
    using cwd by (auto simp: path_ok_def list_all_iff component_ok_def)
  ultimately show ?thesis unfolding resolve_def normalize_path_def
    by (intro normalize_components_ok) (auto split: if_splits)
qed

lemma resolve_idem: "path_ok cwd \<Longrightarrow> resolve cwd (path_str (resolve cwd s)) = resolve cwd s"
  by (simp add: resolve_path_str path_ok_resolve)

lemma read_write: "read_file cwd s (write_file cwd t c fs) = (if resolve cwd s = resolve cwd t then Some c else read_file cwd s fs)"
  by (simp add: read_file_def write_file_def)

lemma split_slash_concat: "split_slash (a @ CHR ''/'' # b) = split_slash a @ split_slash b"
proof (induction a rule: split_slash.induct)
  case (1 a)
  define c r where "c = takeWhile (\<lambda>c. c \<noteq> CHR ''/'') a" and "r = dropWhile (\<lambda>c. c \<noteq> CHR ''/'') a"
  have c: "CHR ''/'' \<notin> set c" by (auto simp: c_def dest: set_takeWhileD)
  have a: "a = c @ r" by (simp add: c_def r_def)
  show ?case
  proof (cases "r = []")
    case True
    then show ?thesis using c by (simp add: a split_slash_append split_slash_plain)
  next
    case False
    then have r: "r = CHR ''/'' # tl r" using hd_dropWhile [of "\<lambda>c. c \<noteq> CHR ''/''" a] by (cases r) (auto simp: r_def)
    have "split_slash (tl r @ CHR ''/'' # b) = split_slash (tl r) @ split_slash b"
      using 1 [OF c_def r_def False] .
    then have "split_slash (c @ CHR ''/'' # (tl r @ CHR ''/'' # b)) = (c # split_slash (tl r)) @ split_slash b"
      using c by (simp add: split_slash_append)
    moreover have "split_slash (c @ CHR ''/'' # tl r) = c # split_slash (tl r)"
      using c by (rule split_slash_append)
    ultimately show ?thesis by (metis a r append.assoc append_Cons)
  qed
qed

lemma components_path_join:
  assumes "component_ok x" shows "components (path_join p x) = components p @ [x]"
proof -
  have x: "\<not> is_abs x" "components x = [x]"
    using assms by (auto simp: component_ok_def is_abs_def components_def split_slash_plain) (cases x; auto)
  consider "p = []" | q where "p = q @ ''/''" | "p \<noteq> []" "last p \<noteq> CHR ''/''"
    by (metis append_butlast_last_id)
  then show ?thesis
  proof cases
    case 1
    then show ?thesis using x by (simp add: path_join_def) (simp add: components_def split_slash_plain)
  next
    case (2 q)
    have "components (q @ CHR ''/'' # x) = components q @ [x]" "components (q @ CHR ''/'' # []) = components q"
      using x by (simp_all add: components_def split_slash_concat split_slash_plain)
    then show ?thesis using x by (simp add: path_join_def 2)
  next
    case 3
    have "components (p @ CHR ''/'' # x) = components p @ [x]"
      using x by (simp add: components_def split_slash_concat)
    then show ?thesis using x 3 by (simp add: path_join_def)
  qed
qed

lemma is_abs_path_join: "component_ok x \<Longrightarrow> is_abs (path_join p x) = is_abs p"
  by (cases p; cases x) (auto simp: path_join_def is_abs_def component_ok_def)

lemma resolve_path_join: "component_ok x \<Longrightarrow> resolve cwd (path_join p x) = resolve cwd p @ [x]"
  using normalize_path_ok [of "[x]"]
  by (simp add: resolve_def components_path_join is_abs_path_join flip: append_assoc)

end
