(* ===== verification/Ese_Feedback.thy ===== *)
theory Ese_Feedback
  imports Run_Files
begin

text \<open>
  The feedback store (\<open>ese/feedback.py\<close>): one JSON file beside the runs that collects the verdicts of
  operators on findings, their tallies per role, and the guidance later prompts receive. The time of an
  entry is an argument; a damaged store reads as an empty one.
\<close>

section \<open>The store\<close>

definition allowed_feedback :: "string list" where
  "allowed_feedback = [''noisy'', ''useful'', ''wrong'']"

text \<open>Given a run directory the store is that of its parent directory (of \<open>pathlib\<close>: the last
  component is dropped, whatever it is).\<close>

definition feedback_root :: "path \<Rightarrow> files \<Rightarrow> string \<Rightarrow> path" where
  "feedback_root cwd fs p =
     normalize_path ((if is_abs p then [] else cwd) @
       (if file_exists cwd (path_join p ''pipeline_state.json'') fs then butlast (components p) else components p))"

definition feedback_store_path :: "path \<Rightarrow> files \<Rightarrow> string \<Rightarrow> path" where
  "feedback_store_path cwd fs p = feedback_root cwd fs p @ [''.ese_feedback.json'']"

definition load_feedback_store :: "path \<Rightarrow> files \<Rightarrow> string \<Rightarrow> dict list" where
  "load_feedback_store cwd fs p =
     (case Option.bind (fs (feedback_store_path cwd fs p)) json_loads of
        Some (PDict store) \<Rightarrow>
          (case dget store ''items'' of
             PList items \<Rightarrow> map items_of (filter is_dict items)
           | _ \<Rightarrow> [])
      | _ \<Rightarrow> [])"

definition feedback_entry :: "string \<Rightarrow> string \<Rightarrow> string \<Rightarrow> string \<Rightarrow> string \<Rightarrow> string \<Rightarrow> dict" where
  "feedback_entry now role title feedback dir details =
     [(''timestamp'', PStr now), (''role'', PStr (strip role)), (''title'', PStr (strip title)),
      (''feedback'', PStr feedback), (''artifacts_dir'', PStr (strip dir)), (''details'', PStr (strip details))]"

definition store_payload :: "dict list \<Rightarrow> pv" where
  "store_payload items = PDict [(''version'', PInt 1), (''items'', PList (map PDict items))]"

definition record_feedback ::
    "(rat \<Rightarrow> string) \<Rightarrow> path \<Rightarrow> string \<Rightarrow> string \<Rightarrow> string \<Rightarrow> string \<Rightarrow> string \<Rightarrow> string \<Rightarrow> string \<Rightarrow> files \<Rightarrow> (dict \<times> files) res" where
  "record_feedback fr cwd now p role title feedback dir details fs =
     (let verdict = lower (strip feedback) in
      if verdict \<notin> set allowed_feedback then Inl (ValueError ''feedback must be one of: noisy, useful, wrong'')
      else if strip role = [] then Inl (ValueError ''role is required'')
      else if strip title = [] then Inl (ValueError ''title is required'')
      else let entry = feedback_entry now role title verdict dir details in
        Inr (entry, fs(feedback_store_path cwd fs p \<mapsto>
               json_pretty fr (store_payload (load_feedback_store cwd fs p @ [entry])) @ [newline])))"

section \<open>Tallies and guidance\<close>

text \<open>\<open>str(item.get(key) or "").strip()\<close>.\<close>

definition item_text :: "(pv \<Rightarrow> string) \<Rightarrow> dict \<Rightarrow> string \<Rightarrow> string" where
  "item_text rep item key = strip (py_str rep (py_or (dget item key) (PStr [])))"

definition item_feedback :: "(pv \<Rightarrow> string) \<Rightarrow> dict \<Rightarrow> string" where
  "item_feedback rep item = lower (item_text rep item ''feedback'')"

type_synonym tally = "(string \<times> nat) list"

definition zero_tally :: tally where
  "zero_tally = map (\<lambda>label. (label, 0)) allowed_feedback"

definition tally_of :: "tally \<Rightarrow> string \<Rightarrow> nat" where
  "tally_of t label = (case map_of t label of Some n \<Rightarrow> n | None \<Rightarrow> 0)"

definition bump :: "string \<Rightarrow> tally \<Rightarrow> tally" where
  "bump label t = dset label (tally_of t label + 1) t"

definition feedback_counts :: "(pv \<Rightarrow> string) \<Rightarrow> dict list \<Rightarrow> tally" where
  "feedback_counts rep items =
     map (\<lambda>label. (label, length (filter (\<lambda>item. item_feedback rep item = label) items))) allowed_feedback"

definition count_item :: "(pv \<Rightarrow> string) \<Rightarrow> (string \<times> tally) list \<Rightarrow> dict \<Rightarrow> (string \<times> tally) list" where
  "count_item rep by_role item =
     (let role = item_text rep item ''role''; label = item_feedback rep item in
      if role = [] \<or> label \<notin> set allowed_feedback then by_role
      else dset role (bump label (case map_of by_role role of Some t \<Rightarrow> t | None \<Rightarrow> zero_tally)) by_role)"

definition role_counts :: "(pv \<Rightarrow> string) \<Rightarrow> dict list \<Rightarrow> (string \<times> tally) list" where
  "role_counts rep items = foldl (count_item rep) [] items"

definition role_bias :: "tally \<Rightarrow> string option" where
  "role_bias t =
     (let useful = tally_of t ''useful''; against = tally_of t ''noisy'' + tally_of t ''wrong'' in
      if useful \<ge> max against 2 then Some ''positive''
      else if against \<ge> max useful 2 then Some ''negative''
      else None)"

definition bias_guidance :: "string \<Rightarrow> string \<Rightarrow> string" where
  "bias_guidance role bias =
     (if bias = ''positive''
      then role @ '': prior operators valued concrete, actionable output with clear remediation.''
      else role @ '': avoid duplicate or speculative findings and prefer fewer, higher-signal issues '' @
        ''without suppressing unique dissent.'')"

record feedback_summary =
  fs_counts :: tally
  fs_role_counts :: "(string \<times> tally) list"
  fs_role_bias :: "(string \<times> string) list"
  fs_guidance :: "string list"
  fs_entries :: "dict list"

definition feedback_summary :: "(pv \<Rightarrow> string) \<Rightarrow> path \<Rightarrow> files \<Rightarrow> string \<Rightarrow> feedback_summary" where
  "feedback_summary rep cwd fs p =
     (let items = load_feedback_store cwd fs p;
          by_role = role_counts rep items;
          biased = List.map_filter (\<lambda>(role, t). map_option (Pair role) (role_bias t)) (sort_key fst by_role)
      in \<lparr>fs_counts = feedback_counts rep items, fs_role_counts = by_role, fs_role_bias = biased,
          fs_guidance = map (\<lambda>(role, bias). bias_guidance role bias) biased, fs_entries = items\<rparr>)"

definition feedback_prompt_guidance :: "(pv \<Rightarrow> string) \<Rightarrow> path \<Rightarrow> files \<Rightarrow> string \<Rightarrow> string" where
  "feedback_prompt_guidance rep cwd fs p =
     (let guidance = fs_guidance (feedback_summary rep cwd fs p) in
      if guidance = [] then []
      else join [newline] (''Operator feedback from prior runs:'' #
        map (\<lambda>item. ''- '' @ item) (filter (\<lambda>item. strip item \<noteq> []) guidance)))"

section \<open>Facts\<close>

definition verdicts :: "(pv \<Rightarrow> string) \<Rightarrow> dict list \<Rightarrow> string \<Rightarrow> string \<Rightarrow> nat" where
  "verdicts rep items role label =
     length (filter (\<lambda>item. item_text rep item ''role'' = role \<and> item_feedback rep item = label) items)"

lemma tally_of_zero [simp]: "tally_of zero_tally label = 0"
  by (simp add: tally_of_def zero_tally_def allowed_feedback_def)

lemma tally_of_bump [simp]: "tally_of (bump l t) label = (if label = l then tally_of t l + 1 else tally_of t label)"
  by (simp add: tally_of_def bump_def)

lemma role_counts_snoc: "role_counts rep (items @ [item]) = count_item rep (role_counts rep items) item"
  by (simp add: role_counts_def)

lemma role_counts_distinct: "distinct (map fst (role_counts rep items))"
  by (induction items rule: rev_induct)
    (auto simp: role_counts_snoc count_item_def Let_def distinct_dset role_counts_def [of _ "[]"])

lemma role_counts_verdicts:
  assumes "role \<noteq> []" and "label \<in> set allowed_feedback"
  shows "tally_of (case map_of (role_counts rep items) role of Some t \<Rightarrow> t | None \<Rightarrow> zero_tally) label =
    verdicts rep items role label"
  using assms
proof (induction items rule: rev_induct)
  case Nil
  then show ?case by (simp add: role_counts_def verdicts_def)
next
  case (snoc item items)
  then show ?case
    by (auto simp: role_counts_snoc count_item_def Let_def verdicts_def split: option.splits)
qed

lemma role_counts_nonempty: "map_of (role_counts rep items) role = Some t \<Longrightarrow> role \<noteq> []"
proof (induction items arbitrary: t rule: rev_induct)
  case Nil
  then show ?case by (simp add: role_counts_def)
next
  case (snoc item items)
  then show ?case by (auto simp: role_counts_snoc count_item_def Let_def split: if_splits)
qed

lemma map_of_biased:
  "distinct (map fst d) \<Longrightarrow>
     map_of (List.map_filter (\<lambda>(role, t). map_option (Pair role) (f t)) d) role = Option.bind (map_of d role) f"
proof (induction d)
  case (Cons x d)
  obtain r t where x: "x = (r, t)" by force
  show ?case
  proof (cases "f t")
    case None
    have "map_of d r = None" using Cons.prems by (simp add: x map_of_eq_None_iff)
    then show ?thesis using Cons None by (auto simp: x map_filter_simps)
  qed (use Cons in \<open>auto simp: x map_filter_simps\<close>)
qed (simp add: map_filter_simps)

lemma map_of_sort_key: "distinct (map fst d) \<Longrightarrow> map_of (sort_key fst d) = map_of d"
  by (rule map_of_inject_set [THEN iffD2]) (auto simp: distinct_map intro: inj_on_subset)

lemma json_ok_payload: "json_ok (store_payload items) \<longleftrightarrow> list_all (\<lambda>i. json_ok (PDict i)) items"
  by (auto simp: store_payload_def list_all_iff)

lemma items_of_dicts: "map items_of (filter is_dict (map PDict items)) = items"
  by (induction items) auto

section \<open>Properties\<close>

lemma items_of_PDict: "items_of \<circ> PDict = (\<lambda>d. d)"
  by (simp add: fun_eq_iff)

lemma strip_Nil: "strip [] = []"
  by (simp add: strip_def rstrip_def lstrip_def)

lemma component_ok_names: "component_ok ''pipeline_state.json''" "component_ok ''.ese_feedback.json''"
  by (simp_all add: component_ok_def)

lemma file_exists_update: "resolve cwd s \<noteq> path \<Longrightarrow> file_exists cwd s (fs(path \<mapsto> c)) = file_exists cwd s fs"
  by (simp add: file_exists_def read_file_def)

lemma feedback_root_update:
  "feedback_root cwd (fs(feedback_store_path cwd fs p \<mapsto> c)) p = feedback_root cwd fs p"
proof -
  have "resolve cwd (path_join p ''pipeline_state.json'') \<noteq> feedback_store_path cwd fs p"
    by (simp add: resolve_path_join component_ok_names feedback_store_path_def)
  then show ?thesis by (simp add: feedback_root_def file_exists_update)
qed

text \<open>Recorded feedback is kept: an accepted entry is appended to the entries of the store, where the next load
  finds it; it counts once for its role and verdict and nowhere else; and no other file changes.\<close>

theorem feedback_is_recorded:
  assumes "record_feedback fr cwd now p role title feedback dir details fs = Inr (entry, fs')"
    and "list_all (\<lambda>item. json_ok (PDict item)) (load_feedback_store cwd fs p)"
  shows "load_feedback_store cwd fs' p = load_feedback_store cwd fs p @ [entry] \<and>
    (\<forall>r label. verdicts rep (load_feedback_store cwd fs' p) r label =
       verdicts rep (load_feedback_store cwd fs p) r label +
         (if r = strip role \<and> label = lower (strip feedback) then 1 else 0)) \<and>
    (\<forall>path. path \<noteq> feedback_store_path cwd fs p \<longrightarrow> fs' path = fs path)"
proof -
  let ?items = "load_feedback_store cwd fs p" and ?path = "feedback_store_path cwd fs p"
  have entry: "entry = feedback_entry now role title (lower (strip feedback)) dir details"
    and fs': "fs' = fs(?path \<mapsto> json_pretty fr (store_payload (?items @ [entry])) @ [newline])"
    using assms(1) by (auto simp: record_feedback_def Let_def split: if_splits)
  have "json_ok (store_payload (?items @ [entry]))"
    using assms(2) by (simp add: json_ok_payload entry feedback_entry_def)
  then have "json_loads (json_pretty fr (store_payload (?items @ [entry])) @ [newline]) =
      Some (store_payload (?items @ [entry]))" by (rule json_loads_pretty)
  moreover have "feedback_store_path cwd fs' p = ?path"
    using feedback_root_update by (simp add: feedback_store_path_def fs')
  ultimately have l: "load_feedback_store cwd fs' p = ?items @ [entry]"
    unfolding load_feedback_store_def [of cwd fs']
    by (simp only: fs' fun_upd_same Option.bind.simps option.case pv.case store_payload_def dget_def
        map_of.simps fst_conv snd_conv items_of_dicts) (simp add: items_of_PDict)
  have "item_text rep entry ''role'' = strip role" "item_feedback rep entry = lower (strip feedback)"
    by (simp_all add: entry feedback_entry_def item_text_def item_feedback_def dget_def py_or_def strip_lower strip_Nil)
  then have "verdicts rep (?items @ [entry]) r label = verdicts rep ?items r label +
      (if r = strip role \<and> label = lower (strip feedback) then 1 else 0)" for r label
    by (simp add: verdicts_def)
  moreover have "fs' path = fs path" if "path \<noteq> ?path" for path
    using that by (simp add: fs')
  ultimately show ?thesis by (simp only: l) blast
qed

theorem feedback_is_recorded_witness:
  "\<exists>entry fs'. record_feedback (\<lambda>_. []) [''home''] ''t'' ''runs'' ''architect'' ''Leak'' '' Wrong '' [] [] Map.empty = Inr (entry, fs') \<and>
     verdicts (\<lambda>_. []) (load_feedback_store [''home''] fs' ''runs'') ''architect'' ''wrong'' = 1"
proof -
  have l: "load_feedback_store [''home''] Map.empty ''runs'' = []" by (simp add: load_feedback_store_def)
  have s: "lower (strip '' Wrong '') = ''wrong''" "strip ''architect'' = ''architect''" "strip ''Leak'' = ''Leak''"
    by code_simp+
  obtain entry fs' where r:
      "record_feedback (\<lambda>_. []) [''home''] ''t'' ''runs'' ''architect'' ''Leak'' '' Wrong '' [] [] Map.empty = Inr (entry, fs')"
    by (simp add: record_feedback_def Let_def s allowed_feedback_def)
  have z: "verdicts (\<lambda>_. []) [] ''architect'' ''wrong'' = 0" by (simp add: verdicts_def)
  have a: "list_all (\<lambda>item. json_ok (PDict item)) (load_feedback_store [''home''] Map.empty ''runs'')" by (simp add: l)
  note counts = feedback_is_recorded [OF r a, of "\<lambda>_. []", THEN conjunct2, THEN conjunct1, rule_format]
  have "verdicts (\<lambda>_. []) (load_feedback_store [''home''] fs' ''runs'') ''architect'' ''wrong'' = 1"
    using counts [of "''architect''" "''wrong''"] by (simp add: l s z)
  with r show ?thesis by blast
qed

text \<open>Guidance follows the verdicts: the bias of a role is positive when at least two verdicts, and no fewer than
  against it, call its findings useful, negative when at least two, and more than are in favour, call them
  noisy or wrong, and absent otherwise.\<close>

theorem bias_follows_verdicts:
  "map_of (fs_role_bias (feedback_summary rep cwd fs p)) role =
     (let items = load_feedback_store cwd fs p;
          useful = verdicts rep items role ''useful'';
          against = verdicts rep items role ''noisy'' + verdicts rep items role ''wrong'' in
      if role = [] then None
      else if 2 \<le> useful \<and> against \<le> useful then Some ''positive''
      else if 2 \<le> against \<and> useful < against then Some ''negative''
      else None)"
proof -
  let ?items = "load_feedback_store cwd fs p" and ?rc = "role_counts rep (load_feedback_store cwd fs p)"
  have d: "distinct (map fst (sort_key fst ?rc))"
    using role_counts_distinct by (simp add: distinct_map)
  have m: "map_of (fs_role_bias (feedback_summary rep cwd fs p)) role = Option.bind (map_of ?rc role) role_bias"
    by (simp add: feedback_summary_def Let_def map_of_biased [OF d] map_of_sort_key [OF role_counts_distinct])
  show ?thesis
  proof (cases "role = []")
    case True
    then have "map_of ?rc role = None" using role_counts_nonempty [of rep ?items role] by (cases "map_of ?rc role") auto
    then have "map_of (fs_role_bias (feedback_summary rep cwd fs p)) role = None" by (simp only: m Option.bind.simps)
    then show ?thesis using True by (simp add: Let_def)
  next
    case False
    define t where "t = (case map_of ?rc role of Some t \<Rightarrow> t | None \<Rightarrow> zero_tally)"
    have "Option.bind (map_of ?rc role) role_bias = role_bias t"
      by (cases "map_of ?rc role") (simp_all add: t_def role_bias_def Let_def)
    moreover have "tally_of t label = verdicts rep ?items role label" if "label \<in> set allowed_feedback" for label
      unfolding t_def using False that by (rule role_counts_verdicts)
    then have "tally_of t ''useful'' = verdicts rep ?items role ''useful''" "tally_of t ''noisy'' = verdicts rep ?items role ''noisy''"
        "tally_of t ''wrong'' = verdicts rep ?items role ''wrong''"
      by (simp_all add: allowed_feedback_def)
    ultimately show ?thesis using False by (auto simp: m role_bias_def Let_def)
  qed
qed

end
