(* ===== verification/Evidence_State.thy ===== *)
theory Evidence_State
  imports Run_Files
begin

text \<open>
  The evidence state of a run (\<open>ese/evidence_state.py\<close>): the state derived from the outcome, the state an
  operator sets by hand, and its history in the state file.
\<close>

definition evidence_states :: "string list" where
  "evidence_states = [''draft'', ''ready'', ''approved'', ''blocked'', ''released'']"

text \<open>\<open>str(value or "").strip()\<close>.\<close>

definition clean_text :: "(pv \<Rightarrow> string) \<Rightarrow> pv \<Rightarrow> string" where
  "clean_text rep v = strip (py_str rep (py_or v (PStr [])))"

definition normalize_evidence_state :: "(pv \<Rightarrow> string) \<Rightarrow> pv \<Rightarrow> string res" where
  "normalize_evidence_state rep v =
     (let s = lower (clean_text rep v) in
      if s \<in> set evidence_states then Inr s
      else Inl (ValueError (''evidence state must be one of: '' @ join '', '' evidence_states)))"

definition coerce_evidence_state :: "(pv \<Rightarrow> string) \<Rightarrow> pv \<Rightarrow> string option res" where
  "coerce_evidence_state rep v =
     (let s = lower (clean_text rep v) in
      if s = [] then Inr None else bind_res (normalize_evidence_state rep (PStr s)) (\<lambda>t. Inr (Some t)))"

definition derive_evidence_state :: "string \<Rightarrow> nat \<Rightarrow> string \<Rightarrow> string \<times> string" where
  "derive_evidence_state status blockers assurance =
     (let st = lower (strip (if status = [] then ''unknown'' else status));
          level = lower (strip (if assurance = [] then ''standard'' else assurance)) in
      if st = ''failed'' then (''blocked'', ''Run failed, so evidence cannot advance.'')
      else if blockers > 0 then (''blocked'', ''High-severity blockers are still open.'')
      else if level = ''degraded''
        then (''draft'', ''Degraded assurance requires human review before evidence can advance.'')
      else if st = ''completed'' then (''ready'', ''Run completed without blockers under standard assurance.'')
      else (''draft'', ''Evidence is incomplete until the run completes.''))"

definition history_keys :: "string list" where
  "history_keys = [''previous_state'', ''actor'', ''note'', ''reason'', ''source'', ''updated_at'']"

definition history_item :: "string \<Rightarrow> dict \<Rightarrow> dict" where
  "history_item state entry =
     (''state'', PStr state) # List.map_filter (\<lambda>key. case dget entry key of
        PStr s \<Rightarrow> if strip s \<noteq> [] then Some (key, PStr (strip s)) else None | _ \<Rightarrow> None) history_keys"

fun history_items :: "(pv \<Rightarrow> string) \<Rightarrow> pv list \<Rightarrow> dict list res" where
  "history_items rep [] = Inr []"
| "history_items rep (PDict entry # vs) =
     bind_res (coerce_evidence_state rep (dget entry ''state'')) (\<lambda>state.
     bind_res (history_items rep vs) (\<lambda>items.
       Inr (case state of None \<Rightarrow> items | Some s \<Rightarrow> history_item s entry # items)))"
| "history_items rep (v # vs) = history_items rep vs"

definition normalize_evidence_history :: "(pv \<Rightarrow> string) \<Rightarrow> pv \<Rightarrow> dict list res" where
  "normalize_evidence_history rep v = (case v of PList vs \<Rightarrow> history_items rep vs | _ \<Rightarrow> Inr [])"

text \<open>The change an operator makes; absent texts are empty.\<close>

record evidence_update =
  eu_state :: string
  eu_previous :: string
  eu_actor :: string
  eu_note :: string
  eu_reason :: string
  eu_source :: string

definition evidence_entry :: "string \<Rightarrow> string \<Rightarrow> evidence_update \<Rightarrow> dict" where
  "evidence_entry now state u =
     [(''state'', PStr state),
      (''source'', PStr (let s = strip (if eu_source u = [] then ''manual'' else eu_source u)
         in if s = [] then ''manual'' else s)),
      (''updated_at'', PStr now)] @
     (if eu_previous u \<noteq> [] then [(''previous_state'', PStr (eu_previous u))] else []) @
     (if strip (eu_actor u) \<noteq> [] then [(''actor'', PStr (strip (eu_actor u)))] else []) @
     (if strip (eu_note u) \<noteq> [] then [(''note'', PStr (strip (eu_note u)))] else []) @
     (if strip (eu_reason u) \<noteq> [] then [(''reason'', PStr (strip (eu_reason u)))] else [])"

definition update_pipeline_evidence_state ::
    "(pv \<Rightarrow> string) \<Rightarrow> (rat \<Rightarrow> string) \<Rightarrow> path \<Rightarrow> string \<Rightarrow> string \<Rightarrow> evidence_update \<Rightarrow> files \<Rightarrow> (dict \<times> files) res" where
  "update_pipeline_evidence_state rep fr cwd now dir u fs =
     (let state_path = path_join dir ''pipeline_state.json'' in
      bind_res (normalize_evidence_state rep (PStr (eu_state u))) (\<lambda>state.
      case read_file cwd state_path fs of
        None \<Rightarrow> Inl (ValueError ''Run artifacts not found'')
      | Some contents \<Rightarrow>
          (case json_loads contents of
             None \<Rightarrow> Inl (ValueError ''Run state is not valid JSON'')
           | Some (PDict payload) \<Rightarrow>
               bind_res (normalize_evidence_history rep (dget payload ''evidence_state_history'')) (\<lambda>history.
               let payload' = dset ''evidence_state_history''
                     (PList (map PDict (history @ [evidence_entry now state u])))
                     (dset ''evidence_state'' (PStr state) payload)
               in Inr (payload', write_file cwd state_path (json_pretty fr (PDict payload') @ [newline]) fs))
           | Some _ \<Rightarrow> Inl (ValueError ''Run state must be a JSON object''))))"

end
