(* ===== verification/Pipeline_Reports.thy ===== *)
theory Pipeline_Reports
  imports Json
begin

text \<open>
  The reports of the pipeline (\<open>ese/pipeline.py\<close>): validation and normalisation of the JSON a role returns,
  its rendering as an artifact, and the severe findings the gate looks for. Upper-casing is that of ASCII,
  which decides the same memberships as the full one.
\<close>

section \<open>Normalisation\<close>

definition severities :: "string list" where
  "severities = [''LOW'', ''MEDIUM'', ''HIGH'', ''CRITICAL'']"

definition confidences :: "string list" where
  "confidences = [''LOW'', ''MEDIUM'', ''HIGH'']"

definition report_error :: "string \<Rightarrow> string \<Rightarrow> 'a res" where
  "report_error role what = Inl (PipelineError (''JSON report for role '' @ role @ '' '' @ what))"

text \<open>The strings of a list, or \<open>None\<close> when an element is no string.\<close>

fun strings_of :: "pv list \<Rightarrow> string list option" where
  "strings_of [] = Some []"
| "strings_of (PStr s # vs) = map_option ((#) s) (strings_of vs)"
| "strings_of (v # vs) = None"

text \<open>\<open>[item.strip() for item in raw_value if item.strip()]\<close>.\<close>

definition clean_strings :: "string list \<Rightarrow> pv" where
  "clean_strings ss = PList (map (PStr \<circ> strip) (filter (\<lambda>s. strip s \<noteq> []) ss))"

fun string_list :: "string \<Rightarrow> string \<Rightarrow> pv \<Rightarrow> pv res" where
  "string_list role key (PList vs) = (case strings_of vs of
      None \<Rightarrow> report_error role (''must contain a string list field '' @ key)
    | Some ss \<Rightarrow> Inr (clean_strings ss))"
| "string_list role key v = report_error role (''must contain a string list field '' @ key)"

text \<open>\<open>summary\<close>, and \<open>confidence\<close>.\<close>

fun normalize_summary :: "string \<Rightarrow> pv \<Rightarrow> pv res" where
  "normalize_summary role (PStr s) =
     (if strip s = [] then report_error role ''must contain a non-empty string field summary'' else Inr (PStr (strip s)))"
| "normalize_summary role v = report_error role ''must contain a non-empty string field summary''"

fun normalize_choice :: "string \<Rightarrow> string \<Rightarrow> string list \<Rightarrow> pv \<Rightarrow> pv res" where
  "normalize_choice role what choices (PStr s) =
     (if upper (strip s) \<in> set choices then Inr (PStr (upper (strip s))) else report_error role (''has invalid '' @ what))"
| "normalize_choice role what choices v = report_error role (''must contain a string field '' @ what)"

fun normalize_text :: "string \<Rightarrow> string \<Rightarrow> pv \<Rightarrow> pv res" where
  "normalize_text role what (PStr s) = Inr (PStr (strip s))"
| "normalize_text role what v = report_error role (''has non-string '' @ what)"

fun normalize_finding :: "string \<Rightarrow> pv \<Rightarrow> pv res" where
  "normalize_finding role (PDict f) =
     bind_res (normalize_summary role (dget f ''title'')) (\<lambda>title.
     bind_res (normalize_choice role ''severity'' severities (dget f ''severity'')) (\<lambda>severity.
     bind_res (normalize_text role ''details'' (dget_default f ''details'' (PStr []))) (\<lambda>details.
       Inr (PDict (dset ''details'' details (dset ''severity'' severity (dset ''title'' title f)))))))"
| "normalize_finding role v = report_error role ''has non-object finding''"

fun normalize_kind :: "string \<Rightarrow> pv \<Rightarrow> pv res" where
  "normalize_kind role (PStr s) =
     (if strip s = [] then report_error role ''has code_suggestion without kind'' else Inr (PStr (lower (strip s))))"
| "normalize_kind role v = report_error role ''has code_suggestion without kind''"

fun normalize_snippet :: "string \<Rightarrow> pv \<Rightarrow> pv res" where
  "normalize_snippet role (PStr s) = Inr (PStr (rstrip s))"
| "normalize_snippet role v = report_error role ''has code_suggestion with non-string snippet''"

text \<open>\<open>summary.strip() or clean_suggestion[:120]\<close>.\<close>

fun suggestion_summary :: "string \<Rightarrow> pv \<Rightarrow> pv \<Rightarrow> pv res" where
  "suggestion_summary role (PStr s) (PStr suggestion) =
     Inr (PStr (if strip s \<noteq> [] then strip s else take 120 suggestion))"
| "suggestion_summary role v w = report_error role ''has code_suggestion with non-string summary''"

fun normalize_suggestion :: "string \<Rightarrow> pv \<Rightarrow> pv res" where
  "normalize_suggestion role (PDict s) =
     bind_res (normalize_text role ''path'' (dget_default s ''path'' (PStr []))) (\<lambda>path.
     bind_res (normalize_kind role (dget_default s ''kind'' (PStr ''edit''))) (\<lambda>kind.
     bind_res (normalize_text role ''summary'' (dget_default s ''summary'' (PStr []))) (\<lambda>summary0.
     bind_res (normalize_summary role (dget_default s ''suggestion'' (PStr []))) (\<lambda>suggestion.
     bind_res (normalize_snippet role (dget_default s ''snippet'' (PStr []))) (\<lambda>snippet.
     bind_res (suggestion_summary role summary0 suggestion) (\<lambda>summary.
       Inr (PDict [(''path'', path), (''kind'', kind), (''summary'', summary), (''suggestion'', suggestion),
                   (''snippet'', snippet)])))))))"
| "normalize_suggestion role v = report_error role ''has non-object code_suggestion''"

fun list_field :: "string \<Rightarrow> string \<Rightarrow> (pv \<Rightarrow> pv res) \<Rightarrow> pv \<Rightarrow> pv res" where
  "list_field role key f (PList vs) = bind_res (map_res f vs) (\<lambda>ws. Inr (PList ws))"
| "list_field role key f v = report_error role (''must contain a list field '' @ key)"

text \<open>\<open>evidence_basis\<close> may be absent or null.\<close>

definition normalize_basis :: "string \<Rightarrow> dict \<Rightarrow> dict res" where
  "normalize_basis role r =
     (if dget r ''evidence_basis'' = PNone then Inr r
      else bind_res (string_list role ''evidence_basis'' (dget r ''evidence_basis'')) (\<lambda>v. Inr (dset ''evidence_basis'' v r)))"

definition set_field :: "string \<Rightarrow> pv res \<Rightarrow> dict \<Rightarrow> dict res" where
  "set_field key v r = bind_res v (\<lambda>w. Inr (dset key w r))"

definition normalize_report :: "string \<Rightarrow> string \<Rightarrow> dict \<Rightarrow> dict res" where
  "normalize_report role model r0 =
     bind_res (set_field ''summary'' (normalize_summary role (dget r0 ''summary'')) r0) (\<lambda>r.
     bind_res (set_field ''confidence'' (normalize_choice role ''confidence'' confidences (dget r ''confidence'')) r) (\<lambda>r.
     bind_res (set_field ''assumptions'' (string_list role ''assumptions'' (dget r ''assumptions'')) r) (\<lambda>r.
     bind_res (set_field ''unknowns'' (string_list role ''unknowns'' (dget r ''unknowns'')) r) (\<lambda>r.
     bind_res (normalize_basis role r) (\<lambda>r.
     bind_res (set_field ''findings'' (list_field role ''findings'' (normalize_finding role) (dget r ''findings'')) r) (\<lambda>r.
     bind_res (set_field ''artifacts'' (string_list role ''artifacts'' (dget_default r ''artifacts'' (PList []))) r) (\<lambda>r.
     bind_res (set_field ''next_steps'' (string_list role ''next_steps'' (dget_default r ''next_steps'' (PList []))) r) (\<lambda>r.
     bind_res (set_field ''code_suggestions'' (list_field role ''code_suggestions'' (normalize_suggestion role)
         (dget_default r ''code_suggestions'' (PList []))) r) (\<lambda>r.
       Inr (dset ''model'' (PStr model) (dset ''role'' (PStr role) r)))))))))))"

definition normalize_json_report :: "string \<Rightarrow> string \<Rightarrow> string \<Rightarrow> dict res" where
  "normalize_json_report role model output =
     (case json_loads output of
        Some (PDict r) \<Rightarrow> normalize_report role model r
      | Some _ \<Rightarrow> Inl (PipelineError (''Adapter output for role '' @ role @ '' must be a JSON object''))
      | None \<Rightarrow> Inl (PipelineError (''Adapter output for role '' @ role @ '' must be valid JSON'')))"

section \<open>Artifacts and severe findings\<close>

text \<open>Extension, contents and structured report of an artifact.\<close>

definition render_role_output ::
    "(rat \<Rightarrow> string) \<Rightarrow> string \<Rightarrow> string \<Rightarrow> string \<Rightarrow> bool \<Rightarrow> (string \<times> string \<times> dict option) res" where
  "render_role_output fr role model output enforce_json =
     (if \<not> enforce_json then Inr (''md'', output, None)
      else bind_res (normalize_json_report role model output) (\<lambda>r.
        Inr (''json'', json_pretty fr (PDict r) @ [newline], Some r)))"

fun severe :: "pv \<Rightarrow> bool" where
  "severe (PDict f) = (dget f ''severity'' \<in> {PStr ''HIGH'', PStr ''CRITICAL''})"
| "severe v = False"

definition high_severity_findings :: "dict \<Rightarrow> pv list" where
  "high_severity_findings r = (case dget r ''findings'' of PList fs \<Rightarrow> filter severe fs | _ \<Rightarrow> [])"

section \<open>Normalising twice\<close>

lemma dset_same: "map_of d k = Some v \<Longrightarrow> dset k v d = d"
  by (induction d) (auto split: if_splits)

lemma set_field_Inr: "set_field k v r = Inr r' \<longleftrightarrow> (\<exists>w. v = Inr w \<and> r' = dset k w r)"
  by (auto simp: set_field_def bind_res_eq_Inr)

lemma set_field_same: "v = Inr w \<Longrightarrow> map_of r k = Some w \<Longrightarrow> set_field k v r = Inr r"
  by (simp add: set_field_def dset_same)

definition stable :: "(pv \<Rightarrow> pv res) \<Rightarrow> bool" where
  "stable f \<longleftrightarrow> (\<forall>v w. f v = Inr w \<longrightarrow> f w = Inr w)"

lemma stableD: "stable f \<Longrightarrow> f v = Inr w \<Longrightarrow> f w = Inr w"
  by (auto simp: stable_def)

lemma strings_of_map [simp]: "strings_of (map (PStr \<circ> f) ss) = Some (map f ss)"
  by (induction ss) auto

lemma clean_strings_idem: "clean_strings (map strip (filter (\<lambda>s. strip s \<noteq> []) ss)) = clean_strings ss"
  by (simp add: clean_strings_def filter_map o_def)

lemma stable_string_list: "stable (string_list role key)"
  unfolding stable_def
proof (intro allI impI)
  fix v w assume a: "string_list role key v = Inr w"
  then obtain vs ss where "v = PList vs" "strings_of vs = Some ss" and w: "w = clean_strings ss"
    by (cases v) (auto simp: report_error_def split: option.splits)
  have "string_list role key (clean_strings ss) = Inr (clean_strings (map strip (filter (\<lambda>s. strip s \<noteq> []) ss)))"
    by (simp only: clean_strings_def [of ss] string_list.simps strings_of_map option.case)
  then show "string_list role key w = Inr w" by (simp add: w clean_strings_idem)
qed

lemma stable_summary: "stable (normalize_summary role)"
  unfolding stable_def
proof (intro allI impI)
  fix v w show "normalize_summary role v = Inr w \<Longrightarrow> normalize_summary role w = Inr w"
    by (cases v) (auto simp: report_error_def split: if_splits)
qed

lemma choices_upper: "list_all (\<lambda>c. upper (strip c) = c) severities" "list_all (\<lambda>c. upper (strip c) = c) confidences"
  by code_simp+

lemma stable_choice:
  assumes "list_all (\<lambda>c. upper (strip c) = c) choices" shows "stable (normalize_choice role what choices)"
  unfolding stable_def
proof (intro allI impI)
  fix v w show "normalize_choice role what choices v = Inr w \<Longrightarrow> normalize_choice role what choices w = Inr w"
    using assms by (cases v) (auto simp: report_error_def list_all_iff split: if_splits)
qed

lemma stable_text: "stable (normalize_text role what)"
  unfolding stable_def
proof (intro allI impI)
  fix v w show "normalize_text role what v = Inr w \<Longrightarrow> normalize_text role what w = Inr w"
    by (cases v) (auto simp: report_error_def)
qed

lemma stable_kind: "stable (normalize_kind role)"
  unfolding stable_def
proof (intro allI impI)
  fix v w show "normalize_kind role v = Inr w \<Longrightarrow> normalize_kind role w = Inr w"
    by (cases v) (auto simp: report_error_def strip_lower split: if_splits)
qed

lemma stable_snippet: "stable (normalize_snippet role)"
  unfolding stable_def
proof (intro allI impI)
  fix v w show "normalize_snippet role v = Inr w \<Longrightarrow> normalize_snippet role w = Inr w"
    by (cases v) (auto simp: report_error_def)
qed

lemma stable_finding: "stable (normalize_finding role)"
  unfolding stable_def
proof (intro allI impI)
  fix v w assume a: "normalize_finding role v = Inr w"
  then obtain f t s d where "v = PDict f" and p: "normalize_summary role (dget f ''title'') = Inr t"
      "normalize_choice role ''severity'' severities (dget f ''severity'') = Inr s"
      "normalize_text role ''details'' (dget_default f ''details'' (PStr [])) = Inr d"
    and w: "w = PDict (dset ''details'' d (dset ''severity'' s (dset ''title'' t f)))"
    by (cases v) (auto simp: report_error_def bind_res_eq_Inr)
  let ?f = "dset ''details'' d (dset ''severity'' s (dset ''title'' t f))"
  have "normalize_summary role t = Inr t" "normalize_choice role ''severity'' severities s = Inr s"
      "normalize_text role ''details'' d = Inr d"
    using p stableD [OF stable_summary] stableD [OF stable_choice [OF choices_upper(1)]] stableD [OF stable_text] by blast+
  moreover have "dget ?f ''title'' = t" "dget ?f ''severity'' = s" "dget_default ?f ''details'' (PStr []) = d"
    by (simp_all add: dget_default_def)
  moreover have "dset ''details'' d (dset ''severity'' s (dset ''title'' t ?f)) = ?f"
    by (simp add: dset_same)
  ultimately show "normalize_finding role w = Inr w" by (simp add: w)
qed

lemma list_field_Inr: "list_field role key f v = Inr w \<longleftrightarrow> (\<exists>vs ws. v = PList vs \<and> w = PList ws \<and> list_all2 (\<lambda>a b. f a = Inr b) vs ws)"
  by (cases v) (auto simp: report_error_def bind_res_eq_Inr map_res_Inr_iff)

lemma stable_list_field: "stable f \<Longrightarrow> stable (list_field role key f)"
proof -
  assume f: "stable f"
  have "list_all2 (\<lambda>a b. f a = Inr b) vs ws \<Longrightarrow> list_all2 (\<lambda>a b. f a = Inr b) ws ws" for vs ws
    by (induction rule: list_all2_induct) (auto dest: stableD [OF f])
  then show "stable (list_field role key f)" unfolding stable_def list_field_Inr by blast
qed


section \<open>Rendered reports read back\<close>

text \<open>The summary of a suggestion is cut to 120 characters after stripping, so it may end in a blank; such
  summaries are excluded below.\<close>

fun summary_stripped :: "pv \<Rightarrow> bool" where
  "summary_stripped (PDict s) = (case dget s ''summary'' of PStr t \<Rightarrow> strip t = t | _ \<Rightarrow> True)"
| "summary_stripped v = True"

lemma suggestion_again:
  assumes "normalize_suggestion role v = Inr w" and "summary_stripped w"
  shows "normalize_suggestion role w = Inr w"
proof -
  from assms(1) obtain s p k m0 g n m where v: "v = PDict s"
    and f: "normalize_text role ''path'' (dget_default s ''path'' (PStr [])) = Inr p"
      "normalize_kind role (dget_default s ''kind'' (PStr ''edit'')) = Inr k"
      "normalize_text role ''summary'' (dget_default s ''summary'' (PStr [])) = Inr m0"
      "normalize_summary role (dget_default s ''suggestion'' (PStr [])) = Inr g"
      "normalize_snippet role (dget_default s ''snippet'' (PStr [])) = Inr n"
      "suggestion_summary role m0 g = Inr m"
    and w: "w = PDict [(''path'', p), (''kind'', k), (''summary'', m), (''suggestion'', g), (''snippet'', n)]"
    by (cases v) (auto simp: report_error_def bind_res_eq_Inr)
  have st: "normalize_text role ''path'' p = Inr p" "normalize_kind role k = Inr k" "normalize_summary role g = Inr g"
      "normalize_snippet role n = Inr n"
    using f stableD [OF stable_text] stableD [OF stable_kind] stableD [OF stable_summary] stableD [OF stable_snippet] by blast+
  obtain t where g: "g = PStr t" "t \<noteq> []"
    using f(4) by (cases "dget_default s ''suggestion'' (PStr [])") (auto simp: report_error_def split: if_splits)
  obtain u where m: "m = PStr u" "u \<noteq> []" "strip u = u"
    using f(6) g assms(2) by (cases m0) (auto simp: w report_error_def dget_def split: if_splits)
  have "normalize_text role ''summary'' m = Inr m" "suggestion_summary role m g = Inr m"
    using m by (simp_all add: g)
  with st show ?thesis by (simp add: w dget_default_def)
qed

lemma suggestions_again:
  assumes "list_field role key (normalize_suggestion role) v = Inr w" and "list_all summary_stripped (elems_of w)"
  shows "list_field role key (normalize_suggestion role) w = Inr w"
proof -
  from assms obtain vs ws where w: "w = PList ws" "list_all2 (\<lambda>a b. normalize_suggestion role a = Inr b) vs ws"
      "list_all summary_stripped ws"
    by (auto simp: list_field_Inr)
  from w(2,3) have "list_all2 (\<lambda>a b. normalize_suggestion role a = Inr b) ws ws"
    by (induction rule: list_all2_induct) (auto intro: suggestion_again)
  then have "map_res (normalize_suggestion role) ws = Inr ws" by (simp add: map_res_Inr_iff)
  then show ?thesis by (simp add: w(1))
qed

lemma normalize_basis_cases:
  assumes "normalize_basis role r = Inr r'"
  obtains "r' = r" "dget r ''evidence_basis'' = PNone"
  | v where "r' = dset ''evidence_basis'' v r" "string_list role ''evidence_basis'' v = Inr v" "v \<noteq> PNone"
proof (cases "dget r ''evidence_basis'' = PNone")
  case True
  with assms that(1) show ?thesis by (simp add: normalize_basis_def)
next
  case False
  with assms obtain v where v: "string_list role ''evidence_basis'' (dget r ''evidence_basis'') = Inr v"
      "r' = dset ''evidence_basis'' v r"
    by (auto simp: normalize_basis_def bind_res_eq_Inr)
  have "string_list role ''evidence_basis'' v = Inr v" using stableD [OF stable_string_list v(1)] .
  moreover from this have "v \<noteq> PNone" by (auto simp: report_error_def)
  ultimately show ?thesis using that(2) v(2) by blast
qed

text \<open>What a normalised report holds.\<close>

definition normal_report :: "string \<Rightarrow> string \<Rightarrow> dict \<Rightarrow> bool" where
  "normal_report role model r \<longleftrightarrow>
     (\<exists>su co ass un fi ar ns cs.
        map_of r ''summary'' = Some su \<and> normalize_summary role su = Inr su \<and>
        map_of r ''confidence'' = Some co \<and> normalize_choice role ''confidence'' confidences co = Inr co \<and>
        map_of r ''assumptions'' = Some ass \<and> string_list role ''assumptions'' ass = Inr ass \<and>
        map_of r ''unknowns'' = Some un \<and> string_list role ''unknowns'' un = Inr un \<and>
        normalize_basis role r = Inr r \<and>
        map_of r ''findings'' = Some fi \<and> list_field role ''findings'' (normalize_finding role) fi = Inr fi \<and>
        map_of r ''artifacts'' = Some ar \<and> string_list role ''artifacts'' ar = Inr ar \<and>
        map_of r ''next_steps'' = Some ns \<and> string_list role ''next_steps'' ns = Inr ns \<and>
        map_of r ''code_suggestions'' = Some cs \<and>
        (list_all summary_stripped (elems_of cs) \<longrightarrow>
           list_field role ''code_suggestions'' (normalize_suggestion role) cs = Inr cs) \<and>
        map_of r ''role'' = Some (PStr role) \<and> map_of r ''model'' = Some (PStr model))"

lemma normalize_report_normal:
  assumes "normalize_report role model r0 = Inr r"
  shows "normal_report role model r"
proof -
  from assms obtain su co ass un r4 r5 fi ar ns cs where
    f: "normalize_summary role (dget r0 ''summary'') = Inr su"
      "normalize_choice role ''confidence'' confidences (dget (dset ''summary'' su r0) ''confidence'') = Inr co"
      "string_list role ''assumptions'' (dget (dset ''confidence'' co (dset ''summary'' su r0)) ''assumptions'') = Inr ass"
      "string_list role ''unknowns'' (dget (dset ''assumptions'' ass (dset ''confidence'' co (dset ''summary'' su r0))) ''unknowns'') = Inr un"
      "r4 = dset ''unknowns'' un (dset ''assumptions'' ass (dset ''confidence'' co (dset ''summary'' su r0)))"
      "normalize_basis role r4 = Inr r5"
      "list_field role ''findings'' (normalize_finding role) (dget r5 ''findings'') = Inr fi"
      "string_list role ''artifacts'' (dget_default (dset ''findings'' fi r5) ''artifacts'' (PList [])) = Inr ar"
      "string_list role ''next_steps'' (dget_default (dset ''artifacts'' ar (dset ''findings'' fi r5)) ''next_steps'' (PList [])) = Inr ns"
      "list_field role ''code_suggestions'' (normalize_suggestion role)
         (dget_default (dset ''next_steps'' ns (dset ''artifacts'' ar (dset ''findings'' fi r5))) ''code_suggestions'' (PList [])) = Inr cs"
      "r = dset ''model'' (PStr model) (dset ''role'' (PStr role) (dset ''code_suggestions'' cs
         (dset ''next_steps'' ns (dset ''artifacts'' ar (dset ''findings'' fi r5)))))"
    unfolding normalize_report_def bind_res_eq_Inr set_field_Inr by blast
  have m5: "map_of r5 k = map_of r4 k" if "k \<noteq> ''evidence_basis''" for k
    using f(6) that by (auto elim!: normalize_basis_cases)
  have m: "map_of r ''summary'' = Some su" "map_of r ''confidence'' = Some co" "map_of r ''assumptions'' = Some ass"
      "map_of r ''unknowns'' = Some un" "map_of r ''findings'' = Some fi" "map_of r ''artifacts'' = Some ar"
      "map_of r ''next_steps'' = Some ns" "map_of r ''code_suggestions'' = Some cs" "map_of r ''role'' = Some (PStr role)"
      "map_of r ''model'' = Some (PStr model)" "map_of r ''evidence_basis'' = map_of r5 ''evidence_basis''"
    by (simp_all add: f(11) m5) (simp_all add: f(5))
  have b: "normalize_basis role r = Inr r"
    using f(6)
  proof (rule normalize_basis_cases)
    fix v assume v: "r5 = dset ''evidence_basis'' v r4" "string_list role ''evidence_basis'' v = Inr v" "v \<noteq> PNone"
    then have "map_of r ''evidence_basis'' = Some v" by (simp add: m)
    with v show ?thesis by (simp add: normalize_basis_def dget_def dset_same)
  next
    assume "r5 = r4" "dget r4 ''evidence_basis'' = PNone"
    then have "dget r ''evidence_basis'' = PNone" by (simp add: m dget_def)
    then show ?thesis by (simp add: normalize_basis_def)
  qed
  show ?thesis
    unfolding normal_report_def
    using m b suggestions_again [OF f(10)] stableD [OF stable_summary f(1)] stableD [OF stable_choice [OF choices_upper(2)] f(2)]
      stableD [OF stable_string_list f(3)] stableD [OF stable_string_list f(4)] stableD [OF stable_string_list f(8)]
      stableD [OF stable_string_list f(9)] stableD [OF stable_list_field [OF stable_finding] f(7)]
    by blast
qed

lemma normal_report_again:
  assumes "normal_report role model r" and "list_all summary_stripped (elems_of (dget r ''code_suggestions''))"
  shows "normalize_report role model r = Inr r"
proof -
  from assms(1) obtain su co ass un fi ar ns cs where
    m: "map_of r ''summary'' = Some su" "normalize_summary role su = Inr su"
      "map_of r ''confidence'' = Some co" "normalize_choice role ''confidence'' confidences co = Inr co"
      "map_of r ''assumptions'' = Some ass" "string_list role ''assumptions'' ass = Inr ass"
      "map_of r ''unknowns'' = Some un" "string_list role ''unknowns'' un = Inr un"
      "normalize_basis role r = Inr r"
      "map_of r ''findings'' = Some fi" "list_field role ''findings'' (normalize_finding role) fi = Inr fi"
      "map_of r ''artifacts'' = Some ar" "string_list role ''artifacts'' ar = Inr ar"
      "map_of r ''next_steps'' = Some ns" "string_list role ''next_steps'' ns = Inr ns"
      "map_of r ''code_suggestions'' = Some cs"
      "list_all summary_stripped (elems_of cs) \<longrightarrow>
         list_field role ''code_suggestions'' (normalize_suggestion role) cs = Inr cs"
      "map_of r ''role'' = Some (PStr role)" "map_of r ''model'' = Some (PStr model)"
    unfolding normal_report_def by blast
  have d: "dget r k = v" "dget_default r k w = v" if "map_of r k = Some v" for k v w
    using that by (simp_all add: dget_def dget_default_def)
  have cs: "list_field role ''code_suggestions'' (normalize_suggestion role) cs = Inr cs"
    using m(17) assms(2) by (simp add: d [OF m(16)])
  have "dset ''model'' (PStr model) (dset ''role'' (PStr role) r) = r" by (simp add: dset_same m(18,19))
  then show ?thesis
    by (simp only: normalize_report_def d [OF m(1)] d [OF m(3)] d [OF m(5)] d [OF m(7)] d [OF m(10)] d [OF m(12)] d [OF m(14)]
        d [OF m(16)] set_field_same [OF m(2,1)] set_field_same [OF m(4,3)] set_field_same [OF m(6,5)]
        set_field_same [OF m(8,7)] set_field_same [OF m(11,10)] set_field_same [OF m(13,12)]
        set_field_same [OF m(15,14)] set_field_same [OF cs m(16)] m(9) bind_res_Inr)
qed

section \<open>Properties\<close>

text \<open>C20: Artifacts read back, with two exceptions: for a report without floating point values, none of whose suggestion
  summaries starts or ends in a blank, the JSON artifact written for a role parses and normalises to the report it was
  rendered from, which is therefore a fixed point of the normalisation. A summary the code cuts from the suggestion at
  120 characters may end in a blank; such a report is excluded, and it does change.\<close>

theorem report_round_trip:
  assumes "normalize_json_report role model output = Inr r" and "json_ok (PDict r)"
    and "list_all summary_stripped (elems_of (dget r ''code_suggestions''))"
  shows "\<exists>artifact. render_role_output fr role model output True = Inr (''json'', artifact, Some r) \<and>
    normalize_json_report role model artifact = Inr r"
proof -
  from assms(1) obtain r0 where "normalize_report role model r0 = Inr r"
    by (auto simp: normalize_json_report_def split: option.splits pv.splits)
  then have "normalize_report role model r = Inr r"
    using normal_report_again [OF normalize_report_normal assms(3)] by blast
  then have "normalize_json_report role model (json_pretty fr (PDict r) @ [newline]) = Inr r"
    by (simp add: normalize_json_report_def json_loads_pretty [OF assms(2)])
  then show ?thesis using assms(1) by (simp add: render_role_output_def)
qed

definition sample_report :: string where
  "sample_report = json_compact (\<lambda>_. []) (PDict
     [(''summary'', PStr '' ok ''), (''confidence'', PStr ''low''), (''assumptions'', PList []), (''unknowns'', PList []),
      (''findings'', PList [PDict [(''severity'', PStr '' high''), (''title'', PStr ''Leak'')]])])"

lemma sample_report_ok:
  "case normalize_json_report ''r'' ''m'' sample_report of Inl _ \<Rightarrow> False
     | Inr r \<Rightarrow> json_ok (PDict r) \<and> list_all summary_stripped (elems_of (dget r ''code_suggestions'')) \<and>
         length (high_severity_findings r) = 1"
  by code_simp

theorem report_round_trip_witness:
  "\<exists>r artifact. normalize_json_report ''r'' ''m'' sample_report = Inr r \<and>
     render_role_output (\<lambda>_. []) ''r'' ''m'' sample_report True = Inr (''json'', artifact, Some r) \<and>
     normalize_json_report ''r'' ''m'' artifact = Inr r"
proof -
  obtain r where r: "normalize_json_report ''r'' ''m'' sample_report = Inr r" "json_ok (PDict r)"
      "list_all summary_stripped (elems_of (dget r ''code_suggestions''))"
    using sample_report_ok by (auto split: sum.splits)
  from report_round_trip [OF r, of "\<lambda>_. []"] r(1) show ?thesis by blast
qed

text \<open>A severe finding as a role may spell it.\<close>

fun spelled_severe :: "pv \<Rightarrow> bool" where
  "spelled_severe (PDict f) =
     (case dget f ''severity'' of PStr s \<Rightarrow> upper (strip s) \<in> {''HIGH'', ''CRITICAL''} | _ \<Rightarrow> False)"
| "spelled_severe v = False"

lemma normalized_severe: "normalize_finding role v = Inr w \<Longrightarrow> severe w = spelled_severe v"
proof -
  assume a: "normalize_finding role v = Inr w"
  then obtain f t s d where v: "v = PDict f" and p: "normalize_choice role ''severity'' severities (dget f ''severity'') = Inr s"
    and w: "w = PDict (dset ''details'' d (dset ''severity'' s (dset ''title'' t f)))"
    by (cases v) (auto simp: report_error_def bind_res_eq_Inr)
  from p obtain x where x: "dget f ''severity'' = PStr x" "s = PStr (upper (strip x))"
    by (cases "dget f ''severity''") (auto simp: report_error_def split: if_splits)
  show ?thesis by (simp add: v w x)
qed

text \<open>C15: The gate misses no severe finding: a normalised report has exactly as many severe findings as the
  role reported, however their severity was capitalised or padded.\<close>

theorem severe_findings_survive:
  assumes "json_loads output = Some (PDict r0)" and "normalize_json_report role model output = Inr r"
  shows "\<exists>fs. dget r0 ''findings'' = PList fs \<and>
    length (high_severity_findings r) = length (filter spelled_severe fs)"
proof -
  from assms have n: "normalize_report role model r0 = Inr r" by (simp add: normalize_json_report_def)
  from n obtain su co ass un r4 r5 fi ar ns cs where
    f: "r4 = dset ''unknowns'' un (dset ''assumptions'' ass (dset ''confidence'' co (dset ''summary'' su r0)))"
      "normalize_basis role r4 = Inr r5"
      "list_field role ''findings'' (normalize_finding role) (dget r5 ''findings'') = Inr fi"
      "r = dset ''model'' (PStr model) (dset ''role'' (PStr role) (dset ''code_suggestions'' cs
         (dset ''next_steps'' ns (dset ''artifacts'' ar (dset ''findings'' fi r5)))))"
    unfolding normalize_report_def bind_res_eq_Inr set_field_Inr by blast
  have "dget r5 ''findings'' = dget r0 ''findings''"
    using f(2) by (auto elim!: normalize_basis_cases simp: f(1))
  with f(3) obtain fs gs where l: "dget r0 ''findings'' = PList fs" "fi = PList gs"
      "list_all2 (\<lambda>a b. normalize_finding role a = Inr b) fs gs"
    unfolding list_field_Inr by auto
  from l(3) have "length (filter severe gs) = length (filter spelled_severe fs)"
    by (induction rule: list_all2_induct) (auto dest: normalized_severe)
  moreover have "dget r ''findings'' = PList gs" by (simp add: f(4) l(2))
  ultimately show ?thesis using l(1) by (simp add: high_severity_findings_def)
qed

theorem severe_findings_survive_witness:
  "\<exists>r. normalize_json_report ''r'' ''m'' sample_report = Inr r \<and> length (high_severity_findings r) = 1"
proof -
  obtain r where r: "normalize_json_report ''r'' ''m'' sample_report = Inr r" using sample_report_ok by (auto split: sum.splits)
  have "case json_loads sample_report of
      Some (PDict r0) \<Rightarrow> (case dget r0 ''findings'' of PList fs \<Rightarrow> length (filter spelled_severe fs) = 1 | _ \<Rightarrow> False) | _ \<Rightarrow> False"
    by code_simp
  then obtain r0 fs where r0: "json_loads sample_report = Some (PDict r0)" "dget r0 ''findings'' = PList fs"
      "length (filter spelled_severe fs) = 1"
    by (auto split: option.splits pv.splits)
  from severe_findings_survive [OF r0(1) r] r r0 show ?thesis by auto
qed

end
