(* ===== verification/Run_Report.thy ===== *)
theory Run_Report
  imports Ese_Feedback Evidence_State Pipeline_Reports "HOL-Library.Product_Lexorder"
begin

text \<open>
  The run report (\<open>ese/reports.py\<close>): what the artifacts of a run directory say about it. Roles with their
  findings, blockers, unknowns and suggestions; consensus between roles; the comparison with the previous
  run; the release simulation and the suggested actions. Severities are ASCII texts; the modification times
  of files (which choose the previous run and date the report) are arguments.
\<close>

section \<open>Pure paths\<close>

text \<open>A path of \<open>pathlib\<close>: whether it is absolute, and its components.\<close>

type_synonym pure_path = "bool \<times> path"

definition pure_path :: "string \<Rightarrow> pure_path" where
  "pure_path s = (is_abs s, components s)"

definition pure_join :: "pure_path \<Rightarrow> pure_path \<Rightarrow> pure_path" where
  "pure_join p q = (if fst q then q else (fst p, snd p @ snd q))"

definition pure_str :: "pure_path \<Rightarrow> string" where
  "pure_str p = (if fst p then path_str (snd p) else if snd p = [] then ''.'' else join ''/'' (snd p))"

definition read_pure :: "path \<Rightarrow> pure_path \<Rightarrow> files \<Rightarrow> string option" where
  "read_pure cwd p fs = fs (normalize_path (if fst p then snd p else cwd @ snd p))"

text \<open>\<open>path.suffix\<close>: from the last dot of the last component on, unless the dot begins or ends it.\<close>

definition name_suffix :: "string \<Rightarrow> string" where
  "name_suffix name =
     (let ext = rev (takeWhile (\<lambda>c. c \<noteq> CHR ''.'') (rev name)) in
      if ext = [] \<or> length name \<le> length ext + 1 then [] else CHR ''.'' # ext)"

definition pure_suffix :: "pure_path \<Rightarrow> string" where
  "pure_suffix p = (if snd p = [] then [] else lower (name_suffix (last (snd p))))"

section \<open>Role entries\<close>

definition severity_order :: "string list" where
  "severity_order = [''CRITICAL'', ''HIGH'', ''MEDIUM'', ''LOW'']"

fun index_of :: "'a list \<Rightarrow> 'a \<Rightarrow> nat" where
  "index_of [] x = 0"
| "index_of (y # ys) x = (if x = y then 0 else Suc (index_of ys x))"

definition severity_rank :: "string \<Rightarrow> nat" where
  "severity_rank s = index_of severity_order s"

definition is_alnum :: "char \<Rightarrow> bool" where
  "is_alnum c = (let n = code c in
     48 \<le> n \<and> n \<le> 57 \<or> 65 \<le> n \<and> n \<le> 90 \<or> 97 \<le> n \<and> n \<le> 122 \<or> n \<in> {170, 178, 179, 181, 185, 186, 188, 189, 190} \<or>
     192 \<le> n \<and> n \<noteq> 215 \<and> n \<noteq> 247)"

function words :: "string \<Rightarrow> string list" where
  "words s =
     (let t = dropWhile is_space s in
      if t = [] then [] else takeWhile (\<lambda>c. \<not> is_space c) t # words (dropWhile (\<lambda>c. \<not> is_space c) t))"
  by pat_completeness auto
termination
proof (relation "measure length")
  fix s x :: string
  assume x: "x = dropWhile is_space s" "x \<noteq> []"
  then obtain c cs where c: "x = c # cs" "\<not> is_space c" using hd_dropWhile [of is_space s] by (metis list.exhaust_sel)
  have "length (dropWhile (\<lambda>c. \<not> is_space c) x) < length x"
    by (simp add: c less_Suc_eq_le length_dropWhile_le)
  moreover have "length x \<le> length s" by (simp add: x length_dropWhile_le)
  ultimately show "(dropWhile (\<lambda>c. \<not> is_space c) x, s) \<in> measure length" by simp
qed simp

declare words.simps [simp del]

definition finding_theme :: "string \<Rightarrow> string" where
  "finding_theme s = join '' '' (words (map (\<lambda>c. if is_alnum c then lower_char c else CHR '' '') s))"

record role_entry =
  en_role :: string
  en_model :: string
  en_artifact :: string
  en_summary :: string
  en_findings :: "pv list"
  en_next_steps :: "string list"
  en_artifacts :: "string list"
  en_confidence :: string
  en_assumptions :: "string list"
  en_unknowns :: "string list"
  en_evidence_basis :: "string list"
  en_format :: string
  en_code_suggestions :: "dict list"

record blocker =
  bl_role :: string
  bl_severity :: string
  bl_title :: string
  bl_details :: string
  bl_confidence :: string

text \<open>\<open>_read_json\<close> and \<open>load_role_report\<close>.\<close>

definition read_json :: "path \<Rightarrow> pure_path \<Rightarrow> files \<Rightarrow> dict res" where
  "read_json cwd p fs = (case read_pure cwd p fs of
      None \<Rightarrow> Inl (RunReportError ''Required run artifact not found'')
    | Some contents \<Rightarrow> (case json_loads contents of
          None \<Rightarrow> Inl (RunReportError ''Run artifact is not valid JSON'')
        | Some (PDict d) \<Rightarrow> Inr d
        | Some _ \<Rightarrow> Inl (RunReportError ''Run artifact must be a JSON object'')))"

definition load_role_report :: "path \<Rightarrow> pure_path \<Rightarrow> files \<Rightarrow> dict option res" where
  "load_role_report cwd p fs =
     (if pure_suffix p \<noteq> ''.json'' then Inr None else bind_res (read_json cwd p fs) (\<lambda>d. Inr (Some d)))"

text \<open>\<open>[x for x in v if isinstance(x, str) and x.strip()]\<close>, and the dictionaries of a sequence.\<close>

fun nonblank_strings :: "pv list \<Rightarrow> string list" where
  "nonblank_strings [] = []"
| "nonblank_strings (PStr s # vs) = (if strip s \<noteq> [] then s # nonblank_strings vs else nonblank_strings vs)"
| "nonblank_strings (v # vs) = nonblank_strings vs"

definition texts_field :: "dict \<Rightarrow> string \<Rightarrow> string list res" where
  "texts_field d key = bind_res (py_iter (dget_default d key (PList []))) (\<lambda>vs. Inr (nonblank_strings vs))"

definition dicts_of :: "pv list \<Rightarrow> dict list" where
  "dicts_of vs = map items_of (filter is_dict vs)"

definition plain_entry :: "string \<Rightarrow> string \<Rightarrow> pure_path \<Rightarrow> role_entry" where
  "plain_entry role model p =
     \<lparr>en_role = role, en_model = model, en_artifact = pure_str p, en_summary = [], en_findings = [], en_next_steps = [],
      en_artifacts = [], en_confidence = [], en_assumptions = [], en_unknowns = [], en_evidence_basis = [],
      en_format = dropWhile (\<lambda>c. c = CHR ''.'') (pure_suffix p), en_code_suggestions = []\<rparr>"

definition structured_entry :: "(pv \<Rightarrow> string) \<Rightarrow> dict \<Rightarrow> role_entry \<Rightarrow> role_entry res" where
  "structured_entry rep r e =
     bind_res (texts_field r ''next_steps'') (\<lambda>steps.
     bind_res (texts_field r ''artifacts'') (\<lambda>artifacts.
     bind_res (texts_field r ''assumptions'') (\<lambda>assumptions.
     bind_res (texts_field r ''unknowns'') (\<lambda>unknowns.
     bind_res (texts_field r ''evidence_basis'') (\<lambda>basis.
     bind_res (py_iter (dget_default r ''code_suggestions'' (PList []))) (\<lambda>suggestions.
       Inr (e\<lparr>en_summary := clean_text rep (dget r ''summary''),
               en_confidence := upper (clean_text rep (dget r ''confidence'')),
               en_findings := elems_of (dget r ''findings''), en_next_steps := steps, en_artifacts := artifacts,
               en_assumptions := assumptions, en_unknowns := unknowns, en_evidence_basis := basis,
               en_code_suggestions := dicts_of suggestions\<rparr>)))))))"

text \<open>The entry of an executed role; \<open>None\<close> for items without a role or artifact.\<close>

definition role_entry_of :: "(pv \<Rightarrow> string) \<Rightarrow> path \<Rightarrow> pure_path \<Rightarrow> files \<Rightarrow> dict \<Rightarrow> role_entry option res" where
  "role_entry_of rep cwd run_dir fs item =
     (let role = clean_text rep (dget item ''role''); artifact = clean_text rep (dget item ''artifact'');
          p = pure_join run_dir (pure_path artifact);
          e = plain_entry role (py_str rep (py_or (dget item ''model'') (PStr []))) p in
      if role = [] \<or> artifact = [] then Inr None
      else bind_res (load_role_report cwd p fs) (\<lambda>report.
        case report of
          None \<Rightarrow> (case read_pure cwd p fs of
              None \<Rightarrow> Inl (FileNotFoundError (pure_str p))
            | Some contents \<Rightarrow> Inr (Some (e\<lparr>en_summary := strip (take 500 contents)\<rparr>)))
        | Some r \<Rightarrow> bind_res (structured_entry rep r e) (\<lambda>e. Inr (Some e))))"

fun role_entries :: "(pv \<Rightarrow> string) \<Rightarrow> path \<Rightarrow> pure_path \<Rightarrow> files \<Rightarrow> pv list \<Rightarrow> role_entry list res" where
  "role_entries rep cwd run_dir fs [] = Inr []"
| "role_entries rep cwd run_dir fs (PDict item # vs) =
     bind_res (role_entry_of rep cwd run_dir fs item) (\<lambda>e.
     bind_res (role_entries rep cwd run_dir fs vs) (\<lambda>es. Inr (case e of None \<Rightarrow> es | Some e \<Rightarrow> e # es)))"
| "role_entries rep cwd run_dir fs (v # vs) = role_entries rep cwd run_dir fs vs"

definition finding_severity :: "(pv \<Rightarrow> string) \<Rightarrow> dict \<Rightarrow> string" where
  "finding_severity rep f = upper (py_str rep (py_or (dget f ''severity'') (PStr [])))"

definition entry_findings :: "role_entry \<Rightarrow> dict list" where
  "entry_findings e = dicts_of (en_findings e)"

definition severity_counts :: "(pv \<Rightarrow> string) \<Rightarrow> role_entry list \<Rightarrow> (string \<times> nat) list" where
  "severity_counts rep es =
     map (\<lambda>s. (s, length (filter (\<lambda>f. finding_severity rep f = s) (concat (map entry_findings es))))) severity_order"

definition entry_blockers :: "(pv \<Rightarrow> string) \<Rightarrow> role_entry \<Rightarrow> blocker list" where
  "entry_blockers rep e =
     map (\<lambda>f. \<lparr>bl_role = en_role e, bl_severity = finding_severity rep f, bl_title = clean_text rep (dget f ''title''),
               bl_details = clean_text rep (dget f ''details''), bl_confidence = en_confidence e\<rparr>)
       (filter (\<lambda>f. finding_severity rep f \<in> {''HIGH'', ''CRITICAL''}) (entry_findings e))"

definition blockers_of :: "(pv \<Rightarrow> string) \<Rightarrow> role_entry list \<Rightarrow> blocker list" where
  "blockers_of rep es = concat (map (entry_blockers rep) es)"

section \<open>Unknowns and consensus\<close>

text \<open>The themes several roles are unsure about: theme, text, roles.\<close>

definition note_unknown :: "string \<Rightarrow> (string \<times> string \<times> string list) list \<Rightarrow> string \<Rightarrow> (string \<times> string \<times> string list) list" where
  "note_unknown role grouped unknown =
     (let theme = finding_theme unknown;
          (text, roles) = (case map_of grouped theme of Some x \<Rightarrow> x | None \<Rightarrow> (strip unknown, [])) in
      dset theme (text, if role \<noteq> [] \<and> role \<notin> set roles then roles @ [role] else roles) grouped)"

definition group_unknowns :: "role_entry list \<Rightarrow> (string \<times> string \<times> string list) list" where
  "group_unknowns es =
     foldl (\<lambda>grouped e. foldl (note_unknown (strip (en_role e))) grouped (filter (\<lambda>u. strip u \<noteq> []) (en_unknowns e))) [] es"

text \<open>Text, roles and count of the recurring ones, most frequent first.\<close>

definition recurring_unknowns :: "role_entry list \<Rightarrow> (string \<times> string list \<times> nat) list" where
  "recurring_unknowns es =
     sort_key (\<lambda>(text, roles, n). (- int n, text))
       (filter (\<lambda>(text, roles, n). n \<ge> 2) (map (\<lambda>(theme, text, roles). (text, roles, length roles)) (group_unknowns es)))"

record raised =
  ra_role :: string
  ra_severity :: string
  ra_title :: string
  ra_details :: string

definition raised_of :: "(pv \<Rightarrow> string) \<Rightarrow> role_entry \<Rightarrow> raised list" where
  "raised_of rep e =
     filter (\<lambda>r. ra_role r \<noteq> [] \<and> ra_title r \<noteq> [])
       (map (\<lambda>f. \<lparr>ra_role = strip (en_role e), ra_severity = strip (finding_severity rep f),
                  ra_title = clean_text rep (dget f ''title''), ra_details = clean_text rep (dget f ''details'')\<rparr>)
         (entry_findings e))"

definition group_raised :: "raised list \<Rightarrow> (string \<times> raised list) list" where
  "group_raised rs =
     foldl (\<lambda>d r. let theme = finding_theme (ra_title r) in
       dset theme ((case map_of d theme of Some xs \<Rightarrow> xs | None \<Rightarrow> []) @ [r]) d) [] rs"

record topic =
  tp_theme :: string
  tp_title :: string
  tp_roles :: "string list"
  tp_highest :: string
  tp_severities :: "string list"
  tp_note :: string

text \<open>Sorting the severities of a theme starts from a set, whose order for equal ranks the language does not
  fix; the model takes the order of the texts.\<close>

definition topic_of :: "string \<times> raised list \<Rightarrow> topic" where
  "topic_of g =
     (let severities = sort_key severity_rank (sorted_set (map ra_severity (snd g))) in
      \<lparr>tp_theme = fst g, tp_title = ra_title (hd (snd g)), tp_roles = sorted_set (map ra_role (snd g)),
       tp_highest = (case severities of [] \<Rightarrow> ''LOW'' | s # ss \<Rightarrow> s), tp_severities = severities, tp_note = []\<rparr>)"

record consensus =
  co_agreements :: "topic list"
  co_disagreements :: "topic list"
  co_solo_blockers :: "topic list"

definition consensus_summary :: "(pv \<Rightarrow> string) \<Rightarrow> role_entry list \<Rightarrow> consensus" where
  "consensus_summary rep es =
     (let topics = map topic_of (group_raised (concat (map (raised_of rep) es)));
          agreed = filter (\<lambda>t. length (tp_roles t) \<ge> 2) topics;
          by_rank = sort_key (\<lambda>t. (severity_rank (tp_highest t), tp_title t)) in
      \<lparr>co_agreements = sort_key (\<lambda>t. (- int (length (tp_roles t)), severity_rank (tp_highest t), tp_title t)) agreed,
       co_disagreements = by_rank (map (\<lambda>t. t\<lparr>tp_note := ''Multiple roles raised the same concern with different severities.''\<rparr>)
         (filter (\<lambda>t. length (tp_severities t) \<ge> 2) agreed)),
       co_solo_blockers = by_rank (map (\<lambda>t. t\<lparr>tp_note := ''Only one role flagged this as a blocker.''\<rparr>)
         (filter (\<lambda>t. \<not> length (tp_roles t) \<ge> 2 \<and> tp_highest t \<in> {''HIGH'', ''CRITICAL''}) topics))\<rparr>)"

section \<open>Code suggestions\<close>

record suggestion =
  su_role :: string
  su_source :: string
  su_severity :: string
  su_title :: string
  su_suggestion :: string
  su_path :: string
  su_kind :: string
  su_snippet :: string

type_synonym suggestion_key = "string \<times> string \<times> string"

definition is_placeholder_suggestion :: "string \<Rightarrow> bool" where
  "is_placeholder_suggestion s = starts_with ''replace dry-run with a real adapter'' (lower (strip s))"

definition clean_or :: "(pv \<Rightarrow> string) \<Rightarrow> pv \<Rightarrow> pv \<Rightarrow> string" where
  "clean_or rep v dflt = strip (py_str rep (py_or v dflt))"

text \<open>One candidate at a time: a key already seen, or a candidate without role or text, is dropped.\<close>

definition offer :: "bool \<Rightarrow> suggestion_key \<Rightarrow> suggestion \<Rightarrow> suggestion list \<times> suggestion_key list \<Rightarrow>
    suggestion list \<times> suggestion_key list" where
  "offer ok key s acc = (if \<not> ok \<or> key \<in> set (snd acc) then acc else (fst acc @ [s], snd acc @ [key]))"

definition offer_explicit :: "(pv \<Rightarrow> string) \<Rightarrow> string \<Rightarrow> dict \<Rightarrow> suggestion list \<times> suggestion_key list \<Rightarrow>
    suggestion list \<times> suggestion_key list" where
  "offer_explicit rep role item acc =
     (let summary = clean_or rep (py_or (dget item ''summary'') (dget item ''suggestion'')) (PStr []);
          suggestion = clean_text rep (dget item ''suggestion'');
          path = clean_text rep (dget item ''path'') in
      offer (\<not> is_placeholder_suggestion suggestion \<and> role \<noteq> [] \<and> suggestion \<noteq> [])
        (role, path, finding_theme (if summary \<noteq> [] then summary else suggestion))
        \<lparr>su_role = role, su_source = ''code_suggestion'', su_severity = upper (clean_text rep (dget item ''severity'')),
         su_title = (if summary \<noteq> [] then summary else take 120 suggestion), su_suggestion = suggestion, su_path = path,
         su_kind = lower (clean_or rep (dget item ''kind'') (PStr ''edit'')),
         su_snippet = rstrip (py_str rep (py_or (dget item ''snippet'') (PStr [])))\<rparr> acc)"

definition offer_finding :: "(pv \<Rightarrow> string) \<Rightarrow> string \<Rightarrow> dict \<Rightarrow> suggestion list \<times> suggestion_key list \<Rightarrow>
    suggestion list \<times> suggestion_key list" where
  "offer_finding rep role f acc =
     (let title = clean_text rep (dget f ''title'');
          severity = upper (clean_or rep (dget f ''severity'') (PStr ''LOW''));
          suggestion = clean_or rep (dget f ''details'') (PStr title) in
      offer (role \<noteq> [] \<and> title \<noteq> [] \<and> suggestion \<noteq> [] \<and> \<not> is_placeholder_suggestion suggestion)
        (role, finding_theme title, finding_theme suggestion)
        \<lparr>su_role = role, su_source = ''finding'', su_severity = (if severity = [] then ''LOW'' else severity),
         su_title = title, su_suggestion = suggestion, su_path = [], su_kind = ''edit'', su_snippet = []\<rparr> acc)"

definition offer_step :: "string \<Rightarrow> string \<Rightarrow> suggestion list \<times> suggestion_key list \<Rightarrow>
    suggestion list \<times> suggestion_key list" where
  "offer_step role step acc =
     (let suggestion = strip step in
      offer (role \<noteq> [] \<and> suggestion \<noteq> [] \<and> \<not> is_placeholder_suggestion suggestion)
        (role, ''next-step'', finding_theme suggestion)
        \<lparr>su_role = role, su_source = ''next_step'', su_severity = ''INFO'', su_title = role @ '' next step'',
         su_suggestion = suggestion, su_path = [],
         su_kind = (if str_contains ''test'' (lower suggestion) then ''test'' else ''edit''), su_snippet = []\<rparr> acc)"

text \<open>The suggestions of one role: its findings and next steps count only when no explicit one was taken.\<close>

definition offer_role :: "(pv \<Rightarrow> string) \<Rightarrow> suggestion list \<times> suggestion_key list \<Rightarrow> role_entry \<Rightarrow>
    suggestion list \<times> suggestion_key list" where
  "offer_role rep acc e =
     (let role = strip (en_role e); acc' = fold (offer_explicit rep role) (en_code_suggestions e) acc in
      if length (fst acc') > length (fst acc) then acc'
      else fold (offer_step role) (en_next_steps e) (fold (offer_finding rep role) (entry_findings e) acc'))"

definition suggestion_rank :: "suggestion \<Rightarrow> nat \<times> nat \<times> nat \<times> string \<times> string" where
  "suggestion_rank s =
     (if su_path s \<noteq> [] then 0 else 1, if su_source s = ''finding'' then 0 else 1,
      severity_rank (su_severity s), su_role s, su_title s)"

definition code_suggestions :: "(pv \<Rightarrow> string) \<Rightarrow> role_entry list \<Rightarrow> suggestion list" where
  "code_suggestions rep es = sort_key suggestion_rank (fst (foldl (offer_role rep) ([], []) es))"

record suggestion_groups =
  sg_by_path :: "(string \<times> suggestion list) list"
  sg_unscoped :: "suggestion list"

definition group_code_suggestions :: "suggestion list \<Rightarrow> suggestion_groups" where
  "group_code_suggestions ss =
     \<lparr>sg_by_path = map (\<lambda>p. (p, filter (\<lambda>s. strip (su_path s) = p) ss))
        (sorted_set (filter (\<lambda>p. p \<noteq> []) (map (\<lambda>s. strip (su_path s)) ss))),
      sg_unscoped = filter (\<lambda>s. strip (su_path s) = []) ss\<rparr>"

definition file_targeted_count :: "suggestion_groups \<Rightarrow> nat" where
  "file_targeted_count g = sum_list (map (length \<circ> snd) (sg_by_path g))"

definition suggestion_label :: "suggestion \<Rightarrow> string" where
  "suggestion_label s = su_role s @ '' ['' @ su_kind s @ '']'' @
     (if strip (su_severity s) \<noteq> [] then '' '' @ strip (su_severity s) else [])"

definition suggestion_line :: "suggestion \<Rightarrow> string" where
  "suggestion_line s = ''- '' @ suggestion_label s @ '': '' @ su_suggestion s"

definition suggestion_lines :: "suggestion \<Rightarrow> string list" where
  "suggestion_lines s = suggestion_line s #
     (if strip (su_snippet s) \<noteq> [] then [[], ''```text'', strip (su_snippet s), ''```''] else [])"

definition render_code_suggestions_markdown :: "string \<Rightarrow> suggestion list \<Rightarrow> string" where
  "render_code_suggestions_markdown dir ss =
     (let g = group_code_suggestions ss in
      strip (join [newline]
        ([''# Code Suggestions'', [], ''Artifacts directory: '' @ dir, ''Total suggestions: '' @ nat_str (length ss),
          ''File-targeted suggestions: '' @ nat_str (file_targeted_count g),
          ''Unscoped suggestions: '' @ nat_str (length (sg_unscoped g))] @
         concat (map (\<lambda>(p, items). [[], ''## '' @ p] @ concat (map suggestion_lines items)) (sg_by_path g)) @
         (if sg_unscoped g \<noteq> [] then [[], ''## Unscoped''] @ map suggestion_line (sg_unscoped g) else []))) @ [newline])"

definition dump_suggestion :: "suggestion \<Rightarrow> pv" where
  "dump_suggestion s = PDict
     [(''role'', PStr (su_role s)), (''source'', PStr (su_source s)), (''severity'', PStr (su_severity s)),
      (''title'', PStr (su_title s)), (''suggestion'', PStr (su_suggestion s)), (''path'', PStr (su_path s)),
      (''kind'', PStr (su_kind s)), (''snippet'', PStr (su_snippet s))]"

definition render_code_suggestions_json :: "(rat \<Rightarrow> string) \<Rightarrow> string \<Rightarrow> pv \<Rightarrow> suggestion list \<Rightarrow> string" where
  "render_code_suggestions_json fr dir scope ss =
     (let g = group_code_suggestions ss in
      json_pretty fr (PDict
        [(''artifacts_dir'', PStr dir), (''scope'', scope), (''count'', PInt (int (length ss))),
         (''file_targeted_count'', PInt (int (file_targeted_count g))),
         (''unscoped_count'', PInt (int (length (sg_unscoped g)))),
         (''paths'', PList (map (PStr \<circ> fst) (sg_by_path g))),
         (''suggestions'', PList (map dump_suggestion ss))]) @ [newline])"

end
