(* ===== verification/Run_Summary.thy ===== *)
theory Run_Summary
  imports Run_Report
begin

text \<open>
  The second half of \<open>ese/reports.py\<close>: the report of a run directory as a whole. Collecting it, comparing it with the
  previous run, the release simulation, the suggested actions and the status text. Documents of
  external view plugins are left out; which run is the previous one depends on modification
  times and is an argument.
\<close>

section \<open>Documents\<close>

record document =
  do_key :: string
  do_title :: string
  do_path :: string
  do_format :: string

definition document_candidates :: "(pv \<Rightarrow> string) \<Rightarrow> pure_path \<Rightarrow> dict \<Rightarrow> (string \<times> string \<times> pure_path) list" where
  "document_candidates rep run_dir state =
     (let file = (\<lambda>name. pure_join run_dir (False, [name])); snapshot = clean_text rep (dget state ''config_snapshot'') in
      [(''summary'', ''Summary'', file ''ese_summary.md'')] @
      (if snapshot \<noteq> [] then [(''config_snapshot'', ''Config Snapshot'', pure_path snapshot)] else []) @
      [(''pr_review'', ''PR Review'', file ''pr_review.md''),
       (''code_suggestions_md'', ''Code Suggestions'', file ''code_suggestions.md''),
       (''code_suggestions_json'', ''Code Suggestions JSON'', file ''code_suggestions.json''),
       (''release_simulation'', ''Release Simulation'', file ''release_simulation.json'')])"

definition add_document :: "path \<Rightarrow> pure_path \<Rightarrow> files \<Rightarrow> string \<times> string \<times> pure_path \<Rightarrow> document list \<Rightarrow> document list" where
  "add_document cwd run_dir fs = (\<lambda>(key, title, p) docs.
     let resolved = pure_join run_dir p; name = pure_str resolved;
         format = dropWhile (\<lambda>c. c = CHR ''.'') (pure_suffix resolved) in
     if read_pure cwd resolved fs = None \<or> name \<in> set (map do_path docs) then docs
     else docs @ [\<lparr>do_key = key, do_title = title, do_path = name,
                   do_format = (if format = [] then ''txt'' else format)\<rparr>])"

definition document_entries :: "(pv \<Rightarrow> string) \<Rightarrow> path \<Rightarrow> pure_path \<Rightarrow> files \<Rightarrow> dict \<Rightarrow> document list" where
  "document_entries rep cwd run_dir fs state = fold (add_document cwd run_dir fs) (document_candidates rep run_dir state) []"

section \<open>The report\<close>

record comparison =
  cp_previous :: "string option"
  cp_new :: "blocker list"
  cp_resolved :: "blocker list"
  cp_persistent :: "blocker list"

record run_report =
  rr_dir :: string
  rr_state :: dict
  rr_run_id :: string
  rr_assurance :: string
  rr_evidence_state :: string
  rr_evidence_source :: string
  rr_evidence_reason :: string
  rr_evidence_history :: "dict list"
  rr_status :: pv
  rr_updated_at :: string
  rr_documents :: "document list"
  rr_roles :: "role_entry list"
  rr_severity_counts :: "(string \<times> nat) list"
  rr_blockers :: "blocker list"
  rr_low_confidence :: "blocker list"
  rr_unknowns :: "(string \<times> string list \<times> nat) list"
  rr_next_steps :: "(string \<times> string) list"
  rr_suggestions :: "suggestion list"
  rr_consensus :: consensus
  rr_feedback :: feedback_summary
  rr_comparison :: comparison

definition no_comparison :: comparison where
  "no_comparison = \<lparr>cp_previous = None, cp_new = [], cp_resolved = [], cp_persistent = []\<rparr>"

text \<open>What the report reads besides the files: texts of containers, the working directory, and the
  modification times, through the date of a state file and the most recent other run.\<close>

record report_env =
  rv_rep :: "pv \<Rightarrow> string"
  rv_cwd :: path
  rv_updated :: "string \<Rightarrow> string"
  rv_previous :: "files \<Rightarrow> string \<Rightarrow> string option"

definition evidence_history :: "string \<Rightarrow> string \<Rightarrow> string \<Rightarrow> string \<Rightarrow> dict list \<Rightarrow> dict list" where
  "evidence_history state source reason updated history =
     (if history \<noteq> [] then history
      else [[(''state'', PStr state), (''source'', PStr source), (''reason'', PStr reason), (''updated_at'', PStr updated)]])"

text \<open>\<open>collect_run_report\<close> up to the comparison.\<close>

definition report_of_state :: "report_env \<Rightarrow> files \<Rightarrow> string \<Rightarrow> dict \<Rightarrow> role_entry list \<Rightarrow> string option \<Rightarrow> dict list \<Rightarrow> run_report" where
  "report_of_state v fs dir state es manual history =
     (let rep = rv_rep v; run_dir = pure_path dir; blockers = blockers_of rep es;
          assurance = (let a = clean_text rep (dget state ''assurance_level'') in if a = [] then ''standard'' else a);
          (derived, reason) = derive_evidence_state (py_str rep (py_or (dget state ''status'') (PStr ''unknown'')))
             (length blockers) assurance;
          evidence = (case manual of Some s \<Rightarrow> s | None \<Rightarrow> derived);
          source = (if manual = None then ''derived'' else ''manual'') in
      \<lparr>rr_dir = pure_str run_dir, rr_state = state, rr_run_id = clean_text rep (dget state ''run_id''), rr_assurance = assurance,
       rr_evidence_state = evidence, rr_evidence_source = source, rr_evidence_reason = reason,
       rr_evidence_history = evidence_history evidence source reason (rv_updated v dir) history,
       rr_status = dget_default state ''status'' (PStr ''unknown''), rr_updated_at = rv_updated v dir,
       rr_documents = document_entries rep (rv_cwd v) run_dir fs state, rr_roles = es,
       rr_severity_counts = severity_counts rep es, rr_blockers = blockers,
       rr_low_confidence = filter (\<lambda>b. bl_confidence b = ''LOW'') blockers, rr_unknowns = recurring_unknowns es,
       rr_next_steps = concat (map (\<lambda>e. map (Pair (en_role e)) (en_next_steps e)) es),
       rr_suggestions = code_suggestions rep es, rr_consensus = consensus_summary rep es,
       rr_feedback = feedback_summary rep (rv_cwd v) fs dir, rr_comparison = no_comparison\<rparr>)"

definition collect_report :: "report_env \<Rightarrow> files \<Rightarrow> string \<Rightarrow> run_report res" where
  "collect_report v fs dir =
     (let rep = rv_rep v; run_dir = pure_path dir in
      bind_res (read_json (rv_cwd v) (pure_join run_dir (False, [''pipeline_state.json''])) fs) (\<lambda>state.
      bind_res (py_iter (dget_default state ''execution'' (PList []))) (\<lambda>items.
      bind_res (role_entries rep (rv_cwd v) run_dir fs items) (\<lambda>es.
      bind_res (coerce_evidence_state rep (dget state ''evidence_state'')) (\<lambda>manual.
      bind_res (normalize_evidence_history rep (dget state ''evidence_state_history'')) (\<lambda>history.
        Inr (report_of_state v fs dir state es manual history)))))))"

section \<open>Comparison with the previous run\<close>

definition blocker_key :: "blocker \<Rightarrow> string \<times> string" where
  "blocker_key b = (strip (bl_role b), finding_theme (strip (bl_title b)))"

text \<open>A dictionary comprehension keeps the last blocker of a key.\<close>

definition by_blocker_key :: "blocker list \<Rightarrow> (string \<times> string) \<rightharpoonup> blocker" where
  "by_blocker_key bs = map_of (rev (map (\<lambda>b. (blocker_key b, b)) bs))"

definition pick_blockers :: "blocker list \<Rightarrow> (string \<times> string \<Rightarrow> bool) \<Rightarrow> blocker list" where
  "pick_blockers bs keep =
     List.map_filter (by_blocker_key bs) (filter keep (sorted_set (map blocker_key bs)))"

definition compare_blockers :: "string \<Rightarrow> blocker list \<Rightarrow> blocker list \<Rightarrow> comparison" where
  "compare_blockers previous old new =
     (let had = (\<lambda>k. k \<in> blocker_key ` set old); has = (\<lambda>k. k \<in> blocker_key ` set new) in
      \<lparr>cp_previous = Some previous, cp_new = pick_blockers new (\<lambda>k. \<not> had k),
       cp_resolved = pick_blockers old (\<lambda>k. \<not> has k), cp_persistent = pick_blockers new had\<rparr>)"

definition comparison_summary :: "report_env \<Rightarrow> files \<Rightarrow> string \<Rightarrow> blocker list \<Rightarrow> comparison res" where
  "comparison_summary v fs dir blockers =
     (case rv_previous v fs dir of
        None \<Rightarrow> Inr no_comparison
      | Some previous \<Rightarrow> bind_res (collect_report v fs previous) (\<lambda>r.
          Inr (compare_blockers previous (rr_blockers r) blockers)))"

definition collect_run_report :: "report_env \<Rightarrow> files \<Rightarrow> string \<Rightarrow> run_report res" where
  "collect_run_report v fs dir =
     bind_res (collect_report v fs dir) (\<lambda>r.
     bind_res (comparison_summary v fs (rr_dir r) (rr_blockers r)) (\<lambda>c. Inr (r\<lparr>rr_comparison := c\<rparr>)))"

section \<open>Release simulation\<close>

record release_simulation =
  rs_enabled :: bool
  rs_status :: pv
  rs_evidence_state :: string
  rs_ready :: bool
  rs_stages :: "(string \<times> string list) list"
  rs_rollback :: "string list"
  rs_observability :: "string list"
  rs_sign_off :: "string list"
  rs_blocker_count :: nat
  rs_summary :: string

definition role_named :: "role_entry list \<Rightarrow> string \<Rightarrow> role_entry option" where
  "role_named es = map_of (rev (map (\<lambda>e. (en_role e, e)) es))"

definition steps_for :: "role_entry list \<Rightarrow> string list \<Rightarrow> string list" where
  "steps_for es roles =
     concat (map (\<lambda>role. case role_named es role of
        None \<Rightarrow> [] | Some e \<Rightarrow> map strip (filter (\<lambda>s. strip s \<noteq> []) (en_next_steps e))) roles)"

definition release_ready :: "run_report \<Rightarrow> bool" where
  "release_ready r \<longleftrightarrow> rr_blockers r = [] \<and> rr_status r = PStr ''completed'' \<and>
     lower (strip (rr_assurance r)) \<noteq> ''degraded'' \<and> rr_evidence_state r \<in> {''ready'', ''approved'', ''released''}"

definition release_summary :: "run_report \<Rightarrow> string" where
  "release_summary r =
     (if rr_status r \<noteq> PStr ''completed'' then ''Hold release: the run is not completed.''
      else if rr_blockers r \<noteq> [] then ''Hold release: blockers and rollout checks are still open.''
      else if lower (strip (rr_assurance r)) = ''degraded''
        then ''Hold release: degraded assurance runs are not sufficient release evidence.''
      else if rr_evidence_state r = ''blocked'' then ''Hold release: evidence state is blocked.''
      else if rr_evidence_state r = ''approved'' then ''Approved for release.''
      else if rr_evidence_state r = ''released'' then ''Release marked as completed.''
      else if rr_evidence_state r = ''draft'' then ''Draft evidence: approvals or final review are still pending.''
      else if release_ready r then ''Release-ready''
      else ''Hold release until blockers and rollout checks are resolved.'')"

definition build_release_simulation :: "run_report \<Rightarrow> release_simulation" where
  "build_release_simulation r =
     (let es = rr_roles r; steps = steps_for es; named = (\<lambda>role. role_named es role \<noteq> None);
          release_steps = steps [''release_manager'', ''devops_sre''] in
      \<lparr>rs_enabled = list_ex named [''devops_sre'', ''release_manager'', ''documentation_writer'', ''test_generator'', ''security_auditor''],
       rs_status = rr_status r, rs_evidence_state = rr_evidence_state r, rs_ready = release_ready r,
       rs_stages = [(''preflight'', steps [''architect'', ''security_auditor'', ''test_generator'']), (''rollout'', release_steps),
         (''verification'', steps [''performance_analyst'', ''test_generator'', ''release_manager''])],
       rs_rollback = map (\<lambda>b. bl_role b @ '': '' @ bl_title b) (rr_blockers r) @
         filter (\<lambda>s. str_contains ''rollback'' (lower s)) release_steps,
       rs_observability = filter (\<lambda>s. list_ex (\<lambda>t. str_contains t (lower s))
            [''metric'', ''observe'', ''telemetry'', ''monitor'', ''alert'', ''latency''])
          (steps [''devops_sre'', ''performance_analyst'']),
       rs_sign_off = filter named [''release_manager'', ''devops_sre'', ''security_auditor''],
       rs_blocker_count = length (rr_blockers r), rs_summary = release_summary r\<rparr>)"

definition dump_release :: "release_simulation \<Rightarrow> pv" where
  "dump_release s =
     (let strs = (\<lambda>xs. PList (map PStr xs)) in PDict
        [(''enabled'', PBool (rs_enabled s)), (''status'', rs_status s), (''evidence_state'', PStr (rs_evidence_state s)),
         (''ready_for_release'', PBool (rs_ready s)),
         (''rollout_stages'', PList (map (\<lambda>(stage, tasks). PDict [(''stage'', PStr stage), (''tasks'', strs tasks)]) (rs_stages s))),
         (''rollback_criteria'', strs (rs_rollback s)), (''observability_checks'', strs (rs_observability s)),
         (''required_sign_off_roles'', strs (rs_sign_off s)), (''blocker_count'', PInt (int (rs_blocker_count s))),
         (''summary'', PStr (rs_summary s))])"

section \<open>Actions and status text\<close>

record action =
  ac_kind :: string
  ac_role :: string
  ac_text :: string
  ac_command :: string

definition suggested_actions :: "run_report \<Rightarrow> action list" where
  "suggested_actions r =
     (case rr_blockers r of [] \<Rightarrow> []
      | b # bs \<Rightarrow> (let role = strip (bl_role b) in if role = [] then []
          else [\<lparr>ac_kind = ''rerun'', ac_role = role,
                 ac_text = ''Rerun from '' @ role @ '' after addressing the highest-severity blocker.'',
                 ac_command = ''ese rerun '' @ role @ '' --artifacts-dir '' @ rr_dir r\<rparr>])) @
     (if cp_new (rr_comparison r) \<noteq> []
      then [\<lparr>ac_kind = ''comparison'', ac_role = ''comparison'',
             ac_text = ''Review blockers that are new relative to the previous run before merging.'',
             ac_command = ''ese report --artifacts-dir '' @ rr_dir r\<rparr>] else []) @
     (case rr_next_steps r of [] \<Rightarrow> []
      | (role, text) # steps \<Rightarrow>
          [\<lparr>ac_kind = ''next-step'', ac_role = (if role = [] then ''run'' else role), ac_text = strip text,
            ac_command = ''ese status --artifacts-dir '' @ rr_dir r\<rparr>]) @
     (if rr_suggestions r \<noteq> []
      then [\<lparr>ac_kind = ''code-suggestions'', ac_role = ''code_suggestions'',
             ac_text = ''Review the synthesized code suggestions before implementing the next round of edits.'',
             ac_command = ''ese suggestions --artifacts-dir '' @ rr_dir r\<rparr>] else [])"

definition assurance_note :: "run_report \<Rightarrow> string" where
  "assurance_note r =
     (if rr_assurance r = ''degraded''
      then ''Degraded assurance: solo or reduced-independence evidence should not be treated as equivalent to a full ensemble run.''
      else ''Standard assurance: ensemble independence checks passed for this run configuration.'')"

definition finding_count :: "run_report \<Rightarrow> nat" where
  "finding_count r = sum_list (map snd (rr_severity_counts r))"

definition short_run_id :: "string \<Rightarrow> string" where
  "short_run_id s = (if length (strip s) \<le> 12 then strip s else take 12 (strip s))"

definition render_status_text :: "(pv \<Rightarrow> string) \<Rightarrow> run_report \<Rightarrow> string" where
  "render_status_text rep r =
     (let run_id = short_run_id (rr_run_id r);
          scope = clean_text rep (dget_default (rr_state r) ''scope'' (PStr []));
          severities = join '', '' (map (\<lambda>(s, n). lower s @ ''='' @ nat_str n) (rr_severity_counts r)) in
      join [newline]
        ([''Status: '' @ py_str rep (rr_status r)] @
         (if run_id \<noteq> [] then [''Run ID: '' @ run_id] else []) @
         (if scope \<noteq> [] then [''Scope: '' @ scope] else []) @
         [''Assurance: '' @ rr_assurance r, ''Evidence State: '' @ rr_evidence_state r,
          ''Provider: '' @ py_str rep (dget_default (rr_state r) ''provider'' (PStr [])) @
            '' ('' @ py_str rep (dget_default (rr_state r) ''adapter'' (PStr [])) @ '')'',
          ''Executed roles: '' @ nat_str (length (rr_roles r)),
          ''Findings: '' @ nat_str (finding_count r) @ '' ('' @ severities @ '')'',
          ''Blockers: '' @ nat_str (length (rr_blockers r)), ''Assurance note: '' @ assurance_note r] @
         (case rr_blockers r of [] \<Rightarrow> [] | b # bs \<Rightarrow> [''Top blocker: '' @ bl_role b @ '': '' @ bl_title b]) @
         (case suggested_actions r of [] \<Rightarrow> [] | a # as \<Rightarrow> [''Next action: '' @ ac_text a]) @
         (case cp_previous (rr_comparison r) of None \<Rightarrow> []
          | Some p \<Rightarrow> if p = [] then []
              else [''Run delta: +'' @ nat_str (length (cp_new (rr_comparison r))) @ '' new blockers, -'' @
                 nat_str (length (cp_resolved (rr_comparison r))) @ '' resolved blockers''])))"

text \<open>\<open>load_artifact_view\<close> of a role or a document: its path, contents up to a limit, and whether it was cut.\<close>

definition load_artifact_view ::
    "report_env \<Rightarrow> files \<Rightarrow> string \<Rightarrow> string option \<Rightarrow> string option \<Rightarrow> nat \<Rightarrow> (string \<times> string \<times> bool) res" where
  "load_artifact_view v fs dir role doc limit =
     (let given = (\<lambda>x. case x of None \<Rightarrow> False | Some s \<Rightarrow> s \<noteq> []);
          view = (\<lambda>p. case read_pure (rv_cwd v) (pure_path p) fs of
              None \<Rightarrow> Inl (FileNotFoundError p)
            | Some contents \<Rightarrow> Inr (p, take limit contents, length contents > limit)) in
      if given role = given doc then Inl (RunReportError ''Select exactly one artifact target: role or document.'')
      else bind_res (collect_run_report v fs dir) (\<lambda>r.
        if given role
        then (case find (\<lambda>e. Some (en_role e) = role) (rr_roles r) of
            None \<Rightarrow> Inl (RunReportError ''No artifact found for role'') | Some e \<Rightarrow> view (en_artifact e))
        else (case find (\<lambda>d. Some (do_key d) = doc) (rr_documents r) of
            None \<Rightarrow> Inl (RunReportError ''No document found for key'') | Some d \<Rightarrow> view (do_path d))))"

section \<open>Roles of a report\<close>

lemma role_entries_in:
  assumes "role_entries rep cwd run_dir fs vs = Inr es" and "PDict item \<in> set vs"
  shows "\<exists>oe. role_entry_of rep cwd run_dir fs item = Inr oe \<and> (case oe of None \<Rightarrow> True | Some e \<Rightarrow> e \<in> set es)"
  using assms
proof (induction rep cwd run_dir fs vs arbitrary: es rule: role_entries.induct)
  case (2 rep cwd run_dir fs item' vs)
  then obtain oe es' where e: "role_entry_of rep cwd run_dir fs item' = Inr oe" "role_entries rep cwd run_dir fs vs = Inr es'"
      "es = (case oe of None \<Rightarrow> es' | Some e \<Rightarrow> e # es')"
    by (auto simp: bind_res_eq_Inr)
  show ?case
  proof (cases "item = item'")
    case True
    then show ?thesis using e by (auto split: option.splits)
  next
    case False
    with 2(3) have "PDict item \<in> set vs" by simp
    from 2(1) [OF e(2) this] e(3) show ?thesis by (auto split: option.splits)
  qed
qed auto

lemma role_entry_structured:
  assumes "role_entry_of rep cwd run_dir fs item = Inr oe"
    and "clean_text rep (dget item ''role'') \<noteq> []" and "clean_text rep (dget item ''artifact'') \<noteq> []"
    and "load_role_report cwd (pure_join run_dir (pure_path (clean_text rep (dget item ''artifact'')))) fs = Inr (Some report)"
  shows "\<exists>e. oe = Some e \<and> en_findings e = elems_of (dget report ''findings'')"
  using assms by (auto simp: role_entry_of_def Let_def bind_res_eq_Inr structured_entry_def)

lemma entry_blockers_Nil:
  "entry_blockers rep e = [] \<longleftrightarrow> (\<forall>f \<in> set (entry_findings e). finding_severity rep f \<notin> {''HIGH'', ''CRITICAL''})"
  by (simp add: entry_blockers_def filter_empty_conv)

lemma collect_report_Inr:
  assumes "collect_report v fs dir = Inr r"
  obtains state items es manual history where
    "read_json (rv_cwd v) (pure_join (pure_path dir) (False, [''pipeline_state.json''])) fs = Inr state"
    "py_iter (dget_default state ''execution'' (PList [])) = Inr items"
    "role_entries (rv_rep v) (rv_cwd v) (pure_path dir) fs items = Inr es"
    "coerce_evidence_state (rv_rep v) (dget state ''evidence_state'') = Inr manual"
    "normalize_evidence_history (rv_rep v) (dget state ''evidence_state_history'') = Inr history"
    "r = report_of_state v fs dir state es manual history"
  using assms by (auto simp: collect_report_def Let_def bind_res_eq_Inr)

lemma report_of_state_simps:
  "rr_status (report_of_state v fs dir state es manual history) = dget_default state ''status'' (PStr ''unknown'')"
  "rr_blockers (report_of_state v fs dir state es manual history) = blockers_of (rv_rep v) es"
  "rr_roles (report_of_state v fs dir state es manual history) = es"
  by (simp_all add: report_of_state_def Let_def split: prod.splits)

lemma collect_run_report_Inr:
  "collect_run_report v fs dir = Inr r \<Longrightarrow> \<exists>r0 c. collect_report v fs dir = Inr r0 \<and> r = r0\<lparr>rr_comparison := c\<rparr>"
  by (auto simp: collect_run_report_def bind_res_eq_Inr)

text \<open>C11: Nothing is released over an open blocker: when the simulation of a collected report is ready, the state file
  records a completed run, no JSON artifact of a role it executed has a finding of high or critical severity,
  the assurance is not degraded, and the evidence state, derived or set by hand, is a releasable one.\<close>

theorem release_needs_clean_run:
  assumes "collect_run_report v fs dir = Inr r" and "rs_ready (build_release_simulation r)"
  shows "\<exists>state.
    read_json (rv_cwd v) (pure_join (pure_path dir) (False, [''pipeline_state.json''])) fs = Inr state \<and>
    dget_default state ''status'' (PStr ''unknown'') = PStr ''completed'' \<and>
    (\<forall>item report. PDict item \<in> set (elems_of (dget_default state ''execution'' (PList []))) \<longrightarrow>
       clean_text (rv_rep v) (dget item ''role'') \<noteq> [] \<longrightarrow> clean_text (rv_rep v) (dget item ''artifact'') \<noteq> [] \<longrightarrow>
       load_role_report (rv_cwd v)
         (pure_join (pure_path dir) (pure_path (clean_text (rv_rep v) (dget item ''artifact'')))) fs = Inr (Some report) \<longrightarrow>
       (\<forall>f. PDict f \<in> set (elems_of (dget report ''findings'')) \<longrightarrow> finding_severity (rv_rep v) f \<notin> {''HIGH'', ''CRITICAL''})) \<and>
    lower (strip (rr_assurance r)) \<noteq> ''degraded'' \<and> rr_evidence_state r \<in> {''ready'', ''approved'', ''released''}"
proof -
  obtain r0 c where r0: "collect_report v fs dir = Inr r0" and r: "r = r0\<lparr>rr_comparison := c\<rparr>"
    using collect_run_report_Inr [OF assms(1)] by blast
  from r0 obtain state items es manual history where
    s: "read_json (rv_cwd v) (pure_join (pure_path dir) (False, [''pipeline_state.json''])) fs = Inr state"
      "py_iter (dget_default state ''execution'' (PList [])) = Inr items"
      "role_entries (rv_rep v) (rv_cwd v) (pure_path dir) fs items = Inr es"
    and rs: "r0 = report_of_state v fs dir state es manual history"
    by (rule collect_report_Inr)
  have ready: "release_ready r" using assms(2) by (simp add: build_release_simulation_def Let_def)
  then have st: "dget_default state ''status'' (PStr ''unknown'') = PStr ''completed''"
    and nb: "blockers_of (rv_rep v) es = []"
    by (simp_all add: release_ready_def r rs report_of_state_simps)
  have "finding_severity (rv_rep v) f \<notin> {''HIGH'', ''CRITICAL''}"
    if i: "PDict item \<in> set (elems_of (dget_default state ''execution'' (PList [])))"
      and n: "clean_text (rv_rep v) (dget item ''role'') \<noteq> []" "clean_text (rv_rep v) (dget item ''artifact'') \<noteq> []"
      and l: "load_role_report (rv_cwd v)
         (pure_join (pure_path dir) (pure_path (clean_text (rv_rep v) (dget item ''artifact'')))) fs = Inr (Some report)"
      and f: "PDict f \<in> set (elems_of (dget report ''findings''))" for item report f
  proof -
    have "PDict item \<in> set items"
      using i s(2) by (cases "dget_default state ''execution'' (PList [])") auto
    from role_entries_in [OF s(3) this] role_entry_structured [OF _ n l]
    obtain e where e: "e \<in> set es" "en_findings e = elems_of (dget report ''findings'')" by fastforce
    have "f \<in> set (entry_findings e)"
      using f by (force simp: entry_findings_def dicts_of_def e(2) image_iff)
    moreover have "entry_blockers (rv_rep v) e = []" using nb e(1) by (simp add: blockers_of_def)
    ultimately show ?thesis by (simp add: entry_blockers_Nil)
  qed
  with s(1) st ready show ?thesis by (auto simp: release_ready_def)
qed

definition sample_env :: report_env where
  "sample_env = \<lparr>rv_rep = (\<lambda>_. []), rv_cwd = [], rv_updated = (\<lambda>_. ''t''), rv_previous = (\<lambda>_ _. None)\<rparr>"

definition sample_run :: files where
  "sample_run = map_of
     [([''r'', ''pipeline_state.json''], json_compact (\<lambda>_. []) (PDict [(''status'', PStr ''completed''),
        (''execution'', PList [PDict [(''role'', PStr ''release_manager''), (''artifact'', PStr ''a.json'')]])])),
      ([''r'', ''a.json''], json_compact (\<lambda>_. []) (PDict [(''findings'', PList [PDict [(''severity'', PStr ''low'')]])]))]"

lemma sample_run_ready:
  "case collect_run_report sample_env sample_run ''/r'' of Inl _ \<Rightarrow> False | Inr r \<Rightarrow> rs_ready (build_release_simulation r)"
  by code_simp

theorem release_needs_clean_run_witness:
  "\<exists>state. read_json [] (pure_join (pure_path ''/r'') (False, [''pipeline_state.json''])) sample_run = Inr state \<and>
     dget_default state ''status'' (PStr ''unknown'') = PStr ''completed''"
proof -
  obtain r where "collect_run_report sample_env sample_run ''/r'' = Inr r" "rs_ready (build_release_simulation r)"
    using sample_run_ready by (auto split: sum.splits)
  from release_needs_clean_run [OF this] show ?thesis by (auto simp: sample_env_def)
qed

lemma group_raised_snoc: "group_raised (rs @ [r]) =
    dset (finding_theme (ra_title r)) ((case map_of (group_raised rs) (finding_theme (ra_title r)) of Some xs \<Rightarrow> xs | None \<Rightarrow> []) @ [r])
      (group_raised rs)"
  by (simp add: group_raised_def Let_def)

lemma group_raised_lookup:
  "map_of (group_raised rs) theme = (let xs = filter (\<lambda>r. finding_theme (ra_title r) = theme) rs in if xs = [] then None else Some xs)"
proof (induction rs rule: rev_induct)
  case Nil
  then show ?case by (simp add: group_raised_def)
next
  case (snoc r rs)
  then show ?case by (auto simp: group_raised_snoc Let_def filter_empty_conv)
qed

lemma rank_severe: "severity_rank s \<le> 1 \<longleftrightarrow> s \<in> {''CRITICAL'', ''HIGH''}"
proof -
  have "severity_rank ''CRITICAL'' = 0" "severity_rank ''HIGH'' = 1"
    by (simp_all add: severity_rank_def severity_order_def)
  moreover have "severity_rank s \<ge> 2" if "s \<noteq> ''CRITICAL''" "s \<noteq> ''HIGH''"
    using that by (simp add: severity_rank_def severity_order_def)
  ultimately show ?thesis by force
qed

lemma highest_severe:
  assumes "r \<in> set rs" and "ra_severity r \<in> {''HIGH'', ''CRITICAL''}"
  shows "tp_highest (topic_of (theme, rs)) \<in> {''HIGH'', ''CRITICAL''}"
proof -
  define ss where "ss = sort_key severity_rank (sorted_set (map ra_severity rs))"
  have "ra_severity r \<in> set ss" using assms(1) by (simp add: ss_def)
  then obtain s ss' where ss: "ss = s # ss'" by (cases ss) auto
  have "sorted (map severity_rank ss)" by (simp add: ss_def)
  then have "severity_rank s \<le> severity_rank (ra_severity r)"
    using \<open>ra_severity r \<in> set ss\<close> by (auto simp: ss)
  moreover have "severity_rank (ra_severity r) \<le> 1" using assms(2) unfolding rank_severe by blast
  ultimately have "severity_rank s \<le> 1" by (rule le_trans)
  then have "s \<in> {''HIGH'', ''CRITICAL''}" unfolding rank_severe by blast
  moreover have "tp_highest (topic_of (theme, rs)) = s" using ss by (simp add: topic_of_def Let_def ss_def)
  ultimately show ?thesis by simp
qed

text \<open>C22: Consensus hides no severe finding: whatever a named role raises with high or critical severity under a
  non-blank title is, under the theme of the title, among the agreements or among the solo blockers.\<close>

theorem consensus_keeps_severe_findings:
  assumes "e \<in> set es" and "f \<in> set (entry_findings e)"
    and "strip (en_role e) \<noteq> []" and "clean_text rep (dget f ''title'') \<noteq> []"
    and "strip (finding_severity rep f) \<in> {''HIGH'', ''CRITICAL''}"
  shows "\<exists>t \<in> set (co_agreements (consensus_summary rep es)) \<union> set (co_solo_blockers (consensus_summary rep es)).
    tp_theme t = finding_theme (clean_text rep (dget f ''title'')) \<and> tp_highest t \<in> {''HIGH'', ''CRITICAL''} \<and>
    strip (en_role e) \<in> set (tp_roles t)"
proof -
  let ?rs = "concat (map (raised_of rep) es)"
  let ?theme = "finding_theme (clean_text rep (dget f ''title''))"
  define r where "r = \<lparr>ra_role = strip (en_role e), ra_severity = strip (finding_severity rep f),
    ra_title = clean_text rep (dget f ''title''), ra_details = clean_text rep (dget f ''details'')\<rparr>"
  have r: "r \<in> set ?rs" using assms by (auto simp: raised_of_def r_def)
  define xs where "xs = filter (\<lambda>r. finding_theme (ra_title r) = ?theme) ?rs"
  have rx: "r \<in> set xs" using r by (simp add: xs_def r_def)
  then have "map_of (group_raised ?rs) ?theme = Some xs"
    by (auto simp: group_raised_lookup Let_def xs_def filter_empty_conv)
  then have g: "(?theme, xs) \<in> set (group_raised ?rs)" by (rule map_of_SomeD)
  let ?t = "topic_of (?theme, xs)"
  have t: "tp_theme ?t = ?theme" "tp_roles ?t = sorted_set (map ra_role xs)" "tp_highest ?t \<in> {''HIGH'', ''CRITICAL''}"
    using highest_severe [OF rx] assms(5) by (simp_all add: topic_of_def Let_def r_def)
  have role: "strip (en_role e) \<in> set (tp_roles ?t)" using rx by (force simp: t(2) r_def)
  have mem: "?t \<in> topic_of ` set (group_raised ?rs)" using g by blast
  show ?thesis
  proof (cases "length (tp_roles ?t) \<ge> 2")
    case True
    then have "?t \<in> set (co_agreements (consensus_summary rep es))"
      using mem by (simp add: consensus_summary_def Let_def)
    then show ?thesis using t role by blast
  next
    case False
    let ?t' = "?t\<lparr>tp_note := ''Only one role flagged this as a blocker.''\<rparr>"
    have "?t' \<in> set (co_solo_blockers (consensus_summary rep es))"
      using False t(3) mem by (simp add: consensus_summary_def Let_def)
    moreover have "tp_theme ?t' = ?theme" "tp_highest ?t' \<in> {''HIGH'', ''CRITICAL''}" "strip (en_role e) \<in> set (tp_roles ?t')"
      using t role by simp_all
    ultimately show ?thesis by blast
  qed
qed

definition sample_entry :: role_entry where
  "sample_entry = (plain_entry ''security_auditor'' ''m'' (True, [''a.json'']))
     \<lparr>en_findings := [PDict [(''severity'', PStr ''high''), (''title'', PStr ''Leak'')]]\<rparr>"

theorem consensus_keeps_severe_findings_witness:
  "\<exists>t \<in> set (co_agreements (consensus_summary (\<lambda>_. []) [sample_entry])) \<union>
      set (co_solo_blockers (consensus_summary (\<lambda>_. []) [sample_entry])).
    ''security_auditor'' \<in> set (tp_roles t)"
proof -
  let ?f = "[(''severity'', PStr ''high''), (''title'', PStr ''Leak'')]"
  have h: "?f \<in> set (entry_findings sample_entry)"
    by (simp add: sample_entry_def plain_entry_def entry_findings_def dicts_of_def)
  have "strip (en_role sample_entry) = ''security_auditor''" "clean_text (\<lambda>_. []) (dget ?f ''title'') = ''Leak''"
      "strip (finding_severity (\<lambda>_. []) ?f) = ''HIGH''"
    by code_simp+
  with consensus_keeps_severe_findings [OF _ h, of "[sample_entry]" "\<lambda>_. []"] show ?thesis by fastforce
qed

section \<open>Setting the evidence state\<close>

lemma evidence_states_clean: "list_all (\<lambda>s. s \<noteq> [] \<and> lower (strip s) = s) evidence_states"
  by code_simp

lemma coerce_state: "s \<in> set evidence_states \<Longrightarrow> coerce_evidence_state rep (PStr s) = Inr (Some s)"
  using evidence_states_clean
  by (auto simp: coerce_evidence_state_def normalize_evidence_state_def clean_text_def py_or_def list_all_iff)

lemma normalize_evidence_Inr: "normalize_evidence_state rep v = Inr s \<Longrightarrow> s \<in> set evidence_states"
  by (auto simp: normalize_evidence_state_def Let_def split: if_splits)

lemma coerce_evidence_Inr: "coerce_evidence_state rep v = Inr (Some s) \<Longrightarrow> s \<in> set evidence_states"
  by (auto simp: coerce_evidence_state_def Let_def bind_res_eq_Inr normalize_evidence_Inr split: if_splits)

lemma map_of_picked:
  "map_of (List.map_filter (\<lambda>k. map_option (Pair k) (f k)) ks) k = (if k \<in> set ks then f k else None)"
  by (induction ks) (auto simp: map_filter_simps split: option.splits)

definition history_value :: "dict \<Rightarrow> string \<Rightarrow> pv option" where
  "history_value entry key = (case dget entry key of
     PStr s \<Rightarrow> if strip s \<noteq> [] then Some (PStr (strip s)) else None | _ \<Rightarrow> None)"

lemma history_item_alt:
  "history_item state entry = (''state'', PStr state) # List.map_filter (\<lambda>k. map_option (Pair k) (history_value entry k)) history_keys"
proof -
  have "(case dget entry key of PStr s \<Rightarrow> if strip s \<noteq> [] then Some (key, PStr (strip s)) else None | _ \<Rightarrow> None) =
      map_option (Pair key) (history_value entry key)" for key
    by (simp add: history_value_def split: pv.splits)
  then show ?thesis by (simp add: history_item_def)
qed

lemma history_item_idem: "history_item s (history_item s entry) = history_item s entry"
proof -
  have "history_value (history_item s entry) key = history_value entry key" if "key \<in> set history_keys" for key
  proof -
    have "key \<noteq> ''state''" using that by (auto simp: history_keys_def)
    then have "dget (history_item s entry) key = (case history_value entry key of Some v \<Rightarrow> v | None \<Rightarrow> PNone)"
      using that by (simp add: history_item_alt dget_def map_of_picked)
    then show ?thesis by (auto simp: history_value_def split: option.splits pv.splits if_splits)
  qed
  then have "List.map_filter (\<lambda>k. map_option (Pair k) (history_value (history_item s entry) k)) history_keys =
      List.map_filter (\<lambda>k. map_option (Pair k) (history_value entry k)) history_keys"
    unfolding List.map_filter_def by (auto intro!: map_cong filter_cong)
  then show ?thesis by (simp add: history_item_alt [of s "history_item s entry"]) (simp add: history_item_alt)
qed

lemma history_item_state: "dget (history_item s entry) ''state'' = PStr s"
  by (simp add: history_item_def dget_def)

lemma history_items_again: "history_items rep vs = Inr h \<Longrightarrow> history_items rep (map PDict h @ ws) = bind_res (history_items rep ws) (\<lambda>h'. Inr (h @ h'))"
proof (induction rep vs arbitrary: h rule: history_items.induct)
  case (1 rep)
  then show ?case by (simp add: bind_res_def split: sum.splits)
next
  case (2 rep entry vs)
  then obtain state h' where c: "coerce_evidence_state rep (dget entry ''state'') = Inr state" "history_items rep vs = Inr h'"
      "h = (case state of None \<Rightarrow> h' | Some s \<Rightarrow> history_item s entry # h')"
    by (auto simp: bind_res_eq_Inr)
  note ih = 2(1) [OF c(2)]
  show ?case
  proof (cases state)
    case None
    then show ?thesis using ih c(3) by simp
  next
    case (Some s)
    then have "coerce_evidence_state rep (PStr s) = Inr (Some s)" using c(1) coerce_evidence_Inr coerce_state by blast
    then show ?thesis
      using ih c(3) Some by (simp add: history_item_state history_item_idem) (simp add: bind_res_def split: sum.splits)
  qed
qed simp_all

lemma normalize_history_again:
  "normalize_evidence_history rep v = Inr h \<Longrightarrow> history_items rep (map PDict h @ ws) = bind_res (history_items rep ws) (\<lambda>h'. Inr (h @ h'))"
proof -
  assume "normalize_evidence_history rep v = Inr h"
  then obtain vs where "history_items rep vs = Inr h"
    by (cases v) (auto simp: normalize_evidence_history_def intro: that [of "[]"])
  then show ?thesis by (rule history_items_again)
qed

lemma entry_state: "dget (evidence_entry now s u) ''state'' = PStr s"
  by (simp add: evidence_entry_def dget_def)

text \<open>Where the state file and the artifact of an executed item are.\<close>

lemma read_state_file: "read_pure cwd (pure_join (pure_path dir) (False, [''pipeline_state.json''])) fs =
    fs (resolve cwd dir @ [''pipeline_state.json''])"
proof -
  have "normalize_path (cs @ [''pipeline_state.json'']) = normalize_path cs @ [''pipeline_state.json'']" for cs
    using normalize_path_ok [of "[''pipeline_state.json'']"] by (simp add: component_ok_def)
  from this [of "cwd @ components dir"] this [of "components dir"] show ?thesis
    by (auto simp: read_pure_def pure_join_def pure_path_def resolve_def)
qed

definition artifact_file :: "(pv \<Rightarrow> string) \<Rightarrow> path \<Rightarrow> string \<Rightarrow> dict \<Rightarrow> path" where
  "artifact_file rep cwd dir item =
     (let p = pure_join (pure_path dir) (pure_path (clean_text rep (dget item ''artifact'')))
      in normalize_path (if fst p then snd p else cwd @ snd p))"

lemma role_entries_cong:
  assumes "\<forall>item. PDict item \<in> set vs \<longrightarrow> fs (artifact_file rep cwd dir item) = fs' (artifact_file rep cwd dir item)"
  shows "role_entries rep cwd (pure_path dir) fs vs = role_entries rep cwd (pure_path dir) fs' vs"
proof -
  have one: "role_entry_of rep cwd (pure_path dir) fs item = role_entry_of rep cwd (pure_path dir) fs' item"
    if "fs (artifact_file rep cwd dir item) = fs' (artifact_file rep cwd dir item)" for item
  proof -
    let ?p = "pure_join (pure_path dir) (pure_path (clean_text rep (dget item ''artifact'')))"
    have r: "read_pure cwd ?p fs = read_pure cwd ?p fs'"
      using that by (simp add: artifact_file_def read_pure_def Let_def)
    then have "load_role_report cwd ?p fs = load_role_report cwd ?p fs'" by (simp add: load_role_report_def read_json_def)
    with r show ?thesis by (simp add: role_entry_of_def Let_def)
  qed
  show ?thesis using assms
  proof (induction vs)
    case (Cons v vs)
    have "role_entries rep cwd (pure_path dir) fs vs = role_entries rep cwd (pure_path dir) fs' vs"
      using Cons by simp
    then show ?case using Cons.prems one by (cases v) simp_all
  qed simp
qed

text \<open>A state set by hand is the state that is reported: after an accepted update the run is still collected as before,
  with the same roles and blockers, its evidence state is the one set, marked as manual, and its history is the
  previous one with the entry of the update appended.\<close>

theorem evidence_update_is_reported:
  assumes "update_pipeline_evidence_state (rv_rep v) fr (rv_cwd v) now dir u fs = Inr (payload, fs')"
    and "json_ok (PDict payload)" and "collect_report v fs dir = Inr r"
    and "\<forall>state item. read_json (rv_cwd v) (pure_join (pure_path dir) (False, [''pipeline_state.json''])) fs = Inr state \<longrightarrow>
      PDict item \<in> set (elems_of (dget_default state ''execution'' (PList []))) \<longrightarrow>
      artifact_file (rv_rep v) (rv_cwd v) dir item \<noteq> resolve (rv_cwd v) dir @ [''pipeline_state.json'']"
  shows "\<exists>r' h. collect_report v fs' dir = Inr r' \<and> rr_roles r' = rr_roles r \<and> rr_blockers r' = rr_blockers r \<and>
    rr_evidence_state r' = lower (strip (eu_state u)) \<and> rr_evidence_source r' = ''manual'' \<and>
    normalize_evidence_history (rv_rep v) (dget (rr_state r) ''evidence_state_history'') = Inr h \<and>
    rr_evidence_history r' = h @ [history_item (lower (strip (eu_state u))) (evidence_entry now (lower (strip (eu_state u))) u)]"
proof -
  let ?rep = "rv_rep v" and ?cwd = "rv_cwd v" and ?path = "resolve (rv_cwd v) dir @ [''pipeline_state.json'']"
  let ?file = "pure_join (pure_path dir) (False, [''pipeline_state.json''])"
  from assms(3) obtain state items es manual history where
    s: "read_json ?cwd ?file fs = Inr state" "py_iter (dget_default state ''execution'' (PList [])) = Inr items"
      "role_entries ?rep ?cwd (pure_path dir) fs items = Inr es"
      "normalize_evidence_history ?rep (dget state ''evidence_state_history'') = Inr history"
      "r = report_of_state v fs dir state es manual history"
    by (rule collect_report_Inr)
  have path: "resolve ?cwd (path_join dir ''pipeline_state.json'') = ?path"
    by (rule resolve_path_join) (simp add: component_ok_def)
  obtain contents where c: "fs ?path = Some contents" "json_loads contents = Some (PDict state)"
    using s(1) by (auto simp: read_json_def read_state_file split: option.splits pv.splits)
  obtain new where n: "normalize_evidence_state ?rep (PStr (eu_state u)) = Inr new"
    and payload: "payload = dset ''evidence_state_history'' (PList (map PDict (history @ [evidence_entry now new u])))
        (dset ''evidence_state'' (PStr new) state)"
    and fs': "fs' = fs(?path \<mapsto> json_pretty fr (PDict payload) @ [newline])"
    using assms(1) c s(4)
    by (auto simp: update_pipeline_evidence_state_def Let_def bind_res_eq_Inr read_file_def write_file_def path)
  have new: "new = lower (strip (eu_state u))" "new \<in> set evidence_states"
    using n normalize_evidence_Inr [OF n]
    by (auto simp: normalize_evidence_state_def clean_text_def py_or_def Let_def strip_Nil split: if_splits)
  have rj: "read_json ?cwd ?file fs' = Inr payload"
    using json_loads_pretty [OF assms(2)] by (simp add: read_json_def read_state_file fs')
  have ex: "dget_default payload ''execution'' (PList []) = dget_default state ''execution'' (PList [])"
    by (simp add: payload dget_default_def)
  have "role_entries ?rep ?cwd (pure_path dir) fs' items = Inr es"
  proof (rule trans [OF role_entries_cong s(3)], intro allI impI)
    fix item assume "PDict item \<in> set items"
    then have "PDict item \<in> set (elems_of (dget_default state ''execution'' (PList [])))"
      using s(2) by (cases "dget_default state ''execution'' (PList [])") auto
    with assms(4) s(1) have "artifact_file ?rep ?cwd dir item \<noteq> ?path" by blast
    then show "fs' (artifact_file ?rep ?cwd dir item) = fs (artifact_file ?rep ?cwd dir item)"
      by (simp add: fs')
  qed
  moreover have "coerce_evidence_state ?rep (dget payload ''evidence_state'') = Inr (Some new)"
    using coerce_state new(2) by (simp add: payload)
  moreover have h: "normalize_evidence_history ?rep (dget payload ''evidence_state_history'') =
      Inr (history @ [history_item new (evidence_entry now new u)])"
    using normalize_history_again [OF s(4), of "[PDict (evidence_entry now new u)]"] coerce_state [OF new(2)]
    by (simp add: payload normalize_evidence_history_def entry_state)
  ultimately have "collect_report v fs' dir =
      Inr (report_of_state v fs' dir payload es (Some new) (history @ [history_item new (evidence_entry now new u)]))"
    by (simp add: collect_report_def Let_def rj ex s(2))
  then show ?thesis
    using s(4) by (auto simp: s(5) report_of_state_def Let_def evidence_history_def new(1) split: prod.splits)
qed

definition sample_update :: evidence_update where
  "sample_update = \<lparr>eu_state = '' Approved'', eu_previous = ''ready'', eu_actor = ''qa'', eu_note = [], eu_reason = [], eu_source = []\<rparr>"

lemma sample_update_facts:
  "case update_pipeline_evidence_state (\<lambda>_. []) (\<lambda>_. []) [] ''t'' ''/r'' sample_update sample_run of
     Inl _ \<Rightarrow> False | Inr (payload, fs') \<Rightarrow> json_ok (PDict payload)"
  "case read_json [] (pure_join (pure_path ''/r'') (False, [''pipeline_state.json''])) sample_run of Inl _ \<Rightarrow> False
     | Inr state \<Rightarrow> list_all (\<lambda>v. case v of PDict item \<Rightarrow> artifact_file (\<lambda>_. []) [] ''/r'' item \<noteq> [''r'', ''pipeline_state.json''] | _ \<Rightarrow> True)
         (elems_of (dget_default state ''execution'' (PList [])))"
  "resolve [] ''/r'' = [''r'']" "lower (strip '' Approved'') = ''approved''" "\<not> isl (collect_report sample_env sample_run ''/r'')"
  by code_simp+

theorem evidence_update_is_reported_witness:
  "\<exists>payload fs' r. update_pipeline_evidence_state (\<lambda>_. []) (\<lambda>_. []) [] ''t'' ''/r'' sample_update sample_run = Inr (payload, fs') \<and>
     collect_report sample_env fs' ''/r'' = Inr r \<and> rr_evidence_state r = ''approved''"
proof -
  note facts = sample_update_facts
  obtain payload fs' where u: "update_pipeline_evidence_state (\<lambda>_. []) (\<lambda>_. []) [] ''t'' ''/r'' sample_update sample_run = Inr (payload, fs')"
      "json_ok (PDict payload)"
    using facts(1) by (auto split: sum.splits)
  obtain r where r: "collect_report sample_env sample_run ''/r'' = Inr r"
    using facts(5) by (cases "collect_report sample_env sample_run ''/r''") auto
  have a: "artifact_file (rv_rep sample_env) (rv_cwd sample_env) ''/r'' item \<noteq> resolve (rv_cwd sample_env) ''/r'' @ [''pipeline_state.json'']"
    if "read_json (rv_cwd sample_env) (pure_join (pure_path ''/r'') (False, [''pipeline_state.json''])) sample_run = Inr state"
      "PDict item \<in> set (elems_of (dget_default state ''execution'' (PList [])))" for state item
    using facts(2) that by (fastforce simp: facts(3) sample_env_def list_all_iff)
  have "update_pipeline_evidence_state (rv_rep sample_env) (\<lambda>_. []) (rv_cwd sample_env) ''t'' ''/r'' sample_update sample_run = Inr (payload, fs')"
    using u(1) by (simp add: sample_env_def)
  from evidence_update_is_reported [OF this u(2) r] a
  obtain r' where "collect_report sample_env fs' ''/r'' = Inr r'" "rr_evidence_state r' = lower (strip (eu_state sample_update))" by blast
  moreover have "lower (strip (eu_state sample_update)) = ''approved''" using facts(4) by (simp add: sample_update_def)
  ultimately show ?thesis using u(1) by metis
qed

end
