(* ===== verification/Pipeline_Run.thy ===== *)
theory Pipeline_Run
  imports Pipeline_Setup Run_Summary
begin

text \<open>
  The run of the pipeline (\<open>ese/pipeline.py\<close>): one role, the application of its result, the summary and state
  files, the gate, the resumption of an earlier run, and the loop over the role order with its
  parallel batches. Adapters, the clock, the YAML printer and the run id are arguments;
  an adapter answers as a function of what it is given and touches no file. Texts of messages
  are abbreviated where they quote a value.
\<close>

section \<open>What a run is given\<close>

type_synonym adapter = "string \<Rightarrow> string \<Rightarrow> string \<Rightarrow> (string \<times> string) list \<Rightarrow> dict \<Rightarrow> pv res"

record pipeline_env =
  pe_reports :: report_env
  pe_float :: "rat \<Rightarrow> string"
  pe_builtin :: "string \<rightharpoonup> adapter"
  pe_import :: "string \<Rightarrow> string \<Rightarrow> adapter res"
  pe_started :: "string \<Rightarrow> rat"
  pe_completed :: "string \<Rightarrow> rat"
  pe_utc :: "rat \<Rightarrow> string"
  pe_yaml :: "dict \<Rightarrow> string"
  pe_run_id :: string

abbreviation pe_rep :: "pipeline_env \<Rightarrow> pv \<Rightarrow> string" where
  "pe_rep env \<equiv> rv_rep (pe_reports env)"

abbreviation pe_cwd :: "pipeline_env \<Rightarrow> path" where
  "pe_cwd env \<equiv> rv_cwd (pe_reports env)"

text \<open>\<open>str(err)\<close>.\<close>

fun message :: "err \<Rightarrow> string" where
  "message (RawContentRejected xs) = join '', '' xs"
| "message (ValueError m) = m" | "message (TypeError m) = m" | "message (KeyError m) = m"
| "message (AttributeError m) = m" | "message (ConfigurationError m) = m" | "message (OrchestratorError m) = m"
| "message (PipelineError m) = m" | "message (ConfigValidationError m) = m" | "message (SynthesisError m) = m"
| "message (EvidenceError m) = m" | "message (RoleError m) = m" | "message (RunReportError m) = m"
| "message (FileNotFoundError m) = m" | "message (AdapterError m) = m"

text \<open>\<open>_resolve_adapter\<close>: a built-in one by name, else a \<open>module:function\<close> reference whose import and
  health check are those of \<open>pe_import\<close>.\<close>

definition resolve_adapter :: "pipeline_env \<Rightarrow> dict \<Rightarrow> (string \<times> adapter) res" where
  "resolve_adapter env cfg =
     bind_res (py_get (py_or (dget cfg ''runtime'') (PDict [])) ''adapter'' PNone) (\<lambda>v.
       case py_or v (PStr ''dry-run'') of
         PStr s \<Rightarrow>
           (let reference = (if strip s = [] then ''dry-run'' else strip s) in
            case pe_builtin env reference of
              Some a \<Rightarrow> Inr (reference, a)
            | None \<Rightarrow>
                if CHR '':'' \<notin> set reference then Inl (PipelineError ''runtime.adapter must be a built-in or module:function'')
                else bind_res (pe_import env (fst (partition_colon reference)) (snd (partition_colon reference)))
                  (\<lambda>a. Inr (reference, a)))
       | _ \<Rightarrow> Inl (AttributeError ''strip''))"

definition invoke_adapter :: "adapter \<Rightarrow> string \<Rightarrow> string \<Rightarrow> string \<Rightarrow> (string \<times> string) list \<Rightarrow> dict \<Rightarrow> string res" where
  "invoke_adapter a role model prompt ctx cfg =
     (case a role model prompt ctx cfg of
        Inl e \<Rightarrow> Inl (PipelineError (''Adapter execution failed for role '' @ role @ '': '' @ message e))
      | Inr (PStr s) \<Rightarrow> Inr s
      | Inr _ \<Rightarrow> Inl (PipelineError (''Adapter output for role '' @ role @ '' must be a string'')))"

section \<open>One role\<close>

type_synonym task = "nat \<times> string"

record role_result =
  rt_index :: nat
  rt_role :: string
  rt_model :: string
  rt_path :: string
  rt_text :: string
  rt_report :: "dict option"
  rt_execution :: dict

text \<open>What all roles of a run share.\<close>

record run_frame =
  rf_cfg :: dict
  rf_dir :: string
  rf_adapter :: adapter
  rf_prompt :: prompt_frame

definition artifact_name :: "nat \<Rightarrow> string \<Rightarrow> string \<Rightarrow> string" where
  "artifact_name index role ext =
     (if index < 10 then ''0'' else []) @ nat_str index @ ''_'' @ role @ ''.'' @ ext"

definition execution_entry :: "pipeline_env \<Rightarrow> string \<Rightarrow> string \<Rightarrow> string \<Rightarrow> string \<Rightarrow> dict" where
  "execution_entry env role model path strategy =
     [(''role'', PStr role), (''model'', PStr model), (''artifact'', PStr path), (''strategy'', PStr strategy),
      (''started_at'', PStr (pe_utc env (pe_started env role))), (''completed_at'', PStr (pe_utc env (pe_completed env role))),
      (''duration_ms'', PInt (round_half_even ((pe_completed env role - pe_started env role) * 1000)))]"

text \<open>\<open>_execute_role\<close> up to the file it writes, which \<open>write_result\<close> adds.\<close>

definition execute_role :: "pipeline_env \<Rightarrow> run_frame \<Rightarrow> outputs \<Rightarrow> string \<Rightarrow> task \<Rightarrow> role_result res" where
  "execute_role env f outputs strategy t =
     (let role = snd t in
      bind_res (resolve_role_model (pe_rep env) (rf_cfg f) role) (\<lambda>model.
      bind_res (invoke_adapter (rf_adapter f) role model
          (role_prompt (rf_prompt f) role (resolve_role_prompt_text (rf_cfg f) role) outputs)
          (role_context role outputs (pf_isolation (rf_prompt f))) (rf_cfg f)) (\<lambda>output.
      bind_res (render_role_output (pe_float env) role model output (pf_json (rf_prompt f))) (\<lambda>(ext, text, report).
        let path = path_join (rf_dir f) (artifact_name (fst t) role ext)
        in Inr \<lparr>rt_index = fst t, rt_role = role, rt_model = model, rt_path = path, rt_text = text, rt_report = report,
                rt_execution = execution_entry env role model path strategy\<rparr>))))"

definition write_result :: "pipeline_env \<Rightarrow> role_result \<Rightarrow> files \<Rightarrow> files" where
  "write_result env r fs = write_file (pe_cwd env) (rt_path r) (rt_text r) fs"

section \<open>The state of a run\<close>

record run_state =
  st_outputs :: outputs
  st_artifacts :: "(string \<times> string) list"
  st_models :: "(string \<times> string) list"
  st_execution :: "dict list"
  st_files :: files

definition apply_role_result :: "role_result \<Rightarrow> run_state \<Rightarrow> run_state" where
  "apply_role_result r st =
     st\<lparr>st_outputs := dset (rt_role r) (rt_text r) (st_outputs st),
        st_artifacts := dset (rt_role r) (rt_path r) (st_artifacts st),
        st_models := dset (rt_role r) (rt_model r) (st_models st),
        st_execution := st_execution st @ [rt_execution r]\<rparr>"

record run_info =
  ro_dir :: string
  ro_run_id :: string
  ro_assurance :: string
  ro_mode :: pv
  ro_provider :: pv
  ro_adapter :: string
  ro_scope :: string
  ro_snapshot :: string
  ro_start_role :: "string option"
  ro_parent :: "string option"

text \<open>\<open>if x:\<close> on an optional text.\<close>

definition given :: "string option \<Rightarrow> bool" where
  "given x = (case x of None \<Rightarrow> False | Some s \<Rightarrow> s \<noteq> [])"

definition line_if :: "string \<Rightarrow> string option \<Rightarrow> string list" where
  "line_if label x = (if given x then [[], label @ '': '' @ the x] else [])"

definition summary_text :: "(pv \<Rightarrow> string) \<Rightarrow> run_info \<Rightarrow> run_state \<Rightarrow> string \<Rightarrow> string list \<Rightarrow> string option \<Rightarrow> string" where
  "summary_text rep i st status failed failure =
     join [newline]
       ([''# ESE Summary'', [], ''Run ID: '' @ ro_run_id i, ''Status: '' @ status, ''Assurance Level: '' @ ro_assurance i,
         ''Mode: '' @ py_str rep (ro_mode i), ''Provider: '' @ py_str rep (ro_provider i), ''Adapter: '' @ ro_adapter i, [],
         ''Executed roles:''] @
        map (\<lambda>x. ''- '' @ py_str rep (dget x ''role'') @ '' ('' @ py_str rep (dget x ''model'') @ '') -> '' @
                py_str rep (dget x ''artifact'')) (st_execution st) @
        line_if ''Parent Run ID'' (ro_parent i) @ line_if ''Start Role'' (ro_start_role i) @
        (if failed \<noteq> [] then [[], ''Failed Roles: '' @ join '', '' failed] else []) @
        line_if ''Failure'' failure) @ [newline]"

definition text_if :: "string \<Rightarrow> string option \<Rightarrow> dict" where
  "text_if key x = (if given x then [(key, PStr (the x))] else [])"

definition state_payload :: "run_info \<Rightarrow> run_state \<Rightarrow> string \<Rightarrow> string list \<Rightarrow> string option \<Rightarrow> dict" where
  "state_payload i st status failed failure =
     [(''run_id'', PStr (ro_run_id i)), (''status'', PStr status), (''assurance_level'', PStr (ro_assurance i)),
      (''mode'', ro_mode i), (''provider'', ro_provider i), (''adapter'', PStr (ro_adapter i)), (''scope'', PStr (ro_scope i)),
      (''config_snapshot'', PStr (ro_snapshot i)), (''state_contract_version'', PInt 2), (''report_contract_version'', PInt 2),
      (''role_models'', PDict (map (apsnd PStr) (st_models st))), (''artifacts'', PDict (map (apsnd PStr) (st_artifacts st))),
      (''execution'', PList (map PDict (st_execution st)))] @
     text_if ''parent_run_id'' (ro_parent i) @ text_if ''start_role'' (ro_start_role i) @
     (if failed \<noteq> [] then [(''failed_roles'', PList (map PStr failed))] else []) @ text_if ''failure'' failure"

definition write_summary_and_state ::
    "pipeline_env \<Rightarrow> run_info \<Rightarrow> run_state \<Rightarrow> string \<Rightarrow> string list \<Rightarrow> string option \<Rightarrow> string \<times> files" where
  "write_summary_and_state env i st status failed failure =
     (let summary_path = path_join (ro_dir i) ''ese_summary.md'' in
      (summary_path,
       write_file (pe_cwd env) (path_join (ro_dir i) ''pipeline_state.json'')
         (json_pretty (pe_float env) (PDict (state_payload i st status failed failure)) @ [newline])
         (write_file (pe_cwd env) summary_path (summary_text (pe_rep env) i st status failed failure) (st_files st))))"

text \<open>The artifacts derived from the report of the run. A report error is ignored, any other error is not.\<close>

definition derived_artifacts :: "pipeline_env \<Rightarrow> string \<Rightarrow> (run_report \<Rightarrow> files \<Rightarrow> files) \<Rightarrow> files \<Rightarrow> unit res \<times> files" where
  "derived_artifacts env dir write fs =
     (case collect_run_report (pe_reports env) fs dir of
        Inl (RunReportError _) \<Rightarrow> (Inr (), fs)
      | Inl e \<Rightarrow> (Inl e, fs)
      | Inr r \<Rightarrow> (Inr (), write r fs))"

definition write_code_suggestion_artifacts :: "pipeline_env \<Rightarrow> string \<Rightarrow> files \<Rightarrow> unit res \<times> files" where
  "write_code_suggestion_artifacts env dir =
     derived_artifacts env dir (\<lambda>r fs.
       if rr_suggestions r = [] then fs
       else write_file (pe_cwd env) (path_join dir ''code_suggestions.json'')
         (render_code_suggestions_json (pe_float env) (rr_dir r) (dget_default (rr_state r) ''scope'' (PStr [])) (rr_suggestions r))
         (write_file (pe_cwd env) (path_join dir ''code_suggestions.md'')
           (render_code_suggestions_markdown (rr_dir r) (rr_suggestions r)) fs))"

definition write_release_simulation_artifact :: "pipeline_env \<Rightarrow> string \<Rightarrow> files \<Rightarrow> unit res \<times> files" where
  "write_release_simulation_artifact env dir =
     derived_artifacts env dir (\<lambda>r fs.
       let s = build_release_simulation r in
       if \<not> rs_enabled s then fs
       else write_file (pe_cwd env) (path_join dir ''release_simulation.json'')
         (json_pretty (pe_float env) (dump_release s) @ [newline]) fs)"

definition persist_run_outputs ::
    "pipeline_env \<Rightarrow> run_info \<Rightarrow> run_state \<Rightarrow> string \<Rightarrow> string list \<Rightarrow> string option \<Rightarrow> string res \<times> files" where
  "persist_run_outputs env i st status failed failure =
     (let (summary_path, fs1) = write_summary_and_state env i st status failed failure;
          (r2, fs2) = write_code_suggestion_artifacts env (ro_dir i) fs1 in
      case r2 of Inl e \<Rightarrow> (Inl e, fs2)
      | Inr _ \<Rightarrow>
          (let (r3, fs3) = write_release_simulation_artifact env (ro_dir i) fs2 in
           (bind_res r3 (\<lambda>_. Inr summary_path), fs3)))"

section \<open>The gate\<close>

definition blocker_chunks :: "(pv \<Rightarrow> string) \<Rightarrow> role_result list \<Rightarrow> string list" where
  "blocker_chunks rep results =
     List.map_filter (\<lambda>r. case rt_report r of None \<Rightarrow> None
       | Some report \<Rightarrow> (let high = high_severity_findings report in
           if high = [] then None
           else Some (rt_role r @ '': '' @ join '', '' (map (\<lambda>f. py_str rep (dget (items_of f) ''title'')) high)))) results"

text \<open>Why a run stops: the failed roles and the failure.\<close>

type_synonym stop = "string list \<times> string"

definition gate :: "(pv \<Rightarrow> string) \<Rightarrow> bool \<Rightarrow> role_result list \<Rightarrow> stop option" where
  "gate rep fail_on_high results =
     (let chunks = blocker_chunks rep results in
      if \<not> fail_on_high \<or> chunks = [] then None
      else Some ([], ''Pipeline gated by HIGH severity findings in '' @ join ''; '' chunks))"

section \<open>Batches and the loop\<close>

text \<open>What the pool returns, in the order of completion; then sorted by index as the code does.\<close>

type_synonym completion = "task \<times> role_result res"

definition batch_results :: "completion list \<Rightarrow> role_result list" where
  "batch_results cs = sort_key rt_index (List.map_filter (\<lambda>c. case snd c of Inr r \<Rightarrow> Some r | Inl e \<Rightarrow> None) cs)"

definition batch_failures :: "completion list \<Rightarrow> (nat \<times> string \<times> string) list" where
  "batch_failures cs =
     sort_key fst (List.map_filter (\<lambda>c. case snd c of Inr r \<Rightarrow> None | Inl e \<Rightarrow> Some (fst (fst c), snd (fst c), message e)) cs)"

definition write_completion :: "pipeline_env \<Rightarrow> completion \<Rightarrow> files \<Rightarrow> files" where
  "write_completion env c fs = (case snd c of Inr r \<Rightarrow> write_result env r fs | Inl e \<Rightarrow> fs)"

definition batch_failure :: "role_result list \<Rightarrow> (nat \<times> string \<times> string) list \<Rightarrow> stop" where
  "batch_failure results failures =
     (let failed = map (\<lambda>(i, role, m). role) failures; completed = join '', '' (map rt_role results) in
      (failed, ''Parallel specialist batch failed. Completed roles: '' @ (if completed = [] then ''none'' else completed) @
         ''. Failed roles: '' @ join '', '' failed @
         ''. Details: '' @ join ''; '' (map (\<lambda>(i, role, m). role @ '': '' @ m) failures)))"

record run_settings =
  rs_parallel :: bool
  rs_fail_on_high :: bool

text \<open>\<open>settle_batch\<close> is what follows the pool, given the completions in any order.\<close>

definition settle_batch :: "pipeline_env \<Rightarrow> run_settings \<Rightarrow> completion list \<Rightarrow> files \<Rightarrow> run_state \<Rightarrow> run_state \<times> stop option" where
  "settle_batch env s cs fs st =
     (let results = batch_results cs; failures = batch_failures cs;
          st' = fold apply_role_result results (st\<lparr>st_files := fs\<rparr>) in
      (st', if failures \<noteq> [] then Some (batch_failure results failures)
            else gate (pe_rep env) (rs_fail_on_high s) results))"

definition run_batch :: "pipeline_env \<Rightarrow> run_frame \<Rightarrow> run_settings \<Rightarrow> task list \<Rightarrow> run_state \<Rightarrow> run_state \<times> stop option" where
  "run_batch env f s batch st =
     (let cs = map (\<lambda>t. (t, execute_role env f (st_outputs st) ''parallel'' t)) batch in
      settle_batch env s cs (fold (write_completion env) cs (st_files st)) st)"

definition run_serial :: "pipeline_env \<Rightarrow> run_frame \<Rightarrow> run_settings \<Rightarrow> task \<Rightarrow> run_state \<Rightarrow> run_state \<times> stop option" where
  "run_serial env f s t st =
     (case execute_role env f (st_outputs st) ''serial'' t of
        Inl e \<Rightarrow> (st, Some ([snd t], ''Role '' @ snd t @ '' failed: '' @ message e))
      | Inr r \<Rightarrow> (apply_role_result r (st\<lparr>st_files := write_result env r (st_files st)\<rparr>),
                  gate (pe_rep env) (rs_fail_on_high s) [r]))"

definition specialist_task :: "task \<Rightarrow> bool" where
  "specialist_task t = is_specialist (snd t)"

function run_loop :: "pipeline_env \<Rightarrow> run_frame \<Rightarrow> run_settings \<Rightarrow> task list \<Rightarrow> run_state \<Rightarrow> run_state \<times> stop option" where
  "run_loop env f s [] st = (st, None)"
| "run_loop env f s (t # ts) st =
     (if rs_parallel s \<and> specialist_task t
      then (case run_batch env f s (t # takeWhile specialist_task ts) st of
              (st', Some stop) \<Rightarrow> (st', Some stop)
            | (st', None) \<Rightarrow> run_loop env f s (dropWhile specialist_task ts) st')
      else (case run_serial env f s t st of
              (st', Some stop) \<Rightarrow> (st', Some stop)
            | (st', None) \<Rightarrow> run_loop env f s ts st'))"
  by pat_completeness auto
termination
  by (relation "measure (\<lambda>(env, f, s, ts, st). length ts)") (auto simp: less_Suc_eq_le length_dropWhile_le)

declare run_loop.simps(2) [simp del]

section \<open>Resuming an earlier run\<close>

definition ensure_artifact_within_dir :: "path \<Rightarrow> string \<Rightarrow> string \<Rightarrow> string res" where
  "ensure_artifact_within_dir cwd dir p =
     (if prefix (resolve cwd dir) (resolve cwd p) then Inr (path_str (resolve cwd p))
      else Inl (PipelineError (''Artifact path escapes artifacts_dir: '' @ path_str (resolve cwd p))))"

text \<open>The last execution entry of each role of the saved state.\<close>

fun execution_by_role :: "(pv \<Rightarrow> string) \<Rightarrow> pv list \<Rightarrow> (string \<times> dict) list \<Rightarrow> (string \<times> dict) list" where
  "execution_by_role rep [] d = d"
| "execution_by_role rep (PDict item # vs) d =
     (let role = clean_text rep (dget item ''role'') in
      execution_by_role rep vs (if role = [] then d else dset role item d))"
| "execution_by_role rep (v # vs) d = execution_by_role rep vs d"

definition saved_model :: "dict \<Rightarrow> string \<Rightarrow> string \<Rightarrow> string" where
  "saved_model state role dflt = (case dget state ''role_models'' of
     PDict models \<Rightarrow> (case dget models role of PStr m \<Rightarrow> m | _ \<Rightarrow> dflt) | _ \<Rightarrow> dflt)"

definition seed_role ::
    "pipeline_env \<Rightarrow> dict \<Rightarrow> string \<Rightarrow> dict \<Rightarrow> dict \<Rightarrow> string \<Rightarrow> run_state \<Rightarrow> run_state res" where
  "seed_role env cfg dir state artifacts role st =
     (case dget artifacts role of
        PStr ref \<Rightarrow>
          if strip ref = [] then Inl (PipelineError (''prior role has no saved artifact: '' @ role))
          else bind_res (ensure_artifact_within_dir (pe_cwd env) dir (if is_abs ref then ref else path_join dir ref)) (\<lambda>p.
            case read_file (pe_cwd env) p (st_files st) of
              None \<Rightarrow> Inl (PipelineError (''prior artifact is missing: '' @ p))
            | Some text \<Rightarrow> bind_res (resolve_role_model (pe_rep env) cfg role) (\<lambda>model0.
                let model = saved_model state role model0;
                    prior = (case map_of (execution_by_role (pe_rep env) (elems_of (dget state ''execution'')) []) role of
                       None \<Rightarrow> [] | Some d \<Rightarrow> d);
                    entry = dset ''strategy'' (PStr ''seeded'') (dset ''artifact'' (PStr p)
                       (dset ''model'' (PStr model) (dset ''role'' (PStr role) prior)))
                in Inr (st\<lparr>st_outputs := dset role text (st_outputs st), st_artifacts := dset role p (st_artifacts st),
                          st_models := dset role model (st_models st), st_execution := st_execution st @ [entry]\<rparr>)))
      | _ \<Rightarrow> Inl (PipelineError (''prior role has no saved artifact: '' @ role)))"

fun seed_roles :: "pipeline_env \<Rightarrow> dict \<Rightarrow> string \<Rightarrow> dict \<Rightarrow> dict \<Rightarrow> string list \<Rightarrow> run_state \<Rightarrow> run_state res" where
  "seed_roles env cfg dir state artifacts [] st = Inr st"
| "seed_roles env cfg dir state artifacts (role # roles) st =
     bind_res (seed_role env cfg dir state artifacts role st) (seed_roles env cfg dir state artifacts roles)"

definition fresh_state :: "files \<Rightarrow> run_state" where
  "fresh_state fs = \<lparr>st_outputs = [], st_artifacts = [], st_models = [], st_execution = [], st_files = fs\<rparr>"

text \<open>Start index, seeded state and parent run.\<close>

definition load_resume_state ::
    "pipeline_env \<Rightarrow> dict \<Rightarrow> string \<Rightarrow> string list \<Rightarrow> string option \<Rightarrow> files \<Rightarrow> (nat \<times> run_state \<times> string option) res" where
  "load_resume_state env cfg dir order start fs =
     (if \<not> given start then Inr (0, fresh_state fs, None)
      else let role = strip (the start); index = index_of order role in
        if role \<notin> set order then Inl (PipelineError (''Unknown start role '' @ the start))
        else if index = 0 then Inr (0, fresh_state fs, None)
        else case read_file (pe_cwd env) (path_join dir ''pipeline_state.json'') fs of
            None \<Rightarrow> Inl (PipelineError (''Cannot rerun without existing pipeline_state.json in '' @ dir))
          | Some contents \<Rightarrow>
              (case json_loads contents of
                 None \<Rightarrow> Inl (PipelineError ''Could not parse existing pipeline state'')
               | Some (PDict state) \<Rightarrow>
                   (case dget state ''artifacts'' of
                      PDict artifacts \<Rightarrow>
                        bind_res (seed_roles env cfg dir state artifacts (take index order) (fresh_state fs)) (\<lambda>st.
                          let parent = clean_text (pe_rep env) (dget state ''run_id'')
                          in Inr (index, st, if parent = [] then None else Some parent))
                    | _ \<Rightarrow> Inl (PipelineError ''Existing pipeline state is missing an artifacts map''))
               | Some _ \<Rightarrow> Inl (PipelineError ''Existing pipeline state must be a JSON object'')))"

section \<open>The pipeline\<close>

text \<open>What is settled before the first write: directory, provider, scope and order.\<close>

definition prepare_run :: "dict \<Rightarrow> (pv \<times> string \<times> string list) res" where
  "prepare_run cfg =
     bind_res (py_get (py_or (dget cfg ''provider'') (PDict [])) ''name'' (PStr ''unknown'')) (\<lambda>provider.
     bind_res (require_scope cfg) (\<lambda>scope.
     bind_res (normalize_role_order cfg) (\<lambda>order.
       if order = [] then Inl (PipelineError ''No roles configured'') else Inr (provider, scope, order))))"

definition configure_run ::
    "pipeline_env \<Rightarrow> dict \<Rightarrow> string \<Rightarrow> string option \<Rightarrow> pv \<Rightarrow> string \<Rightarrow> string list \<Rightarrow> files \<Rightarrow>
     (run_info \<times> run_frame \<times> run_settings \<times> nat \<times> run_state) res" where
  "configure_run env cfg dir start provider scope order fs =
     bind_res (resolve_adapter env cfg) (\<lambda>(name, adapter).
     bind_res (parallel_cfg cfg) (\<lambda>(parallel, workers).
     bind_res (resolve_prompt_text cfg) (\<lambda>prompt.
     bind_res (load_resume_state env cfg dir order start fs) (\<lambda>(index, st, parent).
       let mode = dget_default cfg ''mode'' (PStr ''ensemble'') in
       Inr (\<lparr>ro_dir = dir, ro_run_id = pe_run_id env, ro_assurance = assurance_level (py_str (pe_rep env) mode), ro_mode = mode,
             ro_provider = provider, ro_adapter = name, ro_scope = scope, ro_snapshot = path_join dir ''ese_config.snapshot.yaml'',
             ro_start_role = start, ro_parent = parent\<rparr>,
            \<lparr>rf_cfg = cfg, rf_dir = dir, rf_adapter = adapter,
             rf_prompt = \<lparr>pf_scope = scope, pf_context = prompt,
               pf_feedback = feedback_prompt_guidance (pe_rep env) (pe_cwd env) fs dir,
               pf_json = snd (output_cfg cfg), pf_isolation = review_isolation (pe_rep env) cfg\<rparr>\<rparr>,
            \<lparr>rs_parallel = parallel, rs_fail_on_high = gating_cfg cfg\<rparr>, index, st)))))"

definition tasks_from :: "nat \<Rightarrow> string list \<Rightarrow> task list" where
  "tasks_from index order = drop index (zip [1..<Suc (length order)] order)"

text \<open>\<open>run_pipeline\<close>: the path of the summary or the error raised, and the files afterwards.\<close>

definition run_pipeline :: "pipeline_env \<Rightarrow> dict \<Rightarrow> string option \<Rightarrow> string option \<Rightarrow> files \<Rightarrow> string res \<times> files" where
  "run_pipeline env cfg artifacts_dir start fs =
     (let dir = resolve_artifacts_dir cfg artifacts_dir in
      case prepare_run cfg of
        Inl e \<Rightarrow> (Inl e, fs)
      | Inr (provider, scope, order) \<Rightarrow>
          let fs1 = write_file (pe_cwd env) (path_join dir ''ese_config.snapshot.yaml'') (pe_yaml env cfg) fs in
          case configure_run env cfg dir start provider scope order fs1 of
            Inl e \<Rightarrow> (Inl e, fs1)
          | Inr (info, frame, settings, index, st) \<Rightarrow>
              (case run_loop env frame settings (tasks_from index order) st of
                 (st', None) \<Rightarrow> persist_run_outputs env info st' ''completed'' [] None
               | (st', Some (failed, failure)) \<Rightarrow>
                   (let (r, fs2) = persist_run_outputs env info st' ''failed'' failed (Some failure) in
                    (bind_res r (\<lambda>p. Inl (PipelineError (failure @ ''. Summary: '' @ p))), fs2))))"

section \<open>Names of artifacts\<close>

lemma digits_val_pad: "digits_val (CHR ''0'' # s) = digits_val s"
  by (simp add: digits_val_def digit_code_def)

lemma nat_str_no_underscore: "CHR ''_'' \<notin> set (nat_str n)" "CHR ''/'' \<notin> set (nat_str n)"
  using nat_str_digits [of n] by (auto simp: list_all_iff is_digit_def digit_code_def)

definition padded :: "nat \<Rightarrow> string" where
  "padded n = (if n < 10 then ''0'' else []) @ nat_str n"

lemma padded_inj: "padded m = padded n \<Longrightarrow> m = n"
proof -
  have "digits_val (padded k) = int k" for k using nat_str_digits [of k] by (simp add: padded_def digits_val_pad)
  then show "padded m = padded n \<Longrightarrow> m = n" by (metis of_nat_eq_iff)
qed

lemma padded_plain: "CHR ''_'' \<notin> set (padded n)" "CHR ''/'' \<notin> set (padded n)" "padded n \<noteq> []"
  using nat_str_no_underscore nat_str_digits [of n] by (auto simp: padded_def)

lemma artifact_name_padded: "artifact_name i role ext = padded i @ CHR ''_'' # role @ CHR ''.'' # ext"
  by (simp add: artifact_name_def padded_def)

lemma artifact_name_inj: "artifact_name i r e = artifact_name j r' e' \<Longrightarrow> i = j"
proof -
  have "takeWhile (\<lambda>c. c \<noteq> CHR ''_'') (padded k @ CHR ''_'' # s) = padded k" for k s
  proof -
    have "takeWhile (\<lambda>c. c \<noteq> CHR ''_'') (p @ CHR ''_'' # s) = p" if "CHR ''_'' \<notin> set p" for p s
      using that by (induction p) auto
    then show ?thesis using padded_plain(1) by blast
  qed
  then show "artifact_name i r e = artifact_name j r' e' \<Longrightarrow> i = j"
    unfolding artifact_name_padded by (metis padded_inj)
qed

lemma artifact_name_ok: "CHR ''/'' \<notin> set role \<Longrightarrow> CHR ''/'' \<notin> set ext \<Longrightarrow> component_ok (artifact_name i role ext)"
proof -
  assume "CHR ''/'' \<notin> set role" "CHR ''/'' \<notin> set ext"
  then have "CHR ''/'' \<notin> set (artifact_name i role ext)" using padded_plain(2) by (auto simp: artifact_name_padded)
  moreover have "CHR ''_'' \<in> set (artifact_name i role ext)" by (simp add: artifact_name_padded)
  ultimately show ?thesis by (auto simp: component_ok_def)
qed

lemma render_ext: "render_role_output fr role model output json = Inr (ext, text, report) \<Longrightarrow>
    ext = (if json then ''json'' else ''md'')"
  by (auto simp: render_role_output_def bind_res_eq_Inr split: if_splits)

lemma execute_role_Inr:
  assumes "execute_role env f outputs strategy t = Inr r"
  shows "rt_index r = fst t \<and> rt_role r = snd t \<and>
    rt_path r = path_join (rf_dir f) (artifact_name (fst t) (snd t) (if pf_json (rf_prompt f) then ''json'' else ''md''))"
  using assms by (auto simp: execute_role_def Let_def bind_res_eq_Inr dest!: render_ext)

definition plain_role :: "string \<Rightarrow> bool" where
  "plain_role role \<longleftrightarrow> CHR ''/'' \<notin> set role"

lemma specialist_plain: "is_specialist role \<Longrightarrow> plain_role role"
proof -
  have "list_all (\<lambda>x. CHR ''/'' \<notin> set (fst x)) specialist_instructions" by code_simp
  then show "is_specialist role \<Longrightarrow> plain_role role" by (auto simp: is_specialist_def plain_role_def list_all_iff)
qed

definition artifact_file_of :: "path \<Rightarrow> string \<Rightarrow> bool \<Rightarrow> task \<Rightarrow> path" where
  "artifact_file_of cwd dir json t =
     resolve cwd dir @ [artifact_name (fst t) (snd t) (if json then ''json'' else ''md'')]"

lemma artifact_resolve:
  assumes "execute_role env f outputs strategy t = Inr r" and "plain_role (snd t)"
  shows "resolve cwd (rt_path r) = artifact_file_of cwd (rf_dir f) (pf_json (rf_prompt f)) t"
proof -
  have "component_ok (artifact_name (fst t) (snd t) (if pf_json (rf_prompt f) then ''json'' else ''md''))"
    using assms(2) by (intro artifact_name_ok) (auto simp: plain_role_def)
  then show ?thesis using execute_role_Inr [OF assms(1)] by (simp add: resolve_path_join artifact_file_of_def)
qed

lemma artifact_file_inj: "artifact_file_of cwd dir j t = artifact_file_of cwd dir j' u \<Longrightarrow> fst t = fst u"
  by (auto simp: artifact_file_of_def dest: artifact_name_inj)

end
