(* ===== verification/Pipeline_Pool.thy ===== *)
theory Pipeline_Pool
  imports Pipeline_Run "HOL-Library.Multiset"
begin

text \<open>
  The thread pool in which \<open>ese/pipeline.py\<close> runs a batch of specialist roles, as a step relation over what
  waits, runs and has ended; and why the run loop may forget about it.
\<close>

section \<open>The thread pool\<close>

text \<open>The pool of a batch: futures wait in the order of submission, at most \<open>workers\<close> of them run, and a running
  one ends at any time, by writing its artifact or by failing; nothing is cancelled. The code starts as many
  workers as the configured limit and the batch allow; here any number will do.\<close>

record pool =
  po_waiting :: "task list"
  po_running :: "task list"
  po_done :: "completion list"
  po_files :: files

inductive pool_step :: "pipeline_env \<Rightarrow> nat \<Rightarrow> (task \<Rightarrow> role_result res) \<Rightarrow> pool \<Rightarrow> pool \<Rightarrow> bool" for env workers exec where
  pool_start: "length running < workers \<Longrightarrow>
     pool_step env workers exec \<lparr>po_waiting = t # waiting, po_running = running, po_done = finished, po_files = fs\<rparr>
       \<lparr>po_waiting = waiting, po_running = running @ [t], po_done = finished, po_files = fs\<rparr>"
| pool_finish: "t \<in> set running \<Longrightarrow>
     pool_step env workers exec \<lparr>po_waiting = waiting, po_running = running, po_done = finished, po_files = fs\<rparr>
       \<lparr>po_waiting = waiting, po_running = remove1 t running, po_done = finished @ [(t, exec t)],
        po_files = write_completion env (t, exec t) fs\<rparr>"

definition pool_of :: "task list \<Rightarrow> files \<Rightarrow> pool" where
  "pool_of batch fs = \<lparr>po_waiting = batch, po_running = [], po_done = [], po_files = fs\<rparr>"

definition pool_idle :: "pool \<Rightarrow> bool" where
  "pool_idle p \<longleftrightarrow> po_waiting p = [] \<and> po_running p = []"

inductive_cases pool_stepE: "pool_step env workers exec p q"

section \<open>Schedules of the pool\<close>

definition pool_inv :: "pipeline_env \<Rightarrow> nat \<Rightarrow> (task \<Rightarrow> role_result res) \<Rightarrow> task list \<Rightarrow> files \<Rightarrow> pool \<Rightarrow> bool" where
  "pool_inv env workers exec batch fs p \<longleftrightarrow>
     mset (map fst (po_done p)) + mset (po_running p) + mset (po_waiting p) = mset batch \<and>
     po_done p = map (\<lambda>t. (t, exec t)) (map fst (po_done p)) \<and>
     po_files p = fold (write_completion env) (po_done p) fs \<and> length (po_running p) \<le> workers"

definition pool_work :: "pool \<Rightarrow> nat" where
  "pool_work p = 2 * length (po_waiting p) + length (po_running p)"

lemma pool_inv_step: "pool_step env workers exec p q \<Longrightarrow> pool_inv env workers exec batch fs p \<Longrightarrow>
    pool_inv env workers exec batch fs q \<and> pool_work p = Suc (pool_work q)"
proof (induction rule: pool_step.induct)
  case (pool_start running t waiting finished files)
  then show ?case by (simp add: pool_inv_def pool_work_def)
next
  case (pool_finish t running waiting finished files)
  have "mset running = add_mset t (mset (remove1 t running))" using pool_finish(1) by simp
  moreover have "length (remove1 t running) = length running - 1" "length running > 0"
    using pool_finish(1) by (auto simp: length_remove1)
  moreover have "Suc (length running - Suc 0) = length running" using pool_finish(1) by (cases running) auto
  ultimately show ?case using pool_finish by (auto simp: pool_inv_def pool_work_def)
qed

lemma pool_inv_steps: "(pool_step env workers exec ^^ n) (pool_of batch fs) p \<Longrightarrow>
    pool_inv env workers exec batch fs p \<and> n + pool_work p = 2 * length batch"
proof (induction n arbitrary: p)
  case 0
  then have "p = pool_of batch fs" by simp
  then show ?case by (simp add: pool_of_def pool_inv_def pool_work_def)
next
  case (Suc n)
  then obtain q where "(pool_step env workers exec ^^ n) (pool_of batch fs) q" "pool_step env workers exec q p" by auto
  with Suc.IH pool_inv_step show ?case by fastforce
qed

lemma pool_idle_work: "pool_idle p \<longleftrightarrow> pool_work p = 0"
  by (auto simp: pool_idle_def pool_work_def)

lemma pool_progress:
  assumes "0 < workers" and "\<not> pool_idle p" shows "\<exists>q. pool_step env workers exec p q"
proof (cases p)
  case (fields waiting running finished files)
  show ?thesis
  proof (cases running)
    case Nil
    then obtain t ts where "waiting = t # ts" using assms(2) fields by (cases waiting) (auto simp: pool_idle_def)
    then show ?thesis using pool_start [of running workers env exec t ts finished files] fields Nil assms(1) by auto
  next
    case (Cons t ts)
    then show ?thesis using pool_finish [of t running env workers exec waiting finished files] fields by auto
  qed
qed

lemma batch_sorted_alike:
  assumes "mset cs = mset ds" and "distinct (map fst batch)" and "mset (map fst cs) = mset batch"
    and "\<And>t r. (t, Inr r) \<in> set cs \<Longrightarrow> rt_index r = fst t"
  shows "batch_results cs = batch_results ds \<and> batch_failures cs = batch_failures ds"
proof -
  have dc: "distinct (map (fst \<circ> fst) cs)"
    using assms(2,3) by (metis distinct_map map_map mset_map mset_eq_imp_distinct_iff)
  let ?g = "\<lambda>c. case snd c of Inr r \<Rightarrow> Some r | Inl e \<Rightarrow> None"
  let ?h = "\<lambda>c. case snd c of Inr r \<Rightarrow> None | Inl e \<Rightarrow> Some (fst (fst c), snd (fst c), message e)"
  have m: "mset (List.map_filter k cs) = mset (List.map_filter k ds)" for k :: "completion \<Rightarrow> 'b option"
    using assms(1) by (simp only: List.map_filter_def mset_map mset_filter)
  have "inj_on rt_index (set (List.map_filter ?g cs))"
  proof (rule inj_onI)
    fix r r' assume "r \<in> set (List.map_filter ?g cs)" "r' \<in> set (List.map_filter ?g cs)" "rt_index r = rt_index r'"
    moreover then obtain t t' where "(t, Inr r) \<in> set cs" "(t', Inr r') \<in> set cs"
      by (auto simp: List.map_filter_def split: sum.splits)
    ultimately show "r = r'" using assms(4) dc by (fastforce simp: distinct_map inj_on_def)
  qed
  then have "sort_key rt_index (List.map_filter ?g cs) = sort_key rt_index (List.map_filter ?g ds)"
    by (intro sort_key_inj_key_eq) (simp_all add: m)
  moreover have "inj_on fst (set (List.map_filter ?h cs))"
  proof (rule inj_onI)
    have shape: "\<exists>c e. c \<in> set cs \<and> snd c = Inl e \<and> x = (fst (fst c), snd (fst c), message e)"
      if "x \<in> set (List.map_filter ?h cs)" for x
      using that by (auto simp: List.map_filter_def split: sum.splits) force
    fix x y assume xy: "x \<in> set (List.map_filter ?h cs)" "y \<in> set (List.map_filter ?h cs)" "fst x = fst y"
    from shape [OF xy(1)] shape [OF xy(2)] obtain c e d e' where
      "c \<in> set cs" "snd c = Inl e" "x = (fst (fst c), snd (fst c), message e)"
      "d \<in> set cs" "snd d = Inl e'" "y = (fst (fst d), snd (fst d), message e')" by blast
    moreover from this xy(3) dc have "c = d" by (simp add: distinct_map inj_on_def)
    ultimately show "x = y" by simp
  qed
  then have "sort_key fst (List.map_filter ?h cs) = sort_key fst (List.map_filter ?h ds)"
    by (intro sort_key_inj_key_eq) (simp_all add: m)
  ultimately show ?thesis by (simp add: batch_results_def batch_failures_def)
qed

text \<open>C8: Scheduling is invisible: whatever the order in which the roles of a batch start and end, once the pool is
  idle the batch is settled exactly as if they had ended in the order of submission, with the same state,
  files and verdict.\<close>

theorem every_schedule_settles_alike:
  assumes "list_all specialist_task batch" and "distinct (map fst batch)"
    and "(pool_step env workers (execute_role env f (st_outputs st) ''parallel''))\<^sup>*\<^sup>* (pool_of batch (st_files st)) p"
    and "pool_idle p"
  shows "settle_batch env s (po_done p) (po_files p) st = run_batch env f s batch st"
proof -
  let ?exec = "execute_role env f (st_outputs st) ''parallel''"
  obtain n where "(pool_step env workers ?exec ^^ n) (pool_of batch (st_files st)) p"
    using assms(3) by (auto simp: rtranclp_power)
  from pool_inv_steps [OF this] assms(4) have
    m: "mset (map fst (po_done p)) = mset batch" and d: "po_done p = map (\<lambda>t. (t, ?exec t)) (map fst (po_done p))"
    and fs: "po_files p = fold (write_completion env) (po_done p) (st_files st)"
    by (auto simp: pool_inv_def pool_idle_def)
  define cs where "cs = map (\<lambda>t. (t, ?exec t)) batch"
  have ms: "mset (po_done p) = mset cs"
    using m by (subst d) (simp only: cs_def mset_map)
  have idx: "rt_index r = fst t" if "(t, Inr r) \<in> set (po_done p)" for t r
    using that execute_role_Inr [of env f "st_outputs st" "''parallel''" t r] by (subst (asm) d) auto
  have "fold (write_completion env) (po_done p) = fold (write_completion env) cs"
  proof (rule fold_multiset_equiv [OF _ ms])
    fix c c' assume c: "c \<in> set (po_done p)" "c' \<in> set (po_done p)"
    have mem: "t \<in> set batch" "snd b = ?exec t" if "b \<in> set (po_done p)" "fst b = t" for b t
    proof -
      have "fst b \<in> set (map fst (po_done p))" using that(1) by simp
      then show "t \<in> set batch" using mset_eq_setD [OF m] that(2) by simp
      have "b \<in> set (map (\<lambda>t. (t, ?exec t)) (map fst (po_done p)))" using that(1) d by simp
      then show "snd b = ?exec t" using that(2) by auto
    qed
    show "write_completion env c \<circ> write_completion env c' = write_completion env c' \<circ> write_completion env c"
    proof (cases "\<exists>r r'. snd c = Inr r \<and> snd c' = Inr r' \<and> c \<noteq> c'")
      case True
      then obtain r r' where r: "snd c = Inr r" "snd c' = Inr r'" "c \<noteq> c'" by blast
      then have ne: "fst c \<noteq> fst c'" using mem(2) [OF c(1) refl] mem(2) [OF c(2) refl] by (metis prod_eqI)
      then have "fst (fst c) \<noteq> fst (fst c')"
        using mem(1) [OF c(1) refl] mem(1) [OF c(2) refl] assms(2) by (auto simp: distinct_map inj_on_def)
      moreover have "plain_role (snd (fst b))" if "b \<in> set (po_done p)" for b
        using mem(1) [OF that refl] assms(1) specialist_plain by (auto simp: list_all_iff specialist_task_def)
      then have "resolve cwd (rt_path r) = artifact_file_of cwd (rf_dir f) (pf_json (rf_prompt f)) (fst c)"
          "resolve cwd (rt_path r') = artifact_file_of cwd (rf_dir f) (pf_json (rf_prompt f)) (fst c')" for cwd
        using artifact_resolve mem(2) c r by metis+
      ultimately have "resolve (pe_cwd env) (rt_path r) \<noteq> resolve (pe_cwd env) (rt_path r')"
        using artifact_file_inj by metis
      then show ?thesis using r by (auto simp: write_completion_def write_result_def write_file_def fun_eq_iff)
    qed (auto simp: write_completion_def fun_eq_iff split: sum.splits)
  qed
  then have "po_files p = fold (write_completion env) cs (st_files st)" by (simp add: fs)
  moreover have "batch_results (po_done p) = batch_results cs \<and> batch_failures (po_done p) = batch_failures cs"
    by (rule batch_sorted_alike [OF ms assms(2) m idx])
  ultimately show ?thesis by (simp add: run_batch_def settle_batch_def Let_def cs_def)
qed

text \<open>Two specialists on two workers, the second of which ends first; both fail, as their adapter does.\<close>

definition pool_env :: pipeline_env where
  "pool_env = \<lparr>pe_reports = \<lparr>rv_rep = (\<lambda>_. []), rv_cwd = [], rv_updated = (\<lambda>_. ''t''), rv_previous = (\<lambda>_ _. None)\<rparr>,
     pe_float = (\<lambda>_. []), pe_builtin = (\<lambda>_. None), pe_import = (\<lambda>m obj. Inl (PipelineError ''no module'')),
     pe_started = (\<lambda>_. 0), pe_completed = (\<lambda>_. 0), pe_utc = (\<lambda>_. ''t''), pe_yaml = (\<lambda>_. []), pe_run_id = ''id''\<rparr>"

definition pool_batch :: "task list" where
  "pool_batch = [(3, ''security_auditor''), (4, ''performance_analyst'')]"

lemma pool_schedule:
  "(pool_step env 2 exec ^^ 4) (pool_of pool_batch fs)
     \<lparr>po_waiting = [], po_running = [], po_done = map (\<lambda>t. (t, exec t)) (rev pool_batch),
      po_files = fold (write_completion env) (map (\<lambda>t. (t, exec t)) (rev pool_batch)) fs\<rparr>"
proof -
  let ?a = "(3, ''security_auditor'') :: task" and ?b = "(4, ''performance_analyst'') :: task"
  let ?p = "\<lambda>waiting running finished. \<lparr>po_waiting = waiting, po_running = running, po_done = map (\<lambda>t. (t, exec t)) finished,
    po_files = fold (write_completion env) (map (\<lambda>t. (t, exec t)) finished) fs\<rparr>"
  have "pool_step env 2 exec (?p [?a, ?b] [] []) (?p [?b] [?a] [])" using pool_start [of "[]" 2 env exec ?a "[?b]" "[]" fs] by simp
  moreover have "pool_step env 2 exec (?p [?b] [?a] []) (?p [] [?a, ?b] [])" using pool_start [of "[?a]" 2 env exec ?b "[]" "[]" fs] by simp
  moreover have "pool_step env 2 exec (?p [] [?a, ?b] []) (?p [] [?a] [?b])" using pool_finish [of ?b "[?a, ?b]" env 2 exec "[]" "[]" fs] by simp
  moreover have "pool_step env 2 exec (?p [] [?a] [?b]) (?p [] [] [?b, ?a])"
    using pool_finish [of ?a "[?a]" env 2 exec "[]" "[(?b, exec ?b)]" "write_completion env (?b, exec ?b) fs"] by simp
  ultimately have "(pool_step env 2 exec ^^ Suc (Suc (Suc (Suc 0)))) (?p [?a, ?b] [] []) (?p [] [] [?b, ?a])"
    unfolding relpowp.simps by blast
  then show ?thesis by (simp add: pool_of_def pool_batch_def numeral_eq_Suc)
qed

theorem every_schedule_settles_alike_witness:
  "\<exists>p (frame :: run_frame) (st :: run_state) (s :: run_settings). (pool_step pool_env 2 (execute_role pool_env frame (st_outputs st) ''parallel''))\<^sup>*\<^sup>* (pool_of pool_batch (st_files st)) p \<and>
     map fst (po_done p) = rev pool_batch \<and>
     settle_batch pool_env s (po_done p) (po_files p) st = run_batch pool_env frame s pool_batch st"
proof -
  fix frame :: run_frame and st :: run_state
  let ?exec = "execute_role pool_env frame (st_outputs st) ''parallel''"
  obtain p where p: "(pool_step pool_env 2 ?exec ^^ 4) (pool_of pool_batch (st_files st)) p" "pool_idle p"
      "map fst (po_done p) = rev pool_batch"
    using pool_schedule [where env = pool_env and exec = ?exec and fs = "st_files st"] by (fastforce simp: pool_idle_def o_def)
  have "list_all specialist_task pool_batch" "distinct (map fst pool_batch)" by code_simp+
  note settled = every_schedule_settles_alike [OF this relpowp_imp_rtranclp [OF p(1)] p(2)]
  show ?thesis using settled p(3) relpowp_imp_rtranclp [OF p(1)] by blast
qed

end
