(* ===== verification/Pipeline_Outcome.thy ===== *)
theory Pipeline_Outcome
  imports Pipeline_Pool
begin

text \<open>
  What a run of the pipeline amounts to: a reference run without batches that the loop agrees with, what a
  completed run leaves behind, and what the resumption of a run may read.
\<close>

section \<open>Absorbing results\<close>

definition absorb :: "pipeline_env \<Rightarrow> role_result \<Rightarrow> run_state \<Rightarrow> run_state" where
  "absorb env r st = apply_role_result r (st\<lparr>st_files := write_result env r (st_files st)\<rparr>)"

definition no_severe :: "role_result \<Rightarrow> bool" where
  "no_severe r \<longleftrightarrow> (\<forall>report. rt_report r = Some report \<longrightarrow> high_severity_findings report = [])"

lemma blocker_chunks_Nil: "blocker_chunks rep rs = [] \<longleftrightarrow> list_all no_severe rs"
  by (induction rs) (auto simp: blocker_chunks_def map_filter_simps no_severe_def Let_def split: option.splits)

lemma gate_None: "gate rep h rs = None \<longleftrightarrow> (h \<longrightarrow> list_all no_severe rs)"
  by (auto simp: gate_def Let_def blocker_chunks_Nil)

lemma apply_files: "apply_role_result r (st\<lparr>st_files := fs\<rparr>) = (apply_role_result r st)\<lparr>st_files := fs\<rparr>"
  by (cases st) (simp add: apply_role_result_def)

lemma in_map_filter: "y \<in> set (List.map_filter g xs) \<longleftrightarrow> (\<exists>x \<in> set xs. g x = Some y)"
  by (induction xs) (auto simp: map_filter_simps split: option.splits)

lemma apply_absorb: "fold apply_role_result rs (st\<lparr>st_files := fold (write_result env) rs (st_files st)\<rparr>) = fold (absorb env) rs st"
proof -
  have c: "fold apply_role_result rs (st\<lparr>st_files := fs\<rparr>) = (fold apply_role_result rs st)\<lparr>st_files := fs\<rparr>" for rs st fs
    by (induction rs arbitrary: st) (simp_all add: apply_files)
  have a: "st_files (apply_role_result r st) = st_files st" for r st by (simp add: apply_role_result_def)
  show ?thesis
  proof (induction rs arbitrary: st)
    case (Cons r rs)
    have "fold (absorb env) (r # rs) st = fold (absorb env) rs (absorb env r st)" by simp
    also have "\<dots> = fold apply_role_result rs ((absorb env r st)\<lparr>st_files := fold (write_result env) rs (st_files (absorb env r st))\<rparr>)"
      by (simp only: Cons.IH)
    also have "\<dots> = fold apply_role_result (r # rs) (st\<lparr>st_files := fold (write_result env) (r # rs) (st_files st)\<rparr>)"
      by (simp add: absorb_def a c apply_files)
    finally show ?case by simp
  qed simp
qed

text \<open>The results of a list of tasks that all succeed from the same outputs.\<close>

definition all_results :: "pipeline_env \<Rightarrow> run_frame \<Rightarrow> outputs \<Rightarrow> string \<Rightarrow> task list \<Rightarrow> role_result list option" where
  "all_results env f outputs strategy ts =
     (if list_all (\<lambda>t. \<not> isl (execute_role env f outputs strategy t)) ts
      then Some (map (\<lambda>t. projr (execute_role env f outputs strategy t)) ts) else None)"

lemma all_results_list:
  assumes "all_results env f outputs strategy ts = Some rs"
  shows "list_all2 (\<lambda>t r. execute_role env f outputs strategy t = Inr r) ts rs"
  using assms by (auto simp: all_results_def list_all2_conv_all_nth list_all_length split: if_splits)

lemma run_batch_fails:
  assumes "all_results env f (st_outputs st) ''parallel'' ts = None"
  shows "\<exists>st' stop. run_batch env f s ts st = (st', Some stop)"
proof -
  let ?exec = "execute_role env f (st_outputs st) ''parallel''"
  let ?cs = "map (\<lambda>t. (t, ?exec t)) ts"
  obtain t e where t: "t \<in> set ts" "?exec t = Inl e"
    using assms by (auto simp: all_results_def list_all_iff isl_def split: if_splits)
  then have "(fst t, snd t, message e) \<in> set (batch_failures ?cs)"
    by (auto simp: batch_failures_def in_map_filter intro!: bexI [of _ t])
  then have "batch_failures ?cs \<noteq> []" by auto
  then show ?thesis by (simp add: run_batch_def settle_batch_def Let_def)
qed

lemma run_batch_ok:
  assumes "sorted_wrt (<) (map fst ts)" and "all_results env f (st_outputs st) ''parallel'' ts = Some rs"
  shows "run_batch env f s ts st = (fold (absorb env) rs st, gate (pe_rep env) (rs_fail_on_high s) rs)"
proof -
  let ?exec = "execute_role env f (st_outputs st) ''parallel''"
  let ?cs = "map (\<lambda>t. (t, ?exec t)) ts"
  have l: "list_all2 (\<lambda>t r. ?exec t = Inr r) ts rs" using assms(2) by (rule all_results_list)
  then have cs: "?cs = map2 (\<lambda>t r. (t, Inr r)) ts rs" by (induction rule: list_all2_induct) auto
  have g: "List.map_filter (\<lambda>c. case snd c of Inr r \<Rightarrow> Some r | Inl e \<Rightarrow> None) ?cs = rs"
    unfolding cs using l by (induction rule: list_all2_induct) (auto simp: map_filter_simps)
  have h: "List.map_filter (\<lambda>c. case snd c of Inr r \<Rightarrow> None | Inl e \<Rightarrow> Some (fst (fst c), snd (fst c), message e)) ?cs = []"
    unfolding cs using l by (induction rule: list_all2_induct) (auto simp: map_filter_simps)
  have "map rt_index rs = map fst ts"
    using l by (induction rule: list_all2_induct) (auto dest: execute_role_Inr)
  then have "sorted (map rt_index rs)" using strict_sorted_imp_sorted [OF assms(1)] by metis
  then have "batch_results ?cs = rs" by (simp add: batch_results_def g sort_key_id_if_sorted)
  moreover have "batch_failures ?cs = []" unfolding batch_failures_def h by simp
  moreover have "fold (write_completion env) ?cs fs = fold (write_result env) rs fs" for fs
    unfolding cs using l by (induction arbitrary: fs rule: list_all2_induct) (auto simp: write_completion_def)
  ultimately show ?thesis by (simp add: run_batch_def settle_batch_def Let_def apply_absorb)
qed

section \<open>A reference run\<close>

text \<open>One role after the other, without batches: \<open>None\<close> when some role fails or the gate closes.\<close>

fun run_reference :: "pipeline_env \<Rightarrow> run_frame \<Rightarrow> bool \<Rightarrow> task list \<Rightarrow> run_state \<Rightarrow> run_state option" where
  "run_reference env f h [] st = Some st"
| "run_reference env f h (t # ts) st =
     (case execute_role env f (st_outputs st) ''serial'' t of
        Inl e \<Rightarrow> None
      | Inr r \<Rightarrow> if h \<and> \<not> no_severe r then None else run_reference env f h ts (absorb env r st))"

text \<open>The strategy recorded in the execution entries is all that tells the two ways apart.\<close>

definition plain_strategy :: "run_state \<Rightarrow> run_state" where
  "plain_strategy st = st\<lparr>st_execution := map (dset ''strategy'' PNone) (st_execution st)\<rparr>"

definition completed :: "run_state \<times> stop option \<Rightarrow> run_state option" where
  "completed x = (case snd x of None \<Rightarrow> Some (plain_strategy (fst x)) | Some stop \<Rightarrow> None)"

definition plain_result :: "role_result \<Rightarrow> role_result" where
  "plain_result r = r\<lparr>rt_execution := dset ''strategy'' PNone (rt_execution r)\<rparr>"

lemma absorb_plain: "plain_strategy (absorb env r st) = absorb env (plain_result r) (plain_strategy st)"
  by (simp add: plain_strategy_def absorb_def apply_role_result_def plain_result_def write_result_def)

lemma no_severe_plain [simp]: "no_severe (plain_result r) = no_severe r"
  by (simp add: no_severe_def plain_result_def)

lemma plain_outputs [simp]: "st_outputs (plain_strategy st) = st_outputs st"
  by (simp add: plain_strategy_def)

lemma execute_role_strategy:
  "map_sum (\<lambda>e. e) plain_result (execute_role env f outputs s t) = map_sum (\<lambda>e. e) plain_result (execute_role env f outputs s' t)"
  by (simp add: execute_role_def Let_def bind_res_def plain_result_def execution_entry_def split: sum.splits prod.splits)

lemma specialist_execute:
  assumes "is_specialist (snd t)"
    and "output_of o1 ''implementer'' = output_of o2 ''implementer''" "output_of o1 ''architect'' = output_of o2 ''architect''"
  shows "execute_role env f o1 s t = execute_role env f o2 s t"
proof -
  have "role_upstream_sections (snd t) o1 (pf_isolation (rf_prompt f)) = role_upstream_sections (snd t) o2 (pf_isolation (rf_prompt f))"
  proof (cases "pf_isolation (rf_prompt f) = ''scope_only''")
    case True
    moreover have "snd t \<notin> {''architect'', ''implementer''}" using assms(1) specialist_names by auto
    ultimately show ?thesis by (simp add: scope_only_sections)
  next
    case False
    then show ?thesis using assms by (auto intro!: specialist_sections)
  qed
  from sections_determine [OF this] show ?thesis by (simp add: execute_role_def)
qed

lemma output_of_dset: "role \<noteq> name \<Longrightarrow> output_of (dset role x outputs) name = output_of outputs name"
  by (simp add: output_of_def)

definition same_view :: "outputs \<Rightarrow> outputs \<Rightarrow> bool" where
  "same_view o1 o2 \<longleftrightarrow> output_of o1 ''implementer'' = output_of o2 ''implementer'' \<and>
     output_of o1 ''architect'' = output_of o2 ''architect''"

lemma same_view_absorb:
  assumes "is_specialist (rt_role r)" shows "same_view (st_outputs (absorb env r st)) (st_outputs st)"
proof -
  have "rt_role r \<noteq> ''implementer''" "rt_role r \<noteq> ''architect''" using assms specialist_names by metis+
  then show ?thesis by (simp add: same_view_def absorb_def apply_role_result_def output_of_dset)
qed

text \<open>A batch of specialists in the reference run: all results come from the outputs before it.\<close>

lemma reference_specialists:
  assumes "list_all specialist_task ts" and "same_view (st_outputs st) outputs"
  shows "run_reference env f h (ts @ us) st =
    (case all_results env f outputs ''serial'' ts of
       Some rs \<Rightarrow> if h \<and> \<not> list_all no_severe rs then None else run_reference env f h us (fold (absorb env) rs st)
     | None \<Rightarrow> None)"
  using assms
proof (induction ts arbitrary: st)
  case Nil
  then show ?case by (simp add: all_results_def)
next
  case (Cons t ts)
  have e: "execute_role env f (st_outputs st) ''serial'' t = execute_role env f outputs ''serial'' t"
    using Cons.prems by (intro specialist_execute) (simp_all add: same_view_def specialist_task_def)
  show ?case
  proof (cases "execute_role env f outputs ''serial'' t")
    case (Inl err)
    then show ?thesis by (simp add: e all_results_def)
  next
    case (Inr r)
    have "is_specialist (rt_role r)" using Cons.prems(1) execute_role_Inr [OF Inr] by (simp add: specialist_task_def)
    then have "same_view (st_outputs (absorb env r st)) outputs"
      using same_view_absorb [of r env st] Cons.prems(2) by (simp add: same_view_def)
    with Cons have ih: "run_reference env f h (ts @ us) (absorb env r st) =
      (case all_results env f outputs ''serial'' ts of
         Some rs \<Rightarrow> if h \<and> \<not> list_all no_severe rs then None
           else run_reference env f h us (fold (absorb env) rs (absorb env r st))
       | None \<Rightarrow> None)" by simp
    have "all_results env f outputs ''serial'' (t # ts) = map_option ((#) r) (all_results env f outputs ''serial'' ts)"
      by (simp add: all_results_def Inr)
    then show ?thesis by (auto simp: e Inr ih split: option.splits)
  qed
qed

lemma all_results_strategy:
  "map_option (map plain_result) (all_results env f outputs s ts) = map_option (map plain_result) (all_results env f outputs s' ts)"
proof -
  have i: "isl (execute_role env f outputs s t) = isl (execute_role env f outputs s' t)" for t
    using execute_role_strategy [of env f outputs s t s']
    by (cases "execute_role env f outputs s t"; cases "execute_role env f outputs s' t") auto
  have p: "plain_result (projr (execute_role env f outputs s t)) = plain_result (projr (execute_role env f outputs s' t))"
    if "\<not> isl (execute_role env f outputs s t)" for t
    using execute_role_strategy [of env f outputs s t s'] that i [of t]
    by (cases "execute_role env f outputs s t"; cases "execute_role env f outputs s' t") auto
  have "list_all (\<lambda>t. \<not> isl (execute_role env f outputs s t)) ts = list_all (\<lambda>t. \<not> isl (execute_role env f outputs s' t)) ts"
    by (simp add: i)
  then show ?thesis using p by (auto simp: all_results_def list_all_iff)
qed

lemma fold_absorb_plain:
  "plain_strategy (fold (absorb env) rs st) = fold (absorb env) (map plain_result rs) (plain_strategy st)"
  by (induction rs arbitrary: st) (simp_all add: absorb_plain)

lemma plain_idem [simp]: "plain_strategy (plain_strategy st) = plain_strategy st"
  by (simp add: plain_strategy_def o_def dset_same)

lemma reference_plain:
  "plain_strategy st = plain_strategy st' \<Longrightarrow>
     map_option plain_strategy (run_reference env f h ts st) = map_option plain_strategy (run_reference env f h ts st')"
proof (induction ts arbitrary: st st')
  case (Cons t ts)
  have o: "st_outputs st = st_outputs st'" using arg_cong [OF Cons.prems, of st_outputs] by simp
  show ?case
  proof (cases "execute_role env f (st_outputs st') ''serial'' t")
    case (Inr r)
    have "plain_strategy (absorb env r st) = plain_strategy (absorb env r st')" by (simp add: absorb_plain Cons.prems)
    note ih = Cons.IH [OF this]
    show ?thesis by (simp add: o Inr ih)
  qed (simp add: o)
qed simp

text \<open>The loop agrees with the reference run, whatever the settings.\<close>

lemma run_loop_reference:
  assumes "sorted_wrt (<) (map fst ts)"
  shows "completed (run_loop env f s ts st) = map_option plain_strategy (run_reference env f (rs_fail_on_high s) ts st)"
  using assms
proof (induction env f s ts st rule: run_loop.induct)
  case (1 env f s st)
  then show ?case by (simp add: completed_def)
next
  case (2 env f s t ts st)
  show ?case
  proof (cases "rs_parallel s \<and> specialist_task t")
    case True
    let ?b = "t # takeWhile specialist_task ts" and ?rest = "dropWhile specialist_task ts"
    have ts: "t # ts = ?b @ ?rest" by simp
    have sb: "sorted_wrt (<) (map fst ?b)" and sr: "sorted_wrt (<) (map fst ?rest)"
      using 2(3) by (metis map_append sorted_wrt_append ts)+
    have "list_all specialist_task ?b" using True by (auto simp: list_all_iff dest: set_takeWhileD)
    then have "run_reference env f (rs_fail_on_high s) (?b @ ?rest) st =
      (case all_results env f (st_outputs st) ''serial'' ?b of
         Some rs \<Rightarrow> if rs_fail_on_high s \<and> \<not> list_all no_severe rs then None
           else run_reference env f (rs_fail_on_high s) ?rest (fold (absorb env) rs st)
       | None \<Rightarrow> None)" by (rule reference_specialists) (simp add: same_view_def)
    then have ref: "run_reference env f (rs_fail_on_high s) (t # ts) st =
      (case all_results env f (st_outputs st) ''serial'' ?b of
         Some rs \<Rightarrow> if rs_fail_on_high s \<and> \<not> list_all no_severe rs then None
           else run_reference env f (rs_fail_on_high s) ?rest (fold (absorb env) rs st)
       | None \<Rightarrow> None)" by (simp only: ts [symmetric])
    note strat = all_results_strategy [of env f "st_outputs st" "''parallel''" ?b "''serial''"]
    show ?thesis
    proof (cases "all_results env f (st_outputs st) ''parallel'' ?b")
      case None
      then have "all_results env f (st_outputs st) ''serial'' ?b = None" using strat by simp
      moreover obtain x y where "run_batch env f s ?b st = (x, Some y)" using run_batch_fails [OF None] by blast
      ultimately show ?thesis using True by (subst run_loop.simps) (simp add: ref completed_def del: run_reference.simps(2))
    next
      case (Some rs)
      then obtain rs' where rs': "all_results env f (st_outputs st) ''serial'' ?b = Some rs'" "map plain_result rs = map plain_result rs'"
        using strat by (cases "all_results env f (st_outputs st) ''serial'' ?b") auto
      have sev: "list_all no_severe rs = list_all no_severe rs'"
      proof -
        have "list_all no_severe (map plain_result xs) = list_all no_severe xs" for xs by (simp add: list_all_iff)
        then show ?thesis using rs'(2) by metis
      qed
      have rb: "run_batch env f s ?b st = (fold (absorb env) rs st, gate (pe_rep env) (rs_fail_on_high s) rs)"
        using sb Some by (rule run_batch_ok)
      show ?thesis
      proof (cases "gate (pe_rep env) (rs_fail_on_high s) rs")
        case None
        then have ok: "\<not> (rs_fail_on_high s \<and> \<not> list_all no_severe rs')" using sev by (simp add: gate_None)
        have "run_loop env f s (t # ts) st = run_loop env f s ?rest (fold (absorb env) rs st)"
          using True rb None by (subst run_loop.simps) simp
        also have "completed \<dots> = map_option plain_strategy
            (run_reference env f (rs_fail_on_high s) ?rest (fold (absorb env) rs st))"
          using 2(1) [OF True rb [symmetric] None sr] by simp
        also have "\<dots> = map_option plain_strategy (run_reference env f (rs_fail_on_high s) ?rest (fold (absorb env) rs' st))"
          by (rule reference_plain) (simp add: fold_absorb_plain rs'(2))
        finally show ?thesis unfolding ref using ok by (simp only: rs'(1) option.case if_not_P split: if_splits) simp
      next
        case (Some stop)
        then have "rs_fail_on_high s \<and> \<not> list_all no_severe rs'"
          using sev gate_None [of "pe_rep env" "rs_fail_on_high s" rs] by auto
        then have "run_reference env f (rs_fail_on_high s) (t # ts) st = None"
          unfolding ref by (simp add: rs'(1))
        moreover have "completed (run_loop env f s (t # ts) st) = None"
          using True rb Some by (subst run_loop.simps) (simp add: completed_def)
        ultimately show ?thesis by (simp only: option.map)
      qed
    qed
  next
    case False
    have sr: "sorted_wrt (<) (map fst ts)" using 2(3) by simp
    have loop: "run_loop env f s (t # ts) st = (case run_serial env f s t st of
          (st', Some stop) \<Rightarrow> (st', Some stop) | (st', None) \<Rightarrow> run_loop env f s ts st')"
      using False by (subst run_loop.simps) (rule if_not_P)
    show ?thesis
    proof (cases "execute_role env f (st_outputs st) ''serial'' t")
      case (Inl e)
      then show ?thesis by (simp add: loop run_serial_def completed_def)
    next
      case (Inr r)
      then have rs: "run_serial env f s t st = (absorb env r st, gate (pe_rep env) (rs_fail_on_high s) [r])"
        by (simp add: run_serial_def absorb_def)
      show ?thesis
      proof (cases "gate (pe_rep env) (rs_fail_on_high s) [r]")
        case None
        then have "\<not> (rs_fail_on_high s \<and> \<not> no_severe r)" by (simp add: gate_None)
        then show ?thesis using 2(2) [OF False rs [symmetric] None sr] by (auto simp: loop rs None Inr)
      next
        case (Some stop)
        then have "rs_fail_on_high s \<and> \<not> no_severe r" using gate_None [of "pe_rep env" "rs_fail_on_high s" "[r]"] by auto
        moreover have "completed (run_loop env f s (t # ts) st) = None" by (simp only: loop rs Some) (simp add: completed_def)
        ultimately show ?thesis by (simp add: Inr)
      qed
    qed
  qed
qed

lemma reference_results:
  "run_reference env f h ts st = Some st' \<Longrightarrow>
     \<exists>rs. list_all2 (\<lambda>t r. \<exists>outputs. execute_role env f outputs ''serial'' t = Inr r) ts rs \<and>
       st' = fold (absorb env) rs st \<and> (h \<longrightarrow> list_all no_severe rs)"
proof (induction ts arbitrary: st)
  case (Cons t ts)
  then obtain r where r: "execute_role env f (st_outputs st) ''serial'' t = Inr r" "h \<longrightarrow> no_severe r"
      "run_reference env f h ts (absorb env r st) = Some st'"
    by (auto split: sum.splits if_splits)
  from Cons.IH [OF r(3)] obtain rs where
    "list_all2 (\<lambda>t r. \<exists>outputs. execute_role env f outputs ''serial'' t = Inr r) ts rs"
    "st' = fold (absorb env) rs (absorb env r st)" "h \<longrightarrow> list_all no_severe rs" by blast
  with r show ?case by (intro exI [of _ "r # rs"]) auto
qed simp

text \<open>What a completed loop has done.\<close>

lemma run_loop_completed:
  assumes "sorted_wrt (<) (map fst ts)" and "run_loop env f s ts st = (st', None)"
  obtains rs where "list_all2 (\<lambda>t r. \<exists>outputs. execute_role env f outputs ''serial'' t = Inr r) ts rs"
    "plain_strategy st' = plain_strategy (fold (absorb env) rs st)" "rs_fail_on_high s \<Longrightarrow> list_all no_severe rs"
proof -
  have "map_option plain_strategy (run_reference env f (rs_fail_on_high s) ts st) = Some (plain_strategy st')"
    using run_loop_reference [OF assms(1), of env f s st] by (simp add: completed_def assms(2))
  then obtain st2 where "run_reference env f (rs_fail_on_high s) ts st = Some st2" "plain_strategy st2 = plain_strategy st'"
    by auto
  from reference_results [OF this(1)] obtain rs where
    rs: "list_all2 (\<lambda>t r. \<exists>outputs. execute_role env f outputs ''serial'' t = Inr r) ts rs"
      "st2 = fold (absorb env) rs st" "rs_fail_on_high s \<longrightarrow> list_all no_severe rs" by blast
  from rs(1) \<open>plain_strategy st2 = plain_strategy st'\<close> [symmetric, unfolded rs(2)] show ?thesis
    by (rule that) (use rs(3) in blast)
qed

lemma plain_strategy_fields:
  assumes "plain_strategy st = plain_strategy st'"
  shows "st_artifacts st = st_artifacts st'" "st_files st = st_files st'"
    "map (\<lambda>e. dget e ''role'') (st_execution st) = map (\<lambda>e. dget e ''role'') (st_execution st')"
proof -
  show "st_artifacts st = st_artifacts st'" "st_files st = st_files st'"
    using arg_cong [OF assms, of st_artifacts] arg_cong [OF assms, of st_files] by (simp_all add: plain_strategy_def)
  have r: "map (\<lambda>e. dget e ''role'') (map (dset ''strategy'' PNone) es) = map (\<lambda>e. dget e ''role'') es" for es by simp
  have "map (dset ''strategy'' PNone) (st_execution st) = map (dset ''strategy'' PNone) (st_execution st')"
    using arg_cong [OF assms, of st_execution] by (simp add: plain_strategy_def)
  then show "map (\<lambda>e. dget e ''role'') (st_execution st) = map (\<lambda>e. dget e ''role'') (st_execution st')"
    using r by metis
qed

lemma execute_role_roles:
  assumes "execute_role env f outputs strategy t = Inr r"
  shows "dget (rt_execution r) ''role'' = PStr (snd t)"
  using assms by (auto simp: execute_role_def Let_def bind_res_eq_Inr execution_entry_def dget_def)

lemma results_roles:
  "list_all2 (\<lambda>t r. \<exists>outputs. execute_role env f outputs ''serial'' t = Inr r) ts rs \<Longrightarrow>
     map rt_role rs = map snd ts \<and> map rt_index rs = map fst ts"
  by (induction rule: list_all2_induct) (auto dest: execute_role_Inr)

lemma fold_absorb_fields:
  assumes "list_all2 (\<lambda>t r. \<exists>outputs. execute_role env f outputs ''serial'' t = Inr r) ts rs"
    and "distinct (map fst (st_artifacts st) @ map snd ts)"
  shows "map (\<lambda>e. dget e ''role'') (st_execution (fold (absorb env) rs st)) =
      map (\<lambda>e. dget e ''role'') (st_execution st) @ map (PStr \<circ> snd) ts \<and>
    st_files (fold (absorb env) rs st) = fold (write_result env) rs (st_files st) \<and>
    st_artifacts (fold (absorb env) rs st) = st_artifacts st @ map (\<lambda>r. (rt_role r, rt_path r)) rs"
  using assms
proof (induction arbitrary: st rule: list_all2_induct)
  case Nil
  then show ?case by simp
next
  case (Cons t ts r rs)
  then obtain outputs where r: "execute_role env f outputs ''serial'' t = Inr r" by blast
  have role: "rt_role r = snd t" using execute_role_Inr [OF r] by simp
  have "map_of (st_artifacts st) (rt_role r) = None" using Cons.prems by (auto simp: map_of_eq_None_iff role)
  then have a: "st_artifacts (absorb env r st) = st_artifacts st @ [(rt_role r, rt_path r)]"
    by (simp add: absorb_def apply_role_result_def dset_absent)
  have e: "st_execution (absorb env r st) = st_execution st @ [rt_execution r]"
    "st_files (absorb env r st) = write_result env r (st_files st)"
    by (simp_all add: absorb_def apply_role_result_def)
  have "distinct (map fst (st_artifacts (absorb env r st)) @ map snd ts)" using Cons.prems by (auto simp: a role)
  from Cons.IH [OF this] show ?case by (simp add: a e role execute_role_roles [OF r])
qed

lemma write_mono: "dom fs \<subseteq> dom (write_file cwd s c fs)"
  by (auto simp: write_file_def)

lemma write_mono_trans: "D \<subseteq> dom fs \<Longrightarrow> D \<subseteq> dom (write_file cwd s c fs)"
  using write_mono by (rule subset_trans [rotated])

lemma fold_write_mono: "dom fs \<subseteq> dom (fold (write_result env) rs fs)"
proof (induction rs arbitrary: fs)
  case (Cons r rs)
  have "dom fs \<subseteq> dom (write_result env r fs)" unfolding write_result_def by (rule write_mono)
  with Cons [of "write_result env r fs"] show ?case by simp
qed simp

lemma fold_write_present: "r \<in> set rs \<Longrightarrow> resolve (pe_cwd env) (rt_path r) \<in> dom (fold (write_result env) rs fs)"
proof (induction rs arbitrary: fs)
  case (Cons q rs)
  have "resolve (pe_cwd env) (rt_path q) \<in> dom (write_result env q fs)" by (simp add: write_result_def write_file_def)
  then show ?case using Cons fold_write_mono [of "write_result env q fs" env rs] by (cases "r = q") auto
qed simp

lemma fold_write_text:
  assumes "r \<in> set rs" and "distinct (map (\<lambda>r. resolve (pe_cwd env) (rt_path r)) rs)"
  shows "fold (write_result env) rs fs (resolve (pe_cwd env) (rt_path r)) = Some (rt_text r)"
proof -
  have other: "fold (write_result env) rs fs x = fs x" if "x \<notin> (\<lambda>r. resolve (pe_cwd env) (rt_path r)) ` set rs" for rs fs x
    using that by (induction rs arbitrary: fs) (auto simp: write_result_def write_file_def)
  show ?thesis using assms
  proof (induction rs arbitrary: fs)
    case (Cons q rs)
    show ?case
    proof (cases "r = q")
      case True
      with Cons.prems have "resolve (pe_cwd env) (rt_path r) \<notin> (\<lambda>r. resolve (pe_cwd env) (rt_path r)) ` set rs" by simp
      then show ?thesis using True by (simp add: other) (simp add: write_result_def write_file_def)
    qed (use Cons in simp)
  qed simp
qed

section \<open>What is written last\<close>

definition run_file_names :: "string list" where
  "run_file_names = [''ese_summary.md'', ''pipeline_state.json'', ''code_suggestions.json'', ''code_suggestions.md'',
     ''release_simulation.json'']"

lemma run_file_names_ok: "list_all component_ok run_file_names"
  by (simp add: run_file_names_def component_ok_def)

lemma write_other: "component_ok name \<Longrightarrow> x \<noteq> resolve cwd dir @ [name] \<Longrightarrow> write_file cwd (path_join dir name) c fs x = fs x"
  by (simp add: write_file_def resolve_path_join)

definition derived_names :: "string list" where
  "derived_names = [''code_suggestions.json'', ''code_suggestions.md'', ''release_simulation.json'']"

lemma derived_artifacts_other:
  assumes "\<And>r fs. write r fs x = fs x" shows "snd (derived_artifacts env dir write fs) x = fs x"
  using assms by (auto simp: derived_artifacts_def split: sum.splits err.splits)

lemma derived_other:
  assumes "\<And>name. name \<in> set derived_names \<Longrightarrow> x \<noteq> resolve (pe_cwd env) dir @ [name]"
  shows "snd (write_code_suggestion_artifacts env dir fs) x = fs x"
    and "snd (write_release_simulation_artifact env dir fs) x = fs x"
  using assms unfolding write_code_suggestion_artifacts_def write_release_simulation_artifact_def
  by (intro derived_artifacts_other; simp add: Let_def write_other derived_names_def component_ok_def)+

lemma derived_artifacts_mono:
  assumes "\<And>r fs. dom fs \<subseteq> dom (write r fs)" shows "dom fs \<subseteq> dom (snd (derived_artifacts env dir write fs))"
  using assms by (simp add: derived_artifacts_def split: sum.splits err.splits)

lemma derived_mono:
  "dom fs \<subseteq> dom (snd (write_code_suggestion_artifacts env dir fs))"
  "dom fs \<subseteq> dom (snd (write_release_simulation_artifact env dir fs))"
  unfolding write_code_suggestion_artifacts_def write_release_simulation_artifact_def
  by (intro derived_artifacts_mono; simp add: Let_def write_mono_trans)+

lemma persist_files:
  "snd (persist_run_outputs env i st status failed failure) =
     (let fs1 = snd (write_summary_and_state env i st status failed failure);
          x2 = write_code_suggestion_artifacts env (ro_dir i) fs1 in
      case fst x2 of Inl e \<Rightarrow> snd x2 | Inr u \<Rightarrow> snd (write_release_simulation_artifact env (ro_dir i) (snd x2)))"
  by (simp add: persist_run_outputs_def Let_def split: prod.splits sum.splits)

lemma persist_mono: "dom (st_files st) \<subseteq> dom (snd (persist_run_outputs env i st status failed failure))"
proof -
  have "dom (st_files st) \<subseteq> dom (snd (write_summary_and_state env i st status failed failure))"
    by (simp add: write_summary_and_state_def Let_def write_mono_trans)
  then show ?thesis unfolding persist_files Let_def
    using derived_mono by (simp split: sum.splits) (meson subset_trans)
qed

lemma persist_other:
  assumes "\<And>name. name \<in> set run_file_names \<Longrightarrow> x \<noteq> resolve (pe_cwd env) (ro_dir i) @ [name]"
  shows "snd (persist_run_outputs env i st status failed failure) x = st_files st x"
proof -
  have d: "x \<noteq> resolve (pe_cwd env) (ro_dir i) @ [name]" if "name \<in> set derived_names" for name
    using that assms by (auto simp: derived_names_def run_file_names_def)
  have "snd (write_summary_and_state env i st status failed failure) x = st_files st x"
    using assms by (simp add: write_summary_and_state_def Let_def write_other run_file_names_def component_ok_def)
  then show ?thesis unfolding persist_files Let_def by (simp add: derived_other [OF d] split: sum.splits)
qed

lemma persist_state:
  "snd (persist_run_outputs env i st status failed failure) (resolve (pe_cwd env) (ro_dir i) @ [''pipeline_state.json'']) =
     Some (json_pretty (pe_float env) (PDict (state_payload i st status failed failure)) @ [newline])"
proof -
  let ?x = "resolve (pe_cwd env) (ro_dir i) @ [''pipeline_state.json'']"
  have d: "?x \<noteq> resolve (pe_cwd env) (ro_dir i) @ [name]" if "name \<in> set derived_names" for name
    using that by (auto simp: derived_names_def)
  have "snd (write_summary_and_state env i st status failed failure) ?x =
      Some (json_pretty (pe_float env) (PDict (state_payload i st status failed failure)) @ [newline])"
    by (simp add: write_summary_and_state_def Let_def write_file_def resolve_path_join component_ok_def)
  then show ?thesis unfolding persist_files Let_def by (simp add: derived_other [OF d] split: sum.splits)
qed

section \<open>Resumed state\<close>

definition seeded_ok :: "pipeline_env \<Rightarrow> string \<Rightarrow> run_state \<Rightarrow> bool" where
  "seeded_ok env dir st \<longleftrightarrow> (\<forall>(role, p) \<in> set (st_artifacts st).
     prefix (resolve (pe_cwd env) dir) (resolve (pe_cwd env) p) \<and> map_of (st_outputs st) role \<noteq> None \<and>
     st_files st (resolve (pe_cwd env) p) = map_of (st_outputs st) role)"

lemma seed_role_Inr:
  assumes "seed_role env cfg dir state artifacts role st = Inr st'" and "path_ok (pe_cwd env)"
  obtains p contents model entry where
    "st' = st\<lparr>st_outputs := dset role contents (st_outputs st), st_artifacts := dset role p (st_artifacts st),
              st_models := dset role model (st_models st), st_execution := st_execution st @ [entry]\<rparr>"
    "prefix (resolve (pe_cwd env) dir) (resolve (pe_cwd env) p)" "st_files st (resolve (pe_cwd env) p) = Some contents"
    "dget entry ''role'' = PStr role"
proof -
  obtain ref where ref: "dget artifacts role = PStr ref" "strip ref \<noteq> []"
    using assms(1) by (cases "dget artifacts role") (auto simp: seed_role_def split: if_splits)
  define x where "x = (if is_abs ref then ref else path_join dir ref)"
  obtain p contents model0 where p: "ensure_artifact_within_dir (pe_cwd env) dir x = Inr p"
      "read_file (pe_cwd env) p (st_files st) = Some contents" and
    st': "st' = st\<lparr>st_outputs := dset role contents (st_outputs st), st_artifacts := dset role p (st_artifacts st),
       st_models := dset role (saved_model state role model0) (st_models st), st_execution := st_execution st @
         [dset ''strategy'' (PStr ''seeded'') (dset ''artifact'' (PStr p) (dset ''model'' (PStr (saved_model state role model0))
            (dset ''role'' (PStr role)
              (case map_of (execution_by_role (pe_rep env) (elems_of (dget state ''execution'')) []) role of None \<Rightarrow> [] | Some d \<Rightarrow> d))))]\<rparr>"
    using assms(1) ref by (auto simp: seed_role_def Let_def bind_res_eq_Inr x_def split: option.splits)
  have pe: "p = path_str (resolve (pe_cwd env) x)" "prefix (resolve (pe_cwd env) dir) (resolve (pe_cwd env) x)"
    using p(1) by (auto simp: ensure_artifact_within_dir_def split: if_splits)
  show ?thesis
  proof (rule that [OF st'])
    show "prefix (resolve (pe_cwd env) dir) (resolve (pe_cwd env) p)" using pe assms(2) by (simp add: resolve_idem)
    show "st_files st (resolve (pe_cwd env) p) = Some contents" using p(2) by (simp add: read_file_def)
  qed simp
qed

lemma seed_roles_ok:
  assumes "seed_roles env cfg dir state artifacts roles st = Inr st'" and "path_ok (pe_cwd env)"
    and "seeded_ok env dir st" and "distinct (map fst (st_artifacts st) @ roles)"
  shows "seeded_ok env dir st' \<and> st_files st' = st_files st \<and> map fst (st_artifacts st') = map fst (st_artifacts st) @ roles \<and>
    map (\<lambda>e. dget e ''role'') (st_execution st') = map (\<lambda>e. dget e ''role'') (st_execution st) @ map PStr roles"
  using assms
proof (induction roles arbitrary: st)
  case (Cons role roles)
  then obtain st1 where s1: "seed_role env cfg dir state artifacts role st = Inr st1"
      "seed_roles env cfg dir state artifacts roles st1 = Inr st'"
    by (auto simp: bind_res_eq_Inr)
  obtain p contents model entry where
    st1: "st1 = st\<lparr>st_outputs := dset role contents (st_outputs st), st_artifacts := dset role p (st_artifacts st),
              st_models := dset role model (st_models st), st_execution := st_execution st @ [entry]\<rparr>"
    and p: "prefix (resolve (pe_cwd env) dir) (resolve (pe_cwd env) p)" "st_files st (resolve (pe_cwd env) p) = Some contents"
    and e: "dget entry ''role'' = PStr role"
    by (rule seed_role_Inr [OF s1(1) Cons.prems(2)])
  have fresh: "role \<notin> fst ` set (st_artifacts st)" using Cons.prems(4) by auto
  then have a: "st_artifacts st1 = st_artifacts st @ [(role, p)]" by (simp add: st1 dset_absent map_of_eq_None_iff)
  have ok: "seeded_ok env dir st1"
    unfolding seeded_ok_def
  proof (clarify, intro conjI)
    fix r q assume "(r, q) \<in> set (st_artifacts st1)"
    then consider "r = role" "q = p" | "(r, q) \<in> set (st_artifacts st)" "r \<noteq> role" using fresh by (auto simp: a image_iff)
    note cases = this
    then show "prefix (resolve (pe_cwd env) dir) (resolve (pe_cwd env) q)"
      using p Cons.prems(3) by cases (auto simp: seeded_ok_def)
    from cases show "map_of (st_outputs st1) r \<noteq> None"
      using Cons.prems(3) by cases (auto simp: st1 seeded_ok_def)
    from cases show "st_files st1 (resolve (pe_cwd env) q) = map_of (st_outputs st1) r"
      using p Cons.prems(3) by cases (auto simp: st1 seeded_ok_def)
  qed
  have "distinct (map fst (st_artifacts st1) @ roles)" using Cons.prems(4) by (auto simp: a)
  from Cons.IH [OF s1(2) Cons.prems(2) ok this] show ?case by (simp add: a) (simp add: st1 e)
qed simp

lemma index_of_less: "x \<in> set xs \<Longrightarrow> index_of xs x < length xs"
  by (induction xs) auto

lemma load_resume_ok:
  assumes "load_resume_state env cfg dir order start fs = Inr (index, st, parent)"
    and "path_ok (pe_cwd env)" and "distinct order"
  shows "seeded_ok env dir st \<and> st_files st = fs \<and> index \<le> length order \<and> map fst (st_artifacts st) = take index order \<and>
    map (\<lambda>e. dget e ''role'') (st_execution st) = map PStr (take index order)"
proof -
  have fresh: "seeded_ok env dir (fresh_state fs)" "st_files (fresh_state fs) = fs" "st_artifacts (fresh_state fs) = []"
    "st_execution (fresh_state fs) = []"
    by (simp_all add: seeded_ok_def fresh_state_def)
  consider "index = 0" "st = fresh_state fs"
    | state artifacts where "index = index_of order (strip (the start))" "strip (the start) \<in> set order"
        "seed_roles env cfg dir state artifacts (take index order) (fresh_state fs) = Inr st"
    using assms(1) by (auto simp: load_resume_state_def Let_def bind_res_eq_Inr split: if_splits option.splits pv.splits)
  then show ?thesis
  proof cases
    case 1
    then show ?thesis by (simp add: fresh)
  next
    case (2 state artifacts)
    have "distinct (map fst (st_artifacts (fresh_state fs)) @ take index order)" using assms(3) by (simp add: fresh)
    from seed_roles_ok [OF 2(3) assms(2) fresh(1) this] index_of_less [OF 2(2)] show ?thesis
      by (simp add: fresh 2(1))
  qed
qed

definition resume_env :: pipeline_env where
  "resume_env = \<lparr>pe_reports = \<lparr>rv_rep = (\<lambda>_. []), rv_cwd = [], rv_updated = (\<lambda>_. ''t''), rv_previous = (\<lambda>_ _. None)\<rparr>,
     pe_float = (\<lambda>_. []), pe_builtin = (\<lambda>_. None), pe_import = (\<lambda>m obj. Inl (PipelineError ''no module'')),
     pe_started = (\<lambda>_. 0), pe_completed = (\<lambda>_. 0), pe_utc = (\<lambda>_. ''t''), pe_yaml = (\<lambda>_. []), pe_run_id = ''id''\<rparr>"

definition resume_config :: dict where
  "resume_config = [(''provider'', PDict [(''name'', PStr ''p''), (''model'', PStr ''m'')])]"

definition resume_files :: files where
  "resume_files = map_of
     [([''r'', ''pipeline_state.json''], json_compact (\<lambda>_. []) (PDict
        [(''run_id'', PStr ''i''), (''artifacts'', PDict [(''architect'', PStr ''01_architect.md'')])])),
      ([''r'', ''01_architect.md''], ''plan'')]"

lemma resume_files_load:
  "case load_resume_state resume_env resume_config ''/r'' [''architect'', ''implementer''] (Some '' implementer '') resume_files of
     Inr (index, st, parent) \<Rightarrow> index = 1 | Inl e \<Rightarrow> False"
  by code_simp

text \<open>C12: A resumed run reads its own directory only: every artifact a resumption seeds lies, dots resolved,
  inside the artifacts directory, is present, and its text is the output later roles see.\<close>

theorem resume_stays_inside:
  assumes "load_resume_state env cfg dir order start fs = Inr (index, st, parent)"
    and "path_ok (pe_cwd env)" and "distinct order"
  shows "map fst (st_artifacts st) = take index order \<and>
    (\<forall>(role, p) \<in> set (st_artifacts st).
       prefix (resolve (pe_cwd env) dir) (resolve (pe_cwd env) p) \<and>
       (\<exists>text. fs (resolve (pe_cwd env) p) = Some text \<and> map_of (st_outputs st) role = Some text))"
  using load_resume_ok [OF assms] by (force simp: seeded_ok_def)

theorem resume_stays_inside_witness:
  "\<exists>index st parent. load_resume_state resume_env resume_config ''/r'' [''architect'', ''implementer''] (Some '' implementer '') resume_files =
      Inr (index, st, parent) \<and> map fst (st_artifacts st) = [''architect'']"
proof -
  obtain index st parent where r: "load_resume_state resume_env resume_config ''/r'' [''architect'', ''implementer'']
      (Some '' implementer '') resume_files = Inr (index, st, parent)" "index = 1"
    using resume_files_load by (auto split: sum.splits)
  have "path_ok (pe_cwd resume_env)" "distinct [''architect'', ''implementer'']" by (simp_all add: resume_env_def)
  from resume_stays_inside [OF r(1) this] r show ?thesis by auto
qed

section \<open>Parallel and serial runs\<close>

lemma tasks_from_facts:
  "map snd (tasks_from index order) = drop index order" "sorted_wrt (<) (map fst (tasks_from index order))"
proof -
  show "map snd (tasks_from index order) = drop index order" by (simp add: tasks_from_def drop_map [symmetric])
  have "map fst (tasks_from index order) = drop index [1..<Suc (length order)]" by (simp add: tasks_from_def drop_map [symmetric])
  then show "sorted_wrt (<) (map fst (tasks_from index order))" by (simp only: drop_upt sorted_wrt_upt)
qed

text \<open>C9: Parallel execution is an optimisation only: whichever of the two modes is configured, the roles of an order
  (from any start index and state) complete in both or in neither, and then leave the same outputs,
  artifacts, models and files and the same execution entries up to the recorded strategy.\<close>

theorem parallel_run_equals_serial_run:
  "completed (run_loop env f (s\<lparr>rs_parallel := True\<rparr>) (tasks_from index order) st) =
     completed (run_loop env f (s\<lparr>rs_parallel := False\<rparr>) (tasks_from index order) st)"
  by (simp add: run_loop_reference [OF tasks_from_facts(2)])

end
