(* ===== verification/Pipeline_Completion.thy ===== *)
theory Pipeline_Completion
  imports Pipeline_Outcome
begin

text \<open>
  What a completed run leaves behind: its record, the gate every report passed, and, for runs in a relative directory,
  a record that the code itself cannot read again. A run of two roles shows that the hypotheses hold.
\<close>

section \<open>Completed runs\<close>

lemma run_pipeline_Inr:
  assumes "run_pipeline env cfg artifacts_dir start fs = (Inr summary, fs')"
  obtains provider scope order info frame settings index st st' where
    "prepare_run cfg = Inr (provider, scope, order)"
    "configure_run env cfg (resolve_artifacts_dir cfg artifacts_dir) start provider scope order
       (write_file (pe_cwd env) (path_join (resolve_artifacts_dir cfg artifacts_dir) ''ese_config.snapshot.yaml'') (pe_yaml env cfg) fs) =
       Inr (info, frame, settings, index, st)"
    "run_loop env frame settings (tasks_from index order) st = (st', None)"
    "persist_run_outputs env info st' ''completed'' [] None = (Inr summary, fs')"
proof -
  from assms show ?thesis
    by (auto simp: run_pipeline_def Let_def bind_res_def split: sum.splits prod.splits option.splits intro: that)
qed

lemma configure_run_Inr:
  assumes "configure_run env cfg dir start provider scope order fs = Inr (info, frame, settings, index, st)"
  shows "(\<exists>parent. load_resume_state env cfg dir order start fs = Inr (index, st, parent)) \<and> ro_dir info = dir \<and>
    rf_dir frame = dir \<and> rs_fail_on_high settings = gating_cfg cfg \<and> pf_json (rf_prompt frame) = snd (output_cfg cfg)"
  using assms by (auto simp: configure_run_def Let_def bind_res_eq_Inr split: prod.splits)

lemma prepare_run_order: "prepare_run cfg = Inr (provider, scope, order) \<Longrightarrow> normalize_role_order cfg = Inr order"
  by (auto simp: prepare_run_def bind_res_eq_Inr split: if_splits)

text \<open>C10: A completed run is recorded once per role: the state file says completed, and, resumed or not, its execution
  and its artifacts name the roles of the order, each once and in that order, with every recorded artifact
  present among the files.\<close>

theorem completed_run_is_recorded:
  assumes "run_pipeline env cfg artifacts_dir start fs = (Inr summary, fs')"
    and "path_ok (pe_cwd env)" and "normalize_role_order cfg = Inr order" and "distinct order"
  shows "\<exists>payload artifacts.
    fs' (resolve (pe_cwd env) (resolve_artifacts_dir cfg artifacts_dir) @ [''pipeline_state.json'']) =
      Some (json_pretty (pe_float env) (PDict payload) @ [newline]) \<and>
    dget payload ''status'' = PStr ''completed'' \<and>
    map (\<lambda>e. dget (items_of e) ''role'') (elems_of (dget payload ''execution'')) = map PStr order \<and>
    dget payload ''artifacts'' = PDict artifacts \<and> map fst artifacts = order \<and>
    (\<forall>(role, v) \<in> set artifacts. \<exists>p. v = PStr p \<and> resolve (pe_cwd env) p \<in> dom fs')"
proof -
  let ?dir = "resolve_artifacts_dir cfg artifacts_dir"
  let ?fs1 = "write_file (pe_cwd env) (path_join ?dir ''ese_config.snapshot.yaml'') (pe_yaml env cfg) fs"
  from assms(1) obtain provider scope order' info frame settings index st st' where
    r: "prepare_run cfg = Inr (provider, scope, order')"
      "configure_run env cfg ?dir start provider scope order' ?fs1 = Inr (info, frame, settings, index, st)"
      "run_loop env frame settings (tasks_from index order') st = (st', None)"
      "persist_run_outputs env info st' ''completed'' [] None = (Inr summary, fs')"
    by (rule run_pipeline_Inr)
  have order: "order' = order" using prepare_run_order [OF r(1)] assms(3) by simp
  obtain parent where c: "load_resume_state env cfg ?dir order start ?fs1 = Inr (index, st, parent)" "ro_dir info = ?dir"
    using configure_run_Inr [OF r(2)] order by auto
  note seeded = load_resume_ok [OF c(1) assms(2,4)]
  let ?ts = "tasks_from index order"
  have r3: "run_loop env frame settings ?ts st = (st', None)" using r(3) order by simp
  obtain rs where rs: "list_all2 (\<lambda>t r. \<exists>outputs. execute_role env frame outputs ''serial'' t = Inr r) ?ts rs"
      "plain_strategy st' = plain_strategy (fold (absorb env) rs st)"
    by (rule run_loop_completed [OF tasks_from_facts(2) r3]) (rule that)
  have d: "distinct (map fst (st_artifacts st) @ map snd ?ts)"
    using seeded assms(4) by (simp add: tasks_from_facts flip: distinct_append)
  note f = fold_absorb_fields [OF rs(1) d] and p = plain_strategy_fields [OF rs(2)]
  have arts: "st_artifacts st' = st_artifacts st @ map (\<lambda>r. (rt_role r, rt_path r)) rs" using f p(1) by simp
  have files: "st_files st' = fold (write_result env) rs (st_files st)" using f p(2) by simp
  have keys: "map fst (st_artifacts st') = order"
    using seeded results_roles [OF rs(1)] by (simp add: arts o_def tasks_from_facts)
  have exec: "map (\<lambda>e. dget e ''role'') (st_execution st') = map PStr order"
  proof -
    have "map (PStr \<circ> snd) ?ts = map PStr (drop index order)" by (simp only: tasks_from_facts(1) [symmetric] map_map)
    moreover have "map (\<lambda>e. dget e ''role'') (st_execution st') = map PStr (take index order) @ map (PStr \<circ> snd) ?ts"
      using f p(3) seeded by simp
    ultimately show ?thesis by (simp only: map_append [symmetric] append_take_drop_id)
  qed
  have present: "resolve (pe_cwd env) q \<in> dom fs'" if mem: "(role, q) \<in> set (st_artifacts st')" for role q
  proof -
    have "resolve (pe_cwd env) q \<in> dom (st_files st')"
    proof (cases "(role, q) \<in> set (st_artifacts st)")
      case True
      then have "resolve (pe_cwd env) q \<in> dom (st_files st)" using seeded by (auto simp: seeded_ok_def)
      then show ?thesis using fold_write_mono [of "st_files st" env rs] unfolding files by blast
    next
      case False
      then obtain x where "x \<in> set rs" "q = rt_path x" using mem by (auto simp: arts)
      then show ?thesis using fold_write_present [of x rs env "st_files st"] by (simp only: files)
    qed
    moreover have "dom (st_files st') \<subseteq> dom fs'"
      using persist_mono [of st' env info "''completed''" "[]" None] by (simp add: r(4))
    ultimately show ?thesis by blast
  qed
  let ?payload = "state_payload info st' ''completed'' [] None"
  have f1: "fs' (resolve (pe_cwd env) ?dir @ [''pipeline_state.json'']) = Some (json_pretty (pe_float env) (PDict ?payload) @ [newline])"
    using persist_state [of env info st' "''completed''" "[]" None] by (simp add: r(4) c(2))
  have f2: "dget ?payload ''status'' = PStr ''completed''" "dget ?payload ''execution'' = PList (map PDict (st_execution st'))"
      "dget ?payload ''artifacts'' = PDict (map (apsnd PStr) (st_artifacts st'))"
    by (simp_all add: state_payload_def dget_def)
  have f3: "map (\<lambda>e. dget (items_of e) ''role'') (elems_of (dget ?payload ''execution'')) = map PStr order"
    using exec by (simp add: f2 o_def)
  have f4: "map fst (map (apsnd PStr) (st_artifacts st')) = order" using keys by (simp add: o_def)
  have f5: "\<forall>(role, v) \<in> set (map (apsnd PStr) (st_artifacts st')). \<exists>p. v = PStr p \<and> resolve (pe_cwd env) p \<in> dom fs'"
    using present by auto
  show ?thesis
    by (intro exI [of _ ?payload] exI [of _ "map (apsnd PStr) (st_artifacts st')"] conjI) (fact f1 f2(1) f3 f2(3) f4 f5)+
qed

lemma digit_not_run_file:
  assumes "name \<in> set run_file_names" shows "name \<noteq> artifact_name i role ext"
proof -
  have "list_all (\<lambda>n. \<not> is_digit (hd n)) run_file_names" by code_simp
  moreover have "is_digit (hd (artifact_name i role ext))"
    using nat_str_digits [of i] padded_plain(3) [of i]
    by (cases "nat_str i") (auto simp: artifact_name_padded padded_def is_digit_def digit_code_def)
  ultimately show ?thesis using assms by (auto simp: list_all_iff)
qed

lemma json_result:
  assumes "execute_role env f outputs strategy t = Inr r" and "pf_json (rf_prompt f)"
  shows "\<exists>report. rt_report r = Some report \<and> rt_text r = json_pretty (pe_float env) (PDict report) @ [newline]"
  using assms by (auto simp: execute_role_def render_role_output_def Let_def bind_res_eq_Inr)

text \<open>C3: The gate holds: when reports are structured and severe findings gate, every role of a run that completes from
  the start left the artifact of its own report, and none of these reports has a finding of high or
  critical severity (for distinct role names without a slash).\<close>

theorem completed_run_passed_the_gate:
  assumes "run_pipeline env cfg artifacts_dir None fs = (Inr summary, fs')"
    and "path_ok (pe_cwd env)" and "normalize_role_order cfg = Inr order" and "distinct order"
    and "list_all plain_role order" and "gating_cfg cfg" and "snd (output_cfg cfg)"
  shows "\<forall>t \<in> set (tasks_from 0 order). \<exists>report.
    fs' (artifact_file_of (pe_cwd env) (resolve_artifacts_dir cfg artifacts_dir) True t) =
      Some (json_pretty (pe_float env) (PDict report) @ [newline]) \<and> high_severity_findings report = []"
proof
  let ?dir = "resolve_artifacts_dir cfg artifacts_dir"
  let ?fs1 = "write_file (pe_cwd env) (path_join ?dir ''ese_config.snapshot.yaml'') (pe_yaml env cfg) fs"
  from assms(1) obtain provider scope order' info frame settings index st st' where
    r: "prepare_run cfg = Inr (provider, scope, order')"
      "configure_run env cfg ?dir None provider scope order' ?fs1 = Inr (info, frame, settings, index, st)"
      "run_loop env frame settings (tasks_from index order') st = (st', None)"
      "persist_run_outputs env info st' ''completed'' [] None = (Inr summary, fs')"
    by (rule run_pipeline_Inr)
  have order: "order' = order" using prepare_run_order [OF r(1)] assms(3) by simp
  note c = configure_run_Inr [OF r(2)]
  then have index: "index = 0" "st = fresh_state ?fs1" by (auto simp: load_resume_state_def given_def)
  let ?ts = "tasks_from 0 order"
  have r3: "run_loop env frame settings ?ts st = (st', None)" using r(3) by (simp add: order index)
  obtain rs where rs: "list_all2 (\<lambda>t r. \<exists>outputs. execute_role env frame outputs ''serial'' t = Inr r) ?ts rs"
      "plain_strategy st' = plain_strategy (fold (absorb env) rs st)" "list_all no_severe rs"
    by (rule run_loop_completed [OF tasks_from_facts(2) r3]) (rule that, use c assms(6) in auto)
  have at: "resolve (pe_cwd env) (rt_path x) = artifact_file_of (pe_cwd env) ?dir True t"
    if "t \<in> set ?ts" "\<exists>outputs. execute_role env frame outputs ''serial'' t = Inr x" for t x
  proof -
    have "snd t \<in> set order" using that(1) tasks_from_facts(1) [of 0 order] by (metis drop0 image_eqI list.set_map)
    then have "plain_role (snd t)" using assms(5) by (simp add: list_all_iff)
    with that(2) show ?thesis using artifact_resolve c assms(7) by fastforce
  qed
  have paths: "map (\<lambda>x. resolve (pe_cwd env) (rt_path x)) rs = map (artifact_file_of (pe_cwd env) ?dir True) ?ts"
  proof -
    have "list_all2 (\<lambda>t x. resolve (pe_cwd env) (rt_path x) = artifact_file_of (pe_cwd env) ?dir True t) ?ts rs"
      using rs(1) at by (auto simp: list_all2_conv_all_nth)
    then show ?thesis by (induction rule: list_all2_induct) auto
  qed
  have "distinct (map fst ?ts)" using tasks_from_facts(2) by (simp add: strict_sorted_iff)
  then have "distinct (map (artifact_file_of (pe_cwd env) ?dir True) ?ts)"
    by (auto simp: distinct_map inj_on_def dest!: artifact_file_inj)
  then have d: "distinct (map (\<lambda>x. resolve (pe_cwd env) (rt_path x)) rs)" by (simp only: paths)
  have files: "st_files st' = fold (write_result env) rs ?fs1"
    using plain_strategy_fields(2) [OF rs(2)] fold_absorb_fields [OF rs(1), of st] assms(4)
    by (simp add: index(2) fresh_state_def tasks_from_facts)
  fix t assume t: "t \<in> set ?ts"
  then obtain k where "k < length ?ts" "t = ?ts ! k" by (auto simp: in_set_conv_nth)
  then have "rs ! k \<in> set rs" "\<exists>outputs. execute_role env frame outputs ''serial'' t = Inr (rs ! k)"
    using rs(1) by (auto simp: list_all2_conv_all_nth)
  then obtain x where x: "x \<in> set rs" "\<exists>outputs. execute_role env frame outputs ''serial'' t = Inr x" by blast
  then obtain report where rep: "rt_report x = Some report" "rt_text x = json_pretty (pe_float env) (PDict report) @ [newline]"
    using json_result c assms(7) by metis
  have "st_files st' (artifact_file_of (pe_cwd env) ?dir True t) = Some (rt_text x)"
    using fold_write_text [OF x(1) d] at [OF t x(2)] by (simp add: files)
  moreover have "fs' (artifact_file_of (pe_cwd env) ?dir True t) = st_files st' (artifact_file_of (pe_cwd env) ?dir True t)"
    using persist_other [of "artifact_file_of (pe_cwd env) ?dir True t" env info st' "''completed''" "[]" None] c r(4)
      digit_not_run_file
    by (auto simp: artifact_file_of_def)
  moreover have "high_severity_findings report = []"
    using rs(3) x(1) rep(1) by (auto simp: list_all_iff no_severe_def)
  ultimately show "\<exists>report. fs' (artifact_file_of (pe_cwd env) ?dir True t) =
      Some (json_pretty (pe_float env) (PDict report) @ [newline]) \<and> high_severity_findings report = []"
    using rep(2) by auto
qed

section \<open>Relative directories\<close>

lemma strip_ends:
  assumes "s \<noteq> []" and "\<not> is_space (hd s)" and "\<not> is_space (last s)" shows "strip s = s"
proof -
  have "lstrip s = s" using assms(1,2) by (cases s) (auto simp: lstrip_def)
  moreover have "rev s \<noteq> []" "\<not> is_space (hd (rev s))" using assms by (auto simp: hd_rev)
  then have "dropWhile is_space (rev s) = rev s" by (cases "rev s") auto
  then have "rstrip s = s" by (simp add: rstrip_def)
  ultimately show ?thesis by (simp add: strip_def)
qed

lemma stripped_hd: "strip s = s \<Longrightarrow> s \<noteq> [] \<Longrightarrow> \<not> is_space (hd s)"
proof -
  assume s: "strip s = s" "s \<noteq> []"
  obtain t where "lstrip s = rstrip (lstrip s) @ t" using rstrip_decomp by blast
  then have "hd (lstrip s) = hd s" "lstrip s \<noteq> []" using s by (auto simp: strip_def)
  then show ?thesis using hd_dropWhile_not [of is_space s] by (simp add: lstrip_def)
qed

lemma json_suffix: "lower (name_suffix (artifact_name i role ''json'')) = ''.json''"
proof -
  define pre where "pre = padded i @ CHR ''_'' # role"
  have n: "artifact_name i role ''json'' = pre @ ''.json''" by (simp add: artifact_name_padded pre_def)
  have "pre \<noteq> []" by (simp add: pre_def)
  then have "name_suffix (pre @ ''.json'') = ''.json''" by (simp add: name_suffix_def Let_def)
  moreover have "lower ''.json'' = ''.json''" by code_simp
  ultimately show ?thesis by (simp add: n)
qed

text \<open>An execution entry with a relative artifact is looked up below the directory a second time.\<close>

lemma relative_artifact_unreadable:
  assumes "\<not> is_abs dir" and "strip dir = dir" and "dir \<noteq> []" and "path_ok cwd" and "path_ok (components dir)"
    and "plain_role role" and "dget item ''role'' = PStr role" and "strip role \<noteq> []"
    and "dget item ''artifact'' = PStr (path_join dir (artifact_name i role ''json''))"
    and "fs (cwd @ components dir @ components dir @ [artifact_name i role ''json'']) = None"
  shows "role_entry_of rep cwd (pure_path dir) fs item = Inl (RunReportError ''Required run artifact not found'')"
proof -
  let ?name = "artifact_name i role ''json''"
  let ?path = "path_join dir ?name"
  have ok: "component_ok ?name" using assms(6) by (intro artifact_name_ok) (auto simp: plain_role_def)
  have name: "CHR ''/'' \<notin> set ?name" "?name \<noteq> []" using ok by (simp_all add: component_ok_def)
  then have na: "\<not> is_abs ?name" by (auto simp: is_abs_def starts_with_iff prefix_def)
  have l: "last ?name = CHR ''n''" by (simp add: artifact_name_padded)
  have ends: "?path \<noteq> []" "hd ?path = hd dir" "last ?path = CHR ''n''"
    using assms(3) na name(2) l by (simp_all add: path_join_def)
  have "\<not> is_space (CHR ''n'')" by code_simp
  then have st: "strip ?path = ?path" using stripped_hd [OF assms(2,3)] ends by (intro strip_ends) simp_all
  note ne = ends(1)
  define p where "p = pure_join (pure_path dir) (pure_path ?path)"
  have ct: "clean_text rep (dget item ''artifact'') = ?path" using ne st by (simp add: clean_text_def assms(9) py_or_def)
  have "pure_path ?path = (False, components dir @ [?name])"
    using ok assms(1) by (simp add: pure_path_def components_path_join is_abs_path_join)
  then have p: "p = (False, components dir @ components dir @ [?name])"
    using assms(1) by (simp add: p_def pure_join_def pure_path_def)
  have "normalize_path (cwd @ components dir @ components dir @ [?name]) = cwd @ components dir @ components dir @ [?name]"
    using assms(4,5) ok by (intro normalize_path_id) simp
  then have r: "read_pure cwd p fs = None" using assms(10) by (simp add: read_pure_def p)
  have "pure_suffix p = ''.json''" by (simp add: pure_suffix_def p json_suffix)
  then have "load_role_report cwd p fs = Inl (RunReportError ''Required run artifact not found'')"
    using r by (simp add: load_role_report_def read_json_def)
  moreover have "clean_text rep (dget item ''role'') = strip role" using assms(8) by (auto simp: clean_text_def assms(7) py_or_def)
  ultimately show ?thesis using assms(8) ne by (simp add: role_entry_of_def Let_def ct p_def [symmetric])
qed


text \<open>The execution entries the loop adds can be written as JSON.\<close>

definition entries_ok :: "run_state \<Rightarrow> bool" where
  "entries_ok st \<longleftrightarrow> list_all (\<lambda>e. json_ok (PDict e)) (st_execution st) \<and>
     distinct (map fst (st_models st)) \<and> distinct (map fst (st_artifacts st))"

lemma execute_role_entry:
  assumes "execute_role env f outputs strategy t = Inr r"
  shows "json_ok (PDict (rt_execution r))" and "dget (rt_execution r) ''artifact'' = PStr (rt_path r)"
  using assms by (auto simp: execute_role_def Let_def bind_res_eq_Inr execution_entry_def dget_def)








lemma payload_ok:
  assumes "entries_ok st" and "json_ok (ro_mode i)" and "json_ok (ro_provider i)"
  shows "json_ok (PDict (state_payload i st status failed failure))"
  using assms by (auto simp: state_payload_def text_if_def entries_ok_def list_all_iff o_def)

section \<open>Runs in relative directories\<close>

text \<open>The saved state of a run in a relative directory cannot be collected: the first artifact is not found.\<close>

lemma relative_report_fails:
  assumes "\<not> is_abs dir" and "strip dir = dir" and "dir \<noteq> []" and "path_ok cwd" and "path_ok (components dir)"
    and "plain_role role" and "strip role \<noteq> []" and "cwd = rv_cwd v"
    and "fs (cwd @ components dir @ components dir @ [artifact_name i role ''json'']) = None"
    and "fs (resolve cwd dir @ [''pipeline_state.json'']) = Some (json_pretty fr (PDict payload) @ [newline])"
    and "json_ok (PDict payload)" and "dget_default payload ''execution'' (PList []) = PList (PDict item # items)"
    and "dget item ''role'' = PStr role" and "dget item ''artifact'' = PStr (path_join dir (artifact_name i role ''json''))"
  shows "collect_run_report v fs dir = Inl (RunReportError ''Required run artifact not found'')"
proof -
  have "read_json cwd (pure_join (pure_path dir) (False, [''pipeline_state.json''])) fs = Inr payload"
    using json_loads_pretty [OF assms(11)] assms(10) by (simp add: read_json_def read_state_file)
  moreover have "role_entry_of (rv_rep v) cwd (pure_path dir) fs item = Inl (RunReportError ''Required run artifact not found'')"
    using assms by (intro relative_artifact_unreadable) auto
  ultimately show ?thesis by (simp add: collect_run_report_def collect_report_def Let_def assms(8) [symmetric] assms(12))
qed

definition relative_setting :: "pipeline_env \<Rightarrow> string \<Rightarrow> files \<Rightarrow> bool" where
  "relative_setting env dir fs \<longleftrightarrow> \<not> is_abs dir \<and> strip dir = dir \<and> components dir \<noteq> [] \<and> path_ok (components dir) \<and>
     path_ok (pe_cwd env) \<and> (\<forall>p. fs (pe_cwd env @ components dir @ components dir @ p) = None)"

lemma relative_resolve: "relative_setting env dir fs \<Longrightarrow> resolve (pe_cwd env) dir = pe_cwd env @ components dir"
  by (simp add: relative_setting_def resolve_def normalize_path_id)

lemma nested_not_flat: "xs \<noteq> [] \<Longrightarrow> a @ xs @ xs @ [y] \<noteq> a @ xs @ [z]"
  by simp

text \<open>The end of a run: the state it stops or completes in, with at least one JSON artifact of its own.\<close>

lemma relative_persist:
  assumes rel: "relative_setting env dir fs" and dir: "ro_dir i = dir"
    and ok: "entries_ok st" "json_ok (ro_mode i)" "json_ok (ro_provider i)"
    and exec: "st_execution st = item # items" "dget item ''role'' = PStr role" "plain_role role" "strip role \<noteq> []"
      "dget item ''artifact'' = PStr (path_join dir (artifact_name k role ''json''))"
    and missing: "st_files st (pe_cwd env @ components dir @ components dir @ [artifact_name k role ''json'']) = None"
  shows "persist_run_outputs env i st status failed failure =
      (Inr (path_join dir ''ese_summary.md''), snd (write_summary_and_state env i st status failed failure))"
    and "collect_run_report (pe_reports env) (snd (write_summary_and_state env i st status failed failure)) dir =
      Inl (RunReportError ''Required run artifact not found'')"
proof -
  let ?fs1 = "snd (write_summary_and_state env i st status failed failure)"
  let ?payload = "state_payload i st status failed failure"
  have state: "?fs1 (resolve (pe_cwd env) dir @ [''pipeline_state.json'']) = Some (json_pretty (pe_float env) (PDict ?payload) @ [newline])"
    by (simp add: write_summary_and_state_def Let_def write_file_def resolve_path_join component_ok_def dir)
  have d: "dir \<noteq> []" using rel by (auto simp: relative_setting_def components_def split_slash_plain)
  have none: "?fs1 (pe_cwd env @ components dir @ components dir @ [artifact_name k role ''json'']) = None"
    using missing relative_resolve [OF rel] rel
    by (simp add: write_summary_and_state_def Let_def write_file_def resolve_path_join component_ok_def dir relative_setting_def)
  have ex: "dget_default ?payload ''execution'' (PList []) = PList (PDict item # map PDict items)"
    by (simp add: state_payload_def dget_default_def exec(1))
  show col: "collect_run_report (pe_reports env) ?fs1 dir = Inl (RunReportError ''Required run artifact not found'')"
    using rel d by (intro relative_report_fails [OF _ _ _ _ _ exec(3,4) refl none state payload_ok [OF ok] ex exec(2,5)])
      (simp_all add: relative_setting_def)
  then have "derived_artifacts env dir w ?fs1 = (Inr (), ?fs1)" for w by (simp add: derived_artifacts_def)
  then have "write_code_suggestion_artifacts env dir ?fs1 = (Inr (), ?fs1)" "write_release_simulation_artifact env dir ?fs1 = (Inr (), ?fs1)"
    by (simp_all add: write_code_suggestion_artifacts_def write_release_simulation_artifact_def)
  moreover have "fst (write_summary_and_state env i st status failed failure) = path_join dir ''ese_summary.md''"
    by (simp add: write_summary_and_state_def Let_def dir)
  ultimately show "persist_run_outputs env i st status failed failure = (Inr (path_join dir ''ese_summary.md''), ?fs1)"
    by (cases "write_summary_and_state env i st status failed failure") (simp add: persist_run_outputs_def dir)
qed






section \<open>A run\<close>

text \<open>A run of two roles in the relative directory \<open>r\<close>, whose adapter always answers the same clean report.\<close>

definition clean_report :: string where
  "clean_report = json_compact (\<lambda>_. []) (PDict
     [(''summary'', PStr ''ok''), (''confidence'', PStr ''low''), (''assumptions'', PList []), (''unknowns'', PList []),
      (''findings'', PList [])])"

definition clean_adapter :: adapter where
  "clean_adapter role model prompt ctx cfg = Inr (PStr clean_report)"

definition sample_pipeline :: pipeline_env where
  "sample_pipeline = \<lparr>pe_reports = sample_env, pe_float = (\<lambda>_. []), pe_builtin = (\<lambda>_. Some clean_adapter),
     pe_import = (\<lambda>m obj. Inl (PipelineError ''no module'')), pe_started = (\<lambda>_. 0), pe_completed = (\<lambda>_. 0), pe_utc = (\<lambda>_. ''t''),
     pe_yaml = (\<lambda>_. []), pe_run_id = ''id''\<rparr>"

definition sample_run_config :: dict where
  "sample_run_config =
     [(''provider'', PDict [(''name'', PStr ''p''), (''model'', PStr ''m'')]),
      (''roles'', PDict [(''architect'', PDict []), (''implementer'', PDict [])]), (''scope'', PStr ''s'')]"

lemma sample_render:
  "list_all (\<lambda>role. case render_role_output (\<lambda>_. []) role ''p:m'' clean_report True of
     Inr (ext, text, Some report) \<Rightarrow> high_severity_findings report = [] | _ \<Rightarrow> False) [''architect'', ''implementer'']"
  by code_simp

lemma sample_models:
  "list_all (\<lambda>role. resolve_role_model (\<lambda>_. []) sample_run_config role = Inr ''p:m'') [''architect'', ''implementer'']"
  by code_simp

lemma sample_prepare: "prepare_run sample_run_config = Inr (PStr ''p'', ''s'', [''architect'', ''implementer''])"
  by code_simp

lemma sample_settings: "snd (output_cfg sample_run_config)" "gating_cfg sample_run_config"
  "parallel_cfg sample_run_config = Inr (True, 4)" "resolve_prompt_text sample_run_config = Inr []"
  "resolve_artifacts_dir sample_run_config (Some ''r'') = ''r''"
  "\<not> is_specialist ''architect''" "\<not> is_specialist ''implementer''"
  by code_simp+

lemma sample_setting: "relative_setting sample_pipeline ''r'' Map.empty"
  by (simp add: relative_setting_def sample_pipeline_def sample_env_def) code_simp

lemma sample_components: "components ''r'' = [''r'']"
  by code_simp

lemma sample_order: "normalize_role_order sample_run_config = Inr [''architect'', ''implementer'']"
  using prepare_run_order [OF sample_prepare] .


lemma sample_execute:
  assumes "role \<in> {''architect'', ''implementer''}" and "rf_cfg f = sample_run_config" "rf_adapter f = clean_adapter"
    "pf_json (rf_prompt f)" "rf_dir f = ''r''"
  shows "\<exists>r. execute_role sample_pipeline f outputs strategy (i, role) = Inr r \<and> no_severe r"
proof -
  have m: "resolve_role_model (\<lambda>_. []) sample_run_config role = Inr ''p:m''" using sample_models assms(1) by auto
  obtain ext contents report where x: "render_role_output (\<lambda>_. []) role ''p:m'' clean_report True = Inr (ext, contents, Some report)"
      "high_severity_findings report = []"
    using sample_render assms(1) by (auto split: sum.splits option.splits)
  show ?thesis
    using m x assms(2-) by (simp add: execute_role_def invoke_adapter_def clean_adapter_def sample_pipeline_def sample_env_def no_severe_def Let_def)
qed

lemma sample_run_completes:
  "\<exists>fs'. run_pipeline sample_pipeline sample_run_config (Some ''r'') None Map.empty = (Inr ''r/ese_summary.md'', fs')"
proof -
  let ?env = sample_pipeline and ?dir = "''r''"
  let ?fs1 = "write_file (pe_cwd ?env) (path_join ?dir ''ese_config.snapshot.yaml'') (pe_yaml ?env sample_run_config) Map.empty"
  have adapter: "resolve_adapter ?env sample_run_config = Inr (''dry-run'', clean_adapter)"
  proof -
    have "strip ''dry-run'' = ''dry-run''" by code_simp
    then show ?thesis
      by (simp add: resolve_adapter_def sample_run_config_def sample_pipeline_def dget_def dget_default_def py_or_def)
  qed
  have cwd: "pe_cwd ?env = []" by (simp add: sample_pipeline_def sample_env_def)
  obtain info frame settings where c: "configure_run ?env sample_run_config ?dir None (PStr ''p'') ''s'' [''architect'', ''implementer''] ?fs1 =
      Inr (info, frame, settings, 0, fresh_state ?fs1)" "ro_dir info = ?dir" "ro_provider info = PStr ''p''"
      "ro_mode info = PStr ''ensemble''"
      "rf_cfg frame = sample_run_config" "rf_adapter frame = clean_adapter" "pf_json (rf_prompt frame)" "rf_dir frame = ?dir"
    using adapter sample_settings
    by (simp add: configure_run_def load_resume_state_def given_def) (simp add: sample_run_config_def dget_default_def)
  note e = sample_execute [OF _ c(5-8)]
  obtain r1 where r1: "execute_role ?env frame [] ''serial'' (1, ''architect'') = Inr r1" "no_severe r1" using e by blast
  let ?st1 = "apply_role_result r1 (fresh_state ?fs1\<lparr>st_files := write_result ?env r1 ?fs1\<rparr>)"
  obtain r2 where r2: "execute_role ?env frame (st_outputs ?st1) ''serial'' (2, ''implementer'') = Inr r2" "no_severe r2" using e by blast
  let ?st = "apply_role_result r2 (?st1\<lparr>st_files := write_result ?env r2 (st_files ?st1)\<rparr>)"
  have "tasks_from 0 [''architect'', ''implementer''] = [(1, ''architect''), (2, ''implementer'')]" by code_simp
  moreover have "run_loop ?env frame settings [(1, ''architect''), (2, ''implementer'')] (fresh_state ?fs1) = (?st, None)"
  proof -
    have g: "gate rep h [r1] = None" "gate rep h [r2] = None" for rep h using r1(2) r2(2) by (simp_all add: gate_None)
    have s: "\<not> specialist_task (1, ''architect'')" "\<not> specialist_task (2, ''implementer'')"
      using sample_settings by (simp_all add: specialist_task_def)
    have "run_serial ?env frame settings (1, ''architect'') (fresh_state ?fs1) = (?st1, None)"
      "run_serial ?env frame settings (2, ''implementer'') ?st1 = (?st, None)"
      using r1(1) r2(1) by (simp_all add: run_serial_def g fresh_state_def)
    then show ?thesis using s by (simp add: run_loop.simps(2))
  qed
  moreover have "persist_run_outputs ?env info ?st ''completed'' [] None =
      (Inr (path_join ?dir ''ese_summary.md''), snd (write_summary_and_state ?env info ?st ''completed'' [] None))"
  proof -
    have "st_execution ?st = [rt_execution r1, rt_execution r2]" by (simp add: apply_role_result_def fresh_state_def)
    note exec = this
    have p: "rt_path r1 = path_join ?dir (artifact_name 1 ''architect'' ''json'')"
      "rt_path r2 = path_join ?dir (artifact_name 2 ''implementer'' ''json'')"
      using execute_role_Inr [OF r1(1)] execute_role_Inr [OF r2(1)] c(7,8) by simp_all
    have ok: "component_ok (artifact_name (Suc 0) ''architect'' ''json'')" "component_ok (artifact_name 2 ''implementer'' ''json'')"
      by code_simp+
    have config_name: "component_ok ''ese_config.snapshot.yaml''" by code_simp
    have config: "''ese_config.snapshot.yaml'' \<noteq> artifact_name 1 ''architect'' ''json''" by code_simp
    have "entries_ok ?st"
      using execute_role_entry(1) [OF r1(1)] execute_role_entry(1) [OF r2(1)]
      by (simp add: entries_ok_def exec del: json_ok.simps) (simp add: apply_role_result_def fresh_state_def distinct_dset)
    moreover have "st_files ?st (pe_cwd ?env @ components ?dir @ components ?dir @ [artifact_name 1 ''architect'' ''json'']) = None"
      by (simp add: apply_role_result_def fresh_state_def write_result_def p write_other [OF ok(1)] write_other [OF ok(2)]
        write_other [OF config_name] cwd sample_components resolve_def normalize_path_def)
    moreover have "dget (rt_execution r1) ''role'' = PStr ''architect''" "dget (rt_execution r1) ''artifact'' = PStr (path_join ?dir (artifact_name 1 ''architect'' ''json''))"
      using execute_role_roles [OF r1(1)] execute_role_entry(2) [OF r1(1)] p by simp_all
    moreover have "plain_role ''architect''" "strip ''architect'' \<noteq> []" by code_simp+
    ultimately show ?thesis
      using relative_persist(1) [OF sample_setting c(2) _ _ _ exec] c(3,4) by simp
  qed
  moreover have "path_join ?dir ''ese_summary.md'' = ''r/ese_summary.md''" by code_simp
  ultimately show ?thesis
    using sample_prepare c(1) by (simp add: run_pipeline_def Let_def sample_settings)
qed

theorem completed_run_is_recorded_witness:
  "\<exists>fs' payload artifacts. run_pipeline sample_pipeline sample_run_config (Some ''r'') None Map.empty = (Inr ''r/ese_summary.md'', fs') \<and>
     dget payload ''artifacts'' = PDict artifacts \<and> map fst artifacts = [''architect'', ''implementer''] \<and>
     fs' [''r'', ''pipeline_state.json''] = Some (json_pretty (\<lambda>_. []) (PDict payload) @ [newline])"
proof -
  obtain fs' where r: "run_pipeline sample_pipeline sample_run_config (Some ''r'') None Map.empty = (Inr ''r/ese_summary.md'', fs')"
    using sample_run_completes by blast
  have "path_ok (pe_cwd sample_pipeline)" "distinct [''architect'', ''implementer'']" "resolve (pe_cwd sample_pipeline) ''r'' = [''r'']"
      "pe_float sample_pipeline = (\<lambda>_. [])"
    by (simp_all add: sample_pipeline_def sample_env_def) code_simp
  note facts = this
  from completed_run_is_recorded [OF r facts(1) sample_order facts(2)] obtain payload artifacts where
    p: "fs' (resolve (pe_cwd sample_pipeline) (resolve_artifacts_dir sample_run_config (Some ''r'')) @ [''pipeline_state.json'']) =
      Some (json_pretty (pe_float sample_pipeline) (PDict payload) @ [newline])"
    "dget payload ''artifacts'' = PDict artifacts" "map fst artifacts = [''architect'', ''implementer'']"
    by (elim exE conjE) (rule that)
  have "fs' [''r'', ''pipeline_state.json''] = Some (json_pretty (\<lambda>_. []) (PDict payload) @ [newline])"
    using p(1) by (simp only: sample_settings facts append.simps)
  with r p show ?thesis by (intro exI conjI)
qed

theorem completed_run_passed_the_gate_witness:
  "\<exists>fs' report. run_pipeline sample_pipeline sample_run_config (Some ''r'') None Map.empty = (Inr ''r/ese_summary.md'', fs') \<and>
     fs' (artifact_file_of (pe_cwd sample_pipeline) ''r'' True (1, ''architect'')) =
       Some (json_pretty (pe_float sample_pipeline) (PDict report) @ [newline]) \<and> high_severity_findings report = []"
proof -
  obtain fs' where r: "run_pipeline sample_pipeline sample_run_config (Some ''r'') None Map.empty = (Inr ''r/ese_summary.md'', fs')"
    using sample_run_completes by blast
  have p: "path_ok (pe_cwd sample_pipeline)" "distinct [''architect'', ''implementer'']"
    by (simp_all add: sample_pipeline_def sample_env_def)
  have plain: "list_all plain_role [''architect'', ''implementer'']" by code_simp
  have t: "(1, ''architect'') \<in> set (tasks_from 0 [''architect'', ''implementer''])" by code_simp
  from completed_run_passed_the_gate [OF r p(1) sample_order p(2) plain sample_settings(2,1)] t r
  show ?thesis by (fastforce simp: sample_settings)
qed


end
