(* ===== verification/Core_Roles.thy ===== *)
theory Core_Roles
  imports Packet Session_Store
begin

text \<open>
  The rule-based roles (\<open>truepresence/core/roles/base.py\<close>), the council that polls them
  (\<open>truepresence/agents/council.py\<close>) and the synthesis of their outputs
  (\<open>truepresence/core/synthesis/synth.py\<close>). Signals are dynamic values: a comparison or a sum with one
  that is no number raises. The square root and the hyperbolic tangent of the array library are
  arguments. The confidence and error each role object remembers for its getters are left out.
\<close>

section \<open>Numbers among the signals\<close>

definition num_res :: "pv \<Rightarrow> rat res" where
  "num_res v = (case num_of v of None \<Rightarrow> Inl (TypeError ''unsupported operand types'') | Some q \<Rightarrow> Inr q)"

text \<open>\<open>v > q\<close> and \<open>v < q\<close>; \<open>a and b\<close> over tests that may raise.\<close>

definition gt_res :: "pv \<Rightarrow> rat \<Rightarrow> bool res" where
  "gt_res v q = bind_res (num_res v) (\<lambda>x. Inr (x > q))"

definition lt_res :: "pv \<Rightarrow> rat \<Rightarrow> bool res" where
  "lt_res v q = bind_res (num_res v) (\<lambda>x. Inr (x < q))"

definition and_also :: "bool res \<Rightarrow> bool res \<Rightarrow> bool res" where
  "and_also a b = bind_res a (\<lambda>x. if x then b else Inr False)"

section \<open>The evidence a role reads\<close>

text \<open>Of the evidence dictionary the roles read the signals and the drift of the session.\<close>

record role_evidence =
  re_signals :: dict
  re_drift :: rat

type_synonym role_output = dict

definition liveness_evaluate :: "role_evidence \<Rightarrow> role_output res" where
  "liveness_evaluate e =
     (let v = dget_default (re_signals e) ''liveness'' (PFloat 0) in
      bind_res (num_res v) (\<lambda>score.
        Inr [(''role'', PStr ''liveness''), (''human_probability'', v),
             (''confidence'', PFloat (min 1 (score + (if re_drift e < 0.1 then 0.2 else 0)))),
             (''finding'', PStr (if score > 0.6 then ''presence_confirmed'' else ''presence_uncertain'')),
             (''impact'', PStr (if score > 0.6 then ''positive'' else ''neutral''))]))"

definition liveness_analyze :: "role_evidence \<Rightarrow> dict res" where
  "liveness_analyze e = bind_res (liveness_evaluate e) (\<lambda>r.
     Inr [(''role'', PStr ''liveness_analyst''), (''confidence'', dget r ''confidence''),
          (''finding'', dget r ''finding''), (''impact'', dget r ''impact'')])"

section \<open>The adversarial reviewer\<close>

text \<open>The tests in the order of the code: each with the finding and, for a known threat, its category.\<close>

definition adversarial_tests :: "dict \<Rightarrow> (bool res \<times> string \<times> string option) list" where
  "adversarial_tests s =
     (let f = (\<lambda>k. dget_default s k (PFloat 0)); i = (\<lambda>k. dget_default s k (PInt 0)) in
      [(gt_res (f ''optimization_risk'') 0.7, ''unnaturally_consistent_timing'', None),
       (and_also (gt_res (f ''liveness'') 0.8) (gt_res (f ''ai_mediation'') 0.5), ''contradictory_presence_signals'', None),
       (lt_res (f ''mouse_entropy'') 0.1, ''low_interaction_entropy'', None),
       (and_also (gt_res (i ''message_velocity'') 50) (gt_res (i ''content_similarity'') 0.9),
          ''mirrored_content_detected'', Some ''mirrors_userbots''),
       (and_also (gt_res (i ''cpu_usage'') 80) (lt_res (dget_default s ''network_entropy'' (PFloat 0.5)) 0.3),
          ''high_resource_usage_pattern'', Some ''crypto_miners''),
       (Inr (truthy (dget_default s ''copyright_indicators'' (PList []))), ''copyright_content_detected'', Some ''dmca_violations''),
       (or_else (gt_res (i ''torrent_indicators'') 0.5) (gt_res (i ''p2p_pattern'') 0.7),
          ''torrent_activity_detected'', Some ''torrent_aggregators''),
       (or_else (gt_res (i ''vnc_indicators'') 0.3) (gt_res (i ''remote_access_pattern'') 0.6),
          ''remote_access_detected'', Some ''vnc_virtual_desktops''),
       (or_else (Inr (truthy (dget_default s ''illegal_indicators'' (PList [])))) (gt_res (i ''fraud_pattern'') 0.8),
          ''illegal_content_detected'', Some ''illegal_content'')])"

fun run_tests :: "(bool res \<times> string \<times> string option) list \<Rightarrow> (string list \<times> string list) res" where
  "run_tests [] = Inr ([], [])"
| "run_tests ((test, finding, category) # ts) =
     bind_res test (\<lambda>hit. bind_res (run_tests ts) (\<lambda>(fs, cs).
       Inr (if hit then (finding # fs, (case category of None \<Rightarrow> cs | Some c \<Rightarrow> c # cs)) else (fs, cs))))"

definition block_reason :: "string list \<Rightarrow> string list \<Rightarrow> string" where
  "block_reason categories findings =
     (if ''illegal_content'' \<in> set categories then ''Illegal content detected - permanent ban''
      else if ''crypto_miners'' \<in> set categories then ''Crypto mining detected - resource abuse''
      else if ''dmca_violations'' \<in> set categories then ''Copyright violation detected - DMCA''
      else if ''torrent_aggregators'' \<in> set categories then ''Torrent activity detected - piracy''
      else if ''vnc_virtual_desktops'' \<in> set categories then ''Unauthorized remote access detected''
      else if ''mirrors_userbots'' \<in> set categories then ''Spam mirror/userbot detected''
      else if findings \<noteq> [] then ''Bot-like behavior detected''
      else ''Unknown threat'')"

definition adversarial_severity :: "string list \<Rightarrow> string list \<Rightarrow> rat" where
  "adversarial_severity findings categories =
     (if ''illegal_content'' \<in> set categories then 1
      else min 1 (of_nat (length findings) * 0.15 + of_nat (length categories) * 0.2))"

definition adversarial_evaluate :: "role_evidence \<Rightarrow> role_output res" where
  "adversarial_evaluate e =
     bind_res (run_tests (adversarial_tests (re_signals e))) (\<lambda>(findings, categories).
       let severity = adversarial_severity findings categories in
       Inr [(''role'', PStr ''adversarial''), (''human_probability'', PFloat (1 - severity)),
            (''bot_probability'', PFloat severity), (''confidence'', PFloat (min 1 (0.5 + severity * 0.5))),
            (''findings'', PList (map PStr findings)), (''threat_categories'', PList (map PStr categories)),
            (''severity'', PFloat severity), (''block_reason'', PStr (block_reason categories findings)),
            (''impact'', PStr (if findings \<noteq> [] then ''negative'' else ''neutral''))])"

definition adversarial_analyze :: "role_evidence \<Rightarrow> dict res" where
  "adversarial_analyze e = bind_res (adversarial_evaluate e) (\<lambda>r.
     Inr [(''role'', PStr ''adversarial_reviewer''), (''findings'', dget_default r ''findings'' (PList [])),
          (''severity'', dget_default r ''severity'' (PFloat 0)), (''impact'', dget r ''impact'')])"

section \<open>Mediation and relay\<close>

definition mediation_evaluate :: "role_evidence \<Rightarrow> role_output res" where
  "mediation_evaluate e =
     (let v = dget_default (re_signals e) ''ai_mediation'' (PFloat 0) in
      bind_res (num_res v) (\<lambda>x.
        Inr [(''role'', PStr ''mediation''), (''human_probability'', PFloat (1 - x)), (''ai_mediation_score'', v),
             (''confidence'', PFloat (min 1 (0.5 + x * 0.5))),
             (''finding'', PStr (if x > 0.5 then ''ai_assisted'' else ''human_origin'')),
             (''impact'', PStr (if x > 0.5 then ''negative'' else ''neutral''))]))"

definition mediation_analyze :: "role_evidence \<Rightarrow> dict res" where
  "mediation_analyze e = bind_res (mediation_evaluate e) (\<lambda>r.
     Inr [(''role'', PStr ''mediation_analyst''), (''confidence'', dget r ''confidence''),
          (''finding'', dget r ''finding''), (''impact'', dget r ''impact'')])"

definition relay_evaluate :: "role_evidence \<Rightarrow> role_output res" where
  "relay_evaluate e =
     (let v = dget_default (re_signals e) ''relay_risk'' (PFloat 0) in
      bind_res (num_res v) (\<lambda>x.
        Inr [(''role'', PStr ''relay''), (''human_probability'', PFloat (1 - x)), (''relay_risk'', v),
             (''confidence'', PFloat (min 1 (0.5 + x * 0.5))),
             (''finding'', PStr (if x > 0.6 then ''automated_tool'' else ''direct_interaction'')),
             (''impact'', PStr (if x > 0.6 then ''negative'' else ''neutral''))]))"

definition relay_analyze :: "role_evidence \<Rightarrow> dict res" where
  "relay_analyze e = bind_res (relay_evaluate e) (\<lambda>r.
     Inr [(''role'', PStr ''relay_analyst''), (''confidence'', dget r ''confidence''),
          (''finding'', dget r ''finding''), (''impact'', dget r ''impact'')])"

section \<open>The synthesizer role\<close>

definition trust_decision :: "rat \<Rightarrow> string" where
  "trust_decision p = (if p > 0.65 then ''allow'' else if p > 0.35 then ''challenge'' else ''block'')"

definition mean :: "rat list \<Rightarrow> rat" where
  "mean xs = sum_list xs / of_nat (length xs)"

text \<open>\<open>outputs\<close> is \<open>evidence.get("role_outputs", {})\<close>.\<close>

definition synthesizer_evaluate :: "(string \<times> role_output) list \<Rightarrow> role_evidence \<Rightarrow> role_output res" where
  "synthesizer_evaluate outputs e =
     bind_res
       (if outputs = [] then
          bind_res (num_res (dget_default (re_signals e) ''liveness'' (PFloat 0.5))) (\<lambda>liveness.
          bind_res (num_res (dget_default (re_signals e) ''ai_mediation'' (PFloat 0))) (\<lambda>mediation.
          bind_res (num_res (dget_default (re_signals e) ''relay_risk'' (PFloat 0.3))) (\<lambda>relay.
            Inr (liveness * 0.4 + (1 - mediation) * 0.3 + (1 - relay) * 0.3))))
        else bind_res (map_res (\<lambda>(name, out). num_res (dget_default out ''human_probability'' (PFloat 0.5))) outputs)
               (\<lambda>ps. Inr (mean ps)))
       (\<lambda>p. Inr [(''role'', PStr ''synthesizer''), (''human_probability'', PFloat p), (''confidence'', PFloat 0.7),
                 (''decision'', PStr (trust_decision p))])"

definition synthesizer_analyze :: "(string \<times> role_output) list \<Rightarrow> role_evidence \<Rightarrow> dict res" where
  "synthesizer_analyze outputs e = bind_res (synthesizer_evaluate outputs e) (\<lambda>r.
     Inr [(''trust_score'', dget r ''human_probability''), (''decision'', dget r ''decision''),
          (''confidence'', dget r ''confidence'')])"

section \<open>The council\<close>

type_synonym role_function = "role_evidence \<Rightarrow> role_output res"

record council_result =
  cr_opinions :: "(string \<times> role_output) list"
  cr_consensus :: rat
  cr_disagreement :: rat
  cr_variance :: rat
  cr_confidence :: rat
  cr_distribution :: "rat list"

definition council_probability :: "role_output \<Rightarrow> pv" where
  "council_probability r =
     dget_default r ''human_probability'' (dget_default r ''probability'' (dget_default r ''score'' (PFloat 0.5)))"

text \<open>An agent that raises counts as undecided.\<close>

definition council_opinion :: "role_evidence \<Rightarrow> string \<times> role_function \<Rightarrow> pv \<times> string \<times> role_output" where
  "council_opinion e a = (case snd a e of
      Inr r \<Rightarrow> (council_probability r, fst a, r)
    | Inl err \<Rightarrow> (PFloat 0.5, fst a, [(''error'', PStr ''agent failed''), (''human_probability'', PFloat 0.5)]))"

definition relative_spread :: "(rat \<Rightarrow> rat) \<Rightarrow> rat list \<Rightarrow> rat" where
  "relative_spread sqr ps = (if mean ps > 0 then sqr (variance ps) / mean ps else 0)"

definition council_evaluate ::
    "(rat \<Rightarrow> rat) \<Rightarrow> (rat \<Rightarrow> rat) \<Rightarrow> (string \<times> role_function) list \<Rightarrow> role_evidence \<Rightarrow> council_result res" where
  "council_evaluate sqr thn agents e =
     (if agents = [] then
        Inr \<lparr>cr_opinions = [], cr_consensus = 0.5, cr_disagreement = 0, cr_variance = 0, cr_confidence = 0, cr_distribution = []\<rparr>
      else let opinions = map (council_opinion e) agents in
        bind_res (map_res (num_res \<circ> fst) opinions) (\<lambda>ps.
          Inr \<lparr>cr_opinions = map snd opinions, cr_consensus = mean ps,
               cr_disagreement = relative_spread sqr ps, cr_variance = variance ps,
               cr_confidence = 1 - thn (relative_spread sqr ps * 2), cr_distribution = ps\<rparr>))"

section \<open>The synthesis\<close>

record synthesis_result =
  sr_human_probability :: rat
  sr_bot_probability :: rat
  sr_confidence :: rat
  sr_disagreement :: rat
  sr_variance :: rat
  sr_weights :: "(string \<times> rat) list"

definition synthesis_probability :: "role_output \<Rightarrow> pv" where
  "synthesis_probability r = dget_default r ''human_probability'' (dget_default r ''probability'' (PFloat 0.5))"

definition role_weight :: "(string \<times> rat) list \<Rightarrow> string \<Rightarrow> rat" where
  "role_weight weights role = (case map_of weights role of None \<Rightarrow> 1 | Some w \<Rightarrow> w)"

text \<open>Any failure of the computation is re-raised as one kind of error. The weights are those of \<open>add_role\<close>, all
  one in this program; a sum of zero, which the array library answers with not-a-number, does not occur.\<close>

definition synthesize :: "(rat \<Rightarrow> rat) \<Rightarrow> (string \<times> rat) list \<Rightarrow> (string \<times> role_output) list \<Rightarrow> synthesis_result res" where
  "synthesize sqr weights outputs =
     (if outputs = [] then
        Inr \<lparr>sr_human_probability = 0.5, sr_bot_probability = 0.5, sr_confidence = 0, sr_disagreement = 0, sr_variance = 0,
             sr_weights = []\<rparr>
      else case map_res (num_res \<circ> synthesis_probability \<circ> snd) outputs of
          Inl err \<Rightarrow> Inl (SynthesisError ''Failed to synthesize role outputs'')
        | Inr ps \<Rightarrow>
            (let raw = map (role_weight weights \<circ> fst) outputs; ws = map (\<lambda>w. w / sum_list raw) raw;
                 human = sum_list (map2 (*) ps ws); spread = relative_spread sqr ps in
             Inr \<lparr>sr_human_probability = human, sr_bot_probability = 1 - human,
                  sr_confidence = 1 - min (spread / 2) 1, sr_disagreement = spread, sr_variance = variance ps,
                  sr_weights = zip (map fst outputs) ws\<rparr>))"

section \<open>When roles answer, and what\<close>

lemma num_res_Inr: "num_res v = Inr q \<longleftrightarrow> num_of v = Some q"
  by (simp add: num_res_def split: option.split)

lemma num_res_simps [simp]: "num_res (PFloat q) = Inr q" "num_res (PInt i) = Inr (of_int i)"
  by (simp_all add: num_res_def)

text \<open>The numeric signals.\<close>

definition numeric_keys :: "string list" where
  "numeric_keys =
     [''liveness'', ''ai_mediation'', ''relay_risk'', ''optimization_risk'', ''mouse_entropy'', ''message_velocity'',
      ''content_similarity'', ''cpu_usage'', ''network_entropy'', ''torrent_indicators'', ''p2p_pattern'',
      ''vnc_indicators'', ''remote_access_pattern'', ''fraud_pattern'']"

definition numeric_signals :: "dict \<Rightarrow> bool" where
  "numeric_signals s \<longleftrightarrow> (\<forall>k \<in> set numeric_keys. \<forall>v. map_of s k = Some v \<longrightarrow> num_of v \<noteq> None)"

text \<open>The three scored signals lie in the unit interval where they are given.\<close>

definition unit_signals :: "dict \<Rightarrow> bool" where
  "unit_signals s \<longleftrightarrow> (\<forall>k \<in> {''liveness'', ''ai_mediation'', ''relay_risk''}. \<forall>v x. map_of s k = Some v \<longrightarrow> num_of v = Some x \<longrightarrow> in_unit x)"

lemma run_tests_facts:
  "run_tests ts = Inr (fs, cs) \<Longrightarrow>
     set fs \<subseteq> (fst \<circ> snd) ` set ts \<and> length cs \<le> length fs \<and>
     (\<forall>test finding category. (test, finding, Some category) \<in> set ts \<longrightarrow> test = Inr True \<longrightarrow> category \<in> set cs)"
  by (induction ts arbitrary: fs cs rule: run_tests.induct)
    (fastforce simp: bind_res_eq_Inr split: if_splits option.splits)+

lemma severity_range: "in_unit (adversarial_severity fs cs)"
  by (auto simp: adversarial_severity_def in_unit_def)

lemma adversarial_Inr:
  assumes "adversarial_evaluate e = Inr r"
  obtains fs cs where "run_tests (adversarial_tests (re_signals e)) = Inr (fs, cs)"
    "dget r ''human_probability'' = PFloat (1 - adversarial_severity fs cs)" "dhas r ''human_probability''"
    "dget r ''findings'' = PList (map PStr fs)" "dget r ''severity'' = PFloat (adversarial_severity fs cs)"
    "dget r ''block_reason'' = PStr (block_reason cs fs)"
  using assms that by (auto simp: adversarial_evaluate_def bind_res_eq_Inr Let_def dget_def dhas_def)

text \<open>Roles raise on no well-typed signals.\<close>

lemma numeric_get: "numeric_signals s \<Longrightarrow> k \<in> set numeric_keys \<Longrightarrow> num_of v \<noteq> None \<Longrightarrow> num_of (dget_default s k v) \<noteq> None"
  by (auto simp: numeric_signals_def dget_default_def split: option.split)

lemma num_res_get:
  assumes "numeric_signals s" and "k \<in> set numeric_keys" and "num_of v \<noteq> None"
  shows "\<exists>x. num_res (dget_default s k v) = Inr x"
  using numeric_get [OF assms] by (auto simp: num_res_def)

lemma run_tests_total: "list_all (\<lambda>(test, finding, category). \<not> isl test) ts \<Longrightarrow> \<exists>x. run_tests ts = Inr x"
  by (induction ts rule: run_tests.induct) (auto simp: isl_def bind_res_def split: sum.splits)

end
