(* ===== verification/Orchestrator.thy ===== *)
theory Orchestrator
  imports Core_Roles Engine Identity
begin

text \<open>
  The production orchestrator (\<open>truepresence/core/orchestrator_v3.py\<close>) as the ensemble adapter calls it, with a
  packet and its graph: the timeline and the identity graph it keeps, the roles, the council and the
  synthesis it composes, and the runtime it makes for the decision engine. The distributed runtime is the
  one without Redis. The keyed hash, the norm, the square root, the hyperbolic tangent and the clock are
  arguments; the formatted reasoning trace and the dumps in the answer are left out.
\<close>

section \<open>State and environment\<close>

record v3_env =
  v3_rep :: "pv \<Rightarrow> string"
  v3_hash :: "string \<Rightarrow> string"
  v3_norm :: "rat list \<Rightarrow> rat"
  v3_sqrt :: "rat \<Rightarrow> rat"
  v3_tanh :: "rat \<Rightarrow> rat"
  v3_now :: rat

record v3_state =
  v3_memory :: timeline
  v3_identity :: identity_graph

definition v3_init :: v3_state where
  "v3_init = \<lparr>v3_memory = \<lparr>tl_maxlen = 1000, tl_events = []\<rparr>, v3_identity = empty_identity\<rparr>"

definition similarity_threshold :: rat where
  "similarity_threshold = 0.75"

text \<open>The roles that run; each is registered with the synthesis (weight one) and with the council.\<close>

definition v3_roles :: "(string \<times> role_function) list" where
  "v3_roles = [(''liveness'', liveness_evaluate), (''adversarial'', adversarial_evaluate),
     (''mediation'', mediation_evaluate), (''relay'', relay_evaluate)]"

definition v3_weights :: "(string \<times> rat) list" where
  "v3_weights = map (\<lambda>(name, f). (name, 1)) v3_roles"

section \<open>Building the evidence\<close>

text \<open>\<open>session.get("session_id") or event.get("session_id")\<close>: the session whose memory is read.\<close>

definition session_ref :: "dict \<Rightarrow> dict \<Rightarrow> pv" where
  "session_ref session event = py_or (dget session ''session_id'') (dget event ''session_id'')"

fun drift_of :: "timeline \<Rightarrow> pv \<Rightarrow> rat res \<times> timeline" where
  "drift_of tm (PStr s) = drift tm s"
| "drift_of tm (PList xs) = (Inl (TypeError ''unhashable type: list''), tm)"
| "drift_of tm (PDict d) = (Inl (TypeError ''unhashable type: dict''), tm)"
| "drift_of tm v = (Inr 0, tm)"

text \<open>The window of recent events, which no role reads: here only whether taking it fails.\<close>

fun touch_window :: "timeline \<Rightarrow> pv \<Rightarrow> unit res \<times> timeline" where
  "touch_window tm (PStr s) = (Inr (), snd (window tm s 50))"
| "touch_window tm (PInt n) = (Inr (), snd (window tm ''default'' n))"
| "touch_window tm (PBool b) = (Inr (), snd (window tm ''default'' (if b then 1 else 0)))"
| "touch_window tm v = (Inl (TypeError ''bad operand type for a slice''), tm)"

text \<open>The identity references written into the packet.\<close>

definition refer_identity :: "v3_env \<Rightarrow> identity_graph \<Rightarrow> pv \<Rightarrow> dict \<Rightarrow> dict res" where
  "refer_identity env ig key refs =
     (if \<not> truthy key then Inr refs
      else case key of
          PStr s \<Rightarrow>
            (let connected = get_connected_sessions (v3_hash env) ig s;
                 refs = dset ''connected_sessions'' (PInt (int (length connected))) refs in
             if connected = [] then Inr refs
             else bind_res (get_session_risk (v3_hash env) ig s) (\<lambda>risk. Inr (dset ''cluster_risk'' (PFloat risk) refs)))
        | _ \<Rightarrow> Inl (AttributeError ''encode''))"

definition build_evidence ::
    "v3_env \<Rightarrow> identity_graph \<Rightarrow> timeline \<Rightarrow> dict \<Rightarrow> dict \<Rightarrow> evidence_packet \<Rightarrow>
     (role_evidence \<times> evidence_packet) res \<times> timeline" where
  "build_evidence env ig tm session event p =
     (let key = session_ref session event; (d, tm1) = drift_of tm key in
      case d of Inl e \<Rightarrow> (Inl e, tm1)
      | Inr moved \<Rightarrow>
          (case refer_identity env ig key (identity_refs p) of Inl e \<Rightarrow> (Inl e, tm1)
           | Inr refs \<Rightarrow>
               (let p' = p\<lparr>ep_metadata := dset ''temporal_drift'' (PFloat moved) (ep_metadata p), identity_refs := refs\<rparr>;
                    (w, tm2) = touch_window tm1 key in
                (bind_res w (\<lambda>_. Inr (\<lparr>re_signals = role_signals p', re_drift = moved\<rparr>, p')), tm2))))"

section \<open>One evaluation\<close>

definition run_role :: "role_evidence \<Rightarrow> string \<times> role_function \<Rightarrow> (string \<times> role_output) res" where
  "run_role e a = (case snd a e of
      Inl err \<Rightarrow> Inl (RoleError (''Role failed during evaluate: '' @ fst a)) | Inr r \<Rightarrow> Inr (fst a, r))"

record v3_result =
  vr_roles :: "(string \<times> role_output) list"
  vr_council :: council_result
  vr_synthesis :: synthesis_result
  vr_cross_risk :: rat
  vr_combined :: rat
  vr_decision :: string
  vr_risk_factors :: "string list"
  vr_packet :: evidence_packet
  vr_drift :: rat

definition combined_score :: "rat \<Rightarrow> rat \<Rightarrow> rat \<Rightarrow> rat" where
  "combined_score human consensus risk = human * 0.6 + consensus * 0.2 + (1 - risk) * 0.2"

definition v3_decision :: "rat \<Rightarrow> string" where
  "v3_decision score = (if score > 0.75 then ''allow'' else if score < 0.35 then ''block''
     else if score < 0.5 then ''challenge'' else ''review'')"

definition extract_risk_factors :: "synthesis_result \<Rightarrow> council_result \<Rightarrow> string list" where
  "extract_risk_factors s c =
     (if sr_variance s > 0.1 then [''high_role_variance''] else []) @
     (if sr_disagreement s > 0.3 then [''high_agent_disagreement''] else []) @
     (if cr_disagreement c > 0.4 then [''council_disagreement''] else []) @
     (if sr_confidence s < 0.5 then [''low_confidence''] else [])"

text \<open>From the evidence to the answer; nothing is written yet.\<close>

definition judge :: "v3_env \<Rightarrow> identity_graph \<Rightarrow> string \<Rightarrow> role_evidence \<Rightarrow> evidence_packet \<Rightarrow> v3_result res" where
  "judge env ig sid e p =
     bind_res (map_res (run_role e) v3_roles) (\<lambda>outputs.
     bind_res (council_evaluate (v3_sqrt env) (v3_tanh env) v3_roles e) (\<lambda>council.
     bind_res (synthesize (v3_sqrt env) v3_weights outputs) (\<lambda>synthesis.
     bind_res (if sid = [] then Inr 0 else get_session_risk (v3_hash env) ig sid) (\<lambda>risk.
       let score = combined_score (sr_human_probability synthesis) (cr_consensus council) risk in
       Inr \<lparr>vr_roles = outputs, vr_council = council, vr_synthesis = synthesis, vr_cross_risk = risk, vr_combined = score,
            vr_decision = v3_decision score, vr_risk_factors = extract_risk_factors synthesis council, vr_packet = p,
            vr_drift = re_drift e\<rparr>))))"

definition detection_of :: "v3_result \<Rightarrow> dict" where
  "detection_of r =
     [(''human_probability'', PFloat (sr_human_probability (vr_synthesis r))),
      (''bot_probability'', PFloat (1 - sr_human_probability (vr_synthesis r))),
      (''confidence'', PFloat (sr_confidence (vr_synthesis r))), (''decision'', PStr (vr_decision r))]"

definition evaluate_internal ::
    "v3_env \<Rightarrow> string \<Rightarrow> dict \<Rightarrow> dict \<Rightarrow> evidence_packet \<Rightarrow> v3_state \<Rightarrow> v3_result res \<times> v3_state" where
  "evaluate_internal env sid session event p st =
     (let tm1 = timeline_append (v3_now env) (v3_memory st) sid event;
          (b, tm2) = build_evidence env (v3_identity st) tm1 session event p;
          st2 = st\<lparr>v3_memory := tm2\<rparr> in
      case bind_res b (\<lambda>(e, p'). judge env (v3_identity st) sid e p') of
        Inl err \<Rightarrow> (Inl err, st2)
      | Inr r \<Rightarrow>
          (let (added, ig) = add_session (v3_hash env) (v3_norm env) similarity_threshold sid
                 (dset ''detection'' (PDict (detection_of r)) session) (v3_identity st)
           in (bind_res added (\<lambda>_. Inr r), st2\<lparr>v3_identity := ig\<rparr>)))"

text \<open>\<open>run\<close>: the event and the default session come from the packet.\<close>

definition v3_run :: "v3_env \<Rightarrow> evidence_packet \<Rightarrow> dict \<Rightarrow> v3_state \<Rightarrow> v3_result res \<times> v3_state" where
  "v3_run env p session st =
     evaluate_internal env (ep_session_id p)
       (dsetdefault ''session_id'' (PStr (ep_session_id p)) (if session \<noteq> [] then session else session_context p))
       (latest_event p) p st"

section \<open>The runtime of the decision engine\<close>

text \<open>The adapter reads the roles of the answer and nothing else. The risk never fails on the states the orchestrator
  reaches, so its failure needs no value here.\<close>

definition v3_answer :: "v3_result \<Rightarrow> pv" where
  "v3_answer r = PDict [(''roles'', PDict (map (apsnd PDict) (vr_roles r)))]"

definition v3_update :: "v3_result \<Rightarrow> packet_update" where
  "v3_update r = \<lparr>pu_identity_refs = identity_refs (vr_packet r), pu_metadata = ep_metadata (vr_packet r)\<rparr>"

definition v3_runtime :: "v3_env \<Rightarrow> v3_state \<Rightarrow> ensemble_runtime" where
  "v3_runtime env st =
     \<lparr>er_window = (\<lambda>sid n. map PDict (fst (window (v3_memory st) sid (int n)))),
      er_identity_graph = Some (get_connected_sessions (v3_hash env) (v3_identity st),
        \<lambda>sid. case get_session_risk (v3_hash env) (v3_identity st) sid of Inr r \<Rightarrow> r | Inl _ \<Rightarrow> 0),
      er_orchestrate = (\<lambda>p g session. bind_res (fst (v3_run env p session st)) (\<lambda>r. Inr (v3_answer r, v3_update r))),
      er_mode = ''full'', er_degraded_reason = None\<rparr>"

section \<open>The roles of an answer\<close>

lemma map_res_rel: "map_res f xs = Inr ys \<longleftrightarrow> list_all2 (\<lambda>x y. f x = Inr y) xs ys"
  by (induction xs arbitrary: ys) (auto simp: bind_res_eq_Inr list_all2_Cons1)

lemma run_role_Inr: "run_role e a = Inr x \<longleftrightarrow> (\<exists>r. snd a e = Inr r \<and> x = (fst a, r))"
  by (auto simp: run_role_def split: sum.splits)

text \<open>Every role reports a human probability.\<close>

lemma roles_report:
  assumes "a \<in> set v3_roles" and "snd a e = Inr r" shows "dhas r ''human_probability''"
  using assms
  by (auto simp: v3_roles_def liveness_evaluate_def adversarial_evaluate_def mediation_evaluate_def relay_evaluate_def
      Let_def bind_res_eq_Inr dhas_def)

lemma reported_probability:
  "dhas r ''human_probability'' \<Longrightarrow> council_probability r = dget r ''human_probability'' \<and>
     synthesis_probability r = dget r ''human_probability''"
  by (auto simp: council_probability_def synthesis_probability_def dget_default_def dget_def dhas_def)

lemma council_of_roles:
  assumes "map_res (run_role e) v3_roles = Inr outputs" and "council_evaluate sqr thn v3_roles e = Inr c"
  shows "\<exists>ps. map_res (num_res \<circ> synthesis_probability \<circ> snd) outputs = Inr ps \<and> length ps = 4 \<and>
    c = \<lparr>cr_opinions = outputs, cr_consensus = mean ps, cr_disagreement = relative_spread sqr ps, cr_variance = variance ps,
         cr_confidence = 1 - thn (relative_spread sqr ps * 2), cr_distribution = ps\<rparr>"
proof -
  have rel: "list_all2 (\<lambda>a x. \<exists>r. snd a e = Inr r \<and> x = (fst a, r)) v3_roles outputs"
    using assms(1) by (simp add: map_res_rel run_role_Inr)
  have opinions: "map (council_opinion e) v3_roles = map (\<lambda>x. (synthesis_probability (snd x), x)) outputs"
  proof -
    have "list_all2 (\<lambda>a x. council_opinion e a = (synthesis_probability (snd x), x)) v3_roles outputs"
      using rel
    proof (rule list.rel_mono_strong)
      fix a x assume "a \<in> set v3_roles" and "\<exists>r. snd a e = Inr r \<and> x = (fst a, r)"
      then obtain r where r: "snd a e = Inr r" "x = (fst a, r)" "dhas r ''human_probability''" using roles_report by blast
      then show "council_opinion e a = (synthesis_probability (snd x), x)"
        using reported_probability [OF r(3)] by (simp add: council_opinion_def)
    qed
    then show ?thesis by (simp add: list_all2_conv_all_nth list_eq_iff_nth_eq)
  qed
  have "v3_roles \<noteq> []" by (simp add: v3_roles_def)
  then obtain ps where ps: "map_res (num_res \<circ> fst) (map (\<lambda>x. (synthesis_probability (snd x), x)) outputs) = Inr ps"
    and c: "c = \<lparr>cr_opinions = map snd (map (\<lambda>x. (synthesis_probability (snd x), x)) outputs), cr_consensus = mean ps,
      cr_disagreement = relative_spread sqr ps, cr_variance = variance ps,
      cr_confidence = 1 - thn (relative_spread sqr ps * 2), cr_distribution = ps\<rparr>"
    using assms(2) by (simp add: council_evaluate_def opinions Let_def bind_res_eq_Inr) blast
  have m: "map_res g (map h xs) = map_res (g \<circ> h) xs" for g :: "'c \<Rightarrow> 'd res" and h :: "'e \<Rightarrow> 'c" and xs
    by (induction xs) simp_all
  have "length outputs = 4" using rel [THEN list_all2_lengthD] by (simp add: v3_roles_def)
  then show ?thesis using ps c map_res_length [OF ps] by (simp add: m o_def)
qed

lemma role_weight_v3: "role_weight v3_weights name = 1"
  by (simp add: role_weight_def v3_weights_def v3_roles_def)

lemma weighted_mean:
  assumes "length ps = n" and "n \<noteq> 0"
  shows "sum_list (map2 (*) ps (map (\<lambda>w. w / sum_list (replicate n 1)) (replicate n 1))) = mean ps"
proof -
  have "sum_list (replicate n (1::rat)) = of_nat n" by (simp add: sum_list_replicate)
  moreover have "map2 (*) ps (replicate n c) = map (\<lambda>p. p * c) ps" for c :: rat
    using assms(1) by (auto simp: list_eq_iff_nth_eq)
  moreover have "sum_list (map (\<lambda>p. p / c) xs) = sum_list xs / c" for c :: rat and xs
    by (induction xs) (simp_all add: add_divide_distrib)
  ultimately show ?thesis using assms(1) by (simp add: mean_def map_replicate)
qed

lemma judge_Inr:
  assumes "judge env ig sid e p = Inr r"
  obtains ps where "length ps = 4" "map_res (num_res \<circ> synthesis_probability \<circ> snd) (vr_roles r) = Inr ps"
    "map_res (run_role e) v3_roles = Inr (vr_roles r)" "cr_consensus (vr_council r) = mean ps"
    "sr_human_probability (vr_synthesis r) = mean ps"
    "sr_confidence (vr_synthesis r) = 1 - min (relative_spread (v3_sqrt env) ps / 2) 1"
    "vr_combined r = combined_score (mean ps) (mean ps) (vr_cross_risk r)" "vr_decision r = v3_decision (vr_combined r)"
    "vr_packet r = p" "sid \<noteq> [] \<Longrightarrow> get_session_risk (v3_hash env) ig sid = Inr (vr_cross_risk r)"
    "sid = [] \<Longrightarrow> vr_cross_risk r = 0"
proof -
  from assms obtain outputs c s risk where parts: "map_res (run_role e) v3_roles = Inr outputs"
    "council_evaluate (v3_sqrt env) (v3_tanh env) v3_roles e = Inr c" "synthesize (v3_sqrt env) v3_weights outputs = Inr s"
    "(if sid = [] then Inr 0 else get_session_risk (v3_hash env) ig sid) = Inr risk"
    and r: "vr_roles r = outputs" "vr_council r = c" "vr_synthesis r = s" "vr_cross_risk r = risk"
      "vr_combined r = combined_score (sr_human_probability s) (cr_consensus c) risk" "vr_decision r = v3_decision (vr_combined r)"
      "vr_packet r = p"
    by (auto simp: judge_def bind_res_eq_Inr Let_def)
  obtain ps where ps: "map_res (num_res \<circ> synthesis_probability \<circ> snd) outputs = Inr ps" "length ps = 4" "cr_consensus c = mean ps"
    using council_of_roles [OF parts(1,2)] by auto
  have len: "length outputs = 4" using map_res_length [OF ps(1)] ps(2) by simp
  have "map (role_weight v3_weights \<circ> fst) outputs = replicate 4 1"
    using len by (simp add: role_weight_v3 o_def map_replicate_const)
  then have s: "sr_human_probability s = mean ps" "sr_confidence s = 1 - min (relative_spread (v3_sqrt env) ps / 2) 1"
    using parts(3) ps(1) len weighted_mean [OF ps(2)] by (auto simp: synthesize_def Let_def split: if_splits)
  have risk: "sid \<noteq> [] \<Longrightarrow> get_session_risk (v3_hash env) ig sid = Inr (vr_cross_risk r)" "sid = [] \<Longrightarrow> vr_cross_risk r = 0"
    using parts(4) r(4) by auto
  show ?thesis
    by (rule that [OF ps(2)]) (use ps(1,3) parts(1) s risk in \<open>simp_all add: r\<close>)
qed

lemma evaluate_internal_Inr:
  assumes "evaluate_internal env sid session event p st = (Inr r, st')"
  obtains e p' tm where "build_evidence env (v3_identity st) (timeline_append (v3_now env) (v3_memory st) sid event) session event p = (Inr (e, p'), tm)"
    "judge env (v3_identity st) sid e p' = Inr r"
    "st' = \<lparr>v3_memory = tm, v3_identity = snd (add_session (v3_hash env) (v3_norm env) similarity_threshold sid
       (dset ''detection'' (PDict (detection_of r)) session) (v3_identity st))\<rparr>"
proof -
  obtain b tm where b: "build_evidence env (v3_identity st) (timeline_append (v3_now env) (v3_memory st) sid event) session event p = (b, tm)"
    by force
  then obtain e p' where ok: "b = Inr (e, p')" "judge env (v3_identity st) sid e p' = Inr r"
    using assms by (auto simp: evaluate_internal_def Let_def bind_res_def split: sum.splits prod.splits)
  show ?thesis
    by (rule that [OF b [unfolded ok(1)] ok(2)])
      (use assms b ok in \<open>auto simp: evaluate_internal_def Let_def bind_res_def split: sum.splits prod.splits\<close>)
qed

section \<open>A sample run\<close>

definition sample_env :: v3_env where
  "sample_env = \<lparr>v3_rep = (\<lambda>_. []), v3_hash = (\<lambda>s. s), v3_norm = (\<lambda>_. 0), v3_sqrt = (\<lambda>x. x), v3_tanh = (\<lambda>x. x), v3_now = 0\<rparr>"

lemma sample_run_ok: "\<not> isl (fst (v3_run sample_env plain_packet [] v3_init))"
  by code_simp

lemma sample_run: "\<exists>r st'. v3_run sample_env plain_packet [] v3_init = (Inr r, st')"
proof -
  obtain a st' where run: "v3_run sample_env plain_packet [] v3_init = (a, st')" by fastforce
  with sample_run_ok show ?thesis by (cases a) auto
qed

section \<open>Council and ensemble\<close>

text \<open>C24: The council never disagrees with the ensemble: whenever the orchestrator answers, the council's consensus is the
  synthesized human probability, so the combined score that decides is four fifths of that one number and one
  fifth of the absence of cross-session risk.\<close>

theorem council_repeats_the_ensemble:
  assumes "v3_run env p session st = (Inr r, st')"
  shows "let human = sr_human_probability (vr_synthesis r) in
    cr_consensus (vr_council r) = human \<and> vr_combined r = 0.8 * human + 0.2 * (1 - vr_cross_risk r) \<and>
    vr_decision r = v3_decision (0.8 * human + 0.2 * (1 - vr_cross_risk r))"
proof -
  obtain e p' where "judge env (v3_identity st) (ep_session_id p) e p' = Inr r"
    using assms unfolding v3_run_def by (rule evaluate_internal_Inr) blast
  then obtain ps where "cr_consensus (vr_council r) = mean ps" "sr_human_probability (vr_synthesis r) = mean ps"
    "vr_combined r = combined_score (mean ps) (mean ps) (vr_cross_risk r)" "vr_decision r = v3_decision (vr_combined r)"
    by (rule judge_Inr) blast
  moreover from this(3) have "vr_combined r = 0.8 * mean ps + 0.2 * (1 - vr_cross_risk r)"
    by (simp add: combined_score_def algebra_simps)
  ultimately show ?thesis by (simp add: Let_def)
qed

theorem council_repeats_the_ensemble_witness:
  "\<exists>r st'. v3_run sample_env plain_packet [] v3_init = (Inr r, st') \<and>
     cr_consensus (vr_council r) = sr_human_probability (vr_synthesis r)"
  using sample_run council_repeats_the_ensemble by (meson)

section \<open>Ranges\<close>

definition sqrt_ok :: "v3_env \<Rightarrow> bool" where
  "sqrt_ok env \<longleftrightarrow> (\<forall>x \<ge> 0. 0 \<le> v3_sqrt env x)"

lemma unit_get:
  assumes "unit_signals s" and "k \<in> {''liveness'', ''ai_mediation'', ''relay_risk''}" and "num_res (dget_default s k (PFloat 0)) = Inr x"
  shows "in_unit x"
  using assms by (auto simp: unit_signals_def num_res_Inr dget_default_def in_unit_def split: option.splits)

lemma in_unit_diff: "in_unit x \<Longrightarrow> in_unit (1 - x)"
  by (simp add: in_unit_def)

lemma role_in_unit:
  assumes "unit_signals (re_signals e)" and "a \<in> set v3_roles" and "snd a e = Inr r" and "num_res (synthesis_probability r) = Inr x"
  shows "in_unit x"
proof -
  have d: "synthesis_probability r = dget r ''human_probability''"
    using reported_probability [OF roles_report [OF assms(2,3)]] by simp
  consider "snd a = liveness_evaluate" | "snd a = adversarial_evaluate" | "snd a = mediation_evaluate" | "snd a = relay_evaluate"
    using assms(2) by (auto simp: v3_roles_def)
  then show ?thesis
  proof cases
    case 1
    then have "num_res (dget_default (re_signals e) ''liveness'' (PFloat 0)) = Inr x"
      using assms(3,4) d by (auto simp: liveness_evaluate_def bind_res_eq_Inr Let_def dget_def)
    then show ?thesis by (rule unit_get [OF assms(1), rotated]) simp
  next
    case 2
    then have "adversarial_evaluate e = Inr r" using assms(3) by simp
    then obtain fs cs where "dget r ''human_probability'' = PFloat (1 - adversarial_severity fs cs)" by (rule adversarial_Inr)
    then have "x = 1 - adversarial_severity fs cs" using assms(4) d by simp
    then show ?thesis by (simp only: in_unit_diff [OF severity_range])
  next
    case 3
    then obtain y where "num_res (dget_default (re_signals e) ''ai_mediation'' (PFloat 0)) = Inr y" "x = 1 - y"
      using assms(3,4) d by (auto simp: mediation_evaluate_def bind_res_eq_Inr Let_def dget_def)
    then show ?thesis using in_unit_diff unit_get [OF assms(1)] by blast
  next
    case 4
    then obtain y where "num_res (dget_default (re_signals e) ''relay_risk'' (PFloat 0)) = Inr y" "x = 1 - y"
      using assms(3,4) d by (auto simp: relay_evaluate_def bind_res_eq_Inr Let_def dget_def)
    then show ?thesis using in_unit_diff unit_get [OF assms(1)] by blast
  qed
qed

lemma mean_in_unit: "list_all in_unit xs \<Longrightarrow> xs \<noteq> [] \<Longrightarrow> in_unit (mean xs)"
  using sum_list_unit [of xs] by (auto simp: mean_def in_unit_def divide_le_eq)

lemma variance_nonneg: "0 \<le> variance xs"
  by (auto simp: variance_def Let_def intro!: divide_nonneg_nonneg sum_list_nonneg)

lemma judged_in_unit:
  assumes "judge env ig sid e p = Inr r" and "unit_signals (re_signals e)" and "sqrt_ok env"
  shows "in_unit (sr_human_probability (vr_synthesis r)) \<and> in_unit (sr_confidence (vr_synthesis r))"
proof -
  obtain ps where ps: "length ps = 4" "map_res (num_res \<circ> synthesis_probability \<circ> snd) (vr_roles r) = Inr ps"
    "map_res (run_role e) v3_roles = Inr (vr_roles r)" "sr_human_probability (vr_synthesis r) = mean ps"
    "sr_confidence (vr_synthesis r) = 1 - min (relative_spread (v3_sqrt env) ps / 2) 1"
    using assms(1) by (rule judge_Inr)
  have "in_unit x" if x: "x \<in> set ps" for x
  proof -
    have "list_all2 (\<lambda>a y. run_role e a = Inr y) v3_roles (vr_roles r)" "list_all2 (\<lambda>y q. num_res (synthesis_probability (snd y)) = Inr q) (vr_roles r) ps"
      using ps(2,3) by (simp_all add: map_res_rel)
    note rel = this
    obtain y where y: "y \<in> set (vr_roles r)" "num_res (synthesis_probability (snd y)) = Inr x" using list_all2_set2 [OF rel(2) x] by blast
    obtain a where a: "a \<in> set v3_roles" "run_role e a = Inr y" using list_all2_set2 [OF rel(1) y(1)] by blast
    from a(2) obtain z where "snd a e = Inr z" "y = (fst a, z)" by (auto simp: run_role_Inr)
    then show ?thesis using role_in_unit [OF assms(2) a(1)] y(2) by simp
  qed
  then have m: "in_unit (mean ps)" using ps(1) by (intro mean_in_unit) (auto simp: list_all_iff)
  then have "0 \<le> relative_spread (v3_sqrt env) ps"
    using assms(3) variance_nonneg [of ps] by (auto simp: relative_spread_def sqrt_ok_def in_unit_def)
  then show ?thesis using m ps(4,5) by (auto simp: in_unit_def)
qed

section \<open>States the orchestrator reaches\<close>

lemma build_evidence_Inr:
  assumes "build_evidence env ig tm session event p = (Inr (e, p'), tm')"
  obtains moved refs where "refer_identity env ig (session_ref session event) (identity_refs p) = Inr refs"
    "p' = p\<lparr>ep_metadata := dset ''temporal_drift'' (PFloat moved) (ep_metadata p), identity_refs := refs\<rparr>"
    "re_signals e = role_signals p'"
proof -
  obtain d tm1 where d: "drift_of tm (session_ref session event) = (d, tm1)" by force
  obtain w tm2 where w: "touch_window tm1 (session_ref session event) = (w, tm2)" by force
  obtain moved where m: "d = Inr moved" using assms d by (cases d) (auto simp: build_evidence_def Let_def)
  obtain refs where r: "refer_identity env ig (session_ref session event) (identity_refs p) = Inr refs"
    using assms d m by (cases "refer_identity env ig (session_ref session event) (identity_refs p)") (auto simp: build_evidence_def Let_def)
  show ?thesis
    by (rule that [OF r]) (use assms in \<open>auto simp: build_evidence_def Let_def d m r w bind_res_def split: sum.splits\<close>)
qed

lemma signals_keep:
  "k \<noteq> ''cluster_risk'' \<Longrightarrow> map_of (role_signals (p\<lparr>ep_metadata := m, identity_refs := refs\<rparr>)) k = map_of (role_signals p) k"
  by (simp add: role_signals_def Let_def map_of_dsetdefault split: option.split)

lemma unit_signals_keep: "unit_signals (role_signals p) \<Longrightarrow> unit_signals (role_signals (p\<lparr>ep_metadata := m, identity_refs := refs\<rparr>))"
  by (simp add: unit_signals_def signals_keep)

lemma detection_usable:
  assumes "in_unit (sr_human_probability (vr_synthesis r))" and "in_unit (sr_confidence (vr_synthesis r))"
  shows "\<exists>x bot. session_contribution (dset ''detection'' (PDict (detection_of r)) session) = Inr (x, bot) \<and> in_unit x"
proof -
  have "in_unit ((1 - sr_human_probability (vr_synthesis r)) * sr_confidence (vr_synthesis r))"
    using assms by (auto simp: in_unit_def intro: mult_le_one)
  then show ?thesis by (simp add: session_contribution_def dget_default_def detection_of_def map_of_dset)
qed

text \<open>Runs over packets whose scored signals lie in the unit interval, failing ones included.\<close>

inductive v3_reachable :: "v3_env \<Rightarrow> v3_state \<Rightarrow> bool" for env where
  reach_init: "v3_reachable env v3_init"
| reach_run: "v3_reachable env st \<Longrightarrow> unit_signals (role_signals p) \<Longrightarrow> v3_reachable env (snd (v3_run env p session st))"

definition usable_graph :: "v3_env \<Rightarrow> identity_graph \<Rightarrow> bool" where
  "usable_graph env ig \<longleftrightarrow> (\<exists>xs. ig = add_sessions (v3_hash env) (v3_norm env) similarity_threshold xs empty_identity \<and>
     (\<forall>(s, d) \<in> set xs. \<exists>x bot. session_contribution d = Inr (x, bot) \<and> in_unit x))"

lemma add_sessions_append:
  "add_sessions hash nrm threshold (xs @ [(s, d)]) ig = snd (add_session hash nrm threshold s d (add_sessions hash nrm threshold xs ig))"
  by (induction hash nrm threshold xs ig rule: add_sessions.induct) simp_all

lemma usable_add:
  assumes "usable_graph env ig" and "\<exists>x bot. session_contribution d = Inr (x, bot) \<and> in_unit x"
  shows "usable_graph env (snd (add_session (v3_hash env) (v3_norm env) similarity_threshold s d ig))"
proof -
  obtain xs where "ig = add_sessions (v3_hash env) (v3_norm env) similarity_threshold xs empty_identity"
    "\<forall>(s, d) \<in> set xs. \<exists>x bot. session_contribution d = Inr (x, bot) \<and> in_unit x"
    using assms(1) by (auto simp: usable_graph_def)
  with assms(2) show ?thesis
    unfolding usable_graph_def by (intro exI [of _ "xs @ [(s, d)]"]) (auto simp: add_sessions_append)
qed

lemma evaluate_internal_identity:
  "v3_identity (snd (evaluate_internal env sid session event p st)) =
     (case bind_res (fst (build_evidence env (v3_identity st) (timeline_append (v3_now env) (v3_memory st) sid event) session event p))
        (\<lambda>(e, p'). judge env (v3_identity st) sid e p') of
        Inl err \<Rightarrow> v3_identity st
      | Inr r \<Rightarrow> snd (add_session (v3_hash env) (v3_norm env) similarity_threshold sid
          (dset ''detection'' (PDict (detection_of r)) session) (v3_identity st)))"
  by (simp add: evaluate_internal_def Let_def split_beta split: sum.split)

lemma judged_packet:
  assumes "bind_res (fst (build_evidence env ig tm session event p)) (\<lambda>(e, p'). judge env ig sid e p') = Inr r"
    and "unit_signals (role_signals p)" and "sqrt_ok env"
  shows "in_unit (sr_human_probability (vr_synthesis r)) \<and> in_unit (sr_confidence (vr_synthesis r))"
proof -
  obtain e p' tm' where b: "build_evidence env ig tm session event p = (Inr (e, p'), tm')" and j: "judge env ig sid e p' = Inr r"
    using assms(1) by (cases "build_evidence env ig tm session event p") (auto simp: bind_res_eq_Inr)
  from b obtain m refs where "p' = p\<lparr>ep_metadata := m, identity_refs := refs\<rparr>" "re_signals e = role_signals p'"
    by (rule build_evidence_Inr) blast
  then have "unit_signals (re_signals e)" using unit_signals_keep [OF assms(2)] by simp
  then show ?thesis by (rule judged_in_unit [OF j _ assms(3)])
qed

lemma reachable_usable:
  assumes "v3_reachable env st" and "sqrt_ok env" shows "usable_graph env (v3_identity st)"
  using assms
proof (induction rule: v3_reachable.induct)
  case reach_init
  then show ?case by (auto simp: v3_init_def usable_graph_def intro: exI [of _ "[]"])
next
  case (reach_run st p session)
  then show ?case
    unfolding v3_run_def evaluate_internal_identity
    by (auto split: sum.split intro!: usable_add detection_usable dest!: judged_packet)
qed

lemma reachable_risk:
  assumes "v3_reachable env st" and "sqrt_ok env"
  shows "\<exists>r. get_session_risk (v3_hash env) (v3_identity st) sid = Inr r \<and> in_unit r"
proof -
  obtain xs where "v3_identity st = add_sessions (v3_hash env) (v3_norm env) similarity_threshold xs empty_identity"
    "\<forall>(s, d) \<in> set xs. \<exists>x bot. session_contribution d = Inr (x, bot) \<and> in_unit x"
    using reachable_usable [OF assms] by (auto simp: usable_graph_def)
  then show ?thesis by (intro session_risk_usable) auto
qed

lemma combined_in_unit:
  assumes "in_unit h" and "in_unit c" and "in_unit risk" shows "in_unit (combined_score h c risk)"
proof -
  have "0 \<le> h" "h \<le> 1" "0 \<le> c" "c \<le> 1" "0 \<le> risk" "risk \<le> 1" using assms by (auto simp: in_unit_def)
  then have "0 \<le> h * 0.6 + c * 0.2 + (1 - risk) * 0.2" and "h * 0.6 + c * 0.2 + (1 - risk) * 0.2 \<le> 1"
    by (simp_all add: field_simps)
  then show ?thesis by (simp only: in_unit_def combined_score_def)
qed

text \<open>C6: The scores of the orchestrator are probabilities as long as the signals are: in every state reached by packets whose
  \<open>liveness\<close>, \<open>ai_mediation\<close> and \<open>relay_risk\<close> signals lie in the unit interval, failed evaluations included, the
  cross-session risk of any session is defined and in the unit interval, and so are the human probability, the
  confidence and the combined score of the next answer to such a packet. The code does not check these signals, which
  come from the client: \<open>unchecked_signals_escape\<close> below shows what a larger one does.\<close>

theorem v3_scores_in_range:
  assumes "v3_reachable env st" and "sqrt_ok env" and "unit_signals (role_signals p)"
    and "v3_run env p session st = (Inr r, st')"
  shows "in_unit (sr_human_probability (vr_synthesis r)) \<and> in_unit (sr_confidence (vr_synthesis r)) \<and>
    in_unit (vr_cross_risk r) \<and> in_unit (vr_combined r) \<and>
    (\<forall>sid. \<exists>risk. get_session_risk (v3_hash env) (v3_identity st') sid = Inr risk \<and> in_unit risk)"
proof -
  obtain e p' tm where b: "build_evidence env (v3_identity st) (timeline_append (v3_now env) (v3_memory st) (ep_session_id p) (latest_event p))
      (dsetdefault ''session_id'' (PStr (ep_session_id p)) (if session \<noteq> [] then session else session_context p)) (latest_event p) p
      = (Inr (e, p'), tm)"
    and j: "judge env (v3_identity st) (ep_session_id p) e p' = Inr r"
    using assms(4) unfolding v3_run_def by (rule evaluate_internal_Inr)
  have scores: "in_unit (sr_human_probability (vr_synthesis r)) \<and> in_unit (sr_confidence (vr_synthesis r))"
  proof -
    have "bind_res (fst (build_evidence env (v3_identity st) (timeline_append (v3_now env) (v3_memory st) (ep_session_id p) (latest_event p))
      (dsetdefault ''session_id'' (PStr (ep_session_id p)) (if session \<noteq> [] then session else session_context p)) (latest_event p) p))
      (\<lambda>(e, p'). judge env (v3_identity st) (ep_session_id p) e p') = Inr r"
      by (simp add: b j)
    then show ?thesis by (rule judged_packet [OF _ assms(3,2)])
  qed
  obtain ps where ps: "sr_human_probability (vr_synthesis r) = mean ps"
    "vr_combined r = combined_score (mean ps) (mean ps) (vr_cross_risk r)"
    "ep_session_id p \<noteq> [] \<Longrightarrow> get_session_risk (v3_hash env) (v3_identity st) (ep_session_id p) = Inr (vr_cross_risk r)"
    "ep_session_id p = [] \<Longrightarrow> vr_cross_risk r = 0"
    using j by (rule judge_Inr) blast
  have risk: "in_unit (vr_cross_risk r)"
  proof (cases "ep_session_id p = []")
    case True
    then show ?thesis using ps(4) by (simp add: in_unit_def)
  next
    case False
    then show ?thesis using ps(3) reachable_risk [OF assms(1,2), of "ep_session_id p"] by auto
  qed
  have "in_unit (vr_combined r)" using scores risk ps(1,2) combined_in_unit by simp
  moreover have "v3_reachable env st'" using reach_run [OF assms(1,3), of session] assms(4) by simp
  ultimately show ?thesis using scores risk reachable_risk [OF _ assms(2)] by blast
qed

theorem v3_scores_in_range_witness:
  "\<exists>r st'. v3_run sample_env plain_packet [] v3_init = (Inr r, st') \<and> in_unit (vr_combined r)"
proof -
  obtain r st' where run: "v3_run sample_env plain_packet [] v3_init = (Inr r, st')" using sample_run by blast
  have "sqrt_ok sample_env" by (simp add: sqrt_ok_def sample_env_def)
  moreover have "unit_signals (role_signals plain_packet)"
    by (simp add: unit_signals_def role_signals_def plain_packet_def dget_def)
  ultimately have "in_unit (vr_combined r)" using v3_scores_in_range [OF reach_init _ _ run] by blast
  with run show ?thesis by blast
qed

text \<open>The signals are not checked: a liveness of five in the event gives a human probability above one.\<close>

definition eager_packet :: evidence_packet where
  "eager_packet = plain_packet\<lparr>behavioral_features := [(''liveness'', PInt 5)]\<rparr>"

theorem unchecked_signals_escape:
  "case fst (v3_run sample_env eager_packet [] v3_init) of Inl _ \<Rightarrow> False | Inr r \<Rightarrow> 1 < sr_human_probability (vr_synthesis r)"
  by code_simp

end
