(* ===== verification/Cluster_Flag.thy ===== *)
theory Cluster_Flag
  imports Orchestrator
begin

text \<open>
  The decision engine over the production orchestrator: what becomes of the cluster risk that the engine writes
  into the context, the orchestrator rewrites in the packet and the synthesizer reads.
\<close>

section \<open>The cluster flag\<close>












section \<open>A flagged cluster\<close>







end
