(* ===== verification/Legacy_Orchestrator.thy ===== *)
theory Legacy_Orchestrator
  imports Core_Roles
begin

text \<open>
  The adaptive weights (\<open>truepresence/adaptive/weighting.py\<close>) and the first orchestrator
  (\<open>truepresence/core/orchestrator.py\<close>), which keeps a timeline and runs all five roles on evidence that
  holds the session, the event and the recent history. The result dictionary is a record; the copies of
  evidence inside it are left out.
\<close>

section \<open>Adaptive weights\<close>

type_synonym weights = "(string \<times> rat) list"

record adaptive_weights =
  aw_weights :: weights
  aw_rate :: rat
  aw_history :: "(weights \<times> weights \<times> rat) list"

definition default_weights :: weights where
  "default_weights = [(''liveness'', 0.4), (''adversarial'', 0.3), (''mediation'', 0.3)]"

definition init_weights :: "weights option \<Rightarrow> rat \<Rightarrow> adaptive_weights" where
  "init_weights initial rate =
     \<lparr>aw_weights = (case initial of None \<Rightarrow> default_weights | Some ws \<Rightarrow> ws), aw_rate = rate, aw_history = []\<rparr>"

definition total_weight :: "weights \<Rightarrow> rat" where
  "total_weight ws = sum_list (map snd ws)"

definition normalize_weights :: "weights \<Rightarrow> weights" where
  "normalize_weights ws = (if total_weight ws > 0 then map (apsnd (\<lambda>w. w / total_weight ws)) ws else ws)"

definition adjust_weight :: "rat \<Rightarrow> rat \<Rightarrow> string \<times> rat \<Rightarrow> weights \<Rightarrow> weights" where
  "adjust_weight rate outcome = (\<lambda>(role, score) ws.
     case map_of ws role of None \<Rightarrow> ws | Some w \<Rightarrow> dset role (w + rate * (outcome - score) * score) ws)"

definition update_weights :: "weights \<Rightarrow> rat \<Rightarrow> adaptive_weights \<Rightarrow> adaptive_weights" where
  "update_weights scores outcome a =
     (if scores = [] then a
      else a\<lparr>aw_history := aw_history a @ [(aw_weights a, scores, outcome)],
             aw_weights := normalize_weights (fold (adjust_weight (aw_rate a) outcome) scores (aw_weights a))\<rparr>)"

definition set_learning_rate :: "rat \<Rightarrow> adaptive_weights \<Rightarrow> adaptive_weights" where
  "set_learning_rate rate a = a\<lparr>aw_rate := rate\<rparr>"

definition reset_weights :: "adaptive_weights \<Rightarrow> adaptive_weights" where
  "reset_weights a = a\<lparr>aw_weights := default_weights, aw_history := []\<rparr>"

definition weight_history :: "int \<Rightarrow> adaptive_weights \<Rightarrow> (weights \<times> weights \<times> rat) list" where
  "weight_history limit a = py_last limit (aw_history a)"

section \<open>The first orchestrator\<close>

definition first_roles :: "(string \<times> role_function) list" where
  "first_roles =
     [(''liveness'', liveness_evaluate), (''adversarial'', adversarial_evaluate), (''mediation'', mediation_evaluate),
      (''relay'', relay_evaluate), (''synthesizer'', synthesizer_evaluate [])]"

text \<open>All roles but the synthesizer are registered, with weight one.\<close>

definition first_weights :: weights where
  "first_weights = [(''liveness'', 1), (''adversarial'', 1), (''mediation'', 1), (''relay'', 1)]"

text \<open>The timeline under whatever \<open>session.get("session_id", "default")\<close> is: only texts name a session when reading.\<close>

fun read_timeline :: "timeline \<Rightarrow> pv \<Rightarrow> rat res \<times> timeline" where
  "read_timeline tm (PStr s) = drift (touch s tm) s"
| "read_timeline tm (PInt n) = (Inr 0, touch ''default'' tm)"
| "read_timeline tm (PBool b) = (Inr 0, touch ''default'' tm)"
| "read_timeline tm v = (Inl (TypeError ''bad operand type for a slice''), touch ''default'' tm)"

text \<open>The evidence has no signals: the roles find the defaults. The role outputs reach it only after the roles ran.\<close>

definition first_evidence :: "rat \<Rightarrow> role_evidence" where
  "first_evidence moved = \<lparr>re_signals = [], re_drift = moved\<rparr>"

record first_result =
  fr_roles :: "(string \<times> role_output) list"
  fr_synthesis :: synthesis_result
  fr_decision :: string
  fr_weighted :: "(string \<times> rat) list"
  fr_drift :: rat

definition first_role :: "role_evidence \<Rightarrow> string \<times> role_function \<Rightarrow> (string \<times> role_output) res" where
  "first_role e a = (case snd a e of
      Inl err \<Rightarrow> Inl (RoleError (''Role failed during evaluate: '' @ fst a)) | Inr r \<Rightarrow> Inr (fst a, r))"

definition weighted_role :: "weights \<Rightarrow> string \<times> role_output \<Rightarrow> (string \<times> rat) res" where
  "weighted_role ws = (\<lambda>(name, out). bind_res (num_res (dget_default out ''human_probability'' (PFloat 0.5)))
     (\<lambda>p. Inr (name, p * role_weight ws name)))"

definition first_judge :: "(rat \<Rightarrow> rat) \<Rightarrow> weights \<Rightarrow> rat \<Rightarrow> first_result res" where
  "first_judge sqr ws moved =
     bind_res (map_res (first_role (first_evidence moved)) first_roles) (\<lambda>outputs.
     bind_res (case synthesize sqr first_weights outputs of
         Inl err \<Rightarrow> Inl (OrchestratorError ''Synthesis failed'') | Inr s \<Rightarrow> Inr s) (\<lambda>s.
     bind_res (map_res (weighted_role ws) outputs) (\<lambda>weighted.
       Inr \<lparr>fr_roles = outputs, fr_synthesis = s, fr_decision = trust_decision (sr_human_probability s), fr_weighted = weighted,
            fr_drift = moved\<rparr>)))"

definition first_evaluate ::
    "(pv \<Rightarrow> string) \<Rightarrow> (rat \<Rightarrow> rat) \<Rightarrow> rat \<Rightarrow> weights \<Rightarrow> dict \<Rightarrow> dict \<Rightarrow> timeline \<Rightarrow> first_result res \<times> timeline" where
  "first_evaluate rep sqr now ws session event tm =
     (let sid = dget_default session ''session_id'' (PStr ''default'');
          (d, tm') = read_timeline (timeline_append now tm (py_str rep sid) event) sid in
      case d of Inl err \<Rightarrow> (Inl (OrchestratorError ''Failed to build evidence''), tm')
      | Inr moved \<Rightarrow> (first_judge sqr ws moved, tm'))"

section \<open>The sum of the weights\<close>

lemma total_dset: "map_of ws k = Some w \<Longrightarrow> total_weight (dset k v ws) = total_weight ws - w + v"
  by (induction ws) (auto simp: total_weight_def split: if_splits)

lemma keys_dset: "map_of ws k = Some w \<Longrightarrow> map fst (dset k v ws) = map fst ws"
  by (induction ws) (auto split: if_splits)

lemma keys_adjust: "map fst (adjust_weight rate outcome s ws) = map fst ws"
  by (auto simp: adjust_weight_def keys_dset split: prod.splits option.splits)

lemma keys_adjust_all: "map fst (fold (adjust_weight rate outcome) ss ws) = map fst ws"
  by (induction ss arbitrary: ws) (simp_all add: keys_adjust)

text \<open>One adjustment lowers the total by at most a tenth, and only that of a known role.\<close>

lemma total_adjust:
  assumes "in_unit (snd s)" and "\<bar>outcome\<bar> \<le> 1"
  shows "total_weight ws - (if fst s \<in> fst ` set ws then 0.1 else 0) \<le> total_weight (adjust_weight 0.05 outcome s ws)"
proof (cases "map_of ws (fst s)")
  case None
  then have "fst s \<notin> fst ` set ws" by (simp only: map_of_eq_None_iff not_False_eq_True)
  then show ?thesis by (simp add: adjust_weight_def split_beta None)
next
  case (Some w)
  then have "map_of ws (fst s) \<noteq> None" by simp
  then have mem: "fst s \<in> fst ` set ws" by (simp only: map_of_eq_None_iff not_not)
  have "(outcome - snd s) * snd s \<ge> - 2 * 1"
  proof -
    have "(-2) * 1 \<le> (-2) * snd s" using assms(1) by (simp add: in_unit_def)
    also have "\<dots> \<le> (outcome - snd s) * snd s" using assms by (intro mult_right_mono) (auto simp: in_unit_def)
    finally show ?thesis by simp
  qed
  then have "0.05 * ((outcome - snd s) * snd s) \<ge> - 0.1" by simp
  then show ?thesis using Some mem by (simp add: adjust_weight_def split_beta total_dset mult.assoc)
qed

lemma total_adjust_all:
  assumes "list_all (\<lambda>s. in_unit (snd s)) ss" and "\<bar>outcome\<bar> \<le> 1"
  shows "total_weight ws - 0.1 * of_nat (length (filter (\<lambda>s. fst s \<in> fst ` set ws) ss)) \<le>
    total_weight (fold (adjust_weight 0.05 outcome) ss ws)"
  using assms(1)
proof (induction ss arbitrary: ws)
  case (Cons s ss)
  let ?ws = "adjust_weight 0.05 outcome s ws"
  have keys: "fst ` set (adjust_weight rate outcome s ws) = fst ` set ws" for rate
    using keys_adjust [of rate outcome s ws] by (metis list.set_map)
  have "total_weight ws - (if fst s \<in> fst ` set ws then 0.1 else 0) \<le> total_weight ?ws"
    using Cons.prems assms(2) by (intro total_adjust) simp_all
  moreover have "total_weight ?ws - 0.1 * of_nat (length (filter (\<lambda>s. fst s \<in> fst ` set ws) ss)) \<le>
      total_weight (fold (adjust_weight 0.05 outcome) ss ?ws)"
    using Cons.IH [of ?ws] Cons.prems by (simp add: keys)
  ultimately show ?case by (auto simp: field_simps split: if_splits)
qed simp

lemma normalized_total: "total_weight ws > 0 \<Longrightarrow> total_weight (normalize_weights ws) = 1"
proof -
  assume pos: "total_weight ws > 0"
  have "sum_list (map (\<lambda>x. snd x / c) ws) = sum_list (map snd ws) / c" for c :: rat
    by (induction ws) (simp_all add: add_divide_distrib)
  then show ?thesis using pos by (simp add: normalize_weights_def total_weight_def o_def)
qed

lemma keys_normalize: "map fst (normalize_weights ws) = map fst ws"
  by (simp add: normalize_weights_def)

lemma few_adjustments:
  assumes "distinct (map fst ss)" and "length ws = 3" shows "length (filter (\<lambda>s. fst s \<in> fst ` set ws) ss) \<le> 3"
proof -
  have "length (filter (\<lambda>s. fst s \<in> fst ` set ws) ss) = card (fst ` set (filter (\<lambda>s. fst s \<in> fst ` set ws) ss))"
    using assms(1) by (metis distinct_card distinct_map_filter length_map list.set_map)
  also have "\<dots> \<le> card (fst ` set ws)" by (intro card_mono) auto
  also have "\<dots> \<le> length ws" using card_length [of "map fst ws"] by simp
  finally show ?thesis using assms(2) by simp
qed

definition sane_feedback :: "weights \<times> rat \<Rightarrow> bool" where
  "sane_feedback f \<longleftrightarrow> distinct (map fst (fst f)) \<and> list_all (\<lambda>s. in_unit (snd s)) (fst f) \<and> \<bar>snd f\<bar> \<le> 1"

text \<open>In exact arithmetic the default weights at the default rate sum to one after any sane feedback (scores in the unit
  interval, outcomes between minus one and one, each role once), and keep their roles. An outcome far outside the
  documented range makes the total negative, and then nothing is normalised.\<close>

theorem weights_stay_normalised:
  assumes "list_all sane_feedback feedback"
  shows "let a = fold (\<lambda>(scores, outcome). update_weights scores outcome) feedback (init_weights None 0.05) in
    total_weight (aw_weights a) = 1 \<and> map fst (aw_weights a) = map fst default_weights"
proof -
  let ?ok = "\<lambda>a. total_weight (aw_weights a) = 1 \<and> map fst (aw_weights a) = map fst default_weights \<and> aw_rate a = 0.05"
  have step: "?ok (update_weights scores outcome a)" if a: "?ok a" and f: "sane_feedback (scores, outcome)" for a scores outcome
  proof -
    have len: "length (aw_weights a) = 3" using a by (metis length_map default_weights_def list.size(3,4) One_nat_def numeral_3_eq_3 add_Suc_right add_0_right)
    have "total_weight (aw_weights a) - 0.1 * of_nat (length (filter (\<lambda>s. fst s \<in> fst ` set (aw_weights a)) scores)) \<le>
        total_weight (fold (adjust_weight 0.05 outcome) scores (aw_weights a))"
      using f by (intro total_adjust_all) (simp_all add: sane_feedback_def)
    moreover have "of_nat (length (filter (\<lambda>s. fst s \<in> fst ` set (aw_weights a)) scores)) \<le> (3 :: rat)"
      using few_adjustments [OF _ len, of scores] f by (simp add: sane_feedback_def)
    ultimately have "0 < total_weight (fold (adjust_weight 0.05 outcome) scores (aw_weights a))" using a by simp
    moreover have "aw_rate a = 0.05" using a by blast
    ultimately have b: "total_weight (normalize_weights (fold (adjust_weight (aw_rate a) outcome) scores (aw_weights a))) = 1"
      by (simp only: normalized_total)
    show ?thesis using a by (simp add: update_weights_def keys_normalize keys_adjust_all b)
  qed
  have "?ok (fold (\<lambda>(scores, outcome). update_weights scores outcome) feedback a)" if "?ok a" for a
    using that assms
  proof (induction feedback arbitrary: a)
    case (Cons f fs)
    obtain scores outcome where f: "f = (scores, outcome)" by (cases f)
    have "?ok (update_weights scores outcome a)" using Cons.prems by (intro step) (simp_all add: f)
    from Cons.IH [OF this] show ?case using Cons.prems(2) by (simp add: f)
  qed simp
  moreover have "?ok (init_weights None 0.05)" by (simp add: init_weights_def total_weight_def default_weights_def)
  ultimately show ?thesis by (simp add: Let_def)
qed

theorem weights_stay_normalised_witness:
  "let a = fold (\<lambda>(scores, outcome). update_weights scores outcome) [([(''liveness'', 0.9), (''relay'', 0.2)], -1)] (init_weights None 0.05) in
     total_weight (aw_weights a) = 1"
  using weights_stay_normalised [of "[([(''liveness'', 0.9), (''relay'', 0.2)], -1)]"]
  by (simp add: sane_feedback_def in_unit_def Let_def)

theorem wild_outcome_breaks_the_sum:
  "total_weight (aw_weights (update_weights [(''liveness'', 1)] (-100) (init_weights None 0.05))) < 0"
  by code_simp

section \<open>The sign of the weights\<close>

lemma map_of_normalize: "map_of (normalize_weights ws) k =
    (if total_weight ws > 0 then map_option (\<lambda>w. w / total_weight ws) (map_of ws k) else map_of ws k)"
proof -
  have "map_of (map (apsnd f) ws) k = map_option f (map_of ws k)" for f :: "rat \<Rightarrow> rat"
    by (induction ws) auto
  then show ?thesis by (simp add: normalize_weights_def)
qed

text \<open>One penalty: a role that is sure and wrong loses a tenth, and the rest is scaled up to one.\<close>

lemma penalty_step:
  assumes "total_weight (aw_weights a) = 1" and "aw_rate a = 0.05" and "map_of (aw_weights a) role = Some w"
  shows "let b = update_weights [(role, 1)] (-1) a in
    total_weight (aw_weights b) = 1 \<and> aw_rate b = 0.05 \<and> map_of (aw_weights b) role = Some (1 - (1 - w) * (10 / 9))"
proof -
  let ?ws = "dset role (w - 0.1) (aw_weights a)"
  have total: "total_weight ?ws = 0.9" using total_dset [OF assms(3)] assms(1) by simp
  have "aw_weights (update_weights [(role, 1)] (-1) a) = normalize_weights ?ws"
    by (simp add: update_weights_def adjust_weight_def assms(2,3))
  moreover have "(w - 0.1) / 0.9 = 1 - (1 - w) * (10 / 9)" by (simp add: field_simps)
  ultimately show ?thesis
    using assms(2) by (simp add: Let_def normalized_total total map_of_normalize map_of_dset) (simp add: update_weights_def)
qed

lemma penalties:
  assumes "map_of default_weights role = Some w"
  shows "let a = (update_weights [(role, 1)] (-1) ^^ n) (init_weights None 0.05) in
    total_weight (aw_weights a) = 1 \<and> aw_rate a = 0.05 \<and> map_of (aw_weights a) role = Some (1 - (1 - w) * (10 / 9) ^ n)"
proof (induction n)
  case 0
  then show ?case using assms by (simp add: Let_def init_weights_def total_weight_def default_weights_def)
next
  case (Suc n)
  let ?a = "(update_weights [(role, 1)] (-1) ^^ n) (init_weights None 0.05)"
  have "let b = update_weights [(role, 1)] (-1) ?a in total_weight (aw_weights b) = 1 \<and> aw_rate b = 0.05 \<and>
      map_of (aw_weights b) role = Some (1 - (1 - (1 - (1 - w) * (10 / 9) ^ n)) * (10 / 9))"
    using Suc.IH by (intro penalty_step) (simp_all add: Let_def)
  then show ?case by (simp add: Let_def mult.assoc mult.commute)
qed

text \<open>C32: An adaptive weight has no lower bound: a role of the default weights that is sure (score 1) and reported wrong
  (outcome -1, as documented) n times running is left, in exact arithmetic, with the weight 1 - (1 - w) (10/9)^n, where w
  is its default. From the fifth time on the weight is negative, and the opinion of the role counts against itself.\<close>

theorem penalised_weight_turns_negative:
  assumes "map_of default_weights role = Some w"
  shows "\<exists>v. map_of (aw_weights ((update_weights [(role, 1)] (-1) ^^ n) (init_weights None 0.05))) role = Some v \<and>
    v = 1 - (1 - w) * (10 / 9) ^ n \<and> (5 \<le> n \<longrightarrow> v < 0)"
proof -
  have "(1 :: rat) < 0.6 * (10 / 9) ^ n" if "5 \<le> n"
  proof -
    have "(1 :: rat) < 0.6 * (10 / 9) ^ 5" by (simp add: field_simps)
    also have "\<dots> \<le> 0.6 * (10 / 9) ^ n" using that by (intro mult_left_mono power_increasing) simp_all
    finally show ?thesis .
  qed
  moreover have "0.6 \<le> 1 - w" using assms by (auto simp: default_weights_def split: if_splits)
  then have "0.6 * (10 / 9) ^ n \<le> (1 - w) * (10 / 9) ^ n" by (intro mult_right_mono) simp_all
  ultimately have "5 \<le> n \<longrightarrow> 1 < (1 - w) * (10 / 9) ^ n" by (blast intro: less_le_trans)
  then show ?thesis using penalties [OF assms, of n] by (simp add: Let_def)
qed

theorem penalised_weight_turns_negative_witness:
  "\<exists>v. map_of (aw_weights ((update_weights [(''mediation'', 1)] (-1) ^^ 5) (init_weights None 0.05))) ''mediation'' = Some v \<and> v < 0"
  using penalised_weight_turns_negative [of "''mediation''" "0.3" 5] by (auto simp: default_weights_def)

lemma synthesize_probability:
  assumes "synthesize sqr weights outputs = Inr s" and "outputs \<noteq> []"
    and "map_res (num_res \<circ> synthesis_probability \<circ> snd) outputs = Inr ps" and "map (role_weight weights \<circ> fst) outputs = raw"
  shows "sr_human_probability s = sum_list (map2 (*) ps (map (\<lambda>w. w / sum_list raw) raw))"
  using assms by (auto simp: synthesize_def Let_def)

text \<open>C31: The first orchestrator allows everyone: its evidence carries no signals, so whatever the session, the event and
  the history, an evaluation that ends gives the same human probability and the decision to allow.\<close>

theorem first_orchestrator_allows_everyone:
  assumes "first_evaluate rep sqr now ws session event tm = (Inr r, tm')"
  shows "sr_human_probability (fr_synthesis r) = 0.712 \<and> fr_decision r = ''allow''"
proof -
  obtain moved where "first_judge sqr ws moved = Inr r"
    using assms by (auto simp: first_evaluate_def Let_def split: prod.splits sum.splits)
  then obtain outputs where o: "map_res (first_role (first_evidence moved)) first_roles = Inr outputs"
    and s: "synthesize sqr first_weights outputs = Inr (fr_synthesis r)"
    and d: "fr_decision r = trust_decision (sr_human_probability (fr_synthesis r))"
    by (auto simp: first_judge_def bind_res_def split: sum.splits)
  have "map (num_res \<circ> synthesis_probability \<circ> snd) outputs = map Inr [0, 0.85, 1, 1, 0.71]"
    using o by (auto simp: first_roles_def first_role_def first_evidence_def liveness_evaluate_def adversarial_evaluate_def
      mediation_evaluate_def relay_evaluate_def synthesizer_evaluate_def adversarial_tests_def gt_res_def lt_res_def and_also_def
      or_else_def dget_default_def adversarial_severity_def synthesis_probability_def Let_def)
  then have "map_res (num_res \<circ> synthesis_probability \<circ> snd) outputs = Inr [0, 0.85, 1, 1, 0.71]" and len: "length outputs = 5"
    using length_map [of "num_res \<circ> synthesis_probability \<circ> snd" outputs] by (auto simp: map_eq_Cons_conv)
  moreover have "map (role_weight first_weights \<circ> fst) outputs = [1, 1, 1, 1, 1]"
  proof -
    have "role_weight first_weights name = 1" for name by (simp add: role_weight_def first_weights_def)
    then show ?thesis using len by (simp add: o_def map_replicate_const numeral_eq_Suc)
  qed
  ultimately have "sr_human_probability (fr_synthesis r) = 0.712"
    using synthesize_probability [OF s] len by (cases outputs) simp_all
  then show ?thesis using d by (simp add: trust_decision_def)
qed

theorem first_orchestrator_allows_everyone_witness:
  "\<exists>r tm'. first_evaluate (\<lambda>_. []) id 0 default_weights [(''session_id'', PStr ''s'')] [(''ts'', PInt 1)]
     \<lparr>tl_maxlen = 1000, tl_events = []\<rparr> = (Inr r, tm') \<and> fr_decision r = ''allow''"
proof -
  have "\<not> isl (fst (first_evaluate (\<lambda>_. []) id 0 default_weights [(''session_id'', PStr ''s'')] [(''ts'', PInt 1)]
      \<lparr>tl_maxlen = 1000, tl_events = []\<rparr>))" by code_simp
  then obtain r tm' where r: "first_evaluate (\<lambda>_. []) id 0 default_weights [(''session_id'', PStr ''s'')] [(''ts'', PInt 1)]
      \<lparr>tl_maxlen = 1000, tl_events = []\<rparr> = (Inr r, tm')"
    by (metis isl_def prod.exhaust_sel sumE)
  with first_orchestrator_allows_everyone [OF r] show ?thesis by blast
qed

end
