(* ===== verification/Challenges.thy ===== *)
theory Challenges
  imports Conversions
begin

text \<open>
  Challenges (\<open>truepresence/challenges\<close>): which challenge a session gets, the question profiles of
  gatekeepers, the injector, the scoring of responses, and the validator that keeps the challenge a session
  has to answer. Digests, random identifiers, random choices and the clock are arguments.
\<close>

section \<open>Challenges and their choice\<close>

record challenge =
  ch_id :: string
  ch_type :: string
  ch_payload :: dict
  ch_created :: rat
  ch_ttl :: rat

definition is_expired :: "rat \<Rightarrow> challenge \<Rightarrow> bool" where
  "is_expired now c \<longleftrightarrow> now - ch_created c > ch_ttl c"

definition create_challenge :: "string \<Rightarrow> rat \<Rightarrow> string \<Rightarrow> dict \<Rightarrow> rat \<Rightarrow> challenge" where
  "create_challenge uuid now kind payload ttl =
     \<lparr>ch_id = uuid, ch_type = kind, ch_payload = payload, ch_created = now, ch_ttl = ttl\<rparr>"

definition simple_attention_challenge :: "string \<Rightarrow> rat \<Rightarrow> challenge" where
  "simple_attention_challenge uuid now = create_challenge uuid now ''attention''
     [(''prompt'', PStr ''What color is the square on your screen right now?''), (''type'', PStr ''visual_binding'')] 8"

definition cognitive_interruption_challenge :: "string \<Rightarrow> rat \<Rightarrow> challenge" where
  "cognitive_interruption_challenge uuid now = create_challenge uuid now ''interruption''
     [(''task'', PStr ''Count backwards from 57 by 3s and then describe what you see.''), (''type'', PStr ''dual_task'')] 12"

definition relay_breaking_challenge :: "string \<Rightarrow> rat \<Rightarrow> challenge" where
  "relay_breaking_challenge uuid now = create_challenge uuid now ''relay_break''
     [(''step1'', PStr (''Say the word '' @ [char_of (39::nat)] @ ''orange'' @ [char_of (39::nat)] @ '' out loud.'')),
      (''step2'', PStr ''Immediately type the third letter of what you just said.''),
      (''step3'', PStr ''Now describe your physical environment in one sentence.'')] 10"

definition generate_challenge :: "string \<Rightarrow> rat \<Rightarrow> dict \<Rightarrow> challenge res" where
  "generate_challenge uuid now session =
     bind_res (py_float (dget_default session ''risk_hint'' (PFloat 0.5))) (\<lambda>risk.
       Inr ((if risk < 0.4 then simple_attention_challenge else if risk < 0.7 then cognitive_interruption_challenge
             else relay_breaking_challenge) uuid now))"

section \<open>Scoring and injection\<close>

record response_score =
  sc_type :: string
  sc_speed :: rat
  sc_coherence :: rat
  sc_relay :: bool

definition score_challenge_response :: "(pv \<Rightarrow> string) \<Rightarrow> challenge \<Rightarrow> rat \<Rightarrow> dict \<Rightarrow> response_score" where
  "score_challenge_response rep c latency response =
     (let speed = (if latency < 250 then 0.9 else if latency < 800 then 0.5 else 0.2) in
      \<lparr>sc_type = ch_type c, sc_speed = speed,
       sc_coherence = (if length (py_str rep (PDict response)) > 3 then 0.6 else 0.3), sc_relay = (speed > 0.7)\<rparr>)"

definition risk_levels :: "(string \<times> rat) list" where
  "risk_levels = [(''none'', 0), (''low'', 0.25), (''medium'', 0.55), (''high'', 0.85), (''critical'', 1)]"

definition risk_score :: "dict \<Rightarrow> rat" where
  "risk_score result = (case dget_default result ''risk_score'' (dget_default result ''risk_level'' (PFloat 0)) of
      PStr s \<Rightarrow> (case map_of risk_levels (lower s) of None \<Rightarrow> 0 | Some q \<Rightarrow> q)
    | v \<Rightarrow> float_or 0 v)"

definition should_inject :: "dict \<Rightarrow> bool" where
  "should_inject result \<longleftrightarrow> dget result ''challenge_required'' = PBool True \<or>
     0.3 < risk_score result \<and> risk_score result < 0.8"

definition injected_challenge :: "string \<Rightarrow> (string \<times> string) list" where
  "injected_challenge uuid = [(''id'', uuid), (''prompt'', ''Re-enter last word typed'')]"

section \<open>Deterministic choice\<close>

text \<open>\<open>digest\<close> is the number of the first four bytes of the hash, \<open>hex_of\<close> its hexadecimal text.\<close>

definition stable_index :: "(string \<Rightarrow> nat) \<Rightarrow> string \<Rightarrow> int \<Rightarrow> nat res" where
  "stable_index digest sid n =
     (if n \<le> 0 then Inl (ValueError ''count must be positive'') else Inr (digest sid mod nat n))"

definition stable_challenge_id :: "(string \<Rightarrow> string) \<Rightarrow> string \<Rightarrow> nat \<Rightarrow> string" where
  "stable_challenge_id hex_of sid index = ''challenge_'' @ take 12 (hex_of (sid @ '':'' @ nat_str index))"

section \<open>Question profiles\<close>

text \<open>The profile of a program without a configuration file; reading one is left out.\<close>

record challenge_profile =
  cp_enabled :: bool
  cp_threshold :: rat
  cp_questions :: "string list"

definition default_questions :: "string list" where
  "default_questions =
     [''Type the third letter of the word '' @ [char_of (39::nat)] @ ''hello'' @ [char_of (39::nat)], ''Count backward from 10 to 1'',
      ''Type your favorite color'', ''Spell the word '' @ [char_of (39::nat)] @ ''presence'' @ [char_of (39::nat)] @ '' backwards'',
      ''Type the current day of the week'']"

definition default_profile :: challenge_profile where
  "default_profile = \<lparr>cp_enabled = False, cp_threshold = 0.7, cp_questions = default_questions\<rparr>"

definition should_challenge :: "challenge_profile \<Rightarrow> rat \<Rightarrow> bool" where
  "should_challenge c risk \<longleftrightarrow> cp_enabled c \<and> risk \<ge> cp_threshold c"

text \<open>\<open>pick\<close> is the random index drawn when no session is given.\<close>

definition get_challenge ::
    "(string \<Rightarrow> nat) \<Rightarrow> (string \<Rightarrow> string) \<Rightarrow> nat \<Rightarrow> string option \<Rightarrow> challenge_profile \<Rightarrow> (string \<times> string) option res" where
  "get_challenge digest hex_of pick sid c =
     (if \<not> cp_enabled c \<or> cp_questions c = [] then Inr None
      else let name = (case sid of None \<Rightarrow> [] | Some s \<Rightarrow> s) in
        bind_res (if name \<noteq> [] then stable_index digest name (int (length (cp_questions c))) else Inr pick) (\<lambda>index.
          Inr (Some (stable_challenge_id hex_of (if name = [] then ''anonymous'' else name) index, cp_questions c ! index))))"

definition verify_response :: "string \<Rightarrow> string option \<Rightarrow> challenge_profile \<Rightarrow> bool \<times> string" where
  "verify_response response expected c =
     (if \<not> cp_enabled c then (False, ''challenge_profile_disabled'')
      else case expected of
          Some e \<Rightarrow> if e = [] then (True, ''response_recorded'')
            else if lower (strip response) = lower e then (True, ''correct'') else (False, ''incorrect'')
        | None \<Rightarrow> (True, ''response_recorded''))"

definition set_enabled :: "bool \<Rightarrow> challenge_profile \<Rightarrow> challenge_profile" where
  "set_enabled b c = c\<lparr>cp_enabled := b\<rparr>"

definition set_threshold :: "rat \<Rightarrow> challenge_profile \<Rightarrow> challenge_profile" where
  "set_threshold t c = c\<lparr>cp_threshold := max 0 (min 1 t)\<rparr>"

definition add_question :: "string \<Rightarrow> challenge_profile \<Rightarrow> challenge_profile" where
  "add_question q c = (if q \<in> set (cp_questions c) then c else c\<lparr>cp_questions := cp_questions c @ [q]\<rparr>)"

definition remove_question :: "string \<Rightarrow> challenge_profile \<Rightarrow> challenge_profile" where
  "remove_question q c = c\<lparr>cp_questions := remove1 q (cp_questions c)\<rparr>"

section \<open>The validator\<close>

text \<open>The challenge each session has to answer, and when it was issued.\<close>

record pending_challenge =
  pc_id :: string
  pc_prompt :: string
  pc_created :: rat

type_synonym validator = "string \<rightharpoonup> pending_challenge"

definition issue_challenge :: "string \<Rightarrow> rat \<Rightarrow> string \<Rightarrow> string \<Rightarrow> validator \<Rightarrow> pending_challenge \<times> validator" where
  "issue_challenge uuid now sid prompt v =
     (let c = \<lparr>pc_id = uuid, pc_prompt = prompt, pc_created = now\<rparr> in (c, v(sid \<mapsto> c)))"

record verdict =
  ve_valid :: bool
  ve_ttr :: "rat option"
  ve_reason :: string

definition validate_response :: "rat \<Rightarrow> string \<Rightarrow> string \<Rightarrow> validator \<Rightarrow> verdict \<times> validator" where
  "validate_response now sid response v = (case v sid of
      None \<Rightarrow> (\<lparr>ve_valid = False, ve_ttr = None, ve_reason = ''no_active_challenge''\<rparr>, v)
    | Some c \<Rightarrow>
        let ttr = now - pc_created c; timely = (1 < ttr \<and> ttr < 30); correct = strip response \<noteq> [] in
        (\<lparr>ve_valid = (correct \<and> timely), ve_ttr = Some ttr, ve_reason = (if timely then ''correct'' else ''timing_anomaly'')\<rparr>,
         v(sid := None)))"

section \<open>Histories of the validator\<close>

text \<open>A history: challenges issued and responses given, in order, with the time of each.\<close>

datatype validator_event = Issue string rat string string | Respond rat string string

fun apply_event :: "validator_event \<Rightarrow> validator \<Rightarrow> validator" where
  "apply_event (Issue uuid now sid prompt) v = snd (issue_challenge uuid now sid prompt v)"
| "apply_event (Respond now sid response) v = snd (validate_response now sid response v)"

text \<open>The specification: the last challenge issued to the session that no response followed.\<close>

fun open_challenge :: "string \<Rightarrow> validator_event list \<Rightarrow> pending_challenge option" where
  "open_challenge sid [] = None"
| "open_challenge sid (Issue uuid now s prompt # es) =
     (if s = sid then Some \<lparr>pc_id = uuid, pc_prompt = prompt, pc_created = now\<rparr> else open_challenge sid es)"
| "open_challenge sid (Respond now s response # es) = (if s = sid then None else open_challenge sid es)"

lemma apply_event_at:
  "apply_event e v sid = (case e of
      Issue uuid now s prompt \<Rightarrow> if s = sid then Some \<lparr>pc_id = uuid, pc_prompt = prompt, pc_created = now\<rparr> else v sid
    | Respond now s response \<Rightarrow> if s = sid then None else v sid)"
  by (cases e) (auto simp: issue_challenge_def validate_response_def Let_def split: option.splits)

lemma validator_refines: "fold apply_event es Map.empty sid = open_challenge sid (rev es)"
proof (induction es rule: rev_induct)
  case (snoc e es)
  then show ?case by (cases e) (simp_all add: apply_event_at)
qed simp

text \<open>C23: A challenge is answered at most once and in time: after any history of challenges and responses, over any
  sessions, a response is accepted exactly when it is not blank and the last thing that happened to its session
  was a challenge issued between one and thirty seconds before; and a response to the same session that
  follows it at once is rejected for want of a challenge.\<close>

theorem responses_meet_their_challenge:
  "let v = fold apply_event es Map.empty; (verdict, v') = validate_response now sid response v in
   (ve_valid verdict \<longleftrightarrow> strip response \<noteq> [] \<and>
      (\<exists>c. open_challenge sid (rev es) = Some c \<and> 1 < now - pc_created c \<and> now - pc_created c < 30)) \<and>
   fst (validate_response now' sid response' v') = \<lparr>ve_valid = False, ve_ttr = None, ve_reason = ''no_active_challenge''\<rparr>"
  by (auto simp: validate_response_def Let_def validator_refines split: option.splits)

end
