(* ===== verification/Extensions.thy ===== *)
theory Extensions
  imports Ese_Config Json
begin

text \<open>
  The extension surfaces of the runner: what is common to them (\<open>ese/extension_contracts.py\<close>), and the discovery
  of config packs, policy checks, report exporters, artifact views, integrations and application bundles
  (\<open>ese/config_packs.py\<close>, \<open>policy_checks.py\<close>, \<open>report_exporters.py\<close>, \<open>artifact_views.py\<close>, \<open>integrations.py\<close>,
  \<open>application_bundles.py\<close>). The installed entry points are an argument: for each its name and what loading
  it, zero-argument loaders invoked, yields. The functions an extension carries are values of any type.
\<close>

section \<open>Contracts\<close>

definition normalize_non_empty :: "string \<Rightarrow> pv \<Rightarrow> string res" where
  "normalize_non_empty label v = (case non_empty v of
      None \<Rightarrow> Inl (ValueError (label @ '' must be a non-empty string'')) | Some s \<Rightarrow> Inr s)"

fun split_on :: "char \<Rightarrow> string \<Rightarrow> string list" where
  "split_on c [] = [[]]"
| "split_on c (x # xs) = (if x = c then [] # split_on c xs
     else (case split_on c xs of [] \<Rightarrow> [[x]] | p # ps \<Rightarrow> (x # p) # ps))"

definition capitalize :: "string \<Rightarrow> string" where
  "capitalize s = upper (take 1 s) @ lower (drop 1 s)"

definition title_from_key :: "string \<Rightarrow> string" where
  "title_from_key key = join '' '' (map capitalize (split_on (CHR ''-'') (replace_char (CHR ''_'') (CHR ''-'') key)))"

fun normalize_contract_version :: "string \<Rightarrow> int \<Rightarrow> pv \<Rightarrow> int res" where
  "normalize_contract_version name expected PNone = Inr expected"
| "normalize_contract_version name expected (PInt n) =
     (if n = expected then Inr n else Inl (ValueError (name @ '' contract_version is not supported by this ESE build'')))"
| "normalize_contract_version name expected v = Inl (ValueError (name @ '' contract_version must be an integer''))"

definition fallback_key :: "string \<Rightarrow> string" where
  "fallback_key name = lower (replace_char (CHR ''_'') (CHR ''-'') name)"

definition quoted :: "string \<Rightarrow> string" where
  "quoted s = char_of (39::nat) # s @ [char_of (39::nat)]"

text \<open>\<open>str(err)\<close>.\<close>

fun err_text :: "err \<Rightarrow> string" where
  "err_text (RawContentRejected xs) = join '', '' xs"
| "err_text (ValueError s) = s"
| "err_text (TypeError s) = s"
| "err_text (KeyError s) = quoted s"
| "err_text (AttributeError s) = s"
| "err_text (ConfigurationError s) = s"
| "err_text (OrchestratorError s) = s"
| "err_text (PipelineError s) = s"
| "err_text (ConfigValidationError s) = s"
| "err_text (SynthesisError s) = s"
| "err_text (EvidenceError s) = s"
| "err_text (RoleError s) = s"
| "err_text (RunReportError s) = s"
| "err_text (FileNotFoundError s) = s"
| "err_text (AdapterError s) = s"

section \<open>Discovery\<close>

record 'v entry_point =
  en_name :: pv
  en_load :: "string + 'v"

type_synonym load_failure = "string \<times> string"

text \<open>A loaded value yields definitions until one of them is refused; the first definition of a key wins.\<close>

fun discover_from ::
    "(string \<Rightarrow> 'v \<Rightarrow> 'd list \<times> err option) \<Rightarrow> ('d \<Rightarrow> string) \<Rightarrow> 'v entry_point list \<Rightarrow> (string \<times> 'd) list \<Rightarrow>
     load_failure list \<Rightarrow> ((string \<times> 'd) list \<times> load_failure list) res" where
  "discover_from norml key [] ds fs = Inr (ds, fs)"
| "discover_from norml key (en # ens) ds fs =
     bind_res (normalize_non_empty ''entry point name'' (en_name en)) (\<lambda>name.
       case en_load en of
         Inl msg \<Rightarrow> discover_from norml key ens ds (fs @ [(name, msg)])
       | Inr v \<Rightarrow>
           (let (new, refused) = norml (fallback_key name) v in
            discover_from norml key ens (fold (\<lambda>d ds. dsetdefault (key d) d ds) new ds)
              (fs @ (case refused of None \<Rightarrow> [] | Some e \<Rightarrow> [(name, err_text e)]))))"

definition discover ::
    "(string \<Rightarrow> 'v \<Rightarrow> 'd list \<times> err option) \<Rightarrow> ('d \<Rightarrow> string) \<Rightarrow> 'v entry_point list \<Rightarrow> ('d list \<times> load_failure list) res" where
  "discover norml key ens =
     bind_res (discover_from norml key ens [] []) (\<lambda>(ds, fs). Inr (map snd (sort_key fst ds), fs))"

definition one_definition :: "'d res \<Rightarrow> 'd list \<times> err option" where
  "one_definition r = (case r of Inl e \<Rightarrow> ([], Some e) | Inr d \<Rightarrow> ([d], None))"

section \<open>Extensions that are a function\<close>

text \<open>Policy checks, exporters, views and integrations are normalised by the same code up to the names in it, which a
  specification lists: the label, the noun of the surface, and the further fields with the value a mapping and a bare
  function give them. Loading yields an instance of the definition class, a mapping, a function with its
  documentation, or something else; the function is missing where it is not callable.\<close>

record surface_spec =
  sp_label :: string
  sp_noun :: string
  sp_fields :: "(string \<times> pv) list"
  sp_bare :: "string \<Rightarrow> dict"

datatype 'f ext_value =
    ExtInstance dict "'f option"
  | ExtMapping dict "'f option"
  | ExtFunction string 'f
  | ExtOther

record 'f extension =
  ext_key :: string
  ext_title :: string
  ext_summary :: string
  ext_fields :: "(string \<times> string) list"
  ext_run :: 'f

definition label_of :: "surface_spec \<Rightarrow> string \<Rightarrow> string" where
  "label_of sp name = sp_label sp @ '' '' @ name"

text \<open>The fields of an instance, checked in the order of the code.\<close>

definition checked_instance :: "surface_spec \<Rightarrow> dict \<Rightarrow> 'f \<Rightarrow> 'f extension res" where
  "checked_instance sp d f =
     bind_res (normalize_non_empty (label_of sp ''key'') (dget d ''key'')) (\<lambda>key.
     bind_res (normalize_non_empty (label_of sp ''title'') (dget d ''title'')) (\<lambda>title.
     bind_res (normalize_non_empty (label_of sp ''summary'') (dget d ''summary'')) (\<lambda>summary.
     bind_res (map_res (\<lambda>(k, dflt). bind_res (normalize_non_empty (label_of sp k) (dget d k)) (\<lambda>s. Inr (k, s)))
         (sp_fields sp)) (\<lambda>fs.
     bind_res (normalize_contract_version (sp_noun sp) 1 (dget d ''contract_version'')) (\<lambda>version.
       Inr \<lparr>ext_key = key, ext_title = title, ext_summary = summary, ext_fields = fs, ext_run = f\<rparr>)))))"

definition instance_of :: "'f extension \<Rightarrow> dict" where
  "instance_of e = [(''key'', PStr (ext_key e)), (''title'', PStr (ext_title e)), (''summary'', PStr (ext_summary e))] @
     map (apsnd PStr) (ext_fields e) @ [(''contract_version'', PInt 1)]"

text \<open>What a mapping gives: the key and the title fall back on the entry point, the fields on their defaults.\<close>

definition mapping_fields :: "surface_spec \<Rightarrow> string \<Rightarrow> dict \<Rightarrow> dict" where
  "mapping_fields sp fallback d =
     [(''key'', py_or (dget d ''key'') (PStr fallback)),
      (''title'', py_or (dget d ''title'') (PStr (title_from_key fallback))), (''summary'', dget d ''summary'')] @
     map (\<lambda>(k, dflt). (k, dget_default d k dflt)) (sp_fields sp) @ [(''contract_version'', dget d ''contract_version'')]"

definition function_fields :: "surface_spec \<Rightarrow> string \<Rightarrow> string \<Rightarrow> dict" where
  "function_fields sp fallback doc =
     [(''key'', PStr fallback), (''title'', PStr (title_from_key fallback)),
      (''summary'', PStr (if strip doc \<noteq> [] then strip doc else ''External '' @ sp_noun sp @ '' '' @ quoted fallback @ ''.''))] @
     sp_bare sp fallback"

fun normalize_extension :: "surface_spec \<Rightarrow> string \<Rightarrow> 'f ext_value \<Rightarrow> 'f extension res" where
  "normalize_extension sp fallback (ExtInstance d f) = (case f of
      None \<Rightarrow> Inl (TypeError (sp_noun sp @ '' definitions must provide a callable''))
    | Some f \<Rightarrow> checked_instance sp d f)"
| "normalize_extension sp fallback (ExtMapping d f) = (case f of
      None \<Rightarrow> Inl (TypeError (sp_noun sp @ '' definitions must provide a callable''))
    | Some f \<Rightarrow> bind_res (checked_instance sp (mapping_fields sp fallback d) f) (\<lambda>e. checked_instance sp (instance_of e) f))"
| "normalize_extension sp fallback (ExtFunction doc f) = checked_instance sp (function_fields sp fallback doc) f"
| "normalize_extension sp fallback ExtOther = Inl (TypeError (sp_noun sp @ '' providers must return a definition, a mapping or a callable''))"

definition policy_surface :: surface_spec where
  "policy_surface = \<lparr>sp_label = ''policy'', sp_noun = ''policy check'', sp_fields = [], sp_bare = (\<lambda>_. [])\<rparr>"

definition exporter_surface :: surface_spec where
  "exporter_surface = \<lparr>sp_label = ''report exporter'', sp_noun = ''report exporter'',
     sp_fields = [(''content_type'', PNone), (''default_filename'', PNone)],
     sp_bare = (\<lambda>fallback. [(''content_type'', PStr ''text/plain; charset=utf-8''),
       (''default_filename'', PStr (''ese_report.'' @ fallback @ ''.txt''))])\<rparr>"

definition view_surface :: surface_spec where
  "view_surface = \<lparr>sp_label = ''artifact view'', sp_noun = ''artifact view'', sp_fields = [(''format'', PStr ''md'')],
     sp_bare = (\<lambda>_. [(''format'', PStr ''md'')])\<rparr>"

definition integration_surface :: surface_spec where
  "integration_surface = \<lparr>sp_label = ''integration'', sp_noun = ''integration'', sp_fields = [], sp_bare = (\<lambda>_. [])\<rparr>"

definition discover_extensions ::
    "surface_spec \<Rightarrow> 'f ext_value entry_point list \<Rightarrow> ('f extension list \<times> load_failure list) res" where
  "discover_extensions sp = discover (\<lambda>fallback v. one_definition (normalize_extension sp fallback v)) ext_key"

definition discover_policy_checks :: "'f ext_value entry_point list \<Rightarrow> ('f extension list \<times> load_failure list) res" where
  [simp]: "discover_policy_checks = discover_extensions policy_surface"

definition discover_report_exporters :: "'f ext_value entry_point list \<Rightarrow> ('f extension list \<times> load_failure list) res" where
  [simp]: "discover_report_exporters = discover_extensions exporter_surface"

definition discover_artifact_views :: "'f ext_value entry_point list \<Rightarrow> ('f extension list \<times> load_failure list) res" where
  [simp]: "discover_artifact_views = discover_extensions view_surface"

definition discover_integrations :: "'f ext_value entry_point list \<Rightarrow> ('f extension list \<times> load_failure list) res" where
  [simp]: "discover_integrations = discover_extensions integration_surface"

section \<open>Config packs\<close>

record pack_role =
  pr_key :: string
  pr_responsibility :: string
  pr_prompt :: string
  pr_temperature :: rat

datatype pack_role_value = RoleInstance pack_role | RoleValue pv

record config_pack =
  cp_key :: string
  cp_title :: string
  cp_summary :: string
  cp_preset :: string
  cp_goal_profile :: string
  cp_roles :: "pack_role list"

text \<open>A pack is an instance or a mapping; its roles are missing where they are not iterable or a text.\<close>

datatype pack_value = PackValue dict "pack_role_value list option" | PackOther

datatype loaded_packs = OnePack pack_value | ManyPacks "pack_value list" | NoPacks

fun normalize_pack_role :: "pack_role_value \<Rightarrow> pack_role res" where
  "normalize_pack_role (RoleInstance r) = Inr r"
| "normalize_pack_role (RoleValue (PDict d)) =
     bind_res (normalize_non_empty ''pack role key'' (dget d ''key'')) (\<lambda>key.
     bind_res (normalize_non_empty ''pack role responsibility'' (dget d ''responsibility'')) (\<lambda>responsibility.
     bind_res (normalize_non_empty ''pack role prompt'' (dget d ''prompt'')) (\<lambda>prompt.
     bind_res (py_float (dget_default d ''temperature'' (PFloat 0.2))) (\<lambda>temperature.
       Inr \<lparr>pr_key = key, pr_responsibility = responsibility, pr_prompt = prompt, pr_temperature = temperature\<rparr>))))"
| "normalize_pack_role (RoleValue v) = Inl (TypeError ''Pack roles must be PackRoleDefinition instances or mappings'')"

fun normalize_config_pack :: "pack_value \<Rightarrow> config_pack res" where
  "normalize_config_pack PackOther = Inl (TypeError ''Config pack providers must return ConfigPackDefinition instances or mappings'')"
| "normalize_config_pack (PackValue d raw_roles) =
     (case raw_roles of None \<Rightarrow> Inl (ValueError ''config pack roles must be an iterable of role definitions'')
      | Some raw \<Rightarrow>
          bind_res (map_res normalize_pack_role raw) (\<lambda>roles.
          if roles = [] then Inl (ValueError ''config pack roles must not be empty'')
          else if \<not> distinct (map pr_key roles) then Inl (ValueError ''config pack roles contain duplicate key'')
          else
            bind_res (normalize_non_empty ''config pack key'' (dget d ''key'')) (\<lambda>key.
            bind_res (normalize_non_empty ''config pack title'' (dget d ''title'')) (\<lambda>title.
            bind_res (normalize_non_empty ''config pack summary'' (dget d ''summary'')) (\<lambda>summary.
            bind_res (normalize_non_empty ''config pack preset'' (dget d ''preset'')) (\<lambda>preset.
            bind_res (normalize_non_empty ''config pack goal profile'' (dget d ''goal_profile'')) (\<lambda>goal.
            bind_res (normalize_contract_version ''config pack'' 1 (dget d ''contract_version'')) (\<lambda>version.
              Inr \<lparr>cp_key = lower key, cp_title = title, cp_summary = summary, cp_preset = preset, cp_goal_profile = goal,
                   cp_roles = roles\<rparr>))))))))"

fun packs_until_refused :: "pack_value list \<Rightarrow> config_pack list \<times> err option" where
  "packs_until_refused [] = ([], None)"
| "packs_until_refused (p # ps) = (case normalize_config_pack p of Inl e \<Rightarrow> ([], Some e)
     | Inr d \<Rightarrow> (let (ds, e) = packs_until_refused ps in (d # ds, e)))"

fun loaded_pack_definitions :: "string \<Rightarrow> loaded_packs \<Rightarrow> config_pack list \<times> err option" where
  "loaded_pack_definitions fallback (OnePack p) = packs_until_refused [p]"
| "loaded_pack_definitions fallback (ManyPacks ps) = packs_until_refused ps"
| "loaded_pack_definitions fallback NoPacks =
     ([], Some (TypeError ''Config pack providers must return a pack definition or an iterable of definitions''))"

definition discover_config_packs :: "loaded_packs entry_point list \<Rightarrow> (config_pack list \<times> load_failure list) res" where
  "discover_config_packs = discover loaded_pack_definitions cp_key"

definition get_config_pack :: "loaded_packs entry_point list \<Rightarrow> string \<Rightarrow> config_pack res" where
  "get_config_pack ens k = bind_res (discover_config_packs ens) (\<lambda>(packs, fs).
     case find (\<lambda>p. cp_key p = lower (strip k)) packs of
       None \<Rightarrow> Inl (KeyError (''Unknown config pack '' @ quoted k)) | Some p \<Rightarrow> Inr p)"

section \<open>Application bundles\<close>

record app_bundle =
  bu_key :: string
  bu_title :: string
  bu_summary :: string
  bu_package :: string
  bu_pack :: string
  bu_lists :: "(string \<times> string list) list"

text \<open>Instances and mappings alike are dictionaries of attributes; a mapping may leave its key to the entry point.\<close>

datatype bundle_value = BundleInstance dict | BundleMapping dict | BundleOther

fun normalize_keys :: "string \<Rightarrow> pv \<Rightarrow> string list res" where
  "normalize_keys label PNone = Inr []"
| "normalize_keys label (PStr s) = bind_res (normalize_non_empty label (PStr s)) (\<lambda>k. Inr [k])"
| "normalize_keys label v = (case py_iter v of Inl e \<Rightarrow> Inl (ValueError (label @ '' must be a list of keys''))
     | Inr vs \<Rightarrow> map_res (normalize_non_empty label) vs)"

definition bundle_lists :: "(string \<times> string) list" where
  "bundle_lists = [(''policy_checks'', ''application bundle policy check''),
     (''report_exporters'', ''application bundle report exporter''), (''artifact_views'', ''application bundle artifact view''),
     (''integrations'', ''application bundle integration'')]"

definition checked_bundle :: "dict \<Rightarrow> app_bundle res" where
  "checked_bundle d =
     bind_res (normalize_non_empty ''application bundle key'' (dget d ''key'')) (\<lambda>key.
     bind_res (normalize_non_empty ''application bundle title'' (dget d ''title'')) (\<lambda>title.
     bind_res (normalize_non_empty ''application bundle summary'' (dget d ''summary'')) (\<lambda>summary.
     bind_res (normalize_non_empty ''application bundle package_name'' (dget d ''package_name'')) (\<lambda>package.
     bind_res (normalize_non_empty ''application bundle pack_key'' (dget d ''pack_key'')) (\<lambda>pack.
     bind_res (map_res (\<lambda>(k, label). bind_res (normalize_keys label (dget d k)) (\<lambda>ks. Inr (k, ks))) bundle_lists) (\<lambda>lists.
     bind_res (normalize_contract_version ''application bundle'' 1 (dget d ''contract_version'')) (\<lambda>version.
       Inr \<lparr>bu_key = key, bu_title = title, bu_summary = summary, bu_package = package, bu_pack = pack, bu_lists = lists\<rparr>)))))))"

definition bundle_instance :: "app_bundle \<Rightarrow> dict" where
  "bundle_instance b = [(''key'', PStr (bu_key b)), (''title'', PStr (bu_title b)), (''summary'', PStr (bu_summary b)),
     (''package_name'', PStr (bu_package b)), (''pack_key'', PStr (bu_pack b))] @
     map (apsnd (\<lambda>ks. PList (map PStr ks))) (bu_lists b)"

fun normalize_bundle :: "string \<Rightarrow> bundle_value \<Rightarrow> app_bundle res" where
  "normalize_bundle fallback (BundleInstance d) = checked_bundle d"
| "normalize_bundle fallback (BundleMapping d) =
     bind_res (checked_bundle ((''key'', py_or (dget d ''key'') (PStr fallback)) # d)) (\<lambda>b. checked_bundle (bundle_instance b))"
| "normalize_bundle fallback BundleOther = Inl (TypeError ''Application bundles must return ApplicationBundleDefinition or a mapping'')"

definition discover_bundles :: "bundle_value entry_point list \<Rightarrow> (app_bundle list \<times> load_failure list) res" where
  "discover_bundles = discover (\<lambda>fallback v. one_definition (normalize_bundle fallback v)) bu_key"

text \<open>\<open>", ".join(...) or "none"\<close>.\<close>

definition listed_or_none :: "string list \<Rightarrow> string" where
  "listed_or_none ks = (if join '', '' ks = [] then ''none'' else join '', '' ks)"

definition resolve_bundle :: "bundle_value entry_point list \<Rightarrow> string \<Rightarrow> app_bundle res" where
  "resolve_bundle ens k =
     bind_res (normalize_non_empty ''application bundle key'' (PStr k)) (\<lambda>clean.
     bind_res (discover_bundles ens) (\<lambda>(bs, fs).
       case find (\<lambda>b. bu_key b = lower clean) bs of
         None \<Rightarrow> Inl (KeyError (''Unknown application bundle '' @ quoted k @ ''. Installed bundles: '' @ listed_or_none (map bu_key bs)))
       | Some b \<Rightarrow> Inr b))"

section \<open>Report exporters\<close>

text \<open>The two built-in exporters; their renderings are arguments.\<close>

definition builtin_exporters :: "'f \<Rightarrow> 'f \<Rightarrow> 'f extension list" where
  "builtin_exporters sarif junit =
     [\<lparr>ext_key = ''sarif'', ext_title = ''SARIF'',
        ext_summary = ''Static Analysis Results Interchange Format for code scanning ingestion.'',
        ext_fields = [(''content_type'', ''application/sarif+json; charset=utf-8''), (''default_filename'', ''ese_report.sarif.json'')],
        ext_run = sarif\<rparr>,
      \<lparr>ext_key = ''junit'', ext_title = ''JUnit'', ext_summary = ''JUnit XML for CI test-report style ingestion.'',
        ext_fields = [(''content_type'', ''application/xml; charset=utf-8''), (''default_filename'', ''ese_report.junit.xml'')],
        ext_run = junit\<rparr>]"

definition list_report_exporters ::
    "'f extension list \<Rightarrow> 'f ext_value entry_point list \<Rightarrow> 'f extension list res" where
  "list_report_exporters builtin ens =
     bind_res (discover_report_exporters ens) (\<lambda>(external, fs).
       Inr (map snd (sort_key fst (fold (\<lambda>e es. dsetdefault (ext_key e) e es) external
         (map (\<lambda>e. (ext_key e, e)) builtin)))))"

definition resolve_report_exporter ::
    "'f extension list \<Rightarrow> 'f ext_value entry_point list \<Rightarrow> string \<Rightarrow> 'f extension res" where
  "resolve_report_exporter builtin ens k =
     bind_res (normalize_non_empty ''report exporter format'' (PStr k)) (\<lambda>clean.
     bind_res (list_report_exporters builtin ens) (\<lambda>es.
       case find (\<lambda>e. ext_key e = lower clean) es of
         None \<Rightarrow> Inl (ValueError (''Unknown export format '' @ quoted k @ ''. Supported formats: '' @ join '', '' (map ext_key es)))
       | Some e \<Rightarrow> Inr e))"

text \<open>The body, its content type and its file name; a renderer may return any value.\<close>

definition render_report_export ::
    "('r \<Rightarrow> pv res) extension list \<Rightarrow> ('r \<Rightarrow> pv res) ext_value entry_point list \<Rightarrow> 'r \<Rightarrow> string \<Rightarrow>
     (string \<times> string option \<times> string option) res" where
  "render_report_export builtin ens report k =
     bind_res (resolve_report_exporter builtin ens k) (\<lambda>e.
     bind_res (ext_run e report) (\<lambda>body. case body of
         PStr s \<Rightarrow> Inr (s, map_of (ext_fields e) ''content_type'', map_of (ext_fields e) ''default_filename'')
       | _ \<Rightarrow> Inl (ValueError (''Report exporter '' @ quoted (ext_key e) @ '' must return a string payload''))))"

section \<open>Discovery as a registry\<close>

text \<open>The specification: what the entry points yield, in order, and which of them failed.\<close>

definition entry_yield :: "(string \<Rightarrow> 'v \<Rightarrow> 'd list \<times> err option) \<Rightarrow> 'v entry_point \<Rightarrow> 'd list" where
  "entry_yield norml en = (case (non_empty (en_name en), en_load en) of
      (Some name, Inr v) \<Rightarrow> fst (norml (fallback_key name) v) | _ \<Rightarrow> [])"

definition entry_failure :: "(string \<Rightarrow> 'v \<Rightarrow> 'd list \<times> err option) \<Rightarrow> 'v entry_point \<Rightarrow> load_failure list" where
  "entry_failure norml en = (case non_empty (en_name en) of None \<Rightarrow> []
    | Some name \<Rightarrow> (case en_load en of Inl msg \<Rightarrow> [(name, msg)]
        | Inr v \<Rightarrow> (case snd (norml (fallback_key name) v) of None \<Rightarrow> [] | Some e \<Rightarrow> [(name, err_text e)])))"

definition yielded :: "(string \<Rightarrow> 'v \<Rightarrow> 'd list \<times> err option) \<Rightarrow> 'v entry_point list \<Rightarrow> 'd list" where
  "yielded norml ens = concat (map (entry_yield norml) ens)"

lemma normalize_non_empty_Inr: "normalize_non_empty label v = Inr s \<longleftrightarrow> non_empty v = Some s"
  by (simp add: normalize_non_empty_def split: option.split)

lemma non_empty_clean: "non_empty v = Some s \<Longrightarrow> strip s = s \<and> s \<noteq> []"
  by (cases v) (auto split: if_splits)

lemma normalize_non_empty_clean: "normalize_non_empty label v = Inr s \<Longrightarrow> strip s = s \<and> s \<noteq> []"
  by (simp add: normalize_non_empty_Inr non_empty_clean)

lemma fold_first_wins:
  "map_of (fold (\<lambda>d ds. dsetdefault (key d) d ds) new ds) k =
     (case map_of ds k of Some d \<Rightarrow> Some d | None \<Rightarrow> find (\<lambda>d. key d = k) new)"
  by (induction new arbitrary: ds) (auto split: option.split)

lemma fold_first_keys:
  "distinct (map fst ds) \<Longrightarrow> distinct (map fst (fold (\<lambda>d ds. dsetdefault (key d) d ds) new ds))"
  by (induction new arbitrary: ds) (simp_all add: distinct_dsetdefault)

lemma fold_first_set:
  "set (fold (\<lambda>d ds. dsetdefault (key d) d ds) new ds) \<subseteq> set ds \<union> (\<lambda>d. (key d, d)) ` set new"
proof (induction new arbitrary: ds)
  case (Cons d new)
  have "set (dsetdefault (key d) d ds) \<subseteq> insert (key d, d) (set ds)" by (auto simp: dsetdefault_def)
  then show ?case using Cons.IH [of "dsetdefault (key d) d ds"] by auto
qed simp

lemma find_append: "find p (xs @ ys) = (case find p xs of Some x \<Rightarrow> Some x | None \<Rightarrow> find p ys)"
  by (induction xs) simp_all

lemma discover_step:
  assumes "discover_from norml key (en # ens) ds fs = Inr (ds', fs')"
  shows "discover_from norml key ens (fold (\<lambda>d ds. dsetdefault (key d) d ds) (entry_yield norml en) ds)
    (fs @ entry_failure norml en) = Inr (ds', fs')"
proof -
  obtain name where n: "non_empty (en_name en) = Some name"
    using assms by (auto simp: bind_res_eq_Inr normalize_non_empty_Inr)
  then have "normalize_non_empty ''entry point name'' (en_name en) = Inr name" by (simp add: normalize_non_empty_Inr)
  with assms n show ?thesis
    by (cases "en_load en"; cases "norml (fallback_key name) (projr (en_load en))")
      (auto simp: entry_yield_def entry_failure_def split: option.splits)
qed

lemma discover_from_spec:
  "discover_from norml key ens ds fs = Inr (ds', fs') \<Longrightarrow>
     ds' = fold (\<lambda>d ds. dsetdefault (key d) d ds) (yielded norml ens) ds \<and> fs' = fs @ concat (map (entry_failure norml) ens)"
proof (induction ens arbitrary: ds fs)
  case (Cons en ens)
  from Cons.IH [OF discover_step [OF Cons.prems]] show ?case by (simp add: yielded_def)
qed (simp add: yielded_def)

lemma find_key: "distinct (map key ds) \<Longrightarrow> d \<in> set ds \<Longrightarrow> find (\<lambda>d'. key d' = key d) ds = Some d"
  by (induction ds) force+

lemma discover_spec:
  assumes "discover norml key ens = Inr (ds, fs)"
  shows "sorted (map key ds)" "distinct (map key ds)" "fs = concat (map (entry_failure norml) ens)"
    "set ds = {d. find (\<lambda>d'. key d' = key d) (yielded norml ens) = Some d}"
proof -
  define kds where "kds = fold (\<lambda>d ds. dsetdefault (key d) d ds) (yielded norml ens) []"
  have ds: "ds = map snd (sort_key fst kds)" and fs: "fs = concat (map (entry_failure norml) ens)"
    using assms by (auto simp: discover_def bind_res_eq_Inr kds_def dest!: discover_from_spec)
  have keys: "k = key d" if "(k, d) \<in> set kds" for k d
    using that fold_first_set [of key "yielded norml ens" "[]"] by (auto simp: kds_def)
  have dist: "distinct (map fst kds)" unfolding kds_def by (rule fold_first_keys) simp
  have "map key ds = map fst (sort_key fst kds)" using keys by (auto simp: ds)
  moreover have "distinct (map fst (sort_key fst kds))"
    using dist by (metis distinct_map distinct_sort set_sort)
  ultimately show "sorted (map key ds)" "distinct (map key ds)" by (simp_all del: map_map)
  show "fs = concat (map (entry_failure norml) ens)" by (rule fs)
  have "map_of kds k = find (\<lambda>d. key d = k) (yielded norml ens)" for k
    by (simp add: kds_def fold_first_wins)
  moreover have "d \<in> set ds \<longleftrightarrow> map_of kds (key d) = Some d" for d
  proof
    assume "d \<in> set ds"
    then obtain k where "(k, d) \<in> set kds" by (auto simp: ds)
    then show "map_of kds (key d) = Some d" using keys [of k d] by (simp only: map_of_eq_Some_iff [OF dist])
  next
    assume "map_of kds (key d) = Some d"
    then have "(key d, d) \<in> set kds" by (rule map_of_SomeD)
    then have "snd (key d, d) \<in> snd ` set kds" by (rule imageI)
    then show "d \<in> set ds" by (simp add: ds)
  qed
  ultimately show "set ds = {d. find (\<lambda>d'. key d' = key d) (yielded norml ens) = Some d}" by (intro set_eqI) simp
qed

section \<open>The contract of a surface\<close>

text \<open>Every definition a surface accepts has a key without surrounding blanks.\<close>

locale extension_surface =
  fixes norml :: "string \<Rightarrow> 'v \<Rightarrow> 'd list \<times> err option" and key :: "'d \<Rightarrow> string"
  assumes key_clean: "d \<in> set (fst (norml fallback v)) \<Longrightarrow> strip (key d) = key d \<and> key d \<noteq> []"
begin

lemma yielded_clean: "d \<in> set (yielded norml ens) \<Longrightarrow> strip (key d) = key d \<and> key d \<noteq> []"
  by (auto simp: yielded_def entry_yield_def split: option.splits sum.splits dest: key_clean)

lemma discovered_clean:
  assumes "discover norml key ens = Inr (ds, fs)" and "d \<in> set ds"
  shows "strip (key d) = key d \<and> key d \<noteq> []"
proof -
  have "find (\<lambda>d'. key d' = key d) (yielded norml ens) = Some d" using assms discover_spec(4) [OF assms(1)] by blast
  then have "d \<in> set (yielded norml ens)" by (auto simp: find_Some_iff)
  then show ?thesis by (rule yielded_clean)
qed

text \<open>Looking a definition up by the stripped and lowered name reaches exactly the definitions with a lower-case key.\<close>

lemma reachable_by_name:
  assumes "discover norml key ens = Inr (ds, fs)" and "d \<in> set ds"
  shows "(\<exists>k. strip k \<noteq> [] \<and> find (\<lambda>d'. key d' = lower (strip k)) ds = Some d) \<longleftrightarrow> lower (key d) = key d"
proof
  assume "\<exists>k. strip k \<noteq> [] \<and> find (\<lambda>d'. key d' = lower (strip k)) ds = Some d"
  then obtain k where "key d = lower (strip k)" by (auto simp: find_Some_iff)
  then show "lower (key d) = key d" by simp
next
  assume "lower (key d) = key d"
  moreover have "find (\<lambda>d'. key d' = key d) ds = Some d" by (rule find_key [OF discover_spec(2) [OF assms(1)] assms(2)])
  ultimately show "\<exists>k. strip k \<noteq> [] \<and> find (\<lambda>d'. key d' = lower (strip k)) ds = Some d"
    using discovered_clean [OF assms] by (intro exI [of _ "key d"]) simp
qed

end

lemma checked_instance_key: "checked_instance sp d f = Inr e \<Longrightarrow> strip (ext_key e) = ext_key e \<and> ext_key e \<noteq> []"
  by (auto simp: checked_instance_def bind_res_eq_Inr dest: normalize_non_empty_clean)

lemma normalize_extension_key: "normalize_extension sp fallback v = Inr e \<Longrightarrow> strip (ext_key e) = ext_key e \<and> ext_key e \<noteq> []"
  by (cases v) (auto simp: bind_res_eq_Inr split: option.splits dest: checked_instance_key)

interpretation function_surface: extension_surface "\<lambda>fallback v. one_definition (normalize_extension sp fallback v)" ext_key for sp
  by unfold_locales (auto simp: one_definition_def split: sum.splits dest: normalize_extension_key)

lemma checked_bundle_key: "checked_bundle d = Inr b \<Longrightarrow> strip (bu_key b) = bu_key b \<and> bu_key b \<noteq> []"
  by (auto simp: checked_bundle_def bind_res_eq_Inr dest: normalize_non_empty_clean)

interpretation bundle_surface: extension_surface "\<lambda>fallback v. one_definition (normalize_bundle fallback v)" bu_key
proof unfold_locales
  fix d fallback v assume "d \<in> set (fst (one_definition (normalize_bundle fallback v)))"
  then have "normalize_bundle fallback v = Inr d" by (auto simp: one_definition_def split: sum.splits)
  then show "strip (bu_key d) = bu_key d \<and> bu_key d \<noteq> []"
    by (cases v) (auto simp: bind_res_eq_Inr dest: checked_bundle_key)
qed

lemma packs_key: "d \<in> set (fst (packs_until_refused ps)) \<Longrightarrow> strip (cp_key d) = cp_key d \<and> cp_key d \<noteq> [] \<and> lower (cp_key d) = cp_key d"
proof (induction ps)
  case (Cons p ps)
  have "strip (cp_key e) = cp_key e \<and> cp_key e \<noteq> [] \<and> lower (cp_key e) = cp_key e" if a: "normalize_config_pack p = Inr e" for e
  proof -
    obtain s where "cp_key e = lower s" "strip s = s" "s \<noteq> []"
      using a by (cases p) (auto simp: bind_res_eq_Inr split: option.splits if_splits dest: normalize_non_empty_clean)
    then show ?thesis by (simp add: strip_lower)
  qed
  with Cons show ?case by (auto split: sum.splits prod.splits)
qed simp

lemma loaded_packs_key: "d \<in> set (fst (loaded_pack_definitions fallback v)) \<Longrightarrow>
    strip (cp_key d) = cp_key d \<and> cp_key d \<noteq> [] \<and> lower (cp_key d) = cp_key d"
  by (cases v) (auto simp del: packs_until_refused.simps dest: packs_key)

interpretation pack_surface: extension_surface loaded_pack_definitions cp_key
  by unfold_locales (auto dest: loaded_packs_key)

text \<open>C29: Discovery is a registry in which the first wins: the definitions found are sorted by key, no key occurs twice, they are
  exactly those that come first under their key among all that the installed entry points yield, and every entry
  point that failed to load or was refused is reported, in order.\<close>

theorem discovery_is_first_wins:
  assumes "discover_extensions sp ens = Inr (es, fs)"
  shows "sorted (map ext_key es) \<and> distinct (map ext_key es) \<and>
    set es = {e. find (\<lambda>e'. ext_key e' = ext_key e) (yielded (\<lambda>fallback v. one_definition (normalize_extension sp fallback v)) ens) = Some e} \<and>
    fs = concat (map (entry_failure (\<lambda>fallback v. one_definition (normalize_extension sp fallback v))) ens)"
  using discover_spec [OF assms [unfolded discover_extensions_def]] by blast

definition sample_entries :: "unit ext_value entry_point list" where
  "sample_entries =
     [\<lparr>en_name = PStr ''Acme_Gate'', en_load = Inr (ExtFunction [] ())\<rparr>,
      \<lparr>en_name = PStr ''broken'', en_load = Inl ''no module''\<rparr>,
      \<lparr>en_name = PStr ''again'', en_load = Inr (ExtMapping [(''key'', PStr ''acme-gate''), (''summary'', PStr ''second'')] (Some ()))\<rparr>]"

theorem discovery_is_first_wins_witness:
  "\<exists>es fs. discover_extensions policy_surface sample_entries = Inr (es, fs) \<and> map ext_key es = [''acme-gate''] \<and>
     distinct (map ext_key es)"
proof -
  have "case discover_extensions policy_surface sample_entries of Inl _ \<Rightarrow> False | Inr (es, fs) \<Rightarrow> map ext_key es = [''acme-gate'']"
    by code_simp
  then obtain es fs where d: "discover_extensions policy_surface sample_entries = Inr (es, fs)" "map ext_key es = [''acme-gate'']"
    by (auto split: sum.splits)
  from discovery_is_first_wins [OF d(1)] have "distinct (map ext_key es)" by (elim conjE)
  with d show ?thesis by (intro exI conjI)
qed

theorem config_packs_are_reachable:
  assumes "discover_config_packs ens = Inr (packs, fs)" and "p \<in> set packs"
  shows "get_config_pack ens (cp_key p) = Inr p"
proof -
  have disc: "discover loaded_pack_definitions cp_key ens = Inr (packs, fs)" using assms(1) by (simp add: discover_config_packs_def)
  have "find (\<lambda>d'. cp_key d' = cp_key p) (yielded loaded_pack_definitions ens) = Some p"
    using assms(2) discover_spec(4) [OF disc] by blast
  then have "p \<in> set (yielded loaded_pack_definitions ens)" by (auto simp: find_Some_iff)
  then have "strip (cp_key p) = cp_key p" "lower (cp_key p) = cp_key p"
    by (auto simp: yielded_def entry_yield_def split: option.splits sum.splits dest: loaded_packs_key)
  then show ?thesis
    using find_key [OF discover_spec(2) [OF disc] assms(2)] assms(1) by (simp add: get_config_pack_def)
qed

text \<open>An application bundle that is listed can be resolved by a name exactly if its key has no capitals.\<close>

theorem capitals_hide_a_bundle:
  assumes "discover_bundles ens = Inr (bs, fs)" and "b \<in> set bs"
  shows "(\<exists>k. resolve_bundle ens k = Inr b) \<longleftrightarrow> lower (bu_key b) = bu_key b"
proof -
  have "resolve_bundle ens k = Inr b \<longleftrightarrow> strip k \<noteq> [] \<and> find (\<lambda>d'. bu_key d' = lower (strip k)) bs = Some b" for k
    using assms(1) by (auto simp: resolve_bundle_def bind_res_eq_Inr normalize_non_empty_Inr split: option.splits)
  then show ?thesis using bundle_surface.reachable_by_name [of ens bs fs b] assms by (simp add: discover_bundles_def)
qed

end
