(* ===== verification/Doctor.thy ===== *)
theory Doctor
  imports Extensions
begin

text \<open>
  The doctor of the runner (\<open>ese/doctor.py\<close>) and the policy checks it runs (\<open>ese/policy_checks.py\<close>): which configurations
  pass, with which violations, warnings and guidance. A policy check is a function of the context; it raises, given
  the text of its exception, or answers. Of \<open>ese/provider_runtime.py\<close> the table of providers.
\<close>

section \<open>Providers\<close>

record provider_capability =
  pv_key_env :: string
  pv_live :: bool
  pv_adapter :: "string option"
  pv_detect :: bool

definition provider_capabilities :: "(string \<times> provider_capability) list" where
  "provider_capabilities =
     [(''openai'', \<lparr>pv_key_env = ''OPENAI_API_KEY'', pv_live = True, pv_adapter = Some ''openai'', pv_detect = True\<rparr>),
      (''anthropic'', \<lparr>pv_key_env = ''ANTHROPIC_API_KEY'', pv_live = False, pv_adapter = None, pv_detect = True\<rparr>),
      (''google'', \<lparr>pv_key_env = ''GOOGLE_API_KEY'', pv_live = False, pv_adapter = None, pv_detect = True\<rparr>),
      (''xai'', \<lparr>pv_key_env = ''XAI_API_KEY'', pv_live = False, pv_adapter = None, pv_detect = True\<rparr>),
      (''openrouter'', \<lparr>pv_key_env = ''OPENROUTER_API_KEY'', pv_live = False, pv_adapter = None, pv_detect = True\<rparr>),
      (''huggingface'', \<lparr>pv_key_env = ''HF_TOKEN'', pv_live = False, pv_adapter = None, pv_detect = True\<rparr>),
      (''local'', \<lparr>pv_key_env = ''LOCAL_MODEL'', pv_live = True, pv_adapter = Some ''local'', pv_detect = False\<rparr>),
      (''custom_api'', \<lparr>pv_key_env = ''CUSTOM_API_KEY'', pv_live = True, pv_adapter = Some ''custom_api'', pv_detect = False\<rparr>)]"

definition unknown_provider :: provider_capability where
  "unknown_provider = \<lparr>pv_key_env = ''MODEL_TOKEN'', pv_live = False, pv_adapter = None, pv_detect = False\<rparr>"

definition provider_runtime_capability :: "string \<Rightarrow> provider_capability" where
  "provider_runtime_capability provider =
     (case map_of provider_capabilities (lower (strip provider)) of None \<Rightarrow> unknown_provider | Some c \<Rightarrow> c)"

definition supports_builtin_live :: "string \<Rightarrow> bool" where
  "supports_builtin_live provider = pv_live (provider_runtime_capability provider)"

definition default_provider_from_env :: "(string \<Rightarrow> string option) \<Rightarrow> string" where
  "default_provider_from_env env =
     (let configured = filter (\<lambda>p. let c = provider_runtime_capability p in
            pv_detect c \<and> (case env (pv_key_env c) of None \<Rightarrow> False | Some v \<Rightarrow> v \<noteq> [])) (map fst provider_capabilities)
      in if configured = [] then ''local'' else if length configured = 1 then hd configured
         else if ''openai'' \<in> set configured then ''openai'' else hd configured)"

section \<open>Policy messages\<close>

record policy_message =
  pm_key :: string
  pm_error :: bool
  pm_text :: string
  pm_hint :: "string option"

text \<open>An item a check returns: an instance with its four attributes, or any value. A whole answer is one item or
  an iterable of items.\<close>

datatype policy_item = MessageInstance pv pv pv pv | MessageValue pv

datatype policy_answer = OneItem policy_item | ManyItems "policy_item list"

definition normalize_policy_severity :: "pv \<Rightarrow> bool res" where
  "normalize_policy_severity v = bind_res (normalize_non_empty ''policy severity'' v) (\<lambda>s.
     if lower s = ''error'' then Inr True else if lower s = ''warning'' then Inr False
     else Inl (ValueError ''policy severity must be one of: error, warning''))"

definition clean_hint :: "pv \<Rightarrow> string option" where
  "clean_hint v = non_empty v"

definition message_from :: "pv \<Rightarrow> pv \<Rightarrow> pv \<Rightarrow> pv \<Rightarrow> policy_message res" where
  "message_from key severity message hint =
     bind_res (normalize_non_empty ''policy key'' key) (\<lambda>k.
     bind_res (normalize_policy_severity severity) (\<lambda>e.
     bind_res (normalize_non_empty ''policy message'' message) (\<lambda>m.
       Inr \<lparr>pm_key = k, pm_error = e, pm_text = m, pm_hint = clean_hint hint\<rparr>)))"

definition normalize_policy_message :: "string \<Rightarrow> policy_item \<Rightarrow> policy_message res" where
  "normalize_policy_message key item = (case item of
      MessageInstance k severity message hint \<Rightarrow> message_from k severity message hint
    | MessageValue (PStr s) \<Rightarrow> bind_res (normalize_non_empty ''policy message'' (PStr s)) (\<lambda>m.
        Inr \<lparr>pm_key = key, pm_error = True, pm_text = m, pm_hint = None\<rparr>)
    | MessageValue (PDict d) \<Rightarrow> message_from (py_or (dget d ''policy_key'') (PStr key))
        (dget_default d ''severity'' (PStr ''error'')) (dget d ''message'') (dget d ''hint'')
    | _ \<Rightarrow> Inl (TypeError ''Policy checks must return messages''))"

definition policy_messages :: "string \<Rightarrow> policy_answer \<Rightarrow> policy_message list res" where
  "policy_messages key answer = (case answer of
      ManyItems items \<Rightarrow> map_res (normalize_policy_message key) items
    | OneItem (MessageValue PNone) \<Rightarrow> Inr []
    | OneItem (MessageValue (PList vs)) \<Rightarrow> map_res (normalize_policy_message key) (map MessageValue vs)
    | OneItem item \<Rightarrow> bind_res (normalize_policy_message key item) (\<lambda>m. Inr [m]))"

definition render_policy_message :: "policy_message \<Rightarrow> string" where
  "render_policy_message m = ''[policy:'' @ pm_key m @ ''] '' @ pm_text m"

section \<open>Policy checks\<close>

record policy_context =
  px_cfg :: dict
  px_mode :: string
  px_scope :: string
  px_roles :: "string list"
  px_models :: "(string \<times> string) list"
  px_identities :: "(string \<times> string) list"
  px_providers :: "(string \<times> string) list"

type_synonym policy_check = "policy_context \<Rightarrow> string + policy_answer"

type_synonym policy_entries = "policy_check ext_value entry_point list"

definition load_failure_message :: "load_failure \<Rightarrow> policy_message" where
  "load_failure_message = (\<lambda>(entry, err). \<lparr>pm_key = entry, pm_error = True,
     pm_text = ''Failed to load policy check '' @ quoted entry @ '': '' @ err,
     pm_hint = Some ''Fix or uninstall the broken policy package before relying on doctor results.''\<rparr>)"

definition crash_message :: "string \<Rightarrow> string \<Rightarrow> policy_message" where
  "crash_message key err = \<lparr>pm_key = key, pm_error = True, pm_text = ''Policy check '' @ quoted key @ '' crashed: '' @ err,
     pm_hint = Some ''Fix the installed policy check implementation or remove it from the environment.''\<rparr>"

definition run_policy_check :: "policy_context \<Rightarrow> policy_check extension \<Rightarrow> policy_message list" where
  "run_policy_check ctx e = (case ext_run e ctx of
      Inl err \<Rightarrow> [crash_message (ext_key e) err]
    | Inr answer \<Rightarrow> (case policy_messages (ext_key e) answer of
        Inl err \<Rightarrow> [crash_message (ext_key e) (err_text err)] | Inr ms \<Rightarrow> ms))"

definition evaluate_policy_checks :: "policy_entries \<Rightarrow> policy_context \<Rightarrow> policy_message list res" where
  "evaluate_policy_checks ens ctx =
     bind_res (discover_policy_checks ens) (\<lambda>(checks, failures).
       Inr (map load_failure_message failures @ concat (map (run_policy_check ctx) checks)))"

section \<open>Roles and constraints\<close>

fun pair_members :: "pv \<Rightarrow> pv list" where
  "pair_members (PList [l, r]) = [l, r]"
| "pair_members v = []"

definition pair_keys :: "string list" where
  "pair_keys = [''disallow_same_model_pairs'', ''disallow_same_provider_pairs'']"

text \<open>The configured roles, then those that the pair constraints name; stripped, each once.\<close>

definition collect_role_names :: "dict \<Rightarrow> string list res" where
  "collect_role_names cfg =
     bind_res (case py_or (dget cfg ''roles'') (PDict []) of PDict d \<Rightarrow> Inr (map (PStr \<circ> fst) d)
         | _ \<Rightarrow> Inl (AttributeError ''keys'')) (\<lambda>configured.
     bind_res (case py_or (dget cfg ''constraints'') (PDict []) of
         PDict c \<Rightarrow> map_res (\<lambda>k. py_iter (py_or (dget c k) (PList []))) pair_keys | _ \<Rightarrow> Inr []) (\<lambda>pairs.
       Inr (dedup (List.map_filter non_empty (configured @ concat (map pair_members (concat pairs)))))))"

definition order_pair :: "string \<times> string \<Rightarrow> string \<times> string" where
  "order_pair = (\<lambda>(l, r). if l \<le> r then (l, r) else (r, l))"

definition doctor_pair :: "string \<Rightarrow> pv \<Rightarrow> (string \<times> string) res" where
  "doctor_pair label v = (case pair_members v of
      [PStr l, PStr r] \<Rightarrow>
        if strip l = [] \<or> strip r = [] then Inl (ValueError (label @ '' entries must be non-empty strings''))
        else Inr (order_pair (strip l, strip r))
    | [] \<Rightarrow> Inl (ValueError (label @ '' entries must contain exactly two role names''))
    | _ \<Rightarrow> Inl (ValueError (label @ '' entries must be strings'')))"

text \<open>The good entries, each once, and the complaints about the others.\<close>

definition good_entries :: "'a res list \<Rightarrow> 'a list" where
  "good_entries rs = dedup (List.map_filter (\<lambda>r. case r of Inl e \<Rightarrow> None | Inr x \<Rightarrow> Some x) rs)"

definition complaints :: "'a res list \<Rightarrow> string list" where
  "complaints rs = List.map_filter (\<lambda>r. case r of Inl e \<Rightarrow> Some (err_text e) | Inr x \<Rightarrow> None) rs"

definition constraint_pairs :: "dict \<Rightarrow> string \<Rightarrow> (string \<times> string) list \<times> string list" where
  "constraint_pairs constraints k = (case py_or (dget constraints k) (PList []) of
      PList vs \<Rightarrow> (let rs = map (doctor_pair (''constraints.'' @ k)) vs in (good_entries rs, complaints rs))
    | _ \<Rightarrow> ([], [''constraints.'' @ k @ '' must be a list of role name pairs'']))"

definition constraint_role :: "string \<Rightarrow> pv \<Rightarrow> string res" where
  "constraint_role label v = (case v of
      PStr s \<Rightarrow> if strip s = [] then Inl (ValueError (label @ '' entries must be non-empty strings'')) else Inr (strip s)
    | _ \<Rightarrow> Inl (ValueError (label @ '' entries must be strings'')))"

definition constraint_roles :: "dict \<Rightarrow> string \<Rightarrow> string list \<times> string list" where
  "constraint_roles constraints k = (case py_or (dget constraints k) (PList []) of
      PList vs \<Rightarrow> (let rs = map (constraint_role (''constraints.'' @ k)) vs in (good_entries rs, complaints rs))
    | _ \<Rightarrow> ([], [''constraints.'' @ k @ '' must be a list of role names'']))"

definition baseline_pairs :: "(string \<times> string) list" where
  "baseline_pairs = map order_pair
     [(''architect'', ''implementer''), (''implementer'', ''adversarial_reviewer''), (''implementer'', ''security_auditor''),
      (''adversarial_reviewer'', ''security_auditor''), (''implementer'', ''release_manager'')]"

section \<open>The violations\<close>

definition required_role_violations :: "string list \<Rightarrow> dict \<Rightarrow> string list" where
  "required_role_violations roles constraints =
     (let (required, bad) = constraint_roles constraints ''require_roles'';
          (json, bad_json) = constraint_roles constraints ''require_json_for_roles'' in
      bad @ bad_json @
      map (\<lambda>r. ''Missing required role '' @ quoted r @ '' from constraints.require_roles'')
        (filter (\<lambda>r. r \<notin> set roles) required))"

definition json_violations :: "string list \<Rightarrow> dict \<Rightarrow> dict \<Rightarrow> string list" where
  "json_violations roles constraints cfg =
     (let configured = filter (\<lambda>r. r \<in> set roles) (fst (constraint_roles constraints ''require_json_for_roles''));
          output = items_of (py_or (dget cfg ''output'') (PDict [])) in
      if configured \<noteq> [] \<and> \<not> truthy (dget_default output ''enforce_json'' (PBool True))
      then [''output.enforce_json must be true when constraints.require_json_for_roles includes configured roles ('' @
              join '', '' configured @ '')'']
      else [])"

definition specialist_violations :: "string list \<Rightarrow> dict \<Rightarrow> string list" where
  "specialist_violations roles constraints =
     (let v = dget constraints ''minimum_specialist_roles''; count = int (length (filter (\<lambda>r. r \<notin> {''architect'', ''implementer''}) roles)) in
      if v = PNone then []
      else case py_int v of Inl e \<Rightarrow> [''constraints.minimum_specialist_roles must be an integer'']
        | Inr n \<Rightarrow> (if n < 0 then [''constraints.minimum_specialist_roles must be >= 0''] else []) @
            (if count < max 0 n then [''Configured specialist roles are below constraints.minimum_specialist_roles='' @
               int_str (max 0 n) @ '' (found '' @ int_str count @ '')''] else []))"

definition shared :: "string \<Rightarrow> (string \<times> string) list \<Rightarrow> (string \<times> string) list \<Rightarrow> (string \<times> string) list \<Rightarrow> string list" where
  "shared what values names pairs =
     map (\<lambda>(a, b). a @ '' and '' @ b @ '' share '' @ what @ '' '' @ (case map_of names a of None \<Rightarrow> [] | Some m \<Rightarrow> m))
       (filter (\<lambda>(a, b). dhas values a \<and> dhas values b \<and> map_of values a = map_of values b) pairs)"

definition distinct_model_violations :: "(string \<times> string) list \<Rightarrow> dict \<Rightarrow> string list" where
  "distinct_model_violations identities constraints =
     (let v = dget constraints ''minimum_distinct_models'';
          found = int (length (dedup (filter (\<lambda>i. i \<noteq> []) (map snd identities)))) in
      if v = PNone then []
      else case py_int v of Inl e \<Rightarrow> [''constraints.minimum_distinct_models must be an integer'']
        | Inr n \<Rightarrow> if n \<le> 0 then [''constraints.minimum_distinct_models must be > 0'']
            else if found < n then [''Ensemble mode requires at least '' @ int_str n @ '' distinct role models, found '' @ int_str found]
            else [])"

definition separation_violations ::
    "(string \<times> string) list \<Rightarrow> (string \<times> string) list \<Rightarrow> (string \<times> string) list \<Rightarrow> dict \<Rightarrow> string list" where
  "separation_violations models identities providers constraints =
     (let (model_pairs, bad) = constraint_pairs constraints ''disallow_same_model_pairs'';
          (provider_pairs, bad_providers) = constraint_pairs constraints ''disallow_same_provider_pairs'' in
      bad @ bad_providers @ shared ''model'' identities models (dedup (baseline_pairs @ model_pairs)) @
      shared ''provider'' providers providers provider_pairs @ distinct_model_violations identities constraints)"

section \<open>The doctor\<close>

definition config_mode :: "(pv \<Rightarrow> string) \<Rightarrow> dict \<Rightarrow> string" where
  "config_mode rep cfg = lower (strip (py_str rep (py_or (dget cfg ''mode'') (PStr ''ensemble''))))"

definition resolved_for :: "(string \<Rightarrow> string res) \<Rightarrow> string list \<Rightarrow> (string \<times> string) list res" where
  "resolved_for f roles = map_res (\<lambda>r. bind_res (f r) (\<lambda>v. Inr (r, v))) roles"

text \<open>The context of the policy checks; the doctor itself looks at the same values.\<close>

definition doctor_context :: "(pv \<Rightarrow> string) \<Rightarrow> dict \<Rightarrow> policy_context res" where
  "doctor_context rep cfg =
     bind_res (collect_role_names cfg) (\<lambda>roles.
     bind_res (resolve_scope_text cfg) (\<lambda>scope.
     bind_res (resolved_for (resolve_role_model rep cfg) roles) (\<lambda>models.
     bind_res (resolved_for (resolve_role_identity rep cfg) roles) (\<lambda>identities.
     bind_res (resolved_for (resolve_role_provider rep cfg) roles) (\<lambda>providers.
       Inr \<lparr>px_cfg = cfg, px_mode = config_mode rep cfg, px_scope = scope, px_roles = roles, px_models = models,
            px_identities = identities, px_providers = providers\<rparr>)))))"

definition scope_violations :: "policy_context \<Rightarrow> string list" where
  "scope_violations ctx =
     (if px_scope ctx = [] then [''No project scope supplied. Set input.scope in the config or pass --scope.''] else [])"

definition constraint_violations :: "policy_context \<Rightarrow> dict \<Rightarrow> string list" where
  "constraint_violations ctx constraints =
     required_role_violations (px_roles ctx) constraints @ json_violations (px_roles ctx) constraints (px_cfg ctx) @
     specialist_violations (px_roles ctx) constraints @
     (if px_mode ctx = ''ensemble'' then separation_violations (px_models ctx) (px_identities ctx) (px_providers ctx) constraints else [])"

definition solo_warning :: string where
  "solo_warning = ''SOLO MODE: degraded independence; lower assurance and higher self-confirmation risk.''"

type_synonym verdict = "bool \<times> string list \<times> (string \<times> string) list"

definition evaluate_doctor :: "(pv \<Rightarrow> string) \<Rightarrow> policy_entries \<Rightarrow> dict \<Rightarrow> verdict res" where
  "evaluate_doctor rep ens cfg =
     bind_res (doctor_context rep cfg) (\<lambda>ctx.
       case py_or (dget cfg ''constraints'') (PDict []) of
         PDict constraints \<Rightarrow>
           bind_res (evaluate_policy_checks ens ctx) (\<lambda>findings.
             let violations = scope_violations ctx @ constraint_violations ctx constraints @
                   map render_policy_message (filter pm_error findings);
                 warnings = map render_policy_message (filter (\<lambda>m. \<not> pm_error m) findings) in
             Inr (if violations \<noteq> [] then (False, violations, px_models ctx)
                  else if px_mode ctx = ''solo'' then (True, solo_warning # warnings, px_models ctx)
                  else (True, warnings, px_models ctx)))
       | _ \<Rightarrow> Inr (False, scope_violations ctx @ [''constraints must be a mapping when provided''], px_models ctx))"

text \<open>\<open>load_config\<close>, which reads and validates the file, is an argument: the configuration or the text of its error.\<close>

definition run_doctor :: "(pv \<Rightarrow> string) \<Rightarrow> policy_entries \<Rightarrow> string + dict \<Rightarrow> verdict res" where
  "run_doctor rep ens loaded = (case loaded of Inl err \<Rightarrow> Inr (False, [err], []) | Inr cfg \<Rightarrow> evaluate_doctor rep ens cfg)"

section \<open>Guidance\<close>

definition mentions :: "string \<Rightarrow> string list \<Rightarrow> bool" where
  "mentions part violations \<longleftrightarrow> (\<exists>v \<in> set violations. str_contains part v)"

text \<open>\<open>str(d.get(key) or dflt).strip().lower()\<close> for a section of the configuration that is a mapping.\<close>

definition section_text :: "(pv \<Rightarrow> string) \<Rightarrow> pv \<Rightarrow> string \<Rightarrow> string \<Rightarrow> string res" where
  "section_text rep sec key dflt = bind_res (py_get sec key PNone) (\<lambda>v. Inr (strip (py_str rep (py_or v (PStr dflt)))))"

definition violation_hints :: "string list \<Rightarrow> string list" where
  "violation_hints violations =
     (if mentions ''No project scope supplied'' violations
      then [''Set input.scope or use `ese task'' @ '' \"...\"` to start from a concrete task description.''] else []) @
     (if mentions ''share model'' violations
      then [''Baseline ensemble independence requires distinct model assignments across core implementation and audit roles. Separate those role models before running.'']
      else []) @
     (if mentions ''share provider'' violations
      then [''Separate constrained roles onto different providers or relax constraints.disallow_same_provider_pairs.''] else []) @
     (if mentions ''minimum_distinct_models'' violations
      then [''Assign more distinct models across configured ensemble roles to increase independence.''] else []) @
     (if mentions ''output.enforce_json'' violations
      then [''Enable output.enforce_json when role contracts depend on deterministic JSON parsing.''] else [])"

definition adapter_hints :: "string \<Rightarrow> string \<Rightarrow> string \<Rightarrow> string list" where
  "adapter_hints provider adapter base_url =
     (if adapter = ''dry-run''
      then [''You are in demo mode. Switch runtime.adapter to a live adapter when you want real model execution.'']
      else if adapter \<notin> {''openai'', ''local'', ''custom_api''} \<and> CHR '':'' \<in> set adapter
      then [''Custom runtime adapter is configured. Re-run with `ese doctor` after adapter changes to keep validation tight.''] else []) @
     (if provider \<noteq> [] \<and> \<not> supports_builtin_live provider \<and> adapter = provider
      then [provider @ '' does not have a built-in live adapter here. Use demo mode or set runtime.adapter to module:function.''] else []) @
     (if provider = ''custom_api'' \<and> base_url = []
      then [''custom_api needs provider.base_url or runtime.custom_api.base_url before live runs will work.''] else [])"

text \<open>The hints of the policy findings that are among the violations, each once.\<close>

fun policy_hints :: "string list \<Rightarrow> policy_message list \<Rightarrow> string list \<Rightarrow> string list" where
  "policy_hints violations [] guidance = guidance"
| "policy_hints violations (m # ms) guidance = policy_hints violations ms (case pm_hint m of
      None \<Rightarrow> guidance
    | Some hint \<Rightarrow> if hint = [] \<or> render_policy_message m \<notin> set violations \<or> hint \<in> set guidance then guidance
        else guidance @ [hint])"

definition build_doctor_guidance :: "(pv \<Rightarrow> string) \<Rightarrow> policy_entries \<Rightarrow> dict \<Rightarrow> string list \<Rightarrow> string list res" where
  "build_doctor_guidance rep ens cfg violations =
     bind_res (section_text rep (py_or (dget cfg ''provider'') (PDict [])) ''name'' []) (\<lambda>name.
     bind_res (section_text rep (py_or (dget cfg ''runtime'') (PDict [])) ''adapter'' ''dry-run'') (\<lambda>adapter.
     bind_res (section_text rep (py_or (dget cfg ''provider'') (PDict [])) ''base_url'' []) (\<lambda>base_url.
     bind_res (doctor_context rep cfg) (\<lambda>ctx.
     bind_res (evaluate_policy_checks ens ctx) (\<lambda>findings.
       let guidance = policy_hints violations findings (violation_hints violations @ adapter_hints (lower name) (lower adapter) base_url) in
       Inr (if guidance = [] then [''Configuration is structurally valid. Next check provider credentials and artifacts_dir conventions.'']
            else guidance))))))"

section \<open>The environment\<close>

text \<open>For each surface its key, its noun, its title, the installed extensions and the failures.\<close>

record surface_report =
  sf_key :: string
  sf_noun :: string
  sf_title :: string
  sf_installed :: "string list"
  sf_failures :: "load_failure list"

definition surface_report :: "string \<Rightarrow> string \<Rightarrow> string \<Rightarrow> ('d \<Rightarrow> string) \<Rightarrow> ('d list \<times> load_failure list) res \<Rightarrow> surface_report res" where
  "surface_report k noun title key found = bind_res found (\<lambda>(ds, fs).
     Inr \<lparr>sf_key = k, sf_noun = noun, sf_title = title, sf_installed = map key ds, sf_failures = fs\<rparr>)"

record ('p, 'e, 'v, 'i) environment =
  env_packs :: "loaded_packs entry_point list"
  env_policies :: "'p ext_value entry_point list"
  env_exporters :: "'e ext_value entry_point list"
  env_views :: "'v ext_value entry_point list"
  env_integrations :: "'i ext_value entry_point list"
  env_bundles :: "bundle_value entry_point list"

definition environment_report :: "('p, 'e, 'v, 'i) environment \<Rightarrow> surface_report list res" where
  "environment_report env =
     bind_res (surface_report ''config_packs'' ''config pack'' ''Config Packs'' cp_key (discover_config_packs (env_packs env))) (\<lambda>a.
     bind_res (surface_report ''policy_checks'' ''policy check'' ''Policy Checks'' ext_key
       (discover_policy_checks (env_policies env))) (\<lambda>b.
     bind_res (surface_report ''report_exporters'' ''report exporter'' ''Report Exporters'' ext_key
       (discover_report_exporters (env_exporters env))) (\<lambda>c.
     bind_res (surface_report ''artifact_views'' ''artifact view'' ''Artifact Views'' ext_key
       (discover_artifact_views (env_views env))) (\<lambda>d.
     bind_res (surface_report ''integrations'' ''integration'' ''Integrations'' ext_key
       (discover_integrations (env_integrations env))) (\<lambda>e.
     bind_res (surface_report ''application_bundles'' ''application bundle'' ''Application Bundles'' bu_key
       (discover_bundles (env_bundles env))) (\<lambda>f. Inr [a, b, c, d, e, f]))))))"

definition surface_violations :: "surface_report \<Rightarrow> string list" where
  "surface_violations r = map (\<lambda>(entry, err). ''[environment:'' @ sf_key r @ ''] Failed to load '' @ sf_noun r @ '' '' @
     quoted entry @ '': '' @ err) (sf_failures r)"

definition evaluate_doctor_environment ::
    "('p, 'e, 'v, 'i) environment \<Rightarrow> (bool \<times> string list \<times> surface_report list) res" where
  "evaluate_doctor_environment env = bind_res (environment_report env) (\<lambda>rs.
     let violations = concat (map surface_violations rs) in Inr (violations = [], violations, rs))"

definition environment_lines :: "surface_report \<Rightarrow> string list" where
  "environment_lines r =
     [''- '' @ sf_title r @ '': '' @ nat_str (length (sf_installed r)) @ '' installed, '' @ nat_str (length (sf_failures r)) @ '' broken''] @
     (if sf_installed r \<noteq> [] then [''  installed: '' @ join '', '' (sf_installed r)] else []) @
     map (\<lambda>(entry, err). ''  broken: '' @ entry @ '': '' @ err) (sf_failures r)"

definition render_doctor_environment_text :: "surface_report list \<Rightarrow> string" where
  "render_doctor_environment_text rs = join [char_of (10::nat)] (''Environment Doctor:'' # concat (map environment_lines rs))"

section \<open>What a pass means\<close>

lemma resolved_for_Inr:
  assumes "resolved_for f roles = Inr vs"
  shows "dhas vs a \<longleftrightarrow> a \<in> set roles" and "a \<in> set roles \<Longrightarrow> f a = Inr (the (map_of vs a))"
proof -
  have "(dhas vs a \<longleftrightarrow> a \<in> set roles) \<and> (a \<in> set roles \<longrightarrow> f a = Inr (the (map_of vs a)))"
    using assms unfolding resolved_for_def
  proof (induction roles arbitrary: vs)
    case Nil
    then show ?case by (simp add: dhas_def)
  next
    case (Cons r roles)
    then obtain v ws where w: "f r = Inr v" "map_res (\<lambda>r. bind_res (f r) (\<lambda>v. Inr (r, v))) roles = Inr ws" "vs = (r, v) # ws"
      by (auto simp: bind_res_eq_Inr)
    from Cons.IH [OF w(2)] w show ?case by (cases "a = r") (simp_all add: dhas_def)
  qed
  then show "dhas vs a \<longleftrightarrow> a \<in> set roles" and "a \<in> set roles \<Longrightarrow> f a = Inr (the (map_of vs a))" by blast+
qed

lemma evaluate_doctor_pass:
  assumes "evaluate_doctor rep ens cfg = Inr (True, msgs, models)"
  obtains ctx constraints findings where "doctor_context rep cfg = Inr ctx" "px_models ctx = models"
    "py_or (dget cfg ''constraints'') (PDict []) = PDict constraints" "evaluate_policy_checks ens ctx = Inr findings"
    "constraint_violations ctx constraints = []" "list_all (\<lambda>m. \<not> pm_error m) findings"
    "set (map render_policy_message findings) \<subseteq> set msgs"
proof -
  obtain ctx where ctx: "doctor_context rep cfg = Inr ctx" using assms by (auto simp: evaluate_doctor_def bind_res_eq_Inr)
  obtain constraints where c: "py_or (dget cfg ''constraints'') (PDict []) = PDict constraints"
    using assms ctx by (cases "py_or (dget cfg ''constraints'') (PDict [])") (auto simp: evaluate_doctor_def)
  obtain findings where f: "evaluate_policy_checks ens ctx = Inr findings"
    using assms by (auto simp: evaluate_doctor_def ctx c bind_res_eq_Inr)
  show ?thesis
    by (rule that [OF ctx _ c f]) (use assms in \<open>auto simp: evaluate_doctor_def ctx c f Let_def list_all_iff filter_empty_conv split: if_splits\<close>)
qed

lemma doctor_context_Inr:
  assumes "doctor_context rep cfg = Inr ctx"
  shows "collect_role_names cfg = Inr (px_roles ctx)" "resolved_for (resolve_role_identity rep cfg) (px_roles ctx) = Inr (px_identities ctx)"
    "resolved_for (resolve_role_provider rep cfg) (px_roles ctx) = Inr (px_providers ctx)" "px_mode ctx = config_mode rep cfg"
  using assms by (auto simp: doctor_context_def bind_res_eq_Inr)

lemma shared_Nil: "shared what values names pairs = [] \<longleftrightarrow>
    (\<forall>(a, b) \<in> set pairs. dhas values a \<longrightarrow> dhas values b \<longrightarrow> map_of values a \<noteq> map_of values b)"
  by (auto simp: shared_def filter_empty_conv)

lemma separated:
  assumes "shared what vs names pairs = []" and "resolved_for f roles = Inr vs" and "(a, b) \<in> set pairs"
    and "a \<in> set roles" and "b \<in> set roles"
  shows "f a \<noteq> f b"
proof -
  have "map_of vs a \<noteq> map_of vs b" using assms resolved_for_Inr(1) [OF assms(2)] by (auto simp: shared_Nil)
  moreover have "dhas vs a" "dhas vs b" using assms(4,5) resolved_for_Inr(1) [OF assms(2)] by simp_all
  ultimately have "the (map_of vs a) \<noteq> the (map_of vs b)" by (auto simp: dhas_def)
  then show ?thesis using resolved_for_Inr(2) [OF assms(2)] assms(4,5) by simp
qed

lemma order_pair_cases: "order_pair (l, r) = (l, r) \<or> order_pair (l, r) = (r, l)"
  by (simp add: order_pair_def)

lemma good_entries_Nil: "complaints rs = [] \<Longrightarrow> Inl e \<notin> set rs"
  by (induction rs) (auto simp: complaints_def List.map_filter_def split: sum.splits)

lemma good_entries_mem: "Inr x \<in> set rs \<Longrightarrow> x \<in> set (good_entries rs)"
  by (force simp: good_entries_def List.map_filter_def)

text \<open>An entry of a pair constraint that draws no complaint is among the pairs, and its roles are collected.\<close>

lemma constraint_entry:
  assumes "snd (constraint_pairs constraints k) = []" and "PList [PStr l, PStr r] \<in> set (elems_of (dget constraints k))"
  shows "order_pair (strip l, strip r) \<in> set (fst (constraint_pairs constraints k)) \<and> strip l \<noteq> [] \<and> strip r \<noteq> []"
proof -
  obtain vs where vs: "dget constraints k = PList vs" "PList [PStr l, PStr r] \<in> set vs"
    using assms(2) by (cases "dget constraints k") auto
  then have raw: "py_or (dget constraints k) (PList []) = PList vs" by (auto simp: py_or_def)
  let ?rs = "map (doctor_pair (''constraints.'' @ k)) vs"
  have "complaints ?rs = []" using assms(1) by (simp add: constraint_pairs_def raw Let_def)
  then have none: "Inl e \<notin> set ?rs" for e by (rule good_entries_Nil)
  have mem: "doctor_pair (''constraints.'' @ k) (PList [PStr l, PStr r]) \<in> set ?rs" using vs(2) by simp
  have ok: "strip l \<noteq> [] \<and> strip r \<noteq> []" using none mem by (auto simp: doctor_pair_def split: if_splits)
  then have "Inr (order_pair (strip l, strip r)) \<in> set ?rs" using mem by (simp add: doctor_pair_def)
  then have "order_pair (strip l, strip r) \<in> set (good_entries ?rs)" by (rule good_entries_mem)
  then show ?thesis using ok by (simp add: constraint_pairs_def raw Let_def)
qed

lemma collected_entry:
  assumes "collect_role_names cfg = Inr roles" and "py_or (dget cfg ''constraints'') (PDict []) = PDict constraints"
    and "k \<in> set pair_keys" and "PList [PStr l, PStr r] \<in> set (elems_of (dget constraints k))" and "strip l \<noteq> []" and "strip r \<noteq> []"
  shows "strip l \<in> set roles \<and> strip r \<in> set roles"
proof -
  obtain vs where vs: "dget constraints k = PList vs" "PList [PStr l, PStr r] \<in> set vs"
    using assms(4) by (cases "dget constraints k") auto
  then have iter: "py_iter (py_or (dget constraints k) (PList [])) = Inr vs" by (auto simp: py_or_def)
  obtain configured pairs where p: "map_res (\<lambda>k. py_iter (py_or (dget constraints k) (PList []))) pair_keys = Inr pairs"
    and roles: "roles = dedup (List.map_filter non_empty (configured @ concat (map pair_members (concat pairs))))"
    using assms(1,2) by (auto simp: collect_role_names_def bind_res_eq_Inr)
  have "vs \<in> set pairs" using p assms(3) iter by (auto simp: pair_keys_def bind_res_eq_Inr)
  then have "PStr l \<in> set (concat (map pair_members (concat pairs)))" "PStr r \<in> set (concat (map pair_members (concat pairs)))"
    using vs(2) by (force intro: bexI [of _ vs])+
  then have "PStr l \<in> set (configured @ concat (map pair_members (concat pairs)))"
    "PStr r \<in> set (configured @ concat (map pair_members (concat pairs)))" by simp_all
  moreover have "non_empty (PStr l) = Some (strip l)" "non_empty (PStr r) = Some (strip r)" using assms(5,6) by simp_all
  moreover have "x \<in> set (List.map_filter non_empty xs)" if "v \<in> set xs" "non_empty v = Some x" for x v xs
    using that by (force simp: List.map_filter_def)
  ultimately show ?thesis unfolding roles set_dedup by blast
qed

text \<open>C18: The doctor separates roles: an ensemble configuration passes only if the roles of every baseline pair that are
  both present, and the roles of every pair the configuration forbids to share, resolve to different models
  (up to case and blanks) and, where forbidden, different providers.\<close>

theorem passed_doctor_separates_roles:
  assumes "evaluate_doctor rep ens cfg = Inr (True, msgs, models)" and "config_mode rep cfg = ''ensemble''"
  shows "\<exists>roles constraints. collect_role_names cfg = Inr roles \<and> py_or (dget cfg ''constraints'') (PDict []) = PDict constraints \<and>
    (\<forall>(a, b) \<in> set baseline_pairs. a \<in> set roles \<longrightarrow> b \<in> set roles \<longrightarrow>
       resolve_role_identity rep cfg a \<noteq> resolve_role_identity rep cfg b) \<and>
    (\<forall>l r. PList [PStr l, PStr r] \<in> set (elems_of (dget constraints ''disallow_same_model_pairs'')) \<longrightarrow>
       resolve_role_identity rep cfg (strip l) \<noteq> resolve_role_identity rep cfg (strip r)) \<and>
    (\<forall>l r. PList [PStr l, PStr r] \<in> set (elems_of (dget constraints ''disallow_same_provider_pairs'')) \<longrightarrow>
       resolve_role_provider rep cfg (strip l) \<noteq> resolve_role_provider rep cfg (strip r))"
proof -
  obtain ctx constraints where ctx: "doctor_context rep cfg = Inr ctx"
    and c: "py_or (dget cfg ''constraints'') (PDict []) = PDict constraints" and v: "constraint_violations ctx constraints = []"
    using assms(1) by (rule evaluate_doctor_pass)
  note ctx = doctor_context_Inr [OF ctx]
  let ?mk = "''disallow_same_model_pairs''" and ?pk = "''disallow_same_provider_pairs''"
  have sep: "snd (constraint_pairs constraints ?mk) = []" "snd (constraint_pairs constraints ?pk) = []"
    "shared ''model'' (px_identities ctx) (px_models ctx) (dedup (baseline_pairs @ fst (constraint_pairs constraints ?mk))) = []"
    "shared ''provider'' (px_providers ctx) (px_providers ctx) (fst (constraint_pairs constraints ?pk)) = []"
    using v ctx(4) assms(2) by (simp_all add: constraint_violations_def separation_violations_def Let_def split_beta)
  have base: "resolve_role_identity rep cfg a \<noteq> resolve_role_identity rep cfg b"
    if "(a, b) \<in> set baseline_pairs" "a \<in> set (px_roles ctx)" "b \<in> set (px_roles ctx)" for a b
    by (rule separated [OF sep(3) ctx(2) _ that(2,3)]) (simp add: that(1))
  have models: "resolve_role_identity rep cfg (strip l) \<noteq> resolve_role_identity rep cfg (strip r)"
    if e: "PList [PStr l, PStr r] \<in> set (elems_of (dget constraints ?mk))" for l r
  proof -
    note entry = constraint_entry [OF sep(1) e]
    have "strip l \<in> set (px_roles ctx) \<and> strip r \<in> set (px_roles ctx)"
      using entry by (intro collected_entry [OF ctx(1) c _ e]) (simp_all add: pair_keys_def)
    then show ?thesis
      using entry order_pair_cases [of "strip l" "strip r"] separated [OF sep(3) ctx(2), of "strip l" "strip r"]
        separated [OF sep(3) ctx(2), of "strip r" "strip l"] by auto
  qed
  have providers: "resolve_role_provider rep cfg (strip l) \<noteq> resolve_role_provider rep cfg (strip r)"
    if e: "PList [PStr l, PStr r] \<in> set (elems_of (dget constraints ?pk))" for l r
  proof -
    note entry = constraint_entry [OF sep(2) e]
    have "strip l \<in> set (px_roles ctx) \<and> strip r \<in> set (px_roles ctx)"
      using entry by (intro collected_entry [OF ctx(1) c _ e]) (simp_all add: pair_keys_def)
    then show ?thesis
      using entry order_pair_cases [of "strip l" "strip r"] separated [OF sep(4) ctx(3), of "strip l" "strip r"]
        separated [OF sep(4) ctx(3), of "strip r" "strip l"] by auto
  qed
  show ?thesis using ctx(1) c base models providers by blast
qed

definition sample_config :: dict where
  "sample_config =
     [(''provider'', PDict [(''name'', PStr ''acme''), (''model'', PStr ''one'')]),
      (''roles'', PDict [(''architect'', PDict [(''model'', PStr ''two'')]), (''implementer'', PDict [])]),
      (''constraints'', PDict [(''disallow_same_model_pairs'', PList [PList [PStr ''implementer'', PStr '' architect '']])]),
      (''scope'', PStr ''build it'')]"

definition sample_policies :: policy_entries where
  "sample_policies =
     [\<lparr>en_name = PStr ''house_rules'',
       en_load = Inr (ExtFunction [] (\<lambda>ctx. Inr (OneItem (MessageValue (PDict [(''message'', PStr ''no budget''), (''severity'', PStr ''warning'')])))))\<rparr>]"

lemma sample_passes: "case evaluate_doctor (\<lambda>_. []) sample_policies sample_config of
    Inl _ \<Rightarrow> False | Inr (ok, msgs, models) \<Rightarrow> ok \<and> msgs = [''[policy:house-rules] no budget'']"
  by code_simp

lemma sample_pass: "\<exists>models. evaluate_doctor (\<lambda>_. []) sample_policies sample_config = Inr (True, [''[policy:house-rules] no budget''], models)"
  using sample_passes by (auto split: sum.splits)

theorem passed_doctor_separates_roles_witness:
  "resolve_role_identity (\<lambda>_. []) sample_config ''implementer'' \<noteq> resolve_role_identity (\<lambda>_. []) sample_config ''architect''"
proof -
  obtain models where pass: "evaluate_doctor (\<lambda>_. []) sample_policies sample_config = Inr (True, [''[policy:house-rules] no budget''], models)"
    using sample_pass by blast
  have mode: "config_mode (\<lambda>_. []) sample_config = ''ensemble''" by code_simp
  obtain constraints where c: "py_or (dget sample_config ''constraints'') (PDict []) = PDict constraints"
    and sep: "\<forall>l r. PList [PStr l, PStr r] \<in> set (elems_of (dget constraints ''disallow_same_model_pairs'')) \<longrightarrow>
      resolve_role_identity (\<lambda>_. []) sample_config (strip l) \<noteq> resolve_role_identity (\<lambda>_. []) sample_config (strip r)"
    using passed_doctor_separates_roles [OF pass mode] by blast
  have "PList [PStr ''implementer'', PStr '' architect ''] \<in> set (elems_of (dget constraints ''disallow_same_model_pairs''))"
    using c by (auto simp: sample_config_def dget_def py_or_def)
  moreover have "strip ''implementer'' = ''implementer''" "strip '' architect '' = ''architect''" by code_simp+
  ultimately show ?thesis using sep by metis
qed

text \<open>C19: Policy checks fail closed: a configuration passes only if every installed policy check loaded, ran to its end and
  returned well-formed messages without an error among them; their warnings are shown.\<close>

theorem policy_checks_fail_closed:
  assumes "evaluate_doctor rep ens cfg = Inr (True, msgs, models)"
  shows "\<exists>ctx checks. doctor_context rep cfg = Inr ctx \<and> discover_extensions policy_surface ens = Inr (checks, []) \<and>
    (\<forall>e \<in> set checks. \<exists>answer ms. ext_run e ctx = Inr answer \<and> policy_messages (ext_key e) answer = Inr ms \<and>
       (\<forall>m \<in> set ms. \<not> pm_error m \<and> render_policy_message m \<in> set msgs))"
proof -
  obtain ctx findings where ctx: "doctor_context rep cfg = Inr ctx" and f: "evaluate_policy_checks ens ctx = Inr findings"
    and ok: "list_all (\<lambda>m. \<not> pm_error m) findings" and shown: "set (map render_policy_message findings) \<subseteq> set msgs"
    using assms by (rule evaluate_doctor_pass)
  obtain checks failures where d: "discover_extensions policy_surface ens = Inr (checks, failures)"
    and findings: "findings = map load_failure_message failures @ concat (map (run_policy_check ctx) checks)"
    using f by (auto simp: evaluate_policy_checks_def bind_res_eq_Inr)
  have "failures = []"
    using ok by (cases failures) (auto simp: findings load_failure_message_def)
  moreover have "\<exists>answer ms. ext_run e ctx = Inr answer \<and> policy_messages (ext_key e) answer = Inr ms \<and>
      (\<forall>m \<in> set ms. \<not> pm_error m \<and> render_policy_message m \<in> set msgs)" if e: "e \<in> set checks" for e
  proof -
    have "set (run_policy_check ctx e) \<subseteq> set findings" using e by (auto simp: findings)
    then have ran: "\<forall>m \<in> set (run_policy_check ctx e). \<not> pm_error m \<and> render_policy_message m \<in> set msgs"
      using ok shown by (auto simp: list_all_iff)
    obtain answer where a: "ext_run e ctx = Inr answer"
      using ran by (cases "ext_run e ctx") (auto simp: run_policy_check_def crash_message_def)
    obtain ms where "policy_messages (ext_key e) answer = Inr ms"
      using ran a by (cases "policy_messages (ext_key e) answer") (auto simp: run_policy_check_def crash_message_def)
    with a ran show ?thesis by (simp add: run_policy_check_def)
  qed
  ultimately show ?thesis using ctx d by blast
qed

theorem policy_checks_fail_closed_witness:
  "\<exists>models ctx checks. evaluate_doctor (\<lambda>_. []) sample_policies sample_config = Inr (True, [''[policy:house-rules] no budget''], models) \<and>
     doctor_context (\<lambda>_. []) sample_config = Inr ctx \<and> discover_extensions policy_surface sample_policies = Inr (checks, [])"
  using sample_pass policy_checks_fail_closed by blast

end
