(* ===== verification/Integrations.thy ===== *)
theory Integrations
  imports Extensions Run_Summary
begin

text \<open>
  What installed extensions do with a run: rendering an artifact view (\<open>ese/artifact_views.py\<close>) and publishing the evidence of
  a run through an integration (\<open>ese/integrations.py\<close>). The functions of an extension are arguments: they raise,
  given the text of the exception, or return a value.
\<close>

section \<open>Artifact views\<close>

text \<open>A view renders a report and may say whether it applies to one; a predicate that is absent always does.\<close>

record 'r view_functions =
  vf_render :: "'r \<Rightarrow> pv res"
  vf_available :: "('r \<Rightarrow> bool res) option"

type_synonym 'r views = "'r view_functions ext_value entry_point list"

definition document_key :: "string \<Rightarrow> string" where
  "document_key key = ''view:'' @ strip key"

definition view_available :: "'r view_functions extension \<Rightarrow> 'r \<Rightarrow> bool res" where
  "view_available e report = (case vf_available (ext_run e) of None \<Rightarrow> Inr True | Some f \<Rightarrow> f report)"

definition view_format :: "'r view_functions extension \<Rightarrow> string" where
  "view_format e = (case map_of (ext_fields e) ''format'' of None \<Rightarrow> [] | Some s \<Rightarrow> s)"

record view_document =
  vd_key :: string
  vd_title :: string
  vd_format :: string

fun available_views :: "'r view_functions extension list \<Rightarrow> 'r \<Rightarrow> view_document list res" where
  "available_views [] report = Inr []"
| "available_views (e # es) report =
     bind_res (view_available e report) (\<lambda>b. bind_res (available_views es report) (\<lambda>ds.
       Inr (if b then \<lparr>vd_key = document_key (ext_key e), vd_title = ext_title e, vd_format = view_format e\<rparr> # ds else ds)))"

definition list_available_views :: "'r views \<Rightarrow> 'r \<Rightarrow> view_document list res" where
  "list_available_views ens report =
     bind_res (discover_artifact_views ens) (\<lambda>(es, fs). available_views es report)"

definition resolve_artifact_view :: "'r views \<Rightarrow> string \<Rightarrow> 'r view_functions extension res" where
  "resolve_artifact_view ens document =
     bind_res (normalize_non_empty ''artifact view document'' (PStr document)) (\<lambda>clean.
     bind_res (discover_artifact_views ens) (\<lambda>(es, fs).
       case find (\<lambda>e. ext_key e = (if starts_with ''view:'' clean then drop 5 clean else clean)) es of
         None \<Rightarrow> Inl (ValueError (''Unknown artifact view '' @ quoted document @ ''.'')) | Some e \<Rightarrow> Inr e))"

record rendered_view =
  rd_key :: string
  rd_title :: string
  rd_format :: string
  rd_content :: string
  rd_truncated :: bool

definition view_payload :: "'r view_functions extension \<Rightarrow> pv \<Rightarrow> (string \<times> string \<times> string) res" where
  "view_payload e rendered = (case rendered of
      PStr s \<Rightarrow> Inr (ext_title e, view_format e, s)
    | PDict d \<Rightarrow>
        bind_res (normalize_non_empty ''artifact view title'' (py_or (dget d ''title'') (PStr (ext_title e)))) (\<lambda>title.
        bind_res (normalize_non_empty ''artifact view format'' (py_or (dget d ''format'') (PStr (view_format e)))) (\<lambda>format.
        bind_res (normalize_non_empty ''artifact view content'' (dget d ''content'')) (\<lambda>content. Inr (title, format, content))))
    | _ \<Rightarrow> Inl (ValueError (''Artifact view '' @ quoted (ext_key e) @ '' must return a string or mapping payload'')))"

text \<open>\<open>content[:max_chars]\<close>: a negative limit drops characters at the end.\<close>

definition py_prefix :: "int \<Rightarrow> 'a list \<Rightarrow> 'a list" where
  "py_prefix n xs = (if 0 \<le> n then take (nat n) xs else take (length xs - nat (- n)) xs)"

definition render_artifact_view :: "'r views \<Rightarrow> 'r \<Rightarrow> string \<Rightarrow> int \<Rightarrow> rendered_view res" where
  "render_artifact_view ens report document limit =
     bind_res (resolve_artifact_view ens document) (\<lambda>e.
     bind_res (view_available e report) (\<lambda>b.
     if \<not> b then Inl (ValueError (''Artifact view '' @ quoted (ext_key e) @ '' is not available for this run.''))
     else
       bind_res (vf_render (ext_run e) report) (\<lambda>rendered.
       bind_res (view_payload e rendered) (\<lambda>(title, format, content).
         Inr \<lparr>rd_key = document_key (ext_key e), rd_title = title, rd_format = format, rd_content = py_prefix limit content,
              rd_truncated = (int (length content) > limit)\<rparr>))))"

section \<open>Integrations\<close>

record integration_context =
  ix_dir :: string
  ix_report :: run_report
  ix_state :: dict

record integration_request =
  iq_target :: "string option"
  iq_options :: dict
  iq_dry_run :: bool

text \<open>What an integration returns: an instance, whose attributes are any values, or any value.\<close>

datatype publish_value = ResultInstance pv pv pv pv pv | ResultValue pv

record publish_result =
  pu_key :: string
  pu_status :: string
  pu_location :: "string option"
  pu_message :: "string option"
  pu_outputs :: "string list"

text \<open>\<open>PublishError\<close> is the error of this module; any other error passes through.\<close>

datatype publish_error = PublishError string | OtherError err

type_synonym integration = "integration_context \<Rightarrow> integration_request \<Rightarrow> string + publish_value"

definition publish_statuses :: "string list" where
  "publish_statuses = [''dry-run'', ''published'', ''skipped'']"

definition normalize_publish_status :: "pv \<Rightarrow> string res" where
  "normalize_publish_status v = bind_res (normalize_non_empty ''integration publish status'' v) (\<lambda>s.
     if lower s \<in> set publish_statuses then Inr (lower s)
     else Inl (ValueError ''integration publish status must be one of: dry-run, published, skipped''))"

definition normalize_outputs :: "pv \<Rightarrow> string list res" where
  "normalize_outputs v = (case v of
      PNone \<Rightarrow> Inr []
    | PStr s \<Rightarrow> bind_res (normalize_non_empty ''integration output'' (PStr s)) (\<lambda>x. Inr [x])
    | _ \<Rightarrow> (case py_iter v of Inl e \<Rightarrow> Inl (ValueError ''integration outputs must be an iterable of strings'')
        | Inr vs \<Rightarrow> map_res (normalize_non_empty ''integration output'') vs))"

text \<open>\<open>str(v).strip() if v else None\<close>, and then \<open>or None\<close>.\<close>

definition stripped_or_none :: "(pv \<Rightarrow> string) \<Rightarrow> pv \<Rightarrow> pv" where
  "stripped_or_none rep v = (if truthy v then PStr (strip (py_str rep v)) else PNone)"

definition some_text :: "(pv \<Rightarrow> string) \<Rightarrow> pv \<Rightarrow> string option" where
  "some_text rep v = (case stripped_or_none rep v of PStr s \<Rightarrow> if s = [] then None else Some s | _ \<Rightarrow> None)"

definition checked_result :: "(pv \<Rightarrow> string) \<Rightarrow> pv \<Rightarrow> pv \<Rightarrow> pv \<Rightarrow> pv \<Rightarrow> pv \<Rightarrow> publish_result res" where
  "checked_result rep key status location message outputs =
     bind_res (normalize_non_empty ''integration key'' key) (\<lambda>k.
     bind_res (normalize_publish_status status) (\<lambda>s.
     bind_res (normalize_outputs outputs) (\<lambda>os.
       Inr \<lparr>pu_key = k, pu_status = s, pu_location = some_text rep location, pu_message = some_text rep message, pu_outputs = os\<rparr>)))"

text \<open>A mapping is made an instance first, and checked twice; a text is the place of publication.\<close>

definition normalize_publish_result :: "(pv \<Rightarrow> string) \<Rightarrow> string \<Rightarrow> publish_value \<Rightarrow> publish_result res" where
  "normalize_publish_result rep key v = (case v of
      ResultInstance k s l m os \<Rightarrow> checked_result rep k s l m os
    | ResultValue (PDict d) \<Rightarrow>
        bind_res (checked_result rep (py_or (dget d ''integration_key'') (PStr key)) (dget_default d ''status'' (PStr ''published''))
            (dget d ''location'') (dget d ''message'') (dget d ''outputs'')) (\<lambda>r.
          checked_result rep (PStr (pu_key r)) (PStr (pu_status r)) (stripped_or_none rep (dget d ''location''))
            (stripped_or_none rep (dget d ''message'')) (PList (map PStr (pu_outputs r))))
    | ResultValue (PStr s) \<Rightarrow>
        bind_res (normalize_non_empty ''integration publish location'' (PStr s)) (\<lambda>place.
          checked_result rep (PStr key) (PStr ''published'') (PStr place) PNone (PList [PStr place]))
    | _ \<Rightarrow> Inl (TypeError ''Integrations must return IntegrationPublishResult, a mapping, or a publish-location string''))"

definition resolve_integration :: "integration ext_value entry_point list \<Rightarrow> string \<Rightarrow> publish_error + integration extension" where
  "resolve_integration ens k = (case normalize_non_empty ''integration key'' (PStr k) of Inl e \<Rightarrow> Inl (OtherError e)
     | Inr clean \<Rightarrow> (case discover_integrations ens of Inl e \<Rightarrow> Inl (OtherError e)
         | Inr (es, fs) \<Rightarrow> (case find (\<lambda>e. ext_key e = lower clean) es of Some e \<Rightarrow> Inr e
             | None \<Rightarrow> Inl (PublishError (''Unknown integration '' @ quoted k @ ''. Installed integrations: '' @
                 listed_or_none (map ext_key es))))))"

definition wrap_report_error :: "'a res \<Rightarrow> publish_error + 'a" where
  "wrap_report_error r = (case r of Inr x \<Rightarrow> Inr x | Inl (RunReportError m) \<Rightarrow> Inl (PublishError m) | Inl e \<Rightarrow> Inl (OtherError e))"

definition build_integration_context :: "report_env \<Rightarrow> files \<Rightarrow> string \<Rightarrow> publish_error + integration_context" where
  "build_integration_context v fs dir =
     wrap_report_error
       (bind_res (collect_run_report v fs dir) (\<lambda>report.
        bind_res (read_json (rv_cwd v) (pure_join (pure_path dir) (False, [''pipeline_state.json''])) fs) (\<lambda>state.
          Inr \<lparr>ix_dir = path_str (resolve (rv_cwd v) dir), ix_report = report, ix_state = state\<rparr>)))"

definition publish_run_evidence ::
    "report_env \<Rightarrow> files \<Rightarrow> integration ext_value entry_point list \<Rightarrow> string \<Rightarrow> string \<Rightarrow> string option \<Rightarrow> dict \<Rightarrow> bool \<Rightarrow>
     publish_error + publish_result" where
  "publish_run_evidence v fs ens dir key target options dry_run = (case resolve_integration ens key of Inl e \<Rightarrow> Inl e
     | Inr e \<Rightarrow> (case build_integration_context v fs dir of Inl err \<Rightarrow> Inl err
         | Inr ctx \<Rightarrow>
             let request = \<lparr>iq_target = (case target of None \<Rightarrow> None | Some t \<Rightarrow> non_empty (PStr t)), iq_options = options,
                   iq_dry_run = dry_run\<rparr> in
             (case ext_run e ctx request of
                Inl err \<Rightarrow> Inl (PublishError (''Integration '' @ quoted (ext_key e) @ '' failed: '' @ err))
              | Inr raw \<Rightarrow> (case normalize_publish_result (rv_rep v) (ext_key e) raw of
                  Inl err \<Rightarrow> Inl (PublishError (''Integration '' @ quoted (ext_key e) @ '' returned an invalid publish result: '' @ err_text err))
                | Inr r \<Rightarrow> Inr r))))"

section \<open>Reaching what is listed\<close>

lemma clean_parts: "strip s = s \<Longrightarrow> rstrip s = s"
  by (metis rstrip_idem strip_def)

lemma strip_view: "strip s = s \<Longrightarrow> s \<noteq> [] \<Longrightarrow> strip (''view:'' @ s) = ''view:'' @ s"
proof -
  assume s: "strip s = s" "s \<noteq> []"
  have "rstrip s = s" by (rule clean_parts [OF s(1)])
  then have "\<not> is_space (last s)"
  proof (cases s rule: rev_cases)
    case (snoc ys y)
    have "length (rev (dropWhile is_space (rev ys))) \<le> length ys" using length_dropWhile_le [of is_space "rev ys"] by simp
    then have "rev (dropWhile is_space (rev ys)) \<noteq> ys @ [y]" by (metis length_append_singleton not_less_eq_eq order_refl)
    then show ?thesis using snoc \<open>rstrip s = s\<close> by (auto simp: rstrip_def split: if_splits)
  qed (simp add: s(2))
  then have "rstrip (t @ s) = t @ s" for t
    using s(2) by (cases s rule: rev_cases) (simp_all add: rstrip_def)
  moreover have "lstrip (''view:'' @ s) = ''view:'' @ s" by (simp add: lstrip_def is_space_def space_codes_def)
  ultimately show ?thesis by (simp only: strip_def)
qed

lemma available_views_mem:
  "available_views es report = Inr ds \<Longrightarrow> d \<in> set ds \<Longrightarrow>
     \<exists>e \<in> set es. view_available e report = Inr True \<and> d = \<lparr>vd_key = document_key (ext_key e), vd_title = ext_title e, vd_format = view_format e\<rparr>"
  by (induction es arbitrary: ds) (auto simp: bind_res_eq_Inr split: if_splits)

text \<open>A listed view can be opened: every document that the list of available views shows for a report resolves, by the key
  shown, to the view it stands for, which is available for that report.\<close>

theorem listed_views_resolve:
  assumes "list_available_views ens report = Inr ds" and "d \<in> set ds"
  shows "\<exists>e. resolve_artifact_view ens (vd_key d) = Inr e \<and> view_available e report = Inr True \<and>
    vd_title d = ext_title e \<and> vd_format d = view_format e"
proof -
  obtain es fs where disc: "discover_extensions view_surface ens = Inr (es, fs)" and av: "available_views es report = Inr ds"
    using assms(1) by (auto simp: list_available_views_def bind_res_eq_Inr)
  obtain e where e: "e \<in> set es" "view_available e report = Inr True"
    "d = \<lparr>vd_key = document_key (ext_key e), vd_title = ext_title e, vd_format = view_format e\<rparr>"
    using available_views_mem [OF av assms(2)] by blast
  note raw = disc [unfolded discover_extensions_def]
  have clean: "strip (ext_key e) = ext_key e" "ext_key e \<noteq> []" using function_surface.discovered_clean [OF raw e(1)] by blast+
  have "normalize_non_empty ''artifact view document'' (PStr (document_key (ext_key e))) = Inr (''view:'' @ ext_key e)"
    unfolding normalize_non_empty_Inr document_key_def clean(1) using strip_view [OF clean] by simp
  moreover have "find (\<lambda>e'. ext_key e' = ext_key e) es = Some e" by (rule find_key [OF discover_spec(2) [OF raw] e(1)])
  ultimately have "resolve_artifact_view ens (vd_key d) = Inr e"
    by (simp add: resolve_artifact_view_def disc e(3))
  with e show ?thesis by auto
qed

definition sample_views :: "unit views" where
  "sample_views = [\<lparr>en_name = PStr ''Risk_Map'',
     en_load = Inr (ExtFunction [] \<lparr>vf_render = (\<lambda>_. Inr (PStr ''none'')), vf_available = None\<rparr>)\<rparr>]"

theorem listed_views_resolve_witness:
  "\<exists>ds e. list_available_views sample_views () = Inr ds \<and> map vd_key ds = [''view:risk-map''] \<and>
     resolve_artifact_view sample_views ''view:risk-map'' = Inr e"
proof -
  have "case list_available_views sample_views () of Inl _ \<Rightarrow> False | Inr ds \<Rightarrow> map vd_key ds = [''view:risk-map'']" by code_simp
  then obtain ds where ds: "list_available_views sample_views () = Inr ds" "map vd_key ds = [''view:risk-map'']"
    by (auto split: sum.splits)
  then obtain d where "d \<in> set ds" "vd_key d = ''view:risk-map''" by (cases ds) auto
  then show ?thesis using ds listed_views_resolve [OF ds(1), of d] by auto
qed

text \<open>An integration whose key has a capital is listed but can never be used: the name asked for is lowered, the key is not.
  Exactly the integrations with a lower-case key can be resolved.\<close>

theorem capitals_hide_an_integration:
  assumes "discover_extensions integration_surface ens = Inr (es, fs)" and "e \<in> set es"
  shows "(\<exists>k. resolve_integration ens k = Inr e) \<longleftrightarrow> lower (ext_key e) = ext_key e"
proof -
  have "resolve_integration ens k = Inr e \<longleftrightarrow> strip k \<noteq> [] \<and> find (\<lambda>e'. ext_key e' = lower (strip k)) es = Some e" for k
    by (cases "strip k = []")
      (auto simp: resolve_integration_def normalize_non_empty_def assms(1) split: option.splits)
  then show ?thesis
    using function_surface.reachable_by_name [OF assms(1) [unfolded discover_extensions_def] assms(2)] by simp
qed

definition capital_integration :: "integration ext_value entry_point list" where
  "capital_integration = [\<lparr>en_name = PStr ''acme'',
     en_load = Inr (ExtMapping [(''key'', PStr ''Acme''), (''summary'', PStr ''uploads'')] (Some (\<lambda>_ _. Inr (ResultValue (PStr ''there'')))))\<rparr>]"

theorem capitals_hide_an_integration_witness:
  "\<exists>e fs. discover_extensions integration_surface capital_integration = Inr ([e], fs) \<and> ext_key e = ''Acme'' \<and>
     (\<forall>k. resolve_integration capital_integration k \<noteq> Inr e)"
proof -
  have "case discover_extensions integration_surface capital_integration of Inl _ \<Rightarrow> False
    | Inr (es, fs) \<Rightarrow> map ext_key es = [''Acme'']" by code_simp
  then obtain es fs where d: "discover_extensions integration_surface capital_integration = Inr (es, fs)" "map ext_key es = [''Acme'']"
    by (auto split: sum.splits)
  then obtain e where e: "es = [e]" "ext_key e = ''Acme''" by (cases es) auto
  have "lower ''Acme'' \<noteq> ''Acme''" by code_simp
  then have "\<not> (\<exists>k. resolve_integration capital_integration k = Inr e)"
    using capitals_hide_an_integration [OF d(1), of e] e by simp
  then show ?thesis using d(1) e by blast
qed

section \<open>What is published\<close>

lemma checked_result_ok:
  assumes "checked_result rep k s l m os = Inr r"
  shows "pu_status r \<in> set publish_statuses \<and> strip (pu_key r) = pu_key r \<and> pu_key r \<noteq> [] \<and>
    list_all (\<lambda>x. strip x = x \<and> x \<noteq> []) (pu_outputs r)"
proof -
  have "list_all (\<lambda>x. strip x = x \<and> x \<noteq> []) xs" if "normalize_outputs v = Inr xs" for v xs
  proof -
    have "list_all (\<lambda>x. strip x = x \<and> x \<noteq> []) ys" if "map_res (normalize_non_empty label) vs = Inr ys" for label vs ys
      using that by (induction vs arbitrary: ys) (auto simp: bind_res_eq_Inr dest: normalize_non_empty_clean)
    then show ?thesis using that
      by (auto simp: normalize_outputs_def bind_res_eq_Inr split: pv.splits sum.splits dest: normalize_non_empty_clean)
  qed
  then show ?thesis using assms
    by (auto simp: checked_result_def bind_res_eq_Inr normalize_publish_status_def split: if_splits dest: normalize_non_empty_clean)
qed

theorem published_result_is_well_formed:
  assumes "publish_run_evidence v fs ens dir key target options dry_run = Inr r"
  shows "pu_status r \<in> set publish_statuses \<and> strip (pu_key r) = pu_key r \<and> pu_key r \<noteq> [] \<and>
    list_all (\<lambda>x. strip x = x \<and> x \<noteq> []) (pu_outputs r)"
proof -
  obtain k raw where "normalize_publish_result (rv_rep v) k raw = Inr r"
    using assms by (auto simp: publish_run_evidence_def Let_def split: sum.splits)
  then show ?thesis
    by (auto simp: normalize_publish_result_def bind_res_eq_Inr split: publish_value.splits pv.splits dest!: checked_result_ok)
qed

end
