(* ===== verification/Adapters.thy ===== *)
theory Adapters
  imports Run_Report Ese_Config
begin

text \<open>
  The built-in runtime adapters (\<open>ese/adapters.py\<close>): the dry run, and the requests to a provider with their
  retries. A provider is a function from the number of the attempt to the outcome of the exchange. The environment
  variables, the random factor of a delay, dates in a \<open>Retry-After\<close> header, the redaction patterns and the start of
  a local runtime are arguments; of the request, the address, the key and the payload are kept.
\<close>

section \<open>Configuration\<close>

definition adapter_error :: "string \<Rightarrow> 'a res" where
  "adapter_error m = Inl (AdapterError m)"

definition assurance_level :: "(pv \<Rightarrow> string) \<Rightarrow> dict \<Rightarrow> string" where
  "assurance_level rep cfg =
     (if lower (strip (py_str rep (py_or (dget cfg ''mode'') (PStr ''ensemble'')))) = ''solo'' then ''degraded'' else ''standard'')"

definition section_of :: "dict \<Rightarrow> string \<Rightarrow> dict" where
  "section_of d k = items_of (dget d k)"

definition json_output_enabled :: "dict \<Rightarrow> bool" where
  "json_output_enabled cfg = (case dget cfg ''output'' of PDict d \<Rightarrow> truthy (dget_default d ''enforce_json'' (PBool True)) | _ \<Rightarrow> True)"

definition parse_provider_model :: "string \<Rightarrow> string \<times> string" where
  "parse_provider_model model =
     (if CHR '':'' \<in> set model then (lower (strip (fst (partition_colon model))), strip (snd (partition_colon model)))
      else (''unknown'', strip model))"

definition runtime_number :: "dict \<Rightarrow> string \<Rightarrow> rat \<Rightarrow> bool \<Rightarrow> rat res" where
  "runtime_number runtime name dflt allow_zero =
     (case py_float (dget_default runtime name (PFloat dflt)) of
        Inl e \<Rightarrow> adapter_error (''runtime.'' @ name @ '' must be numeric'')
      | Inr q \<Rightarrow>
          if q < 0 then adapter_error (''runtime.'' @ name @ '' must be '' @ (if allow_zero then ''>= 0'' else ''> 0''))
          else if \<not> allow_zero \<and> q = 0 then adapter_error (''runtime.'' @ name @ '' must be > 0'') else Inr q)"

text \<open>\<open>s.rstrip("/")\<close>, and a base address that must be a text.\<close>

definition rstrip_slash :: "string \<Rightarrow> string" where
  "rstrip_slash s = rev (dropWhile (\<lambda>c. c = CHR ''/'') (rev s))"

definition base_address :: "string \<Rightarrow> pv \<Rightarrow> string res" where
  "base_address complaint v = (case v of
      PStr s \<Rightarrow> if strip s = [] then adapter_error complaint else Inr (rstrip_slash s) | _ \<Rightarrow> adapter_error complaint)"

definition openai_base_url :: "dict \<Rightarrow> string res" where
  "openai_base_url cfg =
     base_address ''OpenAI base URL must be a non-empty string''
       (py_or (dget (section_of (section_of cfg ''runtime'') ''openai'') ''base_url'')
         (py_or (dget (section_of cfg ''provider'') ''base_url'') (PStr ''https://api.openai.com/v1'')))"

definition custom_api_base_url :: "dict \<Rightarrow> string res" where
  "custom_api_base_url cfg =
     base_address ''Custom API base URL is required. Set provider.base_url or runtime.custom_api.base_url.''
       (py_or (dget (section_of (section_of cfg ''runtime'') ''custom_api'') ''base_url'') (dget (section_of cfg ''provider'') ''base_url''))"

definition stripped_address :: "pv \<Rightarrow> string option" where
  "stripped_address v = map_option rstrip_slash (non_empty v)"

definition local_base_url :: "dict \<Rightarrow> string res" where
  "local_base_url cfg =
     base_address ''Local base URL must be a non-empty string''
       (PStr (case stripped_address (dget (section_of (section_of cfg ''runtime'') ''local'') ''base_url'') of
           Some s \<Rightarrow> s
         | None \<Rightarrow> (case stripped_address (dget (section_of cfg ''provider'') ''base_url'') of
             Some s \<Rightarrow> s | None \<Rightarrow> ''http://localhost:11434/v1'')))"

definition api_key_from_env :: "(string \<Rightarrow> string option) \<Rightarrow> dict \<Rightarrow> string \<Rightarrow> string res" where
  "api_key_from_env env cfg dflt =
     (case non_empty (py_or (dget (section_of cfg ''provider'') ''api_key_env'') (PStr dflt)) of
        None \<Rightarrow> adapter_error ''provider.api_key_env must be a non-empty string''
      | Some name \<Rightarrow> (case env name of
          None \<Rightarrow> adapter_error ''Missing API key''
        | Some key \<Rightarrow> if key = [] then adapter_error ''Missing API key'' else Inr key))"

definition openai_payload :: "string \<Rightarrow> string \<Rightarrow> dict \<Rightarrow> dict res" where
  "openai_payload model_name prompt cfg =
     (let payload = [(''model'', PStr model_name),
            (''instructions'', PStr (if json_output_enabled cfg then ''Return valid JSON only and follow the requested schema exactly.''
               else ''Respond in concise Markdown focused on actionable output.'')), (''input'', PStr prompt)];
          limit = dget (section_of cfg ''runtime'') ''max_output_tokens'' in
      if limit = PNone then Inr payload
      else (case py_int limit of Inl e \<Rightarrow> adapter_error ''runtime.max_output_tokens must be an integer''
        | Inr n \<Rightarrow> if n \<le> 0 then adapter_error ''runtime.max_output_tokens must be > 0''
            else Inr (payload @ [(''max_output_tokens'', PInt n)])))"

section \<open>Answers and errors\<close>

definition part_text :: "pv \<Rightarrow> string list" where
  "part_text part = (case part of PDict d \<Rightarrow> (case non_empty (dget d ''text'') of None \<Rightarrow> [] | Some s \<Rightarrow> [s]) | _ \<Rightarrow> [])"

definition item_texts :: "pv \<Rightarrow> string list" where
  "item_texts item = (case item of PDict d \<Rightarrow> concat (map part_text (elems_of (dget d ''content''))) | _ \<Rightarrow> [])"

definition extract_openai_text :: "dict \<Rightarrow> string res" where
  "extract_openai_text d = (case non_empty (dget d ''output_text'') of
      Some s \<Rightarrow> Inr s
    | None \<Rightarrow>
        (let texts = concat (map item_texts (elems_of (dget d ''output''))) in
         if texts \<noteq> [] then Inr (join [newline, newline] texts) else adapter_error ''OpenAI response did not contain text output''))"

definition is_retryable_status :: "int \<Rightarrow> bool" where
  "is_retryable_status status \<longleftrightarrow> status \<in> {408, 409, 429} \<or> status \<ge> 500"

definition truncate_for_error :: "string \<Rightarrow> string" where
  "truncate_for_error s = (let cleaned = join '' '' (words s) in
     if length cleaned \<le> 500 then cleaned else take 497 cleaned @ ''...'')"

section \<open>Requests and retries\<close>

text \<open>How one exchange ends: with the text of a response, with an HTTP error (status, body, \<open>Retry-After\<close>),
  without a connection, or with any other error, such as a connection dropped while reading or bytes that are no text,
  which the loop does not catch. \<open>rq_http_date\<close> gives the seconds until a date.\<close>

datatype outcome = Answered string | HttpFailure int string "string option" | Unreachable string | Escaped err

record request_env =
  rq_jitter :: "nat \<Rightarrow> rat"
  rq_http_date :: "string \<Rightarrow> rat option"
  rq_redact :: "string \<Rightarrow> string"

record request =
  rq_url :: string
  rq_key :: "string option"
  rq_payload :: dict
  rq_timeout :: rat
  rq_max_retries :: nat
  rq_backoff :: rat
  rq_auth_error :: string
  rq_provider :: string
  rq_role :: string

definition retry_delay :: "request_env \<Rightarrow> rat \<Rightarrow> nat \<Rightarrow> rat" where
  "retry_delay env backoff attempt = backoff * of_nat attempt * rq_jitter env attempt"

definition parse_retry_after :: "request_env \<Rightarrow> string option \<Rightarrow> rat option" where
  "parse_retry_after env header = (case header of
      None \<Rightarrow> None
    | Some h \<Rightarrow> if h = [] then None else (case parse_float h of
        Some q \<Rightarrow> Some q
      | None \<Rightarrow> (case rq_http_date env h of None \<Rightarrow> None | Some d \<Rightarrow> if d > 0 then Some d else None)))"

definition retry_after_delay :: "request_env \<Rightarrow> string option \<Rightarrow> rat option" where
  "retry_after_delay env header = map_option (\<lambda>q. min q 30) (parse_retry_after env header)"

text \<open>\<open>time.sleep(d)\<close> and then the rest: a negative delay raises. The delays slept are recorded.\<close>

definition after_sleep :: "rat \<Rightarrow> string res \<times> rat list \<Rightarrow> string res \<times> rat list" where
  "after_sleep d rest = (if d < 0 then (Inl (ValueError ''sleep length must be non-negative''), []) else (fst rest, d # snd rest))"

definition read_answer :: "request \<Rightarrow> string \<Rightarrow> string res" where
  "read_answer r contents = (case json_loads contents of
      None \<Rightarrow> adapter_error (rq_provider r @ '' response was not valid JSON for role '' @ rq_role r)
    | Some (PDict d) \<Rightarrow> extract_openai_text d
    | Some _ \<Rightarrow> adapter_error (rq_provider r @ '' response JSON must be an object''))"

definition failure_text :: "request \<Rightarrow> string \<Rightarrow> string res" where
  "failure_text r detail = adapter_error (rq_provider r @ '' request failed ('' @ detail @ '')'')"

definition delay_after :: "request_env \<Rightarrow> request \<Rightarrow> nat \<Rightarrow> int \<Rightarrow> string option \<Rightarrow> rat" where
  "delay_after env r attempt status header =
     (case (if status = 429 then retry_after_delay env header else None) of
        Some d \<Rightarrow> d | None \<Rightarrow> retry_delay env (rq_backoff r) attempt)"

text \<open>The attempt \<open>k\<close> with \<open>n\<close> retries left.\<close>

fun attempts_from :: "request_env \<Rightarrow> request \<Rightarrow> (nat \<Rightarrow> outcome) \<Rightarrow> nat \<Rightarrow> nat \<Rightarrow> string res \<times> rat list" where
  "attempts_from env r server k n = (case server k of
      Answered contents \<Rightarrow> (read_answer r contents, [])
    | HttpFailure status body header \<Rightarrow>
        if status \<in> {401, 403} then (adapter_error (rq_auth_error r @ '' Role: '' @ rq_role r @ ''.''), [])
        else (case n of
            Suc m \<Rightarrow>
              if is_retryable_status status
              then after_sleep (delay_after env r k status header) (attempts_from env r server (Suc k) m)
              else (failure_text r (truncate_for_error (rq_redact env body)), [])
          | 0 \<Rightarrow> (failure_text r (truncate_for_error (rq_redact env body)), []))
    | Unreachable err \<Rightarrow>
        (case n of
            Suc m \<Rightarrow> after_sleep (retry_delay env (rq_backoff r) k) (attempts_from env r server (Suc k) m)
          | 0 \<Rightarrow> (failure_text r (truncate_for_error (rq_redact env err)), []))
    | Escaped err \<Rightarrow> (Inl err, []))"

declare attempts_from.simps [simp del]

definition execute_request :: "request_env \<Rightarrow> request \<Rightarrow> (nat \<Rightarrow> outcome) \<Rightarrow> string res \<times> rat list" where
  "execute_request env r server = attempts_from env r server 1 (rq_max_retries r)"

section \<open>The adapters\<close>

record adapter_env =
  ad_requests :: request_env
  ad_env :: "string \<Rightarrow> string option"
  ad_server :: "request \<Rightarrow> nat \<Rightarrow> outcome"
  ad_local_ready :: "dict \<Rightarrow> string option"

text \<open>\<open>int(...)\<close> of a number that is not negative.\<close>

definition runtime_numbers :: "dict \<Rightarrow> (rat \<times> nat \<times> rat) res" where
  "runtime_numbers cfg =
     (let runtime = section_of cfg ''runtime'' in
      bind_res (runtime_number runtime ''timeout_seconds'' 60 False) (\<lambda>timeout.
      bind_res (runtime_number runtime ''max_retries'' 2 True) (\<lambda>retries.
      bind_res (runtime_number runtime ''retry_backoff_seconds'' 1 False) (\<lambda>backoff.
        Inr (timeout, nat (floor retries), backoff)))))"

text \<open>What the three live adapters share: the numbers, a check that may fail, the payload, the address and the key.\<close>

definition live_request ::
    "adapter_env \<Rightarrow> dict \<Rightarrow> string \<Rightarrow> string \<Rightarrow> unit res \<Rightarrow> string \<Rightarrow> string res \<Rightarrow> string option res \<Rightarrow> string \<Rightarrow> string \<Rightarrow>
     string res \<times> rat list" where
  "live_request env cfg role prompt ready model_name address key auth_error provider =
     (case bind_res (runtime_numbers cfg) (\<lambda>(timeout, retries, backoff).
           bind_res ready (\<lambda>_.
           bind_res (openai_payload model_name prompt cfg) (\<lambda>payload.
           bind_res address (\<lambda>base.
           bind_res key (\<lambda>k.
             Inr \<lparr>rq_url = base @ ''/responses'', rq_key = k, rq_payload = payload, rq_timeout = timeout, rq_max_retries = retries,
                  rq_backoff = backoff, rq_auth_error = auth_error, rq_provider = provider, rq_role = role\<rparr>))))) of
        Inl e \<Rightarrow> (Inl e, [])
      | Inr r \<Rightarrow> execute_request (ad_requests env) r (ad_server env r))"

definition openai_adapter :: "adapter_env \<Rightarrow> string \<Rightarrow> string \<Rightarrow> string \<Rightarrow> dict \<Rightarrow> string res \<times> rat list" where
  "openai_adapter env role model prompt cfg =
     (let (provider, name) = parse_provider_model model in
      if provider \<noteq> ''openai'' then (adapter_error ''OpenAI adapter requires openai:* model refs'', [])
      else if name = [] then (adapter_error ''Model reference is missing model name'', [])
      else live_request env cfg role prompt (Inr ()) name (openai_base_url cfg)
        (bind_res (api_key_from_env (ad_env env) cfg ''OPENAI_API_KEY'') (\<lambda>k. Inr (Some k)))
        ''OpenAI authentication failed. Check provider.api_key_env and token scope.'' ''OpenAI'')"

definition custom_api_adapter :: "(pv \<Rightarrow> string) \<Rightarrow> adapter_env \<Rightarrow> string \<Rightarrow> string \<Rightarrow> string \<Rightarrow> dict \<Rightarrow> string res \<times> rat list" where
  "custom_api_adapter rep env role model prompt cfg =
     (let (provider, name) = parse_provider_model model;
          configured = lower (strip (py_str rep (py_or (dget (section_of cfg ''provider'') ''name'') (PStr [])))) in
      if configured = [] then (adapter_error ''provider.name must be a non-empty string for custom_api adapter'', [])
      else if configured = ''openai'' then (adapter_error ''custom_api adapter cannot be used with provider.name=openai'', [])
      else if provider \<in> {[], ''unknown''} then (adapter_error ''Custom API role model must include provider and model id'', [])
      else if provider \<noteq> configured then (adapter_error ''Role model provider does not match configured provider'', [])
      else if name = [] then (adapter_error ''Custom API role model is missing model id'', [])
      else live_request env cfg role prompt (Inr ()) name (custom_api_base_url cfg)
        (bind_res (api_key_from_env (ad_env env) cfg ''CUSTOM_API_KEY'') (\<lambda>k. Inr (Some k)))
        ''Custom API authentication failed. Check provider.api_key_env and token scope.'' (''Custom API ('' @ configured @ '')''))"

definition local_adapter :: "adapter_env \<Rightarrow> string \<Rightarrow> string \<Rightarrow> string \<Rightarrow> dict \<Rightarrow> string res \<times> rat list" where
  "local_adapter env role model prompt cfg =
     (let (provider, name) = parse_provider_model model in
      if provider \<noteq> ''local'' then (adapter_error ''Local adapter requires local:* model refs'', [])
      else if name = [] then (adapter_error ''Local model reference is missing model name'', [])
      else live_request env cfg role prompt (case ad_local_ready env cfg of None \<Rightarrow> Inr () | Some m \<Rightarrow> adapter_error m) name
        (local_base_url cfg)
        (Inr (if truthy (dget_default (section_of (section_of cfg ''runtime'') ''local'') ''use_openai_compat_auth'' (PBool True))
              then Some ''ollama'' else None))
        ''Local adapter authentication failed unexpectedly.'' ''Local adapter'')"

section \<open>The dry run\<close>

definition dry_run_payload :: "(pv \<Rightarrow> string) \<Rightarrow> string \<Rightarrow> string \<Rightarrow> string \<Rightarrow> string list \<Rightarrow> string \<Rightarrow> dict \<Rightarrow> dict" where
  "dry_run_payload rep role model snippet keys isolation cfg =
     [(''summary'', PStr (''Dry-run placeholder output for role '' @ [char_of (39::nat)] @ role @ [char_of (39::nat)] @ ''.'')),
      (''confidence'', PStr ''MEDIUM''),
      (''assumptions'', PList [PStr ''This run used the dry-run adapter and did not execute against a live model.'']),
      (''unknowns'', PList [PStr ''No provider-backed reasoning or external validation was performed.'']),
      (''findings'', PList []), (''artifacts'', PList []), (''code_suggestions'', PList []),
      (''next_steps'', PList [PStr ''Replace dry-run with a real adapter to execute this role against a model.'']),
      (''metadata'', PDict
        [(''model'', PStr model), (''adapter'', PStr ''dry-run''), (''assurance_level'', PStr (assurance_level rep cfg)),
         (''prompt_excerpt'', PStr (if snippet \<noteq> [] then snippet else ''(empty prompt)'')),
         (''context_keys'', PList (map PStr (sort keys))), (''review_isolation'', PStr isolation)])]"

text \<open>\<open>keys\<close> are the keys of the context.\<close>

definition dry_run_adapter :: "(pv \<Rightarrow> string) \<Rightarrow> string \<Rightarrow> string \<Rightarrow> string \<Rightarrow> string list \<Rightarrow> dict \<Rightarrow> string res" where
  "dry_run_adapter rep role model prompt keys cfg =
     bind_res (py_get (py_or (dget cfg ''runtime'') (PDict [])) ''review_isolation'' PNone) (\<lambda>isolation.
       let snippet = strip (take 400 prompt) in
       Inr (if json_output_enabled cfg
            then json_compact (\<lambda>_. []) (PDict (dry_run_payload rep role model snippet keys
              (py_str rep (py_or isolation (PStr ''scope_and_implementation''))) cfg))
            else join [newline]
              ([''# '' @ role, [], ''Model: '' @ model, ''Adapter: dry-run'', [], ''Prompt excerpt:'',
                if snippet \<noteq> [] then snippet else ''(empty prompt)''] @
               (if keys \<noteq> [] then [[], ''Context keys:'', join '', '' (sort keys)] else [])) @ [newline]))"

section \<open>Bounded retries\<close>

lemma attempts_delays:
  assumes "attempts_from env r server k n = (res, ds)"
    and "0 \<le> rq_backoff r" and "\<forall>i. rq_jitter env i \<le> 1.1"
  shows "length ds \<le> n \<and> (\<forall>d \<in> set ds. 0 \<le> d \<and> d \<le> max 30 (rq_backoff r * of_nat (k + n) * 1.1))"
  using assms(1)
proof (induction n arbitrary: k res ds)
  case 0
  then show ?case by (auto simp: attempts_from.simps [of _ _ _ _ 0] split: outcome.splits if_splits)
next
  case (Suc n)
  let ?rest = "attempts_from env r server (Suc k) n"
  have rest: "length (snd ?rest) \<le> n \<and> (\<forall>d \<in> set (snd ?rest). 0 \<le> d \<and> d \<le> max 30 (rq_backoff r * of_nat (k + Suc n) * 1.1))"
    using Suc.IH [of "Suc k" "fst ?rest" "snd ?rest"] by simp
  have own: "retry_delay env (rq_backoff r) k \<le> max 30 (rq_backoff r * of_nat (k + Suc n) * 1.1)"
  proof -
    have "rq_backoff r * of_nat k * rq_jitter env k \<le> rq_backoff r * of_nat k * 1.1"
      using assms(2,3) by (intro mult_left_mono) auto
    also have "\<dots> \<le> rq_backoff r * of_nat (k + Suc n) * 1.1"
      using assms(2) by (intro mult_right_mono mult_left_mono) auto
    finally show ?thesis by (simp add: retry_delay_def le_max_iff_disj)
  qed
  have delay: "delay_after env r k status header \<le> max 30 (rq_backoff r * of_nat (k + Suc n) * 1.1)" for status header
    using own by (auto simp: delay_after_def retry_after_delay_def le_max_iff_disj split: option.splits)
  show ?case
    using Suc.prems rest own delay
    by (auto simp: attempts_from.simps [of _ _ _ _ "Suc n"] after_sleep_def split: outcome.splits if_splits)
qed

text \<open>C27: A request is tried at most once more than its retries, and the wait before each retry is neither negative nor longer than
  thirty seconds or the backoff of the last attempt, whichever is greater, whatever the server answers.\<close>

theorem retries_are_bounded:
  assumes "execute_request env r server = (res, ds)"
    and "0 \<le> rq_backoff r" and "\<forall>i. rq_jitter env i \<le> 1.1"
  shows "length ds \<le> rq_max_retries r \<and>
    (\<forall>d \<in> set ds. 0 \<le> d \<and> d \<le> max 30 (rq_backoff r * of_nat (rq_max_retries r + 1) * 1.1))"
  using attempts_delays [OF assms(1) [unfolded execute_request_def] assms(2,3)] by (simp add: add.commute)

definition sample_env :: request_env where
  "sample_env = \<lparr>rq_jitter = (\<lambda>_. 1), rq_http_date = (\<lambda>_. None), rq_redact = (\<lambda>s. s)\<rparr>"

definition sample_request :: request where
  "sample_request = \<lparr>rq_url = ''http://localhost/responses'', rq_key = None, rq_payload = [], rq_timeout = 60, rq_max_retries = 2,
     rq_backoff = 20, rq_auth_error = ''refused'', rq_provider = ''P'', rq_role = ''r''\<rparr>"

theorem retries_are_bounded_witness:
  "snd (execute_request sample_env sample_request (\<lambda>_. Unreachable ''down'')) = [20, 40] \<and>
   40 \<le> max (30 :: rat) (20 * 3 * 1.1)"
proof -
  let ?x = "execute_request sample_env sample_request (\<lambda>_. Unreachable ''down'')"
  have ds: "snd ?x = [20, 40]"
    by (simp add: execute_request_def attempts_from.simps [of _ _ _ _ 0] attempts_from.simps [of _ _ _ _ "Suc n" for n] sample_request_def
        sample_env_def after_sleep_def retry_delay_def numeral_2_eq_2)
  have "length (snd ?x) \<le> rq_max_retries sample_request \<and>
      (\<forall>d \<in> set (snd ?x). 0 \<le> d \<and> d \<le> max 30 (rq_backoff sample_request * of_nat (rq_max_retries sample_request + 1) * 1.1))"
    by (rule retries_are_bounded [of sample_env sample_request "\<lambda>_. Unreachable ''down''" "fst ?x" "snd ?x"])
      (simp_all add: sample_env_def sample_request_def)
  then show ?thesis unfolding ds by (simp add: sample_request_def)
qed

section \<open>The attempt that decides\<close>

definition retryable :: "outcome \<Rightarrow> bool" where
  "retryable o' = (case o' of Answered contents \<Rightarrow> False
     | HttpFailure status body header \<Rightarrow> status \<notin> {401, 403} \<and> is_retryable_status status | Unreachable err \<Rightarrow> True | Escaped err \<Rightarrow> False)"

text \<open>No server asks to wait for a negative time.\<close>

definition sane_header :: "request_env \<Rightarrow> outcome \<Rightarrow> bool" where
  "sane_header env o' = (case o' of HttpFailure status body header \<Rightarrow>
      (case parse_retry_after env header of None \<Rightarrow> True | Some q \<Rightarrow> 0 \<le> q) | _ \<Rightarrow> True)"

lemma attempts_step:
  assumes "retryable (server k)" and "sane_header env (server k)" and "0 \<le> rq_backoff r" and "\<forall>i. 0 \<le> rq_jitter env i"
  shows "fst (attempts_from env r server k (Suc n)) = fst (attempts_from env r server (Suc k) n)"
proof -
  have "0 \<le> retry_delay env (rq_backoff r) k" using assms(3,4) by (simp add: retry_delay_def)
  moreover from this have "0 \<le> delay_after env r k status header" if "server k = HttpFailure status body header" for status body header
    using assms(2) that by (auto simp: delay_after_def retry_after_delay_def sane_header_def split: option.splits)
  ultimately show ?thesis
    using assms(1) by (auto simp: attempts_from.simps [of _ _ _ _ "Suc n"] after_sleep_def retryable_def split: outcome.splits)
qed

lemma attempts_result:
  assumes "\<forall>k. sane_header env (server k)" and "0 \<le> rq_backoff r" and "\<forall>i. 0 \<le> rq_jitter env i"
  shows "fst (attempts_from env r server k n) = Inr t \<longleftrightarrow>
    (\<exists>i \<le> n. (\<forall>j < i. retryable (server (k + j))) \<and> (\<exists>contents. server (k + i) = Answered contents \<and> read_answer r contents = Inr t))"
proof (induction n arbitrary: k)
  case 0
  then show ?case
    by (auto simp: attempts_from.simps [of _ _ _ _ 0] failure_text_def adapter_error_def split: outcome.splits)
next
  case (Suc n)
  show ?case
  proof (cases "retryable (server k)")
    case True
    have "fst (attempts_from env r server k (Suc n)) = Inr t \<longleftrightarrow> (\<exists>i \<le> n. (\<forall>j < i. retryable (server (Suc k + j))) \<and>
        (\<exists>contents. server (Suc k + i) = Answered contents \<and> read_answer r contents = Inr t))"
      using attempts_step [of server k env r] True assms Suc.IH [of "Suc k"] by simp
    also have "\<dots> \<longleftrightarrow> (\<exists>i \<le> Suc n. (\<forall>j < i. retryable (server (k + j))) \<and>
        (\<exists>contents. server (k + i) = Answered contents \<and> read_answer r contents = Inr t))"
    proof
      assume "\<exists>i \<le> n. (\<forall>j < i. retryable (server (Suc k + j))) \<and> (\<exists>contents. server (Suc k + i) = Answered contents \<and> read_answer r contents = Inr t)"
      then obtain i contents where i: "i \<le> n" "\<forall>j < i. retryable (server (Suc k + j))" "server (Suc k + i) = Answered contents" "read_answer r contents = Inr t"
        by blast
      have "retryable (server (k + j))" if "j < Suc i" for j using True i(2) that by (cases j) auto
      with i show "\<exists>i \<le> Suc n. (\<forall>j < i. retryable (server (k + j))) \<and> (\<exists>contents. server (k + i) = Answered contents \<and> read_answer r contents = Inr t)"
        by (intro exI [of _ "Suc i"]) auto
    next
      assume "\<exists>i \<le> Suc n. (\<forall>j < i. retryable (server (k + j))) \<and> (\<exists>contents. server (k + i) = Answered contents \<and> read_answer r contents = Inr t)"
      then obtain i contents where i: "i \<le> Suc n" "\<forall>j < i. retryable (server (k + j))" "server (k + i) = Answered contents" "read_answer r contents = Inr t"
        by blast
      from i(3) True obtain m where m: "i = Suc m" by (cases i) (auto simp: retryable_def)
      have "retryable (server (Suc k + j))" if "j < m" for j using i(2) m that by (auto dest: spec [of _ "Suc j"])
      with i m show "\<exists>i \<le> n. (\<forall>j < i. retryable (server (Suc k + j))) \<and> (\<exists>contents. server (Suc k + i) = Answered contents \<and> read_answer r contents = Inr t)"
        by (intro exI [of _ m]) auto
    qed
    finally show ?thesis .
  next
    case False
    have "(\<exists>i \<le> Suc n. (\<forall>j < i. retryable (server (k + j))) \<and> (\<exists>contents. server (k + i) = Answered contents \<and> read_answer r contents = Inr t))
        \<longleftrightarrow> (\<exists>contents. server k = Answered contents \<and> read_answer r contents = Inr t)"
    proof
      assume "\<exists>i \<le> Suc n. (\<forall>j < i. retryable (server (k + j))) \<and> (\<exists>contents. server (k + i) = Answered contents \<and> read_answer r contents = Inr t)"
      then obtain i where "\<forall>j < i. retryable (server (k + j))" "\<exists>contents. server (k + i) = Answered contents \<and> read_answer r contents = Inr t" by blast
      with False show "\<exists>contents. server k = Answered contents \<and> read_answer r contents = Inr t" by (cases i) auto
    qed (auto intro: exI [of _ 0])
    then show ?thesis
      using False by (auto simp: attempts_from.simps [of _ _ _ _ "Suc n"] retryable_def failure_text_def adapter_error_def split: outcome.splits)
  qed
qed

text \<open>C26: A request returns a text exactly if some attempt within its retries is answered with that text and every attempt
  before it failed in a way that may be retried: no connection, or one of the statuses for time-out, conflict, rate and
  server errors. A refused authentication is never retried. Assumed is that the backoff and the jitter are not negative
  and that no server asks to wait for a negative time in \<open>Retry-After\<close>, which would end the request.\<close>

theorem first_decisive_attempt:
  assumes "\<forall>k. sane_header env (server k)" and "0 \<le> rq_backoff r" and "\<forall>i. 0 \<le> rq_jitter env i"
  shows "fst (execute_request env r server) = Inr t \<longleftrightarrow>
    (\<exists>i \<le> rq_max_retries r. (\<forall>j < i. retryable (server (1 + j))) \<and>
       (\<exists>contents. server (1 + i) = Answered contents \<and> read_answer r contents = Inr t))"
  unfolding execute_request_def by (rule attempts_result [OF assms])

definition busy_once :: "nat \<Rightarrow> outcome" where
  "busy_once k = (if k \<le> 1 then HttpFailure 503 [] None
     else Answered (json_compact (\<lambda>_. []) (PDict [(''output_text'', PStr ''fine'')])))"

theorem first_decisive_attempt_witness:
  "fst (execute_request sample_env sample_request busy_once) = Inr ''fine''"
proof -
  have first: "retryable (busy_once 1)" by code_simp
  have "busy_once 2 = Answered (json_compact (\<lambda>_. []) (PDict [(''output_text'', PStr ''fine'')]))" by (simp add: busy_once_def)
  moreover have "read_answer sample_request (json_compact (\<lambda>_. []) (PDict [(''output_text'', PStr ''fine'')])) = Inr ''fine''" by code_simp
  ultimately have "\<exists>i \<le> rq_max_retries sample_request. (\<forall>j < i. retryable (busy_once (1 + j))) \<and>
      (\<exists>contents. busy_once (1 + i) = Answered contents \<and> read_answer sample_request contents = Inr ''fine'')"
    using first by (intro exI [of _ 1]) (simp add: sample_request_def numeral_2_eq_2)
  moreover have "\<forall>k. sane_header sample_env (busy_once k)" by (simp add: sane_header_def busy_once_def parse_retry_after_def)
  ultimately show ?thesis
    using first_decisive_attempt [of sample_env busy_once sample_request "''fine''"] by (simp add: sample_env_def sample_request_def)
qed

text \<open>A negative number in the \<open>Retry-After\<close> header is not clipped: the wait raises, and the request is not retried.\<close>

theorem negative_retry_after_escapes:
  assumes "server 1 = HttpFailure 429 body (Some h)" and "parse_float h = Some q" and "q < 0" and "0 < rq_max_retries r" and "h \<noteq> []"
  shows "fst (execute_request env r server) = Inl (ValueError ''sleep length must be non-negative'')"
proof -
  obtain n where n: "rq_max_retries r = Suc n" using assms(4) by (cases "rq_max_retries r") auto
  have "delay_after env r 1 429 (Some h) < 0"
    using assms(2,3,5) by (simp add: delay_after_def retry_after_delay_def parse_retry_after_def)
  then show ?thesis
    using assms(1) by (simp add: execute_request_def n attempts_from.simps [of _ _ _ _ "Suc n"] is_retryable_status_def after_sleep_def)
qed

section \<open>The dry run in the pipeline\<close>

lemma strip_Cons: "\<not> is_space c \<Longrightarrow> strip (c # s) \<noteq> []"
proof -
  assume c: "\<not> is_space c"
  then have "c \<in> set (dropWhile is_space (rev s @ [c]))" by (auto simp: dropWhile_append)
  then show ?thesis using c by (auto simp: strip_def lstrip_def rstrip_def)
qed

lemma dry_run_summary:
  "\<exists>w. normalize_summary role (PStr (CHR ''D'' # s)) = Inr (PStr w)"
  by (simp add: strip_Cons is_space_def space_codes_def)

lemma medium_confidence: "normalize_choice role ''confidence'' confidences (PStr ''MEDIUM'') = Inr (PStr ''MEDIUM'')"
  by code_simp

lemma dry_run_normalizes:
  "\<exists>r. normalize_report role model (dry_run_payload rep role' model' snippet keys isolation cfg) = Inr r \<and> high_severity_findings r = []"
proof -
  let ?s = "''Dry-run placeholder output for role '' @ [char_of (39::nat)] @ role' @ [char_of (39::nat)] @ ''.''"
  obtain w where w: "normalize_summary role (PStr ?s) = Inr (PStr w)"
    using dry_run_summary [of role "''ry-run placeholder output for role '' @ [char_of (39::nat)] @ role' @ [char_of (39::nat)] @ ''.''"] by auto
  have strs: "string_list role key (PList [PStr s]) = Inr (clean_strings [s])" for key s by simp
  have none: "string_list role key (PList []) = Inr (clean_strings [])" "list_field role key f (PList []) = Inr (PList [])" for key f by simp_all
  note keep = normalize_summary.simps normalize_choice.simps string_list.simps list_field.simps
  show ?thesis
    using w
    by (simp del: keep add: strs none medium_confidence dry_run_payload_def normalize_report_def normalize_basis_def set_field_def
        dget_def dget_default_def high_severity_findings_def)
qed

lemma dry_run_json: "json_ok (PDict (dry_run_payload rep role model snippet keys isolation cfg))"
  by (simp add: dry_run_payload_def)

text \<open>C28: A dry run is a run: with structured output the text of the dry-run adapter is accepted as the report of its role,
  whatever the prompt, the context and the configuration, and the report holds no severe finding, so it passes the gate.\<close>

theorem dry_run_report_is_accepted:
  assumes "dry_run_adapter rep role model prompt keys cfg = Inr out" and "json_output_enabled cfg"
  shows "\<exists>r. normalize_json_report role model out = Inr r \<and> high_severity_findings r = []"
proof -
  obtain snippet isolation where out: "out = json_compact (\<lambda>_. []) (PDict (dry_run_payload rep role model snippet keys isolation cfg))"
    using assms by (auto simp: dry_run_adapter_def bind_res_eq_Inr Let_def)
  have parsed: "json_loads out = Some (PDict (dry_run_payload rep role model snippet keys isolation cfg))"
    unfolding out by (rule json_loads_compact [OF dry_run_json])
  show ?thesis
    unfolding normalize_json_report_def parsed
    using dry_run_normalizes [of role model rep role model snippet keys isolation cfg] by simp
qed

theorem dry_run_report_is_accepted_witness:
  "\<exists>out r. dry_run_adapter (\<lambda>_. []) ''architect'' ''openai:gpt'' ''Review'' [''scope''] [] = Inr out \<and>
     normalize_json_report ''architect'' ''openai:gpt'' out = Inr r \<and> high_severity_findings r = []"
proof -
  have json: "json_output_enabled []" by code_simp
  have "case dry_run_adapter (\<lambda>_. []) ''architect'' ''openai:gpt'' ''Review'' [''scope''] [] of Inl e \<Rightarrow> False | Inr out \<Rightarrow> True"
    by code_simp
  then obtain out where "dry_run_adapter (\<lambda>_. []) ''architect'' ''openai:gpt'' ''Review'' [''scope''] [] = Inr out"
    by (auto split: sum.splits)
  with dry_run_report_is_accepted [OF this json] show ?thesis by blast
qed

end
