(* ===== verification/Telegram_Bot.thy ===== *)
theory Telegram_Bot
  imports Telegram_Actions Telegram_Events Evidence_Card Extensions
begin

text \<open>
  The Telegram protection service (\<open>truepresence/adapters/telegram_bot.py\<close>): access to the endpoints, the configuration of a
  tenant, what becomes of the action of the engine (safety escalation, community review, enforcement mode), its execution through
  the Bot API, and the manual reviews. The environment variables, the answers of the Bot API, the clock, identifiers, the
  decision engine and its response, and the decryption of stored tokens are arguments. The database is a table
  of reviews and sessions that is reachable or not; without it the service works in memory. Emoji in the texts it sends
  are left out, and so is the copy of an outcome that is logged in the distributed runtime.
\<close>

section \<open>The environment\<close>

type_synonym environ = "(string \<times> string) list"

text \<open>\<open>os.environ.get(a) or os.environ.get(b)\<close>, and the first that is set and not empty.\<close>

definition env_or :: "environ \<Rightarrow> string \<Rightarrow> string \<Rightarrow> string option" where
  "env_or env a b = (case map_of env a of None \<Rightarrow> map_of env b | Some s \<Rightarrow> if s = [] then map_of env b else Some s)"

definition set_text :: "string option \<Rightarrow> string option" where
  "set_text v = (case v of None \<Rightarrow> None | Some s \<Rightarrow> if s = [] then None else Some s)"

definition tenant_var :: "string \<Rightarrow> string \<Rightarrow> string" where
  "tenant_var base tenant = base @ ''_'' @ upper tenant"

definition truthy_env :: "environ \<Rightarrow> string \<Rightarrow> bool" where
  "truthy_env env name = (lower (strip (case map_of env name of None \<Rightarrow> [] | Some s \<Rightarrow> s)) \<in> {''1'', ''true'', ''yes'', ''on''})"

fun first_set :: "environ \<Rightarrow> string list \<Rightarrow> string" where
  "first_set env [] = []"
| "first_set env (k # ks) = (case set_text (map_of env k) of None \<Rightarrow> first_set env ks | Some s \<Rightarrow> s)"

definition is_production_mode :: "environ \<Rightarrow> bool" where
  "is_production_mode env \<longleftrightarrow>
     lower (strip (first_set env [''TRUEPRESENCE_ENV'', ''ENVIRONMENT'', ''APP_ENV''])) \<in> {''prod'', ''production''} \<or>
     truthy_env env ''TRUEPRESENCE_PRODUCTION''"

section \<open>Access\<close>

text \<open>Of a request, the query parameter \<open>tenant\<close> and the headers the service reads.\<close>

record web_request =
  wr_tenant_query :: "string option"
  wr_tenant_header :: "string option"
  wr_webhook_secret :: "string option"
  wr_admin_token :: "string option"
  wr_credentials :: "string option"

datatype http_error = HttpError nat string

definition tenant_id_from_request :: "web_request \<Rightarrow> string" where
  "tenant_id_from_request r = (case set_text (wr_tenant_query r) of
      Some t \<Rightarrow> t | None \<Rightarrow> (case wr_tenant_header r of None \<Rightarrow> ''default'' | Some t \<Rightarrow> t))"

definition webhook_secret_for_tenant :: "environ \<Rightarrow> string \<Rightarrow> string option" where
  "webhook_secret_for_tenant env tenant = env_or env (tenant_var ''TELEGRAM_WEBHOOK_SECRET'' tenant) ''TELEGRAM_WEBHOOK_SECRET''"

definition verify_webhook_secret :: "environ \<Rightarrow> web_request \<Rightarrow> string \<Rightarrow> http_error + unit" where
  "verify_webhook_secret env r tenant = (case set_text (webhook_secret_for_tenant env tenant) of
      None \<Rightarrow> if is_production_mode env then Inl (HttpError 503 ''Telegram webhook secret is required in production'') else Inr ()
    | Some expected \<Rightarrow>
        if wr_webhook_secret r \<noteq> Some expected then Inl (HttpError 401 ''Invalid Telegram webhook secret'') else Inr ())"

definition role_rank :: "pv \<Rightarrow> nat" where
  "role_rank v = (case map_of [(''super_admin'', 4), (''admin'', 3), (''reviewer'', 2), (''observer'', 1)]
     (case v of PStr s \<Rightarrow> s | _ \<Rightarrow> []) of None \<Rightarrow> 0 | Some n \<Rightarrow> n)"

text \<open>\<open>current_user\<close> is the user of a token, looked up and verified elsewhere.\<close>

definition require_telegram_admin :: "environ \<Rightarrow> (string \<Rightarrow> http_error + dict) \<Rightarrow> web_request \<Rightarrow> http_error + dict" where
  "require_telegram_admin env current_user r =
     (let tenant = tenant_id_from_request r in
      case set_text (env_or env (tenant_var ''ADMIN_API_TOKEN'' tenant) ''ADMIN_API_TOKEN'') of
        Some expected \<Rightarrow>
          if wr_admin_token r = Some expected
          then Inr [(''role'', PStr ''super_admin''), (''tenant_id'', PStr tenant), (''auth'', PStr ''admin_token'')]
          else Inl (HttpError 403 ''Admin access required'')
      | None \<Rightarrow> (case wr_credentials r of
          None \<Rightarrow> Inl (HttpError 401 ''Not authenticated'')
        | Some token \<Rightarrow> (case current_user token of
            Inl e \<Rightarrow> Inl e
          | Inr user \<Rightarrow> if role_rank (dget user ''role'') < 4 then Inl (HttpError 403 ''Admin access required'') else Inr user)))"

section \<open>The configuration of a tenant\<close>

definition default_thresholds :: dict where
  "default_thresholds = [(''ban'', PFloat 0.8), (''kick'', PFloat 0.6), (''review'', PFloat 0.4)]"

definition detector_overrides :: "environ \<Rightarrow> string \<Rightarrow> dict" where
  "detector_overrides env tenant =
     List.map_filter (\<lambda>d. case map_of env (tenant_var (''DETECTOR_'' @ upper d @ ''_ENABLED'') tenant) of
         None \<Rightarrow> None | Some s \<Rightarrow> Some (d, PDict [(''enabled'', PBool (lower s = ''true''))]))
       [''copyright_violation'', ''torrent_sharing'', ''crypto_mining'', ''remote_access'']"

definition custom_prefix :: "string \<Rightarrow> string" where
  "custom_prefix tenant = tenant_var ''CUSTOM_DETECTOR'' tenant @ ''_''"

definition custom_name :: "string \<Rightarrow> string \<Rightarrow> string" where
  "custom_name tenant key = hd (split_on (CHR ''_'') (drop (length (custom_prefix tenant)) key))"

text \<open>\<open>'_'.join(key.split('_')[3:]).lower()\<close>.\<close>

definition custom_prop :: "string \<Rightarrow> string" where
  "custom_prop key = lower (join ''_'' (drop 3 (split_on (CHR ''_'') key)))"

definition custom_value :: "string \<Rightarrow> string \<Rightarrow> pv" where
  "custom_value key text =
     (if custom_prop key = ''patterns''
      then (case json_loads text of Some v \<Rightarrow> v | None \<Rightarrow> PList [PStr text]) else PStr text)"

definition add_custom_variable :: "string \<Rightarrow> string \<times> string \<Rightarrow> (string \<times> dict) list \<Rightarrow> (string \<times> dict) list" where
  "add_custom_variable tenant kv ds =
     (if starts_with (custom_prefix tenant) (fst kv)
      then let name = custom_name tenant (fst kv); props = (case map_of ds name of None \<Rightarrow> [] | Some d \<Rightarrow> d) in
        dset name (dset (custom_prop (fst kv)) (custom_value (fst kv) (snd kv)) props) ds
      else ds)"

definition custom_detectors_from_env :: "environ \<Rightarrow> string \<Rightarrow> (string \<times> dict) list" where
  "custom_detectors_from_env env tenant = fold (add_custom_variable tenant) env []"

definition add_threshold :: "environ \<Rightarrow> string \<Rightarrow> string \<Rightarrow> dict \<Rightarrow> dict" where
  "add_threshold env tenant name d = (case map_of env (tenant_var (''THRESHOLD_'' @ upper name) tenant) of
      None \<Rightarrow> d | Some s \<Rightarrow> (case parse_float s of None \<Rightarrow> d | Some q \<Rightarrow> dset name (PFloat q) d))"

definition load_tenant_config :: "environ \<Rightarrow> string \<Rightarrow> dict" where
  "load_tenant_config env tenant =
     [(''detectors'', PDict (detector_overrides env tenant)),
      (''custom_detectors'', PDict (map (apsnd PDict) (custom_detectors_from_env env tenant))),
      (''response_thresholds'', PDict (fold (add_threshold env tenant) [''ban'', ''kick'', ''review''] default_thresholds))]"

section \<open>From the decision to the action\<close>

definition safety_review_actions :: "string list" where
  "safety_review_actions = [''quarantine_message'', ''restrict_sender'', ''admin_review'', ''mandatory_safety_escalation'']"

definition enforcement_mode_for_tenant :: "environ \<Rightarrow> string \<Rightarrow> string" where
  "enforcement_mode_for_tenant env tenant =
     (let v = (case set_text (env_or env (tenant_var ''TELEGRAM_ENFORCEMENT_MODE'' tenant) ''TELEGRAM_ENFORCEMENT_MODE'') of
            None \<Rightarrow> ''observe'' | Some s \<Rightarrow> lower (strip s)) in
      if v \<in> {''observe'', ''challenge_only'', ''review_required'', ''enforce''} then v else ''observe'')"

definition is_review_action :: "pv \<Rightarrow> bool" where
  "is_review_action v = (v \<in> PStr ` set safety_review_actions)"

definition suppress :: "string \<Rightarrow> pv \<Rightarrow> string \<Rightarrow> dict \<Rightarrow> dict" where
  "suppress action original mode d =
     dset ''suppression_reason'' (PStr (''telegram_enforcement_mode_'' @ mode))
       (dset ''suppressed_action'' original (dset ''action'' (PStr action) d))"

definition apply_enforcement_mode :: "environ \<Rightarrow> string \<Rightarrow> dict \<Rightarrow> dict" where
  "apply_enforcement_mode env tenant action =
     (let mode = enforcement_mode_for_tenant env tenant; original = dget action ''action'';
          d = dset ''intended_action'' original (dset ''enforcement_mode'' (PStr mode) action);
          severe = original \<in> {PStr ''ban'', PStr ''kick'', PStr ''block''} in
      if truthy (dget d ''safety_escalation'') \<and> is_review_action original then d
      else if mode = ''enforce'' then d
      else if original = PStr ''allow'' then d
      else if mode = ''observe'' then suppress ''allow'' original mode d
      else if mode = ''challenge_only'' \<and> severe then suppress ''challenge'' original mode d
      else if mode = ''review_required'' \<and> severe then suppress ''alert_admin'' original mode d
      else d)"

definition section_from_event :: "string \<Rightarrow> dict \<Rightarrow> dict" where
  "section_from_event k event = items_of (dget_default (items_of (dget_default event ''context'' (PDict []))) k (PDict []))"

fun signal_risk :: "pv \<Rightarrow> rat \<Rightarrow> rat" where
  "signal_risk (PDict s) score = (case py_float (py_or (dget s ''confidence'') (PFloat 0)) of Inl e \<Rightarrow> score | Inr q \<Rightarrow> max score q)"
| "signal_risk v score = score"

definition community_risk_score :: "dict \<Rightarrow> rat" where
  "community_risk_score community = fold signal_risk (elems_of (dget_default community ''detector_signals'' (PList []))) 0"

text \<open>\<open>list(dict.fromkeys([*action.get("threat_categories", []), *codes]))\<close>; the elements are hashed.\<close>

definition merge_categories :: "dict \<Rightarrow> pv list \<Rightarrow> pv res" where
  "merge_categories action codes =
     bind_res (py_iter (dget_default action ''threat_categories'' (PList []))) (\<lambda>cs.
       if list_all hashable (cs @ codes) then Inr (PList (dedup (cs @ codes))) else Inl (TypeError ''unhashable type''))"

definition raised_confidence :: "dict \<Rightarrow> rat \<Rightarrow> pv res" where
  "raised_confidence action q = bind_res (py_float (py_or (dget action ''confidence'') (PFloat 0))) (\<lambda>c. Inr (PFloat (max c q)))"

definition reason_of_codes :: "string \<Rightarrow> pv list \<Rightarrow> pv res" where
  "reason_of_codes intro codes = bind_res (join_patterns (take 3 codes)) (\<lambda>ss. Inr (PStr (intro @ join '', '' ss)))"

definition apply_community_recommendation :: "dict \<Rightarrow> dict \<Rightarrow> dict res" where
  "apply_community_recommendation action event =
     (let community = section_from_event ''telegram_community'' event in
      bind_res (py_iter (dget_default community ''reason_codes'' (PList []))) (\<lambda>codes.
        let risk = community_risk_score community in
        if codes = [] \<or> risk < 0.65 then Inr action
        else
          bind_res (raised_confidence action risk) (\<lambda>conf.
          let d = dset ''confidence'' conf (dset ''community_reason_codes'' (PList codes) action) in
          bind_res (merge_categories d codes) (\<lambda>cats.
          let d = dset ''threat_categories'' cats d in
          if dget d ''action'' = PStr ''allow''
          then bind_res (reason_of_codes ''Telegram community behavior review: '' codes) (\<lambda>reason.
            Inr (dset ''reason'' reason (dset ''action'' (PStr ''alert_admin'') d)))
          else Inr d))))"

text \<open>\<open>dict(evidence_card)\<close>; a list of pairs is not considered.\<close>

definition dict_of :: "pv \<Rightarrow> dict res" where
  "dict_of v = (case v of PDict d \<Rightarrow> Inr d | PList [] \<Rightarrow> Inr [] | PStr [] \<Rightarrow> Inr []
     | _ \<Rightarrow> Inl (TypeError ''cannot convert to a dictionary''))"

definition safety_confidence :: "dict \<Rightarrow> pv \<Rightarrow> rat res" where
  "safety_confidence safety shown =
     (if truthy (dget safety ''confidence'') then py_float (dget safety ''confidence'')
      else bind_res (py_get shown ''confidence'' PNone) (\<lambda>v. py_float (py_or v (PFloat 0))))"

definition apply_safety_escalation :: "dict \<Rightarrow> dict \<Rightarrow> dict res" where
  "apply_safety_escalation action event =
     (let safety = section_from_event ''telegram_safety'' event; shown = dget_default safety ''evidence_card'' (PDict []);
          recommended = dget safety ''recommended_action'' in
      bind_res (py_iter (dget_default safety ''reason_codes'' (PList []))) (\<lambda>codes.
        if codes = [] then Inr action
        else if \<not> hashable recommended then Inl (TypeError ''unhashable type'')
        else if \<not> is_review_action recommended then Inr action
        else
          bind_res (safety_confidence safety shown) (\<lambda>q.
          bind_res (reason_of_codes ''Telegram safety escalation: '' codes) (\<lambda>reason.
          let d = dset ''reason'' reason (dset ''action'' recommended action) in
          bind_res (raised_confidence d q) (\<lambda>conf.
          bind_res (dict_of shown) (\<lambda>evidence.
          let d = dset ''safety_evidence_card'' (PDict evidence) (dset ''safety_reason_codes'' (PList codes)
                (dset ''safety_escalation'' (PBool True) (dset ''confidence'' conf d))) in
          bind_res (merge_categories d codes) (\<lambda>cats. Inr (dset ''threat_categories'' cats d))))))))"

text \<open>\<open>TelegramAction.model_dump()\<close>, and the three in the order of \<open>process_update\<close>.\<close>

definition dump_action :: "telegram_action \<Rightarrow> dict" where
  "dump_action a = [(''action'', PStr (ta_action a)), (''reason'', PStr (ta_reason a)), (''confidence'', PFloat (ta_confidence a)),
     (''threat_categories'', PList (map PStr (ta_threat_categories a))),
     (''tenant_id'', case ta_tenant_id a of None \<Rightarrow> PNone | Some t \<Rightarrow> PStr t), (''rate_limited'', PBool (ta_rate_limited a)),
     (''evaluation'', PNone), (''execution'', PNone)]"

definition final_action :: "environ \<Rightarrow> string \<Rightarrow> telegram_action \<Rightarrow> dict \<Rightarrow> dict res" where
  "final_action env tenant a event =
     bind_res (apply_safety_escalation (dump_action a) event) (\<lambda>d.
     bind_res (apply_community_recommendation d event) (\<lambda>d. Inr (apply_enforcement_mode env tenant d)))"

section \<open>The Bot API\<close>

text \<open>How one request ends: with an answer, a time-out or network failure, or any other exception.\<close>

datatype http_outcome = HttpAnswer int string | Transient string | Broken string

record api_call =
  ac_method :: string
  ac_payload :: dict

datatype 'a db_row = DbDown | DbEmpty | DbRow 'a

record bot_env =
  be_environ :: environ
  be_token_row :: "string \<Rightarrow> (string \<times> string option) db_row"
  be_server :: "api_call \<Rightarrow> nat \<Rightarrow> http_outcome"
  be_now :: rat
  be_now_text :: string
  be_uuid :: string
  be_rep :: "pv \<Rightarrow> string"
  be_db_up :: bool
  be_adapter :: adapter_env

text \<open>The request \<open>k\<close> with \<open>n\<close> retries left.\<close>

fun post_from :: "(nat \<Rightarrow> http_outcome) \<Rightarrow> nat \<Rightarrow> nat \<Rightarrow> string + (int \<times> string)" where
  "post_from server k 0 = (case server k of HttpAnswer status body \<Rightarrow> Inr (status, body) | Transient e \<Rightarrow> Inl e | Broken e \<Rightarrow> Inl e)"
| "post_from server k (Suc n) = (case server k of
      HttpAnswer status body \<Rightarrow> if status \<ge> 500 then post_from server (Suc k) n else Inr (status, body)
    | Transient e \<Rightarrow> post_from server (Suc k) n | Broken e \<Rightarrow> Inl e)"

definition post_telegram_api :: "bot_env \<Rightarrow> api_call \<Rightarrow> string + (int \<times> string)" where
  "post_telegram_api env c = post_from (be_server env c) 0 2"

text \<open>A stored token comes with its decryption, if that succeeds.\<close>

definition resolve_token :: "bot_env \<Rightarrow> string \<Rightarrow> string option" where
  "resolve_token env tenant = (case be_token_row env tenant of
      DbRow (stored, decrypted) \<Rightarrow> (case decrypted of
        Some t \<Rightarrow> Some t
      | None \<Rightarrow> if truthy_env (be_environ env) ''TRUEPRESENCE_ALLOW_PLAINTEXT_TELEGRAM_TOKENS'' \<and> \<not> is_production_mode (be_environ env)
          then Some stored else None)
    | _ \<Rightarrow> env_or (be_environ env) (tenant_var ''TELEGRAM_BOT_TOKEN'' tenant) ''TELEGRAM_BOT_TOKEN'')"

definition has_token :: "bot_env \<Rightarrow> string \<Rightarrow> bool" where
  "has_token env tenant = (set_text (resolve_token env tenant) \<noteq> None)"

definition nested_get :: "dict \<Rightarrow> string \<Rightarrow> string \<Rightarrow> pv res" where
  "nested_get d k k' = py_get (dget_default d k (PDict [])) k' PNone"

definition failed_outcome :: "string \<Rightarrow> string \<Rightarrow> dict" where
  "failed_outcome status e = [(''status'', PStr status), (''error'', PStr e)]"

definition mode_fields :: "dict \<Rightarrow> dict" where
  "mode_fields action = map (\<lambda>k. (k, dget action k)) [''intended_action'', ''suppressed_action'', ''suppression_reason'', ''enforcement_mode'']"

text \<open>The call of an action.\<close>

definition action_call :: "bot_env \<Rightarrow> pv \<Rightarrow> pv \<Rightarrow> pv \<Rightarrow> pv \<Rightarrow> api_call" where
  "action_call env action chat user message =
     (if action = PStr ''ban'' then \<lparr>ac_method = ''banChatMember'', ac_payload = [(''chat_id'', chat), (''user_id'', user)]\<rparr>
      else if action = PStr ''kick'' then \<lparr>ac_method = ''banChatMember'',
        ac_payload = [(''chat_id'', chat), (''user_id'', user), (''until_date'', PInt (floor (be_now env) + 60))]\<rparr>
      else \<lparr>ac_method = ''sendMessage'', ac_payload = [(''chat_id'', chat),
        (''text'', PStr (if action = PStr ''warn'' then ''Warning: Your message violated group rules.''
          else ''Verification Required: Please complete the challenge to continue posting.'')), (''reply_to_message_id'', message)]\<rparr>)"

text \<open>\<open>update.get("message") or update.get("edited_message", {})\<close>.\<close>

definition source_message :: "dict \<Rightarrow> pv" where
  "source_message update = py_or (dget update ''message'') (dget_default update ''edited_message'' (PDict []))"

definition message_ids :: "pv \<Rightarrow> (pv \<times> pv \<times> pv) res" where
  "message_ids m =
     bind_res (py_get m ''chat'' (PDict [])) (\<lambda>chat. bind_res (py_get chat ''id'' PNone) (\<lambda>chat_id.
     bind_res (py_get m ''from'' (PDict [])) (\<lambda>from. bind_res (py_get from ''id'' PNone) (\<lambda>user_id.
     bind_res (py_get m ''message_id'' PNone) (\<lambda>message_id. Inr (chat_id, user_id, message_id))))))"

definition sent_outcome :: "bot_env \<Rightarrow> dict \<Rightarrow> pv \<Rightarrow> pv \<Rightarrow> pv \<Rightarrow> dict \<Rightarrow> int \<times> string \<Rightarrow> dict" where
  "sent_outcome env action kind packet decision result answer =
     (let ok = (fst answer = 200) in
      [(''status'', PStr (if ok then ''success'' else ''failed'')), (''action'', kind), (''response_code'', PInt (fst answer)),
       (''response_text'', PStr (if ok then ''OK'' else snd answer)), (''timestamp'', PStr (be_now_text env)),
       (''evidence_packet_id'', packet), (''trace_id'', dget result ''decision_trace_id''), (''decision_id'', decision)] @ mode_fields action)"

definition execute_action :: "bot_env \<Rightarrow> string \<Rightarrow> dict \<Rightarrow> dict \<Rightarrow> dict \<Rightarrow> dict res \<times> api_call list" where
  "execute_action env tenant action update result =
     (let kind = dget action ''action'' in
      case bind_res (nested_get result ''evidence_packet'' ''packet_id'') (\<lambda>packet.
           bind_res (nested_get result ''decision_object'' ''decision_id'') (\<lambda>decision. Inr (packet, decision))) of
        Inl e \<Rightarrow> (Inl e, [])
      | Inr (packet, decision) \<Rightarrow>
          (let idle = (\<lambda>status. [(''status'', PStr status), (''action'', kind)] @ mode_fields action @
                 [(''timestamp'', PStr (be_now_text env)), (''evidence_packet_id'', packet), (''decision_id'', decision)]) in
           if kind = PStr ''allow'' then (Inr (idle ''not_required''), [])
           else if kind \<notin> PStr ` {''ban'', ''kick'', ''warn'', ''challenge''} then (Inr (idle ''skipped''), [])
           else if \<not> has_token env tenant then (Inr (failed_outcome ''failed'' ''Telegram bot token not configured''), [])
           else (case message_ids (source_message update) of
               Inl e \<Rightarrow> (Inl e, [])
             | Inr (chat, user, message) \<Rightarrow>
                 if \<not> truthy chat \<or> \<not> truthy user then (Inr (failed_outcome ''failed'' ''Missing chat or user ID in update''), [])
                 else (let c = action_call env kind chat user message in
                   (case post_telegram_api env c of
                      Inl e \<Rightarrow> (Inr (failed_outcome ''error'' e), [c])
                    | Inr answer \<Rightarrow> (Inr (sent_outcome env action kind packet decision result answer), [c]))))))"

section \<open>The service\<close>

record protection_adapter =
  pa_detectors :: detectors
  pa_compiled :: "(string \<times> string) list"
  pa_memory :: telegram_state
  pa_bans :: ban_table

record review_row =
  rw_tenant :: string
  rw_status :: string
  rw_data :: dict

text \<open>What the service keeps in memory for its tenants, and the tables of reviews and of sessions in the database.\<close>

record service =
  sv_configs :: "(string \<times> dict) list"
  sv_adapters :: "(string \<times> protection_adapter) list"
  sv_sessions :: "(string \<times> dict) list"
  sv_reviews :: "(string \<times> (string \<times> dict) list) list"
  sv_admin_chats :: "(string \<times> int list) list"
  sv_groups :: "(string \<times> int list) list"
  sv_db_reviews :: "(string \<times> review_row) list"
  sv_db_sessions :: "(string \<times> dict) list"

definition new_adapter :: "dict \<Rightarrow> protection_adapter res" where
  "new_adapter cfg =
     bind_res (configure_detectors cfg) (\<lambda>ds. bind_res (compile_patterns ds) (\<lambda>cs.
       Inr \<lparr>pa_detectors = ds, pa_compiled = cs, pa_memory = fresh_adapter, pa_bans = []\<rparr>))"

definition ensure_tenant :: "environ \<Rightarrow> string \<Rightarrow> service \<Rightarrow> protection_adapter res \<times> service" where
  "ensure_tenant env tenant s =
     (let s = (if dhas (sv_configs s) tenant then s
            else s\<lparr>sv_configs := dset tenant (load_tenant_config env tenant) (sv_configs s)\<rparr>) in
      case map_of (sv_adapters s) tenant of
        Some a \<Rightarrow> (Inr a, s)
      | None \<Rightarrow> (case new_adapter (the (map_of (sv_configs s) tenant)) of
          Inl e \<Rightarrow> (Inl e, s) | Inr a \<Rightarrow> (Inr a, s\<lparr>sv_adapters := dset tenant a (sv_adapters s)\<rparr>)))"

definition new_service :: "environ \<Rightarrow> string \<Rightarrow> service res" where
  "new_service env tenant =
     bind_res (new_adapter (load_tenant_config env tenant)) (\<lambda>a.
       Inr \<lparr>sv_configs = [(tenant, load_tenant_config env tenant)], sv_adapters = [(tenant, a)], sv_sessions = [], sv_reviews = [],
            sv_admin_chats = [], sv_groups = [], sv_db_reviews = [], sv_db_sessions = []\<rparr>)"

definition update_tenant_config :: "environ \<Rightarrow> string \<Rightarrow> dict \<Rightarrow> service \<Rightarrow> dict res \<times> service" where
  "update_tenant_config env tenant config s = (case ensure_tenant env tenant s of
      (Inl e, s) \<Rightarrow> (Inl e, s)
    | (Inr a, s) \<Rightarrow>
        (case bind_res (dict_of (py_or (dget config ''detectors'') (PDict []))) (\<lambda>detectors.
             bind_res (dict_of (py_or (dget config ''custom_detectors'') (PDict []))) (\<lambda>custom.
             bind_res (dict_of (py_or (dget config ''response_thresholds'') (PDict []))) (\<lambda>thresholds.
               Inr [(''detectors'', PDict detectors), (''custom_detectors'', PDict custom),
                 (''response_thresholds'', PDict (dupdate
                    (items_of (dget_default (the (map_of (sv_configs s) tenant)) ''response_thresholds'' (PDict []))) thresholds))]))) of
           Inl e \<Rightarrow> (Inl e, s)
         | Inr cfg \<Rightarrow>
             (let s = s\<lparr>sv_configs := dset tenant cfg (sv_configs s)\<rparr> in
              case new_adapter cfg of
                Inl e \<Rightarrow> (Inl e, s)
              | Inr a \<Rightarrow> (Inr cfg, s\<lparr>sv_adapters := dset tenant a (sv_adapters s)\<rparr>))))"

definition register_group :: "environ \<Rightarrow> string \<Rightarrow> int \<Rightarrow> int option \<Rightarrow> service \<Rightarrow> unit res \<times> service" where
  "register_group env tenant chat admin_chat s = (case ensure_tenant env tenant s of
      (Inl e, s) \<Rightarrow> (Inl e, s)
    | (Inr a, s) \<Rightarrow>
        (let add = (\<lambda>x table. dset tenant (List.insert x (case map_of table tenant of None \<Rightarrow> [] | Some xs \<Rightarrow> xs)) table);
             s = s\<lparr>sv_groups := add chat (sv_groups s)\<rparr> in
         (Inr (), case admin_chat of None \<Rightarrow> s | Some c \<Rightarrow> if c = 0 then s else s\<lparr>sv_admin_chats := add c (sv_admin_chats s)\<rparr>)))"

section \<open>Manual reviews\<close>

definition tenant_reviews :: "service \<Rightarrow> string \<Rightarrow> (string \<times> dict) list" where
  "tenant_reviews s tenant = (case map_of (sv_reviews s) tenant of None \<Rightarrow> [] | Some rs \<Rightarrow> rs)"

definition db_review :: "service \<Rightarrow> string \<Rightarrow> string \<Rightarrow> dict option" where
  "db_review s tenant rid = (case map_of (sv_db_reviews s) rid of
      None \<Rightarrow> None | Some r \<Rightarrow> if rw_tenant r = tenant then Some (rw_data r) else None)"

definition new_review :: "bot_env \<Rightarrow> string \<Rightarrow> dict \<Rightarrow> dict" where
  "new_review env tenant data =
     dset ''tenant_id'' (PStr tenant) (dset ''created_at'' (PStr (be_now_text env))
       (dset ''status'' (PStr ''pending'') (dset ''review_id'' (PStr (be_uuid env)) data)))"

definition add_pending_review :: "bot_env \<Rightarrow> string \<Rightarrow> dict \<Rightarrow> service \<Rightarrow> (string \<times> dict) res \<times> service" where
  "add_pending_review env tenant data s = (case ensure_tenant (be_environ env) tenant s of
      (Inl e, s) \<Rightarrow> (Inl e, s)
    | (Inr a, s) \<Rightarrow>
        (let rid = be_uuid env; d = new_review env tenant data;
             s = s\<lparr>sv_reviews := dset tenant (dset rid d (tenant_reviews s tenant)) (sv_reviews s)\<rparr> in
         (Inr (rid, d),
          if be_db_up env \<and> \<not> dhas (sv_db_reviews s) rid
          then s\<lparr>sv_db_reviews := sv_db_reviews s @ [(rid, \<lparr>rw_tenant = tenant, rw_status = ''pending'', rw_data = d\<rparr>)]\<rparr> else s)))"

definition get_pending_reviews :: "bot_env \<Rightarrow> string \<Rightarrow> service \<Rightarrow> dict list" where
  "get_pending_reviews env tenant s =
     (if be_db_up env
      then map rw_data (filter (\<lambda>r. rw_tenant r = tenant \<and> rw_status r = ''pending'') (map snd (sv_db_reviews s)))
      else filter (\<lambda>d. dget d ''status'' = PStr ''pending'') (map snd (tenant_reviews s tenant)))"

text \<open>An empty record in memory is not returned.\<close>

definition get_review :: "bot_env \<Rightarrow> string \<Rightarrow> string \<Rightarrow> service \<Rightarrow> dict option" where
  "get_review env tenant rid s =
     (if be_db_up env then db_review s tenant rid
      else (case map_of (tenant_reviews s tenant) rid of None \<Rightarrow> None | Some d \<Rightarrow> if d = [] then None else Some d))"

definition resolved :: "bot_env \<Rightarrow> string \<Rightarrow> pv \<Rightarrow> dict \<Rightarrow> dict" where
  "resolved env decision notes d =
     dset ''resolved_at'' (PStr (be_now_text env)) (dset ''admin_notes'' notes
       (dset ''admin_decision'' (PStr decision) (dset ''status'' (PStr ''resolved'') d)))"

definition resolve_review :: "bot_env \<Rightarrow> string \<Rightarrow> string \<Rightarrow> string \<Rightarrow> pv \<Rightarrow> service \<Rightarrow> bool res \<times> service" where
  "resolve_review env tenant rid decision notes s = (case ensure_tenant (be_environ env) tenant s of
      (Inl e, s) \<Rightarrow> (Inl e, s)
    | (Inr a, s) \<Rightarrow>
        if be_db_up env
        then (case db_review s tenant rid of
            None \<Rightarrow> (Inr False, s)
          | Some d \<Rightarrow> (Inr True, s\<lparr>sv_db_reviews := dset rid \<lparr>rw_tenant = tenant, rw_status = ''resolved'',
              rw_data = resolved env decision notes d\<rparr> (sv_db_reviews s)\<rparr>))
        else (case map_of (tenant_reviews s tenant) rid of
            None \<Rightarrow> (Inr False, s)
          | Some d \<Rightarrow> if d = [] then (Inr False, s)
              else (Inr True, s\<lparr>sv_reviews := dset tenant (dset rid (resolved env decision notes d) (tenant_reviews s tenant)) (sv_reviews s)\<rparr>)))"

text \<open>The endpoint takes a decision from a fixed set.\<close>

definition admin_decisions :: "string list" where
  "admin_decisions = [''allow'', ''ban'', ''kick'', ''warn'', ''delete'']"

definition resolve_endpoint :: "bot_env \<Rightarrow> string \<Rightarrow> string \<Rightarrow> dict \<Rightarrow> service \<Rightarrow> (http_error + unit) \<times> service" where
  "resolve_endpoint env tenant rid resolution s = (case dget resolution ''decision'' of
      PStr decision \<Rightarrow>
        if decision = [] then (Inl (HttpError 400 ''Decision is required''), s)
        else if decision \<notin> set admin_decisions then (Inl (HttpError 400 (''Invalid decision: '' @ decision)), s)
        else (case resolve_review env tenant rid decision (dget_default resolution ''notes'' (PStr [])) s of
            (Inr True, s) \<Rightarrow> (Inr (), s)
          | (Inr False, s) \<Rightarrow> (Inl (HttpError 404 ''Review not found''), s)
          | (Inl e, s) \<Rightarrow> (Inl (HttpError 500 ''Internal Server Error''), s))
    | v \<Rightarrow> (Inl (HttpError (if truthy v \<and> \<not> hashable v then 500 else 400) ''Invalid decision''), s))"

text \<open>\<open>a.get(k, {}).get("id") or b.get(j) or c.get("id")\<close>.\<close>

definition review_ref :: "dict \<Rightarrow> string \<Rightarrow> string \<Rightarrow> string \<Rightarrow> pv res" where
  "review_ref review part ref info =
     bind_res (py_get (py_or (dget review ''original_message'') (PDict [])) part (PDict [])) (\<lambda>v.
     bind_res (py_get v ''id'' PNone) (\<lambda>first.
       if truthy first then Inr first
       else bind_res (py_get (py_or (dget review ''telegram_refs'') (PDict [])) ref PNone) (\<lambda>second.
         if truthy second then Inr second else py_get (py_or (dget review info) (PDict [])) ''id'' PNone)))"

definition review_message :: "dict \<Rightarrow> pv res" where
  "review_message review =
     bind_res (py_get (py_or (dget review ''original_message'') (PDict [])) ''message_id'' PNone) (\<lambda>first.
       if truthy first then Inr first else py_get (py_or (dget review ''telegram_refs'') (PDict [])) ''message_id'' PNone)"

definition review_call :: "bot_env \<Rightarrow> string \<Rightarrow> pv \<Rightarrow> pv \<Rightarrow> pv \<Rightarrow> api_call" where
  "review_call env decision chat user message =
     (if decision = ''delete'' then \<lparr>ac_method = ''deleteMessage'', ac_payload = [(''chat_id'', chat), (''message_id'', message)]\<rparr>
      else if decision = ''warn'' then \<lparr>ac_method = ''sendMessage'', ac_payload = [(''chat_id'', chat),
        (''text'', PStr ''Warning: Your message violated group rules. Further violations may result in a ban.''),
        (''reply_to_message_id'', message)]\<rparr>
      else action_call env (PStr decision) chat user message)"

definition review_outcome :: "string \<Rightarrow> string \<Rightarrow> string \<Rightarrow> string \<times> pv \<Rightarrow> dict" where
  "review_outcome status rid decision extra =
     [(''status'', PStr status), (''review_id'', PStr rid), (''action'', PStr decision), extra]"

definition missing_reference :: "string \<Rightarrow> pv \<Rightarrow> pv \<Rightarrow> pv \<Rightarrow> string option" where
  "missing_reference decision chat user message =
     (if decision \<in> {''ban'', ''kick''} \<and> (\<not> truthy chat \<or> \<not> truthy user) then Some ''missing_chat_or_user_reference''
      else if decision = ''warn'' \<and> \<not> truthy chat then Some ''missing_chat_reference''
      else if decision = ''delete'' \<and> (\<not> truthy chat \<or> \<not> truthy message) then Some ''missing_chat_or_message_reference''
      else None)"

definition carry_out :: "bot_env \<Rightarrow> string \<Rightarrow> string \<Rightarrow> string \<Rightarrow> dict \<Rightarrow> dict res \<times> api_call list" where
  "carry_out env tenant rid decision review =
     (case bind_res (review_ref review ''from'' ''sender_id'' ''user_info'') (\<lambda>user.
           bind_res (review_ref review ''chat'' ''chat_id'' ''chat_info'') (\<lambda>chat.
           bind_res (review_message review) (\<lambda>message. Inr (chat, user, message)))) of
        Inl e \<Rightarrow> (Inl e, [])
      | Inr (chat, user, message) \<Rightarrow> (case missing_reference decision chat user message of
          Some e \<Rightarrow> (Inr (review_outcome ''failed'' rid decision (''error'', PStr e)), [])
        | None \<Rightarrow>
            if \<not> has_token env tenant
            then (Inr [(''status'', PStr ''failed''), (''review_id'', PStr rid), (''error'', PStr ''Telegram bot token not configured'')], [])
            else (let c = review_call env decision chat user message in
              (case post_telegram_api env c of
                 Inl e \<Rightarrow> (Inr (review_outcome ''failed'' rid decision (''error'', PStr ''admin_action_execution_failed'')), [c])
               | Inr (status, body) \<Rightarrow>
                   if status \<noteq> 200 then (Inr (review_outcome ''failed'' rid decision (''error'', PStr (''Telegram API error: '' @ body))), [c])
                   else (case json_loads body of
                       None \<Rightarrow> (Inr (review_outcome ''failed'' rid decision (''error'', PStr ''admin_action_execution_failed'')), [c])
                     | Some v \<Rightarrow> (Inr (review_outcome ''executed'' rid decision (''telegram_response'', v) @
                         [(''message'', PStr (''Admin decision '' @ decision @ '' executed successfully''))]), [c]))))))"

definition execute_review_decision :: "bot_env \<Rightarrow> string \<Rightarrow> string \<Rightarrow> service \<Rightarrow> dict res \<times> api_call list" where
  "execute_review_decision env tenant rid s =
     (case (case (if be_db_up env then db_review s tenant rid else None) of
              Some d \<Rightarrow> Some d
            | None \<Rightarrow> (case map_of (tenant_reviews s tenant) rid of None \<Rightarrow> None | Some d \<Rightarrow> if d = [] then None else Some d)) of
        None \<Rightarrow> (Inr (failed_outcome ''failed'' ''Review not found''), [])
      | Some review \<Rightarrow>
          if dget review ''status'' \<noteq> PStr ''resolved''
          then (Inr (failed_outcome ''failed'' ''Review not yet resolved by admin''), [])
          else (case dget review ''admin_decision'' of
              PStr decision \<Rightarrow>
                if decision = ''allow'' then (Inr (review_outcome ''skipped'' rid decision
                  (''message'', PStr ''No Telegram action required for decision: allow'')), [])
                else if decision \<notin> {''ban'', ''kick'', ''warn'', ''delete''}
                then (Inr (review_outcome ''failed'' rid decision (''error'', PStr ''invalid_admin_decision'')), [])
                else carry_out env tenant rid decision review
            | v \<Rightarrow> (if \<not> hashable v then Inl (TypeError ''unhashable type'') else Inr [(''status'', PStr ''failed''), (''review_id'', PStr rid), (''action'', v),
                (''error'', PStr ''invalid_admin_decision'')], [])))"

text \<open>The endpoint that carries a decision out.\<close>

definition execution_answer :: "string \<Rightarrow> string \<Rightarrow> dict \<Rightarrow> dict" where
  "execution_answer tenant rid d =
     [(''status'', dget d ''status''), (''tenant_id'', PStr tenant), (''review_id'', PStr rid), (''action'', dget d ''action''),
      (''message'', dget_default d ''message'' (PStr [])), (''telegram_response'', dget d ''telegram_response'')]"

definition execute_endpoint :: "bot_env \<Rightarrow> string \<Rightarrow> string \<Rightarrow> service \<Rightarrow> (http_error + dict) \<times> api_call list" where
  "execute_endpoint env tenant rid s =
     (let review = (case get_review env tenant rid s of None \<Rightarrow> [] | Some d \<Rightarrow> d) in
      if review = [] then (Inl (HttpError 404 ''Review not found''), [])
      else if dget review ''status'' \<noteq> PStr ''resolved'' then (Inl (HttpError 400 ''Review not yet resolved by admin''), [])
      else (case execute_review_decision env tenant rid s of
          (Inl e, calls) \<Rightarrow> (Inl (HttpError 500 ''Internal Server Error''), calls)
        | (Inr d, calls) \<Rightarrow>
            if dget d ''status'' \<in> {PStr ''executed'', PStr ''skipped''} then (Inr (execution_answer tenant rid d), calls)
            else (Inl (HttpError 500 (py_str (be_rep env) (dget_default d ''error'' (PStr ''Failed to execute decision'')))), calls)))"

section \<open>Filing a review\<close>

definition final_get :: "dict \<Rightarrow> string \<Rightarrow> pv \<Rightarrow> pv res" where
  "final_get result k dflt = (case map_of result ''final'' of None \<Rightarrow> Inl (KeyError ''final'') | Some v \<Rightarrow> py_get v k dflt)"

definition or_res :: "pv res \<Rightarrow> pv res \<Rightarrow> pv res" where
  "or_res a b = bind_res a (\<lambda>v. if truthy v then Inr v else b)"

definition is_safety_review :: "dict \<Rightarrow> bool" where
  "is_safety_review action \<longleftrightarrow> truthy (dget action ''safety_escalation'') \<or> dget action ''safety_evidence_card'' \<noteq> PNone \<or>
     is_review_action (dget action ''action'')"

definition safety_review_data :: "dict \<Rightarrow> dict \<Rightarrow> pv \<Rightarrow> dict res" where
  "safety_review_data action result evidence =
     bind_res (or_res (final_get result ''threat_categories'' (PList [])) (or_res (Inr (dget_default action ''safety_reason_codes'' (PList [])))
         (py_get evidence ''reason_codes'' (PList [])))) (\<lambda>codes.
     bind_res (py_get evidence ''sender_id'' PNone) (\<lambda>sender. bind_res (py_get evidence ''chat_id'' PNone) (\<lambda>chat.
     bind_res (py_get evidence ''message_id'' PNone) (\<lambda>message.
     bind_res (or_res (final_get result ''risk_factors'' (PList [])) (Inr codes)) (\<lambda>factors.
       Inr [(''action'', PDict action), (''evaluation'', PDict result), (''evidence_card'', evidence),
            (''user_info'', PDict [(''id'', sender)]), (''chat_info'', PDict [(''id'', chat)]),
            (''telegram_refs'', PDict [(''chat_id'', chat), (''message_id'', message), (''sender_id'', sender)]),
            (''threat_categories'', codes), (''risk_factors'', factors)])))))"

definition plain_review_data :: "dict \<Rightarrow> dict \<Rightarrow> pv \<Rightarrow> pv \<Rightarrow> dict res" where
  "plain_review_data action result evidence m =
     bind_res (py_get m ''from'' (PDict [])) (\<lambda>from. bind_res (py_get m ''chat'' (PDict [])) (\<lambda>chat.
     bind_res (py_get from ''id'' PNone) (\<lambda>sender. bind_res (py_get from ''username'' PNone) (\<lambda>username.
     bind_res (py_get chat ''id'' PNone) (\<lambda>chat_id. bind_res (py_get chat ''title'' PNone) (\<lambda>title.
     bind_res (py_get m ''message_id'' PNone) (\<lambda>message.
     bind_res (final_get result ''threat_categories'' (PList [])) (\<lambda>codes.
     bind_res (final_get result ''risk_factors'' (PList [])) (\<lambda>factors.
       Inr [(''action'', PDict action), (''evaluation'', PDict result), (''evidence_card'', evidence),
            (''user_info'', PDict [(''id'', sender), (''username'', username)]), (''chat_info'', PDict [(''id'', chat_id), (''title'', title)]),
            (''telegram_refs'', PDict [(''chat_id'', chat_id), (''message_id'', message), (''sender_id'', sender)]),
            (''threat_categories'', codes), (''risk_factors'', factors)])))))))))"

text \<open>The card of the action is always there when \<open>process_update\<close> calls; the code builds one when it is not.\<close>

definition review_evidence :: "bot_env \<Rightarrow> dict \<Rightarrow> dict \<Rightarrow> pv \<Rightarrow> pv res" where
  "review_evidence env action result m =
     (if truthy (dget action ''evidence_card'') then Inr (dget action ''evidence_card'')
      else bind_res (py_get m ''date'' PNone) (\<lambda>date.
        bind_res (py_get m ''from'' (PDict [])) (\<lambda>from. bind_res (py_get from ''id'' PNone) (\<lambda>sender.
        bind_res (py_get m ''chat'' (PDict [])) (\<lambda>chat. bind_res (py_get chat ''id'' PNone) (\<lambda>chat_id.
        bind_res (build_telegram_community_evidence_card (be_rep env)
          (PDict [(''event_type'', PStr ''message''), (''timestamp'', date), (''context'', PDict
            [(''platform'', PStr ''telegram''), (''user_id'', sender), (''group_id'', chat_id), (''telegram_community'', PDict [])])])
          action (Some result) (be_now_text env)) (\<lambda>card. Inr (PDict card))))))))"

definition review_data :: "bot_env \<Rightarrow> dict \<Rightarrow> dict \<Rightarrow> dict \<Rightarrow> dict res" where
  "review_data env action update result =
     (let m = py_or (py_or (dget update ''message'') (dget update ''edited_message'')) (PDict []) in
      bind_res (review_evidence env action result m) (\<lambda>card.
        if is_safety_review action then safety_review_data action result (py_or (dget action ''safety_evidence_card'') card)
        else plain_review_data action result card m))"

text \<open>The notice is abbreviated; it cannot be written when the categories are no texts or the confidence is no number.\<close>

definition notice :: "string \<Rightarrow> string \<Rightarrow> dict \<Rightarrow> string res" where
  "notice tenant rid review =
     bind_res (py_iter (dget review ''threat_categories'')) (\<lambda>vs. bind_res (join_patterns vs) (\<lambda>threats.
     bind_res (py_get (dget review ''action'') ''confidence'' (PInt 0)) (\<lambda>c. case num_of c of
         None \<Rightarrow> Inl (TypeError ''unsupported format string'')
       | Some q \<Rightarrow> Inr (''['' @ tenant @ ''] MANUAL REVIEW REQUIRED; Review ID: '' @ rid @ ''; Threats: '' @ join '', '' threats))))"

definition admin_chats :: "service \<Rightarrow> string \<Rightarrow> int list" where
  "admin_chats s tenant = (case map_of (sv_admin_chats s) tenant of None \<Rightarrow> [] | Some cs \<Rightarrow> cs)"

definition notify_admins :: "bot_env \<Rightarrow> string \<Rightarrow> string \<Rightarrow> dict \<Rightarrow> service \<Rightarrow> api_call list" where
  "notify_admins env tenant rid review s =
     (case (has_token env tenant, notice tenant rid review) of
        (True, Inr txt) \<Rightarrow> map (\<lambda>c. \<lparr>ac_method = ''sendMessage'', ac_payload = [(''chat_id'', PInt c), (''text'', PStr txt),
            (''parse_mode'', PStr ''HTML''), (''disable_web_page_preview'', PBool True)]\<rparr>)
          (admin_chats s tenant)
      | _ \<Rightarrow> [])"

text \<open>Any exception is logged and swallowed.\<close>

definition handle_manual_review :: "bot_env \<Rightarrow> string \<Rightarrow> dict \<Rightarrow> dict \<Rightarrow> dict \<Rightarrow> service \<Rightarrow> service \<times> api_call list" where
  "handle_manual_review env tenant action update result s = (case review_data env action update result of
      Inl e \<Rightarrow> (s, [])
    | Inr d \<Rightarrow> (case add_pending_review env tenant d s of
        (Inl e, s) \<Rightarrow> (s, []) | (Inr (rid, review), s) \<Rightarrow> (s, notify_admins env tenant rid review s)))"

section \<open>Processing an update\<close>

type_synonym decision_function = "string \<Rightarrow> string \<Rightarrow> dict \<Rightarrow> dict \<Rightarrow> (decision_object \<times> dict) res"

definition load_session :: "bot_env \<Rightarrow> string \<Rightarrow> string \<Rightarrow> service \<Rightarrow> dict \<times> service" where
  "load_session env sid tenant s =
     (let fresh = [(''session_id'', PStr sid), (''tenant_id'', PStr tenant)] in
      if be_db_up env
      then (case map_of (sv_db_sessions s) sid of
          Some d \<Rightarrow> (d, s) | None \<Rightarrow> (fresh, s\<lparr>sv_db_sessions := dset sid fresh (sv_db_sessions s)\<rparr>))
      else ((case map_of (sv_sessions s) sid of None \<Rightarrow> fresh | Some d \<Rightarrow> d), s))"

definition store_session :: "bot_env \<Rightarrow> string \<Rightarrow> dict \<Rightarrow> service \<Rightarrow> service" where
  "store_session env sid d s =
     (if be_db_up env then (if dhas (sv_db_sessions s) sid then s\<lparr>sv_db_sessions := dset sid d (sv_db_sessions s)\<rparr> else s)
      else s\<lparr>sv_sessions := dset sid d (sv_sessions s)\<rparr>)"

text \<open>What is added to the action before it is executed.\<close>

definition evaluated_action :: "bot_env \<Rightarrow> string \<Rightarrow> telegram_action \<Rightarrow> dict \<Rightarrow> dict \<Rightarrow> dict res" where
  "evaluated_action env tenant a event result =
     bind_res (final_action (be_environ env) tenant a event) (\<lambda>d.
     bind_res (final_get result ''human_probability'' PNone) (\<lambda>human.
     bind_res (final_get result ''risk_factors'' (PList [])) (\<lambda>factors.
     bind_res (final_get result ''reason_codes'' (PList [])) (\<lambda>codes.
       let d = dset ''evaluation'' (PDict [(''human_probability'', human), (''risk_factors'', factors), (''reason_codes'', codes)]) d in
       if truthy (dget d ''safety_evidence_card'') then Inr (dset ''evidence_card'' (dget d ''safety_evidence_card'') d)
       else bind_res (build_telegram_community_evidence_card (be_rep env) (PDict event) d (Some result) (be_now_text env)) (\<lambda>card.
         Inr (dset ''evidence_card'' (PDict card) d))))))"

definition needs_review :: "dict \<Rightarrow> bool" where
  "needs_review action \<longleftrightarrow> dget action ''action'' = PStr ''alert_admin'' \<or> is_review_action (dget action ''action'')"

text \<open>From the action of the adapter on.\<close>

definition conclude ::
    "bot_env \<Rightarrow> string \<Rightarrow> string \<Rightarrow> dict \<Rightarrow> telegram_action \<Rightarrow> dict \<Rightarrow> dict \<Rightarrow> dict \<Rightarrow> service \<Rightarrow> dict option res \<times> service \<times> api_call list" where
  "conclude env tenant sid session a event update result s = (case evaluated_action env tenant a event result of
      Inl e \<Rightarrow> (Inl e, s, [])
    | Inr d \<Rightarrow> (case execute_action env tenant d update result of
        (Inl e, calls) \<Rightarrow> (Inl e, s, calls)
      | (Inr execution, calls) \<Rightarrow>
          (let d = dset ''execution'' (PDict execution) d;
               s = store_session env sid (dset ''last_event_timestamp'' (dget event ''timestamp'')
                 (dset ''last_event_type'' (dget event ''event_type'') session)) s in
           if needs_review d
           then (let (s, notices) = handle_manual_review env tenant d update result s in (Inr (Some d), s, calls @ notices))
           else (Inr (Some d), s, calls))))"

definition event_session :: "bot_env \<Rightarrow> string \<Rightarrow> dict \<Rightarrow> string" where
  "event_session env tenant event = ''tg_'' @ tenant @ ''_'' @ py_str (be_rep env) (dget_default (items_of (dget event ''context'')) ''user_id'' (PStr ''unknown''))"

definition decide_event ::
    "bot_env \<Rightarrow> decision_function \<Rightarrow> string \<Rightarrow> dict \<Rightarrow> dict \<Rightarrow> protection_adapter \<Rightarrow> service \<Rightarrow> dict option res \<times> service \<times> api_call list" where
  "decide_event env decider tenant event update ad s =
     (let sid = event_session env tenant event;
          (session, s) = load_session env sid tenant s in
      case decider sid tenant event session of
        Inl e \<Rightarrow> (Inl e, s, [])
      | Inr (decision, result) \<Rightarrow>
          (let (a, bans) = enforce (be_rep env) (be_now env) decision (pa_bans ad);
               s = s\<lparr>sv_adapters := dset tenant (ad\<lparr>pa_bans := bans\<rparr>) (sv_adapters s)\<rparr> in
           case a of Inl e \<Rightarrow> (Inl e, s, []) | Inr a \<Rightarrow> conclude env tenant sid session a event update result s))"

definition process_update ::
    "bot_env \<Rightarrow> decision_function \<Rightarrow> string \<Rightarrow> dict \<Rightarrow> service \<Rightarrow> dict option res \<times> service \<times> api_call list" where
  "process_update env decider tenant update s = (case ensure_tenant (be_environ env) tenant s of
      (Inl e, s) \<Rightarrow> (Inl e, s, [])
    | (Inr ad, s) \<Rightarrow>
        (let (parsed, memory) = parse_update ((be_adapter env)\<lparr>ae_detectors := pa_detectors ad, ae_compiled := pa_compiled ad\<rparr>)
               update (pa_memory ad);
             ad = ad\<lparr>pa_memory := memory\<rparr>; s = s\<lparr>sv_adapters := dset tenant ad (sv_adapters s)\<rparr> in
         case parsed of
           Inl e \<Rightarrow> (Inl e, s, [])
         | Inr None \<Rightarrow> (Inr None, s, [])
         | Inr (Some event) \<Rightarrow> decide_event env decider tenant event update ad s))"

text \<open>The webhook of a tenant: the secret is checked before the update is looked at.\<close>

definition webhook_answer :: "string \<Rightarrow> dict option \<Rightarrow> dict" where
  "webhook_answer tenant a = (case a of
      None \<Rightarrow> [(''ok'', PBool True), (''action'', PStr ''ignored''), (''tenant_id'', PStr tenant)]
    | Some d \<Rightarrow> [(''ok'', PBool True), (''action'', dget d ''action''), (''reason'', dget_default d ''reason'' (PStr [])),
        (''confidence'', dget_default d ''confidence'' (PInt 0)), (''details'', dget_default d ''evaluation'' (PDict [])), (''tenant_id'', PStr tenant)])"

definition webhook ::
    "bot_env \<Rightarrow> decision_function \<Rightarrow> web_request \<Rightarrow> dict \<Rightarrow> service \<Rightarrow> (http_error + dict) \<times> service \<times> api_call list" where
  "webhook env decider r update s =
     (let tenant = tenant_id_from_request r in
      case verify_webhook_secret (be_environ env) r tenant of
        Inl e \<Rightarrow> (Inl e, s, [])
      | Inr _ \<Rightarrow> (case process_update env decider tenant update s of
          (Inl e, s, calls) \<Rightarrow> (Inl (HttpError 500 ''Internal Server Error''), s, calls)
        | (Inr a, s, calls) \<Rightarrow> (Inr (webhook_answer tenant a), s, calls)))"

text \<open>The tenant of a bot token: the first stored one that decrypts to it, or, where decryption fails, is it; without a
  database the token of the environment.\<close>

definition token_candidate :: "string \<times> string \<times> string option \<Rightarrow> string" where
  "token_candidate row = (case snd (snd row) of None \<Rightarrow> fst (snd row) | Some t \<Rightarrow> t)"

definition resolve_tenant_from_token :: "environ \<Rightarrow> (string \<times> string \<times> string option) list option \<Rightarrow> string \<Rightarrow> string option" where
  "resolve_tenant_from_token env rows tok =
     (case set_text (case rows of None \<Rightarrow> None | Some rs \<Rightarrow> map_option fst (find (\<lambda>row. token_candidate row = tok) rs)) of
        Some tenant \<Rightarrow> Some tenant
      | None \<Rightarrow> if map_of env ''TELEGRAM_BOT_TOKEN'' = Some tok then Some ''default'' else None)"

end
