(* ===== verification/Telegram_Reviews.thy ===== *)
theory Telegram_Reviews
  imports Telegram_Bot
begin

text \<open>
  What the protection service does for a tenant that only observes: whatever an update leads to, nothing is done to its
  sender, and only the tenant's administrators are notified.
\<close>

section \<open>Observing\<close>

lemma is_review_action_allow [simp]: "\<not> is_review_action (PStr ''allow'')"
  by (auto simp: is_review_action_def safety_review_actions_def)

lemma suppress_dget: "dget (suppress action original mode d) k =
    (if k = ''suppression_reason'' then PStr (''telegram_enforcement_mode_'' @ mode)
     else if k = ''suppressed_action'' then original else if k = ''action'' then PStr action else dget d k)"
  by (simp add: suppress_def)

text \<open>Actions that send nothing about the sender.\<close>

definition unsent :: "dict \<Rightarrow> bool" where
  "unsent d \<longleftrightarrow> dget d ''action'' = PStr ''allow'' \<or> is_review_action (dget d ''action'')"

lemma observe_unsent:
  assumes "enforcement_mode_for_tenant env tenant = ''observe''"
  shows "unsent (apply_enforcement_mode env tenant d)"
  by (simp add: apply_enforcement_mode_def Let_def assms unsent_def suppress_dget)

lemma evaluated_action_fields:
  assumes "evaluated_action env tenant a event result = Inr d"
  obtains d0 where "final_action (be_environ env) tenant a event = Inr d0"
    "\<And>k. k \<notin> {''evaluation'', ''evidence_card''} \<Longrightarrow> dget d k = dget d0 k"
    "\<exists>card. dget d ''evidence_card'' = PDict card \<or> dget d ''evidence_card'' = dget d0 ''safety_evidence_card''"
    "\<exists>final. map_of result ''final'' = Some (PDict final)"
proof -
  obtain d0 human where d0: "final_action (be_environ env) tenant a event = Inr d0"
    and final: "final_get result ''human_probability'' PNone = Inr human"
    using assms by (auto simp: evaluated_action_def bind_res_eq_Inr)
  show ?thesis
  proof (rule that [OF d0])
    show "dget d k = dget d0 k" if "k \<notin> {''evaluation'', ''evidence_card''}" for k
      using assms that by (auto simp: evaluated_action_def d0 bind_res_eq_Inr Let_def split: if_splits)
    show "\<exists>card. dget d ''evidence_card'' = PDict card \<or> dget d ''evidence_card'' = dget d0 ''safety_evidence_card''"
      using assms by (auto simp: evaluated_action_def d0 bind_res_eq_Inr Let_def split: if_splits)
    show "\<exists>final. map_of result ''final'' = Some (PDict final)"
    proof (cases "map_of result ''final''")
      case (Some v)
      with final show ?thesis by (cases v) (simp_all add: final_get_def)
    qed (use final in \<open>simp add: final_get_def\<close>)
  qed
qed

lemma review_not_sent: "is_review_action v \<Longrightarrow> v \<notin> PStr ` {''ban'', ''kick'', ''warn'', ''challenge''}"
  by (auto simp: is_review_action_def safety_review_actions_def)

lemma execute_unsent:
  assumes "unsent d" and "execute_action env tenant d update result = (r, calls)"
  shows "calls = []"
  using assms review_not_sent [of "dget d ''action''"]
  by (auto simp: execute_action_def unsent_def Let_def split: sum.splits prod.splits if_splits)

text \<open>A notice to an administrator of the tenant.\<close>

definition is_notice :: "service \<Rightarrow> string \<Rightarrow> api_call \<Rightarrow> bool" where
  "is_notice s tenant c \<longleftrightarrow> ac_method c = ''sendMessage'' \<and>
     (\<exists>i \<in> set (admin_chats s tenant). dget (ac_payload c) ''chat_id'' = PInt i)"

lemma notify_notices: "c \<in> set (notify_admins env tenant rid review s) \<Longrightarrow> is_notice s tenant c"
  by (auto simp: notify_admins_def is_notice_def dget_def split: sum.splits bool.splits option.splits)

lemma ensure_tenant_admins: "ensure_tenant env tenant s = (r, s') \<Longrightarrow> sv_admin_chats s' = sv_admin_chats s"
  by (auto simp: ensure_tenant_def Let_def split: option.splits sum.splits if_splits)

lemma add_pending_admins: "add_pending_review env tenant d s = (r, s') \<Longrightarrow> sv_admin_chats s' = sv_admin_chats s"
  by (auto simp: add_pending_review_def Let_def split: prod.splits sum.splits if_splits dest: ensure_tenant_admins)

lemma manual_review_calls:
  assumes "handle_manual_review env tenant action update result s = (s', calls)"
  shows "(\<forall>c \<in> set calls. is_notice s tenant c) \<and> sv_admin_chats s' = sv_admin_chats s"
  using assms add_pending_admins
  by (fastforce simp: handle_manual_review_def is_notice_def admin_chats_def split: sum.splits prod.splits dest: notify_notices)

lemma store_session_admins [simp]: "sv_admin_chats (store_session env sid d s) = sv_admin_chats s"
  by (simp add: store_session_def)

lemma load_session_admins: "load_session env sid tenant s = (d, s') \<Longrightarrow> sv_admin_chats s' = sv_admin_chats s"
  by (auto simp: load_session_def Let_def split: option.splits if_splits)

lemma is_notice_admins: "sv_admin_chats s = sv_admin_chats s' \<Longrightarrow> is_notice s = is_notice s'"
  by (auto simp: is_notice_def admin_chats_def fun_eq_iff)

lemma conclude_calls:
  assumes "conclude env tenant sid session a event update result s = (r, s', calls)"
    and "\<And>d. evaluated_action env tenant a event result = Inr d \<Longrightarrow> unsent d"
  shows "\<forall>c \<in> set calls. is_notice s tenant c"
proof (cases "evaluated_action env tenant a event result")
  case (Inr d)
  obtain x own where x: "execute_action env tenant d update result = (x, own)" by fastforce
  have own: "own = []" by (rule execute_unsent [OF assms(2) [OF Inr] x])
  show ?thesis
    using assms(1) manual_review_calls
    by (fastforce simp: conclude_def Inr x own Let_def is_notice_def admin_chats_def split: sum.splits prod.splits if_splits)
qed (use assms(1) in \<open>simp add: conclude_def\<close>)

text \<open>The course of an update that reaches its end.\<close>

lemma decide_event_calls:
  assumes "decide_event env decider tenant event update ad s = (r, s', calls)"
    and "\<And>a result d. evaluated_action env tenant a event result = Inr d \<Longrightarrow> unsent d"
  shows "\<forall>c \<in> set calls. is_notice s tenant c"
proof -
  let ?sid = "event_session env tenant event"
  obtain session s1 where l: "load_session env ?sid tenant s = (session, s1)" by fastforce
  note admins = load_session_admins [OF l]
  show ?thesis
  proof (cases "decider ?sid tenant event session")
    case (Inr x)
    obtain decision result where x: "x = (decision, result)" by fastforce
    obtain a bans where e: "enforce (be_rep env) (be_now env) decision (pa_bans ad) = (a, bans)" by fastforce
    show ?thesis
    proof (cases a)
      case (Inr a')
      have "conclude env tenant ?sid session a' event update result (s1\<lparr>sv_adapters := dset tenant (ad\<lparr>pa_bans := bans\<rparr>) (sv_adapters s1)\<rparr>) = (r, s', calls)"
        using assms(1) by (simp add: decide_event_def Let_def l \<open>decider ?sid tenant event session = Inr x\<close> x e Inr)
      from conclude_calls [OF this assms(2)] show ?thesis
        using is_notice_admins [of "s1\<lparr>sv_adapters := dset tenant (ad\<lparr>pa_bans := bans\<rparr>) (sv_adapters s1)\<rparr>" s] admins by simp
    qed (use assms(1) Inr x e l in \<open>simp add: decide_event_def Let_def\<close>)
  qed (use assms(1) l in \<open>simp add: decide_event_def Let_def\<close>)
qed

lemma process_update_cases:
  assumes "process_update env decider tenant update s = (r, s', calls)"
  obtains (stopped) "calls = []" "\<not> (\<exists>a. r = Inr (Some a))"
  | (event) ad s0 event memory where "ensure_tenant (be_environ env) tenant s = (Inr ad, s0)"
      "parse_update ((be_adapter env)\<lparr>ae_detectors := pa_detectors ad, ae_compiled := pa_compiled ad\<rparr>) update (pa_memory ad) = (Inr (Some event), memory)"
      "decide_event env decider tenant event update (ad\<lparr>pa_memory := memory\<rparr>)
        (s0\<lparr>sv_adapters := dset tenant (ad\<lparr>pa_memory := memory\<rparr>) (sv_adapters s0)\<rparr>) = (r, s', calls)"
proof -
  obtain x s0 where en: "ensure_tenant (be_environ env) tenant s = (x, s0)" by fastforce
  show ?thesis
  proof (cases x)
    case (Inl e)
    with assms en have "calls = []" "\<not> (\<exists>a. r = Inr (Some a))" by (auto simp: process_update_def)
    then show ?thesis by (rule stopped)
  next
    case (Inr ad)
    obtain parsed memory where p: "parse_update ((be_adapter env)\<lparr>ae_detectors := pa_detectors ad, ae_compiled := pa_compiled ad\<rparr>)
        update (pa_memory ad) = (parsed, memory)" by fastforce
    show ?thesis
    proof (cases "\<exists>event. parsed = Inr (Some event)")
      case True
      then obtain event where ev: "parsed = Inr (Some event)" by blast
      show ?thesis
        by (rule event [OF en [unfolded Inr] p [unfolded ev]])
          (use assms in \<open>simp add: process_update_def en Inr p ev Let_def\<close>)
    next
      case False
      with assms en p have "calls = [] \<and> \<not> (\<exists>a. r = Inr (Some a))"
        by (auto simp: process_update_def Inr Let_def split: sum.splits option.splits)
      then show ?thesis using stopped by blast
    qed
  qed
qed

text \<open>C39: A tenant that observes, which is the default and the answer to a misspelled mode, is never acted for: whatever the update, the
  engine and the detectors say, the only calls to the Bot API are notices to the tenant's registered administrators.\<close>

theorem observing_only_notifies:
  assumes "enforcement_mode_for_tenant (be_environ env) tenant = ''observe''"
    and "process_update env decider tenant update s = (r, s', calls)"
  shows "\<forall>c \<in> set calls. is_notice s tenant c"
  using assms(2)
proof (cases rule: process_update_cases)
  case (event ad s0 event memory)
  have "unsent d" if d: "evaluated_action env tenant a event result = Inr d" for a result d
  proof -
    from d obtain d0 where d0: "final_action (be_environ env) tenant a event = Inr d0"
      and same: "\<And>k. k \<notin> {''evaluation'', ''evidence_card''} \<Longrightarrow> dget d k = dget d0 k"
      by (rule evaluated_action_fields) blast
    from d0 have "unsent d0" by (auto simp: final_action_def bind_res_eq_Inr observe_unsent [OF assms(1)])
    then show ?thesis using same [of "''action''"] by (simp add: unsent_def)
  qed
  from decide_event_calls [OF event(3) this] show ?thesis
    using is_notice_admins [of "s0\<lparr>sv_adapters := dset tenant (ad\<lparr>pa_memory := memory\<rparr>) (sv_adapters s0)\<rparr>" s]
      ensure_tenant_admins [OF event(1)] by simp
qed simp

text \<open>A message whose sender the engine wants out, and a mode that is misspelled.\<close>

definition ejecting :: decision_function where
  "ejecting sid tenant event session = Inr
     (\<lparr>decision_id = ''d1'', do_session_id = sid, do_tenant_id = tenant, do_surface = ''telegram'', state = EJECT,
       recommended_enforcement = EnfEject, do_confidence = 0.99, do_risk_level = HighRisk, reason_codes = [], challenge_required = False,
       step_up_required = False, human_review_required = False, evidence_packet_id = ''p1'', argument_graph_id = [], role_report_ids = [],
       decision_trace_id = [], tier_path = Tier0, human_probability = 0, bot_probability = 1, do_explanation = []\<rparr>,
      [(''final'', PDict [(''human_probability'', PFloat 0)])])"

definition bot_in_mode :: "string \<Rightarrow> bot_env" where
  "bot_in_mode mode = \<lparr>be_environ = [(''TELEGRAM_ENFORCEMENT_MODE'', mode), (''TELEGRAM_BOT_TOKEN'', ''token'')], be_token_row = (\<lambda>_. DbDown),
     be_server = (\<lambda>_ _. HttpAnswer 200 ''{}''), be_now = 1000, be_now_text = ''now'', be_uuid = ''r1'', be_rep = (\<lambda>_. []), be_db_up = False,
     be_adapter = plain_env\<rparr>"

definition small_service :: service where
  "small_service = \<lparr>sv_configs = [(''t'', [])],
     sv_adapters = [(''t'', \<lparr>pa_detectors = [], pa_compiled = [], pa_memory = fresh_adapter, pa_bans = []\<rparr>)], sv_sessions = [],
     sv_reviews = [], sv_admin_chats = [(''t'', [5])], sv_groups = [], sv_db_reviews = [], sv_db_sessions = []\<rparr>"

lemma ejected_when_enforcing:
  "case process_update (bot_in_mode ''enforce'') ejecting ''t'' [(''message'', PDict (greeting ''hi''))] small_service of
     (r, s', calls) \<Rightarrow> map ac_method calls = [''banChatMember'']"
  by code_simp

theorem observing_only_notifies_witness:
  "\<exists>r s' calls. process_update (bot_in_mode ''enforced'') ejecting ''t'' [(''message'', PDict (greeting ''hi''))] small_service = (r, s', calls) \<and>
     ''banChatMember'' \<notin> ac_method ` set calls"
proof -
  obtain r s' calls where run: "process_update (bot_in_mode ''enforced'') ejecting ''t'' [(''message'', PDict (greeting ''hi''))] small_service
      = (r, s', calls)" by (metis prod_cases3)
  have "enforcement_mode_for_tenant (be_environ (bot_in_mode ''enforced'')) ''t'' = ''observe''" by code_simp
  from observing_only_notifies [OF this run] have "\<forall>c \<in> set calls. ac_method c = ''sendMessage''" by (simp add: is_notice_def)
  then have "''banChatMember'' \<notin> ac_method ` set calls" by auto
  with run show ?thesis by blast
qed

end
