(* ===== verification/Telegram_Service.thy ===== *)
theory Telegram_Service
  imports Telegram_Reviews
begin

text \<open>
  The life of the protection service: the operations that lead from one state of its reviews to the next, and why
  an action of an administrator is carried out only where it was decided.
\<close>

section \<open>What was entered\<close>

type_synonym decision_log = "(string \<times> string \<times> string) list"

text \<open>Every resolved review, in memory or in the database, bears a decision that was entered for it.\<close>

definition entered :: "decision_log \<Rightarrow> service \<Rightarrow> bool" where
  "entered entries s \<longleftrightarrow> (\<forall>tenant rid d. map_of (tenant_reviews s tenant) rid = Some d \<or> db_review s tenant rid = Some d \<longrightarrow>
     dget d ''status'' = PStr ''resolved'' \<longrightarrow>
     (\<exists>decision. dget d ''admin_decision'' = PStr decision \<and> (tenant, rid, decision) \<in> set entries))"

lemma enteredD:
  assumes "entered entries s" and "map_of (tenant_reviews s tenant) rid = Some d \<or> db_review s tenant rid = Some d"
    and "dget d ''status'' = PStr ''resolved''"
  obtains decision where "dget d ''admin_decision'' = PStr decision" "(tenant, rid, decision) \<in> set entries"
  using assms unfolding entered_def by blast

lemma entered_more: "entered entries s \<Longrightarrow> entered (e # entries) s"
  unfolding entered_def by (meson list.set_intros(2))

definition reviews_of :: "service \<Rightarrow> (string \<times> (string \<times> dict) list) list \<times> (string \<times> review_row) list" where
  "reviews_of s = (sv_reviews s, sv_db_reviews s)"

lemma entered_same: "reviews_of s' = reviews_of s \<Longrightarrow> entered entries s' = entered entries s"
  by (simp add: entered_def tenant_reviews_def db_review_def reviews_of_def)

lemma ensure_tenant_reviews: "ensure_tenant env tenant s = (r, s') \<Longrightarrow> reviews_of s' = reviews_of s"
  by (auto simp: ensure_tenant_def reviews_of_def Let_def split: option.splits sum.splits if_splits)

lemma store_session_reviews: "reviews_of (store_session env sid d s) = reviews_of s"
  by (simp add: store_session_def reviews_of_def)

lemma load_session_reviews: "load_session env sid tenant s = (d, s') \<Longrightarrow> reviews_of s' = reviews_of s"
  by (auto simp: load_session_def reviews_of_def Let_def split: option.splits if_splits)

section \<open>Every operation keeps it\<close>

lemma new_review_pending: "dget (new_review env tenant data) ''status'' = PStr ''pending''"
  by (simp add: new_review_def dget_dset)

lemma entered_add:
  assumes "add_pending_review env tenant data s = (r, s')" and "entered entries s"
  shows "entered entries s'"
proof -
  obtain x s0 where en: "ensure_tenant (be_environ env) tenant s = (x, s0)" by fastforce
  have kept: "entered entries s0" using entered_same [OF ensure_tenant_reviews [OF en]] assms(2) by simp
  show ?thesis
  proof (cases x)
    case (Inr a)
    let ?d = "new_review env tenant data" and ?rid = "be_uuid env"
    have memory: "map_of (tenant_reviews s' t) k =
        (if t = tenant \<and> k = ?rid then Some ?d else map_of (tenant_reviews s0 t) k)" for t k
      using assms(1) by (auto simp: add_pending_review_def en Inr Let_def tenant_reviews_def)
    have stored: "db_review s' t k = Some d \<Longrightarrow> d = ?d \<or> db_review s0 t k = Some d" for t k d
      using assms(1) by (auto simp: add_pending_review_def en Inr Let_def db_review_def map_add_def split: if_splits option.splits)
    show ?thesis
      unfolding entered_def
    proof (intro allI impI)
      fix t k d
      assume here: "map_of (tenant_reviews s' t) k = Some d \<or> db_review s' t k = Some d" and fin: "dget d ''status'' = PStr ''resolved''"
      then have "d \<noteq> ?d" using new_review_pending [of env tenant data] by auto
      with here memory stored have "map_of (tenant_reviews s0 t) k = Some d \<or> db_review s0 t k = Some d"
        by (metis option.inject)
      with kept fin show "\<exists>decision. dget d ''admin_decision'' = PStr decision \<and> (t, k, decision) \<in> set entries"
        unfolding entered_def by blast
    qed
  qed (use assms(1) en kept in \<open>simp add: add_pending_review_def\<close>)
qed

lemma resolved_fields:
  "dget (resolved env decision notes d) ''admin_decision'' = PStr decision"
  by (simp add: resolved_def dget_dset)

lemma entered_resolve:
  assumes "resolve_review env tenant rid decision notes s = (r, s')" and "entered entries s"
  shows "entered (if r = Inr True then (tenant, rid, decision) # entries else entries) s'"
proof -
  obtain x s0 where en: "ensure_tenant (be_environ env) tenant s = (x, s0)" by fastforce
  have kept: "entered entries s0" using entered_same [OF ensure_tenant_reviews [OF en]] assms(2) by simp
  show ?thesis
  proof (cases "r = Inr True")
    case True
    have memory: "map_of (tenant_reviews s' t) k = Some d \<Longrightarrow>
        (t = tenant \<and> k = rid \<and> dget d ''admin_decision'' = PStr decision) \<or> map_of (tenant_reviews s0 t) k = Some d" for t k d
      using assms(1) True
      by (auto simp: resolve_review_def en tenant_reviews_def resolved_fields split: sum.splits option.splits if_splits)
    have table: "sv_db_reviews s' = sv_db_reviews s0 \<or> (\<exists>d0. sv_db_reviews s' =
        dset rid \<lparr>rw_tenant = tenant, rw_status = ''resolved'', rw_data = resolved env decision notes d0\<rparr> (sv_db_reviews s0))"
      using assms(1) True by (auto simp: resolve_review_def en split: sum.splits option.splits if_splits)
    have stored: "(t = tenant \<and> k = rid \<and> dget d ''admin_decision'' = PStr decision) \<or> db_review s0 t k = Some d"
      if "db_review s' t k = Some d" for t k d
      using table that by (elim disjE exE) (simp_all add: db_review_def resolved_fields split: option.splits if_splits, auto simp: resolved_fields)
    show ?thesis
      unfolding entered_def
    proof (intro allI impI)
      fix t k d
      assume here: "map_of (tenant_reviews s' t) k = Some d \<or> db_review s' t k = Some d" and fin: "dget d ''status'' = PStr ''resolved''"
      then consider "t = tenant" "k = rid" "dget d ''admin_decision'' = PStr decision"
        | "map_of (tenant_reviews s0 t) k = Some d \<or> db_review s0 t k = Some d" using memory stored by blast
      then show "\<exists>decision'. dget d ''admin_decision'' = PStr decision' \<and>
          (t, k, decision') \<in> set (if r = Inr True then (tenant, rid, decision) # entries else entries)"
      proof cases
        case 1
        then show ?thesis using True by auto
      next
        case 2
        obtain decision' where "dget d ''admin_decision'' = PStr decision'" "(t, k, decision') \<in> set entries"
          using kept 2 fin by (rule enteredD)
        then show ?thesis by (simp add: True)
      qed
    qed
  next
    case False
    have "s' = s0" using assms(1) False
      by (auto simp: resolve_review_def en split: sum.splits option.splits if_splits)
    then show ?thesis using kept False by simp
  qed
qed

lemma entered_manual_review:
  assumes "handle_manual_review env tenant action update result s = (s', calls)" and "entered entries s"
  shows "entered entries s'"
  using assms entered_add by (fastforce simp: handle_manual_review_def split: sum.splits prod.splits)

lemma entered_conclude:
  assumes "conclude env tenant sid session a event update result s = (r, s', calls)" and "entered entries s"
  shows "entered entries s'"
  using assms entered_manual_review
  by (fastforce simp: conclude_def Let_def entered_same [OF store_session_reviews] split: sum.splits prod.splits if_splits)

lemma entered_adapters: "entered entries (s\<lparr>sv_adapters := ads\<rparr>) = entered entries s"
  by (rule entered_same) (simp add: reviews_of_def)

lemma entered_decide:
  assumes "decide_event env decider tenant event update ad s = (r, s', calls)" and "entered entries s"
  shows "entered entries s'"
proof -
  obtain session s1 where l: "load_session env (event_session env tenant event) tenant s = (session, s1)" by fastforce
  have "entered entries s1" using entered_same [OF load_session_reviews [OF l]] assms(2) by simp
  then show ?thesis using assms(1) entered_conclude
    by (fastforce simp: decide_event_def Let_def l entered_adapters split: sum.splits prod.splits)
qed

lemma entered_process:
  assumes "process_update env decider tenant update s = (r, s', calls)" and "entered entries s"
  shows "entered entries s'"
proof -
  obtain x s0 where en: "ensure_tenant (be_environ env) tenant s = (x, s0)" by fastforce
  have kept: "entered entries s0" using entered_same [OF ensure_tenant_reviews [OF en]] assms(2) by simp
  show ?thesis using assms(1) kept entered_decide
    by (fastforce simp: process_update_def en Let_def entered_adapters split: sum.splits prod.splits option.splits)
qed

section \<open>The states the service reaches\<close>

text \<open>The service starts for some tenant, and serves requests in any order; each finds its own environment (clock, database up
  or down, answers of the Bot API). It may be restarted, which leaves the database only, and another service of the
  process may file reviews in the same database. The second argument collects the decisions that the endpoint accepted.\<close>

inductive served :: "service \<Rightarrow> decision_log \<Rightarrow> bool" where
  served_start: "new_service env tenant = Inr s \<Longrightarrow> served s []"
| served_update: "served s entries \<Longrightarrow> process_update env decider tenant update s = (r, s', calls) \<Longrightarrow> served s' entries"
| served_config: "served s entries \<Longrightarrow> update_tenant_config env tenant config s = (r, s') \<Longrightarrow> served s' entries"
| served_group: "served s entries \<Longrightarrow> register_group env tenant chat admin s = (r, s') \<Longrightarrow> served s' entries"
| served_review: "served s entries \<Longrightarrow> add_pending_review env tenant data s = (r, s') \<Longrightarrow> served s' entries"
| served_accepted: "served s entries \<Longrightarrow> resolve_endpoint env tenant rid resolution s = (Inr (), s') \<Longrightarrow>
    dget resolution ''decision'' = PStr decision \<Longrightarrow> served s' ((tenant, rid, decision) # entries)"
| served_restart: "served s entries \<Longrightarrow> new_service env tenant = Inr s' \<Longrightarrow>
    served (s'\<lparr>sv_db_reviews := sv_db_reviews s, sv_db_sessions := sv_db_sessions s\<rparr>) entries"
| served_elsewhere: "served s entries \<Longrightarrow> add_pending_review env tenant data s = (r, s') \<Longrightarrow>
    served (s\<lparr>sv_db_reviews := sv_db_reviews s'\<rparr>) entries"
| served_refused: "served s entries \<Longrightarrow> resolve_endpoint env tenant rid resolution s = (Inl e, s') \<Longrightarrow> served s' entries"

lemma resolve_endpoint_cases:
  assumes "resolve_endpoint env tenant rid resolution s = (r, s')"
  obtains (untouched) e where "s' = s" "r = Inl e"
  | (asked) decision x where "dget resolution ''decision'' = PStr decision" "decision \<in> set admin_decisions"
      "resolve_review env tenant rid decision (dget_default resolution ''notes'' (PStr [])) s = (x, s')" "r = Inr () \<longleftrightarrow> x = Inr True"
proof (cases "\<exists>decision. dget resolution ''decision'' = PStr decision \<and> decision \<in> set admin_decisions")
  case True
  then obtain decision where d: "dget resolution ''decision'' = PStr decision" "decision \<in> set admin_decisions" by blast
  then have "decision \<noteq> []" by (auto simp: admin_decisions_def)
  obtain x s1 where x: "resolve_review env tenant rid decision (dget_default resolution ''notes'' (PStr [])) s = (x, s1)" by fastforce
  have "s1 = s' \<and> (r = Inr () \<longleftrightarrow> x = Inr True)"
    using assms d \<open>decision \<noteq> []\<close> x by (auto simp: resolve_endpoint_def split: sum.splits bool.splits)
  then show ?thesis using asked [OF d] x by simp
next
  case False
  then have "s' = s \<and> isl r"
    using assms by (auto simp: resolve_endpoint_def split: pv.splits if_splits)
  then show ?thesis using untouched by (cases r) auto
qed

lemma update_config_reviews: "update_tenant_config env tenant config s = (r, s') \<Longrightarrow> reviews_of s' = reviews_of s"
  using ensure_tenant_reviews
  by (fastforce simp: update_tenant_config_def reviews_of_def Let_def split: prod.splits sum.splits)

lemma register_group_reviews: "register_group env tenant chat admin s = (r, s') \<Longrightarrow> reviews_of s' = reviews_of s"
  using ensure_tenant_reviews
  by (fastforce simp: register_group_def reviews_of_def Let_def split: prod.splits sum.splits option.splits if_splits)

lemma served_entered: "served s entries \<Longrightarrow> entered entries s"
proof (induction rule: served.induct)
  case (served_start env tenant s)
  then show ?case by (auto simp: new_service_def bind_res_eq_Inr entered_def tenant_reviews_def db_review_def)
next
  case (served_accepted s entries env tenant rid resolution s' decision)
  from served_accepted.hyps(2) show ?case
  proof (cases rule: resolve_endpoint_cases)
    case (asked decision' x)
    then show ?thesis using entered_resolve [OF asked(3) served_accepted.IH] served_accepted.hyps(3) by simp
  qed simp
next
  case (served_refused s entries env tenant rid resolution e s')
  from served_refused.hyps(2) show ?case
  proof (cases rule: resolve_endpoint_cases)
    case (asked decision x)
    then show ?thesis using entered_resolve [OF asked(3) served_refused.IH] by simp
  qed (use served_refused.IH in simp)
next
  case (served_restart s entries env tenant s')
  then show ?case by (auto simp: new_service_def bind_res_eq_Inr entered_def tenant_reviews_def db_review_def)
next
  case (served_elsewhere s entries env tenant data r s')
  have "entered entries s'" by (rule entered_add [OF served_elsewhere.hyps(2) served_elsewhere.IH])
  with served_elsewhere.IH show ?case by (simp add: entered_def tenant_reviews_def db_review_def)
qed (simp_all add: entered_process entered_add entered_same [OF update_config_reviews] entered_same [OF register_group_reviews])

section \<open>What is carried out\<close>

lemma carry_out_calls: "carry_out env tenant rid decision review = (r, calls) \<Longrightarrow>
    calls = [] \<or> (\<exists>chat user m. calls = [review_call env decision chat user m] \<and> missing_reference decision chat user m = None)"
  by (auto simp: carry_out_def Let_def split: sum.splits prod.splits option.splits if_splits)

lemma executed_review:
  assumes "execute_review_decision env tenant rid s = (r, calls)" and "calls \<noteq> []"
  obtains review decision chat user m where "map_of (tenant_reviews s tenant) rid = Some review \<or> db_review s tenant rid = Some review"
    "dget review ''status'' = PStr ''resolved''" "dget review ''admin_decision'' = PStr decision"
    "decision \<in> {''ban'', ''kick'', ''warn'', ''delete''}" "calls = [review_call env decision chat user m]"
    "missing_reference decision chat user m = None"
proof -
  let ?memory = "case map_of (tenant_reviews s tenant) rid of None \<Rightarrow> None | Some d \<Rightarrow> if d = [] then None else Some d"
  let ?found = "case (if be_db_up env then db_review s tenant rid else None) of Some d \<Rightarrow> Some d | None \<Rightarrow> ?memory"
  obtain review where review: "?found = Some review"
    using assms by (cases ?found) (auto simp: execute_review_decision_def)
  then have stored: "map_of (tenant_reviews s tenant) rid = Some review \<or> db_review s tenant rid = Some review"
    by (auto split: option.splits if_splits)
  have fin: "dget review ''status'' = PStr ''resolved''"
    using assms review by (auto simp: execute_review_decision_def split: if_splits)
  obtain decision where d: "dget review ''admin_decision'' = PStr decision"
    using assms review fin by (cases "dget review ''admin_decision''") (auto simp: execute_review_decision_def split: if_splits)
  have "decision \<in> {''ban'', ''kick'', ''warn'', ''delete''} \<and> carry_out env tenant rid decision review = (r, calls)"
    using assms review fin d by (auto simp: execute_review_decision_def split: if_splits)
  then show ?thesis using that [OF stored fin d] carry_out_calls assms(2) by blast
qed

lemma execute_endpoint_calls:
  assumes "execute_endpoint env tenant rid s = (r, calls)" and "calls \<noteq> []"
  shows "\<exists>r'. execute_review_decision env tenant rid s = (r', calls)"
  using assms by (auto simp: execute_endpoint_def Let_def split: if_splits sum.splits prod.splits)

text \<open>C25: An action of an administrator is carried out only where it was decided: whatever updates, configurations, reviews and
  resolutions the service has handled, in any order, with restarts between and with or without its database, the execution
  endpoint issues at most one call to the Bot API (repeated only on transient failures), and it issues that for a decision
  which the resolution endpoint accepted for that review of that tenant, one of ban, kick, warn and delete, with the
  chat, user or message it needs. It may issue it again when asked again, and, when the database comes and goes, for an
  earlier decision than the last.\<close>

theorem carried_out_as_decided:
  assumes "served s entries" and "execute_endpoint env tenant rid s = (r, calls)"
  shows "calls = [] \<or> (\<exists>decision chat user m. (tenant, rid, decision) \<in> set entries \<and>
    decision \<in> {''ban'', ''kick'', ''warn'', ''delete''} \<and> missing_reference decision chat user m = None \<and>
    calls = [review_call env decision chat user m])"
proof (cases "calls = []")
  case False
  then obtain r' where "execute_review_decision env tenant rid s = (r', calls)" using execute_endpoint_calls [OF assms(2)] by blast
  then obtain review decision chat user m where e: "map_of (tenant_reviews s tenant) rid = Some review \<or> db_review s tenant rid = Some review"
    "dget review ''status'' = PStr ''resolved''" "dget review ''admin_decision'' = PStr decision"
    "decision \<in> {''ban'', ''kick'', ''warn'', ''delete''}" "calls = [review_call env decision chat user m]"
    "missing_reference decision chat user m = None" using False by (rule executed_review)
  obtain decision' where "dget review ''admin_decision'' = PStr decision'" "(tenant, rid, decision') \<in> set entries"
    using served_entered [OF assms(1)] e(1,2) by (rule enteredD)
  then show ?thesis using e by auto
qed simp

section \<open>A ban by an administrator\<close>

definition reported :: dict where
  "reported = [(''telegram_refs'', PDict [(''chat_id'', PInt 9), (''message_id'', PInt 3), (''sender_id'', PInt 7)])]"

lemma service_starts: "\<exists>s. new_service [] ''t'' = Inr s"
proof -
  have "\<not> isl (new_service [] ''t'')" by code_simp
  then show ?thesis by (cases "new_service [] ''t''") auto
qed

lemma execute_endpoint_memory:
  assumes "\<not> be_db_up env" and "sv_reviews s = sv_reviews s'"
  shows "execute_endpoint env tenant rid s = execute_endpoint env tenant rid s'"
proof -
  have "tenant_reviews s = tenant_reviews s'" using assms(2) by (simp add: tenant_reviews_def fun_eq_iff)
  then have "execute_review_decision env tenant rid s = execute_review_decision env tenant rid s'"
    "get_review env tenant rid s = get_review env tenant rid s'"
    unfolding execute_review_decision_def get_review_def using assms(1) by simp_all
  then show ?thesis unfolding execute_endpoint_def by (simp only:)
qed

lemma banned_by_decision:
  "snd (execute_endpoint (bot_in_mode ''observe'') ''t'' ''r1'' (small_service\<lparr>sv_reviews := [(''t'', [(''r1'',
     resolved (bot_in_mode ''observe'') ''ban'' (PStr []) (new_review (bot_in_mode ''observe'') ''t'' reported))])]\<rparr>)) =
     [\<lparr>ac_method = ''banChatMember'', ac_payload = [(''chat_id'', PInt 9), (''user_id'', PInt 7)]\<rparr>]"
  by code_simp

theorem carried_out_as_decided_witness:
  "\<exists>s entries. served s entries \<and> (''t'', ''r1'', ''ban'') \<in> set entries \<and>
     snd (execute_endpoint (bot_in_mode ''observe'') ''t'' ''r1'' s) = [\<lparr>ac_method = ''banChatMember'', ac_payload = [(''chat_id'', PInt 9), (''user_id'', PInt 7)]\<rparr>]"
proof -
  let ?env = "bot_in_mode ''observe''"
  obtain s0 where s0: "new_service [] ''t'' = Inr s0" using service_starts by blast
  then obtain a where a: "map_of (sv_adapters s0) ''t'' = Some a" "dhas (sv_configs s0) ''t''" "sv_reviews s0 = []"
    by (auto simp: new_service_def bind_res_eq_Inr dhas_def)
  let ?d = "new_review ?env ''t'' reported"
  let ?s1 = "s0\<lparr>sv_reviews := [(''t'', [(''r1'', ?d)])]\<rparr>"
  have 1: "add_pending_review ?env ''t'' reported s0 = (Inr (''r1'', ?d), ?s1)"
    using a by (simp add: add_pending_review_def ensure_tenant_def tenant_reviews_def bot_in_mode_def new_review_def Let_def)
  let ?d2 = "resolved ?env ''ban'' (PStr []) ?d"
  let ?s2 = "s0\<lparr>sv_reviews := [(''t'', [(''r1'', ?d2)])]\<rparr>"
  have 2: "resolve_endpoint ?env ''t'' ''r1'' [(''decision'', PStr ''ban'')] ?s1 = (Inr (), ?s2)"
    using a by (simp add: resolve_endpoint_def admin_decisions_def resolve_review_def ensure_tenant_def tenant_reviews_def bot_in_mode_def
        dget_def dget_default_def new_review_def reported_def Let_def)
  have served: "served ?s2 [(''t'', ''r1'', ''ban'')]"
    by (rule served_accepted [OF served_review [OF served_start [OF s0] 1] 2]) (simp add: dget_def)
  have "execute_endpoint ?env ''t'' ''r1'' ?s2 = execute_endpoint ?env ''t'' ''r1'' (small_service\<lparr>sv_reviews := [(''t'', [(''r1'', ?d2)])]\<rparr>)"
    by (rule execute_endpoint_memory) (simp_all add: bot_in_mode_def)
  then have calls: "snd (execute_endpoint ?env ''t'' ''r1'' ?s2) =
      [\<lparr>ac_method = ''banChatMember'', ac_payload = [(''chat_id'', PInt 9), (''user_id'', PInt 7)]\<rparr>]"
    by (simp only: banned_by_decision)
  obtain r where x: "execute_endpoint ?env ''t'' ''r1'' ?s2 = (r, snd (execute_endpoint ?env ''t'' ''r1'' ?s2))" by (metis prod.collapse)
  have "\<exists>decision. (''t'', ''r1'', decision) \<in> set [(''t'', ''r1'', ''ban'')]"
    using carried_out_as_decided [OF served x] unfolding calls by blast
  with served calls show ?thesis by fastforce
qed

end
