(* ===== verification/Telegram_Environment.thy ===== *)
theory Telegram_Environment
  imports Telegram_Bot
begin

text \<open>
  The custom detectors that the protection service reads from its environment variables: under which properties
  the values are filed, and what the adapter makes of them.
\<close>

section \<open>Detectors from the environment\<close>

lemma split_on_Cons_cases: "\<exists>p ps. split_on c s = p # ps"
  by (induction s) (auto split: list.splits)

lemma split_on_append: "split_on c (s @ c # t) = split_on c s @ split_on c t"
proof (induction s)
  case (Cons x s)
  obtain p ps where "split_on c s = p # ps" using split_on_Cons_cases by blast
  with Cons show ?case by simp
qed simp

lemma split_on_plain: "c \<notin> set s \<Longrightarrow> split_on c s = [s]"
  by (induction s) auto

lemma join_split: "join [c] (split_on c s) = s"
proof (induction s)
  case (Cons x s)
  obtain p ps where "split_on c s = p # ps" using split_on_Cons_cases by blast
  with Cons show ?case by (cases ps) auto
qed simp

lemma split_on_pieces: "p \<in> set (split_on c s) \<Longrightarrow> c \<notin> set p"
  by (induction s arbitrary: p) (fastforce split: list.splits if_splits)+

lemma join_has_sep: "2 \<le> length ps \<Longrightarrow> c \<in> set (join [c] ps)"
  by (cases ps; cases "tl ps") auto

lemma underscore_lower: "CHR ''_'' \<in> set s \<Longrightarrow> CHR ''_'' \<in> set (lower s)"
proof -
  have "lower_char (CHR ''_'') = CHR ''_''" by code_simp
  then show "CHR ''_'' \<in> set s \<Longrightarrow> CHR ''_'' \<in> set (lower s)" by (force simp: lower_def image_iff intro: bexI [of _ "CHR ''_''"])
qed

lemma custom_prop_patterns:
  assumes "starts_with (custom_prefix tenant) key" and "custom_prop key = ''patterns''"
  shows "lower (custom_name tenant key) = ''patterns''"
proof -
  obtain rest where key: "key = custom_prefix tenant @ rest" using assms(1) by (auto simp: starts_with_iff prefix_def)
  have two: "split_on (CHR ''_'') (''CUSTOM_DETECTOR_'' @ s) = [''CUSTOM'', ''DETECTOR''] @ split_on (CHR ''_'') s" for s
    using split_on_append [of "CHR ''_''" "''CUSTOM''" "''DETECTOR_'' @ s"] split_on_append [of "CHR ''_''" "''DETECTOR''" s] by simp
  have parts: "split_on (CHR ''_'') key = [''CUSTOM'', ''DETECTOR''] @ split_on (CHR ''_'') (upper tenant) @ split_on (CHR ''_'') rest"
    using two [of "upper tenant @ ''_'' @ rest"] split_on_append [of "CHR ''_''" "upper tenant" rest]
    by (simp add: key custom_prefix_def tenant_var_def)
  obtain p ps where p: "split_on (CHR ''_'') (upper tenant) = p # ps" using split_on_Cons_cases by blast
  let ?kept = "ps @ split_on (CHR ''_'') rest"
  have pr: "lower (join ''_'' ?kept) = ''patterns''" using assms(2) by (simp add: custom_prop_def parts p)
  obtain q qs where q: "split_on (CHR ''_'') rest = q # qs" using split_on_Cons_cases by blast
  have "\<not> 2 \<le> length ?kept"
  proof
    assume "2 \<le> length ?kept"
    then have "CHR ''_'' \<in> set (lower (join ''_'' ?kept))" by (intro underscore_lower join_has_sep)
    then show False by (simp add: pr)
  qed
  moreover have "length ?kept = Suc (length ps + length qs)" by (simp add: q)
  ultimately have "length ps + length qs = 0" by linarith
  then have "ps = []" "qs = []" by simp_all
  then have "lower q = ''patterns''" using pr by (simp add: q)
  then show ?thesis by (simp add: custom_name_def key q)
qed

definition patterns_only_by_name :: "(string \<times> dict) list \<Rightarrow> bool" where
  "patterns_only_by_name ds \<longleftrightarrow> distinct (map fst ds) \<and>
     (\<forall>(name, d) \<in> set ds. CHR ''_'' \<notin> set name \<and> (dhas d ''patterns'' \<longrightarrow> lower name = ''patterns''))"

lemma add_custom_variable_keeps:
  assumes "patterns_only_by_name ds"
  shows "patterns_only_by_name (add_custom_variable tenant kv ds)"
proof (cases "starts_with (custom_prefix tenant) (fst kv)")
  case True
  let ?name = "custom_name tenant (fst kv)"
  obtain q qs where q: "split_on (CHR ''_'') (drop (length (custom_prefix tenant)) (fst kv)) = q # qs" using split_on_Cons_cases by blast
  have plain: "CHR ''_'' \<notin> set ?name" using split_on_pieces [of q "CHR ''_''" "drop (length (custom_prefix tenant)) (fst kv)"] q by (simp add: custom_name_def)
  have old: "dhas (case map_of ds ?name of None \<Rightarrow> [] | Some d \<Rightarrow> d) ''patterns'' \<Longrightarrow> lower ?name = ''patterns''"
    using assms by (auto simp: patterns_only_by_name_def dhas_def split: option.splits dest: map_of_SomeD)
  show ?thesis
    using assms True plain old custom_prop_patterns [OF True]
    by (auto simp: patterns_only_by_name_def add_custom_variable_def Let_def distinct_dset dest!: set_dset_subset [THEN subsetD])
qed (use assms in \<open>simp add: add_custom_variable_def\<close>)

lemma custom_detectors_keep: "patterns_only_by_name (custom_detectors_from_env env tenant)"
proof -
  have "patterns_only_by_name ds \<Longrightarrow> patterns_only_by_name (fold (add_custom_variable tenant) e ds)" for e ds
    by (induction e arbitrary: ds) (simp_all add: add_custom_variable_keeps)
  from this [of "[]"] show ?thesis by (simp add: custom_detectors_from_env_def patterns_only_by_name_def)
qed

lemma add_custom_tier:
  "add_custom cs ds = Inr ds' \<Longrightarrow> (name, c) \<in> set ds' \<Longrightarrow>
     (name, c) \<in> set ds \<or> (\<exists>v. (name, v) \<in> set cs \<and> py_get v ''patterns'' (PList []) = Inr (dc_patterns c))"
proof (induction cs ds rule: add_custom.induct)
  case (2 n cfg rest ds)
  obtain enabled patterns where f: "py_get cfg ''enabled'' (PBool True) = Inr enabled" "py_get cfg ''patterns'' (PList []) = Inr patterns"
    and rest: "add_custom rest (dset n \<lparr>dc_enabled = enabled, dc_patterns = patterns, dc_tier = CustomTier\<rparr> ds) = Inr ds'"
    using 2(2) by (auto simp: bind_res_eq_Inr)
  show ?case
    using 2(1) [OF rest 2(3)] f(2) by (auto dest!: set_dset_subset [THEN subsetD])
qed simp

lemma add_policy_tier:
  "add_policy cfg ps ds = Inr ds' \<Longrightarrow> (name, c) \<in> set ds' \<Longrightarrow> (name, c) \<in> set ds \<or> dc_tier c \<noteq> CustomTier"
proof (induction cfg ps ds rule: add_policy.induct)
  case (2 cfg n ps rest ds)
  then show ?case by (fastforce simp: bind_res_eq_Inr dest!: set_dset_subset [THEN subsetD])
qed simp

lemma core_tier: "(name, c) \<in> set core_config \<Longrightarrow> dc_tier c = CoreTier"
  by (auto simp: core_config_def)

lemma compile_truthy:
  "compile_patterns ds = Inr compiled \<Longrightarrow> distinct (map fst ds) \<Longrightarrow> map_of ds name = Some c \<Longrightarrow> \<not> truthy (dc_patterns c) \<Longrightarrow>
     map_of compiled name = None"
proof (induction ds arbitrary: compiled rule: compile_patterns.induct)
  case (2 n d ds)
  show ?case
  proof (cases "n = name")
    case True
    with 2(3-) show ?thesis by (auto intro: compile_fst split: if_splits)
  next
    case False
    with 2 show ?thesis by (auto simp: bind_res_eq_Inr split: if_splits)
  qed
qed simp

text \<open>A custom detector configured through the environment never matches anything, unless it is itself called patterns: the
  variable that should carry its patterns is filed under another property, because the name of the detector is left in.\<close>

theorem environment_detectors_never_match:
  assumes "configure_detectors (load_tenant_config env tenant) = Inr ds" and "compile_patterns ds = Inr compiled"
    and "(name, c) \<in> set ds" and "dc_tier c = CustomTier" and "lower name \<noteq> ''patterns''"
  shows "name \<notin> set (an_threats (analyze_content findall ds compiled txt sim))"
proof -
  let ?customs = "map (apsnd PDict) (custom_detectors_from_env env tenant)"
  obtain ds0 where p: "add_policy (load_tenant_config env tenant) policy_detectors core_config = Inr ds0"
    and a: "add_custom ?customs ds0 = Inr ds"
    using assms(1) by (auto simp: configure_detectors_def bind_res_eq_Inr load_tenant_config_def dget_default_def)
  have dist: "distinct (map fst ds)"
    using add_custom_facts [OF a] add_policy_facts [OF p distinct_core_config] by blast
  obtain v where v: "(name, v) \<in> set ?customs" "py_get v ''patterns'' (PList []) = Inr (dc_patterns c)"
    using add_custom_tier [OF a assms(3)] add_policy_tier [OF p] core_tier assms(4) by fastforce
  obtain d where d: "(name, d) \<in> set (custom_detectors_from_env env tenant)" "v = PDict d" using v(1) by auto
  have keep: "CHR ''_'' \<notin> set name" "\<not> dhas d ''patterns''"
    using custom_detectors_keep [of env tenant] d(1) assms(5) by (auto simp: patterns_only_by_name_def)
  then have "\<not> truthy (dc_patterns c)" using v(2) d(2) by (cases "dc_patterns c") (simp_all add: dget_default_def dhas_def)
  moreover have look: "map_of ds name = Some c" using dist assms(3) by simp
  ultimately have "map_of compiled name = None" using compile_truthy [OF assms(2) dist] by blast
  moreover have "name \<noteq> ''mirrors_userbots''" using keep(1) by auto
  ultimately show ?thesis by (simp add: threats_iff [OF dist look] matches_of_def)
qed

definition spam_environ :: environ where
  "spam_environ = [(''CUSTOM_DETECTOR_ACME_SPAM_PATTERNS'', ''buy now''), (''CUSTOM_DETECTOR_ACME_SPAM_SEVERITY'', ''high'')]"

theorem environment_detectors_never_match_witness:
  "\<exists>ds compiled. configure_detectors (load_tenant_config spam_environ ''acme'') = Inr ds \<and> compile_patterns ds = Inr compiled \<and>
     dhas ds ''SPAM'' \<and> ''SPAM'' \<notin> set (an_threats (analyze_content (\<lambda>p t. [PStr t, PStr t]) ds compiled ''buy now'' 0))"
proof -
  have "case bind_res (configure_detectors (load_tenant_config spam_environ ''acme'')) (\<lambda>ds. bind_res (compile_patterns ds) (\<lambda>cs. Inr (ds, cs))) of
      Inl e \<Rightarrow> False | Inr (ds, cs) \<Rightarrow> (case map_of ds ''SPAM'' of None \<Rightarrow> False | Some c \<Rightarrow> dc_tier c = CustomTier)"
    by code_simp
  then obtain ds compiled c where d: "configure_detectors (load_tenant_config spam_environ ''acme'') = Inr ds" "compile_patterns ds = Inr compiled"
      "map_of ds ''SPAM'' = Some c" "dc_tier c = CustomTier"
    by (auto simp: bind_res_eq_Inr split: sum.splits option.splits)
  have "lower ''SPAM'' \<noteq> ''patterns''" by code_simp
  then have "''SPAM'' \<notin> set (an_threats (analyze_content (\<lambda>p t. [PStr t, PStr t]) ds compiled ''buy now'' 0))"
    using environment_detectors_never_match [OF d(1,2) map_of_SomeD [OF d(3)] d(4)] by blast
  with d show ?thesis by (auto simp: dhas_def)
qed

end
