(* ===== verification/Spec2Isabelle.thy ===== *)
theory Spec2Isabelle
  imports Evaluation Community Evidence_Card Safety Engine Identity Session_Store Telegram_Actions Telegram_Events
    Pipeline_Completion Cluster_Flag Legacy_Orchestrator Challenges Doctor Integrations Adapters
    Telegram_Service Telegram_Environment
begin

text \<open>
  A verification library of the TruePresence service (\<open>src/truepresence\<close>), which judges whether a session is
  driven by a human, and of the ensemble runner that is kept with it (\<open>src/ese\<close>), which sends a scope through a
  configured order of model-backed roles.

  \<^bold>\<open>Parts and their interplay.\<close> Three paths lead to a judgement. A client of the SDK sends derived features: the
  privacy guard scans the raw payload, the detectors turn the typed features into signals, the scorer
  folds the signals into a response, and a minimized artifact is stored. A surface that hands an event to the decision engine gets
  an evidence packet built, an argument graph and a tier, the reports of the orchestrator's roles unless the
  tier is zero, and one decision that is filed. A Telegram update passes through the adapter, which keeps
  bounded windows of behaviour, analyses content, consults the safety policy, and later turns the
  decision into an action; the protection service carries it out as far as the mode of the tenant allows, and
  files manual reviews, on which administrators decide. The runner is separate: configuration, order and batches of roles, reports, a gate,
  a state file, resumption, and the report of a run.

  \<^bold>\<open>Theories and sources.\<close>
  \<^item> \<open>Prelude\<close>, \<open>Conversions\<close>, \<open>Json\<close>: Python values, dictionaries, results, and what the program uses of the standard
    library: conversions of untrusted values, \<open>json.dumps\<close> and \<open>json.loads\<close>.
  \<^item> \<open>Features\<close> (\<open>sdk/features.py\<close>, \<open>sdk/contracts.py\<close>), \<open>Privacy\<close> (\<open>sdk/privacy.py\<close>), \<open>Detectors\<close>
    (\<open>detectors/human_plausibility.py\<close>, \<open>typing_cadence.py\<close>, \<open>reading_time.py\<close>, \<open>agentic_control.py\<close>), \<open>Scoring\<close>
    (\<open>scoring\<close>), \<open>Suite_Risk\<close> (bounds of the detectors and the scorer together), \<open>Artifacts\<close>
    (\<open>evidence/sdk_artifacts.py\<close>), \<open>Evaluation\<close> (\<open>sdk/evaluation.py\<close>): the SDK path.
  \<^item> \<open>Packet\<close> (\<open>evidence/packet.py\<close>, \<open>packet_builder.py\<close>), \<open>Decision\<close> (\<open>evidence/claims.py\<close>, \<open>argument_graph.py\<close>,
    \<open>decision/tier_router.py\<close>, \<open>synthesizer.py\<close>), \<open>Ensemble\<close> (\<open>ensemble/orchestrator.py\<close>), \<open>Engine\<close> (\<open>decision/engine.py\<close>,
    \<open>artifacts/artifact_store.py\<close>): the decision path, over any orchestrator.
  \<^item> \<open>Identity\<close> (\<open>memory/identity_graph.py\<close>), \<open>Session_Store\<close> (\<open>memory/session_timeline.py\<close>, \<open>runtime/distributed.py\<close>),
    \<open>Core_Roles\<close> (\<open>core/roles/base.py\<close>, \<open>agents/council.py\<close>, \<open>core/synthesis/synth.py\<close>), \<open>Orchestrator\<close>
    (\<open>core/orchestrator_v3.py\<close>): the orchestrator of production; \<open>Cluster_Flag\<close>: the engine over it;
    \<open>Legacy_Orchestrator\<close> (\<open>core/orchestrator.py\<close>, \<open>adaptive/weighting.py\<close>); \<open>Challenges\<close> (\<open>challenges\<close>).
  \<^item> \<open>Community\<close>, \<open>Evidence_Card\<close> (\<open>detectors/telegram_community.py\<close>, \<open>surfaces/telegram/community.py\<close>), \<open>Safety\<close>
    (\<open>safety\<close>), \<open>Telegram_Content\<close>, \<open>Telegram_Windows\<close>, \<open>Telegram_Events\<close>, \<open>Telegram_Actions\<close>
    (\<open>adapters/telegram.py\<close>, \<open>telegram_models.py\<close>): the Telegram surface; \<open>Telegram_Bot\<close>, with \<open>Telegram_Reviews\<close>,
    \<open>Telegram_Service\<close> and \<open>Telegram_Environment\<close> over it (\<open>adapters/telegram_bot.py\<close>): the service that acts.
  \<^item> \<open>Ese_Config\<close> (\<open>ese/config.py\<close>), \<open>Pipeline_Setup\<close>, \<open>Pipeline_Reports\<close>, \<open>Pipeline_Run\<close>, \<open>Pipeline_Pool\<close>,
    \<open>Pipeline_Outcome\<close>, \<open>Pipeline_Completion\<close> (\<open>ese/pipeline.py\<close>) over \<open>Run_Files\<close> (paths and files);
    \<open>Ese_Feedback\<close>, \<open>Evidence_State\<close> (\<open>ese/feedback.py\<close>, \<open>evidence_state.py\<close>); \<open>Run_Report\<close> and \<open>Run_Summary\<close> (\<open>ese/reports.py\<close>):
    the runner.
  \<^item> \<open>Extensions\<close> (\<open>ese/extension_contracts.py\<close>, \<open>config_packs.py\<close>, \<open>report_exporters.py\<close>, \<open>application_bundles.py\<close>, and
    the discovery of \<open>policy_checks.py\<close>, \<open>artifact_views.py\<close>, \<open>integrations.py\<close>), \<open>Doctor\<close> (\<open>ese/doctor.py\<close>,
    \<open>policy_checks.py\<close>, \<open>provider_runtime.py\<close>), \<open>Integrations\<close> (\<open>ese/artifact_views.py\<close>, \<open>integrations.py\<close>), \<open>Adapters\<close>
    (\<open>ese/adapters.py\<close>): what surrounds a run of the runner.

  \<^bold>\<open>State and operations.\<close> A Python object is a record and a method a definition that takes and returns it; a
  dictionary is an association list in insertion order; an exception is the left side of a sum. A method that fails
  half way returns the state it leaves next to its error (\<open>add_session\<close>, \<open>evaluate_internal\<close>, \<open>run_loop\<close>). The thread pool
  of the runner is a step relation (\<open>pool_step\<close>), the states of the orchestrator and of the protection service
  are inductive sets (\<open>v3_reachable\<close>, \<open>served\<close>). What the
  orchestrator writes into the packet it is handed is part of its answer (\<open>packet_update\<close>).

  \<^bold>\<open>What the lemmas show.\<close>
  \<^item> SDK: what the guard accepts has nothing denied at any depth; stripping and the recursive scan agree; likelihoods are in range,
    do not (in exact arithmetic) depend on the order of signals, and grow with evidence; the suite never recommends to allow; one artifact per
    evaluation, free of raw content.
  \<^item> Decisions: the precedence of the conditions, the conditions under which a session is allowed, the isolation of
    tier zero from the ensemble, and what is filed.
  \<^item> Orchestrator: clusters are the classes of an undirected graph, the risk search ends, all scores of a
    reachable state are in the unit interval as long as the signals are, the council repeats the ensemble, and the engine's cluster flag is lost.
  \<^item> Challenges and weights: a challenge is answered once and in time; adaptive weights sum to one but have no lower bound.
  \<^item> Telegram: core detectors stay active, windows agree with the history, content does not reach the behavioural memory, escalations are
    complete and mandatory from their thresholds on, actions follow decisions; an observing tenant is only notified, and an
    administrator's action is carried out only where it was decided.
  \<^item> Runner: a valid configuration runs every role once and validates again; reviews are isolated; reports round-trip and keep severe
    findings; the order in which a pool ends its tasks is immaterial; batches and single steps give the same run; a
    completed run passed its gate and is recorded; resumption stays inside; a release is ready only after a clean run.
  \<^item> Extensions and adapters: discovery keeps the first definition of a key in key order; what is listed can be opened;
    the doctor passes only separated roles and fails closed on its policy checks; retries are bounded, and decided by the
    first answer that may not be retried; a dry run passes the gate.

  \<^bold>\<open>Interfaces.\<close> The laws a component promises are locales, interpreted on the models: \<open>risk_detector\<close> and
  \<open>section_detector\<close> (Detectors, Community), \<open>artifact_store\<close> (Artifacts), \<open>event_log\<close> and \<open>session_table\<close> (Session\<open>_\<close>Store),
  and \<open>extension_surface\<close> (Extensions), with the four surfaces of functions, the bundles and the packs as its instances.

  \<^bold>\<open>Numbers, bounds and fuel.\<close> Floating-point numbers are rationals: rounding, infinities and not-a-number are outside the
  model, so thresholds are exact, sums do not depend on their order, and a claim about scores holds up to rounding. Characters are those below code 256. Case folding and blanks follow the ASCII
  and Latin-1 rules. The JSON parser takes fuel of twice the length of the text and two more, which is enough for any
  text, as every second step consumes a character. All other recursions are structural or have a
  termination proof. Messages that quote values are abbreviated to their fixed part.

  \<^bold>\<open>Arguments of the model.\<close> What is not under the sources or not determined by them is an argument: the printed form of a value
  (\<open>repr\<close>), identifiers and clocks, keyed hashes and digests, the norm, square root and hyperbolic tangent of the array
  library, matching of regular expressions, validation and coercion by the schema library, the adapters of the runner
  and their health, the YAML printer, modification times, the warning count of a database, the installed entry points and what
  loading them yields, and the outcome of each exchange with a model provider or with the Bot API.

  \<^bold>\<open>Not modelled.\<close> The servers (\<open>api\<close>), authentication, database stores and the Redis branches of the runtime are calls of
  frameworks, drivers and cryptographic libraries. Of the Telegram bot, its status and option
  pages, the storing of tokens and the tables of groups are left out; a request is handled at one go, with the database
  up or down throughout. Of \<open>core/orchestrator_v3.py\<close>, the evaluation without a packet and the
  reasoning trace are left out; of \<open>challenges/profile.py\<close>, reading its file; of \<open>ese/reports.py\<close>, the text, SARIF and JUnit renderings and the
  list of recent runs. The command line, dashboard, wizards, starter and pack kits of the
  runner, the manifests of bundles, the start of a local model server, the red team and scenario tooling, the OneDrive utility and the client SDKs are user interface, file templates, test
  tooling or network clients. There are no symbolic links in the file system of the model, and files do not change but by the run.

  \<^bold>\<open>What modelling showed.\<close> A section of the wrong container type escapes the guard; the ban cooldown reads a key that is never
  written; a custom detector may replace a core one; an event overrides the server's automation flag; the orchestrator overwrites the engine's
  cluster flag; the first orchestrator allows everyone; a run in a relative directory with a name of its own cannot be reported or
  resumed; signals and adaptive weights are not bounded; a run stopped at the gate can be resumed past it;
  custom detectors configured in the environment get no patterns; extensions with a capital in their key are listed but cannot be used; a negative waiting time of a provider ends the retries. The manifest lists these with their lines.
\<close>

end
